(* ===== verification/Prelude.thy ===== *)
theory Prelude
  imports Main "HOL-Library.Word" "HOL-Library.List_Lexorder" "HOL-Library.Char_ord"
    "HOL-Library.Multiset"
begin

text \<open>Shared vocabulary of the development: ordered association lists standing for
\<open>std::map\<close>, the C++ integer conversions that the code uses, decimal rendering and
parsing of integers, and the lemmas every component relies on.\<close>

unbundle bit_operations_syntax

named_theorems om_simps \<open>facts about ordered maps\<close>
named_theorems model_defs \<open>small definitions the component proofs unfold\<close>

section \<open>C++ integers\<close>

text \<open>Signed 64-bit values are \<open>int\<close>: an overflow there is undefined in C++, so the model
computes the exact value. A narrowing \<open>static_cast<int32_t>\<close> is modular.\<close>

definition INT32_MAX :: int where "INT32_MAX = 2147483647"
definition INT32_MIN :: int where "INT32_MIN = - 2147483648"
definition INT64_MAX :: int where "INT64_MAX = 9223372036854775807"
definition INT64_MIN :: int where "INT64_MIN = - 9223372036854775808"

definition to_int32 :: "int \<Rightarrow> int" where
  "to_int32 i = (i + 2147483648) mod 4294967296 - 2147483648"

text \<open>C++ integer division truncates towards zero.\<close>

definition cdiv :: "int \<Rightarrow> int \<Rightarrow> int" where
  "cdiv a b = sgn a * sgn b * (\<bar>a\<bar> div \<bar>b\<bar>)"

definition cmod :: "int \<Rightarrow> int \<Rightarrow> int" where
  "cmod a b = a - b * cdiv a b"

lemma cdiv_nonneg [simp]: "0 \<le> a \<Longrightarrow> 0 < b \<Longrightarrow> cdiv a b = a div b"
  by (cases "a = 0") (auto simp: cdiv_def)

lemma cmod_nonneg [simp]: "0 \<le> a \<Longrightarrow> 0 < b \<Longrightarrow> cmod a b = a mod b"
  by (simp add: cmod_def minus_mult_div_eq_mod)

lemma to_int32_id [simp]: "INT32_MIN \<le> i \<Longrightarrow> i \<le> INT32_MAX \<Longrightarrow> to_int32 i = i"
  by (simp add: to_int32_def INT32_MIN_def INT32_MAX_def)

lemma to_int32_range: "INT32_MIN \<le> to_int32 i \<and> to_int32 i \<le> INT32_MAX"
proof -
  have "0 \<le> (i + 2147483648) mod 4294967296" "(i + 2147483648) mod 4294967296 < 4294967296"
    by simp_all
  then show ?thesis by (simp add: to_int32_def INT32_MIN_def INT32_MAX_def)
qed

section \<open>Ordered maps\<close>

text \<open>A \<open>std::map\<close> is an association list with strictly increasing keys; iteration is
iteration over the list. The operations are those of the container: lookup,
\<open>m[k] = v\<close> and \<open>erase(k)\<close>.\<close>

type_synonym ('k, 'v) omap = "('k \<times> 'v) list"

abbreviation om_find :: "('k, 'v) omap \<Rightarrow> 'k \<Rightarrow> 'v option" where
  "om_find \<equiv> map_of"

fun om_insert :: "'k::linorder \<Rightarrow> 'v \<Rightarrow> ('k, 'v) omap \<Rightarrow> ('k, 'v) omap" where
  "om_insert k v [] = [(k, v)]"
| "om_insert k v ((k', v') # m) =
     (if k < k' then (k, v) # (k', v') # m
      else if k = k' then (k, v) # m
      else (k', v') # om_insert k v m)"

definition om_erase :: "'k \<Rightarrow> ('k, 'v) omap \<Rightarrow> ('k, 'v) omap" where
  "om_erase k m = filter (\<lambda>p. fst p \<noteq> k) m"

definition om_wf :: "('k::linorder, 'v) omap \<Rightarrow> bool" where
  "om_wf m = sorted_wrt (<) (map fst m)"

lemma om_find_insert [om_simps, simp]:
  "om_find (om_insert k v m) k' = (if k' = k then Some v else om_find m k')"
  by (induction m) auto

lemma om_find_erase [om_simps, simp]:
  "om_find (om_erase k m) k' = (if k' = k then None else om_find m k')"
  by (induction m) (auto simp: om_erase_def)

lemma om_insert_keys [om_simps, simp]: "fst ` set (om_insert k v m) = insert k (fst ` set m)"
  by (induction k v m rule: om_insert.induct) (simp_all add: insert_commute)

lemma om_wf_Nil [simp]: "om_wf []"
  by (simp add: om_wf_def)

lemma om_wf_Cons: "om_wf ((k, v) # m) \<longleftrightarrow> (\<forall>k' \<in> fst ` set m. k < k') \<and> om_wf m"
  by (simp add: om_wf_def)

lemma om_insert_wf [om_simps, simp]: "om_wf m \<Longrightarrow> om_wf (om_insert k v m)"
proof (induction m)
  case (Cons p m)
  obtain k' v' where p: "p = (k', v')" by force
  have "k' < k''" if "k'' \<in> fst ` set m" for k''
    using Cons.prems that by (auto simp: p om_wf_Cons)
  then show ?case
    using Cons unfolding p by (force simp: om_wf_Cons)
qed (simp add: om_wf_Cons)

lemma om_erase_wf [om_simps, simp]: "om_wf m \<Longrightarrow> om_wf (om_erase k m)"
  by (auto simp: om_wf_def om_erase_def sorted_wrt_map intro: sorted_wrt_filter)

lemma om_wf_distinct: "om_wf m \<Longrightarrow> distinct (map fst m)"
  by (auto simp: om_wf_def strict_sorted_iff)

lemma om_find_mem: "om_wf m \<Longrightarrow> om_find m k = Some v \<longleftrightarrow> (k, v) \<in> set m"
  by (simp add: om_wf_distinct)

lemma om_erase_set: "set (om_erase k m) = {p \<in> set m. fst p \<noteq> k}"
  by (auto simp: om_erase_def)

lemma om_insert_set: "om_wf m \<Longrightarrow> set (om_insert k v m) = insert (k, v) {p \<in> set m. fst p \<noteq> k}"
proof (rule set_eqI)
  fix p assume wf: "om_wf m"
  have "p \<in> set (om_insert k v m) \<longleftrightarrow> om_find (om_insert k v m) (fst p) = Some (snd p)"
    using om_find_mem [of "om_insert k v m" "fst p" "snd p"] wf by simp
  also have "\<dots> \<longleftrightarrow> p \<in> insert (k, v) {p \<in> set m. fst p \<noteq> k}"
    using om_find_mem [of m "fst p" "snd p"] wf by (cases p) auto
  finally show "p \<in> set (om_insert k v m) \<longleftrightarrow> p \<in> insert (k, v) {p \<in> set m. fst p \<noteq> k}" .
qed

lemma om_insert_subset: "set (om_insert k v m) \<subseteq> insert (k, v) (set m)"
  by (induction m) (auto split: if_splits)

text \<open>Two well-formed maps with the same lookups are the same list.\<close>

lemma om_ext: "om_wf m \<Longrightarrow> om_wf n \<Longrightarrow> (\<And>k. om_find m k = om_find n k) \<Longrightarrow> m = n"
proof -
  assume wf: "om_wf m" "om_wf n" and eq: "\<And>k. om_find m k = om_find n k"
  have sets: "set m = set n"
    using wf eq by (auto simp flip: om_find_mem)
  have "sorted (map fst m)" "sorted (map fst n)"
    using wf by (auto simp: om_wf_def strict_sorted_iff)
  moreover have "inj_on fst (set m \<union> set n)"
    using wf by (auto simp: sets inj_on_def simp flip: om_find_mem)
  moreover have "distinct (map fst m)" "distinct (map fst n)"
    using wf by (auto dest: om_wf_distinct)
  ultimately show "m = n"
    using sets by (intro map_sorted_distinct_set_unique [of fst m n]) auto
qed

text \<open>A \<open>std::set\<close> is a strictly increasing list.\<close>

definition os_insert :: "'a::linorder \<Rightarrow> 'a list \<Rightarrow> 'a list" where
  "os_insert x xs = (if x \<in> set xs then xs else insort x xs)"

definition os_erase :: "'a \<Rightarrow> 'a list \<Rightarrow> 'a list" where
  "os_erase x xs = filter (\<lambda>y. y \<noteq> x) xs"

definition os_wf :: "'a::linorder list \<Rightarrow> bool" where
  "os_wf xs = sorted_wrt (<) xs"

lemma os_insert_set [simp]: "set (os_insert x xs) = insert x (set xs)"
  by (auto simp: os_insert_def set_insort_key)

lemma os_erase_set [simp]: "set (os_erase x xs) = set xs - {x}"
  by (auto simp: os_erase_def)

lemma os_insert_wf [simp]: "os_wf xs \<Longrightarrow> os_wf (os_insert x xs)"
  by (auto simp: os_wf_def os_insert_def strict_sorted_iff sorted_insort distinct_insort)

lemma os_erase_wf [simp]: "os_wf xs \<Longrightarrow> os_wf (os_erase x xs)"
  by (auto simp: os_wf_def os_erase_def intro: sorted_wrt_filter)

section \<open>The container interface\<close>

text \<open>What the clients of \<open>std::map\<close> rely on: a lookup after an update or an erase, and
that both keep the container's invariant.\<close>

locale std_map =
  fixes find :: "'m \<Rightarrow> 'k \<Rightarrow> 'v option"
    and put :: "'k \<Rightarrow> 'v \<Rightarrow> 'm \<Rightarrow> 'm"
    and del :: "'k \<Rightarrow> 'm \<Rightarrow> 'm"
    and inv :: "'m \<Rightarrow> bool"
  assumes find_put: "find (put k v m) k' = (if k' = k then Some v else find m k')"
    and find_del: "find (del k m) k' = (if k' = k then None else find m k')"
    and inv_put: "inv m \<Longrightarrow> inv (put k v m)"
    and inv_del: "inv m \<Longrightarrow> inv (del k m)"
begin

lemma put_same: "find (put k v m) k = Some v"
  by (simp add: find_put)

lemma put_other: "k' \<noteq> k \<Longrightarrow> find (put k v m) k' = find m k'"
  by (simp add: find_put)

text \<open>\<open>GetOrCreate\<close>: the value looked up, or a fresh one that is stored first.\<close>

lemma get_or_create_find:
  assumes "(case find m k of Some v \<Rightarrow> (v, m) | None \<Rightarrow> (d, put k d m)) = (v, m')"
  shows "find m' k = Some v \<and> (\<forall>k'. k' \<noteq> k \<longrightarrow> find m' k' = find m k')"
  using assms by (auto simp: find_put split: option.splits)

lemma get_or_create_inv:
  assumes "(case find m k of Some v \<Rightarrow> (v, m) | None \<Rightarrow> (d, put k d m)) = (v, m')" and "inv m"
  shows "inv m'"
  using assms by (auto intro: inv_put split: option.splits)

lemma find_fold_del: "find (fold del ks m) k = (if k \<in> set ks then None else find m k)"
  by (induction ks arbitrary: m) (auto simp: find_del)

lemma inv_fold_del: "inv m \<Longrightarrow> inv (fold del ks m)"
  by (induction ks arbitrary: m) (auto intro: inv_del)

lemma find_fold_put:
  "find (fold (\<lambda>k. put k (f k)) ks m) k = (if k \<in> set ks then Some (f k) else find m k)"
  by (induction ks arbitrary: m) (auto simp: find_put)

end

interpretation om: std_map om_find om_insert om_erase om_wf
  by unfold_locales simp_all

section \<open>Strings\<close>

definition digit_char :: "nat \<Rightarrow> char" where
  "digit_char d = char_of (48 + d)"

definition is_digit :: "char \<Rightarrow> bool" where
  "is_digit c \<longleftrightarrow> 48 \<le> (of_char c :: nat) \<and> (of_char c :: nat) \<le> 57"

definition digit_val :: "char \<Rightarrow> nat" where
  "digit_val c = of_char c - 48"

text \<open>\<open>std::to_string\<close> on the integer types.\<close>

fun nat_to_string :: "nat \<Rightarrow> string" where
  "nat_to_string n =
     (if n < 10 then [digit_char n] else nat_to_string (n div 10) @ [digit_char (n mod 10)])"

declare nat_to_string.simps [simp del]

definition int_to_string :: "int \<Rightarrow> string" where
  "int_to_string i = (if i < 0 then CHR ''-'' # nat_to_string (nat (- i)) else nat_to_string (nat i))"

definition digits_val :: "string \<Rightarrow> nat" where
  "digits_val s = foldl (\<lambda>a c. a * 10 + digit_val c) 0 s"

text \<open>\<open>strtol\<close> in base ten on the C string \<open>s.c_str()\<close>: leading white space, an optional sign,
digits. The result is the value before clamping and the unread rest; \<open>None\<close> when there is
no digit (then \<open>pEnd\<close> is the start of the string).\<close>

definition is_space :: "char \<Rightarrow> bool" where
  "is_space c \<longleftrightarrow> of_char c \<in> {32, 9, 10, 11, 12, 13 :: nat}"

definition c_str :: "string \<Rightarrow> string" where
  "c_str s = takeWhile (\<lambda>c. of_char c \<noteq> (0 :: nat)) s"

definition strtol :: "string \<Rightarrow> (int \<times> string) option" where
  "strtol s =
     (let t = dropWhile is_space (c_str s);
          neg = (t \<noteq> [] \<and> hd t = CHR ''-'');
          u = (if t \<noteq> [] \<and> (hd t = CHR ''-'' \<or> hd t = CHR ''+'') then tl t else t);
          ds = takeWhile is_digit u
      in if ds = [] then None
         else Some (if neg then - int (digits_val ds) else int (digits_val ds), dropWhile is_digit u))"

definition out_of_range64 :: "int \<Rightarrow> bool" where
  "out_of_range64 v \<longleftrightarrow> v < INT64_MIN \<or> INT64_MAX < v"

text \<open>\<open>s.find(t) != npos\<close> and \<open>starts with\<close>.\<close>

fun starts_with :: "string \<Rightarrow> string \<Rightarrow> bool" where
  "starts_with s [] = True"
| "starts_with [] (c # t) = False"
| "starts_with (d # s) (c # t) = (d = c \<and> starts_with s t)"

fun contains_str :: "string \<Rightarrow> string \<Rightarrow> bool" where
  "contains_str [] t = (t = [])"
| "contains_str (c # s) t = (starts_with (c # s) t \<or> contains_str s t)"

lemma of_char_digit [simp]: "d < 10 \<Longrightarrow> of_char (digit_char d) = (48 + d :: nat)"
  by (simp add: digit_char_def)

lemma digit_char_props [simp]:
  "d < 10 \<Longrightarrow> is_digit (digit_char d)" "d < 10 \<Longrightarrow> digit_val (digit_char d) = d"
  by (simp_all add: is_digit_def digit_val_def)

lemma nat_to_string_digits: "\<forall>c \<in> set (nat_to_string n). is_digit c"
  by (induction n rule: nat_to_string.induct) (subst nat_to_string.simps, auto)

lemma nat_to_string_nonempty [simp]: "nat_to_string n \<noteq> []"
  by (subst nat_to_string.simps) simp

lemma digits_val_snoc [simp]: "digits_val (s @ [c]) = digits_val s * 10 + digit_val c"
  by (simp add: digits_val_def)

lemma digits_val_nat_to_string [simp]: "digits_val (nat_to_string n) = n"
proof (induction n rule: nat_to_string.induct)
  case (1 n)
  show ?case
  proof (cases "n < 10")
    case True
    then show ?thesis
      by (subst nat_to_string.simps) (simp add: digits_val_def)
  next
    case False
    then show ?thesis
      using 1 by (subst nat_to_string.simps) simp
  qed
qed

lemma is_digit_char: "is_digit c \<Longrightarrow> \<not> is_space c \<and> of_char c \<noteq> (0::nat) \<and> c \<noteq> CHR ''-'' \<and> c \<noteq> CHR ''+''"
  by (auto simp: is_digit_def is_space_def)

lemma takeWhile_digits: "\<forall>c \<in> set s. is_digit c \<Longrightarrow> takeWhile is_digit s = s \<and> dropWhile is_digit s = []"
  by simp

lemma nat_to_string_hd: "is_digit (hd (nat_to_string n))"
  using nat_to_string_digits hd_in_set nat_to_string_nonempty by blast

text \<open>Reading back what \<open>std::to_string\<close> prints.\<close>

lemma c_str_clean: "(\<And>c. c \<in> set s \<Longrightarrow> of_char c \<noteq> (0::nat)) \<Longrightarrow> c_str s = s"
  unfolding c_str_def by (rule takeWhile_eq_all_conv [THEN iffD2]) blast

lemma strtol_digits:
  assumes ds: "ds \<noteq> []" "\<And>c. c \<in> set ds \<Longrightarrow> is_digit c"
  shows "strtol ds = Some (int (digits_val ds), [])"
    and "strtol (CHR ''-'' # ds) = Some (- int (digits_val ds), [])"
proof -
  obtain c cs where cs: "ds = c # cs" using ds by (cases ds) auto
  have c: "\<not> is_space c" "c \<noteq> CHR ''-''" "c \<noteq> CHR ''+''"
    using ds is_digit_char [of c] by (auto simp: cs)
  have clean: "c_str ds = ds" "c_str (CHR ''-'' # ds) = CHR ''-'' # ds"
    using ds is_digit_char by (auto intro!: c_str_clean)
  have tw: "takeWhile is_digit ds = ds" "dropWhile is_digit ds = []"
    using ds by auto
  show "strtol ds = Some (int (digits_val ds), [])"
    unfolding strtol_def clean using c tw by (simp add: cs)
  show "strtol (CHR ''-'' # ds) = Some (- int (digits_val ds), [])"
    unfolding strtol_def clean using ds by (simp add: is_space_def Let_def tw)
qed

lemma strtol_nat_to_string:
  "strtol (nat_to_string n) = Some (int n, [])"
  "strtol (CHR ''-'' # nat_to_string n) = Some (- int n, [])"
  using strtol_digits [of "nat_to_string n"] nat_to_string_digits [of n] by simp_all

lemma strtol_int_to_string: "strtol (int_to_string i) = Some (i, [])"
  by (simp only: int_to_string_def strtol_nat_to_string split: if_splits) simp

lemma int_to_string_inject [simp]: "int_to_string i = int_to_string j \<longleftrightarrow> i = j"
  by (metis Pair_inject option.inject strtol_int_to_string)

lemma starts_with_append: "starts_with (t @ s) t"
  by (induction t) auto

lemma starts_with_iff: "starts_with s t \<longleftrightarrow> (\<exists>u. s = t @ u)"
  by (induction s t rule: starts_with.induct) auto

lemma contains_str_iff: "contains_str s t \<longleftrightarrow> (\<exists>u v. s = u @ t @ v)"
proof (induction s)
  case (Cons c s)
  have "(\<exists>u v. c # s = u @ t @ v) \<longleftrightarrow> (\<exists>v. c # s = t @ v) \<or> (\<exists>u v. s = u @ t @ v)"
    (is "?l \<longleftrightarrow> ?r")
  proof
    assume ?l
    then obtain u v where e: "c # s = u @ t @ v" by blast
    then show ?r by (cases u) auto
  next
    assume ?r
    then show ?l
    proof
      assume "\<exists>v. c # s = t @ v"
      then obtain v where "c # s = [] @ t @ v" by auto
      then show ?l by blast
    next
      assume "\<exists>u v. s = u @ t @ v"
      then obtain u v where "s = u @ t @ v" by blast
      then have "c # s = (c # u) @ t @ v" by simp
      then show ?l by blast
    qed
  qed
  then show ?case
    using Cons by (simp add: starts_with_iff)
qed simp

end
