(* ===== verification/ParcelModel.thy ===== *)
theory ParcelModel
  imports Prelude
begin

text \<open>The IPC \<open>Parcel\<close> of the platform is not part of the repository: it is a record of
operations passed to every \<open>Marshalling\<close> and \<open>Unmarshalling\<close>. A write answers whether it
succeeded; a read always answers a value. \<open>parcel_fifo\<close> is the documented contract of a
parcel: what was written is read back in the order of the writes.\<close>

datatype pitem =
  is_PStr: PStr (the_str: string)
| is_PI32: PI32 (the_i32: int)
| is_PI64: PI64 (the_i64: int)
| is_PU32: PU32 (the_u32: nat)

record 'p parcel_ops =
  pWriteString :: "string \<Rightarrow> 'p \<Rightarrow> bool \<times> 'p"
  pWriteInt32 :: "int \<Rightarrow> 'p \<Rightarrow> bool \<times> 'p"
  pWriteInt64 :: "int \<Rightarrow> 'p \<Rightarrow> bool \<times> 'p"
  pWriteUint32 :: "nat \<Rightarrow> 'p \<Rightarrow> bool \<times> 'p"
  pReadString :: "'p \<Rightarrow> string \<times> 'p"
  pReadInt32 :: "'p \<Rightarrow> int \<times> 'p"
  pReadInt64 :: "'p \<Rightarrow> int \<times> 'p"
  pReadUint32 :: "'p \<Rightarrow> nat \<times> 'p"
  pTryReadUint32 :: "'p \<Rightarrow> nat option \<times> 'p"
  pTryReadInt32 :: "'p \<Rightarrow> int option \<times> 'p"

fun pwrite :: "'p parcel_ops \<Rightarrow> pitem \<Rightarrow> 'p \<Rightarrow> bool \<times> 'p" where
  "pwrite P (PStr x) p = pWriteString P x p"
| "pwrite P (PI32 x) p = pWriteInt32 P x p"
| "pwrite P (PI64 x) p = pWriteInt64 P x p"
| "pwrite P (PU32 x) p = pWriteUint32 P x p"

text \<open>A chain \<open>parcel.WriteA(..) && parcel.WriteB(..) && ..\<close>: the first failing write ends it.\<close>

fun wseq :: "'p parcel_ops \<Rightarrow> pitem list \<Rightarrow> 'p \<Rightarrow> bool \<times> 'p" where
  "wseq P [] p = (True, p)"
| "wseq P (i # is) p = (case pwrite P i p of (True, p') \<Rightarrow> wseq P is p' | (False, p') \<Rightarrow> (False, p'))"

definition parcel_fifo :: "'p parcel_ops \<Rightarrow> ('p \<Rightarrow> pitem list) \<Rightarrow> bool" where
  "parcel_fifo P content \<longleftrightarrow>
     (\<forall>i p p'. pwrite P i p = (True, p') \<longrightarrow> content p' = content p @ [i]) \<and>
     (\<forall>x r p. content p = PStr x # r \<longrightarrow> fst (pReadString P p) = x \<and> content (snd (pReadString P p)) = r) \<and>
     (\<forall>x r p. content p = PI32 x # r \<longrightarrow> fst (pReadInt32 P p) = x \<and> content (snd (pReadInt32 P p)) = r) \<and>
     (\<forall>x r p. content p = PI64 x # r \<longrightarrow> fst (pReadInt64 P p) = x \<and> content (snd (pReadInt64 P p)) = r) \<and>
     (\<forall>x r p. content p = PU32 x # r \<longrightarrow> fst (pReadUint32 P p) = x \<and> content (snd (pReadUint32 P p)) = r) \<and>
     (\<forall>x r p. content p = PU32 x # r \<longrightarrow>
        fst (pTryReadUint32 P p) = Some x \<and> content (snd (pTryReadUint32 P p)) = r) \<and>
     (\<forall>x r p. content p = PI32 x # r \<longrightarrow>
        fst (pTryReadInt32 P p) = Some x \<and> content (snd (pTryReadInt32 P p)) = r)"

lemma parcel_fifo_wseq:
  assumes "parcel_fifo P content" "wseq P is p = (True, p')"
  shows "content p' = content p @ is"
  using assms(2)
proof (induction "is" arbitrary: p)
  case (Cons i "is")
  then obtain q where q: "pwrite P i p = (True, q)" "wseq P is q = (True, p')"
    by (auto split: prod.splits bool.splits)
  then have "content q = content p @ [i]"
    using assms(1) by (auto simp: parcel_fifo_def)
  then show ?case
    using Cons.IH q by simp
qed simp

lemma parcel_fifo_read:
  assumes F: "parcel_fifo P content"
  shows "content p = PStr s # r \<Longrightarrow> \<exists>q. pReadString P p = (s, q) \<and> content q = r"
    and "content p = PI32 i # r \<Longrightarrow> \<exists>q. pReadInt32 P p = (i, q) \<and> content q = r"
    and "content p = PI64 i # r \<Longrightarrow> \<exists>q. pReadInt64 P p = (i, q) \<and> content q = r"
    and "content p = PU32 n # r \<Longrightarrow> \<exists>q. pReadUint32 P p = (n, q) \<and> content q = r"
proof -
  have "fst (pReadString P p) = s \<and> content (snd (pReadString P p)) = r" if "content p = PStr s # r"
    using F that unfolding parcel_fifo_def by blast
  then show "\<exists>q. pReadString P p = (s, q) \<and> content q = r" if "content p = PStr s # r"
    using that by (cases "pReadString P p") simp
  have "fst (pReadInt32 P p) = i \<and> content (snd (pReadInt32 P p)) = r" if "content p = PI32 i # r"
    using F that unfolding parcel_fifo_def by blast
  then show "\<exists>q. pReadInt32 P p = (i, q) \<and> content q = r" if "content p = PI32 i # r"
    using that by (cases "pReadInt32 P p") simp
  have "fst (pReadInt64 P p) = i \<and> content (snd (pReadInt64 P p)) = r" if "content p = PI64 i # r"
    using F that unfolding parcel_fifo_def by blast
  then show "\<exists>q. pReadInt64 P p = (i, q) \<and> content q = r" if "content p = PI64 i # r"
    using that by (cases "pReadInt64 P p") simp
  have "fst (pReadUint32 P p) = n \<and> content (snd (pReadUint32 P p)) = r" if "content p = PU32 n # r"
    using F that unfolding parcel_fifo_def by blast
  then show "\<exists>q. pReadUint32 P p = (n, q) \<and> content q = r" if "content p = PU32 n # r"
    using that by (cases "pReadUint32 P p") simp
qed

lemma parcel_fifo_try:
  assumes F: "parcel_fifo P content"
  shows "content p = PU32 n # r \<Longrightarrow> \<exists>q. pTryReadUint32 P p = (Some n, q) \<and> content q = r"
    and "content p = PI32 i # r \<Longrightarrow> \<exists>q. pTryReadInt32 P p = (Some i, q) \<and> content q = r"
proof -
  have "fst (pTryReadUint32 P p) = Some n \<and> content (snd (pTryReadUint32 P p)) = r" if "content p = PU32 n # r"
    using F that unfolding parcel_fifo_def by blast
  then show "\<exists>q. pTryReadUint32 P p = (Some n, q) \<and> content q = r" if "content p = PU32 n # r"
    using that by (cases "pTryReadUint32 P p") simp
  have "fst (pTryReadInt32 P p) = Some i \<and> content (snd (pTryReadInt32 P p)) = r" if "content p = PI32 i # r"
    using F that unfolding parcel_fifo_def by blast
  then show "\<exists>q. pTryReadInt32 P p = (Some i, q) \<and> content q = r" if "content p = PI32 i # r"
    using that by (cases "pTryReadInt32 P p") simp
qed

text \<open>A parcel with room for every write.\<close>

definition parcel_total :: "'p parcel_ops \<Rightarrow> bool" where
  "parcel_total P \<longleftrightarrow> (\<forall>i p. fst (pwrite P i p))"

lemma parcel_total_wseq: "parcel_total P \<Longrightarrow> fst (wseq P is p)"
proof (induction "is" arbitrary: p)
  case (Cons i "is")
  then obtain q where "pwrite P i p = (True, q)"
    by (metis parcel_total_def prod.collapse)
  then show ?case using Cons by simp
qed simp

text \<open>A concrete parcel for the witnesses: the list of the values not yet read.\<close>

definition list_parcel :: "pitem list parcel_ops" where
  "list_parcel = \<lparr>
     pWriteString = (\<lambda>x p. (True, p @ [PStr x])),
     pWriteInt32 = (\<lambda>x p. (True, p @ [PI32 x])),
     pWriteInt64 = (\<lambda>x p. (True, p @ [PI64 x])),
     pWriteUint32 = (\<lambda>x p. (True, p @ [PU32 x])),
     pReadString = (\<lambda>p. case p of PStr x # r \<Rightarrow> (x, r) | _ \<Rightarrow> ([], p)),
     pReadInt32 = (\<lambda>p. case p of PI32 x # r \<Rightarrow> (x, r) | _ \<Rightarrow> (0, p)),
     pReadInt64 = (\<lambda>p. case p of PI64 x # r \<Rightarrow> (x, r) | _ \<Rightarrow> (0, p)),
     pReadUint32 = (\<lambda>p. case p of PU32 x # r \<Rightarrow> (x, r) | _ \<Rightarrow> (0, p)),
     pTryReadUint32 = (\<lambda>p. case p of PU32 x # r \<Rightarrow> (Some x, r) | _ \<Rightarrow> (None, p)),
     pTryReadInt32 = (\<lambda>p. case p of PI32 x # r \<Rightarrow> (Some x, r) | _ \<Rightarrow> (None, p)) \<rparr>"

lemma list_parcel_fifo: "parcel_fifo list_parcel (\<lambda>p. p)"
proof -
  have "\<forall>i p p'. pwrite list_parcel i p = (True, p') \<longrightarrow> p' = p @ [i]"
    by (rule allI, rename_tac i, case_tac i) (simp_all add: list_parcel_def)
  moreover have "fst (pReadString list_parcel (PStr x # r)) = x \<and> snd (pReadString list_parcel (PStr x # r)) = r"
    "fst (pReadInt32 list_parcel (PI32 i # r)) = i \<and> snd (pReadInt32 list_parcel (PI32 i # r)) = r"
    "fst (pReadInt64 list_parcel (PI64 i # r)) = i \<and> snd (pReadInt64 list_parcel (PI64 i # r)) = r"
    "fst (pReadUint32 list_parcel (PU32 n # r)) = n \<and> snd (pReadUint32 list_parcel (PU32 n # r)) = r"
    "fst (pTryReadUint32 list_parcel (PU32 n # r)) = Some n \<and> snd (pTryReadUint32 list_parcel (PU32 n # r)) = r"
    "fst (pTryReadInt32 list_parcel (PI32 i # r)) = Some i \<and> snd (pTryReadInt32 list_parcel (PI32 i # r)) = r"
    for x i n r
    by (simp_all add: list_parcel_def)
  ultimately show ?thesis
    unfolding parcel_fifo_def by metis
qed

lemma list_parcel_write: "pwrite list_parcel i p = (True, p @ [i])"
  by (cases i) (simp_all add: list_parcel_def)

lemma list_parcel_wseq: "wseq list_parcel is p = (True, p @ is)"
  by (induction "is" arbitrary: p) (simp_all add: list_parcel_write)

lemma list_parcel_total: "parcel_total list_parcel"
  by (simp add: parcel_total_def list_parcel_write)

end
