(* ===== verification/Event.thy ===== *)
theory Event
  imports ParcelModel
begin

text \<open>\<open>BundleActiveEvent\<close> (\<open>interfaces/innerkits\<close>): the event record, its constructors, its
marshalling and the classification of event identifiers.\<close>

section \<open>Event identifiers\<close>

abbreviation (input) ABILITY_FOREGROUND :: int where "ABILITY_FOREGROUND \<equiv> 2"
abbreviation (input) ABILITY_BACKGROUND :: int where "ABILITY_BACKGROUND \<equiv> 3"
abbreviation (input) ABILITY_STOP :: int where "ABILITY_STOP \<equiv> 4"
abbreviation (input) LONG_TIME_TASK_STARTTED :: int where "LONG_TIME_TASK_STARTTED \<equiv> 5"
abbreviation (input) LONG_TIME_TASK_ENDED :: int where "LONG_TIME_TASK_ENDED \<equiv> 6"
abbreviation (input) SYSTEM_INTERACTIVE :: int where "SYSTEM_INTERACTIVE \<equiv> 7"
abbreviation (input) USER_INTERACTIVE :: int where "USER_INTERACTIVE \<equiv> 8"
abbreviation (input) DEFAULT_EVENT_ID :: int where "DEFAULT_EVENT_ID \<equiv> 0"
abbreviation (input) DEFAULT_UID_ID :: int where "DEFAULT_UID_ID \<equiv> - 1"
abbreviation (input) END_OF_THE_DAY :: int where "END_OF_THE_DAY \<equiv> 9"
abbreviation (input) SHUTDOWN :: int where "SHUTDOWN \<equiv> 10"
abbreviation (input) STARTUP :: int where "STARTUP \<equiv> 11"
abbreviation (input) FLUSH :: int where "FLUSH \<equiv> 12"
abbreviation (input) SCREEN_INTERACTIVE :: int where "SCREEN_INTERACTIVE \<equiv> 13"
abbreviation (input) SCREEN_NON_INTERACTIVE :: int where "SCREEN_NON_INTERACTIVE \<equiv> 14"
abbreviation (input) FORM_IS_CLICKED :: int where "FORM_IS_CLICKED \<equiv> 15"
abbreviation (input) FORM_IS_REMOVED :: int where "FORM_IS_REMOVED \<equiv> 16"
abbreviation (input) KEYGUARD_SHOWN :: int where "KEYGUARD_SHOWN \<equiv> 17"
abbreviation (input) KEYGUARD_HIDDEN :: int where "KEYGUARD_HIDDEN \<equiv> 18"
abbreviation (input) NOTIFICATION_SEEN :: int where "NOTIFICATION_SEEN \<equiv> 19"
abbreviation (input) SYSTEM_LOCK :: int where "SYSTEM_LOCK \<equiv> 20"
abbreviation (input) SYSTEM_UNLOCK :: int where "SYSTEM_UNLOCK \<equiv> 21"
abbreviation (input) SYSTEM_SLEEP :: int where "SYSTEM_SLEEP \<equiv> 22"
abbreviation (input) SYSTEM_WAKEUP :: int where "SYSTEM_WAKEUP \<equiv> 23"

definition DEVICE_EVENT_PACKAGE_NAME :: string where
  "DEVICE_EVENT_PACKAGE_NAME = ''openharmony''"

section \<open>The record and its constructors\<close>

record event =
  ev_bundleName :: string
  ev_continuousTaskAbilityName :: string
  ev_abilityName :: string
  ev_abilityId :: string
  ev_moduleName :: string
  ev_formName :: string
  ev_formDimension :: int
  ev_formId :: int
  ev_timeStamp :: int
  ev_eventId :: int
  ev_uid :: int

definition Event_default :: event where
  "Event_default = \<lparr> ev_bundleName = '''', ev_continuousTaskAbilityName = '''', ev_abilityName = '''',
     ev_abilityId = '''', ev_moduleName = '''', ev_formName = '''', ev_formDimension = 0,
     ev_formId = 0, ev_timeStamp = 0, ev_eventId = DEFAULT_EVENT_ID, ev_uid = DEFAULT_UID_ID \<rparr>"

definition Event_copy :: "event \<Rightarrow> event" where
  "Event_copy orig = \<lparr> ev_bundleName = ev_bundleName orig,
     ev_continuousTaskAbilityName = ev_continuousTaskAbilityName orig,
     ev_abilityName = ev_abilityName orig, ev_abilityId = ev_abilityId orig,
     ev_moduleName = ev_moduleName orig, ev_formName = ev_formName orig,
     ev_formDimension = ev_formDimension orig, ev_formId = ev_formId orig,
     ev_timeStamp = ev_timeStamp orig, ev_eventId = ev_eventId orig, ev_uid = ev_uid orig \<rparr>"

definition Event_time :: "int \<Rightarrow> int \<Rightarrow> event" where
  "Event_time eventId timeStamp = \<lparr> ev_bundleName = '''', ev_continuousTaskAbilityName = '''',
     ev_abilityName = '''', ev_abilityId = '''', ev_moduleName = '''', ev_formName = '''',
     ev_formDimension = 0, ev_formId = 0, ev_timeStamp = timeStamp, ev_eventId = eventId,
     ev_uid = DEFAULT_UID_ID \<rparr>"

definition Event_bundle :: "int \<Rightarrow> string \<Rightarrow> int \<Rightarrow> event" where
  "Event_bundle eventId bundleName uid = \<lparr> ev_bundleName = bundleName,
     ev_continuousTaskAbilityName = '''', ev_abilityName = '''', ev_abilityId = '''',
     ev_moduleName = '''', ev_formName = '''', ev_formDimension = 0, ev_formId = 0,
     ev_timeStamp = 0, ev_eventId = eventId, ev_uid = uid \<rparr>"

definition Event_task :: "string \<Rightarrow> string \<Rightarrow> int \<Rightarrow> event" where
  "Event_task bundleName taskName uid = \<lparr> ev_bundleName = bundleName,
     ev_continuousTaskAbilityName = taskName, ev_abilityName = '''', ev_abilityId = '''',
     ev_moduleName = '''', ev_formName = '''', ev_formDimension = 0, ev_formId = 0,
     ev_timeStamp = 0, ev_eventId = DEFAULT_EVENT_ID, ev_uid = uid \<rparr>"

definition Event_ability :: "string \<Rightarrow> string \<Rightarrow> string \<Rightarrow> string \<Rightarrow> int \<Rightarrow> event" where
  "Event_ability bundleName abilityName abilityId moduleName uid = \<lparr> ev_bundleName = bundleName,
     ev_continuousTaskAbilityName = '''', ev_abilityName = abilityName, ev_abilityId = abilityId,
     ev_moduleName = moduleName, ev_formName = '''', ev_formDimension = 0, ev_formId = 0,
     ev_timeStamp = 0, ev_eventId = DEFAULT_EVENT_ID, ev_uid = uid \<rparr>"

definition Event_form :: "string \<Rightarrow> string \<Rightarrow> string \<Rightarrow> int \<Rightarrow> int \<Rightarrow> int \<Rightarrow> int \<Rightarrow> event" where
  "Event_form bundleName moduleName formName formDimension formId eventId uid = \<lparr>
     ev_bundleName = bundleName, ev_continuousTaskAbilityName = '''', ev_abilityName = '''',
     ev_abilityId = '''', ev_moduleName = moduleName, ev_formName = formName,
     ev_formDimension = formDimension, ev_formId = formId, ev_timeStamp = 0,
     ev_eventId = eventId, ev_uid = uid \<rparr>"

lemma Event_copy_id [simp]: "Event_copy e = e"
  by (simp add: Event_copy_def)

section \<open>Marshalling\<close>

definition Event_items :: "event \<Rightarrow> pitem list" where
  "Event_items e =
     [PStr (ev_bundleName e), PStr (ev_continuousTaskAbilityName e), PStr (ev_abilityName e),
      PStr (ev_abilityId e), PStr (ev_moduleName e), PStr (ev_formName e),
      PI32 (ev_formDimension e), PI64 (ev_formId e), PI64 (ev_timeStamp e),
      PI32 (ev_eventId e), PI32 (ev_uid e)]"

definition Event_Marshalling :: "'p parcel_ops \<Rightarrow> event \<Rightarrow> 'p \<Rightarrow> bool \<times> 'p" where
  "Event_Marshalling P e p = wseq P (Event_items e) p"

text \<open>\<open>alloc\<close> is the outcome of \<open>new (std::nothrow)\<close>.\<close>

definition Event_Unmarshalling :: "'p parcel_ops \<Rightarrow> bool \<Rightarrow> 'p \<Rightarrow> event option \<times> 'p" where
  "Event_Unmarshalling P alloc p =
     (if \<not> alloc then (None, p) else
      let (bn, p) = pReadString P p;
          (ct, p) = pReadString P p;
          (an, p) = pReadString P p;
          (ai, p) = pReadString P p;
          (mn, p) = pReadString P p;
          (fn, p) = pReadString P p;
          (fd, p) = pReadInt32 P p;
          (fi, p) = pReadInt64 P p;
          (ts, p) = pReadInt64 P p;
          (ei, p) = pReadInt32 P p;
          (ui, p) = pReadInt32 P p
      in (Some (Event_default \<lparr> ev_bundleName := bn, ev_continuousTaskAbilityName := ct,
            ev_abilityName := an, ev_abilityId := ai, ev_moduleName := mn, ev_formName := fn,
            ev_formDimension := fd, ev_formId := fi, ev_timeStamp := ts, ev_eventId := ei,
            ev_uid := ui \<rparr>), p))"

lemma Event_Unmarshalling_items:
  assumes F: "parcel_fifo P content" and c: "content p = Event_items e @ r"
  shows "\<exists>q. Event_Unmarshalling P True p = (Some e, q) \<and> content q = r"
  using c by (auto simp: Event_Unmarshalling_def Event_default_def Event_items_def
      dest!: parcel_fifo_read [OF F])

section \<open>Text and classification\<close>

definition Event_ToString :: "event \<Rightarrow> string" where
  "Event_ToString e = ''bundle name is '' @ ev_bundleName e @ '', uid is '' @ int_to_string (ev_uid e) @
     '', event is '' @ int_to_string (ev_eventId e) @ '', timestamp is '' @
     int_to_string (ev_timeStamp e) @ [CHR 0x0A]"

definition IsBundleEvent :: "int \<Rightarrow> bool" where
  "IsBundleEvent eventId \<longleftrightarrow>
     (if eventId = ABILITY_BACKGROUND \<or> eventId = ABILITY_FOREGROUND \<or> eventId = ABILITY_STOP \<or>
         eventId = LONG_TIME_TASK_STARTTED \<or> eventId = LONG_TIME_TASK_ENDED \<or> eventId = END_OF_THE_DAY
      then True else False)"

definition IsAppStateEvent :: "int \<Rightarrow> bool" where
  "IsAppStateEvent eventId \<longleftrightarrow>
     (if eventId = ABILITY_BACKGROUND \<or> eventId = ABILITY_FOREGROUND \<or> eventId = ABILITY_STOP
      then True else False)"

lemma app_state_is_bundle_event: "IsAppStateEvent i \<Longrightarrow> IsBundleEvent i"
  by (auto simp: IsAppStateEvent_def IsBundleEvent_def split: if_splits)

end
