(* ===== verification/PackageStats.thy ===== *)
theory PackageStats
  imports Event
begin

text \<open>\<open>BundleActivePackageStats\<close> (\<open>interfaces/innerkits\<close>): the usage counters of one bundle in one
period, updated event by event. The first lemmas give the invariant of the two maps; the second
half relates the counters to an abstract account of the time a bundle spends in front.\<close>

section \<open>State\<close>

record package_stats =
  pk_bundleName :: string
  pk_beginTimeStamp :: int
  pk_endTimeStamp :: int
  pk_lastTimeUsed :: int
  pk_totalInFrontTime :: int
  pk_lastContiniousTaskUsed :: int
  pk_totalContiniousTaskUsedTime :: int
  pk_startCount :: int
  pk_bundleStartedCount :: int
  pk_lastEvent :: int
  pk_userId :: int
  pk_uid :: int
  pk_appIndex :: int
  pk_abilities :: "(string, int) omap"
  pk_longTimeTasks :: "(string, int) omap"

definition PackageStats_default :: package_stats where
  "PackageStats_default = \<lparr> pk_bundleName = '''', pk_beginTimeStamp = 0, pk_endTimeStamp = 0,
     pk_lastTimeUsed = -1, pk_totalInFrontTime = 0, pk_lastContiniousTaskUsed = -1,
     pk_totalContiniousTaskUsedTime = 0, pk_startCount = 0, pk_bundleStartedCount = 0,
     pk_lastEvent = 0, pk_userId = 0, pk_uid = 0, pk_appIndex = 0,
     pk_abilities = [], pk_longTimeTasks = [] \<rparr>"

definition PackageStats_copy :: "package_stats \<Rightarrow> package_stats" where
  "PackageStats_copy orig = \<lparr> pk_bundleName = pk_bundleName orig,
     pk_beginTimeStamp = pk_beginTimeStamp orig, pk_endTimeStamp = pk_endTimeStamp orig,
     pk_lastTimeUsed = pk_lastTimeUsed orig, pk_totalInFrontTime = pk_totalInFrontTime orig,
     pk_lastContiniousTaskUsed = pk_lastContiniousTaskUsed orig,
     pk_totalContiniousTaskUsedTime = pk_totalContiniousTaskUsedTime orig,
     pk_startCount = pk_startCount orig, pk_bundleStartedCount = pk_bundleStartedCount orig,
     pk_lastEvent = pk_lastEvent orig, pk_userId = pk_userId orig, pk_uid = pk_uid orig,
     pk_appIndex = pk_appIndex orig, pk_abilities = pk_abilities orig,
     pk_longTimeTasks = pk_longTimeTasks orig \<rparr>"

lemma PackageStats_copy_id [simp]: "PackageStats_copy s = s"
  by (simp add: PackageStats_copy_def)

section \<open>Operations\<close>

definition HasFrontAbility :: "package_stats \<Rightarrow> bool" where
  "HasFrontAbility s \<longleftrightarrow> (\<exists>ability \<in> set (pk_abilities s). snd ability = ABILITY_FOREGROUND)"

definition AnyLongTimeTaskStarted :: "package_stats \<Rightarrow> bool" where
  "AnyLongTimeTaskStarted s \<longleftrightarrow> pk_longTimeTasks s \<noteq> []"

definition IncrementTimeUsed :: "int \<Rightarrow> package_stats \<Rightarrow> package_stats" where
  "IncrementTimeUsed timeStamp s =
     (if timeStamp > pk_lastTimeUsed s
      then s \<lparr> pk_totalInFrontTime := pk_totalInFrontTime s + (timeStamp - pk_lastTimeUsed s),
               pk_lastTimeUsed := timeStamp \<rparr>
      else s)"

definition IncrementServiceTimeUsed :: "int \<Rightarrow> package_stats \<Rightarrow> package_stats" where
  "IncrementServiceTimeUsed timeStamp s =
     (if timeStamp > pk_lastContiniousTaskUsed s
      then s \<lparr> pk_totalContiniousTaskUsedTime :=
                 pk_totalContiniousTaskUsedTime s + (timeStamp - pk_lastContiniousTaskUsed s),
               pk_lastContiniousTaskUsed := timeStamp \<rparr>
      else s)"

definition IncrementBundleLaunchedCount :: "package_stats \<Rightarrow> package_stats" where
  "IncrementBundleLaunchedCount s = s \<lparr> pk_bundleStartedCount := pk_bundleStartedCount s + 1 \<rparr>"

definition UpdateAbility :: "int \<Rightarrow> int \<Rightarrow> string \<Rightarrow> package_stats \<Rightarrow> package_stats" where
  "UpdateAbility timeStamp eventId abilityId s =
     (if eventId \<noteq> ABILITY_FOREGROUND \<and> eventId \<noteq> ABILITY_BACKGROUND \<and> eventId \<noteq> ABILITY_STOP then s
      else
        let s1 = (if pk_abilities s = [] \<and> eventId = ABILITY_FOREGROUND
                  then s \<lparr> pk_beginTimeStamp := timeStamp, pk_startCount := pk_startCount s + 1 \<rparr>
                  else s);
            s2 = (case om_find (pk_abilities s1) abilityId of
                    None \<Rightarrow> s1
                  | Some lastEventId \<Rightarrow>
                      if lastEventId = ABILITY_FOREGROUND then IncrementTimeUsed timeStamp s1
                      else if lastEventId = ABILITY_BACKGROUND then
                        (if eventId = ABILITY_FOREGROUND
                         then s1 \<lparr> pk_startCount := pk_startCount s1 + 1 \<rparr> else s1)
                      else s1)
        in if eventId = ABILITY_FOREGROUND then
             (let s3 = (if \<not> HasFrontAbility s2 then s2 \<lparr> pk_lastTimeUsed := timeStamp \<rparr> else s2)
              in s3 \<lparr> pk_abilities := om_insert abilityId eventId (pk_abilities s3) \<rparr>)
           else if eventId = ABILITY_BACKGROUND then
             s2 \<lparr> pk_abilities := om_insert abilityId eventId (pk_abilities s2) \<rparr>
           else s2 \<lparr> pk_abilities := om_erase abilityId (pk_abilities s2) \<rparr>)"

definition UpdateLongTimeTask :: "string \<Rightarrow> int \<Rightarrow> int \<Rightarrow> package_stats \<Rightarrow> package_stats" where
  "UpdateLongTimeTask longTimeTaskName timeStamp eventId s =
     (if eventId \<noteq> LONG_TIME_TASK_STARTTED \<and> eventId \<noteq> LONG_TIME_TASK_ENDED then s
      else
        let s1 = (case om_find (pk_longTimeTasks s) longTimeTaskName of
                    None \<Rightarrow> s
                  | Some lastEventId \<Rightarrow>
                      if lastEventId = LONG_TIME_TASK_STARTTED then IncrementServiceTimeUsed timeStamp s
                      else s)
        in if eventId = LONG_TIME_TASK_STARTTED then
             (let s2 = (if \<not> AnyLongTimeTaskStarted s1
                        then s1 \<lparr> pk_lastContiniousTaskUsed := timeStamp \<rparr> else s1)
              in s2 \<lparr> pk_longTimeTasks := om_insert longTimeTaskName eventId (pk_longTimeTasks s2) \<rparr>)
           else s1 \<lparr> pk_longTimeTasks := om_erase longTimeTaskName (pk_longTimeTasks s1) \<rparr>)"

text \<open>The accounting of \<open>END_OF_THE_DAY\<close>, \<open>SHUTDOWN\<close> and \<open>FLUSH\<close>, the same two statements in
the three cases of the switch.\<close>

definition Update_running :: "int \<Rightarrow> package_stats \<Rightarrow> package_stats" where
  "Update_running timeStamp s =
     (let s1 = (if HasFrontAbility s then IncrementTimeUsed timeStamp s else s)
      in if AnyLongTimeTaskStarted s1 then IncrementServiceTimeUsed timeStamp s1 else s1)"

definition PackageStats_Update ::
    "string \<Rightarrow> int \<Rightarrow> int \<Rightarrow> string \<Rightarrow> int \<Rightarrow> package_stats \<Rightarrow> package_stats" where
  "PackageStats_Update longTimeTaskName timeStamp eventId abilityId uid s =
     (let s1 = (if eventId = ABILITY_FOREGROUND \<or> eventId = ABILITY_BACKGROUND \<or> eventId = ABILITY_STOP
                then UpdateAbility timeStamp eventId abilityId s
                else if eventId = END_OF_THE_DAY then Update_running timeStamp s
                else if eventId = LONG_TIME_TASK_STARTTED \<or> eventId = LONG_TIME_TASK_ENDED
                then UpdateLongTimeTask longTimeTaskName timeStamp eventId s
                else if eventId = SHUTDOWN \<or> eventId = FLUSH then Update_running timeStamp s
                else s)
      in s1 \<lparr> pk_endTimeStamp := timeStamp \<rparr>)"

definition PackageStats_items :: "package_stats \<Rightarrow> pitem list" where
  "PackageStats_items s =
     [PStr (pk_bundleName s), PI64 (pk_beginTimeStamp s), PI64 (pk_lastTimeUsed s),
      PI64 (pk_totalInFrontTime s), PI64 (pk_lastContiniousTaskUsed s),
      PI64 (pk_totalContiniousTaskUsedTime s), PI32 (pk_startCount s), PI32 (pk_userId s),
      PI32 (pk_appIndex s)]"

definition PackageStats_Marshalling :: "'p parcel_ops \<Rightarrow> package_stats \<Rightarrow> 'p \<Rightarrow> bool \<times> 'p" where
  "PackageStats_Marshalling P s p = wseq P (PackageStats_items s) p"

definition PackageStats_Unmarshalling ::
    "'p parcel_ops \<Rightarrow> bool \<Rightarrow> 'p \<Rightarrow> package_stats option \<times> 'p" where
  "PackageStats_Unmarshalling P alloc p =
     (if \<not> alloc then (None, p) else
      let (bn, p) = pReadString P p;
          (bt, p) = pReadInt64 P p;
          (lt, p) = pReadInt64 P p;
          (tt, p) = pReadInt64 P p;
          (lc, p) = pReadInt64 P p;
          (tc, p) = pReadInt64 P p;
          (sc, p) = pReadInt32 P p;
          (us, p) = pReadInt32 P p;
          (ai, p) = pReadInt32 P p
      in (Some (PackageStats_default \<lparr> pk_bundleName := bn, pk_beginTimeStamp := bt,
            pk_lastTimeUsed := lt, pk_totalInFrontTime := tt, pk_lastContiniousTaskUsed := lc,
            pk_totalContiniousTaskUsedTime := tc, pk_startCount := sc, pk_userId := us,
            pk_appIndex := ai \<rparr>), p))"

definition PackageStats_ToString :: "package_stats \<Rightarrow> string" where
  "PackageStats_ToString s =
     ''bundle name is '' @ pk_bundleName s @ '', uid is '' @ int_to_string (pk_uid s) @
     '', last used time stamp is '' @ int_to_string (pk_lastTimeUsed s) @
     '', total time in front is '' @ int_to_string (pk_totalInFrontTime s) @
     '', last continuous task used time is '' @ int_to_string (pk_lastContiniousTaskUsed s) @
     '', total continuous task time is '' @ int_to_string (pk_totalContiniousTaskUsedTime s) @
     '', start count is '' @ int_to_string (pk_startCount s) @ [CHR 0x0A]"

section \<open>Invariant\<close>

definition PackageStats_inv :: "package_stats \<Rightarrow> bool" where
  "PackageStats_inv s \<longleftrightarrow>
     om_wf (pk_abilities s) \<and> om_wf (pk_longTimeTasks s) \<and>
     (\<forall>p \<in> set (pk_abilities s). snd p = ABILITY_FOREGROUND \<or> snd p = ABILITY_BACKGROUND) \<and>
     (\<forall>p \<in> set (pk_longTimeTasks s). snd p = LONG_TIME_TASK_STARTTED) \<and>
     0 \<le> pk_totalInFrontTime s \<and> 0 \<le> pk_totalContiniousTaskUsedTime s"

lemma PackageStats_inv_default [simp]: "PackageStats_inv PackageStats_default"
  by (simp add: PackageStats_inv_def PackageStats_default_def)

lemma HasFrontAbility_iff:
  "PackageStats_inv s \<Longrightarrow> HasFrontAbility s \<longleftrightarrow> (\<exists>a. om_find (pk_abilities s) a = Some ABILITY_FOREGROUND)"
  by (force simp: HasFrontAbility_def PackageStats_inv_def om_find_mem)

lemma AnyLongTimeTaskStarted_iff:
  "PackageStats_inv s \<Longrightarrow> AnyLongTimeTaskStarted s \<longleftrightarrow> (\<exists>a. om_find (pk_longTimeTasks s) a = Some LONG_TIME_TASK_STARTTED)"
  by (cases "pk_longTimeTasks s")
    (auto simp: AnyLongTimeTaskStarted_def PackageStats_inv_def)

lemma ability_values:
  "PackageStats_inv s \<Longrightarrow> om_find (pk_abilities s) a = Some e \<Longrightarrow> e = ABILITY_FOREGROUND \<or> e = ABILITY_BACKGROUND"
  by (force simp: PackageStats_inv_def om_find_mem)

lemma task_values:
  "PackageStats_inv s \<Longrightarrow> om_find (pk_longTimeTasks s) a = Some e \<Longrightarrow> e = LONG_TIME_TASK_STARTTED"
  by (force simp: PackageStats_inv_def om_find_mem)

text \<open>What each operation does to the two maps, the two clocks and the two totals.\<close>

lemma IncrementTimeUsed_fields [simp]:
  "pk_abilities (IncrementTimeUsed t s) = pk_abilities s"
  "pk_longTimeTasks (IncrementTimeUsed t s) = pk_longTimeTasks s"
  "pk_totalContiniousTaskUsedTime (IncrementTimeUsed t s) = pk_totalContiniousTaskUsedTime s"
  "pk_lastContiniousTaskUsed (IncrementTimeUsed t s) = pk_lastContiniousTaskUsed s"
  "pk_lastTimeUsed (IncrementTimeUsed t s) = max t (pk_lastTimeUsed s)"
  "pk_totalInFrontTime (IncrementTimeUsed t s) = pk_totalInFrontTime s + max 0 (t - pk_lastTimeUsed s)"
  by (auto simp: IncrementTimeUsed_def)

lemma IncrementServiceTimeUsed_fields [simp]:
  "pk_abilities (IncrementServiceTimeUsed t s) = pk_abilities s"
  "pk_longTimeTasks (IncrementServiceTimeUsed t s) = pk_longTimeTasks s"
  "pk_totalInFrontTime (IncrementServiceTimeUsed t s) = pk_totalInFrontTime s"
  "pk_lastTimeUsed (IncrementServiceTimeUsed t s) = pk_lastTimeUsed s"
  "pk_lastContiniousTaskUsed (IncrementServiceTimeUsed t s) = max t (pk_lastContiniousTaskUsed s)"
  "pk_totalContiniousTaskUsedTime (IncrementServiceTimeUsed t s) =
     pk_totalContiniousTaskUsedTime s + max 0 (t - pk_lastContiniousTaskUsed s)"
  by (auto simp: IncrementServiceTimeUsed_def)

lemma HasFrontAbility_cong: "pk_abilities s = pk_abilities s' \<Longrightarrow> HasFrontAbility s = HasFrontAbility s'"
  by (simp add: HasFrontAbility_def)

lemma UpdateAbility_abilities:
  assumes "e = ABILITY_FOREGROUND \<or> e = ABILITY_BACKGROUND \<or> e = ABILITY_STOP"
  shows "pk_abilities (UpdateAbility t e a s) =
    (if e = ABILITY_STOP then om_erase a (pk_abilities s) else om_insert a e (pk_abilities s))"
  using assms by (auto simp: UpdateAbility_def Let_def split: option.splits)

lemma UpdateAbility_tasks [simp]:
  "pk_longTimeTasks (UpdateAbility t e a s) = pk_longTimeTasks s"
  "pk_lastContiniousTaskUsed (UpdateAbility t e a s) = pk_lastContiniousTaskUsed s"
  "pk_totalContiniousTaskUsedTime (UpdateAbility t e a s) = pk_totalContiniousTaskUsedTime s"
  by (auto simp: UpdateAbility_def Let_def split: option.splits)

lemma UpdateAbility_total:
  assumes "e = ABILITY_FOREGROUND \<or> e = ABILITY_BACKGROUND \<or> e = ABILITY_STOP"
  shows "pk_totalInFrontTime (UpdateAbility t e a s) = pk_totalInFrontTime s +
    (if om_find (pk_abilities s) a = Some ABILITY_FOREGROUND then max 0 (t - pk_lastTimeUsed s) else 0)"
  using assms by (auto simp: UpdateAbility_def Let_def split: option.splits)

lemma UpdateAbility_last:
  assumes "e = ABILITY_FOREGROUND \<or> e = ABILITY_BACKGROUND \<or> e = ABILITY_STOP"
  shows "pk_lastTimeUsed (UpdateAbility t e a s) =
    (if om_find (pk_abilities s) a = Some ABILITY_FOREGROUND
     then (if e = ABILITY_FOREGROUND \<and> \<not> HasFrontAbility s then t else max t (pk_lastTimeUsed s))
     else if e = ABILITY_FOREGROUND \<and> \<not> HasFrontAbility s then t else pk_lastTimeUsed s)"
  using assms by (auto simp: UpdateAbility_def Let_def HasFrontAbility_def split: option.splits)

lemma UpdateLongTimeTask_tasks:
  assumes "e = LONG_TIME_TASK_STARTTED \<or> e = LONG_TIME_TASK_ENDED"
  shows "pk_longTimeTasks (UpdateLongTimeTask n t e s) =
    (if e = LONG_TIME_TASK_ENDED then om_erase n (pk_longTimeTasks s) else om_insert n e (pk_longTimeTasks s))"
  using assms by (auto simp: UpdateLongTimeTask_def Let_def split: option.splits)

lemma UpdateLongTimeTask_abilities [simp]:
  "pk_abilities (UpdateLongTimeTask n t e s) = pk_abilities s"
  "pk_lastTimeUsed (UpdateLongTimeTask n t e s) = pk_lastTimeUsed s"
  "pk_totalInFrontTime (UpdateLongTimeTask n t e s) = pk_totalInFrontTime s"
  by (auto simp: UpdateLongTimeTask_def Let_def split: option.splits)

lemma UpdateLongTimeTask_total:
  assumes "e = LONG_TIME_TASK_STARTTED \<or> e = LONG_TIME_TASK_ENDED"
  shows "pk_totalContiniousTaskUsedTime (UpdateLongTimeTask n t e s) = pk_totalContiniousTaskUsedTime s +
    (if om_find (pk_longTimeTasks s) n = Some LONG_TIME_TASK_STARTTED
     then max 0 (t - pk_lastContiniousTaskUsed s) else 0)"
  using assms by (auto simp: UpdateLongTimeTask_def Let_def split: option.splits)

lemma UpdateLongTimeTask_last:
  assumes "e = LONG_TIME_TASK_STARTTED \<or> e = LONG_TIME_TASK_ENDED"
  shows "pk_lastContiniousTaskUsed (UpdateLongTimeTask n t e s) =
    (if e = LONG_TIME_TASK_STARTTED \<and> \<not> AnyLongTimeTaskStarted s then t
     else if om_find (pk_longTimeTasks s) n = Some LONG_TIME_TASK_STARTTED
     then max t (pk_lastContiniousTaskUsed s) else pk_lastContiniousTaskUsed s)"
  using assms
  by (auto simp: UpdateLongTimeTask_def Let_def AnyLongTimeTaskStarted_def split: option.splits)

lemma Update_running_fields [simp]:
  "pk_abilities (Update_running t s) = pk_abilities s"
  "pk_longTimeTasks (Update_running t s) = pk_longTimeTasks s"
  "pk_lastTimeUsed (Update_running t s) = (if HasFrontAbility s then max t (pk_lastTimeUsed s) else pk_lastTimeUsed s)"
  "pk_totalInFrontTime (Update_running t s) =
     pk_totalInFrontTime s + (if HasFrontAbility s then max 0 (t - pk_lastTimeUsed s) else 0)"
  "pk_lastContiniousTaskUsed (Update_running t s) =
     (if AnyLongTimeTaskStarted s then max t (pk_lastContiniousTaskUsed s) else pk_lastContiniousTaskUsed s)"
  "pk_totalContiniousTaskUsedTime (Update_running t s) =
     pk_totalContiniousTaskUsedTime s +
     (if AnyLongTimeTaskStarted s then max 0 (t - pk_lastContiniousTaskUsed s) else 0)"
  by (auto simp: Update_running_def Let_def AnyLongTimeTaskStarted_def)

lemma UpdateAbility_inv:
  "PackageStats_inv s \<Longrightarrow> e = ABILITY_FOREGROUND \<or> e = ABILITY_BACKGROUND \<or> e = ABILITY_STOP \<Longrightarrow>
   PackageStats_inv (UpdateAbility t e a s)"
  unfolding PackageStats_inv_def
  by (auto simp: UpdateAbility_abilities UpdateAbility_total om_insert_set om_erase_set)

lemma UpdateLongTimeTask_inv:
  "PackageStats_inv s \<Longrightarrow> e = LONG_TIME_TASK_STARTTED \<or> e = LONG_TIME_TASK_ENDED \<Longrightarrow>
   PackageStats_inv (UpdateLongTimeTask n t e s)"
  unfolding PackageStats_inv_def
  by (auto simp: UpdateLongTimeTask_tasks UpdateLongTimeTask_total om_insert_set om_erase_set)

lemma Update_running_inv: "PackageStats_inv s \<Longrightarrow> PackageStats_inv (Update_running t s)"
  by (simp add: PackageStats_inv_def)

lemma PackageStats_inv_endTime [simp]:
  "PackageStats_inv (s \<lparr> pk_endTimeStamp := t \<rparr>) = PackageStats_inv s"
  by (simp add: PackageStats_inv_def)

lemma PackageStats_Update_inv: "PackageStats_inv s \<Longrightarrow> PackageStats_inv (PackageStats_Update n t e a u s)"
  by (simp add: PackageStats_Update_def Let_def UpdateAbility_inv UpdateLongTimeTask_inv Update_running_inv)

section \<open>An abstract account of the time in front\<close>

text \<open>One call of \<open>Update\<close>: task name, time stamp, event, ability id, uid.\<close>

type_synonym upd = "string \<times> int \<times> int \<times> string \<times> int"

fun apply_upd :: "upd \<Rightarrow> package_stats \<Rightarrow> package_stats" where
  "apply_upd (n, t, e, a, u) s = PackageStats_Update n t e a u s"

abbreviation upd_time :: "upd \<Rightarrow> int" where
  "upd_time c \<equiv> fst (snd c)"

text \<open>The abstract state: the members now active, the time of the last call and the time
during which at least one member was active.\<close>

type_synonym account = "string set \<times> int \<times> int"

fun front_members :: "upd \<Rightarrow> string set \<Rightarrow> string set" where
  "front_members (n, t, e, a, u) F =
     (if e = ABILITY_FOREGROUND then insert a F
      else if e = ABILITY_BACKGROUND \<or> e = ABILITY_STOP then F - {a} else F)"

fun task_members :: "upd \<Rightarrow> string set \<Rightarrow> string set" where
  "task_members (n, t, e, a, u) F =
     (if e = LONG_TIME_TASK_STARTTED then insert n F
      else if e = LONG_TIME_TASK_ENDED then F - {n} else F)"

fun account_step :: "(upd \<Rightarrow> string set \<Rightarrow> string set) \<Rightarrow> upd \<Rightarrow> account \<Rightarrow> account" where
  "account_step members c (F, now, acc) =
     (members c F, upd_time c, acc + (if F \<noteq> {} then upd_time c - now else 0))"

definition active_time :: "(upd \<Rightarrow> string set \<Rightarrow> string set) \<Rightarrow> int \<Rightarrow> upd list \<Rightarrow> int" where
  "active_time members t0 cs = snd (snd (fold (account_step members) cs ({}, t0, 0)))"

definition counts :: "string set \<Rightarrow> int \<Rightarrow> int \<Rightarrow> int \<Rightarrow> int \<Rightarrow> bool" where
  "counts F now acc lastUsed tot \<longleftrightarrow>
     acc = tot + (if F \<noteq> {} then now - lastUsed else 0) \<and> (F \<noteq> {} \<longrightarrow> lastUsed \<le> now)"

definition account_rel :: "package_stats \<Rightarrow> account \<Rightarrow> account \<Rightarrow> bool" where
  "account_rel s A T \<longleftrightarrow> PackageStats_inv s \<and>
     fst A = {a. om_find (pk_abilities s) a = Some ABILITY_FOREGROUND} \<and>
     counts (fst A) (fst (snd A)) (snd (snd A)) (pk_lastTimeUsed s) (pk_totalInFrontTime s) \<and>
     fst T = {n. om_find (pk_longTimeTasks s) n = Some LONG_TIME_TASK_STARTTED} \<and>
     counts (fst T) (fst (snd T)) (snd (snd T)) (pk_lastContiniousTaskUsed s)
       (pk_totalContiniousTaskUsedTime s) \<and>
     fst (snd A) = fst (snd T)"

lemma account_rel_default: "account_rel PackageStats_default ({}, t0, 0) ({}, t0, 0)"
  by (simp add: account_rel_def counts_def) (simp add: PackageStats_default_def)

lemma Update_abilities:
  "pk_abilities (PackageStats_Update n t e a u s) =
     (if e = ABILITY_STOP then om_erase a (pk_abilities s)
      else if e = ABILITY_FOREGROUND \<or> e = ABILITY_BACKGROUND then om_insert a e (pk_abilities s)
      else pk_abilities s)"
  by (simp add: PackageStats_Update_def Let_def UpdateAbility_abilities)

lemma Update_tasks:
  "pk_longTimeTasks (PackageStats_Update n t e a u s) =
     (if e = LONG_TIME_TASK_ENDED then om_erase n (pk_longTimeTasks s)
      else if e = LONG_TIME_TASK_STARTTED then om_insert n e (pk_longTimeTasks s)
      else pk_longTimeTasks s)"
  by (simp add: PackageStats_Update_def Let_def UpdateLongTimeTask_tasks)

lemma account_step_front:
  fixes n a :: string and e u :: int
  assumes rel: "account_rel s A T" and t: "fst (snd A) \<le> t"
  defines "s' \<equiv> PackageStats_Update n t e a u s"
    and "A' \<equiv> account_step front_members (n, t, e, a, u) A"
  shows "fst A' = {a. om_find (pk_abilities s') a = Some ABILITY_FOREGROUND} \<and>
    counts (fst A') (fst (snd A')) (snd (snd A')) (pk_lastTimeUsed s') (pk_totalInFrontTime s')"
proof -
  obtain F now acc where A: "A = (F, now, acc)" by (cases A)
  have inv: "PackageStats_inv s" and F: "F = {a. om_find (pk_abilities s) a = Some ABILITY_FOREGROUND}"
    and c: "counts F now acc (pk_lastTimeUsed s) (pk_totalInFrontTime s)"
    using rel [unfolded account_rel_def A fst_conv snd_conv] by blast+
  have front: "HasFrontAbility s \<longleftrightarrow> F \<noteq> {}"
    using HasFrontAbility_iff [OF inv] F by blast
  have mem: "om_find (pk_abilities s) a = Some ABILITY_FOREGROUND \<longleftrightarrow> a \<in> F" for a
    using F by blast
  have maps: "fst A' = {a. om_find (pk_abilities s') a = Some ABILITY_FOREGROUND}"
    by (auto simp: A A'_def s'_def Update_abilities F)
  consider (ability) "e = ABILITY_FOREGROUND \<or> e = ABILITY_BACKGROUND \<or> e = ABILITY_STOP"
    | (running) "e = END_OF_THE_DAY \<or> e = SHUTDOWN \<or> e = FLUSH"
    | (other) "e \<notin> {2, 3, 4, 9, 10, 12}" by auto
  then have "counts (fst A') (fst (snd A')) (snd (snd A')) (pk_lastTimeUsed s') (pk_totalInFrontTime s')"
  proof cases
    case ability
    then have s': "pk_lastTimeUsed s' = pk_lastTimeUsed (UpdateAbility t e a s)"
      "pk_totalInFrontTime s' = pk_totalInFrontTime (UpdateAbility t e a s)"
      by (auto simp: s'_def PackageStats_Update_def)
    show ?thesis
      unfolding s' UpdateAbility_last [OF ability] UpdateAbility_total [OF ability] front mem
      using ability c t by (auto simp: A A'_def counts_def)
  next
    case running
    then have s': "pk_lastTimeUsed s' = pk_lastTimeUsed (Update_running t s)"
      "pk_totalInFrontTime s' = pk_totalInFrontTime (Update_running t s)"
      by (auto simp: s'_def PackageStats_Update_def)
    show ?thesis
      unfolding s' using running c t by (auto simp: A A'_def counts_def front)
  next
    case other
    then have s': "pk_lastTimeUsed s' = pk_lastTimeUsed s" "pk_totalInFrontTime s' = pk_totalInFrontTime s"
      by (auto simp: s'_def PackageStats_Update_def)
    show ?thesis
      unfolding s' using other c t by (auto simp: A A'_def counts_def)
  qed
  then show ?thesis using maps by blast
qed

lemma account_step_tasks:
  fixes n a :: string and e u :: int
  assumes rel: "account_rel s A T" and t: "fst (snd T) \<le> t"
  defines "s' \<equiv> PackageStats_Update n t e a u s"
    and "T' \<equiv> account_step task_members (n, t, e, a, u) T"
  shows "fst T' = {n. om_find (pk_longTimeTasks s') n = Some LONG_TIME_TASK_STARTTED} \<and>
    counts (fst T') (fst (snd T')) (snd (snd T')) (pk_lastContiniousTaskUsed s')
      (pk_totalContiniousTaskUsedTime s')"
proof -
  obtain F now acc where T: "T = (F, now, acc)" by (cases T)
  have inv: "PackageStats_inv s"
    and F: "F = {n. om_find (pk_longTimeTasks s) n = Some LONG_TIME_TASK_STARTTED}"
    and c: "counts F now acc (pk_lastContiniousTaskUsed s) (pk_totalContiniousTaskUsedTime s)"
    using rel [unfolded account_rel_def T fst_conv snd_conv] by blast+
  have any: "AnyLongTimeTaskStarted s \<longleftrightarrow> F \<noteq> {}"
    using AnyLongTimeTaskStarted_iff [OF inv] F by blast
  have mem: "om_find (pk_longTimeTasks s) n = Some LONG_TIME_TASK_STARTTED \<longleftrightarrow> n \<in> F" for n
    using F by blast
  have maps: "fst T' = {n. om_find (pk_longTimeTasks s') n = Some LONG_TIME_TASK_STARTTED}"
    by (auto simp: T T'_def s'_def Update_tasks F)
  consider (task) "e = LONG_TIME_TASK_STARTTED \<or> e = LONG_TIME_TASK_ENDED"
    | (running) "e = END_OF_THE_DAY \<or> e = SHUTDOWN \<or> e = FLUSH"
    | (other) "e \<notin> {5, 6, 9, 10, 12}" by auto
  then have "counts (fst T') (fst (snd T')) (snd (snd T')) (pk_lastContiniousTaskUsed s')
      (pk_totalContiniousTaskUsedTime s')"
  proof cases
    case task
    then have s': "pk_lastContiniousTaskUsed s' = pk_lastContiniousTaskUsed (UpdateLongTimeTask n t e s)"
      "pk_totalContiniousTaskUsedTime s' = pk_totalContiniousTaskUsedTime (UpdateLongTimeTask n t e s)"
      by (auto simp: s'_def PackageStats_Update_def)
    show ?thesis
      unfolding s' UpdateLongTimeTask_last [OF task] UpdateLongTimeTask_total [OF task] any mem
      using task c t by (auto simp: T T'_def counts_def)
  next
    case running
    then have s': "pk_lastContiniousTaskUsed s' = pk_lastContiniousTaskUsed (Update_running t s)"
      "pk_totalContiniousTaskUsedTime s' = pk_totalContiniousTaskUsedTime (Update_running t s)"
      by (auto simp: s'_def PackageStats_Update_def)
    show ?thesis
      unfolding s' using running c t by (auto simp: T T'_def counts_def any)
  next
    case other
    then have s': "pk_lastContiniousTaskUsed s' = pk_lastContiniousTaskUsed s"
      "pk_totalContiniousTaskUsedTime s' = pk_totalContiniousTaskUsedTime s"
      by (auto simp: s'_def PackageStats_Update_def)
    show ?thesis
      unfolding s' using other c t by (auto simp: T T'_def counts_def)
  qed
  then show ?thesis using maps by blast
qed

lemma account_step_time [simp]: "fst (snd (account_step members c A)) = upd_time c"
  by (cases A) simp

lemma account_rel_step:
  assumes "account_rel s A T" "fst (snd A) \<le> upd_time c"
  shows "account_rel (apply_upd c s) (account_step front_members c A) (account_step task_members c T)"
proof -
  obtain n t e a u where c: "c = (n, t, e, a, u)" by (cases c)
  have T: "fst (snd T) \<le> t" and A: "fst (snd A) \<le> t"
    using assms by (simp_all add: c account_rel_def)
  have "PackageStats_inv (apply_upd c s)"
    using assms(1) PackageStats_Update_inv by (simp add: c account_rel_def)
  moreover note account_step_front [OF assms(1) A, of n e a u] account_step_tasks [OF assms(1) T, of n e a u]
  ultimately show ?thesis
    unfolding account_rel_def c apply_upd.simps by (metis account_step_time fst_conv snd_conv)
qed

lemma account_rel_fold:
  "account_rel s A T \<Longrightarrow> sorted (map upd_time cs) \<Longrightarrow> (\<forall>c \<in> set cs. fst (snd A) \<le> upd_time c) \<Longrightarrow>
   account_rel (fold apply_upd cs s) (fold (account_step front_members) cs A)
     (fold (account_step task_members) cs T)"
proof (induction cs arbitrary: s A T)
  case (Cons c cs)
  have "account_rel (apply_upd c s) (account_step front_members c A) (account_step task_members c T)"
    using Cons.prems by (intro account_rel_step) auto
  then show ?case
    using Cons.prems by (simp add: Cons.IH)
qed simp

definition accounting_event :: "int \<Rightarrow> bool" where
  "accounting_event e \<longleftrightarrow> e = END_OF_THE_DAY \<or> e = SHUTDOWN \<or> e = FLUSH"

lemma accounting_closes:
  assumes "account_rel s A T" "fst (snd A) \<le> t" "accounting_event e"
  shows "pk_totalInFrontTime (PackageStats_Update n t e a u s) =
      snd (snd (account_step front_members (n, t, e, a, u) A)) \<and>
    pk_totalContiniousTaskUsedTime (PackageStats_Update n t e a u s) =
      snd (snd (account_step task_members (n, t, e, a, u) T))"
proof -
  obtain F now acc where A: "A = (F, now, acc)" by (cases A)
  obtain F' now' acc' where T: "T = (F', now', acc')" by (cases T)
  have inv: "PackageStats_inv s" and F: "F = {a. om_find (pk_abilities s) a = Some ABILITY_FOREGROUND}"
    and F': "F' = {n. om_find (pk_longTimeTasks s) n = Some LONG_TIME_TASK_STARTTED}"
    and c: "counts F now acc (pk_lastTimeUsed s) (pk_totalInFrontTime s)"
    and c': "counts F' now' acc' (pk_lastContiniousTaskUsed s) (pk_totalContiniousTaskUsedTime s)"
    and n: "now = now'"
    using assms(1) [unfolded account_rel_def A T fst_conv snd_conv] by blast+
  have front: "HasFrontAbility s \<longleftrightarrow> F \<noteq> {}" and any: "AnyLongTimeTaskStarted s \<longleftrightarrow> F' \<noteq> {}"
    using HasFrontAbility_iff [OF inv] AnyLongTimeTaskStarted_iff [OF inv] F F' by blast+
  have "PackageStats_Update n t e a u s = Update_running t s \<lparr> pk_endTimeStamp := t \<rparr>"
    using assms(3) by (auto simp: accounting_event_def PackageStats_Update_def)
  then show ?thesis
    using c c' n assms(2) by (auto simp: A T counts_def front any)
qed

lemma active_time_bounds:
  "sorted (map upd_time cs) \<Longrightarrow> (\<forall>c \<in> set cs. now \<le> upd_time c) \<Longrightarrow>
   (case fold (account_step m) cs (F, now, acc) of (F', now', acc') \<Rightarrow>
      now \<le> now' \<and> now' = last (now # map upd_time cs) \<and> acc \<le> acc' \<and> acc' - acc \<le> now' - now)"
proof (induction cs arbitrary: F now acc)
  case (Cons c cs)
  let ?acc = "acc + (if F \<noteq> {} then upd_time c - now else 0)"
  obtain F' now' acc' where r: "fold (account_step m) cs (m c F, upd_time c, ?acc) = (F', now', acc')"
    by (metis prod_cases3)
  have "upd_time c \<le> now' \<and> now' = last (upd_time c # map upd_time cs) \<and> ?acc \<le> acc' \<and> acc' - ?acc \<le> now' - upd_time c"
    using Cons.IH [where now = "upd_time c" and F = "m c F" and acc = ?acc] Cons.prems r by simp
  then show ?case
    using Cons.prems r by (auto split: if_splits)
qed simp

definition PackageStats_wire :: "package_stats \<Rightarrow> package_stats" where
  "PackageStats_wire s = s \<lparr> pk_endTimeStamp := 0, pk_bundleStartedCount := 0, pk_lastEvent := 0,
     pk_uid := 0, pk_abilities := [], pk_longTimeTasks := [] \<rparr>"

section \<open>Properties\<close>

text \<open>C1: The counters are exact. Run any sequence of updates with non-decreasing time stamps on
a fresh record, ending with an end-of-day, shutdown or flush: the total time in front is the time
during which at least one ability was in front, and the total task time is the time during which
at least one continuous task was running, as the abstract account computes them from the events
alone.\<close>

theorem usage_totals_exact:
  assumes "sorted (map upd_time (cs @ [(n, t, e, a, u)]))"
    and "\<forall>c \<in> set (cs @ [(n, t, e, a, u)]). t0 \<le> upd_time c"
    and "accounting_event e"
  shows "pk_totalInFrontTime (fold apply_upd (cs @ [(n, t, e, a, u)]) PackageStats_default) =
      active_time front_members t0 (cs @ [(n, t, e, a, u)]) \<and>
    pk_totalContiniousTaskUsedTime (fold apply_upd (cs @ [(n, t, e, a, u)]) PackageStats_default) =
      active_time task_members t0 (cs @ [(n, t, e, a, u)])"
proof -
  let ?A = "fold (account_step front_members) cs ({}, t0, 0)"
  let ?T = "fold (account_step task_members) cs ({}, t0, 0)"
  have rel: "account_rel (fold apply_upd cs PackageStats_default) ?A ?T"
    using assms by (intro account_rel_fold account_rel_default) (auto simp: sorted_append)
  have "fst (snd ?A) = last (t0 # map upd_time cs)"
    using active_time_bounds [where cs = cs and now = t0 and m = front_members and F = "{}" and acc = 0] assms
    by (auto simp: sorted_append split: prod.splits)
  then have "fst (snd ?A) \<le> t"
    using assms by (cases cs rule: rev_cases) (auto simp: sorted_append)
  then show ?thesis
    using accounting_closes [OF rel _ assms(3)] by (simp add: active_time_def)
qed

theorem usage_totals_exact_witness:
  "pk_totalInFrontTime (fold apply_upd
     ([([], 10, 2, ''a'', 1), ([], 15, 2, ''b'', 1), ([], 20, 4, ''a'', 1)] @ [([], 30, 12, [], 1)])
     PackageStats_default) = 20"
proof -
  let ?cs = "[([], 10, 2, ''a'', 1), ([], 15, 2, ''b'', 1), ([], 20, 4, ''a'', 1)] :: upd list"
  have "active_time front_members 0 (?cs @ [([], 30, 12, [], 1)]) = 20"
    by (simp add: active_time_def)
  then show ?thesis
    using usage_totals_exact [of ?cs "[]" 30 12 "[]" 1 0] by (simp add: accounting_event_def)
qed

text \<open>The two totals never exceed the elapsed time: after any sequence of updates with
non-decreasing time stamps from \<open>t0\<close> on, both lie between zero and the last time stamp minus
\<open>t0\<close>, so the 64-bit additions cannot overflow.\<close>

theorem usage_totals_bounded:
  assumes "sorted (map upd_time cs)" and "\<forall>c \<in> set cs. t0 \<le> upd_time c"
  defines "s \<equiv> fold apply_upd cs PackageStats_default"
  shows "0 \<le> pk_totalInFrontTime s \<and> pk_totalInFrontTime s \<le> last (t0 # map upd_time cs) - t0 \<and>
    0 \<le> pk_totalContiniousTaskUsedTime s \<and>
    pk_totalContiniousTaskUsedTime s \<le> last (t0 # map upd_time cs) - t0"
proof -
  let ?A = "fold (account_step front_members) cs ({}, t0, 0)"
  let ?T = "fold (account_step task_members) cs ({}, t0, 0)"
  have rel: "account_rel s ?A ?T"
    unfolding s_def using assms(1,2) by (intro account_rel_fold account_rel_default) auto
  have tot: "tot \<le> acc" if "counts F now acc l tot" for F now acc l tot
    using that by (auto simp: counts_def split: if_splits)
  have "pk_totalInFrontTime s \<le> snd (snd ?A)" "pk_totalContiniousTaskUsedTime s \<le> snd (snd ?T)"
    "PackageStats_inv s"
    using rel tot unfolding account_rel_def by blast+
  then show ?thesis
    using active_time_bounds [OF assms(1,2), where m = front_members and F = "{}" and acc = 0]
      active_time_bounds [OF assms(1,2), where m = task_members and F = "{}" and acc = 0]
    by (auto simp: PackageStats_inv_def split: prod.splits)
qed

theorem usage_totals_bounded_witness:
  "pk_totalInFrontTime (fold apply_upd [([], 10, 2, ''a'', 1), ([], 17, 3, ''a'', 1)] PackageStats_default) \<le> 17"
  using usage_totals_bounded [of "[([], 10, 2, ''a'', 1), ([], 17, 3, ''a'', 1)]" 0] by simp

text \<open>After any updates the ability map holds only foreground and background events and the
task map only started tasks, both maps are ordered, and the stop of an ability (the end of a task)
removes it while every other entry is kept.\<close>

theorem usage_maps_consistent:
  "let s = fold apply_upd cs PackageStats_default in
     PackageStats_inv s \<and>
     om_find (pk_abilities (PackageStats_Update n t ABILITY_STOP a u s)) a = None \<and>
     om_find (pk_longTimeTasks (PackageStats_Update n t LONG_TIME_TASK_ENDED a u s)) n = None \<and>
     (a' \<noteq> a \<longrightarrow> om_find (pk_abilities (PackageStats_Update n t e a u s)) a' = om_find (pk_abilities s) a')"
proof -
  have "PackageStats_inv (fold apply_upd cs s)" if "PackageStats_inv s" for s
    using that
  proof (induction cs arbitrary: s)
    case (Cons c cs)
    then show ?case using PackageStats_Update_inv by (cases c) simp
  qed simp
  then show ?thesis
    by (simp add: Let_def Update_abilities Update_tasks)
qed

theorem usage_maps_consistent_witness:
  "om_find (pk_abilities (PackageStats_Update [] 20 2 ''b'' 1
     (fold apply_upd [([], 10, 2, ''a'', 1)] PackageStats_default))) ''a'' = Some 2"
proof -
  have "om_find (pk_abilities (fold apply_upd [([], 10, 2, ''a'', 1)] PackageStats_default)) ''a'' = Some 2"
    by (simp add: Update_abilities)
  then show ?thesis
    using usage_maps_consistent [of "[([], 10, 2, ''a'', 1)]" "[]" 20 "''b''" 1 "''a''" 2]
    by (simp add: Let_def)
qed

text \<open>What survives the trip through a parcel. When all writes succeed, unmarshalling gives a
record with the nine transmitted fields of the original; the end time stamp, the launch count, the
last event, the uid and the two maps come back as in a fresh record.\<close>

theorem package_stats_parcel_roundtrip:
  assumes "parcel_fifo P content" "content p = []" "PackageStats_Marshalling P s p = (True, p')"
  shows "\<exists>q. PackageStats_Unmarshalling P True p' = (Some (PackageStats_wire s), q) \<and> content q = []"
proof -
  have "content p' = PackageStats_items s"
    using parcel_fifo_wseq [OF assms(1)] assms(2,3) by (simp add: PackageStats_Marshalling_def)
  then show ?thesis
    by (auto simp: PackageStats_Unmarshalling_def PackageStats_default_def PackageStats_items_def
        PackageStats_wire_def dest!: parcel_fifo_read [OF assms(1)])
qed

theorem package_stats_parcel_roundtrip_witness:
  "\<exists>q. PackageStats_Unmarshalling list_parcel True
     (PackageStats_items (PackageStats_default \<lparr> pk_bundleName := ''app'', pk_uid := 7 \<rparr>)) =
     (Some (PackageStats_default \<lparr> pk_bundleName := ''app'' \<rparr>), q)"
  using package_stats_parcel_roundtrip [OF list_parcel_fifo, of "[]"
      "PackageStats_default \<lparr> pk_bundleName := ''app'', pk_uid := 7 \<rparr>"]
  by (simp add: PackageStats_Marshalling_def list_parcel_wseq PackageStats_wire_def PackageStats_default_def)

end
