(* ===== verification/EventStats.thy ===== *)
theory EventStats
  imports Event
begin

text \<open>\<open>BundleActiveEventStats\<close> and \<open>BundleActiveHighFrequencyPeriod\<close> (\<open>interfaces/innerkits\<close>):
the aggregates returned by device-event and notification queries, and the high-frequency hours of
a bundle, with their marshalling.\<close>

section \<open>Event statistics\<close>

record event_stats =
  es_eventId :: int
  es_beginTimeStamp :: int
  es_endTimeStamp :: int
  es_lastEventTime :: int
  es_totalTime :: int
  es_count :: int
  es_name :: string
  es_uid :: int

definition EventStats_default :: event_stats where
  "EventStats_default = \<lparr> es_eventId = 0, es_beginTimeStamp = 0, es_endTimeStamp = 0,
     es_lastEventTime = 0, es_totalTime = 0, es_count = 0, es_name = '''', es_uid = - 1 \<rparr>"

definition EventStats_copy :: "event_stats \<Rightarrow> event_stats" where
  "EventStats_copy orig = \<lparr> es_eventId = es_eventId orig, es_beginTimeStamp = es_beginTimeStamp orig,
     es_endTimeStamp = es_endTimeStamp orig, es_lastEventTime = es_lastEventTime orig,
     es_totalTime = es_totalTime orig, es_count = es_count orig, es_name = es_name orig,
     es_uid = es_uid orig \<rparr>"

lemma EventStats_copy_id [simp]: "EventStats_copy s = s"
  by (simp add: EventStats_copy_def)

definition EventStats_add :: "event_stats \<Rightarrow> event_stats \<Rightarrow> event_stats" where
  "EventStats_add right s =
     (if es_eventId s \<noteq> es_eventId right then s
      else
        let s1 = (if es_beginTimeStamp right > es_beginTimeStamp s
                  then s \<lparr> es_lastEventTime := max (es_lastEventTime s) (es_lastEventTime right) \<rparr>
                  else s)
        in s1 \<lparr> es_beginTimeStamp := min (es_beginTimeStamp s1) (es_beginTimeStamp right),
                es_endTimeStamp := max (es_endTimeStamp s1) (es_endTimeStamp right),
                es_totalTime := es_totalTime s1 + es_totalTime right,
                es_count := es_count s1 + es_count right \<rparr>)"

definition EventStats_items :: "event_stats \<Rightarrow> pitem list" where
  "EventStats_items s =
     [PI32 (es_eventId s), PI64 (es_beginTimeStamp s), PI64 (es_endTimeStamp s),
      PI64 (es_lastEventTime s), PI64 (es_totalTime s), PI32 (es_count s), PStr (es_name s),
      PI32 (es_uid s)]"

definition EventStats_Marshalling :: "'p parcel_ops \<Rightarrow> event_stats \<Rightarrow> 'p \<Rightarrow> bool \<times> 'p" where
  "EventStats_Marshalling P s p = wseq P (EventStats_items s) p"

definition EventStats_Unmarshalling ::
    "'p parcel_ops \<Rightarrow> bool \<Rightarrow> 'p \<Rightarrow> event_stats option \<times> 'p" where
  "EventStats_Unmarshalling P alloc p =
     (if \<not> alloc then (None, p) else
      let (ei, p) = pReadInt32 P p;
          (bt, p) = pReadInt64 P p;
          (et, p) = pReadInt64 P p;
          (lt, p) = pReadInt64 P p;
          (tt, p) = pReadInt64 P p;
          (co, p) = pReadInt32 P p;
          (na, p) = pReadString P p;
          (ui, p) = pReadInt32 P p
      in (Some (EventStats_default \<lparr> es_eventId := ei, es_beginTimeStamp := bt,
            es_endTimeStamp := et, es_lastEventTime := lt, es_totalTime := tt, es_count := co,
            es_name := na, es_uid := ui \<rparr>), p))"

lemma EventStats_Unmarshalling_items:
  assumes F: "parcel_fifo P content" and c: "content p = EventStats_items s @ r"
  shows "\<exists>q. EventStats_Unmarshalling P True p = (Some s, q) \<and> content q = r"
  using c by (auto simp: EventStats_Unmarshalling_def EventStats_default_def EventStats_items_def
      dest!: parcel_fifo_read [OF F])

text \<open>Adding a list of statistics of the same event: the counters sum up and the interval is the
hull of the intervals.\<close>

lemma EventStats_add_fields:
  assumes "es_eventId r = es_eventId s"
  shows "es_totalTime (EventStats_add r s) = es_totalTime s + es_totalTime r"
    "es_count (EventStats_add r s) = es_count s + es_count r"
    "es_beginTimeStamp (EventStats_add r s) = min (es_beginTimeStamp s) (es_beginTimeStamp r)"
    "es_endTimeStamp (EventStats_add r s) = max (es_endTimeStamp s) (es_endTimeStamp r)"
    "es_eventId (EventStats_add r s) = es_eventId s"
  using assms by (simp_all add: EventStats_add_def)

lemma EventStats_add_other [simp]: "es_eventId r \<noteq> es_eventId s \<Longrightarrow> EventStats_add r s = s"
  by (simp add: EventStats_add_def)

lemma EventStats_add_eventId [simp]: "es_eventId (EventStats_add r s) = es_eventId s"
  by (simp add: EventStats_add_def Let_def)

lemma EventStats_fold_eventId [simp]: "es_eventId (fold EventStats_add rs s) = es_eventId s"
  by (induction rs arbitrary: s) simp_all

lemma EventStats_fold_add:
  "\<forall>r \<in> set rs. es_eventId r = es_eventId s \<Longrightarrow>
   es_totalTime (fold EventStats_add rs s) = es_totalTime s + sum_list (map es_totalTime rs) \<and>
   es_count (fold EventStats_add rs s) = es_count s + sum_list (map es_count rs) \<and>
   es_beginTimeStamp (fold EventStats_add rs s) = Min (set (map es_beginTimeStamp (s # rs))) \<and>
   es_endTimeStamp (fold EventStats_add rs s) = Max (set (map es_endTimeStamp (s # rs)))"
proof (induction rs arbitrary: s)
  case (Cons r rs)
  have same: "es_eventId (EventStats_add r s) = es_eventId s"
    using Cons.prems EventStats_add_fields(5) by simp
  have f: "\<forall>r' \<in> set rs. es_eventId r' = es_eventId (EventStats_add r s)"
    using Cons.prems same by simp
  have "es_eventId r = es_eventId s" using Cons.prems by simp
  note g = EventStats_add_fields [OF this]
  show ?case
    using Cons.IH [OF f]
    by (cases "rs = []") (simp_all add: g min.assoc max.assoc min.left_commute max.left_commute)
qed simp

section \<open>High-frequency hours\<close>

record high_freq_period =
  hf_bundleName :: string
  hf_highFreqHours :: "int list"

definition MAX_HOUR_NUM :: nat where "MAX_HOUR_NUM = 24"

definition HighFrequencyPeriod_default :: high_freq_period where
  "HighFrequencyPeriod_default = \<lparr> hf_bundleName = '''', hf_highFreqHours = [] \<rparr>"

definition HighFrequencyPeriod_Marshalling ::
    "'p parcel_ops \<Rightarrow> high_freq_period \<Rightarrow> 'p \<Rightarrow> bool \<times> 'p" where
  "HighFrequencyPeriod_Marshalling P h p =
     (if length (hf_highFreqHours h) > MAX_HOUR_NUM then (False, p)
      else case wseq P [PStr (hf_bundleName h), PU32 (length (hf_highFreqHours h))] p of
        (True, p') \<Rightarrow> wseq P (map PI32 (hf_highFreqHours h)) p'
      | (False, p') \<Rightarrow> (False, p'))"

text \<open>The reading loop runs \<open>size\<close> times and gives up at the first failing read.\<close>

fun read_hours :: "'p parcel_ops \<Rightarrow> nat \<Rightarrow> int list \<Rightarrow> 'p \<Rightarrow> int list option \<times> 'p" where
  "read_hours P 0 hs p = (Some hs, p)"
| "read_hours P (Suc k) hs p =
     (case pTryReadInt32 P p of
        (None, p') \<Rightarrow> (None, p')
      | (Some h, p') \<Rightarrow> read_hours P k (hs @ [h]) p')"

definition HighFrequencyPeriod_Unmarshalling ::
    "'p parcel_ops \<Rightarrow> bool \<Rightarrow> 'p \<Rightarrow> high_freq_period option \<times> 'p" where
  "HighFrequencyPeriod_Unmarshalling P alloc p =
     (if \<not> alloc then (None, p) else
      let (bn, p) = pReadString P p
      in case pTryReadUint32 P p of
           (None, p) \<Rightarrow> (None, p)
         | (Some sz, p) \<Rightarrow>
             (if sz > MAX_HOUR_NUM then (None, p)
              else (case read_hours P sz [] p of
                 (None, p) \<Rightarrow> (None, p)
               | (Some hs, p) \<Rightarrow> (Some \<lparr> hf_bundleName = bn, hf_highFreqHours = hs \<rparr>, p))))"

fun join_hours :: "int list \<Rightarrow> string" where
  "join_hours [] = ''''"
| "join_hours [h] = int_to_string h"
| "join_hours (h # hs) = int_to_string h @ '', '' @ join_hours hs"

definition HighFrequencyPeriod_ToString :: "high_freq_period \<Rightarrow> string" where
  "HighFrequencyPeriod_ToString h = ''bundle name is '' @ hf_bundleName h @ '', highFreqHours_ is '' @
     join_hours (hf_highFreqHours h) @ [CHR 0x0A]"

lemma read_hours_items:
  assumes F: "parcel_fifo P content"
  shows "content p = map PI32 hs @ r \<Longrightarrow>
    \<exists>q. read_hours P (length hs) acc p = (Some (acc @ hs), q) \<and> content q = r"
proof (induction hs arbitrary: acc p)
  case (Cons h hs)
  then obtain q where "pTryReadInt32 P p = (Some h, q)" "content q = map PI32 hs @ r"
    using parcel_fifo_try(2) [OF F, of p h "map PI32 hs @ r"] by auto
  then show ?case
    using Cons.IH [of q "acc @ [h]"] by simp
qed simp

lemma HighFrequencyPeriod_parcel:
  assumes F: "parcel_fifo P content" and c: "content p = []"
    and w: "HighFrequencyPeriod_Marshalling P h p = (True, p')"
  shows "\<exists>q. HighFrequencyPeriod_Unmarshalling P True p' = (Some h, q) \<and> content q = []"
proof -
  have n: "length (hf_highFreqHours h) \<le> MAX_HOUR_NUM"
    using w by (auto simp: HighFrequencyPeriod_Marshalling_def split: if_splits)
  obtain p1 where p1: "wseq P [PStr (hf_bundleName h), PU32 (length (hf_highFreqHours h))] p = (True, p1)"
    "wseq P (map PI32 (hf_highFreqHours h)) p1 = (True, p')"
    using w by (auto simp: HighFrequencyPeriod_Marshalling_def split: if_splits prod.splits bool.splits)
  have c': "content p' = PStr (hf_bundleName h) # PU32 (length (hf_highFreqHours h)) #
      map PI32 (hf_highFreqHours h)"
    using parcel_fifo_wseq [OF F p1(1)] parcel_fifo_wseq [OF F p1(2)] c by simp
  obtain q1 where q1: "pReadString P p' = (hf_bundleName h, q1)"
    "content q1 = PU32 (length (hf_highFreqHours h)) # map PI32 (hf_highFreqHours h)"
    using parcel_fifo_read(1) [OF F c'] by blast
  obtain q2 where q2: "pTryReadUint32 P q1 = (Some (length (hf_highFreqHours h)), q2)"
    "content q2 = map PI32 (hf_highFreqHours h)"
    using parcel_fifo_try(1) [OF F q1(2)] by blast
  show ?thesis
    using read_hours_items [OF F, of q2 "hf_highFreqHours h" "[]" "[]"] q2 n
    by (auto simp: HighFrequencyPeriod_Unmarshalling_def q1)
qed

section \<open>Properties\<close>

text \<open>Merging device-event statistics is an aggregation: folding \<open>add\<close> over any list of
statistics of the same event sums the counts and the durations, takes the smallest begin and the
largest end time, and statistics of another event leave the accumulator unchanged.\<close>

theorem event_stats_merge:
  assumes "\<forall>r \<in> set rs. es_eventId r = es_eventId s" and "es_eventId x \<noteq> es_eventId s"
  shows "es_totalTime (fold EventStats_add rs s) = es_totalTime s + sum_list (map es_totalTime rs) \<and>
    es_count (fold EventStats_add rs s) = es_count s + sum_list (map es_count rs) \<and>
    es_beginTimeStamp (fold EventStats_add rs s) = Min (set (map es_beginTimeStamp (s # rs))) \<and>
    es_endTimeStamp (fold EventStats_add rs s) = Max (set (map es_endTimeStamp (s # rs))) \<and>
    EventStats_add x (fold EventStats_add rs s) = fold EventStats_add rs s"
  using EventStats_fold_add [OF assms(1)] assms(2) by simp

theorem event_stats_merge_witness:
  "es_totalTime (fold EventStats_add
     [EventStats_default \<lparr> es_totalTime := 5 \<rparr>, EventStats_default \<lparr> es_totalTime := 7 \<rparr>]
     EventStats_default) = 12"
proof -
  let ?a = "EventStats_default \<lparr> es_totalTime := 5 \<rparr>" and ?b = "EventStats_default \<lparr> es_totalTime := 7 \<rparr>"
  have "\<forall>r \<in> set [?a, ?b]. es_eventId r = es_eventId EventStats_default"
    "es_eventId (EventStats_default \<lparr> es_eventId := 3 \<rparr>) \<noteq> es_eventId EventStats_default"
    by (simp_all add: EventStats_default_def)
  note event_stats_merge [OF this, THEN conjunct1]
  then show ?thesis
    by (simp add: EventStats_default_def)
qed

text \<open>Nothing is lost on the wire for the three record types of query results: an event, an
event statistic and a high-frequency period written to an empty parcel are read back unchanged and
leave the parcel empty; a period of more than 24 hours is refused by the writer.\<close>

theorem query_records_parcel_roundtrip:
  assumes "parcel_fifo P content" "content p = []"
  shows "(Event_Marshalling P e p = (True, p1) \<longrightarrow>
      (\<exists>q. Event_Unmarshalling P True p1 = (Some e, q) \<and> content q = [])) \<and>
    (EventStats_Marshalling P s p = (True, p2) \<longrightarrow>
      (\<exists>q. EventStats_Unmarshalling P True p2 = (Some s, q) \<and> content q = [])) \<and>
    (HighFrequencyPeriod_Marshalling P h p = (True, p3) \<longrightarrow>
      (\<exists>q. HighFrequencyPeriod_Unmarshalling P True p3 = (Some h, q) \<and> content q = [])) \<and>
    (length (hf_highFreqHours h) > 24 \<longrightarrow> \<not> fst (HighFrequencyPeriod_Marshalling P h p))"
proof (intro conjI impI)
  note F = assms(1)
  show "\<exists>q. Event_Unmarshalling P True p1 = (Some e, q) \<and> content q = []"
    if "Event_Marshalling P e p = (True, p1)"
    using that parcel_fifo_wseq [OF F, of "Event_items e" p p1] assms(2)
    by (intro Event_Unmarshalling_items [OF F]) (simp add: Event_Marshalling_def)
  show "\<exists>q. EventStats_Unmarshalling P True p2 = (Some s, q) \<and> content q = []"
    if "EventStats_Marshalling P s p = (True, p2)"
    using that parcel_fifo_wseq [OF F, of "EventStats_items s" p p2] assms(2)
    by (intro EventStats_Unmarshalling_items [OF F]) (simp add: EventStats_Marshalling_def)
  show "\<exists>q. HighFrequencyPeriod_Unmarshalling P True p3 = (Some h, q) \<and> content q = []"
    if "HighFrequencyPeriod_Marshalling P h p = (True, p3)"
    using HighFrequencyPeriod_parcel [OF F assms(2) that] .
  show "\<not> fst (HighFrequencyPeriod_Marshalling P h p)" if "length (hf_highFreqHours h) > 24"
    using that by (simp add: HighFrequencyPeriod_Marshalling_def MAX_HOUR_NUM_def)
qed

theorem query_records_parcel_roundtrip_witness:
  "\<exists>q. HighFrequencyPeriod_Unmarshalling list_parcel True [PStr ''app'', PU32 2, PI32 8, PI32 20] =
     (Some \<lparr> hf_bundleName = ''app'', hf_highFreqHours = [8, 20] \<rparr>, q)"
  using query_records_parcel_roundtrip [OF list_parcel_fifo, of "[]" Event_default "[]"
      EventStats_default "[]" "\<lparr> hf_bundleName = ''app'', hf_highFreqHours = [8, 20] \<rparr>"
      "[PStr ''app'', PU32 2, PI32 8, PI32 20]"]
  by (simp add: HighFrequencyPeriod_Marshalling_def MAX_HOUR_NUM_def list_parcel_wseq
      del: wseq.simps)

end
