(* ===== verification/EventList.thy ===== *)
theory EventList
  imports Event "HOL-Library.Multiset"
begin

text \<open>\<open>BundleActiveEventList\<close> and the stand-alone binary search (\<open>services/packageusage\<close>,
\<open>services/common\<close>): the list of events of a period ordered by time stamp, with its binary search.\<close>

type_synonym event_list = "event list"

abbreviation ev_sorted :: "event_list \<Rightarrow> bool" where
  "ev_sorted es \<equiv> sorted (map ev_timeStamp es)"

section \<open>Operations\<close>

definition EventList_Size :: "event_list \<Rightarrow> int" where
  "EventList_Size es = int (length es)"

definition EventList_Clear :: "event_list \<Rightarrow> event_list" where
  "EventList_Clear es = []"

text \<open>The search loop of \<open>FindBestIndex\<close>, on the bounds \<open>lo\<close> and \<open>hi\<close> and the best index so far.\<close>

function FindBestIndex_loop :: "event_list \<Rightarrow> int \<Rightarrow> int \<Rightarrow> int \<Rightarrow> int \<Rightarrow> int" where
  "FindBestIndex_loop es t lo hi result =
     (if lo \<le> hi then
        let mid = (hi - lo) div 2 + lo;
            midTimeStamp = ev_timeStamp (es ! nat mid)
        in if midTimeStamp \<ge> t then FindBestIndex_loop es t lo (mid - 1) mid
           else FindBestIndex_loop es t (mid + 1) hi result
      else result)"
  by pat_completeness auto
termination
  by (relation "measure (\<lambda>(es, t, lo, hi, result). nat (hi - lo + 1))") auto

declare FindBestIndex_loop.simps [simp del]

definition FindBestIndex :: "int \<Rightarrow> event_list \<Rightarrow> int" where
  "FindBestIndex timeStamp es =
     FindBestIndex_loop es timeStamp 0 (int (length es) - 1) (int (length es))"

definition EventList_Insert :: "event \<Rightarrow> event_list \<Rightarrow> event_list" where
  "EventList_Insert event es =
     (if length es = 0 \<or> ev_timeStamp event \<ge> ev_timeStamp (last es) then es @ [event]
      else let insertIdx = nat (FindBestIndex (ev_timeStamp event) es)
           in take insertIdx es @ event # drop insertIdx es)"

definition EventList_Merge :: "event_list \<Rightarrow> event_list \<Rightarrow> event_list" where
  "EventList_Merge right es = fold EventList_Insert right es"

text \<open>\<open>BundleActiveBinarySearch::BinarySearch\<close> on the list of table start times.\<close>

function BinarySearch_loop :: "int list \<Rightarrow> int \<Rightarrow> int \<Rightarrow> int \<Rightarrow> int" where
  "BinarySearch_loop xs target low high =
     (if low \<le> high then
        let mid = (low + high) div 2;
            midValue = xs ! nat mid
        in if midValue < target then BinarySearch_loop xs target (mid + 1) high
           else if midValue > target then BinarySearch_loop xs target low (mid - 1)
           else mid
      else - 1)"
  by pat_completeness auto
termination
  by (relation "measure (\<lambda>(xs, target, low, high). nat (high - low + 1))") auto

declare BinarySearch_loop.simps [simp del]

definition BinarySearch :: "int list \<Rightarrow> int \<Rightarrow> int" where
  "BinarySearch tableNameArray targetValue =
     BinarySearch_loop tableNameArray targetValue 0 (int (length tableNameArray) - 1)"

section \<open>The searches\<close>

text \<open>The number of events strictly before \<open>t\<close>: in a sorted list, the first index at or after \<open>t\<close>.\<close>

definition before_count :: "int \<Rightarrow> event_list \<Rightarrow> nat" where
  "before_count t es = length (takeWhile (\<lambda>e. ev_timeStamp e < t) es)"

lemma before_count_nth:
  assumes "ev_sorted es" "i < length es"
  shows "ev_timeStamp (es ! i) < t \<longleftrightarrow> i < before_count t es"
proof
  assume "i < before_count t es"
  then show "ev_timeStamp (es ! i) < t"
    unfolding before_count_def by (metis nth_mem set_takeWhileD takeWhile_nth)
next
  assume a: "ev_timeStamp (es ! i) < t"
  show "i < before_count t es"
  proof (rule ccontr)
    assume n: "\<not> i < before_count t es"
    then have b: "before_count t es < length es" using assms by simp
    have "\<not> ev_timeStamp (es ! before_count t es) < t"
      using b nth_length_takeWhile unfolding before_count_def by blast
    moreover have "ev_timeStamp (es ! before_count t es) \<le> ev_timeStamp (es ! i)"
      using sorted_nth_mono [OF assms(1), of "before_count t es" i] assms(2) n b by simp
    ultimately show False using a by simp
  qed
qed

lemma FindBestIndex_loop_correct:
  "ev_sorted es \<Longrightarrow> 0 \<le> lo \<Longrightarrow> hi < int (length es) \<Longrightarrow> lo \<le> int (before_count t es) \<Longrightarrow>
    int (before_count t es) \<le> hi + 1 \<Longrightarrow> lo \<le> hi + 1 \<Longrightarrow>
    (hi + 1 < int (length es) \<longrightarrow> result = hi + 1) \<Longrightarrow> (hi + 1 = int (length es) \<longrightarrow> result = int (length es)) \<Longrightarrow>
    FindBestIndex_loop es t lo hi result = int (before_count t es)"
proof (induction es t lo hi result rule: FindBestIndex_loop.induct)
  case (1 es t lo hi result)
  let ?mid = "(hi - lo) div 2 + lo"
  show ?case
  proof (cases "lo \<le> hi")
    case True
    then have mid: "lo \<le> ?mid" "?mid \<le> hi" by auto
    then have len: "nat ?mid < length es" using "1.prems" by simp
    note c = before_count_nth [OF "1.prems"(1) len, of t]
    show ?thesis
    proof (cases "ev_timeStamp (es ! nat ?mid) \<ge> t")
      case ge: True
      then have "before_count t es \<le> nat ?mid" using c by simp
      then have "FindBestIndex_loop es t lo (?mid - 1) ?mid = int (before_count t es)"
        using "1.prems" mid True ge by (intro "1.IH"(1)) auto
      then show ?thesis
        using True ge by (subst FindBestIndex_loop.simps) (simp add: Let_def)
    next
      case lt: False
      then have "nat ?mid < before_count t es" using c by simp
      then have "FindBestIndex_loop es t (?mid + 1) hi result = int (before_count t es)"
        using "1.prems" mid True lt by (intro "1.IH"(2)) auto
      then show ?thesis
        using True lt by (subst FindBestIndex_loop.simps) (simp add: Let_def)
    qed
  next
    case False
    then show ?thesis
      using "1.prems" by (subst FindBestIndex_loop.simps) auto
  qed
qed

lemma FindBestIndex_correct: "ev_sorted es \<Longrightarrow> FindBestIndex t es = int (before_count t es)"
proof -
  assume s: "ev_sorted es"
  have "before_count t es \<le> length es"
    by (simp add: before_count_def length_takeWhile_le)
  then show ?thesis
    unfolding FindBestIndex_def using s by (intro FindBestIndex_loop_correct) auto
qed

text \<open>Whatever the list, the index answered is a valid insertion point.\<close>

lemma FindBestIndex_loop_range:
  "0 \<le> lo \<Longrightarrow> hi < n \<Longrightarrow> 0 \<le> result \<Longrightarrow> result \<le> n \<Longrightarrow>
   0 \<le> FindBestIndex_loop es t lo hi result \<and> FindBestIndex_loop es t lo hi result \<le> n"
proof (induction es t lo hi result rule: FindBestIndex_loop.induct)
  case (1 es t lo hi result)
  let ?mid = "(hi - lo) div 2 + lo"
  have mid: "lo \<le> hi \<Longrightarrow> lo \<le> ?mid \<and> ?mid \<le> hi" by auto
  have u: "FindBestIndex_loop es t lo hi result =
    (if lo \<le> hi then if ev_timeStamp (es ! nat ?mid) \<ge> t then FindBestIndex_loop es t lo (?mid - 1) ?mid
       else FindBestIndex_loop es t (?mid + 1) hi result else result)"
    by (subst FindBestIndex_loop.simps) (simp add: Let_def)
  show ?case
  proof (cases "lo \<le> hi")
    case True
    then show ?thesis
      unfolding u using "1.IH"(1) [OF True refl refl] "1.IH"(2) [OF True refl refl] "1.prems" mid
      by (cases "ev_timeStamp (es ! nat ?mid) \<ge> t") simp_all
  next
    case False
    then show ?thesis unfolding u using "1.prems" by simp
  qed
qed

lemma FindBestIndex_range: "0 \<le> FindBestIndex t es \<and> FindBestIndex t es \<le> int (length es)"
  unfolding FindBestIndex_def by (rule FindBestIndex_loop_range) auto

section \<open>Insertion and merging\<close>

lemma take_before: "take (before_count t es) es = takeWhile (\<lambda>e. ev_timeStamp e < t) es"
  unfolding before_count_def by (rule takeWhile_eq_take [symmetric])

lemma drop_before: "drop (before_count t es) es = dropWhile (\<lambda>e. ev_timeStamp e < t) es"
  unfolding before_count_def by (rule dropWhile_eq_drop [symmetric])

lemma EventList_Insert_mset [simp]: "mset (EventList_Insert e es) = add_mset e (mset es)"
proof -
  have "mset (take k es @ e # drop k es) = add_mset e (mset (take k es @ drop k es))" for k
    unfolding mset_append by simp
  then show ?thesis
    by (simp add: EventList_Insert_def Let_def)
qed

lemma EventList_Insert_set [simp]: "set (EventList_Insert e es) = insert e (set es)"
  by (metis EventList_Insert_mset set_mset_add_mset_insert set_mset_mset)

lemma sorted_split:
  assumes "ev_sorted es"
  shows "(\<forall>x \<in> set (takeWhile (\<lambda>e. ev_timeStamp e < t) es). ev_timeStamp x < t) \<and>
    (\<forall>x \<in> set (dropWhile (\<lambda>e. ev_timeStamp e < t) es). t \<le> ev_timeStamp x)"
  using assms by (induction es) (auto dest: set_takeWhileD)

lemma ev_sorted_insert_at:
  assumes "ev_sorted es"
  shows "ev_sorted (takeWhile (\<lambda>x. ev_timeStamp x < ev_timeStamp e) es @ e #
    dropWhile (\<lambda>x. ev_timeStamp x < ev_timeStamp e) es)"
proof -
  let ?p = "\<lambda>x. ev_timeStamp x < ev_timeStamp e"
  have "ev_sorted (takeWhile ?p es @ dropWhile ?p es)"
    using assms by simp
  then show ?thesis
    using sorted_split [OF assms, of "ev_timeStamp e"]
    unfolding map_append sorted_append by force
qed

lemma EventList_Insert_position:
  assumes "ev_sorted es"
  shows "EventList_Insert e es =
    (if es = [] \<or> ev_timeStamp (last es) \<le> ev_timeStamp e then es @ [e]
     else takeWhile (\<lambda>x. ev_timeStamp x < ev_timeStamp e) es @ e #
       dropWhile (\<lambda>x. ev_timeStamp x < ev_timeStamp e) es)"
  by (simp add: EventList_Insert_def FindBestIndex_correct [OF assms] take_before drop_before)

lemma EventList_Insert_sorted [simp]: "ev_sorted es \<Longrightarrow> ev_sorted (EventList_Insert e es)"
proof -
  assume s: "ev_sorted es"
  have "ev_sorted (es @ [e])" if "es = [] \<or> ev_timeStamp (last es) \<le> ev_timeStamp e"
    using s that by (cases es rule: rev_cases) (auto simp: sorted_append)
  then show ?thesis
    unfolding EventList_Insert_position [OF s] using ev_sorted_insert_at [OF s] by simp
qed

section \<open>The interface of the log\<close>

text \<open>What the period statistics and the queries rely on: an insertion keeps the order and adds
exactly one entry, and the search splits the log at a point in time.\<close>

locale event_log =
  fixes ins :: "'e \<Rightarrow> 'l \<Rightarrow> 'l"
    and first_at :: "int \<Rightarrow> 'l \<Rightarrow> nat"
    and items :: "'l \<Rightarrow> 'e list"
    and time :: "'e \<Rightarrow> int"
    and ok :: "'l \<Rightarrow> bool"
  assumes ok_ins: "ok l \<Longrightarrow> ok (ins e l)"
    and items_ins: "mset (items (ins e l)) = add_mset e (mset (items l))"
    and sorted_items: "ok l \<Longrightarrow> sorted (map time (items l))"
    and first_at_split: "ok l \<Longrightarrow> drop (first_at t l) (items l) = dropWhile (\<lambda>e. time e < t) (items l)"
begin

lemma ok_fold: "ok l \<Longrightarrow> ok (fold ins es l)"
  by (induction es arbitrary: l) (auto intro: ok_ins)

lemma items_fold: "mset (items (fold ins es l)) = mset es + mset (items l)"
  by (induction es arbitrary: l) (auto simp: items_ins)

lemma since_set: "ok l \<Longrightarrow> set (drop (first_at t l) (items l)) = {e \<in> set (items l). t \<le> time e}"
proof -
  assume "ok l"
  moreover have "sorted (map time xs) \<Longrightarrow> set (dropWhile (\<lambda>e. time e < t) xs) = {e \<in> set xs. t \<le> time e}" for xs
    by (induction xs) auto
  ultimately show ?thesis
    using first_at_split sorted_items by simp
qed

lemma since_merge:
  assumes "ok l"
  shows "set (drop (first_at t (fold ins es l)) (items (fold ins es l))) =
    {e \<in> set es \<union> set (items l). t \<le> time e}"
proof -
  have "set (items (fold ins es l)) = set es \<union> set (items l)"
    by (metis items_fold set_mset_mset set_mset_union)
  then show ?thesis
    using since_set [OF ok_fold [OF assms], of t es] by simp
qed

end

interpretation el: event_log EventList_Insert "\<lambda>t es. nat (FindBestIndex t es)" "\<lambda>es. es" ev_timeStamp ev_sorted
  by unfold_locales (simp_all add: FindBestIndex_correct drop_before)

section \<open>The plain binary search\<close>

lemma BinarySearch_loop_correct:
  "sorted xs \<Longrightarrow> distinct xs \<Longrightarrow> 0 \<le> low \<Longrightarrow> high < int (length xs) \<Longrightarrow>
   \<forall>i < length xs. xs ! i = target \<longrightarrow> low \<le> int i \<and> int i \<le> high \<Longrightarrow>
   (if target \<in> set xs
    then 0 \<le> BinarySearch_loop xs target low high \<and>
      BinarySearch_loop xs target low high < int (length xs) \<and>
      xs ! nat (BinarySearch_loop xs target low high) = target
    else BinarySearch_loop xs target low high = - 1)"
proof (induction xs target low high rule: BinarySearch_loop.induct)
  case (1 xs target low high)
  let ?mid = "(low + high) div 2"
  have u: "BinarySearch_loop xs target low high =
    (if low \<le> high then if xs ! nat ?mid < target then BinarySearch_loop xs target (?mid + 1) high
       else if xs ! nat ?mid > target then BinarySearch_loop xs target low (?mid - 1) else ?mid
     else - 1)"
    by (subst BinarySearch_loop.simps) (simp add: Let_def)
  show ?case
  proof (cases "low \<le> high")
    case False
    then have "target \<notin> set xs"
      using "1.prems"(5) by (auto simp: in_set_conv_nth)
    then show ?thesis
      unfolding u using False by simp
  next
    case True
    have mid: "low \<le> ?mid" "?mid \<le> high" using True by auto
    then have len: "nat ?mid < length xs" "0 \<le> ?mid" using "1.prems" by auto
    have mono: "xs ! i \<le> xs ! j" if "i \<le> j" "j < length xs" for i j
      using sorted_nth_mono [OF "1.prems"(1)] that by simp
    consider (lt) "xs ! nat ?mid < target" | (gt) "xs ! nat ?mid > target" | (eq) "xs ! nat ?mid = target"
      by linarith
    then show ?thesis
    proof cases
      case lt
      have "\<forall>i < length xs. xs ! i = target \<longrightarrow> ?mid + 1 \<le> int i \<and> int i \<le> high"
        using "1.prems"(5) mono lt len by (smt (verit) nat_le_iff le_nat_iff)
      then show ?thesis
        unfolding u using "1.IH"(1) [OF True refl refl lt] "1.prems" mid lt True
        by simp
    next
      case gt
      have "\<forall>i < length xs. xs ! i = target \<longrightarrow> low \<le> int i \<and> int i \<le> ?mid - 1"
        using "1.prems"(5) mono gt len by (smt (verit) nat_le_iff le_nat_iff)
      then show ?thesis
        unfolding u using "1.IH"(2) [OF True refl refl _ gt] "1.prems" mid gt True
        by simp
    next
      case eq
      then have "target \<in> set xs" using len nth_mem by blast
      then show ?thesis
        unfolding u using eq True len by simp
    qed
  qed
qed

section \<open>Properties\<close>

text \<open>C27: The log of a period is always in time order and complete: merging any list of events, in
any order, into an ordered log gives an ordered log with exactly the old and the new events, and
the events from \<open>FindBestIndex(t)\<close> on are exactly those at or after \<open>t\<close>.\<close>

theorem event_log_ordered_complete:
  assumes "ev_sorted es"
  shows "ev_sorted (EventList_Merge new es) \<and>
    mset (EventList_Merge new es) = mset new + mset es \<and>
    set (drop (nat (FindBestIndex t (EventList_Merge new es))) (EventList_Merge new es)) =
      {e \<in> set new \<union> set es. t \<le> ev_timeStamp e}"
  using el.ok_fold [OF assms] el.items_fold el.since_merge [OF assms]
  unfolding EventList_Merge_def by blast

theorem event_log_ordered_complete_witness:
  "ev_sorted (EventList_Merge [Event_time 13 30, Event_time 14 10, Event_time 13 20] [Event_time 17 15])"
  using event_log_ordered_complete [of "[Event_time 17 15]" "[Event_time 13 30, Event_time 14 10, Event_time 13 20]"]
  by simp

text \<open>\<open>FindBestIndex\<close> is a correct lower-bound search: on an ordered log it answers the number
of events before the time, and on every list it answers a valid insertion point.\<close>

theorem find_best_index_lower_bound:
  "0 \<le> FindBestIndex t es \<and> FindBestIndex t es \<le> int (length es) \<and>
   (ev_sorted es \<longrightarrow> (\<forall>i < length es. int i < FindBestIndex t es \<longleftrightarrow> ev_timeStamp (es ! i) < t))"
  using FindBestIndex_range FindBestIndex_correct before_count_nth by auto

theorem find_best_index_lower_bound_witness:
  "0 < FindBestIndex 25 [Event_time 13 10, Event_time 14 30]"
  using find_best_index_lower_bound [of 25 "[Event_time 13 10, Event_time 14 30]"]
  by (auto simp: Event_time_def)

text \<open>\<open>BinarySearch\<close> finds the index of a table start time: on a strictly ordered array it
answers the index of the target when it is there and \<open>-1\<close> when it is not.\<close>

theorem binary_search_correct:
  assumes "sorted xs" "distinct xs"
  shows "(if target \<in> set xs
    then 0 \<le> BinarySearch xs target \<and> BinarySearch xs target < int (length xs) \<and>
      xs ! nat (BinarySearch xs target) = target
    else BinarySearch xs target = - 1)"
  unfolding BinarySearch_def using assms by (intro BinarySearch_loop_correct) auto

theorem binary_search_correct_witness: "[10, 20, 30 :: int] ! nat (BinarySearch [10, 20, 30] 20) = 20"
  using binary_search_correct [of "[10, 20, 30]" 20] by simp

end
