(* ===== verification/UidRegistry.thy ===== *)
theory UidRegistry
  imports Prelude
begin

text \<open>\<open>BundleActiveBundleMgrHelper\<close> (\<open>services/common\<close>): which uids of a package were seen
(\<open>packageContainUidMap_\<close>), which bundles are launchers (\<open>launcherAppMap_\<close>), and the questions it passes on to
the bundle manager, which is a parameter.\<close>

section \<open>The uids of a package\<close>

type_synonym uidmap = "(string, int list) omap"

text \<open>\<open>std::map::operator[]\<close> creates an empty set for a name not seen before.\<close>

definition InsertPackageUid :: "string \<Rightarrow> int \<Rightarrow> uidmap \<Rightarrow> uidmap" where
  "InsertPackageUid bundleName uid m =
     (let s = (case om_find m bundleName of Some s \<Rightarrow> s | None \<Rightarrow> [])
      in om_insert bundleName (os_insert uid s) m)"

definition DeletePackageUid :: "string \<Rightarrow> int \<Rightarrow> uidmap \<Rightarrow> uidmap" where
  "DeletePackageUid bundleName uid m =
     (let s = os_erase uid (case om_find m bundleName of Some s \<Rightarrow> s | None \<Rightarrow> []);
          m1 = om_insert bundleName s m
      in if length s = 0 then om_erase bundleName m1 else m1)"

definition DeleteMemPackage :: "string \<Rightarrow> uidmap \<Rightarrow> uidmap" where
  "DeleteMemPackage bundleName m = om_erase bundleName m"

definition GetPackageUidSet :: "string \<Rightarrow> uidmap \<Rightarrow> int list" where
  "GetPackageUidSet bundleName m = (case om_find m bundleName of None \<Rightarrow> [] | Some s \<Rightarrow> s)"

text \<open>The abstract view: a relation between names and uids; no empty set is kept.\<close>

definition uid_rel :: "uidmap \<Rightarrow> (string \<times> int) set" where
  "uid_rel m = {(n, u). u \<in> set (GetPackageUidSet n m)}"

definition uidmap_inv :: "uidmap \<Rightarrow> bool" where
  "uidmap_inv m \<longleftrightarrow> om_wf m \<and> (\<forall>n s. om_find m n = Some s \<longrightarrow> os_wf s \<and> s \<noteq> [])"

lemma GetPackageUidSet_rel: "set (GetPackageUidSet n m) = {u. (n, u) \<in> uid_rel m}"
  by (simp add: uid_rel_def)

lemma uid_rel_Insert [simp]: "uid_rel (InsertPackageUid n u m) = insert (n, u) (uid_rel m)"
  by (auto simp: uid_rel_def InsertPackageUid_def GetPackageUidSet_def split: if_splits option.splits)

lemma uid_rel_Delete [simp]: "uid_rel (DeletePackageUid n u m) = uid_rel m - {(n, u)}"
  by (auto simp: uid_rel_def DeletePackageUid_def GetPackageUidSet_def Let_def os_erase_def filter_empty_conv
      split: if_splits option.splits)

lemma uid_rel_DeleteMem [simp]: "uid_rel (DeleteMemPackage n m) = {p \<in> uid_rel m. fst p \<noteq> n}"
  by (auto simp: uid_rel_def DeleteMemPackage_def GetPackageUidSet_def split: if_splits option.splits)

lemma os_wf_Nil [simp]: "os_wf []"
  by (simp add: os_wf_def)

lemma os_insert_nonempty [simp]: "os_insert x s \<noteq> []"
  by (metis empty_iff insert_iff list.set(1) os_insert_set)

lemma uidmap_inv_Insert [simp]: "uidmap_inv m \<Longrightarrow> uidmap_inv (InsertPackageUid n u m)"
  by (auto simp: uidmap_inv_def InsertPackageUid_def split: if_splits option.splits)

lemma uidmap_inv_Delete [simp]: "uidmap_inv m \<Longrightarrow> uidmap_inv (DeletePackageUid n u m)"
  by (auto simp: uidmap_inv_def DeletePackageUid_def Let_def split: if_splits option.splits)

lemma uidmap_inv_DeleteMem [simp]: "uidmap_inv m \<Longrightarrow> uidmap_inv (DeleteMemPackage n m)"
  by (auto simp: uidmap_inv_def DeleteMemPackage_def split: if_splits)

text \<open>The contract the statistics and the uninstall handling rely on.\<close>

locale uid_registry =
  fixes add :: "'n \<Rightarrow> 'u \<Rightarrow> 'm \<Rightarrow> 'm"
    and rem :: "'n \<Rightarrow> 'u \<Rightarrow> 'm \<Rightarrow> 'm"
    and rem_all :: "'n \<Rightarrow> 'm \<Rightarrow> 'm"
    and uids :: "'n \<Rightarrow> 'm \<Rightarrow> 'u list"
    and rel :: "'m \<Rightarrow> ('n \<times> 'u) set"
    and ok :: "'m \<Rightarrow> bool"
  assumes rel_add: "rel (add n u m) = insert (n, u) (rel m)"
    and rel_rem: "rel (rem n u m) = rel m - {(n, u)}"
    and rel_rem_all: "rel (rem_all n m) = {p \<in> rel m. fst p \<noteq> n}"
    and uids_rel: "set (uids n m) = {u. (n, u) \<in> rel m}"
    and ok_add: "ok m \<Longrightarrow> ok (add n u m)"
    and ok_rem: "ok m \<Longrightarrow> ok (rem n u m)"
    and ok_rem_all: "ok m \<Longrightarrow> ok (rem_all n m)"
begin

lemma rel_fold_rem: "rel (fold (rem n) us m) = rel m - {n} \<times> set us"
  by (induction us arbitrary: m) (auto simp: rel_rem)

text \<open>Removing all known uids one by one is removing the package.\<close>

lemma rem_every_uid: "rel (fold (rem n) (uids n m) m) = rel (rem_all n m)"
  by (auto simp: rel_fold_rem rel_rem_all uids_rel)

lemma rel_fold_add: "rel (fold (\<lambda>(n, u). add n u) ps m) = set ps \<union> rel m"
  by (induction ps arbitrary: m) (auto simp: rel_add split: prod.splits)

lemma ok_fold_add: "ok m \<Longrightarrow> ok (fold (\<lambda>(n, u). add n u) ps m)"
  by (induction ps arbitrary: m) (auto intro: ok_add split: prod.splits)

end

interpretation ur: uid_registry InsertPackageUid DeletePackageUid DeleteMemPackage GetPackageUidSet
    uid_rel uidmap_inv
  by unfold_locales (simp_all add: GetPackageUidSet_rel)

section \<open>Launcher applications\<close>

definition OPERATION_SYSTEM_LOCK :: string where "OPERATION_SYSTEM_LOCK = ''SYSTEM_LOCK''"
definition OPERATION_SYSTEM_UNLOCK :: string where "OPERATION_SYSTEM_UNLOCK = ''SYSTEM_UNLOCK''"
definition OPERATION_SYSTEM_SLEEP :: string where "OPERATION_SYSTEM_SLEEP = ''SYSTEM_SLEEP''"
definition OPERATION_SYSTEM_WAKEUP :: string where "OPERATION_SYSTEM_WAKEUP = ''SYSTEM_WAKEUP''"

text \<open>The bundle manager answers the launcher flag of one application, or of all of them;
\<open>None\<close> stands for a failed call.\<close>

record bundle_mgr =
  bm_info :: "string \<Rightarrow> int \<Rightarrow> bool option"
  bm_infos :: "(string \<times> bool) list option"

record launcher_state =
  la_isInit :: bool
  la_map :: "(string, bool) omap"

definition InitSystemEvent :: "launcher_state \<Rightarrow> launcher_state" where
  "InitSystemEvent s = s \<lparr> la_map :=
     om_insert OPERATION_SYSTEM_WAKEUP False (om_insert OPERATION_SYSTEM_SLEEP False
       (om_insert OPERATION_SYSTEM_UNLOCK False (om_insert OPERATION_SYSTEM_LOCK False (la_map s)))) \<rparr>"

definition InitLauncherAppMap :: "bundle_mgr \<Rightarrow> launcher_state \<Rightarrow> launcher_state" where
  "InitLauncherAppMap bm s =
     (let s1 = InitSystemEvent (s \<lparr> la_isInit := True \<rparr>)
      in case bm_infos bm of
           None \<Rightarrow> s1
         | Some appInfos \<Rightarrow>
             s1 \<lparr> la_map := fold (\<lambda>appInfo. om_insert (fst appInfo) (snd appInfo)) appInfos (la_map s1) \<rparr>)"

definition IsLauncherApp :: "bundle_mgr \<Rightarrow> string \<Rightarrow> int \<Rightarrow> launcher_state \<Rightarrow> bool \<times> launcher_state" where
  "IsLauncherApp bm bundleName userId s =
     (let s1 = (if \<not> la_isInit s then InitLauncherAppMap bm s else s)
      in case om_find (la_map s1) bundleName of
           Some b \<Rightarrow> (b, s1)
         | None \<Rightarrow>
             (case bm_info bm bundleName userId of
                None \<Rightarrow> (False, s1)
              | Some isLauncher \<Rightarrow> (isLauncher, s1 \<lparr> la_map := om_insert bundleName isLauncher (la_map s1) \<rparr>)))"

text \<open>Once answered from the bundle manager, the answer is cached: the next question about the
same bundle gives the same answer and leaves the cache alone.\<close>

lemma IsLauncherApp_cached:
  assumes "IsLauncherApp bm n u s = (b, s')" "bm_info bm n u \<noteq> None \<or> om_find (la_map s') n \<noteq> None"
  shows "IsLauncherApp bm' n u' s' = (b, s')"
proof -
  have "la_isInit s'"
    using assms(1)
    by (auto simp: IsLauncherApp_def InitLauncherAppMap_def InitSystemEvent_def Let_def
        split: option.splits if_splits)
  moreover have "om_find (la_map s') n = Some b"
    using assms by (auto simp: IsLauncherApp_def Let_def split: option.splits if_splits)
  ultimately show ?thesis
    by (simp add: IsLauncherApp_def)
qed

section \<open>Questions to the bundle manager\<close>

text \<open>The helper passes questions on to the bundle manager, which is not under src: a record of operations,
where \<open>None\<close> is a call that fails (the name of a uid is then left as it was). Of an application the
helper keeps three fields. Whether the proxy \<open>bundleMgr_\<close> is there is the state; what the system ability
manager answers is a record. The lock is held during each operation.\<close>

record application =
  ap_bundleName :: string
  ap_uid :: int
  ap_isLauncherApp :: bool

record ('f, 'b) bms =
  bs_name :: "int \<Rightarrow> string option"
  bs_app :: "string \<Rightarrow> 'f \<Rightarrow> int \<Rightarrow> application option"
  bs_apps :: "'f \<Rightarrow> int \<Rightarrow> application list option"
  bs_bundle :: "string \<Rightarrow> 'f \<Rightarrow> int \<Rightarrow> 'b option"

record bms_registry =
  br_manager :: bool
  br_object :: bool
  br_cast :: bool

definition Connect :: "bms_registry \<Rightarrow> bool \<Rightarrow> bool \<times> bool" where
  "Connect R bundleMgr =
     (if bundleMgr then (True, bundleMgr)
      else if \<not> br_manager R then (False, bundleMgr)
      else if \<not> br_object R then (False, bundleMgr)
      else (br_cast R, br_cast R))"

definition GetNameForUid ::
    "('f, 'b) bms \<Rightarrow> bms_registry \<Rightarrow> int \<Rightarrow> string \<Rightarrow> bool \<Rightarrow> string \<times> bool" where
  "GetNameForUid B R uid bundleName bundleMgr =
     (case Connect R bundleMgr of (connected, bundleMgr) \<Rightarrow>
        if \<not> connected \<or> \<not> bundleMgr then (bundleName, bundleMgr)
        else (case bs_name B uid of None \<Rightarrow> bundleName | Some name \<Rightarrow> name, bundleMgr))"

definition GetApplicationInfo ::
    "('f, 'b) bms \<Rightarrow> bms_registry \<Rightarrow> string \<Rightarrow> 'f \<Rightarrow> int \<Rightarrow> bool \<Rightarrow> application option \<times> bool" where
  "GetApplicationInfo B R appName flag userId bundleMgr =
     (case Connect R bundleMgr of (connected, bundleMgr) \<Rightarrow>
        if \<not> connected \<or> \<not> bundleMgr then (None, bundleMgr) else (bs_app B appName flag userId, bundleMgr))"

definition GetApplicationInfos ::
    "('f, 'b) bms \<Rightarrow> bms_registry \<Rightarrow> 'f \<Rightarrow> int \<Rightarrow> application list \<Rightarrow> bool \<Rightarrow> (bool \<times> application list) \<times> bool" where
  "GetApplicationInfos B R flag userId infos bundleMgr =
     (case Connect R bundleMgr of (connected, bundleMgr) \<Rightarrow>
        if \<not> connected \<or> \<not> bundleMgr then ((False, infos), bundleMgr)
        else case bs_apps B flag userId of
          None \<Rightarrow> ((False, infos), bundleMgr)
        | Some appInfos \<Rightarrow> ((True, infos @ appInfos), bundleMgr))"

definition GetBundleInfo ::
    "('f, 'b) bms \<Rightarrow> bms_registry \<Rightarrow> string \<Rightarrow> 'f \<Rightarrow> int \<Rightarrow> bool \<Rightarrow> 'b option \<times> bool" where
  "GetBundleInfo B R bundleName flag userId bundleMgr =
     (case Connect R bundleMgr of (connected, bundleMgr) \<Rightarrow>
        if \<not> connected \<or> \<not> bundleMgr then (None, bundleMgr) else (bs_bundle B bundleName flag userId, bundleMgr))"

text \<open>What the launcher cache sees of the bundle manager: the answers of the helper.\<close>

definition helper_view :: "('f, 'b) bms \<Rightarrow> bms_registry \<Rightarrow> 'f \<Rightarrow> int \<Rightarrow> bool \<Rightarrow> bundle_mgr" where
  "helper_view B R basic all_users bundleMgr = \<lparr>
     bm_info = (\<lambda>n u. map_option ap_isLauncherApp (fst (GetApplicationInfo B R n basic u bundleMgr))),
     bm_infos = (case fst (GetApplicationInfos B R basic all_users [] bundleMgr) of
        (ok, infos) \<Rightarrow> if ok then Some (map (\<lambda>a. (ap_bundleName a, ap_isLauncherApp a)) infos) else None) \<rparr>"

text \<open>A question connects at most; once connected the helper stays so, whatever becomes of the system ability
manager, and while it answers the same, the order of the questions does not matter.\<close>

lemma Connect_stable: "fst (Connect R (snd (Connect R c))) = fst (Connect R c)" "Connect R True = (True, True)"
  "fst (Connect R c) = snd (Connect R c)"
  by (simp_all add: Connect_def)

lemma helper_view_stable: "helper_view B R basic all_users (snd (Connect R c)) = helper_view B R basic all_users c"
  by (cases c; cases "br_manager R"; cases "br_object R"; cases "br_cast R")
    (simp_all add: helper_view_def GetApplicationInfo_def GetApplicationInfos_def Connect_def)

lemma helper_connected:
  "snd (GetApplicationInfo B R n f u c) = snd (Connect R c)" "snd (GetApplicationInfos B R f u infos c) = snd (Connect R c)"
  "snd (GetBundleInfo B R n f u c) = snd (Connect R c)" "snd (GetNameForUid B R uid n c) = snd (Connect R c)"
  by (simp_all add: GetApplicationInfo_def GetApplicationInfos_def GetBundleInfo_def GetNameForUid_def
      split: prod.split option.split)

section \<open>Properties\<close>

text \<open>The uid registry is a relation between package names and uids: inserting adds one pair,
deleting a uid removes one pair, deleting the package removes all its pairs, the set answered for a
name is its image, and a name whose last uid is deleted disappears from the map.\<close>

theorem uid_registry_relation:
  assumes "uidmap_inv m"
  shows "uid_rel (InsertPackageUid n u m) = insert (n, u) (uid_rel m) \<and>
    uid_rel (DeletePackageUid n u m) = uid_rel m - {(n, u)} \<and>
    uid_rel (fold (DeletePackageUid n) (GetPackageUidSet n m) m) = uid_rel (DeleteMemPackage n m) \<and>
    set (GetPackageUidSet n m) = {u. (n, u) \<in> uid_rel m} \<and>
    (uid_rel m \<inter> {n} \<times> UNIV \<subseteq> {(n, u)} \<longrightarrow> om_find (DeletePackageUid n u m) n = None)"
proof -
  have "om_find (DeletePackageUid n u m) n = None" if "uid_rel m \<inter> {n} \<times> UNIV \<subseteq> {(n, u)}"
  proof (rule ccontr)
    assume a: "om_find (DeletePackageUid n u m) n \<noteq> None"
    then obtain s where s: "om_find (DeletePackageUid n u m) n = Some s" by blast
    then have "s \<noteq> []" using uidmap_inv_Delete [OF assms] unfolding uidmap_inv_def by blast
    then obtain v where "v \<in> set s" by (cases s) auto
    then have "(n, v) \<in> uid_rel (DeletePackageUid n u m)"
      using s by (simp add: uid_rel_def GetPackageUidSet_def)
    then show False using that by auto
  qed
  then show ?thesis
    by (simp add: ur.rem_every_uid [unfolded uid_rel_DeleteMem] GetPackageUidSet_rel)
qed

theorem uid_registry_relation_witness:
  "om_find (DeletePackageUid ''a'' 5 [(''a'', [5])]) ''a'' = None"
proof -
  let ?m = "[(''a'', [5])] :: uidmap"
  have "uidmap_inv ?m"
    by (simp add: uidmap_inv_def os_wf_def om_wf_def)
  moreover have "uid_rel ?m \<inter> {''a''} \<times> UNIV \<subseteq> {(''a'', 5)}"
    by (auto simp: uid_rel_def GetPackageUidSet_def)
  ultimately show ?thesis
    using uid_registry_relation [of ?m "''a''" 5] by blast
qed

end
