(* ===== verification/Util.thy ===== *)
theory Util
  imports Prelude
begin

text \<open>\<open>BundleActiveUtil\<close> (\<open>utils\<close>) and \<open>BundleActiveCalendar\<close> (\<open>services/packageusage\<close>): map keys,
number parsing, sizes of folders, and the start of the day, week, month or year of a time stamp.
The C library's \<open>localtime\<close> and \<open>mktime\<close> depend on the time zone of the device and are given by a
record \<open>tz\<close>.\<close>

section \<open>Keys and numbers\<close>

definition GetBundleUsageKey :: "string \<Rightarrow> int \<Rightarrow> string" where
  "GetBundleUsageKey bundleName uid = bundleName @ int_to_string uid"

definition GetFFRTDelayTime :: "int \<Rightarrow> int" where
  "GetFFRTDelayTime delayTime = delayTime * 1000"

definition StringToInt32 :: "string \<Rightarrow> int" where
  "StringToInt32 str =
     (case strtol str of
        None \<Rightarrow> 0
      | Some (res, rest) \<Rightarrow>
          if out_of_range64 res \<or> rest \<noteq> [] \<or> res < INT32_MIN \<or> res > INT32_MAX then 0 else res)"

definition StringToInt64 :: "string \<Rightarrow> int" where
  "StringToInt64 str =
     (case strtol str of
        None \<Rightarrow> 0
      | Some (res, rest) \<Rightarrow> if out_of_range64 res \<or> rest \<noteq> [] then 0 else res)"

lemma StringToInt64_to_string:
  "INT64_MIN \<le> i \<Longrightarrow> i \<le> INT64_MAX \<Longrightarrow> StringToInt64 (int_to_string i) = i"
  by (simp add: StringToInt64_def strtol_int_to_string out_of_range64_def)

text \<open>The wall clock in milliseconds from the seconds answered by \<open>time()\<close>.\<close>

definition GetSystemTimeMs :: "int \<Rightarrow> int" where
  "GetSystemTimeMs now =
     (if now < 0 then 0
      else let tarDate = now * 1000 in if tarDate < 0 then - 1 else tarDate)"

section \<open>Folders\<close>

text \<open>What \<open>stat\<close> and \<open>readdir\<close> show of a path: nothing, a file with its size, a directory that
cannot be opened, or a directory with its entries.\<close>

datatype fsnode = NoEntry | RegularFile "64 word" | ClosedDir | OpenDir "(string \<times> fsnode) list"

fun GetFolderOrFileSize :: "fsnode \<Rightarrow> string \<Rightarrow> 64 word"
  and folder_entries :: "(string \<times> fsnode) list \<Rightarrow> string \<Rightarrow> 64 word \<Rightarrow> 64 word" where
  "GetFolderOrFileSize NoEntry target = 0"
| "GetFolderOrFileSize (RegularFile st_size) target = st_size"
| "GetFolderOrFileSize ClosedDir target = 0"
| "GetFolderOrFileSize (OpenDir es) target = folder_entries es target 0"
| "folder_entries [] target totalSize = totalSize"
| "folder_entries ((d_name, node) # es) target totalSize =
     (if d_name \<noteq> [] \<and> hd d_name = CHR ''.'' then folder_entries es target totalSize
      else case node of
          NoEntry \<Rightarrow> folder_entries es target totalSize
        | RegularFile st_size \<Rightarrow>
            if target = [] \<or> contains_str d_name target
            then folder_entries es target (totalSize + st_size)
            else folder_entries es target totalSize
        | _ \<Rightarrow> folder_entries es target (totalSize + GetFolderOrFileSize node ''''))"

text \<open>\<open>find_first_of\<close> from a position; \<open>None\<close> is \<open>npos\<close>.\<close>

definition find_char :: "char \<Rightarrow> string \<Rightarrow> nat \<Rightarrow> nat option" where
  "find_char c s start =
     (let k = start + length (takeWhile (\<lambda>d. d \<noteq> c) (drop start s))
      in if k < length s then Some k else None)"

definition GetPartitionName :: "string \<Rightarrow> string" where
  "GetPartitionName path =
     (case find_char (CHR 0x2F) path 0 of
        None \<Rightarrow> [CHR 0x2F] @ path
      | Some first \<Rightarrow>
          (case find_char (CHR 0x2F) path (first + 1) of
             None \<Rightarrow> if path ! 0 \<noteq> CHR 0x2F then [CHR 0x2F] @ take first path else path
           | Some second \<Rightarrow> take (second - first) path))"

section \<open>Logging\<close>

datatype BundleActiveLogLevel = DEBUG | INFO | WARN | ERROR | FATAL

primrec level_num :: "BundleActiveLogLevel \<Rightarrow> nat" where
  "level_num DEBUG = 0"
| "level_num INFO = 1"
| "level_num WARN = 2"
| "level_num ERROR = 3"
| "level_num FATAL = 4"

definition JudgeValidLevel :: "BundleActiveLogLevel \<Rightarrow> BundleActiveLogLevel \<Rightarrow> bool" where
  "JudgeValidLevel logLevel level \<longleftrightarrow> \<not> level_num level < level_num logLevel"

text \<open>\<open>None\<close> is the null pointer.\<close>

definition GetCurrFileName :: "string option \<Rightarrow> string" where
  "GetCurrFileName str =
     (case str of
        None \<Rightarrow> ''''
      | Some fullPath \<Rightarrow> if CHR 0x2F \<notin> set fullPath then ''''
          else rev (takeWhile (\<lambda>c. c \<noteq> CHR 0x2F) (rev fullPath)))"

lemma GetCurrFileName_name:
  "CHR 0x2F \<notin> set name \<Longrightarrow> GetCurrFileName (Some (dir @ CHR 0x2F # name)) = name"
  "CHR 0x2F \<notin> set name \<Longrightarrow> GetCurrFileName (Some name) = ''''"
proof -
  assume "CHR 0x2F \<notin> set name"
  then have "takeWhile (\<lambda>c. c \<noteq> CHR 0x2F) (rev name @ CHR 0x2F # rev dir) = rev name"
    by (subst takeWhile_append2) auto
  then show "GetCurrFileName (Some (dir @ CHR 0x2F # name)) = name"
    by (simp add: GetCurrFileName_def)
qed (simp add: GetCurrFileName_def)

section \<open>Start of a period\<close>

abbreviation (input) PERIOD_DAILY :: int where "PERIOD_DAILY \<equiv> 0"
abbreviation (input) PERIOD_WEEKLY :: int where "PERIOD_WEEKLY \<equiv> 1"
abbreviation (input) PERIOD_MONTHLY :: int where "PERIOD_MONTHLY \<equiv> 2"
abbreviation (input) PERIOD_YEARLY :: int where "PERIOD_YEARLY \<equiv> 3"
abbreviation (input) PERIOD_BEST :: int where "PERIOD_BEST \<equiv> 4"

definition ONE_DAY_TIME :: int where "ONE_DAY_TIME = 1 * 24 * 60 * 60 * 1000"
definition ONE_WEEK_TIME :: int where "ONE_WEEK_TIME = 7 * 24 * 60 * 60 * 1000"
definition ONE_MONTH_TIME :: int where "ONE_MONTH_TIME = 30 * 24 * 60 * 60 * 1000"
definition ONE_YEAR_TIME :: int where "ONE_YEAR_TIME = 365 * 24 * 60 * 60 * 1000"
definition ONE_DAY_TIME_DEBUG :: int where "ONE_DAY_TIME_DEBUG = 1 * 10 * 60 * 1000"
definition ONE_WEEK_TIME_DEBUG :: int where "ONE_WEEK_TIME_DEBUG = 1 * 20 * 60 * 1000"
definition ONE_MONTH_TIME_DEBUG :: int where "ONE_MONTH_TIME_DEBUG = 1 * 30 * 60 * 1000"
definition ONE_YEAR_TIME_DEBUG :: int where "ONE_YEAR_TIME_DEBUG = 1 * 40 * 60 * 1000"

lemmas period_lengths = ONE_DAY_TIME_def ONE_WEEK_TIME_def ONE_MONTH_TIME_def ONE_YEAR_TIME_def
  ONE_DAY_TIME_DEBUG_def ONE_WEEK_TIME_DEBUG_def ONE_MONTH_TIME_DEBUG_def ONE_YEAR_TIME_DEBUG_def

record tm =
  tm_year :: int
  tm_mon :: int
  tm_mday :: int
  tm_wday :: int
  tm_hour :: int
  tm_min :: int
  tm_sec :: int

record tz =
  tz_localtime :: "int \<Rightarrow> tm option"
  tz_mktime :: "tm \<Rightarrow> int"

definition GetIntervalTypeStartTime :: "tz \<Rightarrow> int \<Rightarrow> int \<Rightarrow> int" where
  "GetIntervalTypeStartTime z timeStamp intervalType =
     (if timeStamp \<le> 0 then 0
      else case tz_localtime z (cdiv timeStamp 1000) of
          None \<Rightarrow> 0
        | Some tm0 \<Rightarrow>
            let tm1 = tm0 \<lparr> tm_hour := 0, tm_min := 0, tm_sec := 0 \<rparr>
            in if intervalType = PERIOD_WEEKLY then
                 (let weekday = tm_wday tm1;
                      startOfDay = tz_mktime z tm1 * 1000;
                      weekDayTime = cmod (weekday + 6) 7 * ONE_DAY_TIME
                  in startOfDay - weekDayTime)
               else
                 let tm2 = (if intervalType = PERIOD_MONTHLY then tm1 \<lparr> tm_mday := 1 \<rparr>
                            else if intervalType = PERIOD_YEARLY then tm1 \<lparr> tm_mon := 0, tm_mday := 1 \<rparr>
                            else tm1)
                 in tz_mktime z tm2 * 1000)"

section \<open>The calendar\<close>

record calendar =
  ca_time :: int
  ca_day :: int
  ca_week :: int
  ca_month :: int
  ca_year :: int
  ca_debug :: bool

definition Calendar_new :: "int \<Rightarrow> calendar" where
  "Calendar_new timeStamp = \<lparr> ca_time = timeStamp, ca_day = ONE_DAY_TIME, ca_week = ONE_WEEK_TIME,
     ca_month = ONE_MONTH_TIME, ca_year = ONE_YEAR_TIME, ca_debug = False \<rparr>"

definition TruncateToDay :: "tz \<Rightarrow> calendar \<Rightarrow> calendar" where
  "TruncateToDay z c =
     (if ca_debug c then c \<lparr> ca_time := ca_time c - cmod (ca_time c) (ca_day c) \<rparr>
      else let dayStartTime = GetIntervalTypeStartTime z (ca_time c) PERIOD_DAILY
           in if dayStartTime = 0 then c else c \<lparr> ca_time := dayStartTime \<rparr>)"

definition TruncateToWeek :: "tz \<Rightarrow> calendar \<Rightarrow> calendar" where
  "TruncateToWeek z c =
     (if ca_debug c then c \<lparr> ca_time := ca_time c - cmod (ca_time c) (ca_week c) \<rparr>
      else let weekStartTime = GetIntervalTypeStartTime z (ca_time c) PERIOD_WEEKLY
           in if weekStartTime = 0 then c else c \<lparr> ca_time := weekStartTime \<rparr>)"

definition TruncateToMonth :: "tz \<Rightarrow> calendar \<Rightarrow> calendar" where
  "TruncateToMonth z c =
     (if ca_debug c then c \<lparr> ca_time := ca_time c - cmod (ca_time c) (ca_month c) \<rparr>
      else let monthStartTime = GetIntervalTypeStartTime z (ca_time c) PERIOD_MONTHLY
           in if monthStartTime = 0 then c else c \<lparr> ca_time := monthStartTime \<rparr>)"

definition TruncateToYear :: "tz \<Rightarrow> calendar \<Rightarrow> calendar" where
  "TruncateToYear z c =
     (if ca_debug c then c \<lparr> ca_time := ca_time c - cmod (ca_time c) (ca_year c) \<rparr>
      else let yearStartTime = GetIntervalTypeStartTime z (ca_time c) PERIOD_YEARLY
           in if yearStartTime = 0 then c else c \<lparr> ca_time := yearStartTime \<rparr>)"

definition IncreaseDays :: "int \<Rightarrow> calendar \<Rightarrow> calendar" where
  "IncreaseDays val c = c \<lparr> ca_time := ca_time c + val * ca_day c \<rparr>"

definition IncreaseWeeks :: "int \<Rightarrow> calendar \<Rightarrow> calendar" where
  "IncreaseWeeks val c = c \<lparr> ca_time := ca_time c + val * ca_week c \<rparr>"

definition IncreaseMonths :: "int \<Rightarrow> calendar \<Rightarrow> calendar" where
  "IncreaseMonths val c = c \<lparr> ca_time := ca_time c + val * ca_month c \<rparr>"

definition IncreaseYears :: "int \<Rightarrow> calendar \<Rightarrow> calendar" where
  "IncreaseYears val c = c \<lparr> ca_time := ca_time c + val * ca_year c \<rparr>"

definition SetMilliseconds :: "int \<Rightarrow> calendar \<Rightarrow> calendar" where
  "SetMilliseconds timeStamp c = c \<lparr> ca_time := timeStamp \<rparr>"

definition GetMilliseconds :: "calendar \<Rightarrow> int" where
  "GetMilliseconds c = ca_time c"

definition ChangeToDebug :: "calendar \<Rightarrow> calendar" where
  "ChangeToDebug c = c \<lparr> ca_debug := True, ca_day := ONE_DAY_TIME_DEBUG, ca_week := ONE_WEEK_TIME_DEBUG,
     ca_month := ONE_MONTH_TIME_DEBUG, ca_year := ONE_YEAR_TIME_DEBUG \<rparr>"

definition TruncateTo :: "tz \<Rightarrow> int \<Rightarrow> calendar \<Rightarrow> calendar" where
  "TruncateTo z intervalType c =
     (if intervalType = PERIOD_DAILY then TruncateToDay z c
      else if intervalType = PERIOD_WEEKLY then TruncateToWeek z c
      else if intervalType = PERIOD_MONTHLY then TruncateToMonth z c
      else if intervalType = PERIOD_YEARLY then TruncateToYear z c
      else c)"

section \<open>Lemmas\<close>

lemma int_to_string_nonneg_digits: "0 \<le> i \<Longrightarrow> \<forall>c \<in> set (int_to_string i). is_digit c"
  using nat_to_string_digits by (simp add: int_to_string_def)

lemma int_to_string_nonempty [simp]: "int_to_string i \<noteq> []"
  by (simp add: int_to_string_def)

lemma digit_suffix_unique:
  assumes "\<forall>c \<in> set d. is_digit c" "\<forall>c \<in> set d'. is_digit c"
    and "s = [] \<or> \<not> is_digit (last s)" "s' = [] \<or> \<not> is_digit (last s')" and "s @ d = s' @ d'"
  shows "s = s' \<and> d = d'"
proof -
  have tw: "takeWhile is_digit (rev (s @ d)) = rev d"
    if "\<forall>c \<in> set d. is_digit c" "s = [] \<or> \<not> is_digit (last s)" for s d
    using that by (cases s rule: rev_cases) (auto simp: takeWhile_append takeWhile_eq_all_conv [THEN iffD2])
  have "rev d = rev d'"
    using tw [of d s] tw [of d' s'] assms by simp
  then show ?thesis using assms(5) by simp
qed

lemma GetBundleUsageKey_inject:
  assumes "bn = [] \<or> \<not> is_digit (last bn)" "bn' = [] \<or> \<not> is_digit (last bn')" "0 \<le> u" "0 \<le> u'"
    and "GetBundleUsageKey bn u = GetBundleUsageKey bn' u'"
  shows "bn = bn' \<and> u = u'"
  using digit_suffix_unique [of "int_to_string u" "int_to_string u'" bn bn'] assms
    int_to_string_nonneg_digits by (auto simp: GetBundleUsageKey_def)

text \<open>A time zone without transitions: every time has a broken-down form, midnight of its day is
the time less the seconds of the day, and midnight breaks down to the same day.\<close>

definition second_of_day :: "tm \<Rightarrow> int" where
  "second_of_day t = tm_hour t * 3600 + tm_min t * 60 + tm_sec t"

definition midnight :: "tm \<Rightarrow> tm" where
  "midnight t = t \<lparr> tm_hour := 0, tm_min := 0, tm_sec := 0 \<rparr>"

definition tz_regular :: "tz \<Rightarrow> bool" where
  "tz_regular z \<longleftrightarrow> (\<forall>t \<ge> 0. \<exists>d. tz_localtime z t = Some d \<and>
     0 \<le> second_of_day d \<and> second_of_day d < 86400 \<and> 0 \<le> tm_wday d \<and> tm_wday d \<le> 6 \<and>
     tz_mktime z (midnight d) = t - second_of_day d \<and>
     (second_of_day d \<le> t \<longrightarrow> tz_localtime z (t - second_of_day d) = Some (midnight d)))"

lemma daily_start_eq:
  assumes "tz_regular z" "0 < t"
  obtains d where "tz_localtime z (t div 1000) = Some d" "0 \<le> second_of_day d" "second_of_day d < 86400"
    "GetIntervalTypeStartTime z t PERIOD_DAILY = (t div 1000 - second_of_day d) * 1000"
    "GetIntervalTypeStartTime z t PERIOD_WEEKLY =
      (t div 1000 - second_of_day d) * 1000 - (tm_wday d + 6) mod 7 * ONE_DAY_TIME"
    "second_of_day d \<le> t div 1000 \<longrightarrow> tz_localtime z (t div 1000 - second_of_day d) = Some (midnight d)"
proof -
  have "0 \<le> t div 1000" using assms(2) by simp
  then obtain d where d: "tz_localtime z (t div 1000) = Some d" "0 \<le> second_of_day d" "second_of_day d < 86400"
    "0 \<le> tm_wday d" "tz_mktime z (midnight d) = t div 1000 - second_of_day d"
    "second_of_day d \<le> t div 1000 \<longrightarrow> tz_localtime z (t div 1000 - second_of_day d) = Some (midnight d)"
    using assms(1) unfolding tz_regular_def by blast
  show thesis
    using that [of d] d assms(2) unfolding midnight_def
    by (simp add: GetIntervalTypeStartTime_def Let_def)
qed

lemma daily_start_bounds:
  assumes "tz_regular z" "0 < t"
  shows "GetIntervalTypeStartTime z t PERIOD_DAILY \<le> t \<and>
    t < GetIntervalTypeStartTime z t PERIOD_DAILY + ONE_DAY_TIME"
  by (rule daily_start_eq [OF assms]) (simp add: ONE_DAY_TIME_def, linarith)

lemma daily_start_fixpoint:
  assumes "tz_regular z" "0 < t" "0 < GetIntervalTypeStartTime z t PERIOD_DAILY"
  shows "GetIntervalTypeStartTime z (GetIntervalTypeStartTime z t PERIOD_DAILY) PERIOD_DAILY =
    GetIntervalTypeStartTime z t PERIOD_DAILY"
proof -
  let ?s = "GetIntervalTypeStartTime z t PERIOD_DAILY"
  obtain d where d: "?s = (t div 1000 - second_of_day d) * 1000"
    "second_of_day d \<le> t div 1000 \<longrightarrow> tz_localtime z (t div 1000 - second_of_day d) = Some (midnight d)"
    by (rule daily_start_eq [OF assms(1,2)]) blast
  then have le: "second_of_day d \<le> t div 1000" and div: "?s div 1000 = t div 1000 - second_of_day d"
    using assms(3) by auto
  obtain d' where d': "tz_localtime z (?s div 1000) = Some d'"
    "GetIntervalTypeStartTime z ?s PERIOD_DAILY = (?s div 1000 - second_of_day d') * 1000"
    by (rule daily_start_eq [OF assms(1,3)])
  have "d' = midnight d"
    using d(2) le d'(1) by (simp add: div)
  then show ?thesis
    using d'(2) d(1) by (simp add: div second_of_day_def midnight_def)
qed

lemma weekly_start_bounds:
  assumes "tz_regular z" "0 < t"
  shows "GetIntervalTypeStartTime z t PERIOD_WEEKLY \<le> t \<and>
    t < GetIntervalTypeStartTime z t PERIOD_WEEKLY + ONE_WEEK_TIME"
proof -
  obtain d where d: "GetIntervalTypeStartTime z t PERIOD_DAILY = (t div 1000 - second_of_day d) * 1000"
    "GetIntervalTypeStartTime z t PERIOD_WEEKLY =
      (t div 1000 - second_of_day d) * 1000 - (tm_wday d + 6) mod 7 * ONE_DAY_TIME"
    by (rule daily_start_eq [OF assms])
  define k where "k = (tm_wday d + 6) mod 7"
  have k: "0 \<le> k" "k \<le> 6"
    using pos_mod_bound [of 7 "tm_wday d + 6"] by (simp_all add: k_def)
  show ?thesis
    using daily_start_bounds [OF assms] d k unfolding k_def [symmetric]
    by (simp add: ONE_DAY_TIME_def ONE_WEEK_TIME_def)
qed

text \<open>A regular zone for the witnesses: UTC, with the day number kept in \<open>tm_mday\<close>.\<close>

definition utc :: tz where
  "utc = \<lparr> tz_localtime = (\<lambda>t. Some \<lparr> tm_year = 70, tm_mon = 0, tm_mday = t div 86400,
       tm_wday = (t div 86400 + 4) mod 7, tm_hour = t mod 86400 div 3600, tm_min = t mod 3600 div 60,
       tm_sec = t mod 60 \<rparr>),
     tz_mktime = (\<lambda>d. tm_mday d * 86400 + second_of_day d) \<rparr>"

lemma clock_fields:
  "t mod 86400 div 3600 * 3600 + t mod 3600 div 60 * 60 + t mod 60 = (t :: int) mod 86400"
proof -
  have "t mod 86400 mod 3600 = t mod 3600" "t mod 3600 mod 60 = t mod 60"
    by (simp_all add: mod_mod_cancel)
  then show ?thesis
    using div_mult_mod_eq [of "t mod 86400" 3600] div_mult_mod_eq [of "t mod 3600" 60] by linarith
qed

lemma midnight_fields:
  fixes t :: int
  shows "(t - t mod 86400) div 86400 = t div 86400" "(t - t mod 86400) mod 86400 = 0"
    "(t - t mod 86400) mod 3600 = 0" "(t - t mod 86400) mod 60 = 0"
proof -
  have e: "t - t mod 86400 = t div 86400 * 86400"
    by (simp add: minus_mod_eq_div_mult)
  show "(t - t mod 86400) div 86400 = t div 86400" "(t - t mod 86400) mod 86400 = 0"
    by (simp_all add: e)
  have "t div 86400 * 86400 = t div 86400 * 24 * 3600" "t div 86400 * 86400 = t div 86400 * 1440 * 60" by simp_all
  then show "(t - t mod 86400) mod 3600 = 0" "(t - t mod 86400) mod 60 = 0"
    unfolding e by (metis mod_mult_self2_is_0)+
qed

lemma utc_local:
  "tz_localtime utc t = Some \<lparr> tm_year = 70, tm_mon = 0, tm_mday = t div 86400,
     tm_wday = (t div 86400 + 4) mod 7, tm_hour = t mod 86400 div 3600, tm_min = t mod 3600 div 60,
     tm_sec = t mod 60 \<rparr>"
  by (simp add: utc_def)

lemma utc_mktime: "tz_mktime utc d = tm_mday d * 86400 + second_of_day d"
  by (simp add: utc_def)

lemma utc_regular: "tz_regular utc"
  unfolding tz_regular_def
proof (intro allI impI)
  fix t :: int assume "0 \<le> t"
  let ?d = "\<lparr> tm_year = 70, tm_mon = 0, tm_mday = t div 86400,
     tm_wday = (t div 86400 + 4) mod 7, tm_hour = t mod 86400 div 3600, tm_min = t mod 3600 div 60,
     tm_sec = t mod 60 \<rparr>"
  have sod: "second_of_day ?d = t mod 86400"
    using clock_fields by (simp add: second_of_day_def)
  have wd: "tm_wday ?d \<le> 6" "0 \<le> tm_wday ?d"
    using pos_mod_bound [of 7 "t div 86400 + 4"] by simp_all
  have mk: "tz_mktime utc (midnight ?d) = t - t mod 86400"
    by (simp add: utc_mktime midnight_def second_of_day_def minus_mod_eq_div_mult)
  have mid: "tz_localtime utc (t - t mod 86400) = Some (midnight ?d)"
    unfolding utc_local midnight_fields by (simp add: midnight_def)
  have "tz_localtime utc t = Some ?d" by (rule utc_local)
  moreover have "0 \<le> t mod 86400" "t mod 86400 < 86400" by simp_all
  ultimately show "\<exists>d. tz_localtime utc t = Some d \<and>
     0 \<le> second_of_day d \<and> second_of_day d < 86400 \<and> 0 \<le> tm_wday d \<and> tm_wday d \<le> 6 \<and>
     tz_mktime utc (midnight d) = t - second_of_day d \<and>
     (second_of_day d \<le> t \<longrightarrow> tz_localtime utc (t - second_of_day d) = Some (midnight d))"
    using wd mk mid by (intro exI [of _ ?d]) (unfold sod, blast)
qed

section \<open>Properties\<close>

text \<open>Parsing a decimal string never answers a value outside the type: \<open>StringToInt32\<close> and
\<open>StringToInt64\<close> invert \<open>to_string\<close> on their range, answer zero on numbers outside it, and every
answer of \<open>StringToInt32\<close> is a 32-bit value.\<close>

theorem string_to_int_parsing:
  "INT32_MIN \<le> StringToInt32 s \<and> StringToInt32 s \<le> INT32_MAX \<and>
   StringToInt32 (int_to_string i) = (if INT32_MIN \<le> i \<and> i \<le> INT32_MAX then i else 0) \<and>
   StringToInt64 (int_to_string i) = (if INT64_MIN \<le> i \<and> i \<le> INT64_MAX then i else 0)"
  by (auto simp: StringToInt32_def StringToInt64_def strtol_int_to_string out_of_range64_def
      INT32_MIN_def INT32_MAX_def INT64_MIN_def INT64_MAX_def split: option.splits)

text \<open>The key of a bundle in the usage maps identifies bundle and uid, as long as the bundle
names do not end in a digit. (Two names that do can share a key: \<open>a1\<close> with uid 2 and \<open>a\<close> with uid
12.)\<close>

theorem usage_key_injective:
  assumes "\<not> is_digit (last bn)" "\<not> is_digit (last bn')" "0 \<le> u" "0 \<le> u'"
  shows "GetBundleUsageKey bn u = GetBundleUsageKey bn' u' \<longleftrightarrow> bn = bn' \<and> u = u'"
  using GetBundleUsageKey_inject [of bn bn' u u'] assms by auto

theorem usage_key_injective_witness: "GetBundleUsageKey ''ab'' 12 \<noteq> GetBundleUsageKey ''ac'' 12"
  using usage_key_injective [of "''ab''" "''ac''" 12 12] by (simp add: is_digit_def)

lemma usage_key_collision: "GetBundleUsageKey ''a1'' 2 = GetBundleUsageKey ''a'' 12"
proof -
  have "nat_to_string 12 = ''12''" "nat_to_string 2 = ''2''"
    by (simp_all add: nat_to_string.simps digit_char_def, simp_all add: char_of_def bit_iff_odd)
  then show ?thesis
    by (simp add: GetBundleUsageKey_def int_to_string_def)
qed

text \<open>The day and the week a statistic belongs to contain its time. In a zone without clock
changes, the start of the day is at most 24 hours and the start of the week at most seven days
before the time, truncating a day start again changes nothing, and in debug mode truncation answers
the multiple of the shortened day below the time.\<close>

theorem calendar_truncation:
  assumes "tz_regular z" "0 < t" "0 < GetIntervalTypeStartTime z t PERIOD_DAILY"
  shows "(let d = GetMilliseconds (TruncateToDay z (Calendar_new t)) in
      d \<le> t \<and> t < d + ONE_DAY_TIME \<and> GetMilliseconds (TruncateToDay z (Calendar_new d)) = d) \<and>
    GetIntervalTypeStartTime z t PERIOD_WEEKLY \<le> t \<and>
    t < GetIntervalTypeStartTime z t PERIOD_WEEKLY + ONE_WEEK_TIME \<and>
    (let d = GetMilliseconds (TruncateTo z PERIOD_DAILY (ChangeToDebug (Calendar_new t))) in
      d \<le> t \<and> t < d + ONE_DAY_TIME_DEBUG \<and> d mod ONE_DAY_TIME_DEBUG = 0)"
proof -
  have nz: "GetIntervalTypeStartTime z t PERIOD_DAILY \<noteq> 0" using assms(3) by simp
  have m: "t - t mod 600000 \<le> t \<and> t < t - t mod 600000 + 600000 \<and> (t - t mod 600000) mod 600000 = 0"
    using pos_mod_sign [of 600000 t] pos_mod_bound [of 600000 t] by (simp add: minus_mod_eq_mult_div [of t 600000]) linarith
  have debug: "ca_debug (Calendar_new t) = False" "ca_time (Calendar_new t) = t" for t
    by (simp_all add: Calendar_new_def)
  have d: "GetMilliseconds (TruncateToDay z (Calendar_new t)) = GetIntervalTypeStartTime z t PERIOD_DAILY"
    "GetMilliseconds (TruncateToDay z (Calendar_new (GetIntervalTypeStartTime z t PERIOD_DAILY))) =
      GetIntervalTypeStartTime z t PERIOD_DAILY"
    using nz daily_start_fixpoint [OF assms]
    by (simp_all add: TruncateToDay_def debug Let_def GetMilliseconds_def)
  have dbg: "GetMilliseconds (TruncateTo z PERIOD_DAILY (ChangeToDebug (Calendar_new t))) = t - t mod 600000"
    using assms(2)
    by (simp add: TruncateTo_def TruncateToDay_def ChangeToDebug_def Calendar_new_def GetMilliseconds_def
        ONE_DAY_TIME_DEBUG_def)
  show ?thesis
    unfolding d dbg Let_def
    using daily_start_bounds [OF assms(1,2)] weekly_start_bounds [OF assms(1,2)] m
    by (simp add: ONE_DAY_TIME_DEBUG_def)
qed

theorem calendar_truncation_witness:
  "GetIntervalTypeStartTime utc 90000000 PERIOD_WEEKLY \<le> 90000000"
proof -
  have "GetIntervalTypeStartTime utc 90000000 PERIOD_DAILY = 86400000"
    by (simp add: GetIntervalTypeStartTime_def utc_def second_of_day_def)
  then show ?thesis
    using calendar_truncation [OF utc_regular, of 90000000] by simp
qed

end
