(* ===== verification/PeriodStats.thy ===== *)
theory PeriodStats
  imports PackageStats EventStats EventList UidRegistry Util
begin

text \<open>\<open>BundleActivePeriodStats\<close>, \<open>BundleActiveEventTracker\<close> and \<open>BundleActiveStatsCombiner\<close>
(\<open>services/packageusage\<close>): the statistics of one user in one day, week, month or year: the usage
record of every bundle, the event log, and the timers of the screen and the key guard.\<close>

section \<open>Trackers\<close>

record tracker =
  tr_curStartTime :: int
  tr_lastEventTime :: int
  tr_duration :: int
  tr_count :: int

definition EventTracker_new :: tracker where
  "EventTracker_new = \<lparr> tr_curStartTime = 0, tr_lastEventTime = 0, tr_duration = 0, tr_count = 0 \<rparr>"

definition EventTracker_CommitTime :: "int \<Rightarrow> tracker \<Rightarrow> tracker" where
  "EventTracker_CommitTime timeStamp t =
     (if tr_curStartTime t \<noteq> 0
      then t \<lparr> tr_duration := tr_duration t + (timeStamp - tr_curStartTime t), tr_curStartTime := 0 \<rparr>
      else t)"

definition EventTracker_Update :: "int \<Rightarrow> tracker \<Rightarrow> tracker" where
  "EventTracker_Update timeStamp t =
     (let t1 = (if tr_curStartTime t = 0 then t \<lparr> tr_count := tr_count t + 1 \<rparr> else t);
          t2 = EventTracker_CommitTime timeStamp t1
      in t2 \<lparr> tr_curStartTime := timeStamp, tr_lastEventTime := timeStamp \<rparr>)"

definition EventTracker_AddToEventStats ::
    "int \<Rightarrow> int \<Rightarrow> int \<Rightarrow> tracker \<Rightarrow> event_stats list \<Rightarrow> event_stats list" where
  "EventTracker_AddToEventStats eventId beginTime endTime t eventStatsList =
     (if tr_count t \<noteq> 0 \<or> tr_duration t \<noteq> 0
      then eventStatsList @ [EventStats_default \<lparr> es_eventId := eventId, es_count := tr_count t,
             es_totalTime := tr_duration t, es_lastEventTime := tr_lastEventTime t,
             es_beginTimeStamp := beginTime, es_endTimeStamp := endTime \<rparr>]
      else eventStatsList)"

section \<open>Period statistics\<close>

text \<open>The smart pointers of \<open>bundleStats_\<close> are created by \<open>make_shared\<close> only; the map holds
values.\<close>

record period_stats =
  pd_beginTime :: int
  pd_endTime :: int
  pd_lastTimeSaved :: int
  pd_userId :: int
  pd_bundleStats :: "(string, package_stats) omap"
  pd_events :: event_list
  pd_packetNamesCache :: "string list"
  pd_interactiveTracker :: tracker
  pd_noninteractiveTracker :: tracker
  pd_keyguardShownTracker :: tracker
  pd_keyguardHiddenTracker :: tracker

definition PeriodStats_default :: period_stats where
  "PeriodStats_default = \<lparr> pd_beginTime = 0, pd_endTime = 0, pd_lastTimeSaved = 0, pd_userId = - 1,
     pd_bundleStats = [], pd_events = [], pd_packetNamesCache = [],
     pd_interactiveTracker = EventTracker_new, pd_noninteractiveTracker = EventTracker_new,
     pd_keyguardShownTracker = EventTracker_new, pd_keyguardHiddenTracker = EventTracker_new \<rparr>"

definition PeriodStats_new :: "int \<Rightarrow> int \<Rightarrow> period_stats" where
  "PeriodStats_new userId beginTime = \<lparr> pd_beginTime = beginTime, pd_endTime = 0, pd_lastTimeSaved = 0,
     pd_userId = userId, pd_bundleStats = [], pd_events = [], pd_packetNamesCache = [],
     pd_interactiveTracker = EventTracker_new, pd_noninteractiveTracker = EventTracker_new,
     pd_keyguardShownTracker = EventTracker_new, pd_keyguardHiddenTracker = EventTracker_new \<rparr>"

definition GetCachedString :: "string \<Rightarrow> period_stats \<Rightarrow> string \<times> period_stats" where
  "GetCachedString str p =
     (if str \<notin> set (pd_packetNamesCache p)
      then (str, p \<lparr> pd_packetNamesCache := os_insert str (pd_packetNamesCache p) \<rparr>)
      else (str, p))"

text \<open>The record created or found is named by its key; the uid registry is a state of its own.\<close>

definition GetOrCreateUsageStats ::
    "string \<Rightarrow> int \<Rightarrow> period_stats \<times> uidmap \<Rightarrow> package_stats \<times> period_stats \<times> uidmap" where
  "GetOrCreateUsageStats bundleName uid pu =
     (let (p, um) = pu; bundleStatsKey = GetBundleUsageKey bundleName uid
      in case om_find (pd_bundleStats p) bundleStatsKey of
           Some s \<Rightarrow> (s, p, um)
         | None \<Rightarrow>
             let (name, p1) = GetCachedString bundleName p;
                 insertedStats = PackageStats_default \<lparr> pk_endTimeStamp := pd_endTime p1,
                   pk_bundleName := name, pk_uid := uid \<rparr>;
                 um1 = InsertPackageUid (pk_bundleName insertedStats) uid um;
                 p2 = p1 \<lparr> pd_bundleStats := om_insert bundleStatsKey insertedStats (pd_bundleStats p1) \<rparr>
             in (insertedStats, p2, um1))"

definition PeriodStats_Update ::
    "string \<Rightarrow> string \<Rightarrow> int \<Rightarrow> int \<Rightarrow> string \<Rightarrow> int \<Rightarrow> period_stats \<times> uidmap \<Rightarrow> period_stats \<times> uidmap" where
  "PeriodStats_Update bundleName longTimeTaskName timeStamp eventId abilityId uid pu =
     (let (p1, um1) =
        (if eventId = SHUTDOWN \<or> eventId = FLUSH then
           ((fst pu) \<lparr> pd_bundleStats := map (\<lambda>(k, s).
               (k, PackageStats_Update '''' timeStamp eventId abilityId uid s)) (pd_bundleStats (fst pu)) \<rparr>,
            snd pu)
         else if IsBundleEvent eventId then
           (let (usageStats, p, um) = GetOrCreateUsageStats bundleName uid pu
            in (p \<lparr> pd_bundleStats := om_insert (GetBundleUsageKey bundleName uid)
                  (PackageStats_Update longTimeTaskName timeStamp eventId abilityId uid usageStats)
                  (pd_bundleStats p) \<rparr>, um))
         else pu)
      in (if timeStamp > pd_endTime p1 then p1 \<lparr> pd_endTime := timeStamp \<rparr> else p1, um1))"

definition PeriodStats_AddEvent :: "event \<Rightarrow> period_stats \<Rightarrow> period_stats" where
  "PeriodStats_AddEvent event0 p =
     (let (name, p1) = GetCachedString (ev_bundleName event0) p;
          event1 = event0 \<lparr> ev_bundleName := name \<rparr>;
          (event2, p2) = (if ev_continuousTaskAbilityName event1 \<noteq> ''''
            then (let (task, p') = GetCachedString (ev_continuousTaskAbilityName event1) p1
                  in (event1 \<lparr> ev_continuousTaskAbilityName := task \<rparr>, p'))
            else (event1, p1));
          p3 = p2 \<lparr> pd_events := EventList_Insert event2 (pd_events p2) \<rparr>
      in if ev_timeStamp event2 > pd_endTime p3 then p3 \<lparr> pd_endTime := ev_timeStamp event2 \<rparr> else p3)"

definition PeriodStats_CommitTime :: "int \<Rightarrow> period_stats \<Rightarrow> period_stats" where
  "PeriodStats_CommitTime timeStamp p = p \<lparr>
     pd_interactiveTracker := EventTracker_CommitTime timeStamp (pd_interactiveTracker p),
     pd_noninteractiveTracker := EventTracker_CommitTime timeStamp (pd_noninteractiveTracker p),
     pd_keyguardShownTracker := EventTracker_CommitTime timeStamp (pd_keyguardShownTracker p),
     pd_keyguardHiddenTracker := EventTracker_CommitTime timeStamp (pd_keyguardHiddenTracker p) \<rparr>"

definition UpdateScreenInteractive :: "int \<Rightarrow> period_stats \<Rightarrow> period_stats" where
  "UpdateScreenInteractive timeStamp p = p \<lparr>
     pd_interactiveTracker := EventTracker_Update timeStamp (pd_interactiveTracker p),
     pd_noninteractiveTracker := EventTracker_CommitTime timeStamp (pd_noninteractiveTracker p) \<rparr>"

definition UpdateScreenNonInteractive :: "int \<Rightarrow> period_stats \<Rightarrow> period_stats" where
  "UpdateScreenNonInteractive timeStamp p = p \<lparr>
     pd_noninteractiveTracker := EventTracker_Update timeStamp (pd_noninteractiveTracker p),
     pd_interactiveTracker := EventTracker_CommitTime timeStamp (pd_interactiveTracker p) \<rparr>"

definition UpdateKeyguardShown :: "int \<Rightarrow> period_stats \<Rightarrow> period_stats" where
  "UpdateKeyguardShown timeStamp p = p \<lparr>
     pd_keyguardShownTracker := EventTracker_Update timeStamp (pd_keyguardShownTracker p),
     pd_keyguardHiddenTracker := EventTracker_CommitTime timeStamp (pd_keyguardHiddenTracker p) \<rparr>"

definition UpdateKeyguardHidden :: "int \<Rightarrow> period_stats \<Rightarrow> period_stats" where
  "UpdateKeyguardHidden timeStamp p = p \<lparr>
     pd_keyguardHiddenTracker := EventTracker_Update timeStamp (pd_keyguardHiddenTracker p),
     pd_keyguardShownTracker := EventTracker_CommitTime timeStamp (pd_keyguardShownTracker p) \<rparr>"

definition AddEventStatsTo :: "period_stats \<Rightarrow> event_stats list \<Rightarrow> event_stats list" where
  "AddEventStatsTo p l =
     EventTracker_AddToEventStats KEYGUARD_HIDDEN (pd_beginTime p) (pd_endTime p) (pd_keyguardHiddenTracker p)
       (EventTracker_AddToEventStats KEYGUARD_SHOWN (pd_beginTime p) (pd_endTime p) (pd_keyguardShownTracker p)
         (EventTracker_AddToEventStats SCREEN_NON_INTERACTIVE (pd_beginTime p) (pd_endTime p)
           (pd_noninteractiveTracker p)
           (EventTracker_AddToEventStats SCREEN_INTERACTIVE (pd_beginTime p) (pd_endTime p)
             (pd_interactiveTracker p) l)))"

section \<open>Combiners\<close>

definition combine_packages :: "period_stats \<Rightarrow> package_stats list \<Rightarrow> package_stats list" where
  "combine_packages stats accumulatedResult =
     fold (\<lambda>it acc. acc @ [PackageStats_copy (snd it)]) (pd_bundleStats stats) accumulatedResult"

definition combine_events :: "int \<Rightarrow> period_stats \<Rightarrow> event list \<Rightarrow> event list" where
  "combine_events beginTime stats accumulatedResult =
     (let startIndex = FindBestIndex beginTime (pd_events stats)
      in accumulatedResult @ map Event_copy (drop (nat startIndex) (pd_events stats)))"

section \<open>Invariant\<close>

text \<open>Both maps are ordered, every record is filed under the key of its name and uid and satisfies
its own invariant, the uid registry knows every filed record, the log is in time order, and no
logged event is later than the end time.\<close>

definition PeriodStats_inv :: "period_stats \<times> uidmap \<Rightarrow> bool" where
  "PeriodStats_inv pu \<longleftrightarrow>
     om_wf (pd_bundleStats (fst pu)) \<and>
     (\<forall>(k, s) \<in> set (pd_bundleStats (fst pu)). k = GetBundleUsageKey (pk_bundleName s) (pk_uid s) \<and>
        PackageStats_inv s \<and> (pk_bundleName s, pk_uid s) \<in> uid_rel (snd pu)) \<and>
     ev_sorted (pd_events (fst pu)) \<and>
     (\<forall>e \<in> set (pd_events (fst pu)). ev_timeStamp e \<le> pd_endTime (fst pu)) \<and>
     os_wf (pd_packetNamesCache (fst pu)) \<and> uidmap_inv (snd pu)"

lemma PeriodStats_inv_new [simp]: "uidmap_inv um \<Longrightarrow> PeriodStats_inv (PeriodStats_new u b, um)"
  by (simp add: PeriodStats_inv_def PeriodStats_new_def)

lemma GetCachedString_string [simp]: "fst (GetCachedString str p) = str"
  by (simp add: GetCachedString_def)

lemma GetCachedString_fields [simp]:
  "pd_bundleStats (snd (GetCachedString str p)) = pd_bundleStats p"
  "pd_events (snd (GetCachedString str p)) = pd_events p"
  "pd_endTime (snd (GetCachedString str p)) = pd_endTime p"
  "pd_beginTime (snd (GetCachedString str p)) = pd_beginTime p"
  "os_wf (pd_packetNamesCache p) \<Longrightarrow> os_wf (pd_packetNamesCache (snd (GetCachedString str p)))"
  by (simp_all add: GetCachedString_def)

lemma PackageStats_Update_name [simp]:
  "pk_bundleName (PackageStats_Update n t e a u s) = pk_bundleName s"
  "pk_uid (PackageStats_Update n t e a u s) = pk_uid s"
  by (simp_all add: PackageStats_Update_def UpdateAbility_def UpdateLongTimeTask_def Update_running_def
      IncrementTimeUsed_def IncrementServiceTimeUsed_def Let_def split: option.splits)

lemma GetOrCreate_cases:
  obtains (found) s where "om_find (pd_bundleStats p) (GetBundleUsageKey bn u) = Some s"
      "GetOrCreateUsageStats bn u (p, um) = (s, p, um)"
    | (created) s p' where "om_find (pd_bundleStats p) (GetBundleUsageKey bn u) = None"
      "s = PackageStats_default \<lparr> pk_endTimeStamp := pd_endTime p, pk_bundleName := bn, pk_uid := u \<rparr>"
      "p' = (snd (GetCachedString bn p)) \<lparr> pd_bundleStats :=
         om_insert (GetBundleUsageKey bn u) s (pd_bundleStats p) \<rparr>"
      "GetOrCreateUsageStats bn u (p, um) = (s, p', InsertPackageUid bn u um)"
proof (cases "om_find (pd_bundleStats p) (GetBundleUsageKey bn u)")
  case None
  obtain p1 where g: "GetCachedString bn p = (bn, p1)"
    by (metis GetCachedString_string prod.collapse)
  then have e: "pd_endTime p1 = pd_endTime p" "pd_bundleStats p1 = pd_bundleStats p"
    using GetCachedString_fields [where str = bn and p = p] by simp_all
  show ?thesis
    by (rule created [OF None refl refl])
      (simp add: GetOrCreateUsageStats_def Let_def None g e)
next
  case (Some s)
  then show ?thesis
    by (intro found) (simp_all add: GetOrCreateUsageStats_def)
qed

text \<open>The record found or created belongs to the name and uid asked for, when keys are unambiguous;
in any case its own key is the key asked for.\<close>

lemma GetOrCreate_inv:
  assumes "PeriodStats_inv (p, um)" "GetOrCreateUsageStats bn u (p, um) = (s, p', um')"
  shows "PeriodStats_inv (p', um') \<and> om_find (pd_bundleStats p') (GetBundleUsageKey bn u) = Some s \<and>
    pd_endTime p' = pd_endTime p \<and> pd_events p' = pd_events p"
proof (cases rule: GetOrCreate_cases [of p bn u um])
  case (found s0)
  then show ?thesis using assms by simp
next
  case (created s0 p0)
  have "PackageStats_inv s0"
    using PackageStats_inv_default unfolding created(2) PackageStats_inv_def by simp
  moreover have "k = GetBundleUsageKey (pk_bundleName r) (pk_uid r) \<and> PackageStats_inv r \<and>
      (pk_bundleName r, pk_uid r) \<in> uid_rel um" if "(k, r) \<in> set (pd_bundleStats p)" for k r
    using assms(1) that by (auto simp: PeriodStats_inv_def)
  moreover have "pk_bundleName s0 = bn" "pk_uid s0 = u"
    unfolding created(2) by simp_all
  ultimately show ?thesis
    using assms created by (auto simp: PeriodStats_inv_def om_insert_set)
qed

lemma inv_put_record:
  assumes "PeriodStats_inv (p, um)" "om_find (pd_bundleStats p) k = Some s"
    and "PackageStats_inv s'" "pk_bundleName s' = pk_bundleName s" "pk_uid s' = pk_uid s"
  shows "PeriodStats_inv (p \<lparr> pd_bundleStats := om_insert k s' (pd_bundleStats p) \<rparr>, um)"
proof -
  have "om_wf (pd_bundleStats p)" using assms(1) by (simp add: PeriodStats_inv_def)
  then have "(k, s) \<in> set (pd_bundleStats p)" using assms(2) om_find_mem by fast
  then have "k = GetBundleUsageKey (pk_bundleName s) (pk_uid s)" "(pk_bundleName s, pk_uid s) \<in> uid_rel um"
    using assms(1) by (auto simp: PeriodStats_inv_def)
  then show ?thesis
    using assms by (auto simp: PeriodStats_inv_def om_insert_set)
qed

lemma record_inv:
  "PeriodStats_inv (p, um) \<Longrightarrow> om_find (pd_bundleStats p) k = Some s \<Longrightarrow> PackageStats_inv s"
  by (auto simp: PeriodStats_inv_def om_find_mem)

lemma inv_endTime:
  "PeriodStats_inv (p, um) \<Longrightarrow> pd_endTime p \<le> t \<Longrightarrow> PeriodStats_inv (p \<lparr> pd_endTime := t \<rparr>, um)"
  by (force simp: PeriodStats_inv_def)

lemma inv_map_records:
  assumes "PeriodStats_inv (p, um)"
    and "\<And>s. PackageStats_inv s \<Longrightarrow> PackageStats_inv (f s) \<and> pk_bundleName (f s) = pk_bundleName s \<and> pk_uid (f s) = pk_uid s"
  shows "PeriodStats_inv (p \<lparr> pd_bundleStats := map (\<lambda>(k, s). (k, f s)) (pd_bundleStats p) \<rparr>, um)"
proof -
  let ?m = "pd_bundleStats p"
  have "map fst (map (\<lambda>(k, s). (k, f s)) ?m) = map fst ?m"
    by (simp add: case_prod_beta)
  then have "om_wf (map (\<lambda>(k, s). (k, f s)) ?m)"
    using assms(1) by (simp only: PeriodStats_inv_def om_wf_def fst_conv)
  moreover have "k = GetBundleUsageKey (pk_bundleName r) (pk_uid r) \<and> PackageStats_inv r \<and>
      (pk_bundleName r, pk_uid r) \<in> uid_rel um" if kr: "(k, r) \<in> set (map (\<lambda>(k, s). (k, f s)) ?m)" for k r
  proof -
    from kr obtain r0 where "(k, r0) \<in> set ?m" "r = f r0" by auto
    then show ?thesis
      using assms(1) assms(2) [of r0] by (auto simp: PeriodStats_inv_def)
  qed
  ultimately show ?thesis
    using assms(1) by (auto simp: PeriodStats_inv_def simp del: set_map)
qed

lemma PeriodStats_Update_inv:
  assumes "PeriodStats_inv (p, um)"
  shows "PeriodStats_inv (PeriodStats_Update bn n t e a u (p, um))"
proof -
  have tail: "PeriodStats_inv (if t > pd_endTime q then q \<lparr> pd_endTime := t \<rparr> else q, w)"
    if "PeriodStats_inv (q, w)" for q w
    using that inv_endTime by simp
  consider (all) "e = SHUTDOWN \<or> e = FLUSH" | (one) "e \<noteq> SHUTDOWN \<and> e \<noteq> FLUSH \<and> IsBundleEvent e"
    | (none) "e \<noteq> SHUTDOWN \<and> e \<noteq> FLUSH \<and> \<not> IsBundleEvent e" by blast
  then show ?thesis
  proof cases
    case all
    then show ?thesis
      using tail [OF inv_map_records [OF assms, of "PackageStats_Update [] t e a u"]] PackageStats_Update_inv
      by (simp add: PeriodStats_Update_def)
  next
    case one
    obtain s p' um' where g: "GetOrCreateUsageStats bn u (p, um) = (s, p', um')"
      by (metis prod_cases3)
    note i = GetOrCreate_inv [OF assms g]
    have "PeriodStats_inv (p' \<lparr> pd_bundleStats := om_insert (GetBundleUsageKey bn u)
        (PackageStats_Update n t e a u s) (pd_bundleStats p') \<rparr>, um')"
      using i record_inv by (intro inv_put_record) (auto intro: PackageStats_Update_inv)
    from tail [OF this] show ?thesis
      using one by (simp add: PeriodStats_Update_def g)
  next
    case none
    then show ?thesis
      using tail [OF assms] by (simp add: PeriodStats_Update_def)
  qed
qed

lemma PeriodStats_AddEvent_effect:
  "\<exists>c. PeriodStats_AddEvent e p = p \<lparr> pd_packetNamesCache := c, pd_events := EventList_Insert e (pd_events p),
     pd_endTime := max (pd_endTime p) (ev_timeStamp e) \<rparr> \<and>
   (os_wf (pd_packetNamesCache p) \<longrightarrow> os_wf c)"
proof -
  have g: "\<exists>c. GetCachedString str q = (str, q \<lparr> pd_packetNamesCache := c \<rparr>) \<and>
      (os_wf (pd_packetNamesCache q) \<longrightarrow> os_wf c)" for str q
    by (rule exI [of _ "if str \<in> set (pd_packetNamesCache q) then pd_packetNamesCache q
        else os_insert str (pd_packetNamesCache q)"]) (simp add: GetCachedString_def)
  obtain c1 where c1: "GetCachedString (ev_bundleName e) p = (ev_bundleName e, p \<lparr> pd_packetNamesCache := c1 \<rparr>)"
    "os_wf (pd_packetNamesCache p) \<longrightarrow> os_wf c1"
    using g by blast
  obtain c2 where c2: "GetCachedString (ev_continuousTaskAbilityName e) (p \<lparr> pd_packetNamesCache := c1 \<rparr>) =
      (ev_continuousTaskAbilityName e, p \<lparr> pd_packetNamesCache := c2 \<rparr>)" "os_wf c1 \<longrightarrow> os_wf c2"
    using g [of "ev_continuousTaskAbilityName e" "p \<lparr> pd_packetNamesCache := c1 \<rparr>"] by auto
  show ?thesis
  proof (cases "ev_continuousTaskAbilityName e = []")
    case True
    then show ?thesis
      using c1 by (intro exI [of _ c1]) (auto simp: PeriodStats_AddEvent_def Let_def max_def)
  next
    case False
    then show ?thesis
      using c1 c2 by (intro exI [of _ c2]) (auto simp: PeriodStats_AddEvent_def Let_def max_def)
  qed
qed

lemma PeriodStats_AddEvent_inv:
  assumes "PeriodStats_inv (p, um)"
  shows "PeriodStats_inv (PeriodStats_AddEvent e p, um)"
proof -
  obtain c where "PeriodStats_AddEvent e p = p \<lparr> pd_packetNamesCache := c,
      pd_events := EventList_Insert e (pd_events p), pd_endTime := max (pd_endTime p) (ev_timeStamp e) \<rparr>"
    "os_wf (pd_packetNamesCache p) \<longrightarrow> os_wf c"
    using PeriodStats_AddEvent_effect by blast
  then show ?thesis
    using assms by (auto simp: PeriodStats_inv_def le_max_iff_disj)
qed

lemma screen_ops_inv [simp]:
  "PeriodStats_inv (UpdateScreenInteractive t p, um) = PeriodStats_inv (p, um)"
  "PeriodStats_inv (UpdateScreenNonInteractive t p, um) = PeriodStats_inv (p, um)"
  "PeriodStats_inv (UpdateKeyguardShown t p, um) = PeriodStats_inv (p, um)"
  "PeriodStats_inv (UpdateKeyguardHidden t p, um) = PeriodStats_inv (p, um)"
  "PeriodStats_inv (PeriodStats_CommitTime t p, um) = PeriodStats_inv (p, um)"
  by (simp_all add: PeriodStats_inv_def UpdateScreenInteractive_def UpdateScreenNonInteractive_def
      UpdateKeyguardShown_def UpdateKeyguardHidden_def PeriodStats_CommitTime_def)

section \<open>The timers as a state machine\<close>

text \<open>One step of a period at time \<open>t\<close>: the screen goes on or off, the key guard appears or
disappears, or usage is recorded.\<close>

inductive period_step :: "int \<times> period_stats \<Rightarrow> int \<times> period_stats \<Rightarrow> bool" where
  on: "now \<le> t \<Longrightarrow> period_step (now, p) (t, UpdateScreenInteractive t p)"
| off: "now \<le> t \<Longrightarrow> period_step (now, p) (t, UpdateScreenNonInteractive t p)"
| shown: "now \<le> t \<Longrightarrow> period_step (now, p) (t, UpdateKeyguardShown t p)"
| hidden: "now \<le> t \<Longrightarrow> period_step (now, p) (t, UpdateKeyguardHidden t p)"
| usage: "now \<le> t \<Longrightarrow> period_step (now, p) (t, fst (PeriodStats_Update bn n t e a u (p, um)))"
| log: "now \<le> t \<Longrightarrow> ev_timeStamp e = t \<Longrightarrow> period_step (now, p) (t, PeriodStats_AddEvent e p)"

inductive_cases period_stepE: "period_step s s'"

definition tracked :: "int \<Rightarrow> tracker \<Rightarrow> int" where
  "tracked now t = tr_duration t + (if tr_curStartTime t \<noteq> 0 then now - tr_curStartTime t else 0)"

definition tracker_ok :: "int \<Rightarrow> tracker \<Rightarrow> bool" where
  "tracker_ok now t \<longleftrightarrow> 0 \<le> tr_duration t \<and> 0 \<le> tr_count t \<and> 0 \<le> tr_curStartTime t \<and> tr_curStartTime t \<le> now"

text \<open>Of two opposite timers exactly one runs, and together they cover the time since \<open>t0\<close>.\<close>

definition opposite :: "int \<Rightarrow> int \<Rightarrow> tracker \<Rightarrow> tracker \<Rightarrow> bool" where
  "opposite t0 now a b \<longleftrightarrow> tracker_ok now a \<and> tracker_ok now b \<and>
     (tr_curStartTime a \<noteq> 0) \<noteq> (tr_curStartTime b \<noteq> 0) \<and> tracked now a + tracked now b = now - t0"

lemma opposite_wait: "opposite t0 now a b \<Longrightarrow> now \<le> t \<Longrightarrow> opposite t0 t a b"
  by (auto simp: opposite_def tracker_ok_def tracked_def)

lemma opposite_switch:
  assumes "opposite t0 now a b" "now \<le> t" "0 < t"
  shows "opposite t0 t (EventTracker_Update t a) (EventTracker_CommitTime t b)"
  using assms
  by (auto simp: opposite_def tracker_ok_def tracked_def EventTracker_Update_def EventTracker_CommitTime_def)

lemma opposite_sym: "opposite t0 now a b = opposite t0 now b a"
  by (auto simp: opposite_def)

lemma opposite_first:
  "0 < t \<Longrightarrow> opposite t t (EventTracker_Update t EventTracker_new) (EventTracker_CommitTime t EventTracker_new)"
  by (simp add: opposite_def tracker_ok_def tracked_def EventTracker_Update_def EventTracker_CommitTime_def
      EventTracker_new_def)

lemma opposite_commit:
  assumes "opposite t0 now a b" "now \<le> t"
  shows "tr_duration (EventTracker_CommitTime t a) + tr_duration (EventTracker_CommitTime t b) = t - t0 \<and>
    0 \<le> tr_duration (EventTracker_CommitTime t a) \<and> 0 \<le> tr_duration (EventTracker_CommitTime t b)"
  using assms by (auto simp: opposite_def tracker_ok_def tracked_def EventTracker_CommitTime_def)

lemma PeriodStats_Update_trackers [simp]:
  "pd_interactiveTracker (fst (PeriodStats_Update bn n t e a u pu)) = pd_interactiveTracker (fst pu)"
  "pd_noninteractiveTracker (fst (PeriodStats_Update bn n t e a u pu)) = pd_noninteractiveTracker (fst pu)"
  by (cases pu; rule GetOrCreate_cases [of "fst pu" bn u "snd pu"];
      simp add: PeriodStats_Update_def GetCachedString_def Let_def)+

lemma PeriodStats_AddEvent_trackers [simp]:
  "pd_interactiveTracker (PeriodStats_AddEvent e p) = pd_interactiveTracker p"
  "pd_noninteractiveTracker (PeriodStats_AddEvent e p) = pd_noninteractiveTracker p"
  using PeriodStats_AddEvent_effect [of e p] by auto

lemma period_step_opposite:
  assumes "period_step (now, p) (t, p')" "0 < now"
    and "opposite t0 now (pd_interactiveTracker p) (pd_noninteractiveTracker p)"
  shows "opposite t0 t (pd_interactiveTracker p') (pd_noninteractiveTracker p') \<and> now \<le> t"
  using assms(1)
proof cases
  case on
  then show ?thesis
    using assms opposite_switch by (simp add: UpdateScreenInteractive_def)
next
  case off
  then show ?thesis
    using assms opposite_switch [of t0 now "pd_noninteractiveTracker p" "pd_interactiveTracker p" t]
    by (simp add: UpdateScreenNonInteractive_def opposite_sym)
qed (use assms opposite_wait in \<open>auto simp: UpdateKeyguardShown_def UpdateKeyguardHidden_def\<close>)

lemma period_run_opposite:
  assumes "period_step\<^sup>*\<^sup>* s s'" "0 < fst s"
    and "opposite t0 (fst s) (pd_interactiveTracker (snd s)) (pd_noninteractiveTracker (snd s))"
  shows "fst s \<le> fst s' \<and>
    opposite t0 (fst s') (pd_interactiveTracker (snd s')) (pd_noninteractiveTracker (snd s'))"
  using assms(1)
proof (induction rule: rtranclp_induct)
  case base
  then show ?case using assms(3) by simp
next
  case (step y z)
  then show ?case
    using period_step_opposite [of "fst y" "snd y" "fst z" "snd z" t0] assms(2) by simp
qed

section \<open>Frame and combiners\<close>

lemma PeriodStats_Update_records:
  assumes "IsBundleEvent e"
  shows "om_find (pd_bundleStats (fst (PeriodStats_Update bn n t e a u (p, um)))) k =
    (if k = GetBundleUsageKey bn u
     then Some (PackageStats_Update n t e a u (case om_find (pd_bundleStats p) k of Some s \<Rightarrow> s
       | None \<Rightarrow> PackageStats_default \<lparr> pk_endTimeStamp := pd_endTime p, pk_bundleName := bn, pk_uid := u \<rparr>))
     else om_find (pd_bundleStats p) k)"
proof -
  have e: "\<not> (e = SHUTDOWN \<or> e = FLUSH)"
    using assms by (auto simp: IsBundleEvent_def split: if_splits)
  show ?thesis
    by (cases rule: GetOrCreate_cases [of p bn u um])
      (use assms e in \<open>auto simp: PeriodStats_Update_def Let_def\<close>)
qed

lemma combine_packages_eq: "combine_packages p acc = acc @ map snd (pd_bundleStats p)"
proof -
  have "fold (\<lambda>it acc. acc @ [PackageStats_copy (snd it)]) m acc = acc @ map snd m"
    for m :: "(string, package_stats) omap"
    by (induction m arbitrary: acc) simp_all
  then show ?thesis by (simp add: combine_packages_def)
qed

lemma combine_events_eq:
  "ev_sorted (pd_events p) \<Longrightarrow>
   combine_events b p acc = acc @ dropWhile (\<lambda>e. ev_timeStamp e < b) (pd_events p)"
  using el.first_at_split [of "pd_events p" b] by (simp add: combine_events_def map_idI)

section \<open>Properties\<close>

text \<open>C26: The screen timers partition time. Start a period with the screen going on or off at
\<open>t0\<close>, let any sequence of screen, key guard, usage and log steps with non-decreasing times follow,
and commit the timers at \<open>t\<close>: the interactive and the non-interactive duration are not negative
and add up to exactly \<open>t - t0\<close>.\<close>

theorem screen_time_partition:
  assumes "period_step\<^sup>*\<^sup>* (t0, p0) (now, p)"
    and "p0 = UpdateScreenInteractive t0 (PeriodStats_new u b) \<or>
      p0 = UpdateScreenNonInteractive t0 (PeriodStats_new u b)"
    and "0 < t0" "now \<le> t"
  shows "(let p' = PeriodStats_CommitTime t p in
     tr_duration (pd_interactiveTracker p') + tr_duration (pd_noninteractiveTracker p') = t - t0 \<and>
     0 \<le> tr_duration (pd_interactiveTracker p') \<and> 0 \<le> tr_duration (pd_noninteractiveTracker p'))"
proof -
  have "opposite t0 t0 (pd_interactiveTracker p0) (pd_noninteractiveTracker p0)"
    using assms(2) opposite_first [OF assms(3)]
    by (auto simp: UpdateScreenInteractive_def UpdateScreenNonInteractive_def PeriodStats_new_def
        opposite_sym [of _ _ "EventTracker_CommitTime _ _"])
  then have "opposite t0 now (pd_interactiveTracker p) (pd_noninteractiveTracker p)"
    using period_run_opposite [OF assms(1)] assms(3) by simp
  then show ?thesis
    using opposite_commit [OF _ assms(4)] by (simp add: Let_def PeriodStats_CommitTime_def)
qed

theorem screen_time_partition_witness:
  "tr_duration (pd_interactiveTracker (PeriodStats_CommitTime 40
       (UpdateScreenNonInteractive 30 (UpdateScreenInteractive 10 (PeriodStats_new 100 0))))) +
     tr_duration (pd_noninteractiveTracker (PeriodStats_CommitTime 40
       (UpdateScreenNonInteractive 30 (UpdateScreenInteractive 10 (PeriodStats_new 100 0))))) = 30"
proof -
  have "period_step\<^sup>*\<^sup>* (10, UpdateScreenInteractive 10 (PeriodStats_new 100 0))
      (30, UpdateScreenNonInteractive 30 (UpdateScreenInteractive 10 (PeriodStats_new 100 0)))"
    by (intro r_into_rtranclp period_step.off) simp
  from screen_time_partition [OF this disjI1 [OF refl], of 40] show ?thesis
    by (simp add: Let_def)
qed

text \<open>C25: Every operation of a period keeps its invariant: the records stay filed under the key of
their name and uid, known to the uid registry, internally consistent, and the log stays in time
order below the end time. A new period satisfies it.\<close>

theorem period_invariant:
  assumes "PeriodStats_inv (p, um)"
  shows "PeriodStats_inv (PeriodStats_Update bn n t e a u (p, um)) \<and>
    PeriodStats_inv (PeriodStats_AddEvent ev p, um) \<and>
    PeriodStats_inv (UpdateScreenInteractive t p, um) \<and>
    PeriodStats_inv (UpdateScreenNonInteractive t p, um) \<and>
    PeriodStats_inv (UpdateKeyguardShown t p, um) \<and> PeriodStats_inv (UpdateKeyguardHidden t p, um) \<and>
    PeriodStats_inv (PeriodStats_CommitTime t p, um) \<and> PeriodStats_inv (PeriodStats_new user b, um)"
  using PeriodStats_Update_inv [OF assms] PeriodStats_AddEvent_inv [OF assms] assms
  by (simp add: PeriodStats_inv_def [of "(p, um)"])

theorem period_invariant_witness:
  "PeriodStats_inv (PeriodStats_Update ''app'' '''' 10 2 ''main'' 7 (PeriodStats_new 100 0, []))"
  using period_invariant [of "PeriodStats_new 100 0" "[]"] by (simp add: uidmap_inv_def)

text \<open>A usage event of one bundle updates that bundle's record (created with the end time of
the period when it is new), leaves every other record as it was, and the end time never goes
back.\<close>

theorem usage_update_frame:
  assumes "IsBundleEvent e"
  shows "let p' = fst (PeriodStats_Update bn n t e a u (p, um)) in
    om_find (pd_bundleStats p') (GetBundleUsageKey bn u) =
      Some (PackageStats_Update n t e a u
        (case om_find (pd_bundleStats p) (GetBundleUsageKey bn u) of Some s \<Rightarrow> s
         | None \<Rightarrow> PackageStats_default \<lparr> pk_endTimeStamp := pd_endTime p, pk_bundleName := bn, pk_uid := u \<rparr>)) \<and>
    (\<forall>k. k \<noteq> GetBundleUsageKey bn u \<longrightarrow> om_find (pd_bundleStats p') k = om_find (pd_bundleStats p) k) \<and>
    pd_endTime p' = max (pd_endTime p) t"
proof -
  have e: "\<not> (e = SHUTDOWN \<or> e = FLUSH)"
    using assms(1) by (auto simp: IsBundleEvent_def split: if_splits)
  have "pd_endTime (fst (PeriodStats_Update bn n t e a u (p, um))) = max (pd_endTime p) t"
    by (cases rule: GetOrCreate_cases [of p bn u um])
      (use assms(1) e in \<open>auto simp: PeriodStats_Update_def Let_def max_def\<close>)
  then show ?thesis
    unfolding Let_def using PeriodStats_Update_records [OF assms(1)] by simp
qed

theorem usage_update_frame_witness:
  "pd_endTime (fst (PeriodStats_Update ''app'' '''' 10 2 ''main'' 7 (PeriodStats_new 100 0, []))) = 10"
  using usage_update_frame [of 2 "''app''" "[]" 10 "''main''" 7 "PeriodStats_new 100 0" "[]"]
  by (simp add: IsBundleEvent_def PeriodStats_new_def Let_def)

end
