(* ===== verification/ModuleRecord.thy ===== *)
theory ModuleRecord
  imports ParcelModel
begin

text \<open>\<open>BundleActiveModuleRecord\<close> and \<open>BundleActiveFormRecord\<close> (\<open>interfaces/innerkits\<close>): the usage of
a module and of its cards (forms).\<close>

section \<open>Form records\<close>

record form_record =
  fr_formName :: string
  fr_formDimension :: int
  fr_formId :: int
  fr_formLastUsedTime :: int
  fr_count :: int
  fr_userId :: int
  fr_uid :: int

definition FormRecord_default :: form_record where
  "FormRecord_default = \<lparr> fr_formName = '''', fr_formDimension = 0, fr_formId = 0,
     fr_formLastUsedTime = - 1, fr_count = 0, fr_userId = - 1, fr_uid = - 1 \<rparr>"

definition FormRecord_new :: "string \<Rightarrow> int \<Rightarrow> int \<Rightarrow> int \<Rightarrow> int \<Rightarrow> int \<Rightarrow> form_record" where
  "FormRecord_new formName formDimension formId timeStamp userId uid = \<lparr> fr_formName = formName,
     fr_formDimension = formDimension, fr_formId = formId, fr_formLastUsedTime = timeStamp,
     fr_count = 1, fr_userId = userId, fr_uid = uid \<rparr>"

definition FormRecord_copy :: "form_record \<Rightarrow> form_record" where
  "FormRecord_copy orig = \<lparr> fr_formName = fr_formName orig, fr_formDimension = fr_formDimension orig,
     fr_formId = fr_formId orig, fr_formLastUsedTime = fr_formLastUsedTime orig,
     fr_count = fr_count orig, fr_userId = fr_userId orig, fr_uid = fr_uid orig \<rparr>"

lemma FormRecord_copy_id [simp]: "FormRecord_copy f = f"
  by (simp add: FormRecord_copy_def)

definition UpdateFormRecord :: "int \<Rightarrow> form_record \<Rightarrow> form_record" where
  "UpdateFormRecord timeStamp f =
     (if fr_formLastUsedTime f < timeStamp
      then f \<lparr> fr_formLastUsedTime := timeStamp, fr_count := fr_count f + 1 \<rparr> else f)"

definition FormRecord_items :: "form_record \<Rightarrow> pitem list" where
  "FormRecord_items f = [PStr (fr_formName f), PI32 (fr_formDimension f), PI64 (fr_formId f),
     PI64 (fr_formLastUsedTime f), PI32 (fr_count f)]"

definition FormRecord_Marshalling :: "'p parcel_ops \<Rightarrow> form_record \<Rightarrow> 'p \<Rightarrow> bool \<times> 'p" where
  "FormRecord_Marshalling P f p = wseq P (FormRecord_items f) p"

definition FormRecord_Unmarshalling :: "'p parcel_ops \<Rightarrow> bool \<Rightarrow> 'p \<Rightarrow> form_record option \<times> 'p" where
  "FormRecord_Unmarshalling P alloc p =
     (if \<not> alloc then (None, p) else
      let (na, p) = pReadString P p;
          (di, p) = pReadInt32 P p;
          (fi, p) = pReadInt64 P p;
          (lu, p) = pReadInt64 P p;
          (co, p) = pReadInt32 P p
      in (Some (FormRecord_default \<lparr> fr_formName := na, fr_formDimension := di, fr_formId := fi,
            fr_formLastUsedTime := lu, fr_count := co \<rparr>), p))"

definition FormRecord_cmp :: "form_record \<Rightarrow> form_record \<Rightarrow> bool" where
  "FormRecord_cmp a b \<longleftrightarrow> fr_count a > fr_count b"

definition FormRecord_ToString :: "form_record \<Rightarrow> string" where
  "FormRecord_ToString f = ''form name is '' @ fr_formName f @
     '', form dimension is '' @ int_to_string (fr_formDimension f) @
     '', form id is '' @ int_to_string (fr_formId f) @ '', uid id is '' @ int_to_string (fr_uid f) @
     '', last used time stamp is'' @ int_to_string (fr_formLastUsedTime f) @
     '', touch count is '' @ int_to_string (fr_count f) @ [CHR 0x0A]"

section \<open>Module records\<close>

record module_record =
  mr_deviceId :: string
  mr_bundleName :: string
  mr_moduleName :: string
  mr_abilityName :: string
  mr_appLabelId :: nat
  mr_labelId :: nat
  mr_descriptionId :: nat
  mr_abilityLableId :: nat
  mr_abilityDescriptionId :: nat
  mr_abilityIconId :: nat
  mr_launchedCount :: int
  mr_lastModuleUsedTime :: int
  mr_userId :: int
  mr_uid :: int
  mr_removed :: bool
  mr_installFreeSupported :: bool
  mr_isNewAdded :: bool
  mr_formRecords :: "form_record list"

definition MAX_FORM_NUM :: nat where "MAX_FORM_NUM = 1000"

definition ModuleRecord_default :: module_record where
  "ModuleRecord_default = \<lparr> mr_deviceId = '''', mr_bundleName = '''', mr_moduleName = '''',
     mr_abilityName = '''', mr_appLabelId = 0, mr_labelId = 0, mr_descriptionId = 0,
     mr_abilityLableId = 0, mr_abilityDescriptionId = 0, mr_abilityIconId = 0,
     mr_launchedCount = 0, mr_lastModuleUsedTime = - 1, mr_userId = - 1, mr_uid = 0,
     mr_removed = False, mr_installFreeSupported = False, mr_isNewAdded = False,
     mr_formRecords = [] \<rparr>"

text \<open>Forms are compared by their id; the loop updates the first match or appends.\<close>

fun add_or_update_form :: "form_record \<Rightarrow> int \<Rightarrow> form_record list \<Rightarrow> form_record list" where
  "add_or_update_form newForm timeStamp [] = [newForm]"
| "add_or_update_form newForm timeStamp (f # fs) =
     (if fr_formId f = fr_formId newForm then UpdateFormRecord timeStamp f # fs
      else f # add_or_update_form newForm timeStamp fs)"

definition AddOrUpdateOneFormRecord ::
    "string \<Rightarrow> int \<Rightarrow> int \<Rightarrow> int \<Rightarrow> int \<Rightarrow> module_record \<Rightarrow> module_record" where
  "AddOrUpdateOneFormRecord formName formDimension formId timeStamp uid m =
     m \<lparr> mr_formRecords := add_or_update_form
           (FormRecord_new formName formDimension formId timeStamp (mr_userId m) uid)
           timeStamp (mr_formRecords m) \<rparr>"

fun remove_form :: "int \<Rightarrow> form_record list \<Rightarrow> form_record list" where
  "remove_form formId [] = []"
| "remove_form formId (f # fs) = (if fr_formId f = formId then fs else f # remove_form formId fs)"

definition RemoveOneFormRecord :: "string \<Rightarrow> int \<Rightarrow> int \<Rightarrow> module_record \<Rightarrow> module_record" where
  "RemoveOneFormRecord formName formDimension formId m =
     m \<lparr> mr_formRecords := remove_form formId (mr_formRecords m) \<rparr>"

definition UpdateModuleRecord :: "int \<Rightarrow> module_record \<Rightarrow> module_record" where
  "UpdateModuleRecord timeStamp m =
     (if mr_lastModuleUsedTime m < timeStamp
      then m \<lparr> mr_lastModuleUsedTime := timeStamp, mr_launchedCount := mr_launchedCount m + 1 \<rparr>
      else m)"

definition ModuleRecord_items :: "module_record \<Rightarrow> pitem list" where
  "ModuleRecord_items m = [PStr (mr_deviceId m), PStr (mr_bundleName m), PStr (mr_moduleName m),
     PStr (mr_abilityName m), PU32 (mr_appLabelId m), PU32 (mr_descriptionId m),
     PU32 (mr_abilityLableId m), PU32 (mr_abilityDescriptionId m), PU32 (mr_abilityIconId m),
     PI32 (mr_launchedCount m), PI64 (mr_lastModuleUsedTime m),
     PU32 (length (mr_formRecords m)), PI32 (mr_uid m)]"

text \<open>The answers of the writes of the single forms are ignored.\<close>

definition ModuleRecord_Marshalling :: "'p parcel_ops \<Rightarrow> module_record \<Rightarrow> 'p \<Rightarrow> bool \<times> 'p" where
  "ModuleRecord_Marshalling P m p =
     (case wseq P (ModuleRecord_items m) p of
        (True, p') \<Rightarrow> (True, fold (\<lambda>f q. snd (FormRecord_Marshalling P f q)) (mr_formRecords m) p')
      | (False, p') \<Rightarrow> (False, p'))"

text \<open>\<open>alloc\<close> for the record, \<open>allocs\<close> for each form; a form that cannot be allocated is skipped.\<close>

fun read_forms :: "'p parcel_ops \<Rightarrow> bool list \<Rightarrow> form_record list \<Rightarrow> 'p \<Rightarrow> form_record list \<times> 'p" where
  "read_forms P [] acc p = (acc, p)"
| "read_forms P (a # as) acc p =
     (case FormRecord_Unmarshalling P a p of
        (None, p') \<Rightarrow> read_forms P as acc p'
      | (Some f, p') \<Rightarrow> read_forms P as (acc @ [FormRecord_copy f]) p')"

definition ModuleRecord_Unmarshalling ::
    "'p parcel_ops \<Rightarrow> bool \<Rightarrow> (nat \<Rightarrow> bool) \<Rightarrow> 'p \<Rightarrow> module_record option \<times> 'p" where
  "ModuleRecord_Unmarshalling P alloc allocs p =
     (if \<not> alloc then (None, p) else
      let (de, p) = pReadString P p;
          (bn, p) = pReadString P p;
          (mn, p) = pReadString P p;
          (an, p) = pReadString P p;
          (al, p) = pReadUint32 P p;
          (dc, p) = pReadUint32 P p;
          (bl, p) = pReadUint32 P p;
          (bd, p) = pReadUint32 P p;
          (bi, p) = pReadUint32 P p;
          (lc, p) = pReadInt32 P p;
          (lu, p) = pReadInt64 P p;
          (sz, p) = pReadUint32 P p;
          (ui, p) = pReadInt32 P p
      in if sz > MAX_FORM_NUM then (None, p)
         else let (fs, p) = read_forms P (map allocs [0..<sz]) [] p
              in (Some (ModuleRecord_default \<lparr> mr_deviceId := de, mr_bundleName := bn,
                    mr_moduleName := mn, mr_abilityName := an, mr_appLabelId := al,
                    mr_descriptionId := dc, mr_abilityLableId := bl, mr_abilityDescriptionId := bd,
                    mr_abilityIconId := bi, mr_launchedCount := lc, mr_lastModuleUsedTime := lu,
                    mr_uid := ui, mr_formRecords := fs \<rparr>), p))"

definition ModuleRecord_cmp :: "module_record \<Rightarrow> module_record \<Rightarrow> bool" where
  "ModuleRecord_cmp a b \<longleftrightarrow> mr_lastModuleUsedTime a > mr_lastModuleUsedTime b"

definition ModuleRecord_ToString :: "module_record \<Rightarrow> string" where
  "ModuleRecord_ToString m = ''bundle name is '' @ mr_bundleName m @
     '', module name is '' @ mr_moduleName m @ '', uid is '' @ int_to_string (mr_uid m) @
     '', last used time stamp is '' @ int_to_string (mr_lastModuleUsedTime m) @
     '', module is used for '' @ int_to_string (mr_launchedCount m) @ '' times'' @ [CHR 0x0A]"

section \<open>Lemmas\<close>

definition form_ids :: "module_record \<Rightarrow> int list" where
  "form_ids m = map fr_formId (mr_formRecords m)"

lemma UpdateFormRecord_formId [simp]: "fr_formId (UpdateFormRecord t f) = fr_formId f"
  by (simp add: UpdateFormRecord_def)

lemma add_or_update_ids:
  "map fr_formId (add_or_update_form nf t fs) =
     (if fr_formId nf \<in> fr_formId ` set fs then map fr_formId fs else map fr_formId fs @ [fr_formId nf])"
  by (induction fs) auto

lemma remove_form_ids: "map fr_formId (remove_form i fs) = remove1 i (map fr_formId fs)"
  by (induction fs) auto

lemma add_or_update_find:
  "distinct (map fr_formId fs) \<Longrightarrow>
   List.find (\<lambda>f. fr_formId f = i) (add_or_update_form nf t fs) =
     (if i = fr_formId nf
      then Some (case List.find (\<lambda>f. fr_formId f = i) fs of None \<Rightarrow> nf | Some f \<Rightarrow> UpdateFormRecord t f)
      else List.find (\<lambda>f. fr_formId f = i) fs)"
  by (induction fs) auto

lemma FormRecord_Unmarshalling_items:
  assumes F: "parcel_fifo P content" and c: "content p = FormRecord_items f @ r"
  shows "\<exists>q. FormRecord_Unmarshalling P True p = (Some (f \<lparr> fr_userId := - 1, fr_uid := - 1 \<rparr>), q) \<and> content q = r"
  using c by (auto simp: FormRecord_Unmarshalling_def FormRecord_default_def FormRecord_items_def
      dest!: parcel_fifo_read [OF F])

lemma read_forms_items:
  assumes F: "parcel_fifo P content"
  shows "content p = concat (map FormRecord_items fs) @ r \<Longrightarrow>
    \<exists>q. read_forms P (replicate (length fs) True) acc p =
      (acc @ map (\<lambda>f. f \<lparr> fr_userId := - 1, fr_uid := - 1 \<rparr>) fs, q) \<and> content q = r"
proof (induction fs arbitrary: acc p)
  case (Cons f fs)
  then obtain q where "FormRecord_Unmarshalling P True p = (Some (f \<lparr> fr_userId := - 1, fr_uid := - 1 \<rparr>), q)"
    "content q = concat (map FormRecord_items fs) @ r"
    using FormRecord_Unmarshalling_items [OF F, of p f "concat (map FormRecord_items fs) @ r"] by auto
  then show ?case
    using Cons.IH [of q "acc @ [f \<lparr> fr_userId := - 1, fr_uid := - 1 \<rparr>]"] by simp
qed simp

lemma write_forms_content:
  assumes F: "parcel_fifo P content" and T: "parcel_total P"
  shows "content (fold (\<lambda>f q. snd (FormRecord_Marshalling P f q)) fs p) = content p @ concat (map FormRecord_items fs)"
proof (induction fs arbitrary: p)
  case (Cons f fs)
  obtain q where q: "FormRecord_Marshalling P f p = (True, q)"
    using parcel_total_wseq [OF T, of "FormRecord_items f" p]
    by (metis FormRecord_Marshalling_def prod.collapse)
  then have "content q = content p @ FormRecord_items f"
    using parcel_fifo_wseq [OF F] by (simp add: FormRecord_Marshalling_def)
  then show ?case
    using Cons.IH [of q] q by simp
qed simp

definition ModuleRecord_wire :: "module_record \<Rightarrow> module_record" where
  "ModuleRecord_wire m = m \<lparr> mr_labelId := 0, mr_userId := - 1, mr_removed := False,
     mr_installFreeSupported := False, mr_isNewAdded := False,
     mr_formRecords := map (\<lambda>f. f \<lparr> fr_userId := - 1, fr_uid := - 1 \<rparr>) (mr_formRecords m) \<rparr>"

lemma ModuleRecord_content:
  assumes F: "parcel_fifo P content" and T: "parcel_total P" and c: "content p = []"
    and w: "ModuleRecord_Marshalling P m p = (True, p')"
  shows "content p' = ModuleRecord_items m @ concat (map FormRecord_items (mr_formRecords m))"
proof -
  obtain q where q: "wseq P (ModuleRecord_items m) p = (True, q)"
    using parcel_total_wseq [OF T, of "ModuleRecord_items m" p] by (metis prod.collapse)
  then have "p' = fold (\<lambda>f q. snd (FormRecord_Marshalling P f q)) (mr_formRecords m) q"
    using w by (simp add: ModuleRecord_Marshalling_def)
  then show ?thesis
    using write_forms_content [OF F T] parcel_fifo_wseq [OF F q] c by simp
qed

lemma ModuleRecord_header:
  assumes F: "parcel_fifo P content" and c: "content p = ModuleRecord_items m @ r"
  shows "\<exists>q. content q = r \<and> ModuleRecord_Unmarshalling P True allocs p =
    (if length (mr_formRecords m) > MAX_FORM_NUM then (None, q)
     else let (fs, q') = read_forms P (map allocs [0..<length (mr_formRecords m)]) [] q
       in (Some (ModuleRecord_wire m \<lparr> mr_formRecords := fs \<rparr>), q'))"
  by (insert c [unfolded ModuleRecord_items_def append.simps], (drule parcel_fifo_read [OF F], elim exE conjE)+, rule exI, rule conjI, assumption, cases m,
      simp add: ModuleRecord_Unmarshalling_def ModuleRecord_default_def ModuleRecord_wire_def)

section \<open>Properties\<close>

text \<open>The cards of a module are a map from form id to usage. Clicking a card keeps the ids
distinct and in order, gives the record of that id a count one higher and the new time when the
time is later (or creates it with count one), and touches no other card; removing a card deletes
that id and keeps the others.\<close>

theorem form_records_map:
  assumes "distinct (form_ids m)"
  shows "distinct (form_ids (AddOrUpdateOneFormRecord n d i t u m)) \<and>
    distinct (form_ids (RemoveOneFormRecord n d i m)) \<and>
    set (form_ids (RemoveOneFormRecord n d i m)) = set (form_ids m) - {i} \<and>
    List.find (\<lambda>f. fr_formId f = j) (mr_formRecords (AddOrUpdateOneFormRecord n d i t u m)) =
      (if j = i
       then Some (case List.find (\<lambda>f. fr_formId f = i) (mr_formRecords m) of
           None \<Rightarrow> FormRecord_new n d i t (mr_userId m) u
         | Some f \<Rightarrow> if fr_formLastUsedTime f < t
             then f \<lparr> fr_formLastUsedTime := t, fr_count := fr_count f + 1 \<rparr> else f)
       else List.find (\<lambda>f. fr_formId f = j) (mr_formRecords m))"
proof (intro conjI)
  let ?new = "FormRecord_new n d i t (mr_userId m) u"
  have i: "fr_formId ?new = i" by (simp add: FormRecord_new_def)
  have ids: "form_ids (RemoveOneFormRecord n d i m) = remove1 i (form_ids m)"
    by (simp add: form_ids_def RemoveOneFormRecord_def remove_form_ids)
  show "distinct (form_ids (AddOrUpdateOneFormRecord n d i t u m))"
    using assms by (simp add: form_ids_def AddOrUpdateOneFormRecord_def add_or_update_ids)
  show "distinct (form_ids (RemoveOneFormRecord n d i m))"
    "set (form_ids (RemoveOneFormRecord n d i m)) = set (form_ids m) - {i}"
    unfolding ids using assms by simp_all
  show "List.find (\<lambda>f. fr_formId f = j) (mr_formRecords (AddOrUpdateOneFormRecord n d i t u m)) =
      (if j = i
       then Some (case List.find (\<lambda>f. fr_formId f = i) (mr_formRecords m) of
           None \<Rightarrow> ?new
         | Some f \<Rightarrow> if fr_formLastUsedTime f < t
             then f \<lparr> fr_formLastUsedTime := t, fr_count := fr_count f + 1 \<rparr> else f)
       else List.find (\<lambda>f. fr_formId f = j) (mr_formRecords m))"
    using add_or_update_find [of "mr_formRecords m" j ?new t] assms
    by (simp add: form_ids_def AddOrUpdateOneFormRecord_def i UpdateFormRecord_def split: option.splits)
qed

theorem form_records_map_witness:
  "set (form_ids (RemoveOneFormRecord ''card'' 1 42
     (ModuleRecord_default \<lparr> mr_formRecords := [FormRecord_new ''card'' 1 42 5 100 7] \<rparr>))) = {}"
  using form_records_map [of "ModuleRecord_default \<lparr> mr_formRecords := [FormRecord_new ''card'' 1 42 5 100 7] \<rparr>"
      "''card''" 1 42 0 0 0]
  by (simp add: form_ids_def FormRecord_new_def)

text \<open>C34: A module record of at most 1000 cards survives the trip through a parcel with room, except
for the label id, the user id, the three flags and the user and uid of its cards; a record of more
cards is written but refused by the reader.\<close>

theorem module_record_parcel_roundtrip:
  assumes "parcel_fifo P content" "parcel_total P" "content p = []"
    and "ModuleRecord_Marshalling P m p = (True, p')"
  shows "if length (mr_formRecords m) \<le> 1000
    then \<exists>q. ModuleRecord_Unmarshalling P True (\<lambda>i. True) p' = (Some (ModuleRecord_wire m), q) \<and> content q = []
    else fst (ModuleRecord_Unmarshalling P True (\<lambda>i. True) p') = None"
proof -
  note F = assms(1)
  obtain q where q: "content q = concat (map FormRecord_items (mr_formRecords m))"
    "ModuleRecord_Unmarshalling P True (\<lambda>i. True) p' =
      (if length (mr_formRecords m) > MAX_FORM_NUM then (None, q)
       else let (fs, q') = read_forms P (map (\<lambda>i. True) [0..<length (mr_formRecords m)]) [] q
         in (Some (ModuleRecord_wire m \<lparr> mr_formRecords := fs \<rparr>), q'))"
    using ModuleRecord_header [OF F ModuleRecord_content [OF assms]] by blast
  have rep: "map (\<lambda>i. True) [0..<n] = replicate n True" for n
    by (simp add: map_replicate_const)
  obtain q' where "read_forms P (replicate (length (mr_formRecords m)) True) [] q =
      (map (\<lambda>f. f \<lparr> fr_userId := - 1, fr_uid := - 1 \<rparr>) (mr_formRecords m), q')" "content q' = []"
    using read_forms_items [OF F, of q "mr_formRecords m" "[]" "[]"] q(1) by auto
  then show ?thesis
    unfolding q(2) rep by (simp add: MAX_FORM_NUM_def ModuleRecord_wire_def)
qed

theorem module_record_parcel_roundtrip_witness:
  "\<exists>q. ModuleRecord_Unmarshalling list_parcel True (\<lambda>i. True)
     (ModuleRecord_items (ModuleRecord_default \<lparr> mr_uid := 7 \<rparr>)) = (Some (ModuleRecord_default \<lparr> mr_uid := 7 \<rparr>), q)"
proof -
  let ?m = "ModuleRecord_default \<lparr> mr_uid := 7 \<rparr>"
  have "ModuleRecord_Marshalling list_parcel ?m [] = (True, ModuleRecord_items ?m)"
    by (simp add: ModuleRecord_Marshalling_def list_parcel_wseq) (simp add: ModuleRecord_default_def)
  from module_record_parcel_roundtrip [OF list_parcel_fifo list_parcel_total _ this] show ?thesis
    by (simp add: ModuleRecord_default_def ModuleRecord_wire_def)
qed

end
