(* ===== verification/Errors.thy ===== *)
theory Errors
  imports Main
begin

text \<open>The error codes of \<open>bundle_state_inner_errors.h\<close>, their numbers, and the order by number of
those that the services answer with.\<close>

datatype errcode =
    ERR_OK
  | ERR_PERMISSION_DENIED
  | ERR_NOT_SYSTEM_APP
  | ERR_PARAM_ERROR
  | ERR_MEMORY_OPERATION_FAILED
  | ERR_PARCEL_WRITE_FALIED
  | ERR_SYSTEM_SERVICE_OPERATION_FAILED
  | ERR_IPC_COMMUNICATION_FAILED
  | ERR_APPLICATION_IS_NOT_INSTALLED
  | ERR_GET_APPLICATION_INFO_FAILED
  | ERR_TIME_OPERATION_FAILED
  | ERR_NEW_PARAM_ERROR
  | ERR_APPLICATION_GROUP_OPERATION_REPEATED
  | ERR_NO_APP_GROUP_INFO_IN_DATABASE
  | ERR_GET_SYSTEM_ABILITY_MANAGER_FAILED
  | ERR_GET_SYSTEM_ABILITY_FAILED
  | ERR_CHECK_SYSTEM_ABILITY_FAILED
  | ERR_SYSTEM_SERVICES_NOT_READY
  | ERR_REMOTE_OBJECT_IF_CAST_FAILED
  | ERR_SYSTEM_ABILITY_SUPPORT_FAILED
  | ERR_FIND_APP_USAGE_RECORDS_FAILED
  | ERR_NO_RECORDS_INFO_BY_INTERVAL
  | ERR_QUERY_TIME_OUT_OF_RANGE
  | ERR_GET_BUNDLE_USED_HISTORY_FAILED
  | ERR_QUERY_RESULT_TOO_LARGE
  | ERR_REPEAT_REGISTER_OR_DEREGISTER_GROUP_CALLBACK
  | ERR_REPEAT_SET_APP_GROUP
  | ERR_USAGE_STATS_INTERVAL_NUMBER
  | ERR_USAGE_STATS_METHOD_CALLED_FAILED
  | ERR_USAGE_STATS_INVALID_PARAM

fun errcode_num :: "errcode \<Rightarrow> int" where
  "errcode_num ERR_OK = 0"
| "errcode_num ERR_PERMISSION_DENIED = 201"
| "errcode_num ERR_NOT_SYSTEM_APP = 202"
| "errcode_num ERR_PARAM_ERROR = 401"
| "errcode_num ERR_MEMORY_OPERATION_FAILED = 10000001"
| "errcode_num ERR_PARCEL_WRITE_FALIED = 10000002"
| "errcode_num ERR_SYSTEM_SERVICE_OPERATION_FAILED = 10000003"
| "errcode_num ERR_IPC_COMMUNICATION_FAILED = 10000004"
| "errcode_num ERR_APPLICATION_IS_NOT_INSTALLED = 10000005"
| "errcode_num ERR_GET_APPLICATION_INFO_FAILED = 10000006"
| "errcode_num ERR_TIME_OPERATION_FAILED = 10000007"
| "errcode_num ERR_NEW_PARAM_ERROR = 10000008"
| "errcode_num ERR_APPLICATION_GROUP_OPERATION_REPEATED = 10100001"
| "errcode_num ERR_NO_APP_GROUP_INFO_IN_DATABASE = 10100002"
| "errcode_num ERR_GET_SYSTEM_ABILITY_MANAGER_FAILED = 1000000301"
| "errcode_num ERR_GET_SYSTEM_ABILITY_FAILED = 1000000302"
| "errcode_num ERR_CHECK_SYSTEM_ABILITY_FAILED = 1000000303"
| "errcode_num ERR_SYSTEM_SERVICES_NOT_READY = 1000000304"
| "errcode_num ERR_REMOTE_OBJECT_IF_CAST_FAILED = 1000000305"
| "errcode_num ERR_SYSTEM_ABILITY_SUPPORT_FAILED = 1000000306"
| "errcode_num ERR_FIND_APP_USAGE_RECORDS_FAILED = 1000000601"
| "errcode_num ERR_NO_RECORDS_INFO_BY_INTERVAL = 1000000602"
| "errcode_num ERR_QUERY_TIME_OUT_OF_RANGE = 1000000603"
| "errcode_num ERR_GET_BUNDLE_USED_HISTORY_FAILED = 1000000604"
| "errcode_num ERR_QUERY_RESULT_TOO_LARGE = 1000000605"
| "errcode_num ERR_REPEAT_REGISTER_OR_DEREGISTER_GROUP_CALLBACK = 1010000101"
| "errcode_num ERR_REPEAT_SET_APP_GROUP = 1010000102"
| "errcode_num ERR_USAGE_STATS_INTERVAL_NUMBER = 39911433"
| "errcode_num ERR_USAGE_STATS_METHOD_CALLED_FAILED = 39911435"
| "errcode_num ERR_USAGE_STATS_INVALID_PARAM = 39911436"

lemma errcode_num_inject: "errcode_num a = errcode_num b \<longleftrightarrow> a = b"
  by (cases a; simp; cases b; simp)

instantiation errcode :: linorder
begin

definition less_eq_errcode_def: "a \<le> b \<longleftrightarrow> errcode_num a \<le> errcode_num b"

definition less_errcode_def: "a < b \<longleftrightarrow> errcode_num a < errcode_num b"

instance
  by intro_classes (auto simp: less_eq_errcode_def less_errcode_def errcode_num_inject)

end

lemma errcode_ok_least: "ERR_OK \<le> e"
  by (cases e) (simp_all add: less_eq_errcode_def)

text \<open>The codes of wrong arguments, and the codes that only the first interface for JavaScript uses.\<close>

datatype param_error =
    ERR_PARAMETERS_NUMBER
  | ERR_CALL_BACK_TYPE
  | ERR_PARAMETERS_EMPTY
  | ERR_BUNDLE_NAME_TYPE
  | ERR_BEGIN_TIME_TYPE
  | ERR_BEGIN_TIME_LESS_THEN_ZERO
  | ERR_END_TIME_TYPE
  | ERR_END_TIME_LESS_THEN_BEGIN_TIME
  | ERR_INTERVAL_TYPE
  | ERR_INTERVAL_OUT_OF_RANGE
  | ERR_NEW_GROUP_TYPE
  | ERR_NEW_GROUP_OUT_OF_RANGE
  | ERR_MAX_RECORDS_NUM_TYPE
  | ERR_MAX_RECORDS_NUM_BIGER_THEN_ONE_THOUSAND
  | ERR_APP_GROUP_OBSERVER_CALLBACK_TYPE
  | ERR_REPEAT_REGISTER_APP_GROUP_OBSERVER
  | ERR_APP_GROUP_OBSERVER_IS_NULLPTR
  | ERR_ASYNC_CALLBACK_NULLPTR
  | ERR_ASYNC_CALLBACK_INIT_FAILED

primrec param_num :: "param_error \<Rightarrow> int" where
  "param_num ERR_PARAMETERS_NUMBER = 401001"
| "param_num ERR_CALL_BACK_TYPE = 401002"
| "param_num ERR_PARAMETERS_EMPTY = 401003"
| "param_num ERR_BUNDLE_NAME_TYPE = 401004"
| "param_num ERR_BEGIN_TIME_TYPE = 401005"
| "param_num ERR_BEGIN_TIME_LESS_THEN_ZERO = 401006"
| "param_num ERR_END_TIME_TYPE = 401007"
| "param_num ERR_END_TIME_LESS_THEN_BEGIN_TIME = 401008"
| "param_num ERR_INTERVAL_TYPE = 401009"
| "param_num ERR_INTERVAL_OUT_OF_RANGE = 401010"
| "param_num ERR_NEW_GROUP_TYPE = 401011"
| "param_num ERR_NEW_GROUP_OUT_OF_RANGE = 401012"
| "param_num ERR_MAX_RECORDS_NUM_TYPE = 401013"
| "param_num ERR_MAX_RECORDS_NUM_BIGER_THEN_ONE_THOUSAND = 401014"
| "param_num ERR_APP_GROUP_OBSERVER_CALLBACK_TYPE = 401015"
| "param_num ERR_REPEAT_REGISTER_APP_GROUP_OBSERVER = 401016"
| "param_num ERR_APP_GROUP_OBSERVER_IS_NULLPTR = 401017"
| "param_num ERR_ASYNC_CALLBACK_NULLPTR = 401018"
| "param_num ERR_ASYNC_CALLBACK_INIT_FAILED = 401019"

datatype usage_error =
    ERR_USAGE_STATS_BUNDLENAME_EMPTY
  | ERR_USAGE_STATS_BUNDLENAME_TYPE
  | ERR_USAGE_STATS_ASYNC_CALLBACK_NULLPTR
  | ERR_USAGE_STATS_ASYNC_CALLBACK_INIT_FAILED
  | ERR_USAGE_STATS_BEGIN_TIME_INVALID
  | ERR_USAGE_STATS_END_TIME_INVALID
  | ERR_USAGE_STATS_TIME_INTERVAL
  | ERR_USAGE_STATS_INTERVAL_TYPE
  | ERR_SERVICE_FAILED

primrec usage_num :: "usage_error \<Rightarrow> int" where
  "usage_num ERR_USAGE_STATS_BUNDLENAME_EMPTY = 39911425"
| "usage_num ERR_USAGE_STATS_BUNDLENAME_TYPE = 39911426"
| "usage_num ERR_USAGE_STATS_ASYNC_CALLBACK_NULLPTR = 39911427"
| "usage_num ERR_USAGE_STATS_ASYNC_CALLBACK_INIT_FAILED = 39911428"
| "usage_num ERR_USAGE_STATS_BEGIN_TIME_INVALID = 39911429"
| "usage_num ERR_USAGE_STATS_END_TIME_INVALID = 39911430"
| "usage_num ERR_USAGE_STATS_TIME_INTERVAL = 39911431"
| "usage_num ERR_USAGE_STATS_INTERVAL_TYPE = 39911432"
| "usage_num ERR_SERVICE_FAILED = 39911434"

end
