(* ===== verification/UserHistory.thy ===== *)
theory UserHistory
  imports Event Util Errors
begin

text \<open>\<open>BundleActiveUserHistory\<close>, \<open>BundleActivePackageHistory\<close> (\<open>services/packagegroup\<close>) and
\<open>AppGroupCallbackInfo\<close> (\<open>interfaces/innerkits\<close>): for every user and bundle, when it was last used
on the boot clock and the screen-on clock, and the application group it is in. The database behind
it is given by the operations it calls; callbacks to the core are collected in a list.\<close>

section \<open>Groups and reasons\<close>

abbreviation (input) ACTIVE_GROUP_FORCED_SET :: int where "ACTIVE_GROUP_FORCED_SET \<equiv> 5"
abbreviation (input) ACTIVE_GROUP_ALIVE :: int where "ACTIVE_GROUP_ALIVE \<equiv> 10"
abbreviation (input) ACTIVE_GROUP_DAILY :: int where "ACTIVE_GROUP_DAILY \<equiv> 20"
abbreviation (input) ACTIVE_GROUP_FIXED :: int where "ACTIVE_GROUP_FIXED \<equiv> 30"
abbreviation (input) ACTIVE_GROUP_RARE :: int where "ACTIVE_GROUP_RARE \<equiv> 40"
abbreviation (input) ACTIVE_GROUP_LIMIT :: int where "ACTIVE_GROUP_LIMIT \<equiv> 50"
abbreviation (input) ACTIVE_GROUP_NEVER :: int where "ACTIVE_GROUP_NEVER \<equiv> 60"
abbreviation (input) GROUP_CONTROL_REASON_MASK :: "32 word" where "GROUP_CONTROL_REASON_MASK \<equiv> 0xFF00"
abbreviation (input) GROUP_CONTROL_REASON_DEFAULT :: "32 word" where "GROUP_CONTROL_REASON_DEFAULT \<equiv> 0x0100"
abbreviation (input) GROUP_CONTROL_REASON_TIMEOUT :: "32 word" where "GROUP_CONTROL_REASON_TIMEOUT \<equiv> 0x0200"
abbreviation (input) GROUP_CONTROL_REASON_USAGE :: "32 word" where "GROUP_CONTROL_REASON_USAGE \<equiv> 0x0300"
abbreviation (input) GROUP_CONTROL_REASON_FORCED :: "32 word" where "GROUP_CONTROL_REASON_FORCED \<equiv> 0x0400"
abbreviation (input) GROUP_EVENT_REASON_ALIVE_TIMEOUT :: "32 word" where "GROUP_EVENT_REASON_ALIVE_TIMEOUT \<equiv> 0x0006"
abbreviation (input) GROUP_EVENT_REASON_ALIVE_NOT_TIMEOUT :: "32 word" where "GROUP_EVENT_REASON_ALIVE_NOT_TIMEOUT \<equiv> 0x0009"

definition MAX_END_TIME :: int where "MAX_END_TIME = 20000000000000"

section \<open>State\<close>

record package_history =
  ph_bundleName :: string
  ph_lastBootFromUsedTimeStamp :: int
  ph_lastScreenUsedTimeStamp :: int
  ph_lastGroupCalculatedTimeStamp :: int
  ph_lastCalculatedGroup :: int
  ph_currentGroup :: int
  ph_uid :: int
  ph_reasonInGroup :: "32 word"
  ph_bundleAliveTimeoutTimeStamp :: int
  ph_bundleDailyTimeoutTimeStamp :: int
  ph_bundlefirstUseTimeStamp :: int
  ph_isChanged :: bool

definition PackageHistory_default :: package_history where
  "PackageHistory_default = \<lparr> ph_bundleName = '''', ph_lastBootFromUsedTimeStamp = 0,
     ph_lastScreenUsedTimeStamp = 0, ph_lastGroupCalculatedTimeStamp = 0,
     ph_lastCalculatedGroup = ACTIVE_GROUP_NEVER, ph_currentGroup = ACTIVE_GROUP_NEVER, ph_uid = 0,
     ph_reasonInGroup = GROUP_CONTROL_REASON_DEFAULT, ph_bundleAliveTimeoutTimeStamp = 0,
     ph_bundleDailyTimeoutTimeStamp = 0, ph_bundlefirstUseTimeStamp = MAX_END_TIME,
     ph_isChanged = False \<rparr>"

type_synonym history_map = "(string, package_history) omap"

record callback_info =
  cb_userId :: int
  cb_oldGroup :: int
  cb_newGroup :: int
  cb_changeReason :: "32 word"
  cb_bundleName :: string

text \<open>The operations of \<open>BundleActiveUsageDatabase\<close> that the history calls. Writing the history of
a user clears the change marks of the records written, hence the map in its answer.\<close>

record 'd history_db =
  hd_Init :: "'d \<Rightarrow> 'd"
  hd_GetDurationData :: "'d \<Rightarrow> (int \<times> int) \<times> 'd"
  hd_PutDurationData :: "int \<Rightarrow> int \<Rightarrow> 'd \<Rightarrow> 'd"
  hd_GetBundleHistoryData :: "int \<Rightarrow> 'd \<Rightarrow> history_map option \<times> 'd"
  hd_PutBundleHistoryData :: "int \<Rightarrow> history_map \<Rightarrow> 'd \<Rightarrow> history_map \<times> 'd"
  hd_OnPackageUninstalled :: "int \<Rightarrow> string \<Rightarrow> int \<Rightarrow> int \<Rightarrow> 'd \<Rightarrow> 'd"

record 'd user_history =
  uh_userHistory :: "(int, history_map) omap"
  uh_bootBasedTimeStamp :: int
  uh_bootBasedDuration :: int
  uh_screenOnTimeStamp :: int
  uh_ScreenOnDuration :: int
  uh_isScreenOn :: bool
  uh_core :: bool
  uh_callbacks :: "callback_info list"
  uh_db :: 'd

section \<open>Operations\<close>

definition UserHistory_new :: "'d history_db \<Rightarrow> int \<Rightarrow> bool \<Rightarrow> 'd \<Rightarrow> 'd user_history" where
  "UserHistory_new D bootBasedTimeStamp core db =
     (let ((boot, screen), db') = hd_GetDurationData D (hd_Init D db)
      in \<lparr> uh_userHistory = [], uh_bootBasedTimeStamp = bootBasedTimeStamp, uh_bootBasedDuration = boot,
           uh_screenOnTimeStamp = bootBasedTimeStamp, uh_ScreenOnDuration = screen,
           uh_isScreenOn = False, uh_core = core, uh_callbacks = [], uh_db = db' \<rparr>)"

definition GetUserHistory ::
    "'d history_db \<Rightarrow> int \<Rightarrow> bool \<Rightarrow> 'd user_history \<Rightarrow> history_map option \<times> 'd user_history" where
  "GetUserHistory D userId create s =
     (case om_find (uh_userHistory s) userId of
        Some m \<Rightarrow> (Some m, s)
      | None \<Rightarrow>
          if create then
            (let (loaded, db) = hd_GetBundleHistoryData D userId (uh_db s);
                 usageHistoryInserted = (case loaded of Some m \<Rightarrow> m | None \<Rightarrow> [])
             in (Some usageHistoryInserted,
                 s \<lparr> uh_db := db,
                     uh_userHistory := om_insert userId usageHistoryInserted (uh_userHistory s) \<rparr>))
          else (None, s))"

definition WriteDeviceDuration :: "'d history_db \<Rightarrow> 'd user_history \<Rightarrow> 'd user_history" where
  "WriteDeviceDuration D s =
     s \<lparr> uh_db := hd_PutDurationData D (uh_bootBasedDuration s) (uh_ScreenOnDuration s) (uh_db s) \<rparr>"

definition WriteBundleUsage :: "'d history_db \<Rightarrow> int \<Rightarrow> 'd user_history \<Rightarrow> 'd user_history" where
  "WriteBundleUsage D userId s =
     (case GetUserHistory D userId False s of
        (None, s1) \<Rightarrow> s1
      | (Some m, s1) \<Rightarrow>
          let (m', db) = hd_PutBundleHistoryData D userId m (uh_db s1)
          in s1 \<lparr> uh_db := db, uh_userHistory := om_insert userId m' (uh_userHistory s1) \<rparr>)"

definition UserHistory_OnBundleUninstalled ::
    "'d history_db \<Rightarrow> int \<Rightarrow> string \<Rightarrow> int \<Rightarrow> int \<Rightarrow> 'd user_history \<Rightarrow> 'd user_history" where
  "UserHistory_OnBundleUninstalled D userId bundleName uid appIndex s =
     s \<lparr> uh_db := hd_OnPackageUninstalled D userId bundleName uid appIndex (uh_db s) \<rparr>"

definition GetBootBasedTimeStamp :: "int \<Rightarrow> 'd user_history \<Rightarrow> int" where
  "GetBootBasedTimeStamp bootBasedTimeStamp s =
     bootBasedTimeStamp - uh_bootBasedTimeStamp s + uh_bootBasedDuration s"

definition GetScreenOnTimeStamp :: "int \<Rightarrow> 'd user_history \<Rightarrow> int" where
  "GetScreenOnTimeStamp bootBasedTimeStamp s =
     (if uh_isScreenOn s then uh_ScreenOnDuration s + (bootBasedTimeStamp - uh_screenOnTimeStamp s)
      else uh_ScreenOnDuration s)"

definition GetUsageHistoryInUserHistory ::
    "history_map option \<Rightarrow> string \<Rightarrow> int \<Rightarrow> bool \<Rightarrow> int \<Rightarrow> 'd user_history \<Rightarrow>
     package_history option \<times> history_map option" where
  "GetUsageHistoryInUserHistory oneUserHistory bundleName bootBasedTimeStamp create uid s =
     (case oneUserHistory of
        None \<Rightarrow> (None, None)
      | Some m \<Rightarrow>
          let userHistoryKey = GetBundleUsageKey bundleName uid
          in case om_find m userHistoryKey of
               Some h \<Rightarrow> (Some h, Some m)
             | None \<Rightarrow>
                 if create then
                   (let usageHistoryInserted = PackageHistory_default \<lparr>
                          ph_bundleName := bundleName,
                          ph_lastBootFromUsedTimeStamp := GetBootBasedTimeStamp bootBasedTimeStamp s,
                          ph_lastScreenUsedTimeStamp := GetScreenOnTimeStamp bootBasedTimeStamp s,
                          ph_currentGroup := ACTIVE_GROUP_NEVER,
                          ph_reasonInGroup := GROUP_CONTROL_REASON_DEFAULT,
                          ph_bundleAliveTimeoutTimeStamp := 0,
                          ph_bundleDailyTimeoutTimeStamp := 0,
                          ph_uid := uid,
                          ph_bundlefirstUseTimeStamp := INT64_MAX \<rparr>
                    in (Some usageHistoryInserted, Some (om_insert userHistoryKey usageHistoryInserted m)))
                 else (None, Some m))"

text \<open>The map is shared through a pointer: what the lookup inserts is written back to the user's
entry.\<close>

definition GetUsageHistoryForBundle ::
    "'d history_db \<Rightarrow> string \<Rightarrow> int \<Rightarrow> int \<Rightarrow> bool \<Rightarrow> int \<Rightarrow> 'd user_history \<Rightarrow>
     package_history option \<times> 'd user_history" where
  "GetUsageHistoryForBundle D bundleName userId bootBasedTimeStamp create uid s =
     (case GetUserHistory D userId create s of
        (None, s1) \<Rightarrow> (None, s1)
      | (Some m, s1) \<Rightarrow>
          (case GetUsageHistoryInUserHistory (Some m) bundleName bootBasedTimeStamp create uid s1 of
             (h, Some m') \<Rightarrow> (h, s1 \<lparr> uh_userHistory := om_insert userId m' (uh_userHistory s1) \<rparr>)
           | (h, None) \<Rightarrow> (h, s1)))"

text \<open>Mutating a record through its pointer.\<close>

definition store_history :: "int \<Rightarrow> string \<Rightarrow> package_history \<Rightarrow> 'd user_history \<Rightarrow> 'd user_history" where
  "store_history userId key h s =
     (case om_find (uh_userHistory s) userId of
        None \<Rightarrow> s
      | Some m \<Rightarrow> s \<lparr> uh_userHistory := om_insert userId (om_insert key h m) (uh_userHistory s) \<rparr>)"

definition call_core :: "callback_info \<Rightarrow> 'd user_history \<Rightarrow> 'd user_history" where
  "call_core cb s = (if uh_core s then s \<lparr> uh_callbacks := uh_callbacks s @ [cb] \<rparr> else s)"

fun level_loop :: "nat \<Rightarrow> int \<Rightarrow> int \<Rightarrow> int list \<Rightarrow> int list \<Rightarrow> int" where
  "level_loop 0 screenDiff bootFromDiff sl bl = - 1"
| "level_loop (Suc i) screenDiff bootFromDiff sl bl =
     (if screenDiff \<ge> sl ! i \<and> bootFromDiff \<ge> bl ! i then int i
      else level_loop i screenDiff bootFromDiff sl bl)"

definition GetLevelIndex ::
    "'d history_db \<Rightarrow> string \<Rightarrow> int \<Rightarrow> int \<Rightarrow> int list \<Rightarrow> int list \<Rightarrow> int \<Rightarrow> 'd user_history \<Rightarrow> int" where
  "GetLevelIndex D bundleName userId bootBasedTimeStamp screenTimeLevel bootFromTimeLevel uid s =
     (case fst (GetUserHistory D userId False s) of
        None \<Rightarrow> - 1
      | Some m \<Rightarrow>
          (case fst (GetUsageHistoryInUserHistory (Some m) bundleName bootBasedTimeStamp False uid s) of
             None \<Rightarrow> - 1
           | Some h \<Rightarrow>
               let screenDiff = GetScreenOnTimeStamp bootBasedTimeStamp s - ph_lastScreenUsedTimeStamp h;
                   bootFromDiff = GetBootBasedTimeStamp bootBasedTimeStamp s - ph_lastBootFromUsedTimeStamp h
               in level_loop 4 screenDiff bootFromDiff screenTimeLevel bootFromTimeLevel))"

text \<open>A use of a bundle: the record's new value and the callbacks. A forced group is not touched
beyond the first use time.\<close>

definition ReportUsage ::
    "event \<Rightarrow> int \<Rightarrow> 32 word \<Rightarrow> int \<Rightarrow> int \<Rightarrow> int \<Rightarrow> package_history \<times> 'd user_history \<Rightarrow>
     package_history \<times> 'd user_history" where
  "ReportUsage event0 newGroup groupReason bootBasedTimeStamp timeUntilNextCheck userId hs =
     (let s = snd hs;
          h0 = (fst hs) \<lparr> ph_bundlefirstUseTimeStamp :=
                  min (ph_bundlefirstUseTimeStamp (fst hs)) (ev_timeStamp event0) \<rparr>
      in if ph_reasonInGroup h0 AND GROUP_CONTROL_REASON_MASK = GROUP_CONTROL_REASON_FORCED then (h0, s)
         else if timeUntilNextCheck > bootBasedTimeStamp \<and> newGroup \<noteq> ACTIVE_GROUP_ALIVE \<and>
              newGroup \<noteq> ACTIVE_GROUP_DAILY then (h0, s)
         else
           let nextCheckTimeStamp = uh_bootBasedDuration s + (timeUntilNextCheck - uh_bootBasedTimeStamp s);
               h1 = (if timeUntilNextCheck > bootBasedTimeStamp then
                       (if newGroup = ACTIVE_GROUP_ALIVE then
                          h0 \<lparr> ph_bundleAliveTimeoutTimeStamp :=
                                max nextCheckTimeStamp (ph_bundleAliveTimeoutTimeStamp h0) \<rparr>
                        else
                          h0 \<lparr> ph_bundleDailyTimeoutTimeStamp :=
                                max nextCheckTimeStamp (ph_bundleDailyTimeoutTimeStamp h0) \<rparr>)
                     else h0);
               h2 = (if bootBasedTimeStamp > 0 then
                       h1 \<lparr> ph_lastBootFromUsedTimeStamp :=
                              uh_bootBasedDuration s + (bootBasedTimeStamp - uh_bootBasedTimeStamp s),
                            ph_lastScreenUsedTimeStamp := GetScreenOnTimeStamp bootBasedTimeStamp s \<rparr>
                     else h1);
               oldGroup = ph_currentGroup h2;
               h3 = (if ph_currentGroup h2 > newGroup then h2 \<lparr> ph_currentGroup := newGroup \<rparr> else h2);
               h4 = h3 \<lparr> ph_reasonInGroup := GROUP_CONTROL_REASON_USAGE OR groupReason,
                         ph_isChanged := True \<rparr>
           in if oldGroup \<noteq> ph_currentGroup h4 then
                (h4, call_core \<lparr> cb_userId = userId, cb_oldGroup = oldGroup, cb_newGroup = newGroup,
                       cb_changeReason = ph_reasonInGroup h4, cb_bundleName = ev_bundleName event0 \<rparr> s)
              else (h4, s))"

definition UserHistory_SetAppGroup ::
    "'d history_db \<Rightarrow> string \<Rightarrow> int \<Rightarrow> int \<Rightarrow> int \<Rightarrow> int \<Rightarrow> 32 word \<Rightarrow> bool \<Rightarrow> 'd user_history \<Rightarrow>
     errcode \<times> 'd user_history" where
  "UserHistory_SetAppGroup D bundleName userId uid bootBasedTimeStamp newGroup groupReason isFlush s =
     (case fst (GetUserHistory D userId False s) of
        None \<Rightarrow> (ERR_GET_BUNDLE_USED_HISTORY_FAILED, s)
      | Some m \<Rightarrow>
          (case fst (GetUsageHistoryInUserHistory (Some m) bundleName bootBasedTimeStamp False uid s) of
             None \<Rightarrow> (ERR_GET_BUNDLE_USED_HISTORY_FAILED, s)
           | Some h \<Rightarrow>
               if ph_currentGroup h = newGroup \<and> ph_reasonInGroup h = groupReason
               then (ERR_REPEAT_SET_APP_GROUP, s)
               else
                 let oldGroup = ph_currentGroup h;
                     h1 = h \<lparr> ph_currentGroup := newGroup, ph_reasonInGroup := groupReason,
                              ph_isChanged := True \<rparr>;
                     s1 = store_history userId (GetBundleUsageKey bundleName uid) h1 s;
                     s2 = (if isFlush then WriteBundleUsage D userId s1 else s1);
                     s3 = (if oldGroup \<noteq> newGroup then
                             call_core \<lparr> cb_userId = userId, cb_oldGroup = oldGroup, cb_newGroup = newGroup,
                               cb_changeReason = ph_reasonInGroup h1, cb_bundleName = bundleName \<rparr> s2
                           else s2)
                 in (ERR_OK, s3)))"

definition UserHistory_UpdateBootBasedAndScreenTime ::
    "'d history_db \<Rightarrow> bool \<Rightarrow> int \<Rightarrow> bool \<Rightarrow> 'd user_history \<Rightarrow> 'd user_history" where
  "UserHistory_UpdateBootBasedAndScreenTime D isScreenOn bootBasedTimeStamp isShutdown s =
     (if uh_isScreenOn s = isScreenOn \<and> isShutdown = False then s
      else
        let s1 = s \<lparr> uh_isScreenOn := isScreenOn \<rparr>;
            s2 = (if uh_isScreenOn s1 then s1 \<lparr> uh_screenOnTimeStamp := bootBasedTimeStamp \<rparr>
                  else s1 \<lparr> uh_ScreenOnDuration :=
                              uh_ScreenOnDuration s1 + (bootBasedTimeStamp - uh_screenOnTimeStamp s1),
                            uh_bootBasedDuration :=
                              uh_bootBasedDuration s1 + (bootBasedTimeStamp - uh_bootBasedTimeStamp s1),
                            uh_bootBasedTimeStamp := bootBasedTimeStamp \<rparr>)
        in s2 \<lparr> uh_db := hd_PutDurationData D (uh_bootBasedDuration s2) (uh_ScreenOnDuration s2) (uh_db s2) \<rparr>)"

definition GetFirstUseTime :: "'d history_db \<Rightarrow> string \<Rightarrow> int \<Rightarrow> 'd user_history \<Rightarrow> int" where
  "GetFirstUseTime D bundleName userId s =
     (case fst (GetUserHistory D userId False s) of
        None \<Rightarrow> MAX_END_TIME
      | Some m \<Rightarrow>
          fold (\<lambda>it firstUseTime. if \<not> contains_str (fst it) bundleName then firstUseTime
                  else min firstUseTime (ph_bundlefirstUseTimeStamp (snd it))) m MAX_END_TIME)"

section \<open>Callback information\<close>

definition CallbackInfo_items :: "callback_info \<Rightarrow> pitem list" where
  "CallbackInfo_items c = [PI32 (cb_userId c), PI32 (cb_oldGroup c), PI32 (cb_newGroup c),
     PU32 (unat (cb_changeReason c)), PStr (cb_bundleName c)]"

definition CallbackInfo_Marshalling :: "'p parcel_ops \<Rightarrow> callback_info \<Rightarrow> 'p \<Rightarrow> bool \<times> 'p" where
  "CallbackInfo_Marshalling P c p = wseq P (CallbackInfo_items c) p"

definition CallbackInfo_Unmarshalling :: "'p parcel_ops \<Rightarrow> bool \<Rightarrow> 'p \<Rightarrow> callback_info option \<times> 'p" where
  "CallbackInfo_Unmarshalling P alloc p =
     (if \<not> alloc then (None, p) else
      let (us, p) = pReadInt32 P p;
          (og, p) = pReadInt32 P p;
          (ng, p) = pReadInt32 P p;
          (cr, p) = pReadUint32 P p;
          (bn, p) = pReadString P p
      in (Some \<lparr> cb_userId = us, cb_oldGroup = og, cb_newGroup = ng, cb_changeReason = of_nat cr,
                 cb_bundleName = bn \<rparr>, p))"

lemma CallbackInfo_Unmarshalling_items:
  assumes F: "parcel_fifo P content" and c: "content p = CallbackInfo_items c @ r"
  shows "\<exists>q. CallbackInfo_Unmarshalling P True p = (Some c, q) \<and> content q = r"
  using c by (auto simp: CallbackInfo_Unmarshalling_def CallbackInfo_items_def
      dest!: parcel_fifo_read [OF F])

section \<open>Lemmas\<close>

lemma GetUserHistory_no_create: "GetUserHistory D u False s = (om_find (uh_userHistory s) u, s)"
  by (simp add: GetUserHistory_def split: option.splits)

lemma GetUsageHistoryIn_no_create:
  "GetUsageHistoryInUserHistory (Some m) bn t False u s = (om_find m (GetBundleUsageKey bn u), Some m)"
  by (simp add: GetUsageHistoryInUserHistory_def Let_def split: option.splits)

definition history_of :: "int \<Rightarrow> string \<Rightarrow> 'd user_history \<Rightarrow> package_history option" where
  "history_of userId key s =
     (case om_find (uh_userHistory s) userId of None \<Rightarrow> None | Some m \<Rightarrow> om_find m key)"

definition is_forced :: "package_history \<Rightarrow> bool" where
  "is_forced h \<longleftrightarrow> ph_reasonInGroup h AND GROUP_CONTROL_REASON_MASK = GROUP_CONTROL_REASON_FORCED"

lemma store_history_of:
  "om_find (uh_userHistory s) u \<noteq> None \<Longrightarrow>
   history_of u' k' (store_history u k h s) = (if u' = u \<and> k' = k then Some h else history_of u' k' s)"
  by (auto simp: history_of_def store_history_def split: option.splits)

lemma call_core_fields [simp]:
  "uh_userHistory (call_core cb s) = uh_userHistory s"
  "history_of u k (call_core cb s) = history_of u k s"
  "uh_bootBasedDuration (call_core cb s) = uh_bootBasedDuration s"
  "uh_core (call_core cb s) = uh_core s"
  by (simp_all add: call_core_def history_of_def)

lemma level_loop_range: "- 1 \<le> level_loop n a b sl bl \<and> level_loop n a b sl bl < int n"
  by (induction n) auto

lemma level_loop_greatest:
  "level_loop n a b sl bl =
     (if \<exists>i < n. sl ! i \<le> a \<and> bl ! i \<le> b then int (Max {i. i < n \<and> sl ! i \<le> a \<and> bl ! i \<le> b}) else - 1)"
proof (induction n)
  case (Suc n)
  let ?S = "\<lambda>n. {i. i < n \<and> sl ! i \<le> a \<and> bl ! i \<le> b}"
  show ?case
  proof (cases "sl ! n \<le> a \<and> bl ! n \<le> b")
    case True
    then have "Max (?S (Suc n)) = n"
      by (intro Max_eqI) auto
    then show ?thesis using True by auto
  next
    case False
    then have "?S (Suc n) = ?S n" by (auto simp: less_Suc_eq)
    then show ?thesis using False Suc by (auto simp: less_Suc_eq)
  qed
qed simp

text \<open>A database that stores nothing, for the witnesses.\<close>

definition empty_db :: "unit history_db" where
  "empty_db = \<lparr> hd_Init = id, hd_GetDurationData = (\<lambda>d. ((0, 0), d)),
     hd_PutDurationData = (\<lambda>a b d. d), hd_GetBundleHistoryData = (\<lambda>u d. (None, d)),
     hd_PutBundleHistoryData = (\<lambda>u m d. (m, d)), hd_OnPackageUninstalled = (\<lambda>u b i a d. d) \<rparr>"

definition new_history :: "unit user_history" where
  "new_history = UserHistory_new empty_db 0 True ()"

lemma new_history_eq:
  "new_history = \<lparr> uh_userHistory = [], uh_bootBasedTimeStamp = 0, uh_bootBasedDuration = 0,
     uh_screenOnTimeStamp = 0, uh_ScreenOnDuration = 0, uh_isScreenOn = False, uh_core = True,
     uh_callbacks = [], uh_db = () \<rparr>"
  by (simp add: new_history_def UserHistory_new_def empty_db_def)

section \<open>Properties\<close>

text \<open>C32: Using a bundle can only make it more active. A forced group keeps its group and reason. In
every other case the group becomes the smaller of the old one and the reported one, the reason
becomes the usage reason, the two timeouts and the first use time only move in their direction, and
the core is called back, with the old and the new group, exactly when the group has changed.\<close>

theorem report_usage_effect:
  assumes "ReportUsage ev newGroup r t next userId (h, s) = (h', s')"
    and "newGroup = ACTIVE_GROUP_ALIVE \<or> newGroup = ACTIVE_GROUP_DAILY"
  shows "ph_bundlefirstUseTimeStamp h' = min (ph_bundlefirstUseTimeStamp h) (ev_timeStamp ev) \<and>
    ph_bundleAliveTimeoutTimeStamp h \<le> ph_bundleAliveTimeoutTimeStamp h' \<and>
    ph_bundleDailyTimeoutTimeStamp h \<le> ph_bundleDailyTimeoutTimeStamp h' \<and>
    (if is_forced h
     then ph_currentGroup h' = ph_currentGroup h \<and> ph_reasonInGroup h' = ph_reasonInGroup h \<and> s' = s
     else ph_currentGroup h' = min (ph_currentGroup h) newGroup \<and>
       ph_reasonInGroup h' = (GROUP_CONTROL_REASON_USAGE OR r) \<and> ph_isChanged h' \<and>
       uh_callbacks s' = uh_callbacks s @
         (if uh_core s \<and> newGroup < ph_currentGroup h
          then [\<lparr> cb_userId = userId, cb_oldGroup = ph_currentGroup h, cb_newGroup = newGroup,
                  cb_changeReason = (GROUP_CONTROL_REASON_USAGE OR r), cb_bundleName = ev_bundleName ev \<rparr>]
          else []))"
  using assms by (auto simp: ReportUsage_def Let_def is_forced_def call_core_def split: if_splits)

theorem report_usage_effect_witness:
  "ph_currentGroup (fst (ReportUsage (Event_bundle 2 ''app'' 7) 10 4 100 200 100
     (PackageHistory_default, new_history))) = 10"
proof -
  have f: "\<not> is_forced PackageHistory_default" "ph_currentGroup PackageHistory_default = 60"
    by (simp_all add: is_forced_def PackageHistory_default_def)
  show ?thesis
    using report_usage_effect [of "Event_bundle 2 ''app'' 7" 10 4 100 200 100 PackageHistory_default new_history,
        OF prod.collapse [symmetric]] f by simp
qed

text \<open>Setting a group by hand: an unknown user or bundle is refused, the same group with the same
reason is refused as a repetition without effect, and otherwise the bundle has the new group and
reason, every other record of every user is unchanged, and the core is called back exactly when the
group differs.\<close>

theorem set_app_group_effect:
  assumes "UserHistory_SetAppGroup D bn userId uid t g r False s = (e, s')"
  shows "case history_of userId (GetBundleUsageKey bn uid) s of
      None \<Rightarrow> e = ERR_GET_BUNDLE_USED_HISTORY_FAILED \<and> s' = s
    | Some h \<Rightarrow>
        if ph_currentGroup h = g \<and> ph_reasonInGroup h = r then e = ERR_REPEAT_SET_APP_GROUP \<and> s' = s
        else e = ERR_OK \<and>
          history_of userId (GetBundleUsageKey bn uid) s' =
            Some (h \<lparr> ph_currentGroup := g, ph_reasonInGroup := r, ph_isChanged := True \<rparr>) \<and>
          (\<forall>u k. (u, k) \<noteq> (userId, GetBundleUsageKey bn uid) \<longrightarrow> history_of u k s' = history_of u k s) \<and>
          uh_callbacks s' = uh_callbacks s @
            (if uh_core s \<and> ph_currentGroup h \<noteq> g
             then [\<lparr> cb_userId = userId, cb_oldGroup = ph_currentGroup h, cb_newGroup = g,
                     cb_changeReason = r, cb_bundleName = bn \<rparr>] else [])"
proof (cases "history_of userId (GetBundleUsageKey bn uid) s")
  case None
  then show ?thesis
    using assms by (auto simp: UserHistory_SetAppGroup_def GetUserHistory_no_create
        GetUsageHistoryIn_no_create history_of_def split: option.splits)
next
  case (Some h)
  then obtain m where m: "om_find (uh_userHistory s) userId = Some m" "om_find m (GetBundleUsageKey bn uid) = Some h"
    by (auto simp: history_of_def split: option.splits)
  have st: "uh_callbacks (store_history u k x s) = uh_callbacks s" "uh_core (store_history u k x s) = uh_core s"
    for u k x by (auto simp: store_history_def split: option.splits)
  show ?thesis
    using assms m Some
    by (auto simp: UserHistory_SetAppGroup_def GetUserHistory_no_create GetUsageHistoryIn_no_create
        Let_def store_history_of st call_core_def history_of_def [of _ _ "_\<lparr>uh_callbacks := _\<rparr>"]
        history_of_def [symmetric] split: if_splits)
qed

theorem set_app_group_effect_witness:
  "fst (UserHistory_SetAppGroup empty_db ''app'' 100 7 5 20 0x400 False new_history) =
     ERR_GET_BUNDLE_USED_HISTORY_FAILED"
  using set_app_group_effect [where D = empty_db and bn = "''app''" and userId = 100 and uid = 7 and t = 5 and
      g = 20 and r = "0x400" and s = new_history, OF prod.collapse [symmetric]]
  by (simp add: history_of_def new_history_eq)

text \<open>The level of a bundle is the greatest one whose two thresholds, on the screen-on clock and
on the boot clock, have passed since its last use, and \<open>-1\<close> when there is none or the bundle has no
history.\<close>

theorem level_index_greatest:
  "GetLevelIndex D bn userId t sl bl uid s =
    (case history_of userId (GetBundleUsageKey bn uid) s of
       None \<Rightarrow> - 1
     | Some h \<Rightarrow>
         (let passed = {i. i < 4 \<and> sl ! i \<le> GetScreenOnTimeStamp t s - ph_lastScreenUsedTimeStamp h \<and>
                bl ! i \<le> GetBootBasedTimeStamp t s - ph_lastBootFromUsedTimeStamp h}
          in if passed = {} then - 1 else int (Max passed)))"
  by (auto simp: GetLevelIndex_def GetUserHistory_no_create GetUsageHistoryIn_no_create history_of_def
      Let_def level_loop_greatest simp del: level_loop.simps split: option.splits)

text \<open>The two clocks are continuous. A screen change at time \<open>t\<close> does not move the boot clock;
the screen-on clock reads the same at \<open>t\<close> before and after, runs on when the screen is on and
stands still when it is off. (A shutdown with the screen off is the exception: it adds the time
since the screen last went on a second time.)\<close>

theorem screen_clock_continuous:
  assumes "\<not> shutdown \<or> uh_isScreenOn s"
    and "s' = UserHistory_UpdateBootBasedAndScreenTime D on t shutdown s" and "shutdown \<longrightarrow> \<not> on"
  shows "GetBootBasedTimeStamp t' s' = GetBootBasedTimeStamp t' s \<and>
    GetScreenOnTimeStamp t s' = GetScreenOnTimeStamp t s \<and>
    GetScreenOnTimeStamp t' s' - GetScreenOnTimeStamp t s' = (if on then t' - t else 0)"
  using assms
  by (auto simp: UserHistory_UpdateBootBasedAndScreenTime_def Let_def GetBootBasedTimeStamp_def
      GetScreenOnTimeStamp_def)

theorem screen_clock_continuous_witness:
  "GetScreenOnTimeStamp 50 (UserHistory_UpdateBootBasedAndScreenTime empty_db True 20 False new_history) = 30"
proof -
  let ?s = "UserHistory_UpdateBootBasedAndScreenTime empty_db True 20 False new_history"
  have "GetScreenOnTimeStamp 20 new_history = 0"
    by (simp add: new_history_eq GetScreenOnTimeStamp_def)
  then show ?thesis
    using screen_clock_continuous [of False new_history ?s empty_db True 20 50] by simp
qed

lemma shutdown_with_screen_off:
  assumes "\<not> uh_isScreenOn s"
  shows "GetScreenOnTimeStamp t (UserHistory_UpdateBootBasedAndScreenTime D False t True s) =
    GetScreenOnTimeStamp t s + (t - uh_screenOnTimeStamp s)"
  using assms
  by (simp add: UserHistory_UpdateBootBasedAndScreenTime_def Let_def GetScreenOnTimeStamp_def)

end
