(* ===== verification/DatabaseTables.thy ===== *)
theory DatabaseTables
  imports PeriodStats ModuleRecord UserHistory
begin

text \<open>The tables of \<open>BundleActiveUsageDatabase\<close> (\<open>services/common\<close>): one database file for the days,
the weeks, the months, the years, the events and the groups; in the first four one table per period,
named after its beginning. This theory holds the object's state, the access to the stores, the
names, the life cycle of the tables (creating, renaming, removing) and the searches in the sorted
arrays of table times.

The relational store and the file system are not code of this repository: they are operations of an
environment, which take the statements the code builds. The mutex is not modelled.\<close>

section \<open>Names\<close>

abbreviation (input) DAILY_DATABASE_INDEX :: nat where "DAILY_DATABASE_INDEX \<equiv> 0"
abbreviation (input) WEEKLY_DATABASE_INDEX :: nat where "WEEKLY_DATABASE_INDEX \<equiv> 1"
abbreviation (input) MONTHLY_DATABASE_INDEX :: nat where "MONTHLY_DATABASE_INDEX \<equiv> 2"
abbreviation (input) YEARLY_DATABASE_INDEX :: nat where "YEARLY_DATABASE_INDEX \<equiv> 3"
abbreviation (input) EVENT_DATABASE :: nat where "EVENT_DATABASE \<equiv> 4"
abbreviation (input) APP_GROUP_DATABASE :: nat where "APP_GROUP_DATABASE \<equiv> 5"
abbreviation (input) BUNDLE_ACTIVE_SUCCESS :: int where "BUNDLE_ACTIVE_SUCCESS \<equiv> 0"
abbreviation (input) BUNDLE_ACTIVE_FAIL :: int where "BUNDLE_ACTIVE_FAIL \<equiv> - 1"
abbreviation (input) EVENT_BEGIN_TIME_INITIAL_VALUE :: int where "EVENT_BEGIN_TIME_INITIAL_VALUE \<equiv> - 1"
abbreviation (input) BUNDLE_ACTIVE_DB_NAME_MAX_LENGTH :: nat where "BUNDLE_ACTIVE_DB_NAME_MAX_LENGTH \<equiv> 100"
abbreviation (input) SEVEN_DAY_IN_MILLIS_MAX :: int where "SEVEN_DAY_IN_MILLIS_MAX \<equiv> 7 * 24 * 60 * 60 * 1000"
abbreviation (input) SIX_DAY_IN_MILLIS_MAX_DEBUG :: int where "SIX_DAY_IN_MILLIS_MAX_DEBUG \<equiv> 6 * 1 * 10 * 60 * 1000"

definition MAX_FILES_EVERY_INTERVAL_TYPE :: "int list" where
  "MAX_FILES_EVERY_INTERVAL_TYPE = [30, 30, 12, 10]"

definition PACKAGE_LOG_TABLE :: string where "PACKAGE_LOG_TABLE = ''PackageLog''"
definition PACKAGE_LOG_TABLE_INDEX_PREFIX :: string where "PACKAGE_LOG_TABLE_INDEX_PREFIX = ''PackageLogIndex''"
definition EVENT_LOG_TABLE :: string where "EVENT_LOG_TABLE = ''DeviceEventLog''"
definition EVENT_LOG_TABLE_INDEX_PREFIX :: string where "EVENT_LOG_TABLE_INDEX_PREFIX = ''DeviceEventLogIndex''"
definition DURATION_LOG_TABLE :: string where "DURATION_LOG_TABLE = ''DurationLog''"
definition BUNDLE_HISTORY_LOG_TABLE :: string where "BUNDLE_HISTORY_LOG_TABLE = ''BundleHistoryLog''"
definition BUNDLE_HISTORY_LOG_TABLE_INDEX_PREFIX :: string where
  "BUNDLE_HISTORY_LOG_TABLE_INDEX_PREFIX = ''BundleHistoryLogIndex''"
definition MODULE_RECORD_LOG_TABLE :: string where "MODULE_RECORD_LOG_TABLE = ''ModuleRecordLog''"
definition MODULE_RECORD_LOG_TABLE_INDEX_PREFIX :: string where
  "MODULE_RECORD_LOG_TABLE_INDEX_PREFIX = ''ModuleRecordLogIndex''"
definition FORM_RECORD_LOG_TABLE :: string where "FORM_RECORD_LOG_TABLE = ''FormRecordLog''"
definition FORM_RECORD_LOG_TABLE_INDEX_PREFIX :: string where
  "FORM_RECORD_LOG_TABLE_INDEX_PREFIX = ''FormRecordLogIndex''"
definition UNKNOWN_TABLE_NAME :: string where "UNKNOWN_TABLE_NAME = ''unknownTableName''"
definition BUNDLE_ACTIVE_DATABASE_DIR :: string where
  "BUNDLE_ACTIVE_DATABASE_DIR = ''/data/service/el1/public/bundle_usage/''"
definition DATABASE_TYPE :: "string list" where
  "DATABASE_TYPE = [''daily'', ''weekly'', ''monthly'', ''yearly'', ''event'', ''usageGroup'']"
definition SUFFIX_TYPE :: "string list" where "SUFFIX_TYPE = [''.db'']"
definition SQLITE_MASTER_NAME :: string where "SQLITE_MASTER_NAME = ''name''"
definition DATABASE_FILE_TABLE_NAME :: string where "DATABASE_FILE_TABLE_NAME = ''table''"

section \<open>The environment and the state\<close>

datatype sqlval = SqlInt int | SqlText string

type_synonym bucket = "(string \<times> sqlval) list"

record result_set =
  rs_columns :: "string list"
  rs_rows :: "sqlval list list"

text \<open>The operations on the store of one file take the file's name first. \<open>de_execute\<close> answers
whether the store answered \<open>E_OK\<close>; \<open>de_update\<close> the number of changed rows, or nothing when it has not
set it.\<close>

record 's db_env =
  de_access :: "string \<Rightarrow> 's \<Rightarrow> bool"
  de_mkdir :: "string \<Rightarrow> 's \<Rightarrow> bool \<times> 's"
  de_open :: "string \<Rightarrow> 's \<Rightarrow> bool \<times> 's"
  de_version :: "string \<Rightarrow> 's \<Rightarrow> int"
  de_deleteStore :: "string \<Rightarrow> 's \<Rightarrow> 's"
  de_execute :: "string \<Rightarrow> string \<Rightarrow> 's \<Rightarrow> bool \<times> 's"
  de_query :: "string \<Rightarrow> string \<Rightarrow> string list \<Rightarrow> 's \<Rightarrow> result_set option"
  de_update :: "string \<Rightarrow> string \<Rightarrow> bucket \<Rightarrow> string \<Rightarrow> string list \<Rightarrow> 's \<Rightarrow> int option \<times> 's"
  de_delete :: "string \<Rightarrow> string \<Rightarrow> string \<Rightarrow> string list \<Rightarrow> 's \<Rightarrow> 's"
  de_insert :: "string \<Rightarrow> string \<Rightarrow> bucket \<Rightarrow> 's \<Rightarrow> 's"
  de_batchInsert :: "string \<Rightarrow> string \<Rightarrow> bucket list \<Rightarrow> 's \<Rightarrow> 's"
  de_loadFile :: "string \<Rightarrow> 's \<Rightarrow> string"
  de_saveFile :: "string \<Rightarrow> string \<Rightarrow> 's \<Rightarrow> 's"
  de_appUid :: "string \<Rightarrow> int \<Rightarrow> int"
  de_activeUsers :: "int list"
  de_now :: int

record 's database =
  db_files :: "string list"
  db_currentVersion :: int
  db_eventTableName :: string
  db_durationTableName :: string
  db_bundleHistoryTableName :: string
  db_moduleRecordsTableName :: string
  db_formRecordsTableName :: string
  db_sortedTableArray :: "int list list"
  db_calendar :: calendar
  db_eventBeginTime :: int
  db_debug :: bool
  db_cache :: "string list"
  db_stores :: 's

definition Database_new :: "'s \<Rightarrow> 's database" where
  "Database_new stores = \<lparr> db_files = map (\<lambda>t. t @ SUFFIX_TYPE ! 0) DATABASE_TYPE, db_currentVersion = 3,
     db_eventTableName = UNKNOWN_TABLE_NAME, db_durationTableName = UNKNOWN_TABLE_NAME,
     db_bundleHistoryTableName = UNKNOWN_TABLE_NAME, db_moduleRecordsTableName = UNKNOWN_TABLE_NAME,
     db_formRecordsTableName = UNKNOWN_TABLE_NAME, db_sortedTableArray = replicate 4 [],
     db_calendar = Calendar_new 0, db_eventBeginTime = EVENT_BEGIN_TIME_INITIAL_VALUE, db_debug = False,
     db_cache = [], db_stores = stores \<rparr>"

definition Database_ChangeToDebug :: "'s database \<Rightarrow> 's database" where
  "Database_ChangeToDebug d = d \<lparr> db_calendar := ChangeToDebug (db_calendar d), db_debug := True \<rparr>"

text \<open>The cells of a row; an integer cell is read as a string in decimal notation.\<close>

definition cell_text :: "sqlval list \<Rightarrow> nat \<Rightarrow> string" where
  "cell_text row i = (if i < length row then (case row ! i of SqlText s \<Rightarrow> s | SqlInt v \<Rightarrow> int_to_string v) else '''')"

definition atoll :: "string \<Rightarrow> int" where
  "atoll s = (case strtol s of None \<Rightarrow> 0 | Some (v, _) \<Rightarrow> v)"

definition cell_int :: "sqlval list \<Rightarrow> nat \<Rightarrow> int" where
  "cell_int row i = (if i < length row then (case row ! i of SqlInt v \<Rightarrow> v | SqlText s \<Rightarrow> atoll s) else 0)"

fun index_of :: "'a \<Rightarrow> 'a list \<Rightarrow> nat" where
  "index_of x [] = 0"
| "index_of x (y # ys) = (if x = y then 0 else Suc (index_of x ys))"

section \<open>Stores\<close>

text \<open>Two attempts to open the store, in two journal modes, are one operation of the environment.\<close>

definition GetBundleActiveRdbStore :: "'s db_env \<Rightarrow> nat \<Rightarrow> 's database \<Rightarrow> bool \<times> 's database" where
  "GetBundleActiveRdbStore E databaseType d =
     (let file = db_files d ! databaseType;
          (opened, d1) = (if file \<notin> set (db_cache d)
            then (let (ok, st) = de_open E (BUNDLE_ACTIVE_DATABASE_DIR @ file) (db_stores d)
                  in (ok, d \<lparr> db_stores := st, db_cache := (if ok then os_insert file (db_cache d) else db_cache d) \<rparr>))
            else (True, d))
      in if \<not> opened then (False, d1)
         else if de_version E file (db_stores d1) = 2 then (True, d1)
         else (True, d1 \<lparr> db_stores := snd (de_execute E file ''PRAGMA journal_mode = WAL;'' (db_stores d1)) \<rparr>))"

definition QueryStatsInfoByStep ::
    "'s db_env \<Rightarrow> nat \<Rightarrow> string \<Rightarrow> string list \<Rightarrow> 's database \<Rightarrow> result_set option \<times> 's database" where
  "QueryStatsInfoByStep E databaseType sql selectionArgs d =
     (case GetBundleActiveRdbStore E databaseType d of
        (False, d1) \<Rightarrow> (None, d1)
      | (True, d1) \<Rightarrow> (de_query E (db_files d1 ! databaseType) sql selectionArgs (db_stores d1), d1))"

text \<open>Executing a statement on an open store, with the answer as \<open>E_OK\<close> or not.\<close>

definition execute_on :: "'s db_env \<Rightarrow> nat \<Rightarrow> string \<Rightarrow> 's database \<Rightarrow> bool \<times> 's database" where
  "execute_on E databaseType sql d =
     (let (ok, st) = de_execute E (db_files d ! databaseType) sql (db_stores d) in (ok, d \<lparr> db_stores := st \<rparr>))"

definition CreateDatabasePath :: "'s db_env \<Rightarrow> 's database \<Rightarrow> int \<times> 's database" where
  "CreateDatabasePath E d =
     (if \<not> de_access E BUNDLE_ACTIVE_DATABASE_DIR (db_stores d) then
        (let (ok, st) = de_mkdir E BUNDLE_ACTIVE_DATABASE_DIR (db_stores d)
         in (if ok then BUNDLE_ACTIVE_SUCCESS else BUNDLE_ACTIVE_FAIL, d \<lparr> db_stores := st \<rparr>))
      else (BUNDLE_ACTIVE_SUCCESS, d))"

text \<open>There is one suffix, so the loop of \<open>CheckDatabaseFile\<close> has one turn.\<close>

definition CheckDatabaseFile :: "'s db_env \<Rightarrow> nat \<Rightarrow> 's database \<Rightarrow> 's database" where
  "CheckDatabaseFile E databaseType d =
     (let databaseFileName = db_files d ! databaseType;
          dbFile = BUNDLE_ACTIVE_DATABASE_DIR @ DATABASE_TYPE ! databaseType @ SUFFIX_TYPE ! 0
      in if \<not> de_access E dbFile (db_stores d) \<and> databaseFileName \<in> set (db_cache d) then
           (let d1 = d \<lparr> db_cache := os_erase databaseFileName (db_cache d),
                         db_stores := de_deleteStore E dbFile (db_stores d) \<rparr>
            in if databaseType < length (db_sortedTableArray d1) then
                 d1 \<lparr> db_sortedTableArray := (db_sortedTableArray d1)[databaseType := []] \<rparr>
               else if databaseType = EVENT_DATABASE then d1 \<lparr> db_eventTableName := UNKNOWN_TABLE_NAME \<rparr>
               else if databaseType = APP_GROUP_DATABASE then
                 d1 \<lparr> db_durationTableName := UNKNOWN_TABLE_NAME, db_bundleHistoryTableName := UNKNOWN_TABLE_NAME,
                      db_moduleRecordsTableName := UNKNOWN_TABLE_NAME, db_formRecordsTableName := UNKNOWN_TABLE_NAME \<rparr>
               else d1)
         else d)"

section \<open>Table tableTimes\<close>

text \<open>\<open>ParseStartTime\<close>: the digits from the first one on, or the whole name when there is none.\<close>

definition from_first_digit :: "string \<Rightarrow> string" where
  "from_first_digit s = (if \<exists>c \<in> set s. is_digit c then dropWhile (\<lambda>c. \<not> is_digit c) s else s)"

definition ParseStartTime :: "string \<Rightarrow> int" where
  "ParseStartTime tableName =
     (if tableName = '''' then BUNDLE_ACTIVE_FAIL
      else if length tableName > BUNDLE_ACTIVE_DB_NAME_MAX_LENGTH then BUNDLE_ACTIVE_FAIL
      else atoll (from_first_digit tableName))"

definition GetVersionByFileInput :: "string \<Rightarrow> int" where
  "GetVersionByFileInput fileVersionInput =
     (if fileVersionInput = '''' then BUNDLE_ACTIVE_FAIL
      else to_int32 (atoll (from_first_digit fileVersionInput)))"

function near_loop :: "int list \<Rightarrow> int \<Rightarrow> int \<Rightarrow> int \<Rightarrow> int \<Rightarrow> int \<Rightarrow> int + (int \<times> int \<times> int)" where
  "near_loop xs t low high mid tableTime =
     (if low \<le> high then
        (let mid = (high + low) div 2; tableTime = xs ! nat mid
         in if t > tableTime then near_loop xs t (mid + 1) high mid tableTime
            else if t < tableTime then near_loop xs t low (mid - 1) mid tableTime
            else Inl mid)
      else Inr (low, mid, tableTime))"
  by pat_completeness auto
termination by (relation "measure (\<lambda>(xs, t, low, high, mid, tt). nat (high - low + 1))") auto

declare near_loop.simps [simp del]

definition NearIndexOnOrAfterCurrentTime :: "int \<Rightarrow> int list \<Rightarrow> int" where
  "NearIndexOnOrAfterCurrentTime currentTime sortedTableArray =
     (case near_loop sortedTableArray currentTime 0 (int (length sortedTableArray) - 1) (- 1) (- 1) of
        Inl mid \<Rightarrow> mid
      | Inr (low, mid, tableTime) \<Rightarrow>
          if currentTime < tableTime then mid
          else if currentTime > tableTime \<and> low < int (length sortedTableArray) then low
          else BUNDLE_ACTIVE_FAIL)"

definition NearIndexOnOrBeforeCurrentTime :: "int \<Rightarrow> int list \<Rightarrow> int" where
  "NearIndexOnOrBeforeCurrentTime currentTime sortedTableArray =
     (let index = NearIndexOnOrAfterCurrentTime currentTime sortedTableArray
      in if index < 0 then int (length sortedTableArray) - 1
         else if sortedTableArray ! nat index = currentTime then index
         else index - 1)"

section \<open>Removing and listing tables\<close>

definition DeleteInvalidTable :: "'s db_env \<Rightarrow> nat \<Rightarrow> int \<Rightarrow> 's database \<Rightarrow> int \<times> 's database" where
  "DeleteInvalidTable E databaseType tableTimeMillis d =
     (case GetBundleActiveRdbStore E databaseType d of
        (False, d1) \<Rightarrow> (BUNDLE_ACTIVE_FAIL, d1)
      | (True, d1) \<Rightarrow>
          if databaseType < length (db_sortedTableArray d1) then
            (let (ok, d2) = execute_on E databaseType
                   (''drop table '' @ PACKAGE_LOG_TABLE @ int_to_string tableTimeMillis) d1
             in (if ok then BUNDLE_ACTIVE_SUCCESS else BUNDLE_ACTIVE_FAIL, d2))
          else if databaseType = EVENT_DATABASE then
            (let (ok, d2) = execute_on E databaseType
                   (''drop table '' @ EVENT_LOG_TABLE @ int_to_string tableTimeMillis) d1
             in (if ok then BUNDLE_ACTIVE_SUCCESS else BUNDLE_ACTIVE_FAIL, d2))
          else (BUNDLE_ACTIVE_SUCCESS, d1))"

text \<open>The names of the tables of a database, or nothing when it cannot be read or has none.\<close>

definition table_names :: "'s db_env \<Rightarrow> nat \<Rightarrow> 's database \<Rightarrow> string list option \<times> 's database" where
  "table_names E databaseType d =
     (case QueryStatsInfoByStep E databaseType ''select * from sqlite_master where type = ?''
             [DATABASE_FILE_TABLE_NAME] d of
        (None, d1) \<Rightarrow> (None, d1)
      | (Some rs, d1) \<Rightarrow>
          if length (rs_rows rs) = 0 then (None, d1)
          else (Some (map (\<lambda>row. cell_text row (index_of SQLITE_MASTER_NAME (rs_columns rs))) (rs_rows rs)), d1))"

definition HandleTableInfo :: "'s db_env \<Rightarrow> nat \<Rightarrow> 's database \<Rightarrow> 's database" where
  "HandleTableInfo E databaseType d =
     (case table_names E databaseType d of
        (None, d1) \<Rightarrow> d1
      | (Some names, d1) \<Rightarrow>
          if databaseType < length (db_sortedTableArray d1) then
            (let tableTimes = sort (map ParseStartTime names);
                 d2 = d1 \<lparr> db_sortedTableArray := (db_sortedTableArray d1)[databaseType := tableTimes] \<rparr>
             in if databaseType = DAILY_DATABASE_INDEX \<and> tableTimes \<noteq> [] then d2 \<lparr> db_eventBeginTime := last tableTimes \<rparr>
                else d2)
          else if databaseType = EVENT_DATABASE then
            (if length names = 1 then d1 \<lparr> db_eventTableName := names ! 0 \<rparr> else d1)
          else d1)"

definition HandleAllTableName ::
    "'s db_env \<Rightarrow> nat \<Rightarrow> string list list \<Rightarrow> 's database \<Rightarrow> string list list \<times> 's database" where
  "HandleAllTableName E databaseType allTableName d =
     (case table_names E databaseType d of
        (None, d1) \<Rightarrow> (allTableName, d1)
      | (Some names, d1) \<Rightarrow>
          (if length allTableName > databaseType
           then allTableName[databaseType := allTableName ! databaseType @ names] else allTableName, d1))"

text \<open>Deleting rows of the event table up to a point of time, relative to the table's time.\<close>

definition delete_events_until :: "'s db_env \<Rightarrow> int \<Rightarrow> 's database \<Rightarrow> 's database" where
  "delete_events_until E deleteTimePoint d =
     (case GetBundleActiveRdbStore E EVENT_DATABASE d of
        (False, d1) \<Rightarrow> d1
      | (True, d1) \<Rightarrow> snd (execute_on E EVENT_DATABASE (''delete from '' @ db_eventTableName d1 @
          '' where timeStamp <= '' @ int_to_string deleteTimePoint) d1))"

fun delete_oldest :: "'s db_env \<Rightarrow> nat \<Rightarrow> nat \<Rightarrow> 's database \<Rightarrow> 's database" where
  "delete_oldest E databaseType 0 d = d"
| "delete_oldest E databaseType (Suc n) d =
     (let tables = db_sortedTableArray d ! databaseType;
          d1 = snd (DeleteInvalidTable E databaseType (tables ! 0) d)
      in delete_oldest E databaseType n
           (d1 \<lparr> db_sortedTableArray := (db_sortedTableArray d1)[databaseType := tl (db_sortedTableArray d1 ! databaseType)] \<rparr>))"

definition DeleteExcessiveTableData :: "'s db_env \<Rightarrow> nat \<Rightarrow> 's database \<Rightarrow> 's database" where
  "DeleteExcessiveTableData E databaseType d =
     (if databaseType < 4 then
        (if db_sortedTableArray d ! databaseType = [] then d
         else
           let existingNumber = int (length (db_sortedTableArray d ! databaseType));
               deleteNumber = existingNumber - MAX_FILES_EVERY_INTERVAL_TYPE ! databaseType
           in if deleteNumber > 0 then delete_oldest E databaseType (nat deleteNumber) d else d)
      else if databaseType = EVENT_DATABASE then
        (if db_eventTableName d = UNKNOWN_TABLE_NAME \<or> db_eventBeginTime d = EVENT_BEGIN_TIME_INITIAL_VALUE then d
         else
           let eventTableTime = ParseStartTime (db_eventTableName d);
               deleteTimePoint = db_eventBeginTime d -
                 (if db_debug d then SIX_DAY_IN_MILLIS_MAX_DEBUG else SEVEN_DAY_IN_MILLIS_MAX) - eventTableTime
           in if deleteTimePoint \<le> 0 then d else delete_events_until E deleteTimePoint d)
      else d)"

definition Database_DeleteExcessiveEventTableData :: "'s db_env \<Rightarrow> int \<Rightarrow> 's database \<Rightarrow> 's database" where
  "Database_DeleteExcessiveEventTableData E deleteDays d =
     (if db_eventTableName d = UNKNOWN_TABLE_NAME \<or> db_eventBeginTime d = EVENT_BEGIN_TIME_INITIAL_VALUE then d
      else
        let eventTableTime = ParseStartTime (db_eventTableName d);
            deleteTimePoint = db_eventBeginTime d - (SEVEN_DAY_IN_MILLIS_MAX - deleteDays * ONE_DAY_TIME) - eventTableTime
        in if deleteTimePoint \<le> 0 then d else delete_events_until E deleteTimePoint d)"

definition GetOverdueTableCreateTime ::
    "'s db_env \<Rightarrow> nat \<Rightarrow> int \<Rightarrow> 's database \<Rightarrow> int list option \<times> 's database" where
  "GetOverdueTableCreateTime E databaseType currentTimeMillis d =
     (if databaseType \<ge> length (db_sortedTableArray d) then (None, d)
      else case table_names E databaseType d of
          (None, d1) \<Rightarrow> (None, d1)
        | (Some names, d1) \<Rightarrow> (Some (filter (\<lambda>t. t < currentTimeMillis) (map ParseStartTime names)), d1))"

text \<open>One part of \<open>RemoveOldData\<close>: the tables of one database older than the limit.\<close>

definition remove_overdue :: "'s db_env \<Rightarrow> nat \<Rightarrow> (calendar \<Rightarrow> calendar) \<Rightarrow> int \<Rightarrow> 's database \<Rightarrow> 's database" where
  "remove_overdue E databaseType back currentTime d =
     (let d1 = d \<lparr> db_calendar := back (SetMilliseconds currentTime (db_calendar d)) \<rparr>
      in case GetOverdueTableCreateTime E databaseType (GetMilliseconds (db_calendar d1)) d1 of
           (None, d2) \<Rightarrow> d2
         | (Some tableTimes, d2) \<Rightarrow> fold (\<lambda>t d. snd (DeleteInvalidTable E databaseType t d)) tableTimes d2)"

definition RemoveOldData :: "'s db_env \<Rightarrow> int \<Rightarrow> 's database \<Rightarrow> 's database" where
  "RemoveOldData E currentTime d =
     (let d1 = remove_overdue E YEARLY_DATABASE_INDEX
                 (IncreaseYears (- 1 * MAX_FILES_EVERY_INTERVAL_TYPE ! YEARLY_DATABASE_INDEX)) currentTime d;
          d2 = remove_overdue E MONTHLY_DATABASE_INDEX
                 (IncreaseMonths (- 1 * MAX_FILES_EVERY_INTERVAL_TYPE ! MONTHLY_DATABASE_INDEX)) currentTime d1;
          d3 = remove_overdue E WEEKLY_DATABASE_INDEX
                 (IncreaseWeeks (- 1 * MAX_FILES_EVERY_INTERVAL_TYPE ! WEEKLY_DATABASE_INDEX)) currentTime d2;
          d4 = remove_overdue E DAILY_DATABASE_INDEX
                 (IncreaseDays (- 1 * MAX_FILES_EVERY_INTERVAL_TYPE ! DAILY_DATABASE_INDEX)) currentTime d3
      in fold (\<lambda>i d. DeleteExcessiveTableData E i (HandleTableInfo E i d)) [0..<length (db_sortedTableArray d4)] d4)"

section \<open>Creating tables\<close>

definition GetTableIndexSql :: "nat \<Rightarrow> int \<Rightarrow> bool \<Rightarrow> int \<Rightarrow> 's database \<Rightarrow> string" where
  "GetTableIndexSql databaseType tableTime createFlag indexFlag d =
     (if databaseType < length (db_sortedTableArray d) then
        (if createFlag
         then ''CREATE INDEX '' @ PACKAGE_LOG_TABLE_INDEX_PREFIX @ int_to_string tableTime @ '' ON '' @
           PACKAGE_LOG_TABLE @ int_to_string tableTime @ '' (userId, lastTime, bundleName);''
         else ''DROP INDEX '' @ PACKAGE_LOG_TABLE_INDEX_PREFIX @ int_to_string tableTime)
      else if databaseType = EVENT_DATABASE then
        (if createFlag
         then ''CREATE INDEX '' @ EVENT_LOG_TABLE_INDEX_PREFIX @ int_to_string tableTime @ '' ON '' @
           EVENT_LOG_TABLE @ int_to_string tableTime @ '' (timeStamp, userId, bundleName);''
         else ''DROP INDEX '' @ EVENT_LOG_TABLE_INDEX_PREFIX @ int_to_string tableTime)
      else if databaseType = APP_GROUP_DATABASE then
        (if createFlag then
           (if indexFlag = 0
            then ''CREATE INDEX '' @ BUNDLE_HISTORY_LOG_TABLE_INDEX_PREFIX @ '' ON '' @
              BUNDLE_HISTORY_LOG_TABLE @ '' (userId, bundleName);''
            else if indexFlag = 1
            then ''CREATE INDEX '' @ MODULE_RECORD_LOG_TABLE_INDEX_PREFIX @ '' ON '' @
              MODULE_RECORD_LOG_TABLE @ int_to_string tableTime @ '' (userId, bundleName, moduleName);''
            else if indexFlag = 2
            then ''CREATE INDEX '' @ FORM_RECORD_LOG_TABLE_INDEX_PREFIX @ '' ON '' @
              FORM_RECORD_LOG_TABLE @ int_to_string tableTime @
              '' (userId, moduleName, formName, formDimension, formId);''
            else '''')
         else
           (if indexFlag = 0 then ''DROP INDEX '' @ BUNDLE_HISTORY_LOG_TABLE_INDEX_PREFIX
            else if indexFlag = 1 then ''DROP INDEX '' @ MODULE_RECORD_LOG_TABLE_INDEX_PREFIX
            else if indexFlag = 2 then ''DROP INDEX '' @ FORM_RECORD_LOG_TABLE_INDEX_PREFIX
            else ''''))
      else '''')"

text \<open>Executing one statement after the other; \<open>BUNDLE_ACTIVE_FAIL\<close> at the first that fails.\<close>

fun execute_all :: "'s db_env \<Rightarrow> nat \<Rightarrow> string list \<Rightarrow> 's database \<Rightarrow> int \<times> 's database" where
  "execute_all E databaseType [] d = (BUNDLE_ACTIVE_SUCCESS, d)"
| "execute_all E databaseType (sql # sqls) d =
     (case execute_on E databaseType sql d of
        (False, d1) \<Rightarrow> (BUNDLE_ACTIVE_FAIL, d1)
      | (True, d1) \<Rightarrow> execute_all E databaseType sqls d1)"

definition CreateEventLogTable :: "'s db_env \<Rightarrow> nat \<Rightarrow> int \<Rightarrow> 's database \<Rightarrow> int \<times> 's database" where
  "CreateEventLogTable E databaseType currentTimeMillis d =
     (case GetBundleActiveRdbStore E databaseType d of
        (False, d1) \<Rightarrow> (BUNDLE_ACTIVE_FAIL, d1)
      | (True, d1) \<Rightarrow>
          let eventTable = EVENT_LOG_TABLE @ int_to_string currentTimeMillis
          in execute_all E databaseType
               [''CREATE TABLE IF NOT EXISTS '' @ eventTable @
                  '' (userId INTEGER NOT NULL, bundleName TEXT NOT NULL, eventId INTEGER NOT NULL, '' @
                  ''timeStamp INTEGER NOT NULL, abilityId TEXT NOT NULL, uid INTEGER NOT NULL DEFAULT -1);'',
                GetTableIndexSql EVENT_DATABASE currentTimeMillis True 0 d1]
               (d1 \<lparr> db_eventTableName := eventTable \<rparr>))"

definition CreatePackageLogTable :: "'s db_env \<Rightarrow> nat \<Rightarrow> int \<Rightarrow> 's database \<Rightarrow> int \<times> 's database" where
  "CreatePackageLogTable E databaseType currentTimeMillis d =
     (case GetBundleActiveRdbStore E databaseType d of
        (False, d1) \<Rightarrow> (BUNDLE_ACTIVE_FAIL, d1)
      | (True, d1) \<Rightarrow>
          execute_all E databaseType
            [''CREATE TABLE IF NOT EXISTS '' @ PACKAGE_LOG_TABLE @ int_to_string currentTimeMillis @
               '' (userId INTEGER NOT NULL, bundleName TEXT NOT NULL, bundleStartedCount INTEGER NOT NULL, '' @
               ''lastTime INTEGER NOT NULL, lastTimeContinuousTask INTEGER NOT NULL, totalTime INTEGER NOT NULL, '' @
               ''totalTimeContinuousTask INTEGER NOT NULL, uid INTEGER NOT NULL DEFAULT -1);'',
             GetTableIndexSql databaseType currentTimeMillis True 0 d1] d1)"

definition CreateModuleRecordTable :: "'s db_env \<Rightarrow> nat \<Rightarrow> int \<Rightarrow> 's database \<Rightarrow> int \<times> 's database" where
  "CreateModuleRecordTable E databaseType timeStamp d =
     (case GetBundleActiveRdbStore E databaseType d of
        (False, d1) \<Rightarrow> (BUNDLE_ACTIVE_FAIL, d1)
      | (True, d1) \<Rightarrow>
          let moduleRecord = MODULE_RECORD_LOG_TABLE @ int_to_string timeStamp
          in execute_all E databaseType
               [''CREATE TABLE IF NOT EXISTS '' @ moduleRecord @
                  '' (userId INTEGER NOT NULL, bundleName TEXT NOT NULL, moduleName TEXT NOT NULL, '' @
                  ''launchedCount INTEGER NOT NULL, lastTime INTEGER NOT NULL, uid INTEGER NOT NULL DEFAULT -1);'',
                GetTableIndexSql databaseType timeStamp True 1 d1]
               (d1 \<lparr> db_moduleRecordsTableName := moduleRecord \<rparr>))"

definition CreateFormRecordTable :: "'s db_env \<Rightarrow> nat \<Rightarrow> int \<Rightarrow> 's database \<Rightarrow> int \<times> 's database" where
  "CreateFormRecordTable E databaseType timeStamp d =
     (case GetBundleActiveRdbStore E databaseType d of
        (False, d1) \<Rightarrow> (BUNDLE_ACTIVE_FAIL, d1)
      | (True, d1) \<Rightarrow>
          let formRecord = FORM_RECORD_LOG_TABLE @ int_to_string timeStamp
          in execute_all E databaseType
               [''CREATE TABLE IF NOT EXISTS '' @ formRecord @
                  '' (userId INTEGER NOT NULL, bundleName TEXT NOT NULL, moduleName TEXT NOT NULL, '' @
                  ''formName TEXT NOT NULL, formDimension INTEGER NOT NULL, formId INTEGER NOT NULL, '' @
                  ''touchCount INTEGER NOT NULL, lastTime INTEGER NOT NULL, uid INTEGER NOT NULL DEFAULT -1);'',
                GetTableIndexSql databaseType timeStamp True 2 d1]
               (d1 \<lparr> db_formRecordsTableName := formRecord \<rparr>))"

definition CreateRecordTable :: "'s db_env \<Rightarrow> int \<Rightarrow> 's database \<Rightarrow> 's database" where
  "CreateRecordTable E timeStamp d =
     (let d1 = (if db_moduleRecordsTableName d = UNKNOWN_TABLE_NAME
                then snd (CreateModuleRecordTable E APP_GROUP_DATABASE timeStamp d) else d)
      in if db_formRecordsTableName d1 = UNKNOWN_TABLE_NAME
         then snd (CreateFormRecordTable E APP_GROUP_DATABASE timeStamp d1) else d1)"

definition CreateDurationTable :: "'s db_env \<Rightarrow> nat \<Rightarrow> 's database \<Rightarrow> int \<times> 's database" where
  "CreateDurationTable E databaseType d =
     (case GetBundleActiveRdbStore E databaseType d of
        (False, d1) \<Rightarrow> (BUNDLE_ACTIVE_FAIL, d1)
      | (True, d1) \<Rightarrow>
          execute_all E databaseType
            [''CREATE TABLE IF NOT EXISTS '' @ DURATION_LOG_TABLE @
               '' (bootBasedDuration INTEGER NOT NULL, screenOnDuration INTEGER NOT NULL);''] d1)"

definition CreateBundleHistoryTable :: "'s db_env \<Rightarrow> nat \<Rightarrow> 's database \<Rightarrow> int \<times> 's database" where
  "CreateBundleHistoryTable E databaseType d =
     (case GetBundleActiveRdbStore E databaseType d of
        (False, d1) \<Rightarrow> (BUNDLE_ACTIVE_FAIL, d1)
      | (True, d1) \<Rightarrow>
          execute_all E databaseType
            [''CREATE TABLE IF NOT EXISTS '' @ BUNDLE_HISTORY_LOG_TABLE @
               '' (userId INTEGER NOT NULL, bundleName TEXT NOT NULL, lastBootFromUsedTime INTEGER NOT NULL, '' @
               ''lastScreenUsedTime INTEGER NOT NULL, currentGroup INTEGER NOT NULL, reasonInGroup INTEGER NOT NULL, '' @
               ''bundleAliveTimeoutTime INTEGER NOT NULL, bundleDailyTimeoutTime INTEGER NOT NULL, '' @
               ''uid INTEGER NOT NULL DEFAULT -1, firstUseTime INTEGER NOT NULL DEFAULT '' @
               int_to_string MAX_END_TIME @ '');'',
             GetTableIndexSql databaseType 0 True 0 d1] d1)"

definition CheckDatabaseFileAndTable :: "'s db_env \<Rightarrow> 's database \<Rightarrow> 's database" where
  "CheckDatabaseFileAndTable E d =
     (let d1 = CheckDatabaseFile E APP_GROUP_DATABASE d
      in if db_bundleHistoryTableName d1 = UNKNOWN_TABLE_NAME
         then (snd (CreateBundleHistoryTable E APP_GROUP_DATABASE d1)) \<lparr> db_bundleHistoryTableName := BUNDLE_HISTORY_LOG_TABLE \<rparr>
         else d1)"

text \<open>\<open>InitEventTable\<close> walks over the event tables from the last name to the first.\<close>

fun pick_event_table :: "'s db_env \<Rightarrow> int \<Rightarrow> string list \<Rightarrow> 's database \<Rightarrow> 's database" where
  "pick_event_table E currentTime [] d = d"
| "pick_event_table E currentTime (name # names) d =
     (let eventTableTime = ParseStartTime name
      in if db_eventTableName d = UNKNOWN_TABLE_NAME \<and> currentTime \<ge> eventTableTime
         then pick_event_table E currentTime names (d \<lparr> db_eventTableName := name \<rparr>)
         else pick_event_table E currentTime names (snd (DeleteInvalidTable E EVENT_DATABASE eventTableTime d)))"

definition InitEventTable :: "'s db_env \<Rightarrow> int \<Rightarrow> 's database \<Rightarrow> 's database" where
  "InitEventTable E currentTime d =
     (if db_eventTableName d \<noteq> UNKNOWN_TABLE_NAME then d
      else
        let (allTableName, d1) = HandleAllTableName E EVENT_DATABASE (replicate 6 []) d;
            eventTables = sort (allTableName ! EVENT_DATABASE);
            d2 = pick_event_table E currentTime (rev eventTables) d1
        in if db_eventTableName d2 = UNKNOWN_TABLE_NAME
           then snd (CreateEventLogTable E EVENT_DATABASE currentTime d2) else d2)"

definition InitUsageGroupDatabase :: "'s db_env \<Rightarrow> int \<Rightarrow> bool \<Rightarrow> 's database \<Rightarrow> 's database" where
  "InitUsageGroupDatabase E databaseType forModuleRecords d =
     (let (r, d1) = CreateDatabasePath E d
      in if r = BUNDLE_ACTIVE_FAIL then d1
         else if databaseType \<noteq> int APP_GROUP_DATABASE then d1
         else case table_names E (nat databaseType) d1 of
             (None, d2) \<Rightarrow> d2
           | (Some names, d2) \<Rightarrow>
               fold (\<lambda>tableName d.
                   if \<not> forModuleRecords then
                     (if DURATION_LOG_TABLE = tableName then d \<lparr> db_durationTableName := DURATION_LOG_TABLE \<rparr>
                      else if BUNDLE_HISTORY_LOG_TABLE = tableName
                      then d \<lparr> db_bundleHistoryTableName := BUNDLE_HISTORY_LOG_TABLE \<rparr> else d)
                   else
                     (if contains_str tableName MODULE_RECORD_LOG_TABLE then d \<lparr> db_moduleRecordsTableName := tableName \<rparr>
                      else if contains_str tableName FORM_RECORD_LOG_TABLE
                      then d \<lparr> db_formRecordsTableName := tableName \<rparr> else d)) names d2)"

section \<open>Renaming tables\<close>

definition SetNewIndexWhenTimeChanged ::
    "'s db_env \<Rightarrow> nat \<Rightarrow> int \<Rightarrow> int \<Rightarrow> bool \<Rightarrow> 's database \<Rightarrow> int \<times> 's database" where
  "SetNewIndexWhenTimeChanged E databaseType tableOldTime tableNewTime rdbStore d =
     (if \<not> rdbStore then (BUNDLE_ACTIVE_FAIL, d)
      else if databaseType = APP_GROUP_DATABASE then
        execute_all E databaseType
          [GetTableIndexSql databaseType tableOldTime False 1 d, GetTableIndexSql databaseType tableNewTime True 1 d,
           GetTableIndexSql databaseType tableOldTime False 2 d, GetTableIndexSql databaseType tableNewTime True 2 d] d
      else
        execute_all E databaseType
          [GetTableIndexSql databaseType tableOldTime False 0 d, GetTableIndexSql databaseType tableNewTime True 0 d] d)"

definition ExecuteRenameTableName ::
    "'s db_env \<Rightarrow> nat \<Rightarrow> string \<Rightarrow> int \<Rightarrow> int \<Rightarrow> bool \<Rightarrow> 's database \<Rightarrow> int \<times> 's database" where
  "ExecuteRenameTableName E databaseType tablePrefix tableOldTime tableNewTime rdbStore d =
     (if \<not> rdbStore then (BUNDLE_ACTIVE_FAIL, d)
      else execute_all E databaseType
        [''alter table '' @ tablePrefix @ int_to_string tableOldTime @ '' rename to '' @
           tablePrefix @ int_to_string tableNewTime] d)"

definition RenameTableName :: "'s db_env \<Rightarrow> nat \<Rightarrow> int \<Rightarrow> int \<Rightarrow> 's database \<Rightarrow> int \<times> 's database" where
  "RenameTableName E databaseType tableOldTime tableNewTime d =
     (case GetBundleActiveRdbStore E databaseType d of
        (False, d1) \<Rightarrow> (BUNDLE_ACTIVE_FAIL, d1)
      | (True, d1) \<Rightarrow>
          let rename = (\<lambda>prefix d. ExecuteRenameTableName E databaseType prefix tableOldTime tableNewTime True d);
              (r, d2) = (if databaseType < length (db_sortedTableArray d1) then rename PACKAGE_LOG_TABLE d1
                else if databaseType = EVENT_DATABASE then rename EVENT_LOG_TABLE d1
                else if databaseType = APP_GROUP_DATABASE then
                  (case rename MODULE_RECORD_LOG_TABLE d1 of
                     (r, d2) \<Rightarrow> if r \<noteq> 0 then (r, d2) else rename FORM_RECORD_LOG_TABLE d2)
                else (0, d1))
          in if r \<noteq> 0 then (BUNDLE_ACTIVE_FAIL, d2)
             else SetNewIndexWhenTimeChanged E databaseType tableOldTime tableNewTime True d2)"

definition Database_RenewTableTime :: "'s db_env \<Rightarrow> int \<Rightarrow> 's database \<Rightarrow> 's database" where
  "Database_RenewTableTime E timeDiffMillis d =
     (let renew = (\<lambda>i d.
            if db_sortedTableArray d ! i = [] then d
            else
              let d1 = fold (\<lambda>t d. let newTime = t + timeDiffMillis
                    in if newTime < 0 then snd (DeleteInvalidTable E i t d) else snd (RenameTableName E i t newTime d))
                    (db_sortedTableArray d ! i) d;
                  d2 = d1 \<lparr> db_sortedTableArray := (db_sortedTableArray d1)[i := []] \<rparr>
              in DeleteExcessiveTableData E i (HandleTableInfo E i d2));
          d1 = fold renew [0..<length (db_sortedTableArray d)] d;
          d2 = (if db_eventTableName d1 \<noteq> UNKNOWN_TABLE_NAME then
                 (let oldTime = ParseStartTime (db_eventTableName d1); newTime = oldTime + timeDiffMillis
                  in if newTime < 0 then
                       (case DeleteInvalidTable E EVENT_DATABASE oldTime d1 of
                          (r, d2) \<Rightarrow> if r = BUNDLE_ACTIVE_SUCCESS then d2 \<lparr> db_eventTableName := UNKNOWN_TABLE_NAME \<rparr> else d2)
                     else
                       (case RenameTableName E EVENT_DATABASE oldTime newTime d1 of
                          (r, d2) \<Rightarrow> if r = BUNDLE_ACTIVE_SUCCESS
                            then d2 \<lparr> db_eventTableName := EVENT_LOG_TABLE @ int_to_string newTime \<rparr> else d2))
                else d1)
      in if db_formRecordsTableName d2 \<noteq> UNKNOWN_TABLE_NAME \<and> db_moduleRecordsTableName d2 \<noteq> UNKNOWN_TABLE_NAME then
           (let oldTime = ParseStartTime (db_moduleRecordsTableName d2); newTime = oldTime + timeDiffMillis
            in case RenameTableName E APP_GROUP_DATABASE oldTime newTime d2 of
                 (r, d3) \<Rightarrow> if r = BUNDLE_ACTIVE_SUCCESS
                   then d3 \<lparr> db_moduleRecordsTableName := MODULE_RECORD_LOG_TABLE @ int_to_string newTime,
                             db_formRecordsTableName := FORM_RECORD_LOG_TABLE @ int_to_string newTime \<rparr> else d3)
         else d2)"

section \<open>Lemmas\<close>

lemma nat_to_string_length: "n < 10 ^ Suc k \<Longrightarrow> length (nat_to_string n) \<le> Suc k"
proof (induction k arbitrary: n)
  case 0
  then show ?case by (subst nat_to_string.simps) simp
next
  case (Suc k)
  have "n div 10 < 10 ^ Suc k"
    using Suc.prems by (simp add: div_less_iff_less_mult)
  from Suc.IH [OF this] show ?case
    by (subst nat_to_string.simps) simp
qed

lemma int_to_string_length:
  assumes "0 \<le> t" "t \<le> INT64_MAX"
  shows "length (int_to_string t) \<le> 19"
proof -
  have "nat t < 10 ^ Suc 18"
    using assms by (simp add: INT64_MAX_def)
  from nat_to_string_length [OF this] show ?thesis
    using assms by (simp add: int_to_string_def)
qed

lemma from_first_digit_append:
  assumes "\<forall>c \<in> set prefix. \<not> is_digit c" "0 \<le> t"
  shows "from_first_digit (prefix @ int_to_string t) = int_to_string t"
proof -
  have d: "\<forall>c \<in> set (int_to_string t). is_digit c" "int_to_string t \<noteq> []"
    using assms(2) nat_to_string_digits by (auto simp: int_to_string_def)
  then obtain c cs where c: "int_to_string t = c # cs" "is_digit c"
    by (cases "int_to_string t") auto
  have "dropWhile (\<lambda>c. \<not> is_digit c) (prefix @ int_to_string t) = int_to_string t"
    using assms(1) c by (simp add: dropWhile_append2)
  then show ?thesis
    using c by (auto simp: from_first_digit_def)
qed

lemma ParseStartTime_name:
  assumes "\<forall>c \<in> set prefix. \<not> is_digit c" "length prefix \<le> 81" "0 \<le> t" "t \<le> INT64_MAX"
  shows "ParseStartTime (prefix @ int_to_string t) = t"
proof -
  have "int_to_string t \<noteq> []" by (simp add: int_to_string_def)
  moreover have "length (prefix @ int_to_string t) \<le> BUNDLE_ACTIVE_DB_NAME_MAX_LENGTH"
    using int_to_string_length [OF assms(3,4)] assms(2) by simp
  ultimately show ?thesis
    using from_first_digit_append [OF assms(1,3)]
    by (simp add: ParseStartTime_def atoll_def strtol_int_to_string)
qed

lemmas table_prefixes = PACKAGE_LOG_TABLE_def EVENT_LOG_TABLE_def MODULE_RECORD_LOG_TABLE_def
  FORM_RECORD_LOG_TABLE_def

lemma prefix_no_digits:
  "prefix \<in> {PACKAGE_LOG_TABLE, EVENT_LOG_TABLE, MODULE_RECORD_LOG_TABLE, FORM_RECORD_LOG_TABLE} \<Longrightarrow>
   (\<forall>c \<in> set prefix. \<not> is_digit c) \<and> length prefix \<le> 81"
  by (auto simp: table_prefixes is_digit_def)

text \<open>The search keeps the tables below \<open>low\<close> before the time and those above \<open>high\<close> after it.\<close>

lemma near_loop_bounds:
  assumes "sorted xs" "distinct xs" "0 \<le> low" "high < int (length xs)"
    and "\<forall>i < length xs. int i < low \<longrightarrow> xs ! i < t" "\<forall>i < length xs. high < int i \<longrightarrow> t < xs ! i"
    and "low \<le> high + 1"
    and "(mid = - 1 \<and> tt = - 1 \<and> low \<le> high) \<or> (xs = [] \<and> mid = - 1 \<and> tt = - 1) \<or>
      (0 \<le> mid \<and> mid < int (length xs) \<and> tt = xs ! nat mid \<and> (t < tt \<and> mid = high + 1 \<or> tt < t \<and> mid = low - 1))"
  shows "case near_loop xs t low high mid tt of
      Inl m \<Rightarrow> 0 \<le> m \<and> m < int (length xs) \<and> xs ! nat m = t
    | Inr (l, m, v) \<Rightarrow> 0 \<le> l \<and> l \<le> int (length xs) \<and>
        (\<forall>i < length xs. int i < l \<longrightarrow> xs ! i < t) \<and> (\<forall>i < length xs. l \<le> int i \<longrightarrow> t < xs ! i) \<and>
        ((xs = [] \<and> m = - 1 \<and> v = - 1) \<or>
         (0 \<le> m \<and> m < int (length xs) \<and> v = xs ! nat m \<and> (t < v \<and> m = l \<or> v < t \<and> m = l - 1)))"
  using assms
proof (induction xs t low high mid tt rule: near_loop.induct)
  case (1 xs t low high mid tt)
  show ?case
  proof (cases "low \<le> high")
    case False
    then have "high = low - 1" using 1(9) by simp
    then show ?thesis
      using 1(5-) False by (subst near_loop.simps) auto
  next
    case True
    let ?m = "(high + low) div 2"
    have m: "low \<le> ?m" "?m \<le> high" using True by simp_all
    obtain k where k: "?m = int k"
      using m(1) 1(5) by (metis nonneg_int_cases order_trans)
    then have nm: "nat ?m < length xs" using m 1(6) by linarith
    have less: "xs ! i < xs ! j" if "i < j" "j < length xs" for i j
      using that sorted_nth_mono [OF 1(3), of i j] nth_eq_iff_index_eq [OF 1(4), of i j] by auto
    have lt: "xs ! i < xs ! nat ?m" if "i < length xs" "int i < ?m" for i
      using that nm k less [of i k] by simp
    have gt: "xs ! nat ?m < xs ! i" if "i < length xs" "?m < int i" for i
      using that k less [of k i] by simp
    consider (right) "t > xs ! nat ?m" | (left) "t < xs ! nat ?m" | (hit) "t = xs ! nat ?m" by linarith
    then show ?thesis
    proof cases
      case right
      have below: "\<forall>i < length xs. int i < ?m + 1 \<longrightarrow> xs ! i < t"
      proof (intro allI impI)
        fix i assume "i < length xs" "int i < ?m + 1"
        then show "xs ! i < t"
          using right lt [of i] k by (cases "i = k") auto
      qed
      have step: "near_loop xs t low high mid tt = near_loop xs t (?m + 1) high ?m (xs ! nat ?m)"
        using right True by (subst near_loop.simps) (simp add: Let_def)
      show ?thesis
        unfolding step
        by (rule 1(1) [OF True refl refl right 1(3,4)]) (use right m nm 1(5-8) below in auto)
    next
      case left
      then have nright: "\<not> t > xs ! nat ?m" by simp
      have above: "\<forall>i < length xs. ?m - 1 < int i \<longrightarrow> t < xs ! i"
      proof (intro allI impI)
        fix i assume "i < length xs" "?m - 1 < int i"
        then show "t < xs ! i"
          using left gt [of i] k by (cases "i = k") auto
      qed
      have step: "near_loop xs t low high mid tt = near_loop xs t low (?m - 1) ?m (xs ! nat ?m)"
        using left True by (subst near_loop.simps) (simp add: Let_def)
      show ?thesis
        unfolding step
        by (rule 1(2) [OF True refl refl nright left 1(3,4)]) (use left m nm 1(5-8) above in auto)
    next
      case hit
      then show ?thesis
        using True m nm 1(5) by (subst near_loop.simps) auto
    qed
  qed
qed

lemma NearIndexOnOrAfter_spec:
  assumes "sorted xs" "distinct xs"
  shows "let r = NearIndexOnOrAfterCurrentTime t xs in
    (r = - 1 \<and> (\<forall>i < length xs. xs ! i < t)) \<or>
    (0 \<le> r \<and> r < int (length xs) \<and> (\<forall>i < length xs. int i < r \<longleftrightarrow> xs ! i < t))"
proof (cases "xs = []")
  case True
  then show ?thesis
    by (simp add: NearIndexOnOrAfterCurrentTime_def near_loop.simps Let_def)
next
  case False
  have b: "case near_loop xs t 0 (int (length xs) - 1) (- 1) (- 1) of
      Inl m \<Rightarrow> 0 \<le> m \<and> m < int (length xs) \<and> xs ! nat m = t
    | Inr (l, m, v) \<Rightarrow> 0 \<le> l \<and> l \<le> int (length xs) \<and>
        (\<forall>i < length xs. int i < l \<longrightarrow> xs ! i < t) \<and> (\<forall>i < length xs. l \<le> int i \<longrightarrow> t < xs ! i) \<and>
        ((xs = [] \<and> m = - 1 \<and> v = - 1) \<or>
         (0 \<le> m \<and> m < int (length xs) \<and> v = xs ! nat m \<and> (t < v \<and> m = l \<or> v < t \<and> m = l - 1)))"
    by (rule near_loop_bounds) (use assms False in auto)
  show ?thesis
  proof (cases "near_loop xs t 0 (int (length xs) - 1) (- 1) (- 1)")
    case (Inl m)
    then have m: "0 \<le> m" "m < int (length xs)" "xs ! nat m = t"
      using b by simp_all
    obtain k where k: "m = int k" using m(1) nonneg_int_cases by blast
    then have kl: "k < length xs" "xs ! k = t" using m by simp_all
    have "int i < m \<longleftrightarrow> xs ! i < t" if "i < length xs" for i
      using that kl sorted_nth_mono [OF assms(1), of i k] sorted_nth_mono [OF assms(1), of k i]
        nth_eq_iff_index_eq [OF assms(2), of i k]
      by (cases i k rule: linorder_cases) (auto simp: k)
    then show ?thesis
      using Inl m by (simp add: NearIndexOnOrAfterCurrentTime_def)
  next
    case (Inr r)
    then obtain l m v where r: "near_loop xs t 0 (int (length xs) - 1) (- 1) (- 1) = Inr (l, m, v)"
      by (cases r) auto
    have "int i < l \<longleftrightarrow> xs ! i < t" if "i < length xs" for i
      using that b r by (auto simp: not_less [symmetric])
    then show ?thesis
      using b False by (auto simp: NearIndexOnOrAfterCurrentTime_def r Let_def)
  qed
qed

section \<open>What the store operations leave alone\<close>

text \<open>The access to the stores does not touch the object's names, table times and calendar.\<close>

definition same_object :: "'s database \<Rightarrow> 's database \<Rightarrow> bool" where
  "same_object d d' \<longleftrightarrow> d' = d \<lparr> db_cache := db_cache d', db_stores := db_stores d' \<rparr>"

lemma same_object_refl [simp]: "same_object d d"
  by (cases d) (simp add: same_object_def)

lemma same_object_stores [simp]: "same_object d (d \<lparr> db_stores := st \<rparr>)"
  by (cases d) (simp add: same_object_def)

lemma same_object_cache [simp]: "same_object d (d \<lparr> db_stores := st, db_cache := c \<rparr>)"
  by (cases d) (simp add: same_object_def)

lemma same_object_trans: "same_object a b \<Longrightarrow> same_object b c \<Longrightarrow> same_object a c"
  by (cases a; cases b; cases c) (simp add: same_object_def)

lemma same_object_fields:
  "same_object d d' \<Longrightarrow> db_sortedTableArray d' = db_sortedTableArray d \<and> db_eventTableName d' = db_eventTableName d \<and>
    db_eventBeginTime d' = db_eventBeginTime d \<and> db_files d' = db_files d \<and>
    db_moduleRecordsTableName d' = db_moduleRecordsTableName d \<and>
    db_formRecordsTableName d' = db_formRecordsTableName d \<and>
    db_durationTableName d' = db_durationTableName d \<and>
    db_bundleHistoryTableName d' = db_bundleHistoryTableName d \<and> db_debug d' = db_debug d"
  by (cases d; cases d') (simp add: same_object_def)

lemma GetStore_same: "same_object d (snd (GetBundleActiveRdbStore E i d))"
  by (cases d) (auto simp: GetBundleActiveRdbStore_def same_object_def Let_def split: prod.splits)

lemma execute_on_same: "same_object d (snd (execute_on E i sql d))"
  by (simp add: execute_on_def split: prod.splits)

lemma Query_same: "same_object d (snd (QueryStatsInfoByStep E i sql args d))"
  using GetStore_same [of d E i]
  by (cases "GetBundleActiveRdbStore E i d") (simp add: QueryStatsInfoByStep_def split: bool.splits)

lemma execute_all_same: "same_object d (snd (execute_all E i sqls d))"
proof (induction sqls arbitrary: d)
  case (Cons sql sqls)
  obtain ok d1 where e: "execute_on E i sql d = (ok, d1)" by fastforce
  then have "same_object d d1"
    using execute_on_same [of d E i sql] by simp
  then show ?case
    using Cons [of d1] e same_object_trans by (cases ok) auto
qed simp

lemma DeleteInvalidTable_same: "same_object d (snd (DeleteInvalidTable E i t d))"
proof -
  obtain ok d1 where g: "GetBundleActiveRdbStore E i d = (ok, d1)" by fastforce
  then have d1: "same_object d d1"
    using GetStore_same [of d E i] by simp
  have "same_object d (snd (execute_on E j sql d1))" for j sql
    using same_object_trans [OF d1 execute_on_same] .
  then show ?thesis
    using d1 g by (cases ok) (simp_all add: DeleteInvalidTable_def case_prod_beta Let_def)
qed

lemma table_names_same: "same_object d (snd (table_names E i d))"
  using Query_same [of d E i "''select * from sqlite_master where type = ?''" "[DATABASE_FILE_TABLE_NAME]"]
  by (simp add: table_names_def case_prod_beta split: option.splits)

lemma delete_oldest_arrays:
  assumes "i < length (db_sortedTableArray d)"
  shows "db_sortedTableArray (delete_oldest E i n d) =
    (db_sortedTableArray d)[i := drop n (db_sortedTableArray d ! i)]"
  using assms
proof (induction n arbitrary: d)
  case (Suc n)
  have "db_sortedTableArray (snd (DeleteInvalidTable E i t d)) = db_sortedTableArray d" for t
    using same_object_fields [OF DeleteInvalidTable_same] by blast
  then show ?case
    using Suc by (simp add: Let_def drop_Suc)
qed simp

section \<open>The searches of the table times\<close>

lemma near_indexes_spec:
  assumes "sorted xs" "distinct xs"
  shows "(let r = NearIndexOnOrBeforeCurrentTime t xs in
      - 1 \<le> r \<and> r < int (length xs) \<and> (\<forall>i < length xs. int i \<le> r \<longleftrightarrow> xs ! i \<le> t)) \<and>
    (let r = NearIndexOnOrAfterCurrentTime t xs in
      if \<exists>i < length xs. t \<le> xs ! i then 0 \<le> r \<and> r < int (length xs) \<and> (\<forall>i < length xs. int i < r \<longleftrightarrow> xs ! i < t)
      else r = - 1)"
proof -
  let ?a = "NearIndexOnOrAfterCurrentTime t xs"
  from NearIndexOnOrAfter_spec [OF assms, of t]
  consider (no) "?a = - 1" "\<forall>i < length xs. xs ! i < t"
    | (yes) k where "?a = int k" "k < length xs" "\<forall>i < length xs. i < k \<longleftrightarrow> xs ! i < t"
    unfolding Let_def by (metis nonneg_int_cases of_nat_less_iff)
  then show ?thesis
  proof cases
    case no
    then show ?thesis
      by (auto simp: NearIndexOnOrBeforeCurrentTime_def Let_def)
  next
    case yes
    let ?b = "NearIndexOnOrBeforeCurrentTime t xs"
    have ge: "t \<le> xs ! k" using yes(2,3) by (meson less_irrefl not_le)
    have upto: "i \<le> k \<longleftrightarrow> xs ! i \<le> xs ! k" if "i < length xs" for i
      using that yes(2) sorted_nth_mono [OF assms(1), of i k] sorted_nth_mono [OF assms(1), of k i]
        nth_eq_iff_index_eq [OF assms(2), of i k] by (cases i k rule: linorder_cases) auto
    have before: "- 1 \<le> ?b \<and> ?b < int (length xs) \<and> (\<forall>i < length xs. int i \<le> ?b \<longleftrightarrow> xs ! i \<le> t)"
    proof (cases "xs ! k = t")
      case True
      then have "?b = int k"
        using yes(1) by (simp add: NearIndexOnOrBeforeCurrentTime_def)
      then show ?thesis
        using upto True yes(2) by simp
    next
      case False
      then have b: "?b = int k - 1"
        using yes(1) by (simp add: NearIndexOnOrBeforeCurrentTime_def)
      have "i < k \<longleftrightarrow> xs ! i \<le> t" if i: "i < length xs" for i
      proof
        assume "i < k"
        then have "xs ! i < t" using yes(3) i by blast
        then show "xs ! i \<le> t" by simp
      next
        assume t: "xs ! i \<le> t"
        have "xs ! i \<noteq> t"
        proof
          assume e: "xs ! i = t"
          have "\<not> i < k" using yes(3) i e by simp
          moreover have "i \<le> k" using upto [OF i] e ge by simp
          ultimately show False using e False by simp
        qed
        then show "i < k" using yes(3) i t by simp
      qed
      then show ?thesis
        using b yes(2) by simp
    qed
    have "t \<le> xs ! k \<and> k < length xs" using ge yes(2) by simp
    then have "\<exists>i < length xs. t \<le> xs ! i" by blast
    then show ?thesis
      using before yes by (simp only: Let_def if_True of_nat_less_iff of_nat_0_le_iff simp_thms) blast
  qed
qed

section \<open>Properties\<close>

text \<open>Searching the table times. In an array without repetitions in rising order, the index on or
before a time is the last one whose table is not later, and \<open>-1\<close> when there is none; the index on or
after a time is the first one whose table is not earlier, and \<open>-1\<close> when there is none.\<close>

theorem near_index_correct:
  assumes "sorted xs" "distinct xs"
  shows "(let r = NearIndexOnOrBeforeCurrentTime t xs in
      - 1 \<le> r \<and> r < int (length xs) \<and> (\<forall>i < length xs. int i \<le> r \<longleftrightarrow> xs ! i \<le> t)) \<and>
    (let r = NearIndexOnOrAfterCurrentTime t xs in
      if \<exists>i < length xs. t \<le> xs ! i then 0 \<le> r \<and> r < int (length xs) \<and> (\<forall>i < length xs. int i < r \<longleftrightarrow> xs ! i < t)
      else r = - 1)"
  using assms by (rule near_indexes_spec)

theorem near_index_correct_witness:
  "- 1 \<le> NearIndexOnOrBeforeCurrentTime 25 [10, 20, 30] \<and> NearIndexOnOrBeforeCurrentTime 25 [10, 20, 30] < 3 \<and>
    (1 \<le> NearIndexOnOrBeforeCurrentTime 25 [10, 20, 30]) = True \<and> (2 \<le> NearIndexOnOrBeforeCurrentTime 25 [10, 20, 30]) = False"
proof -
  let ?r = "NearIndexOnOrBeforeCurrentTime 25 [10, 20, 30]"
  have all: "- 1 \<le> ?r \<and> ?r < int (length [10, 20, 30 :: int]) \<and>
      (\<forall>i < length [10, 20, 30 :: int]. int i \<le> ?r \<longleftrightarrow> [10, 20, 30] ! i \<le> (25 :: int))"
    using near_index_correct [of "[10, 20, 30]" 25] by (simp only: Let_def sorted_simps distinct.simps) simp
  then show ?thesis
    using spec [of _ 1, OF conjunct2 [OF conjunct2 [OF all]]] spec [of _ 2, OF conjunct2 [OF conjunct2 [OF all]]] by simp
qed

text \<open>The time in a table's name reads back. For every time the store can hold and every kind of
table named after its beginning, the name built from the time parses to the time.\<close>

theorem table_name_roundtrip:
  assumes "0 \<le> t" "t \<le> INT64_MAX"
    and "prefix \<in> {PACKAGE_LOG_TABLE, EVENT_LOG_TABLE, MODULE_RECORD_LOG_TABLE, FORM_RECORD_LOG_TABLE}"
  shows "ParseStartTime (prefix @ int_to_string t) = t"
  using prefix_no_digits [OF assms(3)] assms(1,2) by (intro ParseStartTime_name) simp_all

theorem table_name_roundtrip_witness:
  "ParseStartTime (EVENT_LOG_TABLE @ int_to_string 1700000000000) = 1700000000000"
  by (rule table_name_roundtrip) (simp_all add: INT64_MAX_def)

text \<open>The number of tables of a period is bounded. Afterwards the table times of the database are
the latest ones, at most the limit of its kind (30 days, 30 weeks, 12 months, 10 years), and those
of the other databases are unchanged.\<close>

theorem excess_tables_removed:
  assumes "i < 4" "length (db_sortedTableArray d) = 4"
  shows "let limit = nat (MAX_FILES_EVERY_INTERVAL_TYPE ! i);
      old = db_sortedTableArray d ! i;
      new = db_sortedTableArray (DeleteExcessiveTableData E i d) in
    new = (db_sortedTableArray d)[i := drop (length old - limit) old] \<and> length (new ! i) \<le> limit"
proof -
  have m: "0 \<le> MAX_FILES_EVERY_INTERVAL_TYPE ! i"
    using assms(1) by (auto simp: MAX_FILES_EVERY_INTERVAL_TYPE_def less_Suc_eq numeral_eq_Suc)
  have "db_sortedTableArray (DeleteExcessiveTableData E i d) = (db_sortedTableArray d)[i :=
      drop (length (db_sortedTableArray d ! i) - nat (MAX_FILES_EVERY_INTERVAL_TYPE ! i)) (db_sortedTableArray d ! i)]"
  proof (cases "int (length (db_sortedTableArray d ! i)) - MAX_FILES_EVERY_INTERVAL_TYPE ! i > 0")
    case True
    then have "nat (int (length (db_sortedTableArray d ! i)) - MAX_FILES_EVERY_INTERVAL_TYPE ! i) =
        length (db_sortedTableArray d ! i) - nat (MAX_FILES_EVERY_INTERVAL_TYPE ! i)"
      using m by (simp add: nat_diff_distrib)
    then show ?thesis
      using True m assms by (auto simp: DeleteExcessiveTableData_def Let_def delete_oldest_arrays)
  next
    case False
    then have "length (db_sortedTableArray d ! i) - nat (MAX_FILES_EVERY_INTERVAL_TYPE ! i) = 0"
      using m by simp
    then show ?thesis
      using False assms by (simp add: DeleteExcessiveTableData_def Let_def)
  qed
  then show ?thesis
    using assms m by (simp add: Let_def)
qed

text \<open>An environment whose stores hold nothing, for the witnesses.\<close>

definition no_stores :: "unit db_env" where
  "no_stores = \<lparr> de_access = (\<lambda>p s. True), de_mkdir = (\<lambda>p s. (True, s)), de_open = (\<lambda>p s. (True, s)),
     de_version = (\<lambda>f s. 2), de_deleteStore = (\<lambda>p s. s), de_execute = (\<lambda>f q s. (True, s)),
     de_query = (\<lambda>f q a s. Some \<lparr> rs_columns = [], rs_rows = [] \<rparr>), de_update = (\<lambda>f t b w a s. (Some 0, s)),
     de_delete = (\<lambda>f t w a s. s), de_insert = (\<lambda>f t b s. s), de_batchInsert = (\<lambda>f t bs s. s),
     de_loadFile = (\<lambda>p s. ''''), de_saveFile = (\<lambda>p t s. s), de_appUid = (\<lambda>b u. 0), de_activeUsers = [],
     de_now = 0 \<rparr>"

theorem excess_tables_removed_witness:
  "length (db_sortedTableArray (DeleteExcessiveTableData no_stores 3
     (Database_new () \<lparr> db_sortedTableArray := [[], [], [], [1, 2, 3, 4, 5, 6, 7, 8, 9, 10, 11, 12]] \<rparr>)) ! 3) \<le> 10"
  using excess_tables_removed [of 3 "Database_new () \<lparr> db_sortedTableArray := [[], [], [],
      [1, 2, 3, 4, 5, 6, 7, 8, 9, 10, 11, 12]] \<rparr>" no_stores]
  by (simp add: Let_def MAX_FILES_EVERY_INTERVAL_TYPE_def)

text \<open>When every table of a database has been removed, reading the table names answers none and the
times are not refreshed: the times of the removed tables stay.\<close>

lemma removed_tables_stay_listed:
  "fst (table_names E i d) = None \<Longrightarrow> db_sortedTableArray (HandleTableInfo E i d) = db_sortedTableArray d"
  using same_object_fields [OF table_names_same [of d E i]]
  by (simp add: HandleTableInfo_def case_prod_beta split: option.splits)

end
