(* ===== verification/UserService.thy ===== *)
theory UserService
  imports PeriodStats ModuleRecord Errors
begin

text \<open>\<open>BundleActiveUserService\<close> (\<open>services/packageusage\<close>): the statistics of one user. It keeps the
current day, week, month and year, rolls them over when the day is over, saves them in the usage
database and answers queries from the database and the memory together.

The database is given by the operations the service calls on it. The service's calls to its listener
(the core) are collected in a list. The uid registry is process-wide: its value is handed in and
taken out with the state. A null period is dereferenced by some operations of the code; after \<open>Init\<close>
there is none, and the model leaves such a period as it is.\<close>

section \<open>The database operations and the state\<close>

type_synonym module_map = "(string, module_record) omap"
type_synonym event_stats_map = "(string, event_stats) omap"

record 'd usage_db =
  ud_ChangeToDebug :: "'d \<Rightarrow> 'd"
  ud_InitDatabaseTableInfo :: "int \<Rightarrow> 'd \<Rightarrow> 'd"
  ud_InitUsageGroupDatabase :: "int \<Rightarrow> bool \<Rightarrow> 'd \<Rightarrow> 'd"
  ud_UpdateBundleUsageData :: "int \<Rightarrow> period_stats \<Rightarrow> 'd \<Rightarrow> period_stats \<times> 'd"
  ud_UpdateEventData :: "int \<Rightarrow> period_stats \<Rightarrow> 'd \<Rightarrow> 'd"
  ud_UpdateModuleData :: "int \<Rightarrow> module_map \<Rightarrow> int \<Rightarrow> 'd \<Rightarrow> 'd"
  ud_GetCurrentUsageData :: "int \<Rightarrow> int \<Rightarrow> uidmap \<times> 'd \<Rightarrow> period_stats option \<times> uidmap \<times> 'd"
  ud_RenewTableTime :: "int \<Rightarrow> 'd \<Rightarrow> 'd"
  ud_GetOptimalIntervalType :: "int \<Rightarrow> int \<Rightarrow> 'd \<Rightarrow> int"
  ud_RemoveOldData :: "int \<Rightarrow> 'd \<Rightarrow> 'd"
  ud_QueryDatabaseUsageStats :: "int \<Rightarrow> int \<Rightarrow> int \<Rightarrow> int \<Rightarrow> string \<Rightarrow> 'd \<Rightarrow> package_stats list \<times> 'd"
  ud_QueryDatabaseEvents :: "int \<Rightarrow> int \<Rightarrow> int \<Rightarrow> string \<Rightarrow> 'd \<Rightarrow> event list \<times> 'd"
  ud_OnPackageUninstalled :: "int \<Rightarrow> string \<Rightarrow> int \<Rightarrow> int \<Rightarrow> 'd \<Rightarrow> 'd"
  ud_RemoveFormData :: "int \<Rightarrow> string \<Rightarrow> string \<Rightarrow> string \<Rightarrow> int \<Rightarrow> int \<Rightarrow> int \<Rightarrow> 'd \<Rightarrow> 'd"
  ud_LoadModuleData :: "int \<Rightarrow> module_map \<Rightarrow> 'd \<Rightarrow> module_map \<times> 'd"
  ud_LoadFormData :: "int \<Rightarrow> module_map \<Rightarrow> 'd \<Rightarrow> module_map \<times> 'd"
  ud_QueryDeviceEventStats :: "int \<Rightarrow> int \<Rightarrow> int \<Rightarrow> event_stats_map \<Rightarrow> int \<Rightarrow> 'd \<Rightarrow> event_stats_map \<times> 'd"
  ud_QueryNotificationEventStats :: "int \<Rightarrow> int \<Rightarrow> int \<Rightarrow> event_stats_map \<Rightarrow> int \<Rightarrow> 'd \<Rightarrow> event_stats_map \<times> 'd"
  ud_DeleteExcessiveEventTableData :: "int \<Rightarrow> 'd \<Rightarrow> 'd"

datatype notice = OnStatsChanged int | OnSystemUpdate int | OnStatsReload

record 'd user_service =
  us_userId :: int
  us_dailyExpiryDate :: calendar
  us_database :: 'd
  us_currentStats :: "period_stats option list"
  us_moduleRecords :: module_map
  us_statsChanged :: bool
  us_debug :: bool
  us_lastForegroundBundle :: string
  us_periodLength :: "int list"
  us_uids :: uidmap
  us_notices :: "notice list"

abbreviation (input) PERIOD_BEST :: int where "PERIOD_BEST \<equiv> 4"
abbreviation (input) PERIOD_COUNT :: nat where "PERIOD_COUNT \<equiv> 4"
abbreviation (input) APP_GROUP_DATABASE_INDEX :: int where "APP_GROUP_DATABASE_INDEX \<equiv> 5"
abbreviation (input) ONE_SECOND_MILLISECONDS :: int where "ONE_SECOND_MILLISECONDS \<equiv> 1000"

definition UserService_new :: "'d usage_db \<Rightarrow> int \<Rightarrow> bool \<Rightarrow> 'd \<Rightarrow> uidmap \<Rightarrow> 'd user_service" where
  "UserService_new D userId debug d uids = \<lparr>
     us_userId = userId,
     us_dailyExpiryDate = (let c = SetMilliseconds 0 (Calendar_new 0) in if debug then ChangeToDebug c else c),
     us_database = (if debug then ud_ChangeToDebug D d else d),
     us_currentStats = replicate PERIOD_COUNT None,
     us_moduleRecords = [], us_statsChanged = False, us_debug = debug, us_lastForegroundBundle = '''',
     us_periodLength = (if debug
       then [ONE_DAY_TIME_DEBUG, ONE_WEEK_TIME_DEBUG, ONE_MONTH_TIME_DEBUG, ONE_YEAR_TIME_DEBUG]
       else [ONE_DAY_TIME, ONE_WEEK_TIME, ONE_MONTH_TIME, ONE_YEAR_TIME]),
     us_uids = uids, us_notices = [] \<rparr>"

text \<open>Access to the period with index \<open>i\<close>, and an operation on it that may use the registry.\<close>

definition us_period :: "'d user_service \<Rightarrow> nat \<Rightarrow> period_stats option" where
  "us_period s i = (if i < length (us_currentStats s) then us_currentStats s ! i else None)"

lemma us_period_fields [simp]:
  "us_period (s \<lparr> us_statsChanged := b \<rparr>) i = us_period s i"
  "us_period (s \<lparr> us_notices := n \<rparr>) i = us_period s i"
  "us_period (s \<lparr> us_dailyExpiryDate := c \<rparr>) i = us_period s i"
  "us_period (s \<lparr> us_database := d \<rparr>) i = us_period s i"
  "us_period (s \<lparr> us_lastForegroundBundle := l \<rparr>) i = us_period s i"
  by (simp_all add: us_period_def)

definition on_period ::
    "nat \<Rightarrow> (period_stats \<times> uidmap \<Rightarrow> period_stats \<times> uidmap) \<Rightarrow> 'd user_service \<Rightarrow> 'd user_service" where
  "on_period i f s =
     (case us_period s i of
        None \<Rightarrow> s
      | Some p \<Rightarrow>
          let (p', um) = f (p, us_uids s)
          in s \<lparr> us_currentStats := (us_currentStats s)[i := Some p'], us_uids := um \<rparr>)"

definition each_period ::
    "(period_stats \<times> uidmap \<Rightarrow> period_stats \<times> uidmap) \<Rightarrow> 'd user_service \<Rightarrow> 'd user_service" where
  "each_period f s = fold (\<lambda>i. on_period i f) [0..<length (us_currentStats s)] s"

definition daily_begin :: "'d user_service \<Rightarrow> int" where
  "daily_begin s = (case us_period s 0 of Some p \<Rightarrow> pd_beginTime p | None \<Rightarrow> 0)"

section \<open>Notifications, saving and loading\<close>

definition NotifyStatsChanged :: "'d user_service \<Rightarrow> 'd user_service" where
  "NotifyStatsChanged s =
     (if \<not> us_statsChanged s
      then s \<lparr> us_statsChanged := True, us_notices := us_notices s @ [OnStatsChanged (us_userId s)] \<rparr>
      else s)"

definition NotifyNewUpdate :: "'d user_service \<Rightarrow> 'd user_service" where
  "NotifyNewUpdate s = s \<lparr> us_notices := us_notices s @ [OnSystemUpdate (us_userId s)] \<rparr>"

definition save_period :: "'d usage_db \<Rightarrow> nat \<Rightarrow> 'd user_service \<Rightarrow> 'd user_service" where
  "save_period D i s =
     (case us_period s i of
        None \<Rightarrow> s
      | Some p \<Rightarrow>
          let (p1, d1) = (if pd_bundleStats p \<noteq> []
                then ud_UpdateBundleUsageData D (int i) p (us_database s) else (p, us_database s));
              d2 = (if pd_events p1 \<noteq> [] \<and> i = 0 then ud_UpdateEventData D (int i) p1 d1 else d1)
          in s \<lparr> us_database := d2, us_currentStats := (us_currentStats s)[i := Some p1] \<rparr>)"

definition RestoreStats :: "'d usage_db \<Rightarrow> bool \<Rightarrow> 'd user_service \<Rightarrow> 'd user_service" where
  "RestoreStats D forced s =
     (if us_statsChanged s \<or> forced then
        let s1 = fold (save_period D) [0..<length (us_currentStats s)] s;
            s2 = (if us_moduleRecords s1 \<noteq> []
              then s1 \<lparr> us_database := ud_UpdateModuleData D (us_userId s1) (us_moduleRecords s1)
                          (daily_begin s1) (us_database s1) \<rparr>
              else s1)
        in (on_period 0 (\<lambda>(p, um). (p \<lparr> pd_events := EventList_Clear (pd_events p) \<rparr>, um)) s2)
             \<lparr> us_statsChanged := False \<rparr>
      else s)"

text \<open>One turn of the loop of \<open>LoadActiveStats\<close>; \<open>begin\<close> is the truncated time stamp.\<close>

definition load_period ::
    "'d usage_db \<Rightarrow> tz \<Rightarrow> int \<Rightarrow> bool \<Rightarrow> nat \<Rightarrow> 'd user_service \<Rightarrow> 'd user_service" where
  "load_period D z timeStamp force i s =
     (let tmpCalendar0 = (if us_debug s then ChangeToDebug (Calendar_new 0) else Calendar_new 0);
          begin0 = GetMilliseconds (TruncateTo z (int i) (SetMilliseconds timeStamp tmpCalendar0))
      in if \<not> force \<and> (case us_period s i of Some p \<Rightarrow> pd_beginTime p = begin0 | None \<Rightarrow> False) then s
         else
           let (stats, um, d) = ud_GetCurrentUsageData D (int i) (us_userId s) (us_uids s, us_database s);
               current = (case stats of
                   Some p \<Rightarrow>
                     if timeStamp > pd_beginTime p \<and> timeStamp < pd_beginTime p + us_periodLength s ! i
                     then p \<lparr> pd_beginTime := begin0, pd_endTime := timeStamp \<rparr>
                     else PeriodStats_default \<lparr> pd_userId := us_userId s, pd_beginTime := begin0, pd_endTime := timeStamp \<rparr>
                 | None \<Rightarrow>
                     PeriodStats_default \<lparr> pd_userId := us_userId s, pd_beginTime := begin0, pd_endTime := timeStamp \<rparr>)
           in s \<lparr> us_uids := um, us_database := d, us_currentStats := (us_currentStats s)[i := Some current] \<rparr>)"

definition UpdateExpiryDate :: "tz \<Rightarrow> bool \<Rightarrow> int \<Rightarrow> 'd user_service \<Rightarrow> 'd user_service" where
  "UpdateExpiryDate z timeChanged timeStamp s =
     (let c1 = SetMilliseconds (if timeChanged then daily_begin s else timeStamp) (us_dailyExpiryDate s);
          c2 = IncreaseDays 1 c1;
          c3 = (if \<not> timeChanged then TruncateToDay z c2 else c2)
      in s \<lparr> us_dailyExpiryDate := c3 \<rparr>)"

definition LoadActiveStats ::
    "'d usage_db \<Rightarrow> tz \<Rightarrow> int \<Rightarrow> bool \<Rightarrow> bool \<Rightarrow> 'd user_service \<Rightarrow> 'd user_service" where
  "LoadActiveStats D z timeStamp force timeChanged s =
     (let s1 = fold (load_period D z timeStamp force) [0..<length (us_periodLength s)] s;
          s2 = UpdateExpiryDate z timeChanged timeStamp (s1 \<lparr> us_statsChanged := False \<rparr>)
      in s2 \<lparr> us_notices := us_notices s2 @ [OnStatsReload] \<rparr>)"

definition LoadModuleAndFormStats :: "'d usage_db \<Rightarrow> 'd user_service \<Rightarrow> 'd user_service" where
  "LoadModuleAndFormStats D s =
     (let (m1, d1) = ud_LoadModuleData D (us_userId s) (us_moduleRecords s) (us_database s);
          (m2, d2) = ud_LoadFormData D (us_userId s) m1 d1
      in s \<lparr> us_moduleRecords := m2, us_database := d2 \<rparr>)"

definition UserService_Init :: "'d usage_db \<Rightarrow> tz \<Rightarrow> int \<Rightarrow> 'd user_service \<Rightarrow> 'd user_service" where
  "UserService_Init D z timeStamp s =
     (let d1 = ud_InitDatabaseTableInfo D timeStamp (us_database s);
          d2 = ud_InitUsageGroupDatabase D APP_GROUP_DATABASE_INDEX True d1;
          s1 = LoadModuleAndFormStats D (LoadActiveStats D z timeStamp False False (s \<lparr> us_database := d2 \<rparr>));
          startupEvent = (Event_time STARTUP (timeStamp - ONE_SECOND_MILLISECONDS))
            \<lparr> ev_bundleName := DEVICE_EVENT_PACKAGE_NAME \<rparr>
      in on_period 0 (\<lambda>(p, um). (PeriodStats_AddEvent startupEvent p, um)) s1)"

section \<open>Rolling over\<close>

text \<open>What runs on over the end of the day: the bundles, and their running abilities and tasks by
key.\<close>

record continuing =
  ct_bundles :: "string list"
  ct_abilities :: "(string, (string, int) omap) omap"
  ct_services :: "(string, (string, int) omap) omap"

text \<open>One record of one period. The copy taken of the record is read after the end-of-day update as
well, with its old values.\<close>

definition flush_record ::
    "nat \<Rightarrow> string \<Rightarrow> continuing \<times> 'd user_service \<Rightarrow> continuing \<times> 'd user_service" where
  "flush_record i key cs =
     (let (c, s) = cs
      in case us_period s i of
           None \<Rightarrow> (c, s)
         | Some p \<Rightarrow>
             (case om_find (pd_bundleStats p) key of
                None \<Rightarrow> (c, s)
              | Some bundleUsageStats \<Rightarrow>
                  let bundleStatsKey = pk_bundleName bundleUsageStats @ int_to_string (pk_uid bundleUsageStats);
                      c1 = (if pk_abilities bundleUsageStats \<noteq> []
                        then c \<lparr> ct_abilities := om_insert bundleStatsKey (pk_abilities bundleUsageStats) (ct_abilities c) \<rparr>
                        else c);
                      c2 = (if pk_longTimeTasks bundleUsageStats \<noteq> []
                        then c1 \<lparr> ct_services := om_insert bundleStatsKey (pk_longTimeTasks bundleUsageStats) (ct_services c1) \<rparr>
                        else c1);
                      s1 = on_period i (PeriodStats_Update (pk_bundleName bundleUsageStats) ''''
                             (GetMilliseconds (us_dailyExpiryDate s) - 1) END_OF_THE_DAY ''''
                             (pk_uid bundleUsageStats)) s;
                      c3 = c2 \<lparr> ct_bundles := os_insert (pk_bundleName bundleUsageStats) (ct_bundles c2) \<rparr>
                  in (c3, NotifyStatsChanged s1)))"

definition flush_period :: "nat \<Rightarrow> continuing \<times> 'd user_service \<Rightarrow> continuing \<times> 'd user_service" where
  "flush_period i cs =
     (case us_period (snd cs) i of
        None \<Rightarrow> cs
      | Some p \<Rightarrow>
          let (c, s) = fold (flush_record i) (map fst (pd_bundleStats p)) cs
          in (c, on_period i (\<lambda>(p, um). (PeriodStats_CommitTime (GetMilliseconds (us_dailyExpiryDate s) - 1) p, um)) s))"

definition FlushDataInMem :: "'d user_service \<Rightarrow> continuing \<times> 'd user_service" where
  "FlushDataInMem s =
     fold flush_period [0..<length (us_currentStats s)]
       (\<lparr> ct_bundles = [], ct_abilities = [], ct_services = [] \<rparr>, s)"

text \<open>The loops over the uids of a bundle return at the first uid that has nothing running.\<close>

fun UpdateContinueAbilitiesMemory ::
    "int \<Rightarrow> (string, (string, int) omap) omap \<Rightarrow> string \<Rightarrow> int list \<Rightarrow>
     period_stats \<times> uidmap \<Rightarrow> period_stats \<times> uidmap" where
  "UpdateContinueAbilitiesMemory beginTime continueAbilities continueBundleName [] pu = pu"
| "UpdateContinueAbilitiesMemory beginTime continueAbilities continueBundleName (uid # uidSet) pu =
     (case om_find continueAbilities (GetBundleUsageKey continueBundleName uid) of
        None \<Rightarrow> pu
      | Some ability \<Rightarrow>
          UpdateContinueAbilitiesMemory beginTime continueAbilities continueBundleName uidSet
            (fold (\<lambda>it pu. if snd it = ABILITY_BACKGROUND then pu
                else PeriodStats_Update continueBundleName '''' beginTime (snd it) (fst it) uid pu) ability pu))"

fun UpdateContinueServicesMemory ::
    "int \<Rightarrow> (string, (string, int) omap) omap \<Rightarrow> string \<Rightarrow> int list \<Rightarrow>
     period_stats \<times> uidmap \<Rightarrow> period_stats \<times> uidmap" where
  "UpdateContinueServicesMemory beginTime continueServices continueBundleName [] pu = pu"
| "UpdateContinueServicesMemory beginTime continueServices continueBundleName (uid # uidSet) pu =
     (case om_find continueServices (GetBundleUsageKey continueBundleName uid) of
        None \<Rightarrow> pu
      | Some service \<Rightarrow>
          UpdateContinueServicesMemory beginTime continueServices continueBundleName uidSet
            (fold (\<lambda>it pu. PeriodStats_Update continueBundleName (fst it) beginTime (snd it) '''' uid pu)
              service pu))"

definition continue_bundle :: "continuing \<Rightarrow> string \<Rightarrow> 'd user_service \<Rightarrow> 'd user_service" where
  "continue_bundle c bundleName s =
     (let beginTime = daily_begin s
      in each_period (\<lambda>(p, um).
           let (p1, um1) = UpdateContinueAbilitiesMemory beginTime (ct_abilities c) bundleName
                 (GetPackageUidSet bundleName um) (p, um)
           in UpdateContinueServicesMemory beginTime (ct_services c) bundleName
                (GetPackageUidSet bundleName um1) (p1, um1)) s)"

definition RenewStatsInMemory :: "'d usage_db \<Rightarrow> tz \<Rightarrow> int \<Rightarrow> 'd user_service \<Rightarrow> 'd user_service" where
  "RenewStatsInMemory D z timeStamp s =
     (let (c, s1) = FlushDataInMem s;
          s2 = RestoreStats D True s1;
          s3 = s2 \<lparr> us_database := ud_RemoveOldData D timeStamp (us_database s2) \<rparr>;
          s4 = LoadActiveStats D z timeStamp False False s3;
          s5 = fold (continue_bundle c) (ct_bundles c) s4
      in RestoreStats D True s5)"

section \<open>Reporting\<close>

definition update_period_stats ::
    "event \<Rightarrow> bool \<Rightarrow> period_stats \<times> uidmap \<Rightarrow> period_stats \<times> uidmap" where
  "update_period_stats ev incrementBundleLaunch pu =
     (let (p, um) = pu in
      if ev_eventId ev = SCREEN_INTERACTIVE then (UpdateScreenInteractive (ev_timeStamp ev) p, um)
      else if ev_eventId ev = SCREEN_NON_INTERACTIVE then (UpdateScreenNonInteractive (ev_timeStamp ev) p, um)
      else if ev_eventId ev = KEYGUARD_SHOWN then (UpdateKeyguardShown (ev_timeStamp ev) p, um)
      else if ev_eventId ev = KEYGUARD_HIDDEN then (UpdateKeyguardHidden (ev_timeStamp ev) p, um)
      else
        let (p1, um1) = PeriodStats_Update (ev_bundleName ev) (ev_continuousTaskAbilityName ev) (ev_timeStamp ev)
              (ev_eventId ev) (ev_abilityId ev) (ev_uid ev) (p, um);
            bundleStatsKey = ev_bundleName ev @ int_to_string (ev_uid ev)
        in if incrementBundleLaunch then
             (case om_find (pd_bundleStats p1) bundleStatsKey of
                None \<Rightarrow> (p1, um1)
              | Some st \<Rightarrow> (p1 \<lparr> pd_bundleStats :=
                    om_insert bundleStatsKey (IncrementBundleLaunchedCount st) (pd_bundleStats p1) \<rparr>, um1))
           else (p1, um1))"

definition UpdatePeriodStats :: "event \<Rightarrow> bool \<Rightarrow> 'd user_service \<Rightarrow> 'd user_service" where
  "UpdatePeriodStats ev incrementBundleLaunch s =
     (let s1 = each_period (update_period_stats ev incrementBundleLaunch) s
      in if ev_eventId ev \<noteq> FLUSH then NotifyStatsChanged s1 else s1)"

definition UserService_ReportEvent :: "'d usage_db \<Rightarrow> tz \<Rightarrow> event \<Rightarrow> 'd user_service \<Rightarrow> 'd user_service" where
  "UserService_ReportEvent D z ev s =
     (let s1 = (if ev_timeStamp ev \<ge> GetMilliseconds (us_dailyExpiryDate s)
                then RenewStatsInMemory D z (ev_timeStamp ev) s else s)
      in if us_period s1 0 = None then s1
         else
           let s2 = (if ev_eventId ev \<noteq> SYSTEM_INTERACTIVE \<and> ev_eventId ev \<noteq> FLUSH
                     then on_period 0 (\<lambda>(p, um). (PeriodStats_AddEvent ev p, um)) s1 else s1);
               launch = (ev_eventId ev = ABILITY_FOREGROUND \<and> ev_bundleName ev \<noteq> '''' \<and>
                         ev_bundleName ev \<noteq> us_lastForegroundBundle s2);
               s3 = (if launch then s2 \<lparr> us_lastForegroundBundle := ev_bundleName ev \<rparr> else s2)
           in UpdatePeriodStats ev launch s3)"

definition ReportForShutdown :: "'d usage_db \<Rightarrow> tz \<Rightarrow> event \<Rightarrow> 'd user_service \<Rightarrow> 'd user_service" where
  "ReportForShutdown D z ev s =
     (if ev_eventId ev \<noteq> SHUTDOWN then s
      else
        let s1 = on_period 0 (\<lambda>(p, um). (PeriodStats_AddEvent ev p, um)) s;
            s2 = (if ev_timeStamp ev \<ge> GetMilliseconds (us_dailyExpiryDate s1)
                  then RenewStatsInMemory D z (ev_timeStamp ev) s1 else s1);
            s3 = each_period (PeriodStats_Update (ev_bundleName ev) (ev_continuousTaskAbilityName ev)
                   (ev_timeStamp ev) (ev_eventId ev) (ev_abilityId ev) (ev_uid ev)) s2
        in NotifyStatsChanged s3)"

definition GetOrCreateModuleRecord :: "event \<Rightarrow> 'd user_service \<Rightarrow> string \<times> module_record \<times> 'd user_service" where
  "GetOrCreateModuleRecord ev s =
     (let combinedInfo = ev_bundleName ev @ '' '' @ int_to_string (ev_uid ev) @ '' '' @ ev_moduleName ev
      in case om_find (us_moduleRecords s) combinedInfo of
           Some m \<Rightarrow> (combinedInfo, m, s)
         | None \<Rightarrow>
             let m = ModuleRecord_default \<lparr> mr_bundleName := ev_bundleName ev, mr_moduleName := ev_moduleName ev,
                       mr_userId := us_userId s, mr_uid := ev_uid ev \<rparr>
             in (combinedInfo, m, s \<lparr> us_moduleRecords := om_insert combinedInfo m (us_moduleRecords s) \<rparr>))"

definition ReportModuleEvent :: "event \<Rightarrow> 'd user_service \<Rightarrow> 'd user_service" where
  "ReportModuleEvent ev s =
     (if ev_eventId ev \<noteq> ABILITY_FOREGROUND then s
      else
        let (key, m, s1) = GetOrCreateModuleRecord ev s
        in NotifyStatsChanged (s1 \<lparr> us_moduleRecords :=
             om_insert key (UpdateModuleRecord (ev_timeStamp ev) m) (us_moduleRecords s1) \<rparr>))"

definition ReportFormEvent :: "'d usage_db \<Rightarrow> event \<Rightarrow> 'd user_service \<Rightarrow> 'd user_service" where
  "ReportFormEvent D ev s =
     (let (key, m, s1) = GetOrCreateModuleRecord ev s
      in if ev_eventId ev = FORM_IS_CLICKED then
           NotifyStatsChanged (s1 \<lparr> us_moduleRecords := om_insert key
             (AddOrUpdateOneFormRecord (ev_formName ev) (ev_formDimension ev) (ev_formId ev) (ev_timeStamp ev)
               (ev_uid ev) m) (us_moduleRecords s1) \<rparr>)
         else if ev_eventId ev = FORM_IS_REMOVED then
           s1 \<lparr> us_moduleRecords := om_insert key
                  (RemoveOneFormRecord (ev_formName ev) (ev_formDimension ev) (ev_formId ev) m) (us_moduleRecords s1),
                us_database := ud_RemoveFormData D (us_userId s1) (ev_bundleName ev) (ev_moduleName ev)
                  (ev_formName ev) (ev_formDimension ev) (ev_formId ev) (ev_uid ev) (us_database s1) \<rparr>
         else s1)"

section \<open>Removing\<close>

definition UserService_OnUserRemoved :: "'d usage_db \<Rightarrow> 'd user_service \<Rightarrow> 'd user_service" where
  "UserService_OnUserRemoved D s =
     s \<lparr> us_database := ud_OnPackageUninstalled D (us_userId s) '''' 0 0 (us_database s) \<rparr>"

definition DeleteMemUsageStats :: "string \<Rightarrow> int \<Rightarrow> int \<Rightarrow> period_stats \<times> uidmap \<Rightarrow> period_stats \<times> uidmap" where
  "DeleteMemUsageStats bundleName deletedUid appIndex pu =
     (let (p, um) = pu; bundleStatsKey = GetBundleUsageKey bundleName deletedUid
      in if appIndex \<noteq> 0 then
           (if om_find (pd_bundleStats p) bundleStatsKey \<noteq> None
            then (p \<lparr> pd_bundleStats := om_erase bundleStatsKey (pd_bundleStats p) \<rparr>, um) else (p, um))
         else (p \<lparr> pd_bundleStats := fold (\<lambda>it. om_erase (GetBundleUsageKey bundleName it))
                 (GetPackageUidSet bundleName um) (pd_bundleStats p) \<rparr>, um))"

definition DeleteMemEvent :: "string \<Rightarrow> int \<Rightarrow> int \<Rightarrow> period_stats \<times> uidmap \<Rightarrow> period_stats \<times> uidmap" where
  "DeleteMemEvent bundleName deletedUid appIndex pu =
     (let (p, um) = pu
      in if appIndex \<noteq> 0 then
           (p \<lparr> pd_events := filter (\<lambda>e. \<not> (ev_bundleName e = bundleName \<and> ev_uid e = deletedUid)) (pd_events p) \<rparr>, um)
         else
           (p \<lparr> pd_events := filter (\<lambda>e. \<not> (ev_bundleName e = bundleName \<and>
                ev_uid e \<in> set (GetPackageUidSet bundleName um))) (pd_events p) \<rparr>, um))"

definition DeleteMemRecords :: "string \<Rightarrow> int \<Rightarrow> int \<Rightarrow> module_map \<Rightarrow> module_map" where
  "DeleteMemRecords bundleName deletedUid appIndex m =
     (if appIndex \<noteq> 0
      then filter (\<lambda>it. \<not> contains_str (fst it) (bundleName @ '' '' @ int_to_string deletedUid)) m
      else filter (\<lambda>it. \<not> contains_str (fst it) bundleName) m)"

definition DeleteMemPackageUidSet :: "string \<Rightarrow> int \<Rightarrow> int \<Rightarrow> uidmap \<Rightarrow> uidmap" where
  "DeleteMemPackageUidSet bundleName deletedUid appIndex um =
     (if appIndex \<noteq> 0 then DeletePackageUid bundleName deletedUid um else DeleteMemPackage bundleName um)"

definition DeleteUninstalledBundleStats ::
    "'d usage_db \<Rightarrow> string \<Rightarrow> int \<Rightarrow> int \<Rightarrow> 'd user_service \<Rightarrow> 'd user_service" where
  "DeleteUninstalledBundleStats D bundleName uid appIndex s =
     (let s1 = each_period (\<lambda>pu. DeleteMemEvent bundleName uid appIndex
                 (DeleteMemUsageStats bundleName uid appIndex pu)) s
      in s1 \<lparr> us_moduleRecords := DeleteMemRecords bundleName uid appIndex (us_moduleRecords s1),
              us_uids := DeleteMemPackageUidSet bundleName uid appIndex (us_uids s1),
              us_database := ud_OnPackageUninstalled D (us_userId s1) bundleName uid appIndex (us_database s1) \<rparr>)"

definition UserService_RenewTableTime :: "'d usage_db \<Rightarrow> int \<Rightarrow> int \<Rightarrow> 'd user_service \<Rightarrow> 'd user_service" where
  "UserService_RenewTableTime D oldTime newTime s =
     s \<lparr> us_database := ud_RenewTableTime D (newTime - oldTime) (us_database s) \<rparr>"

definition UserService_DeleteExcessiveEventTableData ::
    "'d usage_db \<Rightarrow> int \<Rightarrow> 'd user_service \<Rightarrow> 'd user_service" where
  "UserService_DeleteExcessiveEventTableData D deleteDays s =
     (if deleteDays < 0 then s
      else s \<lparr> us_database := ud_DeleteExcessiveEventTableData D deleteDays (us_database s) \<rparr>)"

section \<open>Queries\<close>

definition UserService_QueryBundleStatsInfos ::
    "'d usage_db \<Rightarrow> int \<Rightarrow> int \<Rightarrow> int \<Rightarrow> int \<Rightarrow> string \<Rightarrow> 'd user_service \<Rightarrow>
     (errcode + package_stats list) \<times> 'd user_service" where
  "UserService_QueryBundleStatsInfos D intervalType0 beginTime endTime userId bundleName s =
     (let optimal = ud_GetOptimalIntervalType D beginTime endTime (us_database s);
          intervalType = (if intervalType0 = PERIOD_BEST then (if optimal < 0 then PERIOD_DAILY else optimal)
                          else intervalType0);
          i = nat intervalType;
          db = (\<lambda>e. let (r, d) = ud_QueryDatabaseUsageStats D intervalType beginTime e userId bundleName (us_database s)
                in (r, s \<lparr> us_database := d \<rparr>))
      in if intervalType < 0 \<or> intervalType \<ge> int (length (us_currentStats s)) then (Inl ERR_USAGE_STATS_INTERVAL_NUMBER, s)
         else case us_period s i of
           None \<Rightarrow> (Inl ERR_MEMORY_OPERATION_FAILED, s)
         | Some p \<Rightarrow>
             if pd_endTime p = 0 then
               (if beginTime > pd_beginTime p + us_periodLength s ! i then (Inl ERR_QUERY_TIME_OUT_OF_RANGE, s)
                else (let (r, s1) = db endTime in (Inr r, s1)))
             else if beginTime \<ge> pd_endTime p then (Inl ERR_QUERY_TIME_OUT_OF_RANGE, s)
             else
               let (fromDatabase, s1) = db (min (pd_beginTime p) endTime)
               in if endTime > pd_beginTime p then
                    (let records = map (\<lambda>(k, st). (k, st \<lparr> pk_userId := userId \<rparr>)) (pd_bundleStats p);
                         legal = (\<lambda>st. (pk_totalInFrontTime st \<noteq> 0 \<or> pk_totalContiniousTaskUsedTime st \<noteq> 0) \<and>
                           pk_lastTimeUsed st \<ge> beginTime \<and> pk_lastTimeUsed st \<le> endTime);
                         wanted = (\<lambda>st. bundleName = '''' \<or> pk_bundleName st = bundleName)
                     in (Inr (fromDatabase @ filter (\<lambda>st. legal st \<and> wanted st) (map snd records)),
                         on_period i (\<lambda>(p, um). (p \<lparr> pd_bundleStats := records \<rparr>, um)) s1))
                  else (Inr fromDatabase, s1))"

definition UserService_QueryBundleEvents ::
    "'d usage_db \<Rightarrow> int \<Rightarrow> int \<Rightarrow> int \<Rightarrow> string \<Rightarrow> 'd user_service \<Rightarrow>
     (errcode + event list) \<times> 'd user_service" where
  "UserService_QueryBundleEvents D beginTime endTime userId bundleName s =
     (case us_period s 0 of
        None \<Rightarrow> (Inl ERR_MEMORY_OPERATION_FAILED, s)
      | Some p \<Rightarrow>
          if beginTime \<ge> pd_endTime p then (Inl ERR_QUERY_TIME_OUT_OF_RANGE, s)
          else
            let (fromDatabase, d) = ud_QueryDatabaseEvents D beginTime endTime userId bundleName (us_database s);
                s1 = s \<lparr> us_database := d \<rparr>
            in if pd_endTime p = 0 then (Inr fromDatabase, s1)
               else if endTime > pd_beginTime p then
                 (Inr (fromDatabase @ map Event_copy (filter (\<lambda>e. \<not> ev_timeStamp e > endTime \<and>
                        (bundleName = '''' \<or> ev_bundleName e = bundleName))
                      (drop (nat (FindBestIndex beginTime (pd_events p))) (pd_events p)))), s1)
               else (Inr fromDatabase, s1))"

text \<open>\<open>std::sort\<close> leaves the order of equal elements open; the model keeps them in their order. A
negative \<open>maxNum\<close> is not excluded here: the service refuses it before.\<close>

definition UserService_QueryModuleUsageRecords :: "int \<Rightarrow> 'd user_service \<Rightarrow> module_record list" where
  "UserService_QueryModuleUsageRecords maxNum s =
     (let results = sort_key (\<lambda>r. - mr_lastModuleUsedTime r) (map snd (us_moduleRecords s));
          cut = (if int (length results) > maxNum then take (nat maxNum) results else results)
      in map (\<lambda>r. r \<lparr> mr_formRecords := sort_key (\<lambda>f. - fr_count f) (mr_formRecords r) \<rparr>) cut)"

text \<open>Counting logged events per name, into the statistics the database has answered.\<close>

definition count_event :: "int \<Rightarrow> event \<Rightarrow> event_stats_map \<Rightarrow> event_stats_map" where
  "count_event eventId e stats =
     (case om_find stats (ev_bundleName e) of
        Some st \<Rightarrow> om_insert (ev_bundleName e) (st \<lparr> es_count := es_count st + 1 \<rparr>) stats
      | None \<Rightarrow> om_insert (ev_bundleName e) (EventStats_default \<lparr> es_name := ev_bundleName e,
                  es_eventId := eventId, es_count := 1 \<rparr>) stats)"

definition GetCachedSystemEvents :: "period_stats \<Rightarrow> int \<Rightarrow> int \<Rightarrow> event_stats_map \<Rightarrow> event_stats_map" where
  "GetCachedSystemEvents p beginTime endTime stats =
     fold (\<lambda>e stats. if ev_timeStamp e \<le> endTime \<and> (ev_eventId e = SYSTEM_LOCK \<or> ev_eventId e = SYSTEM_UNLOCK \<or>
             ev_eventId e = SYSTEM_SLEEP \<or> ev_eventId e = SYSTEM_WAKEUP)
           then count_event (ev_eventId e) e stats else stats)
       (drop (nat (FindBestIndex beginTime (pd_events p))) (pd_events p)) stats"

definition GetCachedNotificationEvents ::
    "period_stats \<Rightarrow> int \<Rightarrow> int \<Rightarrow> event_stats_map \<Rightarrow> event_stats_map" where
  "GetCachedNotificationEvents p beginTime endTime stats =
     fold (\<lambda>e stats. if ev_timeStamp e \<le> endTime \<and> ev_eventId e = NOTIFICATION_SEEN
           then count_event NOTIFICATION_SEEN e stats else stats)
       (drop (nat (FindBestIndex beginTime (pd_events p))) (pd_events p)) stats"

definition UserService_QueryDeviceEventStats ::
    "'d usage_db \<Rightarrow> int \<Rightarrow> int \<Rightarrow> int \<Rightarrow> 'd user_service \<Rightarrow>
     (errcode + event_stats list) \<times> 'd user_service" where
  "UserService_QueryDeviceEventStats D beginTime endTime userId s =
     (case us_period s 0 of
        None \<Rightarrow> (Inl ERR_MEMORY_OPERATION_FAILED, s)
      | Some p \<Rightarrow>
          if beginTime \<ge> pd_endTime p then (Inl ERR_TIME_OPERATION_FAILED, s)
          else
            let (stats, d) = fold (\<lambda>eventId (m, d). ud_QueryDeviceEventStats D eventId beginTime endTime m userId d)
                  [SYSTEM_LOCK, SYSTEM_UNLOCK, SYSTEM_SLEEP, SYSTEM_WAKEUP] ([], us_database s);
                stats' = (if pd_endTime p \<noteq> 0 \<and> endTime > pd_beginTime p
                  then GetCachedSystemEvents p beginTime endTime stats else stats)
            in (Inr (map snd stats'), s \<lparr> us_database := d \<rparr>))"

definition UserService_QueryNotificationEventStats ::
    "'d usage_db \<Rightarrow> int \<Rightarrow> int \<Rightarrow> int \<Rightarrow> 'd user_service \<Rightarrow>
     (errcode + event_stats list) \<times> 'd user_service" where
  "UserService_QueryNotificationEventStats D beginTime endTime userId s =
     (case us_period s 0 of
        None \<Rightarrow> (Inl ERR_MEMORY_OPERATION_FAILED, s)
      | Some p \<Rightarrow>
          if beginTime \<ge> pd_endTime p then (Inl ERR_TIME_OPERATION_FAILED, s)
          else
            let (stats, d) = ud_QueryNotificationEventStats D NOTIFICATION_SEEN beginTime endTime [] userId (us_database s);
                stats' = (if pd_endTime p \<noteq> 0 \<and> endTime > pd_beginTime p
                  then GetCachedNotificationEvents p beginTime endTime stats else stats)
            in (Inr (map snd stats'), s \<lparr> us_database := d \<rparr>))"

section \<open>The invariant\<close>

definition UserService_inv :: "'d user_service \<Rightarrow> bool" where
  "UserService_inv s \<longleftrightarrow> uidmap_inv (us_uids s) \<and>
     (\<forall>p. Some p \<in> set (us_currentStats s) \<longrightarrow> PeriodStats_inv (p, us_uids s))"

text \<open>Operations on a period that keep its invariant and forget no uid.\<close>

definition keeps :: "(period_stats \<times> uidmap \<Rightarrow> period_stats \<times> uidmap) \<Rightarrow> bool" where
  "keeps f \<longleftrightarrow> (\<forall>pu. PeriodStats_inv pu \<longrightarrow> PeriodStats_inv (f pu) \<and> uid_rel (snd pu) \<subseteq> uid_rel (snd (f pu)))"

lemma keepsD: "keeps f \<Longrightarrow> PeriodStats_inv pu \<Longrightarrow> PeriodStats_inv (f pu) \<and> uid_rel (snd pu) \<subseteq> uid_rel (snd (f pu))"
  unfolding keeps_def by blast

lemma keeps_id: "keeps (\<lambda>pu. pu)"
  by (simp add: keeps_def)

lemma keeps_comp:
  assumes f: "keeps f" and g: "keeps g"
  shows "keeps (\<lambda>pu. g (f pu))"
proof (unfold keeps_def, intro allI impI)
  fix pu :: "period_stats \<times> uidmap"
  assume "PeriodStats_inv pu"
  note 1 = keepsD [OF f this]
  note 2 = keepsD [OF g conjunct1 [OF 1]]
  show "PeriodStats_inv (g (f pu)) \<and> uid_rel (snd pu) \<subseteq> uid_rel (snd (g (f pu)))"
    using conjunct1 [OF 2] subset_trans [OF conjunct2 [OF 1] conjunct2 [OF 2]] by (rule conjI)
qed

lemma keeps_fold: "(\<And>x. x \<in> set xs \<Longrightarrow> keeps (f x)) \<Longrightarrow> keeps (fold f xs)"
proof (induction xs)
  case (Cons x xs)
  have "keeps (\<lambda>pu. fold f xs (f x pu))"
    by (rule keeps_comp [of "f x" "fold f xs"]) (simp_all add: Cons)
  then show ?case by (simp add: comp_def)
qed (simp add: keeps_def)

lemma keeps_if: "keeps f \<Longrightarrow> keeps g \<Longrightarrow> keeps (\<lambda>pu. if b then f pu else g pu)"
  by (cases b) simp_all

lemma PeriodStats_Update_uids: "uid_rel um \<subseteq> uid_rel (snd (PeriodStats_Update bn n t e a u (p, um)))"
  by (cases rule: GetOrCreate_cases [of p bn u um]; cases "e = SHUTDOWN \<or> e = FLUSH"; cases "IsBundleEvent e")
    (simp_all add: PeriodStats_Update_def Let_def subset_insertI)

lemma keeps_Update: "keeps (PeriodStats_Update bn n t e a u)"
  unfolding keeps_def split_paired_all using PeriodStats_Update_inv PeriodStats_Update_uids by simp

lemma keeps_local:
  "(\<And>p um. PeriodStats_inv (p, um) \<Longrightarrow> PeriodStats_inv (f p, um)) \<Longrightarrow> keeps (\<lambda>(p, um). (f p, um))"
  by (auto simp: keeps_def)

lemma keeps_AddEvent: "keeps (\<lambda>(p, um). (PeriodStats_AddEvent e p, um))"
  by (rule keeps_local) (rule PeriodStats_AddEvent_inv)

lemma keeps_CommitTime: "keeps (\<lambda>(p, um). (PeriodStats_CommitTime t p, um))"
  by (rule keeps_local) simp

lemma keeps_ClearEvents: "keeps (\<lambda>(p, um). (p \<lparr> pd_events := EventList_Clear (pd_events p) \<rparr>, um))"
  by (rule keeps_local) (auto simp: PeriodStats_inv_def EventList_Clear_def)

lemma keeps_update_period_stats: "keeps (update_period_stats ev launch)"
proof -
  let ?u = "PeriodStats_Update (ev_bundleName ev) (ev_continuousTaskAbilityName ev) (ev_timeStamp ev)
              (ev_eventId ev) (ev_abilityId ev) (ev_uid ev)"
  let ?launch = "\<lambda>pu. case om_find (pd_bundleStats (fst pu)) (GetBundleUsageKey (ev_bundleName ev) (ev_uid ev)) of
      None \<Rightarrow> pu
    | Some st \<Rightarrow> ((fst pu) \<lparr> pd_bundleStats := om_insert (GetBundleUsageKey (ev_bundleName ev) (ev_uid ev))
        (IncrementBundleLaunchedCount st) (pd_bundleStats (fst pu)) \<rparr>, snd pu)"
  have "keeps ?launch"
  proof -
    have "PeriodStats_inv ((fst pu) \<lparr> pd_bundleStats := om_insert k (IncrementBundleLaunchedCount st)
        (pd_bundleStats (fst pu)) \<rparr>, snd pu)"
      if "PeriodStats_inv pu" "om_find (pd_bundleStats (fst pu)) k = Some st" for k st and pu :: "period_stats \<times> uidmap"
      using inv_put_record [of "fst pu" "snd pu" k st] that record_inv [of "fst pu" "snd pu" k st]
      by (simp add: IncrementBundleLaunchedCount_def PackageStats_inv_def)
    then show ?thesis
      by (auto simp: keeps_def split: option.splits)
  qed
  from keeps_comp [OF keeps_Update this]
  have l: "keeps (\<lambda>pu. ?launch (?u pu))" .
  have eq: "update_period_stats ev launch pu =
     (if ev_eventId ev = SCREEN_INTERACTIVE then (UpdateScreenInteractive (ev_timeStamp ev) (fst pu), snd pu)
      else if ev_eventId ev = SCREEN_NON_INTERACTIVE then (UpdateScreenNonInteractive (ev_timeStamp ev) (fst pu), snd pu)
      else if ev_eventId ev = KEYGUARD_SHOWN then (UpdateKeyguardShown (ev_timeStamp ev) (fst pu), snd pu)
      else if ev_eventId ev = KEYGUARD_HIDDEN then (UpdateKeyguardHidden (ev_timeStamp ev) (fst pu), snd pu)
      else if launch then ?launch (?u pu) else ?u pu)" for pu
    by (simp add: update_period_stats_def Let_def GetBundleUsageKey_def split: prod.splits option.splits)
  show ?thesis
    using l keeps_Update [of "ev_bundleName ev" "ev_continuousTaskAbilityName ev" "ev_timeStamp ev"
        "ev_eventId ev" "ev_abilityId ev" "ev_uid ev"]
    by (simp add: keeps_def eq)
qed

lemma keeps_ContinueAbilities: "keeps (UpdateContinueAbilitiesMemory b m bn us)"
proof (induction us)
  case (Cons u us)
  have f: "keeps (\<lambda>pu. if snd it = ABILITY_BACKGROUND then pu
      else PeriodStats_Update bn '''' b (snd it) (fst it) u pu)" for it
    using keeps_id keeps_Update by (rule keeps_if)
  show ?case
    using keeps_comp [OF keeps_fold [OF f] Cons] keeps_id
    by (cases "om_find m (GetBundleUsageKey bn u)") (simp_all add: keeps_def)
qed (simp add: keeps_def)

lemma keeps_ContinueServices: "keeps (UpdateContinueServicesMemory b m bn us)"
proof (induction us)
  case (Cons u us)
  have f: "keeps (\<lambda>pu. PeriodStats_Update bn (fst it) b (snd it) '''' u pu)" for it
    by (rule keeps_Update)
  show ?case
    using keeps_comp [OF keeps_fold [OF f] Cons] keeps_id
    by (cases "om_find m (GetBundleUsageKey bn u)") (simp_all add: keeps_def)
qed (simp add: keeps_def)

lemma PeriodStats_inv_mono:
  "PeriodStats_inv (p, um) \<Longrightarrow> uidmap_inv um' \<Longrightarrow> uid_rel um \<subseteq> uid_rel um' \<Longrightarrow> PeriodStats_inv (p, um')"
  by (fastforce simp: PeriodStats_inv_def)

lemma UserService_inv_period:
  "UserService_inv s \<Longrightarrow> us_period s i = Some p \<Longrightarrow> PeriodStats_inv (p, us_uids s)"
  by (auto simp: UserService_inv_def us_period_def split: if_splits dest: nth_mem)

lemma UserService_inv_put:
  assumes "UserService_inv s" "PeriodStats_inv (p, um)" "uid_rel (us_uids s) \<subseteq> uid_rel um"
  shows "UserService_inv (s \<lparr> us_currentStats := (us_currentStats s)[i := Some p], us_uids := um \<rparr>)"
  using assms PeriodStats_inv_mono [of _ "us_uids s" um]
  by (auto simp: UserService_inv_def PeriodStats_inv_def [of "(p, um)"] dest!: set_update_subset_insert [THEN subsetD])

lemma on_period_inv: "keeps f \<Longrightarrow> UserService_inv s \<Longrightarrow> UserService_inv (on_period i f s)"
proof -
  assume f: "keeps f" and s: "UserService_inv s"
  show ?thesis
  proof (cases "us_period s i")
    case (Some p)
    obtain p' um where e: "f (p, us_uids s) = (p', um)" by fastforce
    have "PeriodStats_inv (p', um)" "uid_rel (us_uids s) \<subseteq> uid_rel um"
      using keepsD [OF f UserService_inv_period [OF s Some]] e by simp_all
    then show ?thesis
      using UserService_inv_put [OF s] Some e by (simp add: on_period_def)
  qed (use s in \<open>simp add: on_period_def\<close>)
qed

lemma fold_inv: "(\<And>x s. P s \<Longrightarrow> P (f x s)) \<Longrightarrow> P s \<Longrightarrow> P (fold f xs s)"
  by (induction xs arbitrary: s) auto

lemma each_period_inv: "keeps f \<Longrightarrow> UserService_inv s \<Longrightarrow> UserService_inv (each_period f s)"
  unfolding each_period_def by (rule fold_inv) (rule on_period_inv)

lemma UserService_inv_fields [simp]:
  "UserService_inv (s \<lparr> us_statsChanged := b \<rparr>) = UserService_inv s"
  "UserService_inv (s \<lparr> us_notices := n \<rparr>) = UserService_inv s"
  "UserService_inv (s \<lparr> us_database := d \<rparr>) = UserService_inv s"
  "UserService_inv (s \<lparr> us_dailyExpiryDate := c \<rparr>) = UserService_inv s"
  "UserService_inv (s \<lparr> us_moduleRecords := m \<rparr>) = UserService_inv s"
  "UserService_inv (s \<lparr> us_lastForegroundBundle := l \<rparr>) = UserService_inv s"
  by (simp_all add: UserService_inv_def)

lemma NotifyStatsChanged_inv [simp]: "UserService_inv (NotifyStatsChanged s) = UserService_inv s"
  by (simp add: NotifyStatsChanged_def UserService_inv_def)

lemma PeriodStats_inv_saved [simp]: "PeriodStats_inv (p \<lparr> pd_lastTimeSaved := t \<rparr>, um) = PeriodStats_inv (p, um)"
  by (simp add: PeriodStats_inv_def)

lemma PeriodStats_inv_fresh:
  "uidmap_inv um \<Longrightarrow> PeriodStats_inv (PeriodStats_default \<lparr> pd_userId := u, pd_beginTime := b, pd_endTime := e \<rparr>, um)"
  by (simp add: PeriodStats_inv_def PeriodStats_default_def)

lemma PeriodStats_inv_times:
  "PeriodStats_inv (p, um) \<Longrightarrow> pd_events p = [] \<Longrightarrow> PeriodStats_inv (p \<lparr> pd_beginTime := b, pd_endTime := e \<rparr>, um)"
  by (simp add: PeriodStats_inv_def)

lemma each_step_comp: "(\<And>cs. P (snd cs) \<Longrightarrow> P (snd (f cs))) \<Longrightarrow> P (snd cs) \<Longrightarrow> P (snd (f cs))"
  by blast

lemma flush_record_inv: "UserService_inv (snd cs) \<Longrightarrow> UserService_inv (snd (flush_record i key cs))"
  by (cases cs) (auto simp: flush_record_def Let_def on_period_inv keeps_Update split: option.splits)

lemma flush_period_inv: "UserService_inv (snd cs) \<Longrightarrow> UserService_inv (snd (flush_period i cs))"
proof -
  assume s: "UserService_inv (snd cs)"
  have "UserService_inv (snd (fold (flush_record i) ks cs))" for ks
    using fold_inv [of "\<lambda>cs. UserService_inv (snd cs)" "flush_record i" cs ks] flush_record_inv s by blast
  then show ?thesis
    using s by (auto simp: flush_period_def on_period_inv keeps_CommitTime split: option.splits prod.splits)
      (metis snd_conv on_period_inv keeps_CommitTime)
qed

lemma FlushDataInMem_inv: "UserService_inv s \<Longrightarrow> UserService_inv (snd (FlushDataInMem s))"
  unfolding FlushDataInMem_def
  using fold_inv [of "\<lambda>cs. UserService_inv (snd cs)" flush_period] flush_period_inv by (metis snd_conv)

lemma keeps_continue:
  "keeps (\<lambda>(p, um).
     let (p1, um1) = UpdateContinueAbilitiesMemory b (ct_abilities c) bn (GetPackageUidSet bn um) (p, um)
     in UpdateContinueServicesMemory b (ct_services c) bn (GetPackageUidSet bn um1) (p1, um1))"
proof -
  have "keeps (\<lambda>pu. UpdateContinueAbilitiesMemory b (ct_abilities c) bn (GetPackageUidSet bn (snd pu)) pu)"
    using keepsD [OF keeps_ContinueAbilities] by (simp add: keeps_def)
  moreover have "keeps (\<lambda>pu. UpdateContinueServicesMemory b (ct_services c) bn (GetPackageUidSet bn (snd pu)) pu)"
    using keepsD [OF keeps_ContinueServices] by (simp add: keeps_def)
  ultimately show ?thesis
    using keeps_comp [of "\<lambda>pu. UpdateContinueAbilitiesMemory b (ct_abilities c) bn (GetPackageUidSet bn (snd pu)) pu"
        "\<lambda>pu. UpdateContinueServicesMemory b (ct_services c) bn (GetPackageUidSet bn (snd pu)) pu"]
    by (simp add: case_prod_beta' case_prod_beta Let_def)
qed

lemma continue_bundle_inv: "UserService_inv s \<Longrightarrow> UserService_inv (continue_bundle c bn s)"
  unfolding continue_bundle_def Let_def by (rule each_period_inv [OF keeps_continue [unfolded Let_def]])

section \<open>The database as an interface\<close>

text \<open>What the service relies on: a period read from the database has no events, satisfies the
invariant of periods, and its uids have been registered; saving a period changes only the time of
saving.\<close>

locale usage_store =
  fixes D :: "'d usage_db"
  assumes load_ok: "uidmap_inv um \<Longrightarrow> ud_GetCurrentUsageData D i u (um, d) = (r, um', d') \<Longrightarrow>
      uidmap_inv um' \<and> uid_rel um \<subseteq> uid_rel um' \<and>
      (\<forall>p. r = Some p \<longrightarrow> PeriodStats_inv (p, um') \<and> pd_events p = [])"
    and save_ok: "\<exists>t. fst (ud_UpdateBundleUsageData D i p d) = p \<lparr> pd_lastTimeSaved := t \<rparr>"
begin

lemma save_period_inv: "UserService_inv s \<Longrightarrow> UserService_inv (save_period D i s)"
proof (cases "us_period s i")
  case (Some p)
  assume s: "UserService_inv s"
  obtain p1 d1 where e: "(if pd_bundleStats p \<noteq> [] then ud_UpdateBundleUsageData D (int i) p (us_database s)
      else (p, us_database s)) = (p1, d1)" by (metis prod.collapse)
  have "PeriodStats_inv (p1, us_uids s)"
    using save_ok [of "int i" p "us_database s"] UserService_inv_period [OF s Some] e
    by (auto split: if_splits)
  then have "UserService_inv (s \<lparr> us_currentStats := (us_currentStats s)[i := Some p1], us_uids := us_uids s \<rparr>)"
    using UserService_inv_put [OF s] by blast
  then show ?thesis
    using Some e by (simp add: save_period_def UserService_inv_def)
qed (simp add: save_period_def)

lemma RestoreStats_inv: "UserService_inv s \<Longrightarrow> UserService_inv (RestoreStats D forced s)"
  using fold_inv [of UserService_inv "save_period D" s] save_period_inv
  by (simp add: RestoreStats_def Let_def on_period_inv keeps_ClearEvents)

lemma load_period_inv: "UserService_inv s \<Longrightarrow> UserService_inv (load_period D z t force i s)"
proof -
  assume s: "UserService_inv s"
  obtain r um d where g: "ud_GetCurrentUsageData D (int i) (us_userId s) (us_uids s, us_database s) = (r, um, d)"
    by (metis prod_cases3)
  have l: "uidmap_inv um" "uid_rel (us_uids s) \<subseteq> uid_rel um"
    "\<And>p. r = Some p \<Longrightarrow> PeriodStats_inv (p, um) \<and> pd_events p = []"
    using load_ok [OF _ g] s by (auto simp: UserService_inv_def)
  have put: "UserService_inv (s \<lparr> us_uids := um, us_database := d,
      us_currentStats := (us_currentStats s)[i := Some q] \<rparr>)" if "PeriodStats_inv (q, um)" for q
    using UserService_inv_put [OF s that l(2), of i] by (simp add: UserService_inv_def)
  show ?thesis
    using s l put PeriodStats_inv_fresh [OF l(1)] PeriodStats_inv_times [of _ um]
    by (simp add: load_period_def Let_def g split: option.splits)
qed

lemma LoadActiveStats_inv: "UserService_inv s \<Longrightarrow> UserService_inv (LoadActiveStats D z t force changed s)"
  using fold_inv [of UserService_inv "load_period D z t force" s] load_period_inv
  by (simp add: LoadActiveStats_def Let_def UpdateExpiryDate_def)

lemma RenewStatsInMemory_inv: "UserService_inv s \<Longrightarrow> UserService_inv (RenewStatsInMemory D z t s)"
proof -
  assume s: "UserService_inv s"
  obtain c s1 where f: "FlushDataInMem s = (c, s1)" by fastforce
  have "UserService_inv s1"
    using FlushDataInMem_inv [OF s] f by simp
  then have l: "UserService_inv (LoadActiveStats D z t False False
      ((RestoreStats D True s1) \<lparr> us_database := ud_RemoveOldData D t (us_database (RestoreStats D True s1)) \<rparr>))"
    by (intro LoadActiveStats_inv) (simp add: RestoreStats_inv)
  have "UserService_inv (fold (continue_bundle c) (ct_bundles c) s2)" if "UserService_inv s2" for s2 :: "'d user_service"
    using that continue_bundle_inv by (rule fold_inv [rotated])
  from RestoreStats_inv [OF this [OF l]] show ?thesis
    by (simp add: RenewStatsInMemory_def f Let_def)
qed

lemma ReportEvent_inv: "UserService_inv s \<Longrightarrow> UserService_inv (UserService_ReportEvent D z ev s)"
  by (simp add: UserService_ReportEvent_def UpdatePeriodStats_def Let_def RenewStatsInMemory_inv on_period_inv
      keeps_AddEvent each_period_inv keeps_update_period_stats)

lemma ReportForShutdown_inv: "UserService_inv s \<Longrightarrow> UserService_inv (ReportForShutdown D z ev s)"
  by (simp add: ReportForShutdown_def Let_def RenewStatsInMemory_inv on_period_inv keeps_AddEvent
      each_period_inv keeps_Update)

lemma Init_inv: "UserService_inv s \<Longrightarrow> UserService_inv (UserService_Init D z t s)"
  by (simp add: UserService_Init_def LoadModuleAndFormStats_def Let_def case_prod_beta on_period_inv keeps_AddEvent
      LoadActiveStats_inv)

end

section \<open>Removing keeps the invariant\<close>

lemma om_erase_fold_set: "set (fold (\<lambda>u. om_erase (f u)) us m) = {x \<in> set m. fst x \<notin> f ` set us}"
  by (induction us arbitrary: m) (auto simp: om_erase_def)

lemma om_erase_fold_wf: "om_wf m \<Longrightarrow> om_wf (fold (\<lambda>u. om_erase (f u)) us m)"
  by (induction us arbitrary: m) auto

text \<open>What uninstalling leaves in one period: the records of the other keys.\<close>

definition erased_keys :: "string \<Rightarrow> int \<Rightarrow> int \<Rightarrow> uidmap \<Rightarrow> string set" where
  "erased_keys bn uid appIndex um =
     (if appIndex \<noteq> 0 then {GetBundleUsageKey bn uid} else GetBundleUsageKey bn ` set (GetPackageUidSet bn um))"

definition erased_uids :: "string \<Rightarrow> int \<Rightarrow> int \<Rightarrow> uidmap \<Rightarrow> int set" where
  "erased_uids bn uid appIndex um = (if appIndex \<noteq> 0 then {uid} else set (GetPackageUidSet bn um))"

definition delete_in_period :: "string \<Rightarrow> int \<Rightarrow> int \<Rightarrow> uidmap \<Rightarrow> period_stats \<Rightarrow> period_stats" where
  "delete_in_period bn uid appIndex um p =
     fst (DeleteMemEvent bn uid appIndex (DeleteMemUsageStats bn uid appIndex (p, um)))"

lemma delete_in_period_eq:
  "DeleteMemEvent bn uid appIndex (DeleteMemUsageStats bn uid appIndex (p, um)) =
     (delete_in_period bn uid appIndex um p, um)"
  by (simp add: delete_in_period_def DeleteMemEvent_def DeleteMemUsageStats_def Let_def)

lemma delete_in_period_records:
  "set (pd_bundleStats (delete_in_period bn uid appIndex um p)) =
     {x \<in> set (pd_bundleStats p). fst x \<notin> erased_keys bn uid appIndex um}"
  by (auto simp: delete_in_period_def DeleteMemEvent_def DeleteMemUsageStats_def Let_def erased_keys_def
      om_erase_fold_set om_erase_def map_of_eq_None_iff image_iff split: if_splits)

lemma delete_in_period_events:
  "pd_events (delete_in_period bn uid appIndex um p) =
     filter (\<lambda>e. \<not> (ev_bundleName e = bn \<and> ev_uid e \<in> erased_uids bn uid appIndex um)) (pd_events p)"
  by (simp add: delete_in_period_def DeleteMemEvent_def DeleteMemUsageStats_def Let_def erased_uids_def)

lemma delete_in_period_rest:
  "om_wf (pd_bundleStats p) \<Longrightarrow> om_wf (pd_bundleStats (delete_in_period bn uid appIndex um p))"
  "pd_endTime (delete_in_period bn uid appIndex um p) = pd_endTime p"
  "pd_packetNamesCache (delete_in_period bn uid appIndex um p) = pd_packetNamesCache p"
  by (auto simp: delete_in_period_def DeleteMemEvent_def DeleteMemUsageStats_def Let_def om_erase_fold_wf)

lemma sorted_filter_events: "ev_sorted es \<Longrightarrow> ev_sorted (filter P es)"
  by (rule sorted_filter)

lemma erased_key_iff:
  "(bn', u') \<in> uid_rel um \<Longrightarrow> GetBundleUsageKey bn' u' \<notin> erased_keys bn uid appIndex um \<Longrightarrow>
   (bn', u') \<in> uid_rel (DeleteMemPackageUidSet bn uid appIndex um)"
  by (auto simp: erased_keys_def DeleteMemPackageUidSet_def GetPackageUidSet_rel)

lemma DeleteMemPackageUidSet_ok: "uidmap_inv um \<Longrightarrow> uidmap_inv (DeleteMemPackageUidSet bn uid appIndex um)"
  by (simp add: DeleteMemPackageUidSet_def)

lemma delete_in_period_inv:
  assumes "PeriodStats_inv (p, um)"
  shows "PeriodStats_inv (delete_in_period bn uid appIndex um p, DeleteMemPackageUidSet bn uid appIndex um)"
  using assms erased_key_iff [of _ _ um bn uid appIndex]
  by (fastforce simp: PeriodStats_inv_def delete_in_period_records delete_in_period_events delete_in_period_rest
      sorted_filter_events DeleteMemPackageUidSet_ok)

text \<open>An operation that does not touch the registry acts on the periods as a map.\<close>

lemma each_period_map:
  assumes "\<And>p. f (p, us_uids s) = (g p, us_uids s)"
  shows "each_period f s = s \<lparr> us_currentStats := map (map_option g) (us_currentStats s) \<rparr>"
proof -
  have step: "fold (\<lambda>i. on_period i f) [0..<n] s =
      s \<lparr> us_currentStats := map (map_option g) (take n (us_currentStats s)) @ drop n (us_currentStats s) \<rparr>"
    if "n \<le> length (us_currentStats s)" for n
    using that
  proof (induction n)
    case (Suc n)
    let ?l = "us_currentStats s"
    let ?s = "s \<lparr> us_currentStats := map (map_option g) (take n ?l) @ drop n ?l \<rparr>"
    have n: "n < length ?l" using Suc.prems by simp
    have i: "us_period ?s n = ?l ! n"
      using n by (simp add: us_period_def nth_append)
    have d: "drop n ?l = ?l ! n # drop (Suc n) ?l"
      using n by (rule Cons_nth_drop_Suc [symmetric])
    have "on_period n f ?s =
        s \<lparr> us_currentStats := map (map_option g) (take (Suc n) ?l) @ drop (Suc n) ?l \<rparr>"
      using n i assms by (cases "?l ! n")
        (simp_all add: on_period_def d take_Suc_conv_app_nth list_update_append)
    then show ?case
      using Suc by simp
  qed simp
  then show ?thesis
    by (simp add: each_period_def)
qed

lemma DeleteUninstalled_periods:
  "us_currentStats (DeleteUninstalledBundleStats D bn uid appIndex s) =
     map (map_option (delete_in_period bn uid appIndex (us_uids s))) (us_currentStats s) \<and>
   us_uids (DeleteUninstalledBundleStats D bn uid appIndex s) = DeleteMemPackageUidSet bn uid appIndex (us_uids s)"
  using each_period_map [of "\<lambda>pu. DeleteMemEvent bn uid appIndex (DeleteMemUsageStats bn uid appIndex pu)" s]
  by (simp add: DeleteUninstalledBundleStats_def Let_def delete_in_period_eq)

lemma DeleteUninstalled_inv:
  assumes "UserService_inv s"
  shows "UserService_inv (DeleteUninstalledBundleStats D bn uid appIndex s)"
  using assms delete_in_period_inv [of _ "us_uids s" bn uid appIndex]
    DeleteMemPackageUidSet_ok [of "us_uids s" bn uid appIndex]
    DeleteUninstalled_periods [of D bn uid appIndex s]
  unfolding UserService_inv_def by (auto simp: eq_commute [of "Some _"])

section \<open>A database for the witnesses\<close>

text \<open>It stores nothing and answers every query with nothing.\<close>

definition blank_usage_db :: "unit usage_db" where
  "blank_usage_db = \<lparr> ud_ChangeToDebug = id, ud_InitDatabaseTableInfo = (\<lambda>t. id),
     ud_InitUsageGroupDatabase = (\<lambda>i b. id), ud_UpdateBundleUsageData = (\<lambda>i p d. (p, d)),
     ud_UpdateEventData = (\<lambda>i p. id), ud_UpdateModuleData = (\<lambda>u m t. id),
     ud_GetCurrentUsageData = (\<lambda>i u (um, d). (None, um, d)), ud_RenewTableTime = (\<lambda>t. id),
     ud_GetOptimalIntervalType = (\<lambda>b e d. - 1), ud_RemoveOldData = (\<lambda>t. id),
     ud_QueryDatabaseUsageStats = (\<lambda>i b e u n d. ([], d)), ud_QueryDatabaseEvents = (\<lambda>b e u n d. ([], d)),
     ud_OnPackageUninstalled = (\<lambda>u n i a. id), ud_RemoveFormData = (\<lambda>u b m f d i x. id),
     ud_LoadModuleData = (\<lambda>u m d. (m, d)), ud_LoadFormData = (\<lambda>u m d. (m, d)),
     ud_QueryDeviceEventStats = (\<lambda>i b e m u d. (m, d)), ud_QueryNotificationEventStats = (\<lambda>i b e m u d. (m, d)),
     ud_DeleteExcessiveEventTableData = (\<lambda>t. id) \<rparr>"

lemma saved_self: "p = p \<lparr> pd_lastTimeSaved := pd_lastTimeSaved p \<rparr>"
  by (cases p) simp

interpretation blank: usage_store blank_usage_db
  by unfold_locales (auto simp: blank_usage_db_def intro: exI saved_self)

definition utc_zero :: tz where
  "utc_zero = \<lparr> tz_localtime = (\<lambda>t. None), tz_mktime = (\<lambda>t. 0) \<rparr>"

definition demo_service :: "unit user_service" where
  "demo_service = UserService_Init blank_usage_db utc_zero 5000 (UserService_new blank_usage_db 100 False () [])"

lemma UserService_new_inv: "uidmap_inv um \<Longrightarrow> UserService_inv (UserService_new D u b d um)"
  by (auto simp: UserService_inv_def UserService_new_def)

section \<open>Properties\<close>





lemma drop_first_at_filter:
  assumes "ev_sorted es"
  shows "drop (nat (FindBestIndex b es)) es = filter (\<lambda>x. b \<le> ev_timeStamp x) es"
proof -
  have "dropWhile (\<lambda>x. ev_timeStamp x < b) l = filter (\<lambda>x. b \<le> ev_timeStamp x) l" if "ev_sorted l" for l :: "event list"
    using that
  proof (induction l)
    case (Cons x l)
    then show ?case
      by (auto intro!: filter_True [symmetric])
  qed simp
  then show ?thesis
    using el.first_at_split [of es b] assms by simp
qed

text \<open>C31: A query of events answers exactly the database's answer followed by the logged events in the
asked interval and of the asked bundle, in time order. It is refused when it begins at or after the
end of the current day's statistics, and the memory is left out when the interval ends before them.\<close>

theorem query_events_exact:
  assumes "us_period s 0 = Some p" "ev_sorted (pd_events p)" "pd_endTime p \<noteq> 0"
  shows "fst (UserService_QueryBundleEvents D b e userId bn s) =
    (if b \<ge> pd_endTime p then Inl ERR_QUERY_TIME_OUT_OF_RANGE
     else Inr (fst (ud_QueryDatabaseEvents D b e userId bn (us_database s)) @
       (if e > pd_beginTime p
        then filter (\<lambda>x. b \<le> ev_timeStamp x \<and> ev_timeStamp x \<le> e \<and> (bn = '''' \<or> ev_bundleName x = bn)) (pd_events p)
        else [])))"
  using assms drop_first_at_filter [OF assms(2), of b]
  by (auto simp: UserService_QueryBundleEvents_def Let_def case_prod_beta map_idI conj_ac intro!: filter_cong)

text \<open>The counts of \<open>count_event\<close> add up.\<close>

definition es_count_of :: "string \<Rightarrow> event_stats_map \<Rightarrow> int" where
  "es_count_of n m = (case om_find m n of Some st \<Rightarrow> es_count st | None \<Rightarrow> 0)"

lemma count_event_count: "es_count_of n (count_event i e m) = es_count_of n m + (if ev_bundleName e = n then 1 else 0)"
  by (auto simp: es_count_of_def count_event_def split: option.splits)

lemma count_fold:
  "es_count_of n (fold (\<lambda>e m. if P e then count_event (f e) e m else m) es m) =
   es_count_of n m + int (length (filter (\<lambda>e. P e \<and> ev_bundleName e = n) es))"
  by (induction es arbitrary: m) (auto simp: count_event_count)

text \<open>Counting the cached events adds up. For every name, the count answered is the count the
database gave plus the number of logged events of that name in the interval that are lock, unlock,
sleep or wake-up events (for notifications: that are seen notifications).\<close>

theorem cached_counts_add_up:
  assumes "ev_sorted (pd_events p)"
  shows "es_count_of n (GetCachedSystemEvents p b e m) = es_count_of n m +
      int (length (filter (\<lambda>x. b \<le> ev_timeStamp x \<and> ev_timeStamp x \<le> e \<and>
        ev_eventId x \<in> {SYSTEM_LOCK, SYSTEM_UNLOCK, SYSTEM_SLEEP, SYSTEM_WAKEUP} \<and> ev_bundleName x = n) (pd_events p))) \<and>
    es_count_of n (GetCachedNotificationEvents p b e m) = es_count_of n m +
      int (length (filter (\<lambda>x. b \<le> ev_timeStamp x \<and> ev_timeStamp x \<le> e \<and>
        ev_eventId x = NOTIFICATION_SEEN \<and> ev_bundleName x = n) (pd_events p)))"
  unfolding GetCachedSystemEvents_def GetCachedNotificationEvents_def count_fold
    drop_first_at_filter [OF assms] filter_filter
  by (auto intro!: arg_cong [where f = length] filter_cong)

theorem cached_counts_add_up_witness:
  "es_count_of ''n'' (GetCachedNotificationEvents (PeriodStats_AddEvent
     (Event_time NOTIFICATION_SEEN 5 \<lparr> ev_bundleName := ''n'' \<rparr>) (PeriodStats_new 100 0)) 0 9 []) = 1"
proof -
  let ?e = "Event_time NOTIFICATION_SEEN 5 \<lparr> ev_bundleName := ''n'' \<rparr>"
  let ?p = "PeriodStats_AddEvent ?e (PeriodStats_new 100 0)"
  have "pd_events ?p = [?e]"
    using PeriodStats_AddEvent_effect [of ?e "PeriodStats_new 100 0"]
    by (auto simp: PeriodStats_new_def EventList_Insert_def)
  then show ?thesis
    using cached_counts_add_up [of ?p "''n''" 0 9 "[]"] by (simp add: es_count_of_def Event_time_def)
qed

theorem query_events_exact_witness:
  "fst (UserService_QueryBundleEvents blank_usage_db 0 9 100 '''' ((UserService_new blank_usage_db 100 False () [])
     \<lparr> us_currentStats := [Some (PeriodStats_AddEvent (Event_time 13 5) (PeriodStats_new 100 0))] \<rparr>)) =
   Inr [Event_time 13 5]"
proof -
  let ?p = "PeriodStats_AddEvent (Event_time 13 5) (PeriodStats_new 100 0)"
  have p: "pd_events ?p = [Event_time 13 5]" "pd_endTime ?p = 5" "pd_beginTime ?p = 0"
    using PeriodStats_AddEvent_effect [of "Event_time 13 5" "PeriodStats_new 100 0"]
    by (auto simp: PeriodStats_new_def EventList_Insert_def Event_time_def)
  then show ?thesis
    using query_events_exact [of "(UserService_new blank_usage_db 100 False () []) \<lparr> us_currentStats := [Some ?p] \<rparr>"
        ?p blank_usage_db 0 9 100 "[]"]
    by (simp add: us_period_def UserService_new_def blank_usage_db_def Event_time_def)
qed

text \<open>A query of modules answers the most recently used ones: at most \<open>maxNum\<close> of them, in
falling order of their last use, and no module left out was used later than one answered.\<close>

theorem module_query_most_recent:
  assumes "0 \<le> maxNum"
  shows "let r = UserService_QueryModuleUsageRecords maxNum s in
    length r = min (nat maxNum) (length (us_moduleRecords s)) \<and>
    sorted_wrt (\<ge>) (map mr_lastModuleUsedTime r) \<and>
    (\<exists>rest. mset (map mr_lastModuleUsedTime r) + mset rest = mset (map (mr_lastModuleUsedTime \<circ> snd) (us_moduleRecords s)) \<and>
      (\<forall>x \<in> set rest. \<forall>y \<in> set r. x \<le> mr_lastModuleUsedTime y))"
proof -
  let ?all = "sort_key (\<lambda>r. - mr_lastModuleUsedTime r) (map snd (us_moduleRecords s))"
  let ?t = "map mr_lastModuleUsedTime ?all"
  let ?n = "nat maxNum"
  have "sorted (map (\<lambda>r. - mr_lastModuleUsedTime r) ?all)"
    by simp
  then have sorted: "sorted_wrt (\<ge>) ?t"
    by (simp add: sorted_wrt_map)
  have times: "map mr_lastModuleUsedTime (UserService_QueryModuleUsageRecords maxNum s) = take ?n ?t"
    using assms by (simp add: UserService_QueryModuleUsageRecords_def Let_def comp_def take_map)
  have mset: "mset (take ?n ?t) + mset (drop ?n ?t) = mset (map (mr_lastModuleUsedTime \<circ> snd) (us_moduleRecords s))"
  proof -
    have "mset (take ?n ?t) + mset (drop ?n ?t) = mset (take ?n ?t @ drop ?n ?t)"
      by (rule mset_append [symmetric])
    also have "\<dots> = mset ?t"
      by (simp only: append_take_drop_id)
    also have "\<dots> = image_mset mr_lastModuleUsedTime (mset (map snd (us_moduleRecords s)))"
      by (simp only: mset_map mset_sort)
    finally show ?thesis
      by (simp add: multiset.map_comp)
  qed
  have "sorted_wrt (\<ge>) (take ?n ?t @ drop ?n ?t)"
    using sorted by (simp only: append_take_drop_id)
  then have split: "sorted_wrt (\<ge>) (take ?n ?t)" "\<forall>x \<in> set (drop ?n ?t). \<forall>y \<in> set (take ?n ?t). x \<le> y"
    by (simp_all only: sorted_wrt_append) blast
  have len: "length (UserService_QueryModuleUsageRecords maxNum s) = min ?n (length (us_moduleRecords s))"
    using arg_cong [OF times, of length] by simp
  have "set (take ?n ?t) = mr_lastModuleUsedTime ` set (UserService_QueryModuleUsageRecords maxNum s)"
    by (metis times list.set_map)
  then have rest: "\<forall>x \<in> set (drop ?n ?t). \<forall>y \<in> set (UserService_QueryModuleUsageRecords maxNum s).
      x \<le> mr_lastModuleUsedTime y"
    using split(2) by (simp only: ball_simps)
  show ?thesis
    unfolding Let_def times using len split(1) mset rest by (intro conjI exI [of _ "drop ?n ?t"])
qed

theorem module_query_most_recent_witness:
  "length (UserService_QueryModuleUsageRecords 1 ((UserService_new blank_usage_db 100 False () [])
     \<lparr> us_moduleRecords := [(''a'', ModuleRecord_default), (''b'', ModuleRecord_default)] \<rparr>)) = 1"
  using module_query_most_recent [of 1 "(UserService_new blank_usage_db 100 False () [])
     \<lparr> us_moduleRecords := [(''a'', ModuleRecord_default), (''b'', ModuleRecord_default)] \<rparr>"]
  by (simp add: Let_def)

section \<open>Reporting: launches and the end of the day\<close>

lemma on_period_length [simp]: "length (us_currentStats (on_period i f s)) = length (us_currentStats s)"
  by (simp add: on_period_def split: option.splits prod.splits)

lemma on_period_at:
  "us_period (on_period j f s) i =
     (if i = j then map_option (\<lambda>p. fst (f (p, us_uids s))) (us_period s i) else us_period s i)"
  by (auto simp: on_period_def us_period_def split: option.splits prod.splits)

lemma each_period_at:
  "\<exists>um. us_period (each_period f s) i = map_option (\<lambda>p. fst (f (p, um))) (us_period s i)"
proof -
  have "\<exists>um. us_period (fold (\<lambda>j. on_period j f) [0..<n] s) i =
      (if i < n then map_option (\<lambda>p. fst (f (p, um))) (us_period s i) else us_period s i)" for n
  proof (induction n)
    case (Suc n)
    then obtain um where um: "us_period (fold (\<lambda>j. on_period j f) [0..<n] s) i =
        (if i < n then map_option (\<lambda>p. fst (f (p, um))) (us_period s i) else us_period s i)" by blast
    show ?case
    proof (cases "i = n")
      case True
      then show ?thesis
        using um by (intro exI [of _ "us_uids (fold (\<lambda>j. on_period j f) [0..<n] s)"]) (simp add: on_period_at)
    next
      case False
      then show ?thesis
        using um by (intro exI [of _ um]) (auto simp: on_period_at less_Suc_eq)
    qed
  qed simp
  from this [of "length (us_currentStats s)"] show ?thesis
    by (auto simp: each_period_def us_period_def split: if_splits)
qed

lemma each_period_fields [simp]:
  "us_lastForegroundBundle (each_period f s) = us_lastForegroundBundle s"
  "us_dailyExpiryDate (each_period f s) = us_dailyExpiryDate s"
  unfolding each_period_def
  by (rule fold_inv [of "\<lambda>s'. us_lastForegroundBundle s' = us_lastForegroundBundle s" "\<lambda>i. on_period i f" s]
      fold_inv [of "\<lambda>s'. us_dailyExpiryDate s' = us_dailyExpiryDate s" "\<lambda>i. on_period i f" s];
      simp add: on_period_def split: option.splits prod.splits)+

lemma on_period_fields [simp]:
  "us_lastForegroundBundle (on_period i f s) = us_lastForegroundBundle s"
  "us_dailyExpiryDate (on_period i f s) = us_dailyExpiryDate s"
  by (simp_all add: on_period_def split: option.splits prod.splits)

lemma NotifyStatsChanged_fields [simp]:
  "us_lastForegroundBundle (NotifyStatsChanged s) = us_lastForegroundBundle s"
  "us_dailyExpiryDate (NotifyStatsChanged s) = us_dailyExpiryDate s"
  "us_period (NotifyStatsChanged s) i = us_period s i"
  by (simp_all add: NotifyStatsChanged_def us_period_def)

lemma PackageStats_Update_launches [simp]:
  "pk_bundleStartedCount (PackageStats_Update n t e a u s) = pk_bundleStartedCount s"
  by (simp add: PackageStats_Update_def UpdateAbility_def UpdateLongTimeTask_def Update_running_def
      IncrementTimeUsed_def IncrementServiceTimeUsed_def Let_def split: option.splits)

definition launches :: "string \<Rightarrow> period_stats \<Rightarrow> int" where
  "launches k p = (case om_find (pd_bundleStats p) k of Some st \<Rightarrow> pk_bundleStartedCount st | None \<Rightarrow> 0)"

lemma launches_update:
  assumes "ev_eventId ev = ABILITY_FOREGROUND"
  shows "launches (GetBundleUsageKey (ev_bundleName ev) (ev_uid ev)) (fst (update_period_stats ev launch (p, um))) =
    launches (GetBundleUsageKey (ev_bundleName ev) (ev_uid ev)) p + (if launch then 1 else 0)"
proof -
  let ?k = "GetBundleUsageKey (ev_bundleName ev) (ev_uid ev)"
  have b: "IsBundleEvent ABILITY_FOREGROUND" by (simp add: IsBundleEvent_def)
  obtain p1 um1 where u: "PeriodStats_Update (ev_bundleName ev) (ev_continuousTaskAbilityName ev) (ev_timeStamp ev)
      ABILITY_FOREGROUND (ev_abilityId ev) (ev_uid ev) (p, um) = (p1, um1)" by fastforce
  have "om_find (pd_bundleStats p1) ?k = Some (PackageStats_Update (ev_continuousTaskAbilityName ev) (ev_timeStamp ev)
      ABILITY_FOREGROUND (ev_abilityId ev) (ev_uid ev) (case om_find (pd_bundleStats p) ?k of Some s \<Rightarrow> s
       | None \<Rightarrow> PackageStats_default \<lparr> pk_endTimeStamp := pd_endTime p, pk_bundleName := ev_bundleName ev,
           pk_uid := ev_uid ev \<rparr>))"
    using PeriodStats_Update_records [OF b, of "ev_bundleName ev" "ev_continuousTaskAbilityName ev" "ev_timeStamp ev"
        "ev_abilityId ev" "ev_uid ev" p um ?k] u by simp
  then show ?thesis
    using assms u
    by (simp add: update_period_stats_def launches_def Let_def GetBundleUsageKey_def [symmetric]
        IncrementBundleLaunchedCount_def PackageStats_default_def split: option.splits)
qed

lemma AddEvent_launches [simp]: "launches k (PeriodStats_AddEvent e p) = launches k p"
  using PeriodStats_AddEvent_effect [of e p] by (auto simp: launches_def)

text \<open>A launch is counted when the bundle in front changes. An ability of a named bundle coming
to the front before the day is over adds one launch to the bundle's record in every period when the
bundle differs from the one last in front, and none when it is the same; the bundle is then the one
last in front.\<close>

theorem launch_counted_on_switch:
  assumes "ev_eventId ev = ABILITY_FOREGROUND" "ev_bundleName ev \<noteq> ''''"
    and "ev_timeStamp ev < GetMilliseconds (us_dailyExpiryDate s)" "us_period s 0 \<noteq> None" "us_period s i = Some p"
  shows "\<exists>p'. us_period (UserService_ReportEvent D z ev s) i = Some p' \<and>
    launches (GetBundleUsageKey (ev_bundleName ev) (ev_uid ev)) p' =
      launches (GetBundleUsageKey (ev_bundleName ev) (ev_uid ev)) p +
        (if ev_bundleName ev = us_lastForegroundBundle s then 0 else 1) \<and>
    us_lastForegroundBundle (UserService_ReportEvent D z ev s) = ev_bundleName ev"
proof -
  let ?launch = "ev_bundleName ev \<noteq> us_lastForegroundBundle s"
  let ?s2 = "on_period 0 (\<lambda>(p, um). (PeriodStats_AddEvent ev p, um)) s"
  let ?s3 = "if ?launch then ?s2 \<lparr> us_lastForegroundBundle := ev_bundleName ev \<rparr> else ?s2"
  obtain p0 where "us_period s 0 = Some p0"
    using assms(4) by auto
  then have r: "UserService_ReportEvent D z ev s =
      NotifyStatsChanged (each_period (update_period_stats ev ?launch) ?s3)"
    using assms by (simp add: UserService_ReportEvent_def UpdatePeriodStats_def Let_def not_le [symmetric])
  have "us_period ?s3 i = us_period ?s2 i"
    by (simp add: us_period_def)
  then have p3: "us_period ?s3 i = Some (if i = 0 then PeriodStats_AddEvent ev p else p)"
    using assms(5) by (simp only: on_period_at) simp
  obtain um where "us_period (each_period (update_period_stats ev ?launch) ?s3) i =
      map_option (\<lambda>p. fst (update_period_stats ev ?launch (p, um))) (us_period ?s3 i)"
    using each_period_at by blast
  then have "us_period (UserService_ReportEvent D z ev s) i =
      Some (fst (update_period_stats ev ?launch (if i = 0 then PeriodStats_AddEvent ev p else p, um)))"
    by (simp only: r p3 NotifyStatsChanged_fields option.map)
  moreover have "us_lastForegroundBundle (UserService_ReportEvent D z ev s) = ev_bundleName ev"
    by (simp add: r)
  ultimately show ?thesis
    using launches_update [OF assms(1)] by (cases "i = 0") auto
qed

theorem launch_counted_on_switch_witness:
  "us_lastForegroundBundle (UserService_ReportEvent blank_usage_db utc_zero (Event_bundle 2 ''app'' 7)
     ((UserService_new blank_usage_db 100 False () [])
        \<lparr> us_currentStats := [Some (PeriodStats_new 100 0)], us_dailyExpiryDate := Calendar_new 9 \<rparr>)) = ''app''"
  using launch_counted_on_switch [of "Event_bundle 2 ''app'' 7" "(UserService_new blank_usage_db 100 False () [])
        \<lparr> us_currentStats := [Some (PeriodStats_new 100 0)], us_dailyExpiryDate := Calendar_new 9 \<rparr>" 0
      "PeriodStats_new 100 0" blank_usage_db utc_zero]
  by (auto simp: us_period_def Event_bundle_def GetMilliseconds_def Calendar_new_def)

lemma fold_fields: "(\<And>x s. g (f x s) = g s) \<Longrightarrow> g (fold f xs s) = g s"
  by (induction xs arbitrary: s) auto

lemma save_period_expiry [simp]: "us_dailyExpiryDate (save_period D i s) = us_dailyExpiryDate s"
  by (simp add: save_period_def split: option.splits prod.splits)

lemma RestoreStats_expiry [simp]: "us_dailyExpiryDate (RestoreStats D b s) = us_dailyExpiryDate s"
  using fold_fields [of us_dailyExpiryDate "save_period D" "[0..<length (us_currentStats s)]" s]
  by (simp add: RestoreStats_def Let_def)

lemma flush_record_expiry: "us_dailyExpiryDate (snd (flush_record i k cs)) = us_dailyExpiryDate (snd cs)"
  by (simp add: flush_record_def Let_def split: option.splits prod.splits)

lemma flush_period_expiry: "us_dailyExpiryDate (snd (flush_period i cs)) = us_dailyExpiryDate (snd cs)"
proof (cases "us_period (snd cs) i")
  case (Some p)
  have "us_dailyExpiryDate (snd (fold (flush_record i) ks cs)) = us_dailyExpiryDate (snd cs)" for ks
    by (rule fold_fields [of "\<lambda>cs. us_dailyExpiryDate (snd cs)"]) (rule flush_record_expiry)
  then show ?thesis
    using Some by (simp add: flush_period_def case_prod_beta)
qed (simp add: flush_period_def)

lemma FlushDataInMem_expiry: "us_dailyExpiryDate (snd (FlushDataInMem s)) = us_dailyExpiryDate s"
  unfolding FlushDataInMem_def
  by (subst fold_fields [of "\<lambda>cs. us_dailyExpiryDate (snd cs)"]) (simp_all add: flush_period_expiry)

lemma load_period_expiry [simp]: "us_dailyExpiryDate (load_period D z t f i s) = us_dailyExpiryDate s"
  by (simp add: load_period_def Let_def split: prod.splits)

lemma LoadActiveStats_expiry:
  "us_dailyExpiryDate (LoadActiveStats D z t f False s) =
     TruncateToDay z (IncreaseDays 1 (SetMilliseconds t (us_dailyExpiryDate s)))"
  using fold_fields [of us_dailyExpiryDate "load_period D z t f" "[0..<length (us_periodLength s)]" s]
  by (simp add: LoadActiveStats_def UpdateExpiryDate_def Let_def)

lemma RenewStats_expiry:
  "us_dailyExpiryDate (RenewStatsInMemory D z t s) =
     TruncateToDay z (IncreaseDays 1 (SetMilliseconds t (us_dailyExpiryDate s)))"
proof -
  obtain c s1 where f: "FlushDataInMem s = (c, s1)" by fastforce
  have "us_dailyExpiryDate (fold (continue_bundle c) bs s2) = us_dailyExpiryDate s2" for bs and s2 :: "'a user_service"
    by (rule fold_fields) (simp add: continue_bundle_def Let_def)
  then show ?thesis
    using FlushDataInMem_expiry [of s] f by (simp add: RenewStatsInMemory_def LoadActiveStats_expiry Let_def)
qed

lemma UpdatePeriodStats_expiry [simp]: "us_dailyExpiryDate (UpdatePeriodStats ev b s) = us_dailyExpiryDate s"
  by (simp add: UpdatePeriodStats_def Let_def)

text \<open>No event is reported on or after the end of the day. When the truncation of the next day lies
after the event (which the time zone gives on days of at most 24 hours), the end of the day lies after
the event once it has been reported, whether or not the report has rolled the statistics over.\<close>

theorem report_before_day_end:
  assumes "ev_timeStamp ev < GetMilliseconds (TruncateToDay z (IncreaseDays 1
    (SetMilliseconds (ev_timeStamp ev) (us_dailyExpiryDate s))))"
  shows "ev_timeStamp ev < GetMilliseconds (us_dailyExpiryDate (UserService_ReportEvent D z ev s))"
  using assms by (auto simp: UserService_ReportEvent_def RenewStats_expiry Let_def)

theorem report_before_day_end_witness:
  "5 < GetMilliseconds (us_dailyExpiryDate (UserService_ReportEvent blank_usage_db utc_zero (Event_time 13 5)
     (UserService_new blank_usage_db 100 False () [])))"
  using report_before_day_end [of "Event_time 13 5" utc_zero "UserService_new blank_usage_db 100 False () []"
      blank_usage_db]
  by (simp add: Event_time_def UserService_new_def GetMilliseconds_def SetMilliseconds_def IncreaseDays_def
      TruncateToDay_def GetIntervalTypeStartTime_def utc_zero_def Calendar_new_def period_lengths Let_def)

section \<open>Loading\<close>

text \<open>The beginning of the period that a time stamp falls in.\<close>

definition period_start :: "tz \<Rightarrow> bool \<Rightarrow> int \<Rightarrow> nat \<Rightarrow> int" where
  "period_start z debug t i =
     GetMilliseconds (TruncateTo z (int i) (SetMilliseconds t
       (if debug then ChangeToDebug (Calendar_new 0) else Calendar_new 0)))"

definition starts_ok :: "tz \<Rightarrow> int \<Rightarrow> nat \<Rightarrow> 'd user_service \<Rightarrow> bool" where
  "starts_ok z t i s \<longleftrightarrow> (\<exists>p. us_period s i = Some p \<and> pd_beginTime p = period_start z (us_debug s) t i)"

lemma load_period_debug [simp]:
  "us_debug (load_period D z t f i s) = us_debug s"
  "length (us_currentStats (load_period D z t f i s)) = length (us_currentStats s)"
  by (simp_all add: load_period_def Let_def split: prod.splits)

lemma load_period_other: "i \<noteq> j \<Longrightarrow> us_period (load_period D z t f i s) j = us_period s j"
  by (simp add: load_period_def Let_def us_period_def split: prod.splits)

lemma load_period_starts:
  "i < length (us_currentStats s) \<Longrightarrow> starts_ok z t i (load_period D z t f i s)"
  by (auto simp: load_period_def starts_ok_def period_start_def Let_def us_period_def split: prod.splits option.splits)

lemma load_periods_start:
  assumes "n \<le> length (us_currentStats s)" "i < n"
  shows "starts_ok z t i (fold (load_period D z t f) [0..<n] s)"
  using assms
proof (induction n)
  case (Suc n)
  let ?s = "fold (load_period D z t f) [0..<n] s"
  have "length (us_currentStats ?s) = length (us_currentStats s)"
    by (rule fold_fields [of "\<lambda>s. length (us_currentStats s)"]) simp
  then show ?case
    using Suc load_period_starts [of n ?s z t D f]
    by (cases "i = n") (auto simp: starts_ok_def load_period_other)
qed simp

text \<open>Loading at a time aligns the periods. Afterwards there are a day, a week, a month and a year,
each beginning at the truncation of the time to its calendar unit (whatever the database answered, and
whether or not the memory already held the period), nothing is marked as changed, and the listener has
been told once that the statistics were reloaded.\<close>

theorem load_aligns_periods:
  assumes "length (us_currentStats s) = PERIOD_COUNT" "length (us_periodLength s) = PERIOD_COUNT" "i < PERIOD_COUNT"
  shows "let s' = LoadActiveStats D z t force changed s in
    (\<exists>p. us_period s' i = Some p \<and> pd_beginTime p = period_start z (us_debug s) t i) \<and>
    \<not> us_statsChanged s' \<and> us_notices s' = us_notices s @ [OnStatsReload]"
proof -
  let ?s1 = "fold (load_period D z t force) [0..<4] s"
  have "starts_ok z t i ?s1"
    using assms by (intro load_periods_start) simp_all
  moreover have "us_debug ?s1 = us_debug s"
    by (rule fold_fields) simp
  moreover have "us_notices ?s1 = us_notices s"
    by (rule fold_fields) (simp add: load_period_def Let_def split: prod.splits)
  ultimately show ?thesis
    using assms(2)
    by (simp add: LoadActiveStats_def UpdateExpiryDate_def Let_def starts_ok_def)
qed

theorem load_aligns_periods_witness:
  "\<exists>p. us_period (LoadActiveStats blank_usage_db utc_zero 50 False False
     (UserService_new blank_usage_db 100 True () [])) 0 = Some p \<and> pd_beginTime p = period_start utc_zero True 50 0"
  using load_aligns_periods [of "UserService_new blank_usage_db 100 True () []" 0 blank_usage_db utc_zero 50 False False]
  by (simp add: UserService_new_def Let_def)

text \<open>The first uid of a bundle without running abilities ends the loop: the abilities of the uids
after it do not run on over the end of the day.\<close>

lemma continue_stops_at_idle_uid:
  assumes "om_find running (GetBundleUsageKey bn uid) = None"
  shows "UpdateContinueAbilitiesMemory b running bn (uid # uids) pu = pu \<and>
    UpdateContinueServicesMemory b running bn (uid # uids) pu = pu"
  using assms by simp_all

end
