(* ===== verification/UsageDatabase.thy ===== *)
theory UsageDatabase
  imports DatabaseTables UserService
begin

text \<open>The data operations of \<open>BundleActiveUsageDatabase\<close> (\<open>services/common\<close>): writing and reading
the usage of the periods, the events, the group histories, the durations and the module and card
records, removing what belongs to an uninstalled bundle, and the operations packed as the interfaces
that the user service and the group history call.

The integer columns hold values of their C++ types, so reading a column as \<open>int\<close> or as \<open>int64_t\<close> is
reading the cell. The mutex and the logs are not modelled.\<close>

section \<open>Rows\<close>

text \<open>\<open>ValuesBucket::Put\<close>: the values by column name, a later value of a column replacing the earlier
one.\<close>

definition put_value :: "string \<Rightarrow> sqlval \<Rightarrow> bucket \<Rightarrow> bucket" where
  "put_value column v b = filter (\<lambda>p. fst p \<noteq> column) b @ [(column, v)]"

definition put_values :: "(string \<times> sqlval) list \<Rightarrow> bucket \<Rightarrow> bucket" where
  "put_values vs b = fold (\<lambda>(column, v). put_value column v) vs b"

definition BatchInsert ::
    "'s db_env \<Rightarrow> nat \<Rightarrow> bucket list \<Rightarrow> string \<Rightarrow> 's database \<Rightarrow> 's database" where
  "BatchInsert E databaseType rawContactValues tableName d =
     (if length rawContactValues \<noteq> 0
      then d \<lparr> db_stores := de_batchInsert E (db_files d ! databaseType) tableName rawContactValues (db_stores d) \<rparr>
      else d)"

text \<open>The step the writers share: update the row that the condition names; when the store says that no
row was changed, keep the bucket, completed by the key columns, for the insertion that follows.
\<open>changeRow\<close> keeps its value when the store does not set it.\<close>

definition update_or_keep ::
    "'s db_env \<Rightarrow> nat \<Rightarrow> string \<Rightarrow> bucket \<Rightarrow> string \<Rightarrow> string list \<Rightarrow> bucket \<Rightarrow>
     int \<times> bucket list \<times> 's database \<Rightarrow> int \<times> bucket list \<times> 's database" where
  "update_or_keep E databaseType tableName values cond args keys cbd =
     (case cbd of (changeRow, kept, d) \<Rightarrow>
        (let (r, st) = de_update E (db_files d ! databaseType) tableName values cond args (db_stores d);
             changed = (case r of Some n \<Rightarrow> n | None \<Rightarrow> changeRow);
             d1 = d \<lparr> db_stores := st \<rparr>
         in if changed = 0 then (changed, kept @ [put_values keys values], d1)
            else (BUNDLE_ACTIVE_FAIL, kept, d1)))"

text \<open>A time is stored relative to the beginning of its table; \<open>-1\<close>, never used, is kept.\<close>

definition to_relative :: "int \<Rightarrow> int \<Rightarrow> int" where
  "to_relative base t = (if t = - 1 then - 1 else t - base)"

definition from_relative :: "int \<Rightarrow> int \<Rightarrow> int" where
  "from_relative base r = (if r = - 1 then - 1 else r + base)"

section \<open>Group histories and durations\<close>

definition history_values :: "package_history \<Rightarrow> bucket" where
  "history_values h = put_values
     [(''lastBootFromUsedTime'', SqlInt (ph_lastBootFromUsedTimeStamp h)),
      (''lastScreenUsedTime'', SqlInt (ph_lastScreenUsedTimeStamp h)),
      (''currentGroup'', SqlInt (ph_currentGroup h)),
      (''reasonInGroup'', SqlInt (sint (ph_reasonInGroup h))),
      (''bundleAliveTimeoutTime'', SqlInt (ph_bundleAliveTimeoutTimeStamp h)),
      (''bundleDailyTimeoutTime'', SqlInt (ph_bundleDailyTimeoutTimeStamp h)),
      (''firstUseTime'', SqlInt (ph_bundlefirstUseTimeStamp h))] []"

definition put_history ::
    "'s db_env \<Rightarrow> int \<Rightarrow> package_history \<Rightarrow> int \<times> bucket list \<times> 's database \<Rightarrow> int \<times> bucket list \<times> 's database" where
  "put_history E userId h = update_or_keep E APP_GROUP_DATABASE BUNDLE_HISTORY_LOG_TABLE (history_values h)
     ''userId = ? and bundleName = ? and uid = ?''
     [int_to_string userId, ph_bundleName h, int_to_string (ph_uid h)]
     [(''bundleName'', SqlText (ph_bundleName h)), (''userId'', SqlInt userId), (''uid'', SqlInt (ph_uid h))]"

definition PutBundleHistoryData ::
    "'s db_env \<Rightarrow> int \<Rightarrow> history_map \<Rightarrow> 's database \<Rightarrow> history_map \<times> 's database" where
  "PutBundleHistoryData E userId userHistory d =
     (case GetBundleActiveRdbStore E APP_GROUP_DATABASE d of
        (False, d1) \<Rightarrow> (userHistory, d1)
      | (True, d1) \<Rightarrow>
          let d2 = CheckDatabaseFileAndTable E d1;
              (_, kept, d3) = fold (\<lambda>(k, h) cbd. if \<not> ph_isChanged h then cbd else put_history E userId h cbd)
                userHistory (BUNDLE_ACTIVE_FAIL, [], d2)
          in (map (\<lambda>(k, h). (k, h \<lparr> ph_isChanged := False \<rparr>)) userHistory,
              BatchInsert E APP_GROUP_DATABASE kept BUNDLE_HISTORY_LOG_TABLE d3))"

definition history_of_row :: "sqlval list \<Rightarrow> package_history" where
  "history_of_row row = PackageHistory_default
     \<lparr> ph_bundleName := cell_text row 1, ph_lastBootFromUsedTimeStamp := cell_int row 2,
       ph_lastScreenUsedTimeStamp := cell_int row 3, ph_currentGroup := cell_int row 4,
       ph_reasonInGroup := word_of_int (cell_int row 5), ph_bundleAliveTimeoutTimeStamp := cell_int row 6,
       ph_bundleDailyTimeoutTimeStamp := cell_int row 7, ph_uid := cell_int row 8,
       ph_bundlefirstUseTimeStamp := cell_int row 9 \<rparr>"

text \<open>\<open>std::map::insert\<close> keeps the entry that is there.\<close>

definition om_insert_new :: "'k::linorder \<Rightarrow> 'v \<Rightarrow> ('k, 'v) omap \<Rightarrow> ('k, 'v) omap" where
  "om_insert_new k v m = (case om_find m k of None \<Rightarrow> om_insert k v m | Some _ \<Rightarrow> m)"

definition GetBundleHistoryData :: "'s db_env \<Rightarrow> int \<Rightarrow> 's database \<Rightarrow> history_map option \<times> 's database" where
  "GetBundleHistoryData E userId d =
     (if db_bundleHistoryTableName d = UNKNOWN_TABLE_NAME then (None, d)
      else case QueryStatsInfoByStep E APP_GROUP_DATABASE
             (''select * from '' @ BUNDLE_HISTORY_LOG_TABLE @ '' where userId = ?'') [int_to_string userId] d of
          (None, d1) \<Rightarrow> (None, d1)
        | (Some rs, d1) \<Rightarrow>
            if length (rs_rows rs) = 0 then (None, d1)
            else (Some (fold (\<lambda>row m. let h = history_of_row row
                    in om_insert_new (ph_bundleName h @ int_to_string (ph_uid h)) h m) (rs_rows rs) []), d1))"

definition PutDurationData :: "'s db_env \<Rightarrow> int \<Rightarrow> int \<Rightarrow> 's database \<Rightarrow> 's database" where
  "PutDurationData E bootBasedDuration screenOnDuration d =
     (let d1 = CheckDatabaseFile E APP_GROUP_DATABASE d;
          d2 = (if db_durationTableName d1 = UNKNOWN_TABLE_NAME
            then (snd (CreateDurationTable E APP_GROUP_DATABASE d1)) \<lparr> db_durationTableName := DURATION_LOG_TABLE \<rparr>
            else d1)
      in case GetBundleActiveRdbStore E APP_GROUP_DATABASE d2 of
           (False, d3) \<Rightarrow> d3
         | (True, d3) \<Rightarrow>
             let file = db_files d3 ! APP_GROUP_DATABASE;
                 values = put_values [(''bootBasedDuration'', SqlInt bootBasedDuration),
                   (''screenOnDuration'', SqlInt screenOnDuration)] [];
                 (r, st) = de_update E file DURATION_LOG_TABLE values '''' [] (db_stores d3);
                 changeRow = (case r of Some n \<Rightarrow> n | None \<Rightarrow> BUNDLE_ACTIVE_FAIL)
             in d3 \<lparr> db_stores := (if changeRow = 0 then de_insert E file DURATION_LOG_TABLE values st else st) \<rparr>)"

definition GetDurationData :: "'s db_env \<Rightarrow> 's database \<Rightarrow> (int \<times> int) \<times> 's database" where
  "GetDurationData E d =
     (if db_durationTableName d = UNKNOWN_TABLE_NAME then ((0, 0), d)
      else case QueryStatsInfoByStep E APP_GROUP_DATABASE (''select * from '' @ DURATION_LOG_TABLE) [] d of
          (None, d1) \<Rightarrow> ((0, 0), d1)
        | (Some rs, d1) \<Rightarrow>
            if length (rs_rows rs) = 1
            then ((cell_int (rs_rows rs ! 0) 0, cell_int (rs_rows rs ! 0) 1), d1) else ((0, 0), d1))"

section \<open>Usage of a period\<close>

text \<open>The statistics of one period are written to its table, record by record; a record without any
active time is skipped.\<close>

definition usage_values :: "int \<Rightarrow> package_stats \<Rightarrow> bucket" where
  "usage_values beginTime st = put_values
     [(''bundleStartedCount'', SqlInt (pk_startCount st)),
      (''lastTime'', SqlInt (to_relative beginTime (pk_lastTimeUsed st))),
      (''lastTimeContinuousTask'', SqlInt (to_relative beginTime (pk_lastContiniousTaskUsed st))),
      (''totalTime'', SqlInt (pk_totalInFrontTime st)),
      (''totalTimeContinuousTask'', SqlInt (pk_totalContiniousTaskUsedTime st))] []"

definition usage_keys :: "int \<Rightarrow> package_stats \<Rightarrow> (string \<times> sqlval) list" where
  "usage_keys userId st =
     [(''bundleName'', SqlText (pk_bundleName st)), (''userId'', SqlInt userId), (''uid'', SqlInt (pk_uid st))]"

definition put_usage ::
    "'s db_env \<Rightarrow> nat \<Rightarrow> period_stats \<Rightarrow> package_stats \<Rightarrow> int \<times> bucket list \<times> 's database \<Rightarrow> int \<times> bucket list \<times> 's database" where
  "put_usage E databaseType p st = update_or_keep E databaseType (PACKAGE_LOG_TABLE @ int_to_string (pd_beginTime p))
     (usage_values (pd_beginTime p) st) ''userId = ? and bundleName = ? and uid = ?''
     [int_to_string (pd_userId p), pk_bundleName st, int_to_string (pk_uid st)] (usage_keys (pd_userId p) st)"

definition never_active :: "package_stats \<Rightarrow> bool" where
  "never_active st \<longleftrightarrow> pk_totalInFrontTime st = 0 \<and> pk_totalContiniousTaskUsedTime st = 0"

definition FlushPackageInfo :: "'s db_env \<Rightarrow> nat \<Rightarrow> period_stats \<Rightarrow> 's database \<Rightarrow> 's database" where
  "FlushPackageInfo E databaseType p d =
     (case GetBundleActiveRdbStore E databaseType d of
        (False, d1) \<Rightarrow> d1
      | (True, d1) \<Rightarrow>
          if pd_bundleStats p = [] then d1
          else
            let (_, kept, d2) = fold (\<lambda>(k, st) cbd. if never_active st then cbd else put_usage E databaseType p st cbd)
                  (pd_bundleStats p) (BUNDLE_ACTIVE_FAIL, [], d1)
            in BatchInsert E databaseType kept (PACKAGE_LOG_TABLE @ int_to_string (pd_beginTime p)) d2)"

definition usage_of_row :: "int \<Rightarrow> sqlval list \<Rightarrow> package_stats" where
  "usage_of_row tableTime row = PackageStats_default
     \<lparr> pk_bundleName := cell_text row 1, pk_startCount := cell_int row 2,
       pk_lastTimeUsed := from_relative tableTime (cell_int row 3),
       pk_lastContiniousTaskUsed := from_relative tableTime (cell_int row 4),
       pk_totalInFrontTime := cell_int row 5, pk_totalContiniousTaskUsedTime := cell_int row 6,
       pk_uid := cell_int row 7 \<rparr>"

definition load_usage_row :: "int \<Rightarrow> sqlval list \<Rightarrow> period_stats \<times> uidmap \<Rightarrow> period_stats \<times> uidmap" where
  "load_usage_row tableTime row pu =
     (let st = usage_of_row tableTime row
      in ((fst pu) \<lparr> pd_userId := cell_int row 0,
                     pd_bundleStats := om_insert_new (pk_bundleName st @ int_to_string (pk_uid st)) st
                       (pd_bundleStats (fst pu)) \<rparr>,
          InsertPackageUid (pk_bundleName st) (pk_uid st) (snd pu)))"

definition GetCurrentBundleStats ::
    "int \<Rightarrow> result_set \<Rightarrow> period_stats \<times> uidmap \<Rightarrow> period_stats \<times> uidmap" where
  "GetCurrentBundleStats currentPackageTime rs pu = fold (load_usage_row currentPackageTime) (rs_rows rs) pu"

definition GetCurrentUsageData ::
    "'s db_env \<Rightarrow> int \<Rightarrow> int \<Rightarrow> uidmap \<times> 's database \<Rightarrow> period_stats option \<times> uidmap \<times> 's database" where
  "GetCurrentUsageData E databaseType userId ud =
     (case ud of (um, d) \<Rightarrow>
        if databaseType < 0 \<or> databaseType \<ge> int (length (db_sortedTableArray d)) then (None, um, d)
        else
          let i = nat databaseType; tableTimes = db_sortedTableArray d ! i
          in if tableTimes = [] then (None, um, d)
             else
               let currentPackageTime = last tableTimes
               in case QueryStatsInfoByStep E i (''select * from '' @ PACKAGE_LOG_TABLE @
                      int_to_string currentPackageTime @ '' where userId = ?'') [int_to_string userId] d of
                    (None, d1) \<Rightarrow> (None, um, d1)
                  | (Some rs, d1) \<Rightarrow>
                      let (p, um1) = GetCurrentBundleStats currentPackageTime rs
                            (PeriodStats_new userId currentPackageTime, um);
                          d2 = (if i = DAILY_DATABASE_INDEX then d1 \<lparr> db_eventBeginTime := currentPackageTime \<rparr> else d1)
                      in (Some (p \<lparr> pd_lastTimeSaved := GetSystemTimeMs (de_now E) \<rparr>), um1, d2))"

section \<open>Events\<close>

definition event_values :: "int \<Rightarrow> int \<Rightarrow> event \<Rightarrow> bucket" where
  "event_values userId eventTableTime e = put_values
     [(''userId'', SqlInt userId), (''bundleName'', SqlText (ev_bundleName e)), (''eventId'', SqlInt (ev_eventId e)),
      (''timeStamp'', SqlInt (ev_timeStamp e - eventTableTime)), (''abilityId'', SqlText (ev_abilityId e)),
      (''uid'', SqlInt (ev_uid e))] []"

definition FlushEventInfo :: "'s db_env \<Rightarrow> nat \<Rightarrow> period_stats \<Rightarrow> 's database \<Rightarrow> 's database" where
  "FlushEventInfo E databaseType p d =
     (case GetBundleActiveRdbStore E databaseType d of
        (False, d1) \<Rightarrow> d1
      | (True, d1) \<Rightarrow>
          let d2 = InitEventTable E (pd_beginTime p) d1;
              eventTableTime = ParseStartTime (db_eventTableName d2)
          in BatchInsert E databaseType (map (event_values (pd_userId p) eventTableTime) (pd_events p))
               (db_eventTableName d2) d2)"

definition UpdateEventData :: "'s db_env \<Rightarrow> int \<Rightarrow> period_stats \<Rightarrow> 's database \<Rightarrow> 's database" where
  "UpdateEventData E databaseType p d =
     (let d1 = CheckDatabaseFile E (nat databaseType) d
      in if databaseType \<noteq> 0 then d1
         else if EventList_Size (pd_events p) \<noteq> 0 then
           FlushEventInfo E EVENT_DATABASE p (CheckDatabaseFile E EVENT_DATABASE d1)
         else d1)"

definition event_of_row :: "int \<Rightarrow> sqlval list \<Rightarrow> event" where
  "event_of_row eventTableTime row = Event_default
     \<lparr> ev_bundleName := cell_text row 1, ev_eventId := cell_int row 2,
       ev_timeStamp := atoll (cell_text row 3) + eventTableTime, ev_abilityId := cell_text row 4,
       ev_uid := cell_int row 5 \<rparr>"

definition JudgeQueryCondition :: "int \<Rightarrow> int \<Rightarrow> int \<Rightarrow> 's database \<Rightarrow> int" where
  "JudgeQueryCondition beginTime endTime eventTableTime d =
     (if db_eventTableName d = UNKNOWN_TABLE_NAME then - 1
      else if endTime \<le> beginTime then - 1
      else if endTime < eventTableTime then - 1 else 0)"

text \<open>The lower bound of a query, relative to the table and not below zero.\<close>

definition query_from :: "int \<Rightarrow> int \<Rightarrow> string" where
  "query_from beginTime tableTime =
     (let diff = beginTime - tableTime in if diff \<ge> 0 then int_to_string diff else int_to_string 0)"

definition event_query :: "int \<Rightarrow> int \<Rightarrow> int \<Rightarrow> string \<Rightarrow> 's database \<Rightarrow> string \<times> string list" where
  "event_query beginTime endTime userId bundleName d =
     (let eventTableTime = ParseStartTime (db_eventTableName d);
          args = [query_from beginTime eventTableTime, int_to_string (endTime - eventTableTime), int_to_string userId]
      in if bundleName = ''''
         then (''select * from '' @ db_eventTableName d @
           '' where timeStamp >= ? and timeStamp <= ? and userId = ? order by timeStamp asc'', args)
         else (''select * from '' @ db_eventTableName d @
           '' where timeStamp >= ? and timeStamp <= ? and userId = ? and bundleName = ? order by timeStamp asc'',
           args @ [bundleName]))"

definition QueryDatabaseEvents ::
    "'s db_env \<Rightarrow> int \<Rightarrow> int \<Rightarrow> int \<Rightarrow> string \<Rightarrow> 's database \<Rightarrow> event list \<times> 's database" where
  "QueryDatabaseEvents E beginTime endTime userId bundleName d =
     (let eventTableTime = ParseStartTime (db_eventTableName d)
      in if JudgeQueryCondition beginTime endTime eventTableTime d = - 1 then ([], d)
         else
           let (sql, args) = event_query beginTime endTime userId bundleName d
           in case QueryStatsInfoByStep E EVENT_DATABASE sql args d of
                (None, d1) \<Rightarrow> ([], d1)
              | (Some rs, d1) \<Rightarrow> (map (event_of_row eventTableTime) (rs_rows rs), d1))"

section \<open>Queries of the usage\<close>

definition GetOptimalIntervalType :: "int \<Rightarrow> int \<Rightarrow> 's database \<Rightarrow> int" where
  "GetOptimalIntervalType beginTime endTime d =
     fst (fold (\<lambda>i (optimal, leastTimeDiff).
         let tableTimes = db_sortedTableArray d ! i;
             index = NearIndexOnOrBeforeCurrentTime beginTime tableTimes
         in if index \<ge> 0 \<and> index < int (length tableTimes) then
              (let diff = \<bar>tableTimes ! nat index - beginTime\<bar>
               in if diff < leastTimeDiff then (int i, diff) else (optimal, leastTimeDiff))
            else (optimal, leastTimeDiff))
       (rev [0..<length (db_sortedTableArray d)]) (- 1, INT64_MAX))"

text \<open>The two indexes are answered also when the query is refused; nothing reads them then.\<close>

definition GetDbIndex :: "int \<Rightarrow> int \<Rightarrow> int \<Rightarrow> 's database \<Rightarrow> (int \<times> int) option" where
  "GetDbIndex beginTime endTime databaseType d =
     (if databaseType < 0 \<or> databaseType \<ge> int (length (db_sortedTableArray d)) then None
      else if endTime \<le> beginTime then None
      else
        let tableTimes = db_sortedTableArray d ! nat databaseType;
            startIndex = (let i = NearIndexOnOrBeforeCurrentTime beginTime tableTimes in if i < 0 then 0 else i);
            endIndex = NearIndexOnOrBeforeCurrentTime endTime tableTimes
        in if endIndex < 0 then None
           else if tableTimes ! nat endIndex = endTime then
             (if endIndex - 1 < 0 then None else Some (startIndex, endIndex - 1))
           else Some (startIndex, endIndex))"

definition GetQuerySqlCommand ::
    "int \<Rightarrow> int \<Rightarrow> nat \<Rightarrow> int \<Rightarrow> int \<Rightarrow> int \<Rightarrow> int \<Rightarrow> 's database \<Rightarrow> string \<times> string list" where
  "GetQuerySqlCommand beginTime endTime databaseType index startIndex endIndex userId d =
     (let packageTableTime = db_sortedTableArray d ! databaseType ! nat index;
          select = ''select * from '' @ PACKAGE_LOG_TABLE @ int_to_string packageTableTime @ '' where userId = ?'';
          u = int_to_string userId;
          from_time = query_from beginTime packageTableTime;
          to_time = int_to_string (endTime - packageTableTime)
      in if startIndex = endIndex then (select @ '' and lastTime >= ? and lastTime <= ?'', [u, from_time, to_time])
         else if index = startIndex then (select @ '' and lastTime >= ?'', [u, from_time])
         else if index = endIndex then (select @ '' and lastTime <= ?'', [u, to_time])
         else (select, [u]))"

definition usage_query ::
    "int \<Rightarrow> int \<Rightarrow> nat \<Rightarrow> int \<Rightarrow> int \<Rightarrow> int \<Rightarrow> int \<Rightarrow> string \<Rightarrow> 's database \<Rightarrow> string \<times> string list" where
  "usage_query beginTime endTime databaseType index startIndex endIndex userId bundleName d =
     (let (sql, args) = GetQuerySqlCommand beginTime endTime databaseType index startIndex endIndex userId d
      in if bundleName \<noteq> '''' then (sql @ '' and bundleName = ?'', args @ [bundleName]) else (sql, args))"

text \<open>The loop over the tables of the interval; a failing query ends it with what was read.\<close>

fun query_tables ::
    "'s db_env \<Rightarrow> int \<Rightarrow> int \<Rightarrow> nat \<Rightarrow> int \<Rightarrow> int \<Rightarrow> int \<Rightarrow> string \<Rightarrow> int list \<Rightarrow>
     's database \<Rightarrow> package_stats list \<times> 's database" where
  "query_tables E beginTime endTime i startIndex endIndex userId bundleName [] d = ([], d)"
| "query_tables E beginTime endTime i startIndex endIndex userId bundleName (index # indexes) d =
     (let (sql, args) = usage_query beginTime endTime i index startIndex endIndex userId bundleName d
      in case QueryStatsInfoByStep E i sql args d of
           (None, d1) \<Rightarrow> ([], d1)
         | (Some rs, d1) \<Rightarrow>
             let tableTime = db_sortedTableArray d1 ! i ! nat index;
                 here = map (\<lambda>row. (usage_of_row tableTime row) \<lparr> pk_userId := userId \<rparr>) (rs_rows rs);
                 (rest, d2) = query_tables E beginTime endTime i startIndex endIndex userId bundleName indexes d1
             in (here @ rest, d2))"

definition QueryDatabaseUsageStats ::
    "'s db_env \<Rightarrow> int \<Rightarrow> int \<Rightarrow> int \<Rightarrow> int \<Rightarrow> string \<Rightarrow> 's database \<Rightarrow> package_stats list \<times> 's database" where
  "QueryDatabaseUsageStats E databaseType beginTime endTime userId bundleName d =
     (case GetDbIndex beginTime endTime databaseType d of
        None \<Rightarrow> ([], d)
      | Some (startIndex, endIndex) \<Rightarrow>
          query_tables E beginTime endTime (nat databaseType) startIndex endIndex userId bundleName
            [startIndex..endIndex] d)"

section \<open>Saving a period\<close>

text \<open>The statistics reported to the system's event log when the day is saved: the number of events,
of records that differ from the stored ones, the user and the time.\<close>

definition BundleActiveHiSysEventWrite ::
    "'s db_env \<Rightarrow> int \<Rightarrow> period_stats \<Rightarrow> 's database \<Rightarrow> (int \<times> int \<times> int \<times> int) option \<times> 's database" where
  "BundleActiveHiSysEventWrite E databaseType p d =
     (if databaseType = int DAILY_DATABASE_INDEX then
        (let (stored, d1) = QueryDatabaseUsageStats E databaseType 0 MAX_END_TIME (pd_userId p) '''' d;
             notUpdateBundleSize = length (filter (\<lambda>st.
               case om_find (pd_bundleStats p) (pk_bundleName st @ int_to_string (pk_uid st)) of
                 None \<Rightarrow> False | Some st' \<Rightarrow> pk_lastTimeUsed st' = pk_lastTimeUsed st) stored)
         in (Some (EventList_Size (pd_events p),
               (int (length (pd_bundleStats p)) - int notUpdateBundleSize) mod 2 ^ 64, pd_userId p,
               GetSystemTimeMs (de_now E)), d1))
      else (None, d))"

definition UpdateBundleUsageData ::
    "'s db_env \<Rightarrow> int \<Rightarrow> period_stats \<Rightarrow> 's database \<Rightarrow> period_stats \<times> 's database" where
  "UpdateBundleUsageData E databaseType p d =
     (let d1 = snd (BundleActiveHiSysEventWrite E databaseType p d)
      in if databaseType < 0 \<or> databaseType \<ge> int EVENT_DATABASE then (p, d1)
         else
           let i = nat databaseType;
               d2 = CheckDatabaseFile E i d1;
               d3 = (if BinarySearch (db_sortedTableArray d2 ! i) (pd_beginTime p) < 0 then
                   (let e1 = snd (CreatePackageLogTable E i (pd_beginTime p) d2);
                        e2 = (if i = DAILY_DATABASE_INDEX
                          then DeleteExcessiveTableData E EVENT_DATABASE (e1 \<lparr> db_eventBeginTime := pd_beginTime p \<rparr>)
                          else e1);
                        e3 = e2 \<lparr> db_sortedTableArray := (db_sortedTableArray e2)
                               [i := sort (db_sortedTableArray e2 ! i @ [pd_beginTime p])] \<rparr>
                    in DeleteExcessiveTableData E i e3)
                 else d2);
               d4 = FlushPackageInfo E i p d3
           in (p \<lparr> pd_lastTimeSaved := GetSystemTimeMs (de_now E) \<rparr>, d4))"

section \<open>Removing what belongs to a bundle\<close>

definition DeleteUninstalledInfo ::
    "'s db_env \<Rightarrow> int \<Rightarrow> string \<Rightarrow> int \<Rightarrow> string \<Rightarrow> nat \<Rightarrow> int \<Rightarrow> 's database \<Rightarrow> 's database" where
  "DeleteUninstalledInfo E userId bundleName uid tableName databaseType appIndex d =
     (case GetBundleActiveRdbStore E databaseType d of
        (False, d1) \<Rightarrow> d1
      | (True, d1) \<Rightarrow>
          let delete = (\<lambda>cond args. d1 \<lparr> db_stores :=
                de_delete E (db_files d1 ! databaseType) tableName cond args (db_stores d1) \<rparr>);
              u = int_to_string userId
          in if bundleName = '''' then delete ''userId = ?'' [u]
             else if appIndex = 0 then delete ''userId = ? and bundleName = ?'' [u, bundleName]
             else delete ''userId = ? and bundleName = ? and uid = ?'' [u, bundleName, int_to_string uid])"

definition Database_OnPackageUninstalled ::
    "'s db_env \<Rightarrow> int \<Rightarrow> string \<Rightarrow> int \<Rightarrow> int \<Rightarrow> 's database \<Rightarrow> 's database" where
  "Database_OnPackageUninstalled E userId bundleName uid appIndex d =
     (let delete = (\<lambda>tableName i d. DeleteUninstalledInfo E userId bundleName uid tableName i appIndex d);
          delete_named = (\<lambda>tableName i d. if tableName \<noteq> UNKNOWN_TABLE_NAME then delete tableName i d else d);
          d1 = fold (\<lambda>i d. fold (\<lambda>t. delete (PACKAGE_LOG_TABLE @ int_to_string t) i) (db_sortedTableArray d ! i) d)
                 [0..<length (db_sortedTableArray d)] d;
          d2 = delete_named (db_eventTableName d1) EVENT_DATABASE d1;
          d3 = delete_named (db_bundleHistoryTableName d2) APP_GROUP_DATABASE d2;
          d4 = delete_named (db_moduleRecordsTableName d3) APP_GROUP_DATABASE d3
      in delete_named (db_formRecordsTableName d4) APP_GROUP_DATABASE d4)"

section \<open>Modules and cards\<close>

text \<open>A card's row. The bucket that is inserted names the column of the card's id twice, first with the
id and then with the uid, and no column for the uid; the condition of the update has six marks for
seven arguments.\<close>

definition form_values :: "int \<Rightarrow> form_record \<Rightarrow> bucket" where
  "form_values formRecordsTableTime f = put_values
     [(''touchCount'', SqlInt (fr_count f)),
      (''lastTime'', SqlInt (to_relative formRecordsTableTime (fr_formLastUsedTime f)))] []"

definition form_keys :: "int \<Rightarrow> string \<Rightarrow> string \<Rightarrow> form_record \<Rightarrow> (string \<times> sqlval) list" where
  "form_keys userId bundleName moduleName f =
     [(''userId'', SqlInt userId), (''bundleName'', SqlText bundleName), (''moduleName'', SqlText moduleName),
      (''formName'', SqlText (fr_formName f)), (''formDimension'', SqlInt (fr_formDimension f)),
      (''formId'', SqlInt (to_int32 (fr_formId f))), (''formId'', SqlInt (fr_uid f))]"

definition update_form_cond :: string where
  "update_form_cond = ''userId = ? and bundleName = ? and moduleName = ? and formName = ? and formDimension = ? '' @
     ''and formId = ?''"

definition form_args :: "int \<Rightarrow> string \<Rightarrow> string \<Rightarrow> string \<Rightarrow> int \<Rightarrow> int \<Rightarrow> string list" where
  "form_args userId bundleName moduleName formName formDimension formId =
     [int_to_string userId, bundleName, moduleName, formName, int_to_string formDimension, int_to_string formId]"

definition UpdateFormData ::
    "'s db_env \<Rightarrow> int \<Rightarrow> string \<Rightarrow> string \<Rightarrow> form_record \<Rightarrow> bucket list \<times> 's database \<Rightarrow> bucket list \<times> 's database" where
  "UpdateFormData E userId bundleName moduleName f bd =
     (case bd of (formValueBuckets, d) \<Rightarrow>
        let formRecordsTableTime = ParseStartTime (db_formRecordsTableName d)
        in snd (update_or_keep E APP_GROUP_DATABASE (db_formRecordsTableName d) (form_values formRecordsTableTime f)
             update_form_cond
             (form_args userId bundleName moduleName (fr_formName f) (fr_formDimension f) (fr_formId f) @
               [int_to_string (fr_uid f)])
             (form_keys userId bundleName moduleName f) (BUNDLE_ACTIVE_FAIL, formValueBuckets, d)))"

definition module_values :: "int \<Rightarrow> module_record \<Rightarrow> bucket" where
  "module_values moduleTableTime m = put_values
     [(''launchedCount'', SqlInt (mr_launchedCount m)),
      (''lastTime'', SqlInt (to_relative moduleTableTime (mr_lastModuleUsedTime m)))] []"

definition module_keys :: "module_record \<Rightarrow> (string \<times> sqlval) list" where
  "module_keys m = [(''userId'', SqlInt (mr_userId m)), (''bundleName'', SqlText (mr_bundleName m)),
     (''moduleName'', SqlText (mr_moduleName m)), (''uid'', SqlInt (mr_uid m))]"

text \<open>One module, then its cards; \<open>changeRow\<close> is reset on both branches.\<close>

definition put_module ::
    "'s db_env \<Rightarrow> int \<Rightarrow> module_record \<Rightarrow> bucket list \<times> bucket list \<times> 's database \<Rightarrow>
     bucket list \<times> bucket list \<times> 's database" where
  "put_module E moduleTableTime m bbd =
     (case bbd of (modules, forms, d) \<Rightarrow>
        (let (_, modules1, d1) = update_or_keep E APP_GROUP_DATABASE (db_moduleRecordsTableName d)
               (module_values moduleTableTime m) ''userId = ? and bundleName = ? and moduleName = ? and uid = ?''
               [int_to_string (mr_userId m), mr_bundleName m, mr_moduleName m, int_to_string (mr_uid m)]
               (module_keys m) (BUNDLE_ACTIVE_FAIL, modules, d);
             (forms1, d2) = fold (UpdateFormData E (mr_userId m) (mr_bundleName m) (mr_moduleName m))
               (mr_formRecords m) (forms, d1)
         in (modules1, forms1, d2)))"

definition UpdateModuleData ::
    "'s db_env \<Rightarrow> int \<Rightarrow> module_map \<Rightarrow> int \<Rightarrow> 's database \<Rightarrow> 's database" where
  "UpdateModuleData E userId moduleRecords timeStamp d =
     (case GetBundleActiveRdbStore E APP_GROUP_DATABASE (CheckDatabaseFile E APP_GROUP_DATABASE d) of
        (False, d1) \<Rightarrow> d1
      | (True, d1) \<Rightarrow>
          let d2 = CreateRecordTable E timeStamp d1;
              moduleTableTime = ParseStartTime (db_moduleRecordsTableName d2);
              (modules, forms, d3) = fold (\<lambda>(k, m). put_module E moduleTableTime m) moduleRecords ([], [], d2);
              d4 = BatchInsert E APP_GROUP_DATABASE modules (db_moduleRecordsTableName d3) d3
          in BatchInsert E APP_GROUP_DATABASE forms (db_formRecordsTableName d4) d4)"

text \<open>The condition has seven marks for six arguments.\<close>

definition remove_form_cond :: string where
  "remove_form_cond = ''userId = ? and bundleName = ? and moduleName = ? and formName = ? and formDimension = ? '' @
     ''and formId = ? and uid = ?''"

definition RemoveFormData ::
    "'s db_env \<Rightarrow> int \<Rightarrow> string \<Rightarrow> string \<Rightarrow> string \<Rightarrow> int \<Rightarrow> int \<Rightarrow> int \<Rightarrow> 's database \<Rightarrow> 's database" where
  "RemoveFormData E userId bundleName moduleName formName formDimension formId uid d =
     (case GetBundleActiveRdbStore E APP_GROUP_DATABASE d of
        (False, d1) \<Rightarrow> d1
      | (True, d1) \<Rightarrow>
          if db_formRecordsTableName d1 \<noteq> UNKNOWN_TABLE_NAME then
            d1 \<lparr> db_stores := de_delete E (db_files d1 ! APP_GROUP_DATABASE) (db_formRecordsTableName d1) remove_form_cond
                   (form_args userId bundleName moduleName formName formDimension formId) (db_stores d1) \<rparr>
          else d1)"

definition module_of_row :: "int \<Rightarrow> sqlval list \<Rightarrow> module_record" where
  "module_of_row baseTime row = ModuleRecord_default
     \<lparr> mr_userId := cell_int row 0, mr_bundleName := cell_text row 1, mr_moduleName := cell_text row 2,
       mr_launchedCount := cell_int row 3, mr_uid := cell_int row 5,
       mr_lastModuleUsedTime := from_relative baseTime (cell_int row 4) \<rparr>"

definition LoadModuleData :: "'s db_env \<Rightarrow> int \<Rightarrow> module_map \<Rightarrow> 's database \<Rightarrow> module_map \<times> 's database" where
  "LoadModuleData E userId moduleRecords d =
     (case QueryStatsInfoByStep E APP_GROUP_DATABASE
         (''select * from '' @ db_moduleRecordsTableName d @ '' where userId = ?'') [int_to_string userId] d of
        (None, d1) \<Rightarrow> (moduleRecords, d1)
      | (Some rs, d1) \<Rightarrow>
          let baseTime = ParseStartTime (db_moduleRecordsTableName d1)
          in (fold (\<lambda>row ms. let m = module_of_row baseTime row
                in om_insert (mr_bundleName m @ '' '' @ int_to_string (mr_uid m) @ '' '' @ mr_moduleName m) m ms)
                (rs_rows rs) moduleRecords, d1))"

definition form_of_row :: "int \<Rightarrow> sqlval list \<Rightarrow> form_record" where
  "form_of_row baseTime row = FormRecord_default
     \<lparr> fr_userId := cell_int row 0, fr_formName := cell_text row 3, fr_formDimension := cell_int row 4,
       fr_formId := cell_int row 5, fr_count := cell_int row 6,
       fr_formLastUsedTime := from_relative baseTime (cell_int row 7), fr_uid := cell_int row 8 \<rparr>"

definition LoadFormData :: "'s db_env \<Rightarrow> int \<Rightarrow> module_map \<Rightarrow> 's database \<Rightarrow> module_map \<times> 's database" where
  "LoadFormData E userId moduleRecords d =
     (case QueryStatsInfoByStep E APP_GROUP_DATABASE
         (''select * from '' @ db_formRecordsTableName d @ '' where userId = ?'') [int_to_string userId] d of
        (None, d1) \<Rightarrow> (moduleRecords, d1)
      | (Some rs, d1) \<Rightarrow>
          let baseTime = ParseStartTime (db_formRecordsTableName d1)
          in (fold (\<lambda>row ms.
                let f = form_of_row baseTime row;
                    key = cell_text row 1 @ '' '' @ int_to_string (fr_uid f) @ '' '' @ cell_text row 2
                in case om_find ms key of
                     None \<Rightarrow> ms
                   | Some m \<Rightarrow> om_insert key (m \<lparr> mr_formRecords := mr_formRecords m @ [f] \<rparr>) ms)
                (rs_rows rs) moduleRecords, d1))"

section \<open>Event statistics\<close>

definition GetSystemEventName :: "int \<Rightarrow> string" where
  "GetSystemEventName eventId =
     (if eventId = SYSTEM_LOCK then OPERATION_SYSTEM_LOCK
      else if eventId = SYSTEM_UNLOCK then OPERATION_SYSTEM_UNLOCK
      else if eventId = SYSTEM_SLEEP then OPERATION_SYSTEM_SLEEP
      else if eventId = SYSTEM_WAKEUP then OPERATION_SYSTEM_WAKEUP
      else '''')"

text \<open>The rows of one event of a user in an interval, which both statistics read.\<close>

definition query_event_rows ::
    "'s db_env \<Rightarrow> int \<Rightarrow> int \<Rightarrow> int \<Rightarrow> int \<Rightarrow> 's database \<Rightarrow> sqlval list list \<times> 's database" where
  "query_event_rows E eventId beginTime endTime userId d =
     (let eventTableTime = ParseStartTime (db_eventTableName d)
      in if JudgeQueryCondition beginTime endTime eventTableTime d = - 1 then ([], d)
         else case QueryStatsInfoByStep E EVENT_DATABASE
             (''select * from '' @ db_eventTableName d @
               '' where timeStamp >= ? and timeStamp <= ? and userId = ? and eventId = ?'')
             [query_from beginTime eventTableTime, int_to_string (endTime - eventTableTime),
              int_to_string userId, int_to_string eventId] d of
           (None, d1) \<Rightarrow> ([], d1)
         | (Some rs, d1) \<Rightarrow> (rs_rows rs, d1))"

definition Database_QueryDeviceEventStats ::
    "'s db_env \<Rightarrow> int \<Rightarrow> int \<Rightarrow> int \<Rightarrow> event_stats_map \<Rightarrow> int \<Rightarrow> 's database \<Rightarrow> event_stats_map \<times> 's database" where
  "Database_QueryDeviceEventStats E eventId beginTime endTime eventStats userId d =
     (let (rows, d1) = query_event_rows E eventId beginTime endTime userId d
      in if rows = [] then (eventStats, d1)
         else (om_insert_new (GetSystemEventName eventId)
                (EventStats_default \<lparr> es_name := GetSystemEventName eventId, es_count := int (length rows),
                   es_eventId := eventId \<rparr>) eventStats, d1))"

definition count_row :: "sqlval list \<Rightarrow> event_stats_map \<Rightarrow> event_stats_map" where
  "count_row row stats =
     (case om_find stats (cell_text row 1) of
        Some st \<Rightarrow> om_insert (cell_text row 1) (st \<lparr> es_count := es_count st + 1 \<rparr>) stats
      | None \<Rightarrow> om_insert (cell_text row 1) (EventStats_default \<lparr> es_name := cell_text row 1,
                  es_eventId := cell_int row 2, es_uid := cell_int row 5, es_count := 1 \<rparr>) stats)"

definition Database_QueryNotificationEventStats ::
    "'s db_env \<Rightarrow> int \<Rightarrow> int \<Rightarrow> int \<Rightarrow> event_stats_map \<Rightarrow> int \<Rightarrow> 's database \<Rightarrow> event_stats_map \<times> 's database" where
  "Database_QueryNotificationEventStats E eventId beginTime endTime stats userId d =
     (let (rows, d1) = query_event_rows E eventId beginTime endTime userId d in (fold count_row rows stats, d1))"

section \<open>Statements and their arguments\<close>

text \<open>The number of argument marks of a statement.\<close>

definition marks :: "string \<Rightarrow> nat" where
  "marks s = length (filter (\<lambda>c. c = CHR ''?'') s)"

lemma marks_append [simp]: "marks (s @ t) = marks s + marks t"
  by (simp add: marks_def)

lemma marks_Nil [simp]: "marks [] = 0"
  by (simp add: marks_def)

lemma marks_Cons [simp]: "marks (c # s) = (if c = CHR ''?'' then Suc (marks s) else marks s)"
  by (simp add: marks_def)

lemma marks_int [simp]: "marks (int_to_string i) = 0"
proof -
  have "\<not> is_digit CHR ''?''"
    by (simp add: is_digit_def)
  then have "marks (nat_to_string n) = 0" for n
    using nat_to_string_digits [of n] by (auto simp: marks_def filter_empty_conv)
  then show ?thesis
    by (simp add: int_to_string_def)
qed

lemma marks_package_table [simp]: "marks PACKAGE_LOG_TABLE = 0"
  by (simp add: PACKAGE_LOG_TABLE_def)

text \<open>The two statements on cards that do not fit their arguments.\<close>

lemma form_conditions_misfit:
  "marks update_form_cond = 6 \<and> length (form_args u b m n dim i @ [x]) = 7 \<and>
   marks remove_form_cond = 7 \<and> length (form_args u b m n dim i) = 6"
  by (simp add: update_form_cond_def remove_form_cond_def form_args_def)

text \<open>The bucket of a card that is inserted has its uid in the column of its id and no uid.\<close>

lemma form_bucket_misplaced:
  "map_of (put_values (form_keys u b m f) (form_values t f)) ''formId'' = Some (SqlInt (fr_uid f)) \<and>
   map_of (put_values (form_keys u b m f) (form_values t f)) ''uid'' = None"
  by (simp add: put_values_def put_value_def form_keys_def form_values_def)

section \<open>Searching the tables of an interval\<close>

lemma near_before_spec:
  assumes "sorted xs" "distinct xs"
  shows "- 1 \<le> NearIndexOnOrBeforeCurrentTime t xs \<and> NearIndexOnOrBeforeCurrentTime t xs < int (length xs)"
    and "i < length xs \<Longrightarrow> int i \<le> NearIndexOnOrBeforeCurrentTime t xs \<longleftrightarrow> xs ! i \<le> t"
  using near_indexes_spec [OF assms, of t] by (simp_all add: Let_def)

lemma near_before_strict:
  assumes "sorted xs" "distinct xs" "i < length xs"
  shows "xs ! i < t \<longleftrightarrow>
    int i \<le> (let r = NearIndexOnOrBeforeCurrentTime t xs in if 0 \<le> r \<and> xs ! nat r = t then r - 1 else r)"
proof -
  let ?r = "NearIndexOnOrBeforeCurrentTime t xs"
  note r = near_before_spec(1) [OF assms(1,2), of t] and le = near_before_spec(2) [OF assms(1,2), of _ t]
  show ?thesis
  proof (cases "0 \<le> ?r \<and> xs ! nat ?r = t")
    case True
    then have "xs ! i = t \<longleftrightarrow> i = nat ?r"
      using r assms(2,3) by (metis nat_less_iff nth_eq_iff_index_eq)
    then show ?thesis
      using True le [OF assms(3)] by (auto simp: Let_def)
  next
    case False
    have "xs ! i \<noteq> t"
    proof
      assume e: "xs ! i = t"
      then have ir: "int i \<le> ?r" using le [OF assms(3)] by simp
      then have "nat ?r < length xs" "i \<le> nat ?r" using r by (auto simp: nat_less_iff le_nat_iff)
      then have "t \<le> xs ! nat ?r" "xs ! nat ?r \<le> t"
        using sorted_nth_mono [OF assms(1), of i "nat ?r"] e le [of "nat ?r"] ir by auto
      then show False using False ir by simp
    qed
    then show ?thesis
      using False le [OF assms(3)] by (auto simp: Let_def)
  qed
qed

lemma GetDbIndex_tables:
  assumes xs: "xs = db_sortedTableArray d ! i" "i < length (db_sortedTableArray d)"
    and sorted: "sorted xs" "distinct xs" "xs \<noteq> []" and be: "b < e"
  shows "case GetDbIndex b e (int i) d of
      None \<Rightarrow> \<forall>k < length xs. \<not> xs ! k < e
    | Some (s, t) \<Rightarrow> 0 \<le> s \<and> s < int (length xs) \<and> 0 \<le> t \<and> t < int (length xs) \<and>
        (\<forall>k < length xs. xs ! k < e \<and> (k + 1 < length xs \<longrightarrow> b < xs ! (k + 1)) \<longleftrightarrow> s \<le> int k \<and> int k \<le> t)"
proof -
  let ?nb = "NearIndexOnOrBeforeCurrentTime b xs" and ?ne = "NearIndexOnOrBeforeCurrentTime e xs"
  let ?s = "if ?nb < 0 then 0 else ?nb"
  let ?t = "if 0 \<le> ?ne \<and> xs ! nat ?ne = e then ?ne - 1 else ?ne"
  note rb = near_before_spec(1) [OF sorted(1,2), of b] and re = near_before_spec(1) [OF sorted(1,2), of e]
  have upto: "xs ! k < e \<longleftrightarrow> int k \<le> ?t" if "k < length xs" for k
    using near_before_strict [OF sorted(1,2) that, of e] by (simp add: Let_def)
  have from_: "(k + 1 < length xs \<longrightarrow> b < xs ! (k + 1)) \<longleftrightarrow> ?s \<le> int k" if k: "k < length xs" for k
  proof (cases "k + 1 < length xs")
    case True
    then show ?thesis
      using near_before_spec(2) [OF sorted(1,2), of "k + 1" b] by auto
  next
    case False
    then show ?thesis using rb k by auto
  qed
  have val: "GetDbIndex b e (int i) d = (if ?t < 0 then None else Some (?s, ?t))"
    using xs be by (auto simp: GetDbIndex_def Let_def)
  show ?thesis
  proof (cases "?t < 0")
    case True
    then have "\<forall>k < length xs. \<not> xs ! k < e" using upto by fastforce
    then show ?thesis using True val by simp
  next
    case False
    have s: "0 \<le> ?s \<and> ?s < int (length xs)" using rb sorted(3) by auto
    have t: "0 \<le> ?t \<and> ?t < int (length xs)" using re False by auto
    have "\<forall>k < length xs. xs ! k < e \<and> (k + 1 < length xs \<longrightarrow> b < xs ! (k + 1)) \<longleftrightarrow> ?s \<le> int k \<and> int k \<le> ?t"
      using upto from_ by blast
    then show ?thesis
      using False s t val by simp
  qed
qed

section \<open>The nearest interval\<close>

text \<open>Walking over candidates and keeping the first one with the least value.\<close>

definition keep_least :: "(nat \<Rightarrow> int option) \<Rightarrow> nat \<Rightarrow> int \<times> int \<Rightarrow> int \<times> int" where
  "keep_least f i ol = (case f i of Some x \<Rightarrow> if x < snd ol then (int i, x) else ol | None \<Rightarrow> ol)"

lemma keep_least_fold:
  assumes "fold (keep_least f) ks (o0, l0) = (r, l)"
  shows "l \<le> l0 \<and> (\<forall>i \<in> set ks. \<forall>x. f i = Some x \<longrightarrow> l \<le> x) \<and>
    ((r, l) = (o0, l0) \<or> (\<exists>ps i qs. ks = ps @ i # qs \<and> r = int i \<and> f i = Some l \<and> l < l0 \<and>
      (\<forall>j \<in> set ps. \<forall>x. f j = Some x \<longrightarrow> l < x)))"
  using assms
proof (induction ks arbitrary: r l rule: rev_induct)
  case (snoc k ks)
  obtain r1 l1 where 1: "fold (keep_least f) ks (o0, l0) = (r1, l1)" by fastforce
  note ih = snoc.IH [OF 1]
  have step: "keep_least f k (r1, l1) = (r, l)"
    using snoc.prems 1 by simp
  show ?case
  proof (cases "\<exists>x. f k = Some x \<and> x < l1")
    case True
    then obtain x where x: "f k = Some x" "x < l1" by blast
    then have rl: "r = int k" "l = x" using step by (auto simp: keep_least_def)
    have "\<exists>ps i qs. ks @ [k] = ps @ i # qs \<and> r = int i \<and> f i = Some l \<and> l < l0 \<and>
        (\<forall>j \<in> set ps. \<forall>y. f j = Some y \<longrightarrow> l < y)"
      using ih x rl by (intro exI [of _ ks] exI [of _ k] exI [of _ "[]"]) fastforce
    then show ?thesis using ih x rl by auto
  next
    case False
    then have same: "r = r1" "l = l1" using step by (auto simp: keep_least_def split: option.splits)
    have "\<forall>x. f k = Some x \<longrightarrow> l1 \<le> x" using False by (meson not_less)
    then have least: "\<forall>i \<in> set (ks @ [k]). \<forall>x. f i = Some x \<longrightarrow> l \<le> x" using ih same by auto
    from ih have "(r, l) = (o0, l0) \<or> (\<exists>ps i qs. ks @ [k] = ps @ i # qs \<and> r = int i \<and> f i = Some l \<and> l < l0 \<and>
        (\<forall>j \<in> set ps. \<forall>x. f j = Some x \<longrightarrow> l < x))"
    proof (elim conjE disjE exE)
      fix ps i qs
      assume "ks = ps @ i # qs" "r1 = int i" "f i = Some l1" "l1 < l0" "\<forall>j \<in> set ps. \<forall>x. f j = Some x \<longrightarrow> l1 < x"
      then show ?thesis
        using same by (intro disjI2 exI [of _ ps] exI [of _ i] exI [of _ "qs @ [k]"]) simp
    qed (use same in simp)
    then show ?thesis using least ih same by blast
  qed
qed simp

definition interval_distance :: "int \<Rightarrow> int list \<Rightarrow> int option" where
  "interval_distance b xs =
     (let r = NearIndexOnOrBeforeCurrentTime b xs
      in if 0 \<le> r \<and> r < int (length xs) then Some \<bar>xs ! nat r - b\<bar> else None)"

lemma Optimal_keep_least:
  "GetOptimalIntervalType b e d = fst (fold (keep_least (\<lambda>i. interval_distance b (db_sortedTableArray d ! i)))
     (rev [0..<length (db_sortedTableArray d)]) (- 1, INT64_MAX))"
proof -
  have "(\<lambda>i (optimal, leastTimeDiff).
         let tableTimes = db_sortedTableArray d ! i; index = NearIndexOnOrBeforeCurrentTime b tableTimes
         in if index \<ge> 0 \<and> index < int (length tableTimes) then
              (let diff = \<bar>tableTimes ! nat index - b\<bar>
               in if diff < leastTimeDiff then (int i, diff) else (optimal, leastTimeDiff))
            else (optimal, leastTimeDiff)) = keep_least (\<lambda>i. interval_distance b (db_sortedTableArray d ! i))"
    by (intro ext) (simp add: keep_least_def interval_distance_def Let_def split: prod.split)
  then show ?thesis
    by (simp only: GetOptimalIntervalType_def)
qed

lemma interval_distance_spec:
  assumes "sorted xs" "distinct xs"
  shows "interval_distance b xs = None \<longleftrightarrow> (\<forall>t \<in> set xs. b < t)"
    and "interval_distance b xs = Some x \<Longrightarrow> (\<exists>t \<in> set xs. t \<le> b \<and> x = b - t \<and> (\<forall>t' \<in> set xs. t' \<le> b \<longrightarrow> t' \<le> t))"
proof -
  let ?r = "NearIndexOnOrBeforeCurrentTime b xs"
  note r = near_before_spec(1) [OF assms, of b] and le = near_before_spec(2) [OF assms, of _ b]
  show none: "interval_distance b xs = None \<longleftrightarrow> (\<forall>t \<in> set xs. b < t)"
  proof (cases "0 \<le> ?r")
    case True
    then have "nat ?r < length xs" "xs ! nat ?r \<le> b" using r le [of "nat ?r"] by auto
    then show ?thesis using True r by (auto simp: interval_distance_def Let_def intro!: bexI [of _ "xs ! nat ?r"] dest: nth_mem)
  next
    case False
    then have "b < xs ! i" if "i < length xs" for i using le [OF that] by auto
    then show ?thesis using False by (auto simp: interval_distance_def Let_def in_set_conv_nth)
  qed
  assume x: "interval_distance b xs = Some x"
  then have 0: "0 \<le> ?r" "x = \<bar>xs ! nat ?r - b\<bar>" by (auto simp: interval_distance_def Let_def split: if_splits)
  then have n: "nat ?r < length xs" "xs ! nat ?r \<le> b" using r le [of "nat ?r"] by auto
  have "t' \<le> xs ! nat ?r" if t': "t' \<in> set xs" "t' \<le> b" for t'
  proof -
    obtain k where k: "k < length xs" "t' = xs ! k" using t'(1) by (auto simp: in_set_conv_nth)
    then have "k \<le> nat ?r" using le [OF k(1)] t'(2) by simp
    then show ?thesis using k sorted_nth_mono [OF assms(1) _ n(1)] by simp
  qed
  then show "\<exists>t \<in> set xs. t \<le> b \<and> x = b - t \<and> (\<forall>t' \<in> set xs. t' \<le> b \<longrightarrow> t' \<le> t)"
    using n 0 by (intro bexI [of _ "xs ! nat ?r"]) auto
qed

section \<open>The contract of the store for the usage tables\<close>

definition package_columns :: "string list" where
  "package_columns = [''userId'', ''bundleName'', ''bundleStartedCount'', ''lastTime'', ''lastTimeContinuousTask'',
     ''totalTime'', ''totalTimeContinuousTask'', ''uid'']"

definition row_of_bucket :: "string list \<Rightarrow> bucket \<Rightarrow> sqlval list" where
  "row_of_bucket columns b = map (\<lambda>c. case map_of b c of Some v \<Rightarrow> v | None \<Rightarrow> SqlInt (- 1)) columns"

definition set_cells :: "string list \<Rightarrow> bucket \<Rightarrow> sqlval list \<Rightarrow> sqlval list" where
  "set_cells columns b row = map (\<lambda>(c, v). case map_of b c of Some w \<Rightarrow> w | None \<Rightarrow> v) (zip columns row)"

definition has_key :: "int \<Rightarrow> string \<Rightarrow> int \<Rightarrow> sqlval list \<Rightarrow> bool" where
  "has_key u n x row \<longleftrightarrow> length row = length package_columns \<and> cell_int row 0 = u \<and> cell_text row 1 = n \<and> cell_int row 7 = x"

text \<open>What the code relies on: a store opens, opening and setting the journal mode leave the rows; an
update changes the named cells of the rows its condition names and answers their number; an insertion
appends; a query by user answers the user's rows.\<close>

locale package_store =
  fixes E :: "'s db_env" and rows :: "string \<Rightarrow> string \<Rightarrow> 's \<Rightarrow> sqlval list list"
  assumes opens: "fst (de_open E path st)"
    and opened: "rows f t (snd (de_open E path st)) = rows f t st"
    and pragma: "rows f t (snd (de_execute E g ''PRAGMA journal_mode = WAL;'' st)) = rows f t st"
    and update_count: "fst (de_update E f t b ''userId = ? and bundleName = ? and uid = ?''
        [int_to_string u, n, int_to_string x] st) = Some (int (length (filter (has_key u n x) (rows f t st))))"
    and update_rows: "rows f t (snd (de_update E f t b ''userId = ? and bundleName = ? and uid = ?''
        [int_to_string u, n, int_to_string x] st)) =
        map (\<lambda>row. if has_key u n x row then set_cells package_columns b row else row) (rows f t st)"
    and insert_rows: "rows f t (de_batchInsert E f t bs st) = rows f t st @ map (row_of_bucket package_columns) bs"
    and query_rows: "\<exists>rs. de_query E f (''select * from '' @ t @ '' where userId = ?'') [int_to_string u] st = Some rs \<and>
        rs_rows rs = filter (\<lambda>row. cell_int row 0 = u) (rows f t st)"
begin

lemma GetStore:
  "fst (GetBundleActiveRdbStore E i d) \<and>
   rows f t (db_stores (snd (GetBundleActiveRdbStore E i d))) = rows f t (db_stores d)"
  using opens opened pragma
  by (simp add: GetBundleActiveRdbStore_def Let_def case_prod_beta)

end

text \<open>What a record keeps in the store.\<close>

definition stored_usage :: "package_stats \<Rightarrow> package_stats" where
  "stored_usage st = PackageStats_default \<lparr> pk_bundleName := pk_bundleName st, pk_startCount := pk_startCount st,
     pk_lastTimeUsed := pk_lastTimeUsed st, pk_lastContiniousTaskUsed := pk_lastContiniousTaskUsed st,
     pk_totalInFrontTime := pk_totalInFrontTime st,
     pk_totalContiniousTaskUsedTime := pk_totalContiniousTaskUsedTime st, pk_uid := pk_uid st \<rparr>"

text \<open>The time one millisecond before the table's beginning would read back as never.\<close>

definition storable :: "int \<Rightarrow> package_stats \<Rightarrow> bool" where
  "storable b st \<longleftrightarrow> pk_lastTimeUsed st \<noteq> b - 1 \<and> pk_lastContiniousTaskUsed st \<noteq> b - 1"

lemma relative_roundtrip: "t \<noteq> b - 1 \<Longrightarrow> from_relative b (to_relative b t) = t"
  by (auto simp: from_relative_def to_relative_def)

lemma inserted_row:
  assumes "storable b st"
  shows "has_key u (pk_bundleName st) (pk_uid st) (row_of_bucket package_columns (put_values (usage_keys u st) (usage_values b st))) \<and>
    usage_of_row b (row_of_bucket package_columns (put_values (usage_keys u st) (usage_values b st))) = stored_usage st"
  using assms
  by (simp add: has_key_def row_of_bucket_def package_columns_def usage_keys_def usage_values_def put_values_def
      put_value_def cell_int_def cell_text_def usage_of_row_def stored_usage_def storable_def relative_roundtrip)

lemma updated_row:
  assumes "has_key u n x row" "n = pk_bundleName st" "x = pk_uid st" "storable b st"
  shows "has_key u n x (set_cells package_columns (usage_values b st) row) \<and>
    usage_of_row b (set_cells package_columns (usage_values b st) row) = stored_usage st"
proof -
  obtain c0 c1 c2 c3 c4 c5 c6 c7 where row: "row = [c0, c1, c2, c3, c4, c5, c6, c7]"
    using assms(1) by (auto simp: has_key_def package_columns_def length_Suc_conv)
  show ?thesis
    using assms unfolding row
    by (simp add: has_key_def set_cells_def package_columns_def usage_values_def put_values_def put_value_def
        cell_int_def cell_text_def usage_of_row_def stored_usage_def storable_def relative_roundtrip)
qed

lemma set_cells_key: "length row = length package_columns \<Longrightarrow>
  has_key u n x (set_cells package_columns (usage_values b st) row) = has_key u n x row"
  by (auto simp: has_key_def set_cells_def package_columns_def usage_values_def put_values_def put_value_def
      cell_int_def cell_text_def length_Suc_conv)

lemma has_key_unique: "has_key u n x row \<Longrightarrow> has_key u' n' x' row \<longleftrightarrow> u' = u \<and> n' = n \<and> x' = x"
  by (auto simp: has_key_def)

definition usage_row :: "period_stats \<Rightarrow> package_stats \<Rightarrow> bucket" where
  "usage_row p st = put_values (usage_keys (pd_userId p) st) (usage_values (pd_beginTime p) st)"

definition usage_table :: "period_stats \<Rightarrow> string" where
  "usage_table p = PACKAGE_LOG_TABLE @ int_to_string (pd_beginTime p)"

abbreviation (input) usage_key :: "period_stats \<Rightarrow> package_stats \<Rightarrow> sqlval list \<Rightarrow> bool" where
  "usage_key p st \<equiv> has_key (pd_userId p) (pk_bundleName st) (pk_uid st)"

lemma usage_row_key:
  "storable (pd_beginTime p) st \<Longrightarrow> has_key u n x (row_of_bucket package_columns (usage_row p st)) \<longleftrightarrow>
    u = pd_userId p \<and> n = pk_bundleName st \<and> x = pk_uid st"
  using inserted_row [of "pd_beginTime p" st "pd_userId p"] has_key_unique
  unfolding usage_row_def by blast

context package_store
begin

text \<open>The rows of the period's table, followed by the rows that wait for their insertion.\<close>

definition content :: "nat \<Rightarrow> period_stats \<Rightarrow> bucket list \<Rightarrow> 's database \<Rightarrow> sqlval list list" where
  "content i p kept d = rows (db_files d ! i) (usage_table p) (db_stores d) @ map (row_of_bucket package_columns) kept"

lemma put_usage_cases:
  assumes "put_usage E i p st (c, kept, d) = (c', kept', d')"
  defines "R \<equiv> rows (db_files d ! i) (usage_table p) (db_stores d)"
  shows "db_files d' = db_files d" and
    "if filter (usage_key p st) R = []
     then kept' = kept @ [usage_row p st] \<and> rows (db_files d ! i) (usage_table p) (db_stores d') = R
     else kept' = kept \<and> rows (db_files d ! i) (usage_table p) (db_stores d') =
       map (\<lambda>row. if usage_key p st row then set_cells package_columns (usage_values (pd_beginTime p) st) row else row) R"
proof -
  note e = assms(1) [unfolded put_usage_def update_or_keep_def usage_table_def [symmetric]]
  let ?upd = "de_update E (db_files d ! i) (usage_table p) (usage_values (pd_beginTime p) st)
    ''userId = ? and bundleName = ? and uid = ?''
    [int_to_string (pd_userId p), pk_bundleName st, int_to_string (pk_uid st)] (db_stores d)"
  have "fst ?upd = Some (int (length (filter (usage_key p st) R)))"
    unfolding R_def by (rule update_count)
  moreover have "rows (db_files d ! i) (usage_table p) (snd ?upd) =
      map (\<lambda>row. if usage_key p st row then set_cells package_columns (usage_values (pd_beginTime p) st) row else row) R"
    unfolding R_def by (rule update_rows)
  moreover have "map (\<lambda>row. if usage_key p st row then g row else row) R = R" if "filter (usage_key p st) R = []" for g
    using that by (intro map_idI) (auto simp: filter_empty_conv)
  ultimately show "db_files d' = db_files d" and
    "if filter (usage_key p st) R = []
     then kept' = kept @ [usage_row p st] \<and> rows (db_files d ! i) (usage_table p) (db_stores d') = R
     else kept' = kept \<and> rows (db_files d ! i) (usage_table p) (db_stores d') =
       map (\<lambda>row. if usage_key p st row then set_cells package_columns (usage_values (pd_beginTime p) st) row else row) R"
    using e by (auto simp: case_prod_beta Let_def usage_row_def split: if_splits)
qed

lemma filter_other_key:
  assumes "\<not> (u = pd_userId p \<and> n = pk_bundleName st \<and> x = pk_uid st)"
  shows "filter (has_key u n x) (map (\<lambda>row. if usage_key p st row
      then set_cells package_columns (usage_values (pd_beginTime p) st) row else row) R) = filter (has_key u n x) R"
proof (induction R)
  case (Cons row R)
  show ?case
  proof (cases "usage_key p st row")
    case True
    then have "length row = length package_columns" by (simp add: has_key_def)
    then show ?thesis
      using Cons True assms has_key_unique [OF True, of u n x] set_cells_key [of row u n x] by auto
  qed (use Cons in simp)
qed simp

lemma filter_own_key:
  assumes "storable (pd_beginTime p) st"
  shows "\<forall>row \<in> set (filter (usage_key p st) (map (\<lambda>row. if usage_key p st row
      then set_cells package_columns (usage_values (pd_beginTime p) st) row else row) R)).
      usage_of_row (pd_beginTime p) row = stored_usage st"
  using updated_row [OF _ refl refl assms] by auto

lemma filter_own_nonempty:
  assumes "storable (pd_beginTime p) st" "filter (usage_key p st) R \<noteq> []"
  shows "filter (usage_key p st) (map (\<lambda>row. if usage_key p st row
      then set_cells package_columns (usage_values (pd_beginTime p) st) row else row) R) \<noteq> []"
  using assms(2) updated_row [OF _ refl refl assms(1)] by (auto simp: filter_empty_conv)

lemma flush_records:
  assumes "fold (put_usage E i p) sts (c, kept, d) = (c', kept', d')"
    and "distinct (map (\<lambda>st. (pk_bundleName st, pk_uid st)) sts)" "\<forall>st \<in> set sts. storable (pd_beginTime p) st"
    and "\<forall>b \<in> set kept. \<forall>st \<in> set sts. \<not> usage_key p st (row_of_bucket package_columns b)"
  shows "db_files d' = db_files d \<and>
    (\<forall>u n x. (\<forall>st \<in> set sts. \<not> (u = pd_userId p \<and> n = pk_bundleName st \<and> x = pk_uid st)) \<longrightarrow>
      filter (has_key u n x) (content i p kept' d') = filter (has_key u n x) (content i p kept d)) \<and>
    (\<forall>st \<in> set sts. filter (usage_key p st) (content i p kept' d') \<noteq> [] \<and>
      (\<forall>row \<in> set (filter (usage_key p st) (content i p kept' d')). usage_of_row (pd_beginTime p) row = stored_usage st))"
  using assms
proof (induction sts arbitrary: c kept d)
  case (Cons st sts)
  obtain c1 kept1 d1 where 1: "put_usage E i p st (c, kept, d) = (c1, kept1, d1)" by (metis prod_cases3)
  let ?R = "rows (db_files d ! i) (usage_table p) (db_stores d)"
  let ?set = "map (\<lambda>row. if usage_key p st row then set_cells package_columns (usage_values (pd_beginTime p) st) row else row)"
  note step = put_usage_cases [OF 1]
  have st: "storable (pd_beginTime p) st" using Cons.prems(3) by simp
  have nokept: "filter (usage_key p st) (map (row_of_bucket package_columns) kept) = []"
    using Cons.prems(4) by (auto simp: filter_empty_conv)
  have other: "\<not> (pk_bundleName st' = pk_bundleName st \<and> pk_uid st' = pk_uid st)" if "st' \<in> set sts" for st'
  proof
    assume "pk_bundleName st' = pk_bundleName st \<and> pk_uid st' = pk_uid st"
    then have "(pk_bundleName st, pk_uid st) \<in> (\<lambda>st. (pk_bundleName st, pk_uid st)) ` set sts"
      using that by (intro image_eqI [of _ _ st']) simp_all
    then show False using Cons.prems(2) by simp
  qed
  have kept1: "\<forall>b \<in> set kept1. \<forall>st' \<in> set sts. \<not> usage_key p st' (row_of_bucket package_columns b)"
    using step(2) Cons.prems(4) usage_row_key [OF st] other by (auto split: if_splits)
  have frame1: "filter (has_key u n x) (content i p kept1 d1) = filter (has_key u n x) (content i p kept d)"
    if "\<not> (u = pd_userId p \<and> n = pk_bundleName st \<and> x = pk_uid st)" for u n x
    using step that usage_row_key [OF st, of u n x] filter_other_key [OF that, of ?R]
    by (cases "filter (usage_key p st) ?R = []") (auto simp: content_def)
  have own1: "filter (usage_key p st) (content i p kept1 d1) \<noteq> [] \<and>
      (\<forall>row \<in> set (filter (usage_key p st) (content i p kept1 d1)). usage_of_row (pd_beginTime p) row = stored_usage st)"
  proof (cases "filter (usage_key p st) ?R = []")
    case True
    then have "filter (usage_key p st) (content i p kept1 d1) = [row_of_bucket package_columns (usage_row p st)]"
      using step nokept usage_row_key [OF st] by (simp add: content_def)
    then show ?thesis
      using inserted_row [OF st, of "pd_userId p"] by (simp add: usage_row_def)
  next
    case False
    then have "filter (usage_key p st) (content i p kept1 d1) = filter (usage_key p st) (?set ?R)"
      using step nokept by (simp add: content_def)
    then show ?thesis
      using filter_own_key [OF st] filter_own_nonempty [OF st False] by simp
  qed
  have f: "fold (put_usage E i p) sts (c1, kept1, d1) = (c', kept', d')"
    using Cons.prems(1) 1 by simp
  have "distinct (map (\<lambda>st. (pk_bundleName st, pk_uid st)) sts)" "\<forall>st \<in> set sts. storable (pd_beginTime p) st"
    using Cons.prems(2,3) by simp_all
  note ih = Cons.IH [OF f this kept1]
  have own: "filter (usage_key p st) (content i p kept' d') = filter (usage_key p st) (content i p kept1 d1)"
    by (rule ih [THEN conjunct2, THEN conjunct1, rule_format]) (use other in metis)
  show ?case
  proof (intro conjI)
    show "db_files d' = db_files d" using ih step(1) by simp
    show "\<forall>u n x. (\<forall>st \<in> set (st # sts). \<not> (u = pd_userId p \<and> n = pk_bundleName st \<and> x = pk_uid st)) \<longrightarrow>
        filter (has_key u n x) (content i p kept' d') = filter (has_key u n x) (content i p kept d)"
      using ih frame1 by auto
    show "\<forall>st \<in> set (st # sts). filter (usage_key p st) (content i p kept' d') \<noteq> [] \<and>
        (\<forall>row \<in> set (filter (usage_key p st) (content i p kept' d')). usage_of_row (pd_beginTime p) row = stored_usage st)"
    proof
      fix st' assume "st' \<in> set (st # sts)"
      then consider "st' = st" | "st' \<in> set sts" by auto
      then show "filter (usage_key p st') (content i p kept' d') \<noteq> [] \<and>
          (\<forall>row \<in> set (filter (usage_key p st') (content i p kept' d')). usage_of_row (pd_beginTime p) row = stored_usage st')"
      proof cases
        case 1
        show ?thesis unfolding 1 by (rule own1 [folded own])
      next
        case 2
        then show ?thesis by (rule ih [THEN conjunct2, THEN conjunct2, rule_format])
      qed
    qed
  qed
qed simp

end

section \<open>Saving and loading\<close>

lemma update_or_keep_same:
  "update_or_keep E i t v w a ks (c, kept, d) = (c', kept', d') \<Longrightarrow> same_object d d'"
  by (auto simp: update_or_keep_def case_prod_beta Let_def split: if_splits)

lemma put_usage_fold_same: "fold (put_usage E i p) sts (c, kept, d) = (c', kept', d') \<Longrightarrow> same_object d d'"
proof (induction sts arbitrary: c kept d)
  case (Cons st sts)
  obtain c1 kept1 d1 where 1: "put_usage E i p st (c, kept, d) = (c1, kept1, d1)" by (metis prod_cases3)
  then have "same_object d d1" unfolding put_usage_def by (rule update_or_keep_same)
  moreover have "same_object d1 d'" using Cons 1 by auto
  ultimately show ?case by (rule same_object_trans)
qed simp

lemma BatchInsert_same: "same_object d (BatchInsert E i bs t d)"
  by (simp add: BatchInsert_def)

text \<open>The records that are written.\<close>

definition active_records :: "period_stats \<Rightarrow> package_stats list" where
  "active_records p = filter (\<lambda>st. \<not> never_active st) (map snd (pd_bundleStats p))"

lemma fold_active:
  "fold (\<lambda>(k, st) cbd. if never_active st then cbd else put_usage E i p st cbd) kvs cbd =
   fold (put_usage E i p) (filter (\<lambda>st. \<not> never_active st) (map snd kvs)) cbd"
  by (induction kvs arbitrary: cbd) auto

lemma Flush_steps:
  assumes "fst (GetBundleActiveRdbStore E i d)"
  obtains c kept d2 where
    "fold (put_usage E i p) (active_records p) (BUNDLE_ACTIVE_FAIL, [], snd (GetBundleActiveRdbStore E i d)) = (c, kept, d2)"
    "FlushPackageInfo E i p d = BatchInsert E i kept (usage_table p) d2"
proof -
  obtain d1 where g: "GetBundleActiveRdbStore E i d = (True, d1)"
    using assms by (cases "GetBundleActiveRdbStore E i d") auto
  obtain c kept d2 where f: "fold (put_usage E i p) (active_records p) (BUNDLE_ACTIVE_FAIL, [], d1) = (c, kept, d2)"
    by (metis prod_cases3)
  have "FlushPackageInfo E i p d = BatchInsert E i kept (usage_table p) d2"
  proof (cases "pd_bundleStats p = []")
    case True
    then show ?thesis using f g by (simp add: FlushPackageInfo_def active_records_def BatchInsert_def)
  next
    case False
    then show ?thesis
      using f g by (simp add: FlushPackageInfo_def fold_active active_records_def usage_table_def)
  qed
  then show ?thesis using that f g by simp
qed

lemma FlushPackageInfo_same: "same_object d (FlushPackageInfo E i p d)"
proof (cases "fst (GetBundleActiveRdbStore E i d)")
  case True
  obtain c kept d2 where s:
    "fold (put_usage E i p) (active_records p) (BUNDLE_ACTIVE_FAIL, [], snd (GetBundleActiveRdbStore E i d)) = (c, kept, d2)"
    "FlushPackageInfo E i p d = BatchInsert E i kept (usage_table p) d2"
    using Flush_steps [OF True] by blast
  show ?thesis
    using same_object_trans [OF GetStore_same same_object_trans [OF put_usage_fold_same [OF s(1)] BatchInsert_same]] s(2)
    by simp
next
  case False
  then obtain d1 where g: "GetBundleActiveRdbStore E i d = (False, d1)"
    by (cases "GetBundleActiveRdbStore E i d") auto
  then show ?thesis
    using GetStore_same [of d E i] by (simp add: FlushPackageInfo_def)
qed

lemma active_records_distinct:
  assumes "PeriodStats_inv (p, um)"
  shows "distinct (map (\<lambda>st. GetBundleUsageKey (pk_bundleName st) (pk_uid st)) (active_records p)) \<and>
    distinct (map (\<lambda>st. (pk_bundleName st, pk_uid st)) (active_records p))"
proof -
  let ?k = "\<lambda>st. GetBundleUsageKey (pk_bundleName st) (pk_uid st)"
  have inv: "distinct (map fst (pd_bundleStats p))" "\<forall>(k, st) \<in> set (pd_bundleStats p). k = ?k st"
    using assms om_wf_distinct by (auto simp: PeriodStats_inv_def)
  have "map (?k \<circ> snd) (pd_bundleStats p) = map fst (pd_bundleStats p)"
    by (rule map_cong [OF refl]) (use inv(2) in auto)
  then have "distinct (map ?k (map snd (pd_bundleStats p)))"
    using inv(1) unfolding map_map by (rule ssubst)
  then have keys: "distinct (map ?k (active_records p))"
    unfolding active_records_def by (rule distinct_map_filter)
  have "map ?k (active_records p) =
      map (\<lambda>(n, u). GetBundleUsageKey n u) (map (\<lambda>st. (pk_bundleName st, pk_uid st)) (active_records p))"
    by simp
  then have "distinct (map (\<lambda>(n, u). GetBundleUsageKey n u) (map (\<lambda>st. (pk_bundleName st, pk_uid st)) (active_records p)))"
    using keys by (simp only:)
  then have "distinct (map (\<lambda>st. (pk_bundleName st, pk_uid st)) (active_records p))"
    by (rule distinct_map [THEN iffD1, THEN conjunct1])
  then show ?thesis using keys by simp
qed

context package_store
begin

lemma flush_fresh:
  assumes "fold (put_usage E i p) sts (c, kept, d) = (c', kept', d')"
    and "\<forall>row \<in> set (rows (db_files d ! i) (usage_table p) (db_stores d)). cell_int row 0 \<noteq> pd_userId p"
  shows "kept' = kept @ map (usage_row p) sts \<and> db_files d' = db_files d \<and>
    rows (db_files d ! i) (usage_table p) (db_stores d') = rows (db_files d ! i) (usage_table p) (db_stores d)"
  using assms
proof (induction sts arbitrary: c kept d)
  case (Cons st sts)
  obtain c1 kept1 d1 where 1: "put_usage E i p st (c, kept, d) = (c1, kept1, d1)" by (metis prod_cases3)
  have none: "filter (usage_key p st) (rows (db_files d ! i) (usage_table p) (db_stores d)) = []"
    using Cons.prems(2) by (auto simp: filter_empty_conv has_key_def)
  have s: "db_files d1 = db_files d" "kept1 = kept @ [usage_row p st]"
    "rows (db_files d ! i) (usage_table p) (db_stores d1) = rows (db_files d ! i) (usage_table p) (db_stores d)"
    using put_usage_cases [OF 1] none by simp_all
  have "fold (put_usage E i p) sts (c1, kept1, d1) = (c', kept', d')"
    using Cons.prems(1) 1 by simp
  from Cons.IH [OF this] show ?case
    using s Cons.prems(2) by simp
qed simp

lemma BatchInsert_rows:
  "rows (db_files d ! i) t (db_stores (BatchInsert E i bs t d)) =
   rows (db_files d ! i) t (db_stores d) @ map (row_of_bucket package_columns) bs"
  using insert_rows by (simp add: BatchInsert_def)

text \<open>Writing a period changes the rows of its active records and no other row.\<close>

lemma flush_exact:
  fixes i :: nat and d :: "'s database" and p :: period_stats
  assumes "PeriodStats_inv (p, um)" "\<forall>st \<in> set (active_records p). storable (pd_beginTime p) st"
  defines "R \<equiv> rows (db_files d ! i) (usage_table p) (db_stores d)"
    and "R' \<equiv> rows (db_files d ! i) (usage_table p) (db_stores (FlushPackageInfo E i p d))"
  shows "(\<forall>st \<in> set (active_records p). filter (usage_key p st) R' \<noteq> [] \<and>
      (\<forall>row \<in> set (filter (usage_key p st) R'). usage_of_row (pd_beginTime p) row = stored_usage st)) \<and>
    (\<forall>u n x. (\<forall>st \<in> set (active_records p). \<not> (u = pd_userId p \<and> n = pk_bundleName st \<and> x = pk_uid st)) \<longrightarrow>
      filter (has_key u n x) R' = filter (has_key u n x) R)"
proof -
  have open_ok: "fst (GetBundleActiveRdbStore E i d)" using GetStore by blast
  let ?d1 = "snd (GetBundleActiveRdbStore E i d)"
  have files: "db_files ?d1 = db_files d"
    using same_object_fields [OF GetStore_same] by blast
  obtain c kept d2 where s: "fold (put_usage E i p) (active_records p) (BUNDLE_ACTIVE_FAIL, [], ?d1) = (c, kept, d2)"
    "FlushPackageInfo E i p d = BatchInsert E i kept (usage_table p) d2"
    using Flush_steps [OF open_ok] by blast
  have "db_files d2 = db_files ?d1"
    using same_object_fields [OF put_usage_fold_same [OF s(1)]] by blast
  then have R': "R' = content i p kept d2"
    using BatchInsert_rows [of d2 i "usage_table p" kept] files s(2) by (simp add: R'_def content_def)
  have R: "R = content i p [] ?d1"
    using GetStore files by (simp add: R_def content_def)
  have no_kept: "\<forall>b \<in> set []. \<forall>st \<in> set (active_records p). \<not> usage_key p st (row_of_bucket package_columns b)"
    by simp
  show ?thesis
    unfolding R R' using flush_records [OF s(1) _ assms(2) no_kept] active_records_distinct [OF assms(1)] by blast
qed

lemma flush_then_query:
  assumes "\<forall>row \<in> set (rows (db_files d ! i) (usage_table p) (db_stores d)). cell_int row 0 \<noteq> pd_userId p"
  shows "\<exists>rs. fst (QueryStatsInfoByStep E i (''select * from '' @ usage_table p @ '' where userId = ?'')
        [int_to_string (pd_userId p)] (FlushPackageInfo E i p d)) = Some rs \<and>
      rs_rows rs = map (\<lambda>st. row_of_bucket package_columns (usage_row p st)) (active_records p)"
proof -
  have open_ok: "fst (GetBundleActiveRdbStore E i d)" using GetStore by blast
  let ?d1 = "snd (GetBundleActiveRdbStore E i d)" and ?d' = "FlushPackageInfo E i p d"
  have files: "db_files ?d1 = db_files d"
    using same_object_fields [OF GetStore_same] by blast
  obtain c kept d2 where s: "fold (put_usage E i p) (active_records p) (BUNDLE_ACTIVE_FAIL, [], ?d1) = (c, kept, d2)"
    "?d' = BatchInsert E i kept (usage_table p) d2"
    using Flush_steps [OF open_ok] by blast
  have fresh: "kept = map (usage_row p) (active_records p) \<and> db_files d2 = db_files d \<and>
      rows (db_files d ! i) (usage_table p) (db_stores d2) = rows (db_files d ! i) (usage_table p) (db_stores d)"
    using flush_fresh [OF s(1)] GetStore assms files by simp
  have "rows (db_files d ! i) (usage_table p) (db_stores ?d') = rows (db_files d ! i) (usage_table p) (db_stores d) @
      map (\<lambda>st. row_of_bucket package_columns (usage_row p st)) (active_records p)"
    using BatchInsert_rows [of d2 i "usage_table p" kept] fresh s(2) by simp
  moreover have "cell_int (row_of_bucket package_columns (usage_row p st)) 0 = pd_userId p" for st
    by (simp add: usage_row_def row_of_bucket_def package_columns_def usage_keys_def usage_values_def put_values_def
        put_value_def cell_int_def)
  ultimately have user: "filter (\<lambda>row. cell_int row 0 = pd_userId p) (rows (db_files d ! i) (usage_table p) (db_stores ?d')) =
      map (\<lambda>st. row_of_bucket package_columns (usage_row p st)) (active_records p)"
    using assms by (simp add: filter_empty_conv filter_map comp_def)
  let ?d3 = "snd (GetBundleActiveRdbStore E i ?d')"
  have f3: "db_files ?d3 = db_files d"
    using same_object_fields [OF same_object_trans [OF FlushPackageInfo_same GetStore_same]] by blast
  obtain rs where rs: "de_query E (db_files d ! i) (''select * from '' @ usage_table p @ '' where userId = ?'')
      [int_to_string (pd_userId p)] (db_stores ?d3) = Some rs"
    "rs_rows rs = filter (\<lambda>row. cell_int row 0 = pd_userId p) (rows (db_files d ! i) (usage_table p) (db_stores ?d3))"
    using query_rows by blast
  have "fst (GetBundleActiveRdbStore E i ?d')" using GetStore by blast
  then have "fst (QueryStatsInfoByStep E i (''select * from '' @ usage_table p @ '' where userId = ?'')
        [int_to_string (pd_userId p)] ?d') = Some rs"
    using rs(1) f3 by (auto simp: QueryStatsInfoByStep_def split: prod.splits bool.splits)
  then show ?thesis
    using rs(2) user GetStore [of i ?d'] by auto
qed

end

abbreviation (input) record_key :: "package_stats \<Rightarrow> string" where
  "record_key st \<equiv> GetBundleUsageKey (pk_bundleName st) (pk_uid st)"

lemma om_insert_new_fold:
  "om_find (fold (\<lambda>st. om_insert_new (record_key st) (f st)) sts m) k =
   (case om_find m k of Some v \<Rightarrow> Some v | None \<Rightarrow> map_option f (find (\<lambda>st. record_key st = k) sts))"
  by (induction sts arbitrary: m) (auto simp: om_insert_new_def split: option.splits)

lemma find_active:
  assumes "distinct (map fst xs)" "\<forall>(k, st) \<in> set xs. k = record_key st"
  shows "find (\<lambda>st. record_key st = k) (filter P (map snd xs)) =
    (case om_find xs k of Some st \<Rightarrow> if P st then Some st else None | None \<Rightarrow> None)"
  using assms
proof (induction xs)
  case (Cons x xs)
  obtain k' st where x: "x = (k', st)" by force
  then have "om_find xs k' = None" "k' = record_key st"
    using Cons.prems by (auto simp: map_of_eq_None_iff)
  then show ?case
    using Cons by (auto simp: x)
qed simp

lemma stored_row:
  "storable (pd_beginTime p) st \<Longrightarrow>
   usage_of_row (pd_beginTime p) (row_of_bucket package_columns (usage_row p st)) = stored_usage st"
  using inserted_row [of "pd_beginTime p" st "pd_userId p"] by (simp add: usage_row_def)

lemma stored_usage_key [simp]: "pk_bundleName (stored_usage st) = pk_bundleName st" "pk_uid (stored_usage st) = pk_uid st"
  by (simp_all add: stored_usage_def)

lemma load_rows:
  assumes "\<forall>st \<in> set sts. storable (pd_beginTime p) st" "pd_userId q = pd_userId p"
    and "fold (load_usage_row (pd_beginTime p)) (map (\<lambda>st. row_of_bucket package_columns (usage_row p st)) sts) (q, um) = (q', um')"
  shows "pd_bundleStats q' = fold (\<lambda>st. om_insert_new (record_key st) (stored_usage st)) sts (pd_bundleStats q) \<and>
    pd_userId q' = pd_userId p \<and> pd_beginTime q' = pd_beginTime q \<and>
    uid_rel um' = (\<lambda>st. (pk_bundleName st, pk_uid st)) ` set sts \<union> uid_rel um"
  using assms
proof (induction sts arbitrary: q um)
  case (Cons st sts)
  let ?row = "row_of_bucket package_columns (usage_row p st)"
  have "cell_int ?row 0 = pd_userId p"
    by (simp add: usage_row_def row_of_bucket_def package_columns_def usage_keys_def usage_values_def put_values_def
        put_value_def cell_int_def)
  then have step: "load_usage_row (pd_beginTime p) ?row (q, um) =
      (q \<lparr> pd_userId := pd_userId p, pd_bundleStats := om_insert_new (record_key st) (stored_usage st) (pd_bundleStats q) \<rparr>,
       InsertPackageUid (pk_bundleName st) (pk_uid st) um)"
    using Cons.prems(1) by (simp add: load_usage_row_def stored_row GetBundleUsageKey_def)
  then have "fold (load_usage_row (pd_beginTime p)) (map (\<lambda>st. row_of_bucket package_columns (usage_row p st)) sts)
      (q \<lparr> pd_userId := pd_userId p, pd_bundleStats := om_insert_new (record_key st) (stored_usage st) (pd_bundleStats q) \<rparr>,
       InsertPackageUid (pk_bundleName st) (pk_uid st) um) = (q', um')"
    using Cons.prems(3) by simp
  from Cons.IH [OF _ _ this] show ?case
    using Cons.prems(1) by simp
qed simp

lemma GetCurrent_steps:
  assumes "i < length (db_sortedTableArray d)" "db_sortedTableArray d ! i \<noteq> []" "last (db_sortedTableArray d ! i) = t"
    and "fst (QueryStatsInfoByStep E i (''select * from '' @ (PACKAGE_LOG_TABLE @ int_to_string t) @ '' where userId = ?'')
        [int_to_string u] d) = Some rs"
    and "GetCurrentBundleStats t rs (PeriodStats_new u t, um) = (q, um1)"
  shows "\<exists>d'. GetCurrentUsageData E (int i) u (um, d) =
    (Some (q \<lparr> pd_lastTimeSaved := GetSystemTimeMs (de_now E) \<rparr>), um1, d')"
  using assms
  by (cases "QueryStatsInfoByStep E i (''select * from '' @ (PACKAGE_LOG_TABLE @ int_to_string t) @ '' where userId = ?'')
        [int_to_string u] d") (simp add: GetCurrentUsageData_def Let_def)

context package_store
begin

lemma save_then_load:
  fixes i :: nat and d :: "'s database" and p :: period_stats
  assumes "PeriodStats_inv (p, um)" "\<forall>st \<in> set (active_records p). storable (pd_beginTime p) st"
    and "i < length (db_sortedTableArray d)" "db_sortedTableArray d ! i \<noteq> []"
      "last (db_sortedTableArray d ! i) = pd_beginTime p"
    and "\<forall>row \<in> set (rows (db_files d ! i) (usage_table p) (db_stores d)). cell_int row 0 \<noteq> pd_userId p"
  shows "\<exists>q um' d'. GetCurrentUsageData E (int i) (pd_userId p) (um0, FlushPackageInfo E i p d) = (Some q, um', d') \<and>
    pd_userId q = pd_userId p \<and> pd_beginTime q = pd_beginTime p \<and>
    uid_rel um' = (\<lambda>st. (pk_bundleName st, pk_uid st)) ` set (active_records p) \<union> uid_rel um0 \<and>
    (\<forall>k. om_find (pd_bundleStats q) k =
      (case om_find (pd_bundleStats p) k of
         Some st \<Rightarrow> if never_active st then None else Some (stored_usage st)
       | None \<Rightarrow> None))"
proof -
  let ?d = "FlushPackageInfo E i p d" and ?sts = "active_records p"
  have arr: "db_sortedTableArray ?d = db_sortedTableArray d"
    using same_object_fields [OF FlushPackageInfo_same] by blast
  obtain rs where rs: "fst (QueryStatsInfoByStep E i (''select * from '' @ usage_table p @ '' where userId = ?'')
        [int_to_string (pd_userId p)] ?d) = Some rs"
      "rs_rows rs = map (\<lambda>st. row_of_bucket package_columns (usage_row p st)) ?sts"
    using flush_then_query [OF assms(6)] by blast
  obtain q um1 where q: "GetCurrentBundleStats (pd_beginTime p) rs (PeriodStats_new (pd_userId p) (pd_beginTime p), um0) = (q, um1)"
    by fastforce
  then have f: "fold (load_usage_row (pd_beginTime p)) (map (\<lambda>st. row_of_bucket package_columns (usage_row p st)) ?sts)
      (PeriodStats_new (pd_userId p) (pd_beginTime p), um0) = (q, um1)"
    by (simp add: GetCurrentBundleStats_def rs(2))
  have l: "pd_bundleStats q = fold (\<lambda>st. om_insert_new (record_key st) (stored_usage st)) ?sts [] \<and>
      pd_userId q = pd_userId p \<and> pd_beginTime q = pd_beginTime p \<and>
      uid_rel um1 = (\<lambda>st. (pk_bundleName st, pk_uid st)) ` set ?sts \<union> uid_rel um0"
    using load_rows [OF assms(2) _ f] by (simp add: PeriodStats_new_def)
  obtain d' where g: "GetCurrentUsageData E (int i) (pd_userId p) (um0, ?d) =
      (Some (q \<lparr> pd_lastTimeSaved := GetSystemTimeMs (de_now E) \<rparr>), um1, d')"
    using GetCurrent_steps [of i ?d "pd_beginTime p" E "pd_userId p" rs um0 q um1] arr assms(3-5) rs(1) q
    by (auto simp: usage_table_def)
  have inv: "distinct (map fst (pd_bundleStats p))" "\<forall>(k, st) \<in> set (pd_bundleStats p). k = record_key st"
    using assms(1) om_wf_distinct by (auto simp: PeriodStats_inv_def)
  have "om_find (pd_bundleStats q) k = (case om_find (pd_bundleStats p) k of
      Some st \<Rightarrow> if never_active st then None else Some (stored_usage st) | None \<Rightarrow> None)" for k
    using l om_insert_new_fold [of stored_usage ?sts "[]" k] find_active [OF inv, of k "\<lambda>st. \<not> never_active st"]
    unfolding active_records_def by (auto split: option.splits)
  then show ?thesis
    using g l by auto
qed

end

section \<open>The store as the user service's database\<close>

lemma om_insert_new_subset: "set (om_insert_new k v m) \<subseteq> insert (k, v) (set m)"
  using om_insert_subset [of k v m] by (cases "om_find m k") (auto simp: om_insert_new_def)

lemma load_row_inv:
  assumes "PeriodStats_inv (q, um)" "0 \<le> cell_int row 5" "0 \<le> cell_int row 6"
  shows "PeriodStats_inv (load_usage_row t row (q, um)) \<and> pd_events (fst (load_usage_row t row (q, um))) = pd_events q \<and>
    uid_rel um \<subseteq> uid_rel (snd (load_usage_row t row (q, um)))"
proof -
  let ?st = "usage_of_row t row"
  let ?um = "InsertPackageUid (pk_bundleName ?st) (pk_uid ?st) um"
  let ?m = "om_insert_new (pk_bundleName ?st @ int_to_string (pk_uid ?st)) ?st (pd_bundleStats q)"
  have inv: "PackageStats_inv ?st"
    using assms(2,3) by (simp add: PackageStats_inv_def usage_of_row_def PackageStats_default_def)
  have um: "uidmap_inv ?um" "uid_rel um \<subseteq> uid_rel ?um" "(pk_bundleName ?st, pk_uid ?st) \<in> uid_rel ?um"
    using assms(1) by (auto simp: PeriodStats_inv_def)
  have "om_wf ?m"
    using assms(1) by (auto simp: PeriodStats_inv_def om_insert_new_def split: option.splits)
  moreover have "\<forall>(k, s) \<in> set ?m. k = GetBundleUsageKey (pk_bundleName s) (pk_uid s) \<and> PackageStats_inv s \<and>
      (pk_bundleName s, pk_uid s) \<in> uid_rel ?um"
  proof -
    have "set ?m \<subseteq> insert (pk_bundleName ?st @ int_to_string (pk_uid ?st), ?st) (set (pd_bundleStats q))"
      by (rule om_insert_new_subset)
    moreover have "\<forall>(k, s) \<in> set (pd_bundleStats q). k = GetBundleUsageKey (pk_bundleName s) (pk_uid s) \<and>
        PackageStats_inv s \<and> (pk_bundleName s, pk_uid s) \<in> uid_rel um"
      using assms(1) by (simp add: PeriodStats_inv_def)
    ultimately show ?thesis
      using inv um by (fastforce simp: GetBundleUsageKey_def)
  qed
  ultimately have "PeriodStats_inv (q \<lparr> pd_userId := cell_int row 0, pd_bundleStats := ?m \<rparr>, ?um)"
    using assms(1) um(1) unfolding PeriodStats_inv_def by simp
  then show ?thesis
    using um(2) by (simp add: load_usage_row_def Let_def)
qed

lemma load_rows_inv:
  assumes "PeriodStats_inv (q, um)" "\<forall>row \<in> set rws. 0 \<le> cell_int row 5 \<and> 0 \<le> cell_int row 6"
  shows "PeriodStats_inv (fold (load_usage_row t) rws (q, um)) \<and>
    pd_events (fst (fold (load_usage_row t) rws (q, um))) = pd_events q \<and>
    uid_rel um \<subseteq> uid_rel (snd (fold (load_usage_row t) rws (q, um)))"
  using assms
proof (induction rws arbitrary: q um)
  case (Cons row rws)
  obtain q1 um1 where 1: "load_usage_row t row (q, um) = (q1, um1)" by fastforce
  have s: "PeriodStats_inv (q1, um1) \<and> pd_events q1 = pd_events q \<and> uid_rel um \<subseteq> uid_rel um1"
    using load_row_inv [OF Cons.prems(1), of row t] Cons.prems(2) 1 by simp
  then have "PeriodStats_inv (fold (load_usage_row t) rws (q1, um1)) \<and>
      pd_events (fst (fold (load_usage_row t) rws (q1, um1))) = pd_events q1 \<and>
      uid_rel um1 \<subseteq> uid_rel (snd (fold (load_usage_row t) rws (q1, um1)))"
    using Cons.IH Cons.prems(2) by simp
  then show ?case
    using s 1 by auto
qed simp

text \<open>No stored total is negative: the contract under which the database serves the user service.\<close>

locale usage_rows =
  fixes E :: "'s db_env"
  assumes totals: "de_query E f (''select * from '' @ PACKAGE_LOG_TABLE @ t @ '' where userId = ?'') args st = Some rs \<Longrightarrow>
    row \<in> set (rs_rows rs) \<Longrightarrow> 0 \<le> cell_int row 5 \<and> 0 \<le> cell_int row 6"
begin

lemma Query_totals:
  assumes "fst (QueryStatsInfoByStep E i (''select * from '' @ PACKAGE_LOG_TABLE @ t @ '' where userId = ?'') args d) = Some rs"
  shows "\<forall>row \<in> set (rs_rows rs). 0 \<le> cell_int row 5 \<and> 0 \<le> cell_int row 6"
  using assms totals by (auto simp: QueryStatsInfoByStep_def split: prod.splits bool.splits)

lemma GetCurrentUsageData_inv:
  assumes "uidmap_inv um" "GetCurrentUsageData E i u (um, d) = (r, um', d')"
  shows "uidmap_inv um' \<and> uid_rel um \<subseteq> uid_rel um' \<and> (\<forall>p. r = Some p \<longrightarrow> PeriodStats_inv (p, um') \<and> pd_events p = [])"
proof (cases "i < 0 \<or> i \<ge> int (length (db_sortedTableArray d)) \<or> db_sortedTableArray d ! nat i = []")
  case True
  then have "GetCurrentUsageData E i u (um, d) = (None, um, d)"
    by (auto simp: GetCurrentUsageData_def Let_def)
  then show ?thesis
    using assms by simp
next
  case False
  let ?t = "last (db_sortedTableArray d ! nat i)"
  let ?sql = "''select * from '' @ PACKAGE_LOG_TABLE @ int_to_string ?t @ '' where userId = ?''"
  obtain res d1 where q: "QueryStatsInfoByStep E (nat i) ?sql [int_to_string u] d = (res, d1)" by fastforce
  show ?thesis
  proof (cases res)
    case None
    then show ?thesis
      using assms False q by (auto simp: GetCurrentUsageData_def Let_def)
  next
    case (Some rs)
    obtain p um1 where p: "fold (load_usage_row ?t) (rs_rows rs) (PeriodStats_new u ?t, um) = (p, um1)" by fastforce
    have "\<forall>row \<in> set (rs_rows rs). 0 \<le> cell_int row 5 \<and> 0 \<le> cell_int row 6"
      using Query_totals [of "nat i" "int_to_string ?t" "[int_to_string u]" d rs] q Some by simp
    then have l: "PeriodStats_inv (p, um1) \<and> pd_events p = pd_events (PeriodStats_new u ?t) \<and> uid_rel um \<subseteq> uid_rel um1"
      using load_rows_inv [OF PeriodStats_inv_new [OF assms(1)], of "rs_rows rs" ?t u ?t] p by simp
    have e: "pd_events (PeriodStats_new u ?t) = []" by (simp add: PeriodStats_new_def)
    have "r = Some (p \<lparr> pd_lastTimeSaved := GetSystemTimeMs (de_now E) \<rparr>)" "um' = um1"
      using assms(2) False q Some p by (simp_all add: GetCurrentUsageData_def GetCurrentBundleStats_def Let_def)
    then show ?thesis
      using l e by (auto simp: PeriodStats_inv_def)
  qed
qed

end

section \<open>A store of lists\<close>

text \<open>A store that keeps its rows in lists and knows the statements on the usage tables; it shows that
the contracts can hold.\<close>

definition list_row_match :: "string list \<Rightarrow> sqlval list \<Rightarrow> bool" where
  "list_row_match args row \<longleftrightarrow> length row = length package_columns \<and>
     args = [int_to_string (cell_int row 0), cell_text row 1, int_to_string (cell_int row 7)]"

definition list_query ::
    "string \<Rightarrow> string \<Rightarrow> string list \<Rightarrow> (string \<times> string \<Rightarrow> sqlval list list) \<Rightarrow> result_set option" where
  "list_query f sql args st =
     (let t = take (length sql - 31) (drop 14 sql)
      in Some \<lparr> rs_columns = package_columns,
                rs_rows = filter (\<lambda>row. args = [int_to_string (cell_int row 0)]) (st (f, t)) \<rparr>)"

definition list_update ::
    "string \<Rightarrow> string \<Rightarrow> bucket \<Rightarrow> string \<Rightarrow> string list \<Rightarrow> (string \<times> string \<Rightarrow> sqlval list list) \<Rightarrow>
     int option \<times> (string \<times> string \<Rightarrow> sqlval list list)" where
  "list_update f t b cond args st =
     (Some (int (length (filter (list_row_match args) (st (f, t))))),
      st ((f, t) := map (\<lambda>row. if list_row_match args row then set_cells package_columns b row else row) (st (f, t))))"

definition list_env :: "(string \<times> string \<Rightarrow> sqlval list list) db_env" where
  "list_env = \<lparr> de_access = (\<lambda>p st. True), de_mkdir = (\<lambda>p st. (True, st)), de_open = (\<lambda>p st. (True, st)),
     de_version = (\<lambda>f st. 2), de_deleteStore = (\<lambda>p st. st), de_execute = (\<lambda>f sql st. (True, st)),
     de_query = list_query, de_update = list_update, de_delete = (\<lambda>f t c a st. st),
     de_insert = (\<lambda>f t b st. st ((f, t) := st (f, t) @ [row_of_bucket package_columns b])),
     de_batchInsert = (\<lambda>f t bs st. st ((f, t) := st (f, t) @ map (row_of_bucket package_columns) bs)),
     de_loadFile = (\<lambda>p st. ''version : 3''), de_saveFile = (\<lambda>p c st. st), de_appUid = (\<lambda>n u. 0),
     de_activeUsers = [], de_now = 0 \<rparr>"

lemma list_row_match: "list_row_match [int_to_string u, n, int_to_string x] = has_key u n x"
  by (auto simp: list_row_match_def has_key_def)

interpretation lists: package_store list_env "\<lambda>f t st. st (f, t)"
proof unfold_locales
  fix f t u and st :: "string \<times> string \<Rightarrow> sqlval list list"
  show "\<exists>rs. de_query list_env f (''select * from '' @ t @ '' where userId = ?'') [int_to_string u] st = Some rs \<and>
      rs_rows rs = filter (\<lambda>row. cell_int row 0 = u) (st (f, t))"
    by (simp add: list_env_def list_query_def eq_commute [of u])
qed (simp_all add: list_env_def list_update_def list_row_match)

text \<open>The same store with a constraint on the totals.\<close>

definition checked_env :: "(string \<times> string \<Rightarrow> sqlval list list) db_env" where
  "checked_env = list_env \<lparr> de_query := (\<lambda>f sql args st. map_option
     (\<lambda>rs. rs \<lparr> rs_rows := filter (\<lambda>row. 0 \<le> cell_int row 5 \<and> 0 \<le> cell_int row 6) (rs_rows rs) \<rparr>)
     (list_query f sql args st)) \<rparr>"

interpretation checked: usage_rows checked_env
  by unfold_locales (auto simp: checked_env_def list_env_def)

section \<open>Properties\<close>

text \<open>C3: What is saved loads again. When a period is written to its table, which holds no row of the
user, and is then read back as the current period, the loaded period has exactly the records that were
active, each under its key with its start count, last times, totals and uid; the user and the beginning
are the same, and the uids of the records are registered. Times are stored relative to the beginning;
only one millisecond before the beginning they could not be told from \<open>-1\<close>.\<close>

theorem saved_usage_loads:
  assumes "package_store E rows" "PeriodStats_inv (p, um)"
    and "\<forall>st \<in> set (active_records p). storable (pd_beginTime p) st"
    and "i < length (db_sortedTableArray d)" "db_sortedTableArray d ! i \<noteq> []"
      "last (db_sortedTableArray d ! i) = pd_beginTime p"
    and "\<forall>row \<in> set (rows (db_files d ! i) (usage_table p) (db_stores d)). cell_int row 0 \<noteq> pd_userId p"
  shows "\<exists>q um' d'. GetCurrentUsageData E (int i) (pd_userId p) (um0, FlushPackageInfo E i p d) = (Some q, um', d') \<and>
    pd_userId q = pd_userId p \<and> pd_beginTime q = pd_beginTime p \<and>
    uid_rel um' = (\<lambda>st. (pk_bundleName st, pk_uid st)) ` set (active_records p) \<union> uid_rel um0 \<and>
    (\<forall>k. om_find (pd_bundleStats q) k =
      (case om_find (pd_bundleStats p) k of
         Some st \<Rightarrow> if never_active st then None else Some (stored_usage st)
       | None \<Rightarrow> None))"
  by (rule package_store.save_then_load [OF assms])

definition demo_record :: package_stats where
  "demo_record = PackageStats_default \<lparr> pk_bundleName := ''app'', pk_uid := 7, pk_startCount := 2,
     pk_lastTimeUsed := 5000, pk_totalInFrontTime := 300 \<rparr>"

definition demo_period :: period_stats where
  "demo_period = (PeriodStats_new 100 1000) \<lparr> pd_bundleStats := [(GetBundleUsageKey ''app'' 7, demo_record)] \<rparr>"

definition demo_database :: "(string \<times> string \<Rightarrow> sqlval list list) database" where
  "demo_database = (Database_new (\<lambda>_. [])) \<lparr> db_sortedTableArray := [[1000], [], [], []] \<rparr>"

lemma demo_period_inv: "PeriodStats_inv (demo_period, InsertPackageUid ''app'' 7 [])"
  by (auto simp: PeriodStats_inv_def demo_period_def demo_record_def PeriodStats_new_def PackageStats_inv_def
      PackageStats_default_def om_wf_def os_wf_def uidmap_inv_def InsertPackageUid_def uid_rel_def GetPackageUidSet_def
      os_insert_def split: if_splits)

lemma demo_active: "active_records demo_period = [demo_record]" "storable 1000 demo_record" "pd_beginTime demo_period = 1000"
    "pd_userId demo_period = 100"
  by (simp_all add: active_records_def demo_period_def demo_record_def never_active_def PackageStats_default_def
      storable_def PeriodStats_new_def)

theorem saved_usage_loads_witness:
  "\<exists>q um' d'. GetCurrentUsageData list_env 0 100 ([], FlushPackageInfo list_env 0 demo_period demo_database) = (Some q, um', d') \<and>
     om_find (pd_bundleStats q) (GetBundleUsageKey ''app'' 7) = Some (stored_usage demo_record)"
proof -
  have "\<exists>q um' d'. GetCurrentUsageData list_env (int 0) (pd_userId demo_period)
        ([], FlushPackageInfo list_env 0 demo_period demo_database) = (Some q, um', d') \<and>
      pd_userId q = pd_userId demo_period \<and> pd_beginTime q = pd_beginTime demo_period \<and>
      uid_rel um' = (\<lambda>st. (pk_bundleName st, pk_uid st)) ` set (active_records demo_period) \<union> uid_rel [] \<and>
      (\<forall>k. om_find (pd_bundleStats q) k = (case om_find (pd_bundleStats demo_period) k of
         Some st \<Rightarrow> if never_active st then None else Some (stored_usage st) | None \<Rightarrow> None))"
    by (rule saved_usage_loads [OF lists.package_store_axioms demo_period_inv])
      (simp_all add: demo_active demo_database_def Database_new_def)
  moreover have "om_find (pd_bundleStats demo_period) (GetBundleUsageKey ''app'' 7) = Some demo_record"
    "\<not> never_active demo_record"
    by (simp_all add: demo_period_def never_active_def demo_record_def)
  ultimately show ?thesis
    by (auto simp: demo_active)
qed

text \<open>C4: Saving a period writes its active records and nothing else. Afterwards every active record has
a row in the period's table, and every row with its user, name and uid carries its values, whether it
was there before or not; the rows of every other user, name and uid are those there were.\<close>

theorem saving_writes_exactly:
  assumes "package_store E rows" "PeriodStats_inv (p, um)"
    and "\<forall>st \<in> set (active_records p). storable (pd_beginTime p) st"
    and "R = rows (db_files d ! i) (usage_table p) (db_stores d)"
    and "R' = rows (db_files d ! i) (usage_table p) (db_stores (FlushPackageInfo E i p d))"
  shows "(\<forall>st \<in> set (active_records p). filter (has_key (pd_userId p) (pk_bundleName st) (pk_uid st)) R' \<noteq> [] \<and>
      (\<forall>row \<in> set (filter (has_key (pd_userId p) (pk_bundleName st) (pk_uid st)) R').
        usage_of_row (pd_beginTime p) row = stored_usage st)) \<and>
    (\<forall>u n x. (\<forall>st \<in> set (active_records p). \<not> (u = pd_userId p \<and> n = pk_bundleName st \<and> x = pk_uid st)) \<longrightarrow>
      filter (has_key u n x) R' = filter (has_key u n x) R)"
  using package_store.flush_exact [OF assms(1-3)] unfolding assms(4,5) by blast

theorem saving_writes_exactly_witness:
  "filter (has_key 100 ''app'' 7) (db_stores (FlushPackageInfo list_env 0 demo_period demo_database)
     (''daily.db'', usage_table demo_period)) \<noteq> []"
proof -
  have f: "db_files demo_database ! 0 = ''daily.db''"
    by (simp add: demo_database_def Database_new_def DATABASE_TYPE_def SUFFIX_TYPE_def)
  have "pk_bundleName demo_record = ''app'' \<and> pk_uid demo_record = 7"
    by (simp add: demo_record_def)
  then show ?thesis
    using saving_writes_exactly [OF lists.package_store_axioms demo_period_inv _ refl refl, where d = demo_database and i = 0]
    by (simp add: demo_active f)
qed



text \<open>C7: The best interval is the one with the nearest beginning. Over all tables of all databases that
begin at or before the time asked for, the database answered has the latest beginning, and of several
that have it the one with the longest periods; \<open>-1\<close> is answered when no table begins that early.\<close>

theorem optimal_interval_nearest:
  assumes "\<forall>xs \<in> set (db_sortedTableArray d). sorted xs \<and> distinct xs \<and> (\<forall>t \<in> set xs. 0 \<le> t)"
    and "b < INT64_MAX" "r = GetOptimalIntervalType b e d"
  shows "(r = - 1 \<and> (\<forall>xs \<in> set (db_sortedTableArray d). \<forall>t \<in> set xs. b < t)) \<or>
    (\<exists>i < length (db_sortedTableArray d). r = int i \<and> (\<exists>t \<in> set (db_sortedTableArray d ! i). t \<le> b \<and>
      (\<forall>j < length (db_sortedTableArray d). \<forall>t' \<in> set (db_sortedTableArray d ! j). t' \<le> b \<longrightarrow>
        t' \<le> t \<and> (i < j \<longrightarrow> t' < t))))"
proof -
  let ?A = "db_sortedTableArray d"
  let ?f = "\<lambda>i. interval_distance b (?A ! i)"
  have ok: "sorted (?A ! i)" "distinct (?A ! i)" "\<forall>t \<in> set (?A ! i). 0 \<le> t" if "i < length ?A" for i
    using assms(1) nth_mem [OF that] by blast+
  obtain l where f: "fold (keep_least ?f) (rev [0..<length ?A]) (- 1, INT64_MAX) = (r, l)"
    using assms(3) unfolding Optimal_keep_least by (metis prod.collapse)
  note k = keep_least_fold [OF f]
  have less_max: "x < INT64_MAX" if "i < length ?A" "?f i = Some x" for i x
    using interval_distance_spec(2) [OF ok(1,2) [OF that(1)] that(2)] ok(3) [OF that(1)] assms(2) by fastforce
  from k consider "(r, l) = (- 1, INT64_MAX)"
    | ps i qs where "rev [0..<length ?A] = ps @ i # qs" "r = int i" "?f i = Some l" "\<forall>j \<in> set ps. \<forall>x. ?f j = Some x \<longrightarrow> l < x"
    by blast
  then show ?thesis
  proof cases
    case 1
    have "?f i = None" if i: "i < length ?A" for i
    proof (rule ccontr)
      assume "?f i \<noteq> None"
      then obtain x where x: "?f i = Some x" by blast
      then have "l \<le> x" using k i by simp
      then show False using less_max [OF i x] 1 by simp
    qed
    then have "\<forall>i < length ?A. \<forall>t \<in> set (?A ! i). b < t"
      using interval_distance_spec(1) [OF ok(1,2)] by blast
    then have "\<forall>xs \<in> set ?A. \<forall>t \<in> set xs. b < t" by (simp add: all_set_conv_all_nth)
    then show ?thesis using 1 by simp
  next
    case 2
    have "i \<in> set (rev [0..<length ?A])" unfolding 2(1) by simp
    then have i: "i < length ?A" by simp
    have "rev (rev [0..<length ?A]) = rev qs @ i # rev ps" unfolding 2(1) by simp
    then have up: "[0..<length ?A] = rev qs @ i # rev ps" by simp
    have later: "j \<in> set ps" if "i < j" "j < length ?A" for j
    proof -
      have "sorted_wrt (<) (rev qs @ i # rev ps)" using sorted_wrt_upt [of 0 "length ?A"] up by simp
      then have "\<forall>x \<in> set qs. x < i" by (simp add: sorted_wrt_append)
      moreover have "j \<in> set (rev qs @ i # rev ps)" using that(2) up by (metis atLeastLessThan_iff le0 set_upt)
      ultimately show ?thesis using that(1) by auto
    qed
    obtain t where t: "t \<in> set (?A ! i)" "t \<le> b" "l = b - t"
      using interval_distance_spec(2) [OF ok(1,2) [OF i] 2(3)] by blast
    have "t' \<le> t \<and> (i < j \<longrightarrow> t' < t)" if j: "j < length ?A" and t': "t' \<in> set (?A ! j)" "t' \<le> b" for j t'
    proof -
      obtain x where x: "?f j = Some x"
        using interval_distance_spec(1) [OF ok(1,2) [OF j], of b] t' by (cases "?f j") auto
      then have "x \<le> b - t'"
        using interval_distance_spec(2) [OF ok(1,2) [OF j] x] t' by auto
      moreover have "l \<le> x" using k j x by simp
      moreover have "i < j \<longrightarrow> l < x" using 2(4) later [OF _ j] x by blast
      ultimately show ?thesis using t(3) by auto
    qed
    then show ?thesis using i 2(2) t(1,2) by blast
  qed
qed

theorem optimal_interval_nearest_witness:
  "GetOptimalIntervalType 25 50 (demo_database \<lparr> db_sortedTableArray := [[10, 20], [20], [5], []] \<rparr>) \<noteq> - 1"
  using optimal_interval_nearest [of "demo_database \<lparr> db_sortedTableArray := [[10, 20], [20], [5], []] \<rparr>" 25 _ 50, OF _ _ refl]
  by (auto simp: INT64_MAX_def)

text \<open>C24: The statements of the queries fit their arguments: whatever the interval, the user and the
bundle, a query of usage or of events has as many argument marks as arguments.\<close>

theorem statements_fit_arguments:
  assumes "marks (db_eventTableName d) = 0"
  shows "marks (fst (usage_query b e i k s t u n d)) = length (snd (usage_query b e i k s t u n d)) \<and>
    marks (fst (event_query b e u n d)) = length (snd (event_query b e u n d))"
  using assms by (simp add: usage_query_def GetQuerySqlCommand_def event_query_def Let_def)

theorem statements_fit_arguments_witness:
  "marks (fst (event_query 0 9 100 ''app'' demo_database)) = length (snd (event_query 0 9 100 ''app'' demo_database))"
  using statements_fit_arguments [of demo_database 0 9 0 0 0 0 100 "''app''"]
  by (simp add: demo_database_def Database_new_def UNKNOWN_TABLE_NAME_def)

end
