(* ===== verification/DatabaseUpgrade.thy ===== *)
theory DatabaseUpgrade
  imports UsageDatabase
begin

text \<open>Starting and upgrading the usage database (\<open>bundle_active_usage_database_upgrade.cpp\<close> and the
start of \<open>bundle_active_usage_database.cpp\<close>): reading the stored version, adding the columns that
later versions have and filling them, and putting the tables in order at a start. The last section
packs the operations of the database as the interfaces that the user service and the group history
call.\<close>

abbreviation (input) BUNDLE_ACTIVE_CURRENT_VERSION :: int where "BUNDLE_ACTIVE_CURRENT_VERSION \<equiv> 3"
abbreviation (input) BUNDLE_ACTIVE_VERSION_V1 :: int where "BUNDLE_ACTIVE_VERSION_V1 \<equiv> 1"
abbreviation (input) BUNDLE_ACTIVE_VERSION_V2 :: int where "BUNDLE_ACTIVE_VERSION_V2 \<equiv> 2"

definition BUNDLE_ACTIVE_VERSION_DIRECTORY_PATH :: string where
  "BUNDLE_ACTIVE_VERSION_DIRECTORY_PATH = BUNDLE_ACTIVE_DATABASE_DIR @ ''/version''"

section \<open>Adding columns\<close>

definition AddRdbColumn :: "'s db_env \<Rightarrow> nat \<Rightarrow> string \<Rightarrow> string \<Rightarrow> string \<Rightarrow> 's database \<Rightarrow> 's database" where
  "AddRdbColumn E databaseType tableName columnName columnType d =
     (if columnType \<noteq> ''INTEGER'' then d
      else snd (execute_on E databaseType (''ALTER TABLE '' @ tableName @ '' ADD '' @ columnName @ '' '' @ columnType @
          (if columnName = ''uid'' then '' NOT NULL DEFAULT -1'' else '''') @
          (if columnName = ''firstUseTime'' then '' NOT NULL DEFAULT '' @ int_to_string MAX_END_TIME else '''')) d))"

text \<open>A query on a store that is already open.\<close>

definition query_on :: "'s db_env \<Rightarrow> nat \<Rightarrow> string \<Rightarrow> 's database \<Rightarrow> result_set option" where
  "query_on E databaseType sql d = de_query E (db_files d ! databaseType) sql [] (db_stores d)"

definition update_on ::
    "'s db_env \<Rightarrow> nat \<Rightarrow> string \<Rightarrow> bucket \<Rightarrow> string \<Rightarrow> string list \<Rightarrow> 's database \<Rightarrow> 's database" where
  "update_on E databaseType tableName values cond args d =
     d \<lparr> db_stores := snd (de_update E (db_files d ! databaseType) tableName values cond args (db_stores d)) \<rparr>"

definition set_row_uid ::
    "'s db_env \<Rightarrow> nat \<Rightarrow> string \<Rightarrow> int \<Rightarrow> sqlval list \<Rightarrow> (string, int) omap \<times> 's database \<Rightarrow> (string, int) omap \<times> 's database" where
  "set_row_uid E databaseType tableName userId row md =
     (case md of (bundleNameUidMap, d) \<Rightarrow>
        let bundleName = cell_text row 1;
            key = bundleName @ int_to_string userId;
            (uid, m1) = (case om_find bundleNameUidMap key of
                Some uid \<Rightarrow> (uid, bundleNameUidMap)
              | None \<Rightarrow> (let uid = de_appUid E bundleName userId in (uid, om_insert key uid bundleNameUidMap)))
        in (m1, update_on E databaseType tableName (put_value ''uid'' (SqlInt uid) [])
             ''userId = ? and bundleName = ?'' [int_to_string userId, bundleName] d))"

definition UpdateOldDataUid ::
    "'s db_env \<Rightarrow> nat \<Rightarrow> string \<Rightarrow> int \<Rightarrow> (string, int) omap \<times> 's database \<Rightarrow> (string, int) omap \<times> 's database" where
  "UpdateOldDataUid E databaseType tableName userId md =
     (case query_on E databaseType (''select * from '' @ tableName) (snd md) of
        None \<Rightarrow> md
      | Some rs \<Rightarrow> fold (set_row_uid E databaseType tableName userId) (rs_rows rs) md)"

definition SupportAppTwin :: "'s db_env \<Rightarrow> 's database \<Rightarrow> 's database" where
  "SupportAppTwin E d =
     (let (allTableName, d1) = fold (\<lambda>i (names, d). HandleAllTableName E i names d) [0..<length (db_files d)]
            (replicate 6 [], d);
          upgrade_table = (\<lambda>i tableName (m, d).
            if DURATION_LOG_TABLE = tableName then (m, d)
            else fold (UpdateOldDataUid E i tableName) (de_activeUsers E)
                   (m, AddRdbColumn E i tableName ''uid'' ''INTEGER'' d))
      in snd (fold (\<lambda>i (m, d). case GetBundleActiveRdbStore E i d of
              (False, d1) \<Rightarrow> (m, d1)
            | (True, d1) \<Rightarrow> fold (upgrade_table i) (allTableName ! i) (m, d1))
          [0..<length allTableName] ([], d1)))"

section \<open>The time of the first use\<close>

definition min_time :: "string \<Rightarrow> int \<Rightarrow> (string, int) omap \<Rightarrow> (string, int) omap" where
  "min_time key t m = (case om_find m key of None \<Rightarrow> om_insert key t m | Some t0 \<Rightarrow> om_insert key (min t0 t) m)"

definition GetAllBundleFirstUseTime :: "'s db_env \<Rightarrow> int \<Rightarrow> 's database \<Rightarrow> (string, int) omap \<times> 's database" where
  "GetAllBundleFirstUseTime E userId d =
     (let (events, d1) = QueryDatabaseEvents E 0 MAX_END_TIME userId '''' d;
          m1 = fold (\<lambda>e. min_time (GetBundleUsageKey (ev_bundleName e) (ev_uid e)) (ev_timeStamp e)) events [];
          (stats, d2) = QueryDatabaseUsageStats E (int YEARLY_DATABASE_INDEX) 0 MAX_END_TIME userId '''' d1
      in (fold (\<lambda>st. min_time (GetBundleUsageKey (pk_bundleName st) (pk_uid st)) (pk_lastTimeUsed st)) stats m1, d2))"

text \<open>The loop keeps the time found last: a row of a bundle without a time gets the time of the row before
it.\<close>

definition set_first_use ::
    "'s db_env \<Rightarrow> (string, int) omap \<Rightarrow> string \<Rightarrow> int \<Rightarrow> sqlval list \<Rightarrow> int \<times> 's database \<Rightarrow> int \<times> 's database" where
  "set_first_use E allBundleFirstUseTime tableName userId row td =
     (case td of (firstUseTime0, d) \<Rightarrow>
        let uid = cell_int row 8; bundleName = cell_text row 1;
            firstUseTime = (case om_find allBundleFirstUseTime (GetBundleUsageKey bundleName uid) of
                Some t \<Rightarrow> t | None \<Rightarrow> firstUseTime0)
        in (firstUseTime, update_on E APP_GROUP_DATABASE tableName (put_value ''firstUseTime'' (SqlInt firstUseTime) [])
             ''userId = ? and bundleName = ? and uid = ?'' [int_to_string userId, bundleName, int_to_string uid] d))"

definition UpdateFirstUseTime :: "'s db_env \<Rightarrow> string \<Rightarrow> int \<Rightarrow> 's database \<Rightarrow> 's database" where
  "UpdateFirstUseTime E tableName userId d =
     (let (allBundleFirstUseTime, d1) = GetAllBundleFirstUseTime E userId d
      in case query_on E APP_GROUP_DATABASE (''select * from '' @ tableName) d1 of
           None \<Rightarrow> d1
         | Some rs \<Rightarrow> snd (fold (set_first_use E allBundleFirstUseTime tableName userId) (rs_rows rs) (MAX_END_TIME, d1)))"

definition SupportFirstUseTime :: "'s db_env \<Rightarrow> 's database \<Rightarrow> 's database" where
  "SupportFirstUseTime E d =
     (case GetBundleActiveRdbStore E APP_GROUP_DATABASE d of
        (False, d1) \<Rightarrow> d1
      | (True, d1) \<Rightarrow>
          let d2 = fold (HandleTableInfo E) [0..<length (db_files d1)] d1;
              (allTableName, d3) = HandleAllTableName E APP_GROUP_DATABASE (replicate 6 []) d2
          in if BUNDLE_HISTORY_LOG_TABLE \<notin> set (allTableName ! APP_GROUP_DATABASE) then d3
             else fold (UpdateFirstUseTime E BUNDLE_HISTORY_LOG_TABLE) (de_activeUsers E)
               (AddRdbColumn E APP_GROUP_DATABASE BUNDLE_HISTORY_LOG_TABLE ''firstUseTime'' ''INTEGER'' d3))"

section \<open>Versions and the start\<close>

definition UpgradeDatabase :: "'s db_env \<Rightarrow> int \<Rightarrow> int \<Rightarrow> 's database \<Rightarrow> 's database" where
  "UpgradeDatabase E oldVersion curVersion d =
     (if oldVersion < curVersion \<and> curVersion = BUNDLE_ACTIVE_CURRENT_VERSION then
        (let d1 = (if oldVersion = BUNDLE_ACTIVE_VERSION_V1 then SupportFirstUseTime E (SupportAppTwin E d) else d);
             d2 = (if oldVersion = BUNDLE_ACTIVE_VERSION_V2 then SupportFirstUseTime E d1 else d1)
         in d2 \<lparr> db_currentVersion := curVersion \<rparr>)
      else d)"

definition GetOldDbVersion :: "'s db_env \<Rightarrow> 's database \<Rightarrow> int" where
  "GetOldDbVersion E d =
     (if de_access E BUNDLE_ACTIVE_DATABASE_DIR (db_stores d) then
        (let data = de_loadFile E BUNDLE_ACTIVE_VERSION_DIRECTORY_PATH (db_stores d)
         in if data \<noteq> '''' then GetVersionByFileInput data else - 1)
      else - 1)"

definition CheckDatabaseVersion :: "'s db_env \<Rightarrow> 's database \<Rightarrow> 's database" where
  "CheckDatabaseVersion E d =
     (if de_access E BUNDLE_ACTIVE_DATABASE_DIR (db_stores d) then
        (let oldVersion = GetOldDbVersion E d;
             d1 = (if oldVersion \<noteq> BUNDLE_ACTIVE_FAIL \<and> oldVersion < BUNDLE_ACTIVE_CURRENT_VERSION
                   then UpgradeDatabase E oldVersion BUNDLE_ACTIVE_CURRENT_VERSION d else d)
         in d1 \<lparr> db_stores := de_saveFile E BUNDLE_ACTIVE_VERSION_DIRECTORY_PATH
                  (''version : '' @ int_to_string BUNDLE_ACTIVE_CURRENT_VERSION) (db_stores d1) \<rparr>)
      else d)"

text \<open>The tables of a period that begin at or after the present are removed, one after the other at the same
index.\<close>

fun delete_at :: "'s db_env \<Rightarrow> nat \<Rightarrow> nat \<Rightarrow> nat \<Rightarrow> 's database \<Rightarrow> 's database" where
  "delete_at E i startIndex 0 d = d"
| "delete_at E i startIndex (Suc n) d =
     (let d1 = snd (DeleteInvalidTable E i (db_sortedTableArray d ! i ! startIndex) d);
          tableTimes = db_sortedTableArray d1 ! i
      in delete_at E i startIndex n (d1 \<lparr> db_sortedTableArray := (db_sortedTableArray d1)
           [i := take startIndex tableTimes @ drop (Suc startIndex) tableTimes] \<rparr>))"

definition delete_future :: "'s db_env \<Rightarrow> int \<Rightarrow> nat \<Rightarrow> 's database \<Rightarrow> 's database" where
  "delete_future E currentTime i d =
     (let startIndex = NearIndexOnOrAfterCurrentTime currentTime (db_sortedTableArray d ! i)
      in if startIndex < BUNDLE_ACTIVE_SUCCESS then d
         else delete_at E i (nat startIndex) (length (db_sortedTableArray d ! i) - nat startIndex) d)"

definition InitDatabaseTableInfo :: "'s db_env \<Rightarrow> int \<Rightarrow> 's database \<Rightarrow> 's database" where
  "InitDatabaseTableInfo E currentTime d =
     (let (r, d1) = CreateDatabasePath E d
      in if r = BUNDLE_ACTIVE_FAIL then d1
         else
           let d2 = CheckDatabaseVersion E d1;
               d3 = fold (\<lambda>i d. DeleteExcessiveTableData E i (HandleTableInfo E i d)) [0..<length (db_files d2)] d2;
               d4 = fold (delete_future E currentTime) [0..<length (db_sortedTableArray d3)] d3;
               d5 = (if db_eventTableName d4 \<noteq> UNKNOWN_TABLE_NAME then
                   (let eventTableTime = ParseStartTime (db_eventTableName d4)
                    in if currentTime < eventTableTime
                       then (snd (DeleteInvalidTable E EVENT_DATABASE eventTableTime d4)) \<lparr> db_eventTableName := UNKNOWN_TABLE_NAME \<rparr>
                       else d4)
                 else d4)
           in InitEventTable E currentTime d5)"

section \<open>The interfaces of the services\<close>

definition usage_db_of :: "'s db_env \<Rightarrow> 's database usage_db" where
  "usage_db_of E = \<lparr> ud_ChangeToDebug = Database_ChangeToDebug, ud_InitDatabaseTableInfo = InitDatabaseTableInfo E,
     ud_InitUsageGroupDatabase = InitUsageGroupDatabase E, ud_UpdateBundleUsageData = UpdateBundleUsageData E,
     ud_UpdateEventData = UpdateEventData E, ud_UpdateModuleData = UpdateModuleData E,
     ud_GetCurrentUsageData = GetCurrentUsageData E, ud_RenewTableTime = Database_RenewTableTime E,
     ud_GetOptimalIntervalType = GetOptimalIntervalType, ud_RemoveOldData = RemoveOldData E,
     ud_QueryDatabaseUsageStats = QueryDatabaseUsageStats E, ud_QueryDatabaseEvents = QueryDatabaseEvents E,
     ud_OnPackageUninstalled = Database_OnPackageUninstalled E, ud_RemoveFormData = RemoveFormData E,
     ud_LoadModuleData = LoadModuleData E, ud_LoadFormData = LoadFormData E,
     ud_QueryDeviceEventStats = Database_QueryDeviceEventStats E,
     ud_QueryNotificationEventStats = Database_QueryNotificationEventStats E,
     ud_DeleteExcessiveEventTableData = Database_DeleteExcessiveEventTableData E \<rparr>"

definition history_db_of :: "'s db_env \<Rightarrow> 's database history_db" where
  "history_db_of E = \<lparr> hd_Init = InitUsageGroupDatabase E (int APP_GROUP_DATABASE) False,
     hd_GetDurationData = GetDurationData E, hd_PutDurationData = PutDurationData E,
     hd_GetBundleHistoryData = GetBundleHistoryData E, hd_PutBundleHistoryData = PutBundleHistoryData E,
     hd_OnPackageUninstalled = Database_OnPackageUninstalled E \<rparr>"

text \<open>The database is what the user service needs, for every store without negative totals.\<close>

lemma UpdateBundleUsageData_saves: "\<exists>t. fst (UpdateBundleUsageData E i p d) = p \<lparr> pd_lastTimeSaved := t \<rparr>"
  by (cases "i < 0 \<or> i \<ge> int EVENT_DATABASE")
    (auto simp: UpdateBundleUsageData_def Let_def intro: exI [of _ "pd_lastTimeSaved p"] saved_self)

sublocale usage_rows \<subseteq> db: usage_store "usage_db_of E"
proof unfold_locales
  fix um i u r um' d d'
  assume "uidmap_inv um" "ud_GetCurrentUsageData (usage_db_of E) i u (um, d) = (r, um', d')"
  then show "uidmap_inv um' \<and> uid_rel um \<subseteq> uid_rel um' \<and> (\<forall>p. r = Some p \<longrightarrow> PeriodStats_inv (p, um') \<and> pd_events p = [])"
    by (intro GetCurrentUsageData_inv) (simp_all add: usage_db_of_def)
next
  fix i p d
  show "\<exists>t. fst (ud_UpdateBundleUsageData (usage_db_of E) i p d) = p \<lparr> pd_lastTimeSaved := t \<rparr>"
    using UpdateBundleUsageData_saves by (simp add: usage_db_of_def)
qed

context usage_rows
begin

lemma is_usage_store: "usage_store (usage_db_of E)"
  by (rule db.usage_store_axioms)

end

section \<open>Lemmas\<close>

lemma delete_at_arrays:
  assumes "i < length (db_sortedTableArray d)" "k + n \<le> length (db_sortedTableArray d ! i)"
  shows "db_sortedTableArray (delete_at E i k n d) = (db_sortedTableArray d)
    [i := take k (db_sortedTableArray d ! i) @ drop (k + n) (db_sortedTableArray d ! i)]"
  using assms
proof (induction n arbitrary: d)
  case (Suc n)
  let ?xs = "db_sortedTableArray d ! i"
  have arr: "db_sortedTableArray (snd (DeleteInvalidTable E i t d)) = db_sortedTableArray d" for t
    using same_object_fields [OF DeleteInvalidTable_same] by blast
  have "take k (take k ?xs @ drop (Suc k) ?xs) = take k ?xs"
    "drop (k + n) (take k ?xs @ drop (Suc k) ?xs) = drop (k + Suc n) ?xs"
    using Suc.prems(2) by (simp_all add: add.commute [of n k])
  then show ?case
    using Suc.IH [of "snd (DeleteInvalidTable E i (?xs ! k) d) \<lparr> db_sortedTableArray := (db_sortedTableArray d)
          [i := take k ?xs @ drop (Suc k) ?xs] \<rparr>"] Suc.prems arr by (simp add: Let_def)
qed simp

lemma Min_insert_min: "finite S \<Longrightarrow> Min (insert (min a b) S) = min a (Min (insert (b :: int) S))"
  by (cases "S = {}") (simp_all add: min.assoc)

lemma min_time_fold:
  "om_find (fold (\<lambda>x. min_time (g x) (f x)) xs m) k =
   (let ts = map f (filter (\<lambda>x. g x = k) xs) in
    case om_find m k of None \<Rightarrow> if ts = [] then None else Some (Min (set ts)) | Some t \<Rightarrow> Some (Min (set (t # ts))))"
proof (induction xs arbitrary: m)
  case (Cons x xs)
  have "om_find (min_time (g x) (f x) m) k = (if g x = k
      then Some (case om_find m k of None \<Rightarrow> f x | Some t \<Rightarrow> min t (f x)) else om_find m k)"
    by (auto simp: min_time_def split: option.splits)
  then show ?case
    using Cons [of "min_time (g x) (f x) m"]
    by (auto simp: Let_def Min_insert_min split: option.splits)
qed (simp add: Let_def split: option.splits)

text \<open>A row of a bundle without a known time gets the time of the row before it.\<close>

lemma first_use_carried_over:
  "om_find known (GetBundleUsageKey (cell_text row 1) (cell_int row 8)) = None \<Longrightarrow>
   fst (set_first_use E known t u row (t0, d)) = t0"
  by (simp add: set_first_use_def Let_def)

section \<open>Properties\<close>





text \<open>The time of the first use is the least one known. For every bundle and uid, the time the upgrade
computes is the least of the times of its events and of its last uses in the yearly tables, and there is
none exactly when there are no such events and records.\<close>

theorem first_use_is_least:
  assumes "QueryDatabaseEvents E 0 MAX_END_TIME u [] d = (events, d1)"
    and "QueryDatabaseUsageStats E 3 0 MAX_END_TIME u [] d1 = (stats, d2)"
    and "ts = map ev_timeStamp (filter (\<lambda>e. GetBundleUsageKey (ev_bundleName e) (ev_uid e) = k) events) @
      map pk_lastTimeUsed (filter (\<lambda>st. GetBundleUsageKey (pk_bundleName st) (pk_uid st) = k) stats)"
  shows "om_find (fst (GetAllBundleFirstUseTime E u d)) k = (if ts = [] then None else Some (Min (set ts)))"
proof -
  let ?A = "map ev_timeStamp (filter (\<lambda>e. GetBundleUsageKey (ev_bundleName e) (ev_uid e) = k) events)"
  let ?B = "map pk_lastTimeUsed (filter (\<lambda>st. GetBundleUsageKey (pk_bundleName st) (pk_uid st) = k) stats)"
  let ?m = "fold (\<lambda>e. min_time (GetBundleUsageKey (ev_bundleName e) (ev_uid e)) (ev_timeStamp e)) events []"
  have 1: "om_find ?m k = (if ?A = [] then None else Some (Min (set ?A)))"
    by (simp only: min_time_fold Let_def map_of.simps(1) option.case)
  have 2: "om_find (fst (GetAllBundleFirstUseTime E u d)) k = (case om_find ?m k of
      None \<Rightarrow> if ?B = [] then None else Some (Min (set ?B)) | Some t \<Rightarrow> Some (Min (set (t # ?B))))"
    using assms(1,2) by (simp add: GetAllBundleFirstUseTime_def min_time_fold Let_def)
  have "Min (set (Min (set ?A) # ?B)) = Min (set (?A @ ?B))" if "?A \<noteq> []"
    using that Min_Un [of "set ?A" "set ?B"] by (cases "?B = []") (simp_all del: set_map)
  then show ?thesis
    unfolding 2 1 assms(3) by (cases "?A = []") (simp_all del: set_map set_filter map_is_Nil_conv)
qed

theorem first_use_is_least_witness:
  "om_find (fst (GetAllBundleFirstUseTime list_env 100 demo_database)) ''app7'' = None"
  using first_use_is_least [OF surjective_pairing surjective_pairing refl, of list_env 100 demo_database "''app7''"]
  by (simp add: QueryDatabaseEvents_def JudgeQueryCondition_def demo_database_def Database_new_def
      QueryDatabaseUsageStats_def GetDbIndex_def NearIndexOnOrBeforeCurrentTime_def NearIndexOnOrAfterCurrentTime_def
      near_loop.simps)

end
