(* ===== verification/TaskHandler.thy ===== *)
theory TaskHandler
  imports Util
begin

text \<open>The delayed-task handlers shared by the group and the report handler
(\<open>services/packagegroup\<close>, \<open>services/packageusage\<close>): tasks are submitted to a queue of the ffrt
runtime, and their handles are kept per event id (and per message key) so that they can be
cancelled. The runtime's queue is a parameter: \<open>fq_submit\<close> answers a handle, \<open>fq_cancel\<close> drops a
task.\<close>

record ('t, 'q) ffrt_ops =
  fq_submit :: "'t \<Rightarrow> int \<Rightarrow> 'q \<Rightarrow> nat \<times> 'q"
  fq_cancel :: "nat \<Rightarrow> 'q \<Rightarrow> 'q"

record 'q task_handler =
  th_isInited :: bool
  th_queue :: 'q
  th_taskHandlerMap :: "(int, nat list) omap"

section \<open>Tasks per event id\<close>

definition cancel_all :: "('t, 'q) ffrt_ops \<Rightarrow> nat list \<Rightarrow> 'q \<Rightarrow> 'q" where
  "cancel_all Q hs q = fold (fq_cancel Q) hs q"

definition Handler_SendEvent ::
    "('t, 'q) ffrt_ops \<Rightarrow> int \<Rightarrow> 't \<Rightarrow> int \<Rightarrow> ('q, 'x) task_handler_scheme \<Rightarrow> ('q, 'x) task_handler_scheme" where
  "Handler_SendEvent Q eventId task delayTime h =
     (if \<not> th_isInited h then h
      else
        let ffrtDelayTime = GetFFRTDelayTime delayTime;
            m1 = (case om_find (th_taskHandlerMap h) eventId of
                    None \<Rightarrow> om_insert eventId [] (th_taskHandlerMap h)
                  | Some _ \<Rightarrow> th_taskHandlerMap h);
            (taskHandle, q) = fq_submit Q task ffrtDelayTime (th_queue h)
        in h \<lparr> th_queue := q, th_taskHandlerMap :=
             om_insert eventId ((case om_find m1 eventId of Some hs \<Rightarrow> hs | None \<Rightarrow> []) @ [taskHandle]) m1 \<rparr>)"

text \<open>What the submitted closure does after it has processed its event.\<close>

definition Handler_finish :: "int \<Rightarrow> ('q, 'x) task_handler_scheme \<Rightarrow> ('q, 'x) task_handler_scheme" where
  "Handler_finish eventId h =
     (case om_find (th_taskHandlerMap h) eventId of
        None \<Rightarrow> h
      | Some [] \<Rightarrow> h
      | Some (_ # hs) \<Rightarrow> h \<lparr> th_taskHandlerMap := om_insert eventId hs (th_taskHandlerMap h) \<rparr>)"

definition Handler_RemoveEvent ::
    "('t, 'q) ffrt_ops \<Rightarrow> int \<Rightarrow> ('q, 'x) task_handler_scheme \<Rightarrow> ('q, 'x) task_handler_scheme" where
  "Handler_RemoveEvent Q eventId h =
     (if \<not> th_isInited h then h
      else case om_find (th_taskHandlerMap h) eventId of
          None \<Rightarrow> h
        | Some hs \<Rightarrow> h \<lparr> th_queue := cancel_all Q hs (th_queue h),
                       th_taskHandlerMap := om_erase eventId (th_taskHandlerMap h) \<rparr>)"

definition Handler_HasEvent :: "int \<Rightarrow> ('q, 'x) task_handler_scheme \<Rightarrow> bool" where
  "Handler_HasEvent eventId h =
     (if \<not> th_isInited h then False
      else case om_find (th_taskHandlerMap h) eventId of Some _ \<Rightarrow> True | None \<Rightarrow> False)"

definition Handler_DeInit ::
    "('t, 'q) ffrt_ops \<Rightarrow> ('q, 'x) task_handler_scheme \<Rightarrow> ('q, 'x) task_handler_scheme" where
  "Handler_DeInit Q h = h \<lparr> th_isInited := False,
     th_queue := cancel_all Q (concat (map snd (th_taskHandlerMap h))) (th_queue h),
     th_taskHandlerMap := [] \<rparr>"

section \<open>The contract of the queue\<close>

text \<open>\<open>live q\<close> are the handles of the tasks submitted and not cancelled: a submission answers a
fresh handle and makes it live, a cancellation makes one handle dead.\<close>

definition ffrt_contract :: "('t, 'q) ffrt_ops \<Rightarrow> ('q \<Rightarrow> nat set) \<Rightarrow> bool" where
  "ffrt_contract Q live \<longleftrightarrow>
     (\<forall>t d q. fst (fq_submit Q t d q) \<notin> live q \<and>
        live (snd (fq_submit Q t d q)) = insert (fst (fq_submit Q t d q)) (live q)) \<and>
     (\<forall>h q. live (fq_cancel Q h q) = live q - {h})"

lemma cancel_all_live: "ffrt_contract Q live \<Longrightarrow> live (cancel_all Q hs q) = live q - set hs"
  unfolding cancel_all_def by (induction hs arbitrary: q) (auto simp: ffrt_contract_def)

text \<open>A concrete queue for the witnesses: the pending tasks and the next handle.\<close>

definition list_queue :: "('t, (nat \<times> (nat \<times> 't \<times> int) list)) ffrt_ops" where
  "list_queue = \<lparr> fq_submit = (\<lambda>t d (n, ts). (n, (Suc n, ts @ [(n, t, d)]))),
     fq_cancel = (\<lambda>h (n, ts). (n, filter (\<lambda>x. fst x \<noteq> h) ts)) \<rparr>"

definition list_live :: "nat \<times> (nat \<times> 't \<times> int) list \<Rightarrow> nat set" where
  "list_live q = {h \<in> fst ` set (snd q). h < fst q}"

lemma list_queue_contract: "ffrt_contract list_queue list_live"
  by (auto simp: ffrt_contract_def list_queue_def list_live_def split: prod.splits)

section \<open>Lemmas\<close>

definition tracked_handles :: "('q, 'x) task_handler_scheme \<Rightarrow> nat set" where
  "tracked_handles h = (\<Union>p \<in> set (th_taskHandlerMap h). set (snd p))"

lemma Handler_SendEvent_effect:
  assumes "th_isInited h" "fq_submit Q task (GetFFRTDelayTime d) (th_queue h) = (n, q)"
  shows "om_find (th_taskHandlerMap (Handler_SendEvent Q e task d h)) e' =
      (if e' = e then Some ((case om_find (th_taskHandlerMap h) e of Some hs \<Rightarrow> hs | None \<Rightarrow> []) @ [n])
       else om_find (th_taskHandlerMap h) e') \<and>
    th_queue (Handler_SendEvent Q e task d h) = q \<and> th_isInited (Handler_SendEvent Q e task d h)"
  using assms by (auto simp: Handler_SendEvent_def Let_def split: option.splits)

lemma Handler_RemoveEvent_effect:
  assumes "th_isInited h"
  shows "om_find (th_taskHandlerMap (Handler_RemoveEvent Q e h)) e' =
      (if e' = e then None else om_find (th_taskHandlerMap h) e') \<and>
    th_queue (Handler_RemoveEvent Q e h) =
      cancel_all Q (case om_find (th_taskHandlerMap h) e of Some hs \<Rightarrow> hs | None \<Rightarrow> []) (th_queue h)"
  using assms by (auto simp: Handler_RemoveEvent_def cancel_all_def split: option.splits)

section \<open>Properties\<close>

text \<open>Cancelling the pending tasks of an event is complete and exact. After an event is sent it
is pending and its task is live; after the event is removed it is not pending, every handle filed
under it is dead, and the tasks of the other events are as live as before.\<close>

theorem handler_remove_cancels:
  assumes "ffrt_contract Q live" "th_isInited h"
  shows "Handler_HasEvent e (Handler_SendEvent Q e task d h) \<and>
    \<not> Handler_HasEvent e (Handler_RemoveEvent Q e (Handler_SendEvent Q e task d h)) \<and>
    live (th_queue (Handler_RemoveEvent Q e (Handler_SendEvent Q e task d h))) =
      live (th_queue h) - set (case om_find (th_taskHandlerMap h) e of Some hs \<Rightarrow> hs | None \<Rightarrow> []) \<and>
    (e' \<noteq> e \<longrightarrow> Handler_HasEvent e' (Handler_RemoveEvent Q e (Handler_SendEvent Q e task d h)) =
      Handler_HasEvent e' h)"
proof -
  let ?s = "Handler_SendEvent Q e task d h"
  obtain n q where s: "fq_submit Q task (GetFFRTDelayTime d) (th_queue h) = (n, q)"
    by (metis prod.collapse)
  note eff = Handler_SendEvent_effect [OF assms(2) s]
  have init: "th_isInited ?s" "th_isInited (Handler_RemoveEvent Q e ?s)"
    using eff by (auto simp: Handler_RemoveEvent_def split: option.splits)
  note rem = Handler_RemoveEvent_effect [OF init(1), of Q e]
  have fresh: "n \<notin> live (th_queue h)" "live q = insert n (live (th_queue h))"
    using assms(1) s unfolding ffrt_contract_def by (metis fst_conv snd_conv)+
  let ?old = "case om_find (th_taskHandlerMap h) e of Some hs \<Rightarrow> hs | None \<Rightarrow> []"
  have "om_find (th_taskHandlerMap ?s) e = Some (?old @ [n])" "th_queue ?s = q"
    using eff by simp_all
  then have "th_queue (Handler_RemoveEvent Q e ?s) = cancel_all Q (?old @ [n]) q"
    using rem by simp
  then have "live (th_queue (Handler_RemoveEvent Q e ?s)) = live (th_queue h) - set ?old"
    using fresh by (auto simp only: cancel_all_live [OF assms(1)] set_append list.set)
  then show ?thesis
    using eff rem init assms(2) by (simp add: Handler_HasEvent_def)
qed

theorem handler_remove_cancels_witness:
  "\<not> Handler_HasEvent 1 (Handler_RemoveEvent list_queue 1 (Handler_SendEvent list_queue 1 ''task'' 5
     \<lparr> th_isInited = True, th_queue = (0, []), th_taskHandlerMap = [] \<rparr>))"
  using handler_remove_cancels [OF list_queue_contract,
      of "\<lparr> th_isInited = True, th_queue = (0, []), th_taskHandlerMap = [] \<rparr>" 1 "''task''" 5 2] by simp

end
