(* ===== verification/GroupController.thy ===== *)
theory GroupController
  imports UserHistory TaskHandler
begin

text \<open>\<open>BundleActiveGroupController\<close> and \<open>BundleActiveGroupHandler\<close> (\<open>services/packagegroup\<close>): the
application groups, how events and timeouts move bundles between them, and the delayed checks.
The runtime's queue, the bundle manager, the clocks and the account manager are given by an
environment.\<close>

section \<open>State\<close>

record group_obj =
  go_bundleName :: string
  go_userId :: int
  go_uid :: int

definition GroupHandlerObject_new :: group_obj where
  "GroupHandlerObject_new = \<lparr> go_bundleName = '''', go_userId = - 1, go_uid = - 1 \<rparr>"

definition GroupHandlerObject_copy :: "group_obj \<Rightarrow> group_obj" where
  "GroupHandlerObject_copy orig =
     \<lparr> go_bundleName = go_bundleName orig, go_userId = go_userId orig, go_uid = go_uid orig \<rparr>"

abbreviation (input) MSG_CHECK_DEFAULT_BUNDLE_STATE :: int where "MSG_CHECK_DEFAULT_BUNDLE_STATE \<equiv> 0"
abbreviation (input) MSG_ONE_TIME_CHECK_BUNDLE_STATE :: int where "MSG_ONE_TIME_CHECK_BUNDLE_STATE \<equiv> 1"
abbreviation (input) MSG_CHECK_IDLE_STATE :: int where "MSG_CHECK_IDLE_STATE \<equiv> 2"
abbreviation (input) MSG_CHECK_NOTIFICATION_SEEN_BUNDLE_STATE :: int where
  "MSG_CHECK_NOTIFICATION_SEEN_BUNDLE_STATE \<equiv> 3"
abbreviation (input) MSG_CHECK_SYSTEM_INTERACTIVE_BUNDLE_STATE :: int where
  "MSG_CHECK_SYSTEM_INTERACTIVE_BUNDLE_STATE \<equiv> 4"

text \<open>The closures submitted to the queue; the last one is the core's, which tells the registered
observers of a group that has changed.\<close>

datatype group_task =
    EventTask int "group_obj option"
  | CheckTask int "group_obj option" string
  | ScreenTask bool int
  | NotifyTask callback_info

record 'q group_handler = "'q task_handler" +
  gh_checkBundleTaskMap :: "(string, nat) omap"
  gh_checkIdleInterval :: int

record ('d, 'q) group_controller =
  gc_history :: "'d user_history option"
  gc_handler :: "'q group_handler option"
  gc_timeoutForDirectlyUse :: int
  gc_timeoutForNotifySeen :: int
  gc_timeoutForSystemInteraction :: int
  gc_screenTimeLevel :: "int list"
  gc_bootTimeLevel :: "int list"
  gc_eventIdMatchReason :: "(int, 32 word) omap"
  gc_bundleGroupEnable :: bool
  gc_isInit :: bool

record ('d, 'q) group_env =
  ge_db :: "'d history_db"
  ge_ffrt :: "(group_task, 'q) ffrt_ops"
  ge_installed :: "string \<Rightarrow> int \<Rightarrow> bool"
  ge_apps :: "int \<Rightarrow> (string \<times> int) list option"
  ge_bootTime :: "int option"
  ge_now :: int
  ge_screenOn :: bool
  ge_activeUsers :: "int list"

abbreviation (input) ONE_MINUTE :: int where "ONE_MINUTE \<equiv> 60 * 1000"
abbreviation (input) ONE_HOUR :: int where "ONE_HOUR \<equiv> 60 * 60 * 1000"
abbreviation (input) FIVE_SECOND :: int where "FIVE_SECOND \<equiv> 5 * 1000"

section \<open>The handler\<close>

definition GroupHandler_new :: "bool \<Rightarrow> 'q \<Rightarrow> 'q group_handler" where
  "GroupHandler_new debug q = \<lparr> th_isInited = False, th_queue = q, th_taskHandlerMap = [],
     gh_checkBundleTaskMap = [], gh_checkIdleInterval = (if debug then ONE_MINUTE else 3 * ONE_HOUR) \<rparr>"

definition GroupHandler_Init :: "'q option \<Rightarrow> 'q group_handler \<Rightarrow> 'q group_handler" where
  "GroupHandler_Init ffrtQueue h =
     (case ffrtQueue of None \<Rightarrow> h | Some q \<Rightarrow> h \<lparr> th_queue := q, th_isInited := True \<rparr>)"

definition GroupHandler_DeInit :: "(group_task, 'q) ffrt_ops \<Rightarrow> 'q group_handler \<Rightarrow> 'q group_handler" where
  "GroupHandler_DeInit Q h =
     (let h1 = Handler_DeInit Q h
      in h1 \<lparr> th_queue := cancel_all Q (map snd (gh_checkBundleTaskMap h1)) (th_queue h1),
              gh_checkBundleTaskMap := [] \<rparr>)"

definition GetMsgKey :: "int \<Rightarrow> group_obj option \<Rightarrow> int \<Rightarrow> string" where
  "GetMsgKey eventId handlerobj delayTime =
     (case handlerobj of
        None \<Rightarrow> ''''
      | Some obj \<Rightarrow> int_to_string eventId @ ''_'' @ int_to_string (go_userId obj) @ ''_'' @
          int_to_string (go_uid obj) @ ''_'' @ go_bundleName obj @ ''_'' @ int_to_string delayTime)"

definition RemoveCheckBundleMsg ::
    "(group_task, 'q) ffrt_ops \<Rightarrow> string \<Rightarrow> 'q group_handler \<Rightarrow> 'q group_handler" where
  "RemoveCheckBundleMsg Q msgKey h =
     (if \<not> th_isInited h then h
      else case om_find (gh_checkBundleTaskMap h) msgKey of
          None \<Rightarrow> h
        | Some handle \<Rightarrow> h \<lparr> th_queue := fq_cancel Q handle (th_queue h),
                           gh_checkBundleTaskMap := om_erase msgKey (gh_checkBundleTaskMap h) \<rparr>)"

definition Handler_SendCheckBundleMsg ::
    "(group_task, 'q) ffrt_ops \<Rightarrow> int \<Rightarrow> group_obj option \<Rightarrow> int \<Rightarrow> 'q group_handler \<Rightarrow> 'q group_handler" where
  "Handler_SendCheckBundleMsg Q eventId handlerobj delayTime h =
     (if \<not> th_isInited h then h
      else
        let msgKey = GetMsgKey eventId handlerobj delayTime
        in if msgKey = '''' then h
           else
             let ffrtDelayTime = GetFFRTDelayTime delayTime;
                 h1 = (case om_find (gh_checkBundleTaskMap h) msgKey of
                         Some _ \<Rightarrow> RemoveCheckBundleMsg Q msgKey h
                       | None \<Rightarrow> h);
                 (handle, q) = fq_submit Q (CheckTask eventId handlerobj msgKey) ffrtDelayTime (th_queue h1)
             in h1 \<lparr> th_queue := q, gh_checkBundleTaskMap := om_insert msgKey handle (gh_checkBundleTaskMap h1) \<rparr>)"

definition GroupHandler_SendEvent ::
    "(group_task, 'q) ffrt_ops \<Rightarrow> int \<Rightarrow> group_obj option \<Rightarrow> int \<Rightarrow> 'q group_handler \<Rightarrow> 'q group_handler" where
  "GroupHandler_SendEvent Q eventId handlerobj delayTime h =
     Handler_SendEvent Q eventId (EventTask eventId handlerobj) delayTime h"

definition GroupHandler_RemoveEvent ::
    "(group_task, 'q) ffrt_ops \<Rightarrow> int \<Rightarrow> 'q group_handler \<Rightarrow> 'q group_handler" where
  "GroupHandler_RemoveEvent Q eventId h = Handler_RemoveEvent Q eventId h"

definition GroupHandler_PostTask ::
    "(group_task, 'q) ffrt_ops \<Rightarrow> group_task \<Rightarrow> 'q group_handler \<Rightarrow> 'q group_handler" where
  "GroupHandler_PostTask Q task h =
     (if \<not> th_isInited h then h else h \<lparr> th_queue := snd (fq_submit Q task 0 (th_queue h)) \<rparr>)"

section \<open>The controller\<close>

definition LEVEL_GROUP :: "int list" where
  "LEVEL_GROUP = [ACTIVE_GROUP_ALIVE, ACTIVE_GROUP_DAILY, ACTIVE_GROUP_FIXED, ACTIVE_GROUP_RARE]"

definition GroupController_Init ::
    "bool \<Rightarrow> 'q \<Rightarrow> 'q option \<Rightarrow> ('d, 'q) group_controller \<Rightarrow> ('d, 'q) group_controller" where
  "GroupController_Init debug q0 ffrtQueue g =
     (if gc_isInit g then g
      else g \<lparr>
        gc_timeoutForDirectlyUse := (if debug then 3 * ONE_MINUTE else ONE_HOUR),
        gc_timeoutForNotifySeen := (if debug then ONE_MINUTE else 12 * ONE_HOUR),
        gc_timeoutForSystemInteraction := (if debug then ONE_MINUTE else 10 * ONE_MINUTE),
        gc_screenTimeLevel := [0, 0, if debug then 2 * ONE_MINUTE else ONE_HOUR,
          if debug then 4 * ONE_MINUTE else 2 * ONE_HOUR],
        gc_bootTimeLevel := [0, if debug then 2 * ONE_MINUTE else 12 * ONE_HOUR,
          if debug then 4 * ONE_MINUTE else 24 * ONE_HOUR,
          if debug then 16 * ONE_MINUTE else 48 * ONE_HOUR],
        gc_eventIdMatchReason :=
          [(ABILITY_FOREGROUND, 4), (ABILITY_BACKGROUND, 5), (LONG_TIME_TASK_STARTTED, 7),
           (SYSTEM_INTERACTIVE, 1), (USER_INTERACTIVE, 3), (NOTIFICATION_SEEN, 2)],
        gc_handler := Some (GroupHandler_Init ffrtQueue (GroupHandler_new debug q0)),
        gc_isInit := True \<rparr>)"

definition GroupController_DeInit ::
    "(group_task, 'q) ffrt_ops \<Rightarrow> ('d, 'q) group_controller \<Rightarrow> ('d, 'q) group_controller" where
  "GroupController_DeInit Q g =
     (if \<not> gc_isInit g then g
      else g \<lparr> gc_isInit := False, gc_handler := map_option (GroupHandler_DeInit Q) (gc_handler g) \<rparr>)"

definition GetBundleGroupHandler :: "('d, 'q) group_controller \<Rightarrow> 'q group_handler option" where
  "GetBundleGroupHandler g = (if \<not> gc_isInit g then None else gc_handler g)"

text \<open>The guard \<open>bundleUserHistory_ == nullptr\<close> at the head of the operations.\<close>

definition on_history ::
    "('d user_history \<Rightarrow> 'd user_history) \<Rightarrow> ('d, 'q) group_controller \<Rightarrow> ('d, 'q) group_controller" where
  "on_history f g = (case gc_history g of None \<Rightarrow> g | Some s \<Rightarrow> g \<lparr> gc_history := Some (f s) \<rparr>)"

definition on_handler ::
    "('q group_handler \<Rightarrow> 'q group_handler) \<Rightarrow> ('d, 'q) group_controller \<Rightarrow> ('d, 'q) group_controller" where
  "on_handler f g = (case gc_handler g of None \<Rightarrow> g | Some h \<Rightarrow> g \<lparr> gc_handler := Some (f h) \<rparr>)"

definition RestoreDurationToDatabase ::
    "('d, 'q) group_env \<Rightarrow> ('d, 'q) group_controller \<Rightarrow> ('d, 'q) group_controller" where
  "RestoreDurationToDatabase E g = on_history (WriteDeviceDuration (ge_db E)) g"

definition GroupController_RestoreToDatabase ::
    "('d, 'q) group_env \<Rightarrow> int \<Rightarrow> ('d, 'q) group_controller \<Rightarrow> ('d, 'q) group_controller" where
  "GroupController_RestoreToDatabase E userId g = on_history (WriteBundleUsage (ge_db E) userId) g"

definition GroupController_OnUserRemoved ::
    "('d, 'q) group_env \<Rightarrow> int \<Rightarrow> ('d, 'q) group_controller \<Rightarrow> ('d, 'q) group_controller" where
  "GroupController_OnUserRemoved E userId g =
     (case gc_history g of
        None \<Rightarrow> g
      | Some s \<Rightarrow>
          on_handler (GroupHandler_RemoveEvent (ge_ffrt E) MSG_CHECK_IDLE_STATE)
            (g \<lparr> gc_history := Some (s \<lparr> uh_userHistory := om_erase userId (uh_userHistory s) \<rparr>) \<rparr>))"

definition SetBundleGroupEnable :: "bool \<Rightarrow> ('d, 'q) group_controller \<Rightarrow> ('d, 'q) group_controller" where
  "SetBundleGroupEnable b g = g \<lparr> gc_bundleGroupEnable := b \<rparr>"

definition OnScreenChanged ::
    "('d, 'q) group_env \<Rightarrow> bool \<Rightarrow> int \<Rightarrow> ('d, 'q) group_controller \<Rightarrow> ('d, 'q) group_controller" where
  "OnScreenChanged E isScreenOn bootFromTimeStamp g =
     on_handler (GroupHandler_PostTask (ge_ffrt E) (ScreenTask isScreenOn bootFromTimeStamp)) g"

definition GroupController_UpdateBootBasedAndScreenTime ::
    "('d, 'q) group_env \<Rightarrow> bool \<Rightarrow> int \<Rightarrow> ('d, 'q) group_controller \<Rightarrow> ('d, 'q) group_controller" where
  "GroupController_UpdateBootBasedAndScreenTime E isScreenOn bootFromTimeStamp g =
     on_history (UserHistory_UpdateBootBasedAndScreenTime (ge_db E) isScreenOn bootFromTimeStamp False) g"

definition CreateUserHistory ::
    "('d, 'q) group_env \<Rightarrow> int \<Rightarrow> bool \<Rightarrow> 'd \<Rightarrow> ('d, 'q) group_controller \<Rightarrow> ('d, 'q) group_controller" where
  "CreateUserHistory E bootFromTimeStamp core db g =
     (let g1 = (case gc_history g of
                  None \<Rightarrow> g \<lparr> gc_history := Some (UserHistory_new (ge_db E) bootFromTimeStamp core db) \<rparr>
                | Some _ \<Rightarrow> g)
      in OnScreenChanged E (ge_screenOn E) bootFromTimeStamp g1)"

text \<open>For the main app index every key that begins with the bundle name is erased; for a clone its
own key first, and then, as the code falls through, the same keys as well.\<close>

definition DeleteUsageGroupCache :: "string \<Rightarrow> int \<Rightarrow> int \<Rightarrow> history_map \<Rightarrow> history_map" where
  "DeleteUsageGroupCache bundleName uid appIndex m =
     (let m1 = (if appIndex \<noteq> 0 then om_erase (GetBundleUsageKey bundleName uid) m else m)
      in filter (\<lambda>it. \<not> starts_with (fst it) bundleName) m1)"

definition GroupController_OnBundleUninstalled ::
    "('d, 'q) group_env \<Rightarrow> int \<Rightarrow> string \<Rightarrow> int \<Rightarrow> int \<Rightarrow> ('d, 'q) group_controller \<Rightarrow> ('d, 'q) group_controller" where
  "GroupController_OnBundleUninstalled E userId bundleName uid appIndex g =
     on_history (\<lambda>s. case fst (GetUserHistory (ge_db E) userId False s) of
         None \<Rightarrow> s
       | Some m \<Rightarrow>
           UserHistory_OnBundleUninstalled (ge_db E) userId bundleName uid appIndex
             (s \<lparr> uh_userHistory := om_insert userId (DeleteUsageGroupCache bundleName uid appIndex m)
                    (uh_userHistory s) \<rparr>)) g"

definition PeriodCheckBundleState ::
    "('d, 'q) group_env \<Rightarrow> int \<Rightarrow> ('d, 'q) group_controller \<Rightarrow> ('d, 'q) group_controller" where
  "PeriodCheckBundleState E userId g =
     on_handler (GroupHandler_SendEvent (ge_ffrt E) MSG_CHECK_DEFAULT_BUNDLE_STATE
       (Some (GroupHandlerObject_copy (GroupHandlerObject_new \<lparr> go_userId := userId \<rparr>))) FIVE_SECOND) g"

definition GetNewGroup ::
    "('d, 'q) group_env \<Rightarrow> string \<Rightarrow> int \<Rightarrow> int \<Rightarrow> int \<Rightarrow> ('d, 'q) group_controller \<Rightarrow> int" where
  "GetNewGroup E bundleName userId bootBasedTimeStamp uid g =
     (case gc_history g of
        None \<Rightarrow> - 1
      | Some s \<Rightarrow>
          let groupIndex = GetLevelIndex (ge_db E) bundleName userId bootBasedTimeStamp
                (gc_screenTimeLevel g) (gc_bootTimeLevel g) uid s
          in if groupIndex < 0 then - 1 else LEVEL_GROUP ! nat groupIndex)"

definition SendCheckBundleMsg ::
    "('d, 'q) group_env \<Rightarrow> event \<Rightarrow> int \<Rightarrow> int \<Rightarrow> int \<Rightarrow> ('d, 'q) group_controller \<Rightarrow> ('d, 'q) group_controller" where
  "SendCheckBundleMsg E ev userId timeUntilNextCheck checkBundleMsgEventId g =
     (let obj = GroupHandlerObject_new \<lparr> go_userId := userId, go_bundleName := ev_bundleName ev, go_uid := ev_uid ev \<rparr>
      in on_handler (Handler_SendCheckBundleMsg (ge_ffrt E) checkBundleMsgEventId
           (Some (GroupHandlerObject_copy obj)) timeUntilNextCheck) g)"

definition GroupController_ReportEvent ::
    "('d, 'q) group_env \<Rightarrow> event \<Rightarrow> int \<Rightarrow> int \<Rightarrow> ('d, 'q) group_controller \<Rightarrow> ('d, 'q) group_controller" where
  "GroupController_ReportEvent E ev bootBasedTimeStamp userId g =
     (if \<not> gc_bundleGroupEnable g then g
      else case gc_history g of
        None \<Rightarrow> g
      | Some s \<Rightarrow>
          if \<not> ge_installed E (ev_bundleName ev) userId then g
          else
            let eventId = ev_eventId ev
            in case om_find (gc_eventIdMatchReason g) eventId of
                 None \<Rightarrow> g
               | Some eventReason \<Rightarrow>
                   (case GetUsageHistoryForBundle (ge_db E) (ev_bundleName ev) userId bootBasedTimeStamp True
                           (ev_uid ev) s of
                      (None, s1) \<Rightarrow> g \<lparr> gc_history := Some s1 \<rparr>
                    | (Some h, s1) \<Rightarrow>
                        let (newGroup, usedAt, timeout, msg) =
                              (if eventId = NOTIFICATION_SEEN then
                                 (ACTIVE_GROUP_DAILY, 0, gc_timeoutForNotifySeen g,
                                  MSG_CHECK_NOTIFICATION_SEEN_BUNDLE_STATE)
                               else if eventId = SYSTEM_INTERACTIVE then
                                 (ACTIVE_GROUP_ALIVE, 0, gc_timeoutForSystemInteraction g,
                                  MSG_CHECK_SYSTEM_INTERACTIVE_BUNDLE_STATE)
                               else
                                 (ACTIVE_GROUP_ALIVE, bootBasedTimeStamp, gc_timeoutForDirectlyUse g,
                                  MSG_CHECK_DEFAULT_BUNDLE_STATE));
                            (h', s2) = ReportUsage ev newGroup eventReason usedAt
                              (bootBasedTimeStamp + timeout) userId (h, s1);
                            s3 = store_history userId (GetBundleUsageKey (ev_bundleName ev) (ev_uid ev)) h' s2
                        in SendCheckBundleMsg E ev userId timeout msg (g \<lparr> gc_history := Some s3 \<rparr>)))"

text \<open>A check of one bundle. The history pointer is not tested here: with no history the code would
fail, and the model leaves the state as it is.\<close>

definition CheckAndUpdateGroup ::
    "('d, 'q) group_env \<Rightarrow> string \<Rightarrow> int \<Rightarrow> int \<Rightarrow> int \<Rightarrow> ('d, 'q) group_controller \<Rightarrow> ('d, 'q) group_controller" where
  "CheckAndUpdateGroup E bundleName userId uid bootBasedTimeStamp g =
     (case gc_history g of
        None \<Rightarrow> g
      | Some s \<Rightarrow>
          (case GetUsageHistoryForBundle (ge_db E) bundleName userId bootBasedTimeStamp True uid s of
             (None, s1) \<Rightarrow> g \<lparr> gc_history := Some s1 \<rparr>
           | (Some h, s1) \<Rightarrow>
               let g1 = g \<lparr> gc_history := Some s1 \<rparr>;
                   groupReason0 = ph_reasonInGroup h;
                   oldGroupControlReason = groupReason0 AND GROUP_CONTROL_REASON_MASK
               in if oldGroupControlReason = GROUP_CONTROL_REASON_FORCED then g1
                  else
                    let oldGroup = ph_currentGroup h;
                        calculated = (oldGroupControlReason = GROUP_CONTROL_REASON_DEFAULT \<or>
                          oldGroupControlReason = GROUP_CONTROL_REASON_USAGE \<or>
                          oldGroupControlReason = GROUP_CONTROL_REASON_TIMEOUT);
                        newGroup1 = (if calculated then GetNewGroup E bundleName userId bootBasedTimeStamp uid g1
                                     else max oldGroup ACTIVE_GROUP_ALIVE);
                        groupReason1 = (if calculated then GROUP_CONTROL_REASON_TIMEOUT else groupReason0)
                    in if calculated \<and> newGroup1 < 0 then g1
                       else
                         let adjusted = GetBootBasedTimeStamp bootBasedTimeStamp s1;
                             (newGroup, groupReason, notTimeout) =
                               (if newGroup1 \<ge> ACTIVE_GROUP_ALIVE \<and> ph_bundleAliveTimeoutTimeStamp h > adjusted then
                                  (ACTIVE_GROUP_ALIVE,
                                   GROUP_CONTROL_REASON_USAGE OR GROUP_EVENT_REASON_ALIVE_NOT_TIMEOUT, True)
                                else if newGroup1 \<ge> ACTIVE_GROUP_DAILY \<and> ph_bundleDailyTimeoutTimeStamp h > adjusted then
                                  (ACTIVE_GROUP_DAILY,
                                   GROUP_CONTROL_REASON_USAGE OR GROUP_EVENT_REASON_ALIVE_TIMEOUT, True)
                                else (newGroup1, groupReason1, False))
                         in if oldGroup < newGroup \<or> notTimeout then
                              g1 \<lparr> gc_history := Some (snd (UserHistory_SetAppGroup (ge_db E) bundleName userId uid
                                     bootBasedTimeStamp newGroup groupReason False s1)) \<rparr>
                            else g1))"

definition CheckEachBundleState ::
    "('d, 'q) group_env \<Rightarrow> int \<Rightarrow> ('d, 'q) group_controller \<Rightarrow> bool \<times> ('d, 'q) group_controller" where
  "CheckEachBundleState E userId g =
     (case ge_apps E userId of
        None \<Rightarrow> (False, g)
      | Some allBundlesForUser \<Rightarrow>
          (case ge_bootTime E of
             None \<Rightarrow> (False, g)
           | Some bootBasedTimeStamp \<Rightarrow>
               (True, fold (\<lambda>oneBundle. CheckAndUpdateGroup E (fst oneBundle) userId (snd oneBundle) bootBasedTimeStamp)
                  allBundlesForUser g)))"

definition GroupController_OnUserSwitched ::
    "('d, 'q) group_env \<Rightarrow> int \<Rightarrow> int \<Rightarrow> ('d, 'q) group_controller \<Rightarrow> ('d, 'q) group_controller" where
  "GroupController_OnUserSwitched E userId currentUsedUser g =
     (let g1 = snd (CheckEachBundleState E currentUsedUser g)
      in case gc_history g1 of
           None \<Rightarrow> g1
         | Some s \<Rightarrow>
             let g2 = g1 \<lparr> gc_history := Some (WriteBundleUsage (ge_db E) currentUsedUser s) \<rparr>;
                 rm = (\<lambda>m. on_handler (GroupHandler_RemoveEvent (ge_ffrt E) m));
                 g3 = rm MSG_CHECK_SYSTEM_INTERACTIVE_BUNDLE_STATE
                        (rm MSG_CHECK_NOTIFICATION_SEEN_BUNDLE_STATE
                          (rm MSG_CHECK_DEFAULT_BUNDLE_STATE (rm MSG_CHECK_IDLE_STATE g2)))
             in PeriodCheckBundleState E userId g3)"

definition CheckIdleStatsOneTime ::
    "('d, 'q) group_env \<Rightarrow> ('d, 'q) group_controller \<Rightarrow> ('d, 'q) group_controller" where
  "CheckIdleStatsOneTime E g =
     on_handler (GroupHandler_SendEvent (ge_ffrt E) MSG_ONE_TIME_CHECK_BUNDLE_STATE
       (Some (GroupHandlerObject_copy GroupHandlerObject_new)) 0) g"

definition GroupController_ShutDown ::
    "('d, 'q) group_env \<Rightarrow> int \<Rightarrow> int \<Rightarrow> ('d, 'q) group_controller \<Rightarrow> ('d, 'q) group_controller" where
  "GroupController_ShutDown E bootBasedTimeStamp userId g =
     on_history (UserHistory_UpdateBootBasedAndScreenTime (ge_db E) False bootBasedTimeStamp True)
       (snd (CheckEachBundleState E userId g))"

text \<open>The loop of \<open>SetAppGroup\<close> walks over the user's map while \<open>GetUsageHistoryForBundle\<close> may insert
into it: an entry whose key contains the bundle name, but whose own bundle is another one, makes a
new record under the bundle name and that entry's uid. A key inserted behind the current position
is visited, one before it is not. The work list holds the keys still ahead, with the uids of their
records; an inserted key is its own key, so it inserts nothing when it is visited and the loop ends.\<close>

definition own_key :: "string \<Rightarrow> string \<times> int \<Rightarrow> bool" where
  "own_key bundleName it \<longleftrightarrow> fst it = GetBundleUsageKey bundleName (snd it)"

lemma insert_ahead_size:
  "P (k, v) \<Longrightarrow> length (filter (\<lambda>x. \<not> P x) (om_insert k v ws)) \<le> length (filter (\<lambda>x. \<not> P x) ws)"
  by (induction k v ws rule: om_insert.induct) auto

lemma insert_ahead_length: "length (om_insert k v ws) \<le> Suc (length ws)"
  by (induction k v ws rule: om_insert.induct) auto

function SetAppGroup_loop ::
    "('d, 'q) group_env \<Rightarrow> string \<Rightarrow> int \<Rightarrow> int \<Rightarrow> 32 word \<Rightarrow> int \<Rightarrow> bool \<Rightarrow> (string \<times> int) list \<Rightarrow>
     errcode \<times> 'd user_history \<Rightarrow> errcode \<times> 'd user_history" where
  "SetAppGroup_loop E bundleName userId newGroup reason boot isFlush [] (result, s) = (result, s)"
| "SetAppGroup_loop E bundleName userId newGroup reason boot isFlush ((key, uid) # ws) (result, s) =
     (if \<not> contains_str key bundleName
      then SetAppGroup_loop E bundleName userId newGroup reason boot isFlush ws (result, s)
      else
        let newKey = GetBundleUsageKey bundleName uid;
            inserted = (history_of userId newKey s = None);
            (oneBundleHistory, s1) = GetUsageHistoryForBundle (ge_db E) bundleName userId boot True uid s;
            ws' = (if inserted \<and> key < newKey then om_insert newKey uid ws else ws)
        in case oneBundleHistory of
             None \<Rightarrow> SetAppGroup_loop E bundleName userId newGroup reason boot isFlush ws' (result, s1)
           | Some _ \<Rightarrow>
               let (tempResult, s2) = UserHistory_SetAppGroup (ge_db E) bundleName userId uid boot newGroup
                     reason isFlush s1
               in SetAppGroup_loop E bundleName userId newGroup reason boot isFlush ws'
                    (if tempResult \<noteq> ERR_OK then tempResult else result, s2))"
  by pat_completeness auto
termination
proof (relation "measure (\<lambda>(E, bn, u, g, r, b, f, ws, st). length (filter (\<lambda>x. \<not> own_key bn x) ws) + length ws)",
    goal_cases)
  case 1
  then show ?case by simp
next
  case 2
  then show ?case by simp
next
  case (3 E bn userId g r boot f key uid ws result s)
  then show ?case
    using insert_ahead_size [of "own_key bn" "GetBundleUsageKey bn uid" uid ws]
      insert_ahead_length [of "GetBundleUsageKey bn uid" uid ws]
    by (auto simp: own_key_def)
next
  case (4 E bn userId g r boot f key uid ws result s)
  then show ?case
    using insert_ahead_size [of "own_key bn" "GetBundleUsageKey bn uid" uid ws]
      insert_ahead_length [of "GetBundleUsageKey bn uid" uid ws]
    by (auto simp: own_key_def)
qed

definition GroupController_SetAppGroup ::
    "('d, 'q) group_env \<Rightarrow> string \<Rightarrow> int \<Rightarrow> int \<Rightarrow> 32 word \<Rightarrow> int \<Rightarrow> bool \<Rightarrow> ('d, 'q) group_controller \<Rightarrow>
     errcode \<times> ('d, 'q) group_controller" where
  "GroupController_SetAppGroup E bundleName userId newGroup reason bootBasedTimeStamp isFlush g =
     (if \<not> ge_installed E bundleName userId then (ERR_NO_APP_GROUP_INFO_IN_DATABASE, g)
      else case gc_history g of
        None \<Rightarrow> (ERR_NO_APP_GROUP_INFO_IN_DATABASE, g)
      | Some s \<Rightarrow>
          (case om_find (uh_userHistory s) userId of
             None \<Rightarrow> (ERR_NO_APP_GROUP_INFO_IN_DATABASE, g)
           | Some packageHistoryMap \<Rightarrow>
               let (result, s') = SetAppGroup_loop E bundleName userId newGroup reason bootBasedTimeStamp isFlush
                     (map (\<lambda>it. (fst it, ph_uid (snd it))) packageHistoryMap) (ERR_OK, s)
               in (result, g \<lparr> gc_history := Some s' \<rparr>)))"

section \<open>Queries\<close>

definition IsBundleIdle :: "('d, 'q) group_env \<Rightarrow> string \<Rightarrow> int \<Rightarrow> ('d, 'q) group_controller \<Rightarrow> int" where
  "IsBundleIdle E bundleName userId g =
     (case gc_history g of
        None \<Rightarrow> - 1
      | Some s \<Rightarrow>
          if \<not> ge_installed E bundleName userId then - 1
          else case om_find (uh_userHistory s) userId of
              None \<Rightarrow> - 1
            | Some packageHistoryMap \<Rightarrow>
                fold (\<lambda>it idle.
                    if \<not> contains_str (fst it) bundleName then idle
                    else case fst (GetUsageHistoryForBundle (ge_db E) bundleName userId 0 False (ph_uid (snd it)) s) of
                        None \<Rightarrow> idle
                      | Some h \<Rightarrow> if ph_currentGroup h \<le> ACTIVE_GROUP_RARE then 0 else idle)
                  packageHistoryMap 1)"

text \<open>The history pointer is not tested; without a history the answer is that of an unknown user.\<close>

definition GroupController_QueryAppGroup ::
    "('d, 'q) group_env \<Rightarrow> string \<Rightarrow> int \<Rightarrow> ('d, 'q) group_controller \<Rightarrow> errcode + int" where
  "GroupController_QueryAppGroup E bundleName userId g =
     (if bundleName = '''' then Inl ERR_NO_APP_GROUP_INFO_IN_DATABASE
      else if \<not> ge_installed E bundleName userId then Inl ERR_APPLICATION_IS_NOT_INSTALLED
      else case gc_history g of
        None \<Rightarrow> Inl ERR_NO_APP_GROUP_INFO_IN_DATABASE
      | Some s \<Rightarrow>
          (case om_find (uh_userHistory s) userId of
             None \<Rightarrow> Inl ERR_NO_APP_GROUP_INFO_IN_DATABASE
           | Some packageHistoryMap \<Rightarrow>
               Inr (fold (\<lambda>it appGroup.
                    if \<not> contains_str (fst it) bundleName then appGroup
                    else case fst (GetUsageHistoryForBundle (ge_db E) bundleName userId 0 False (ph_uid (snd it)) s) of
                        None \<Rightarrow> appGroup
                      | Some h \<Rightarrow> min (ph_currentGroup h) appGroup)
                  packageHistoryMap ACTIVE_GROUP_NEVER)))"

definition IsUsedOverOneWeek :: "('d, 'q) group_env \<Rightarrow> string \<Rightarrow> int \<Rightarrow> ('d, 'q) group_controller \<Rightarrow> bool" where
  "IsUsedOverOneWeek E bundleName userId g =
     (case gc_history g of
        None \<Rightarrow> False
      | Some s \<Rightarrow>
          let firstUseTime = GetFirstUseTime (ge_db E) bundleName userId s
          in if firstUseTime = MAX_END_TIME then False
             else let curTime = GetSystemTimeMs (ge_now E)
                  in if curTime < 0 \<or> curTime - firstUseTime > ONE_WEEK_TIME then False else True)"

section \<open>Processing a task\<close>

definition GroupHandler_ProcessEvent ::
    "('d, 'q) group_env \<Rightarrow> int \<Rightarrow> group_obj option \<Rightarrow> ('d, 'q) group_controller \<Rightarrow> ('d, 'q) group_controller" where
  "GroupHandler_ProcessEvent E eventId handlerobj g =
     (case gc_handler g of
        None \<Rightarrow> g
      | Some h \<Rightarrow>
          if \<not> th_isInited h then g
          else if eventId = MSG_CHECK_DEFAULT_BUNDLE_STATE \<or> eventId = MSG_CHECK_NOTIFICATION_SEEN_BUNDLE_STATE \<or>
              eventId = MSG_CHECK_SYSTEM_INTERACTIVE_BUNDLE_STATE then
            (case (handlerobj, ge_bootTime E) of
               (Some obj, Some bootBasedTimeStamp) \<Rightarrow>
                 GroupController_RestoreToDatabase E (go_userId obj)
                   (CheckAndUpdateGroup E (go_bundleName obj) (go_userId obj) (go_uid obj) bootBasedTimeStamp g)
             | _ \<Rightarrow> g)
          else if eventId = MSG_ONE_TIME_CHECK_BUNDLE_STATE then
            on_handler (GroupHandler_RemoveEvent (ge_ffrt E) MSG_ONE_TIME_CHECK_BUNDLE_STATE)
              (fold (\<lambda>userId g. GroupController_RestoreToDatabase E userId (snd (CheckEachBundleState E userId g)))
                (ge_activeUsers E) g)
          else if eventId = MSG_CHECK_IDLE_STATE then
            (case handlerobj of
               None \<Rightarrow> g
             | Some obj \<Rightarrow>
                 let (ok, g1) = CheckEachBundleState E (go_userId obj) g
                 in if ok \<and> gc_bundleGroupEnable g1 then
                      (let obj' = GroupHandlerObject_new \<lparr> go_userId := go_userId obj \<rparr>
                       in on_handler (GroupHandler_SendEvent (ge_ffrt E) MSG_CHECK_IDLE_STATE
                              (Some (GroupHandlerObject_copy obj')) (gh_checkIdleInterval h))
                            (GroupController_RestoreToDatabase E (go_userId obj') g1))
                    else g1)
          else g)"

text \<open>The closures: the handler is looked up through the controller when the task runs.\<close>

fun run_group_task ::
    "('d, 'q) group_env \<Rightarrow> group_task \<Rightarrow> ('d, 'q) group_controller \<Rightarrow> ('d, 'q) group_controller" where
  "run_group_task E (EventTask eventId obj) g =
     (case GetBundleGroupHandler g of
        None \<Rightarrow> g
      | Some h \<Rightarrow> if \<not> th_isInited h then g
          else on_handler (Handler_finish eventId) (GroupHandler_ProcessEvent E eventId obj g))"
| "run_group_task E (CheckTask eventId obj msgKey) g =
     (case GetBundleGroupHandler g of
        None \<Rightarrow> g
      | Some h \<Rightarrow>
          on_handler (\<lambda>h. case om_find (gh_checkBundleTaskMap h) msgKey of
              None \<Rightarrow> h
            | Some _ \<Rightarrow> h \<lparr> gh_checkBundleTaskMap := om_erase msgKey (gh_checkBundleTaskMap h) \<rparr>)
            (GroupHandler_ProcessEvent E eventId obj g))"
| "run_group_task E (ScreenTask isScreenOn bootFromTimeStamp) g =
     GroupController_UpdateBootBasedAndScreenTime E isScreenOn bootFromTimeStamp g"
| "run_group_task E (NotifyTask callbackInfo) g = g"

section \<open>Lemmas\<close>

definition group_history :: "int \<Rightarrow> string \<Rightarrow> int \<Rightarrow> ('d, 'q) group_controller \<Rightarrow> package_history option" where
  "group_history userId bn uid g =
     (case gc_history g of None \<Rightarrow> None | Some s \<Rightarrow> history_of userId (GetBundleUsageKey bn uid) s)"

lemma GetUsageHistoryForBundle_existing:
  assumes "history_of userId (GetBundleUsageKey bn uid) s = Some h"
  shows "GetUsageHistoryForBundle D bn userId t c uid s =
    (Some h, s \<lparr> uh_userHistory := om_insert userId (the (om_find (uh_userHistory s) userId)) (uh_userHistory s) \<rparr>)"
  using assms
  by (auto simp: history_of_def GetUsageHistoryForBundle_def GetUserHistory_def
      GetUsageHistoryInUserHistory_def Let_def split: option.splits)

lemma same_history_of:
  assumes "om_find (uh_userHistory s) userId = Some m"
  shows "history_of u k (s \<lparr> uh_userHistory := om_insert userId m (uh_userHistory s) \<rparr>) = history_of u k s"
  using assms by (auto simp: history_of_def)

lemma history_of_Some: "history_of u k s = Some h \<Longrightarrow> \<exists>m. om_find (uh_userHistory s) u = Some m"
  by (auto simp: history_of_def split: option.splits)

lemma GetBootBasedTimeStamp_history [simp]:
  "GetBootBasedTimeStamp t (s \<lparr> uh_userHistory := m \<rparr>) = GetBootBasedTimeStamp t s"
  by (simp add: GetBootBasedTimeStamp_def)

lemma GetScreenOnTimeStamp_history [simp]:
  "GetScreenOnTimeStamp t (s \<lparr> uh_userHistory := m \<rparr>) = GetScreenOnTimeStamp t s"
  by (simp add: GetScreenOnTimeStamp_def)

lemma GetNewGroup_range:
  "GetNewGroup E bn u t uid g \<in> {- 1, ACTIVE_GROUP_ALIVE, ACTIVE_GROUP_DAILY, ACTIVE_GROUP_FIXED, ACTIVE_GROUP_RARE}"
proof -
  have "level_loop 4 a b sl bl \<in> {- 1, 0, 1, 2, 3}" for a b sl bl
    using level_loop_range [of 4 a b sl bl] by auto
  then have l: "GetLevelIndex D bn u t sl bl uid s \<in> {- 1, 0, 1, 2, 3}" for D :: "'a history_db" and s sl bl
    by (simp add: GetLevelIndex_def Let_def split: option.splits)
  have "(if l < 0 then - 1 else LEVEL_GROUP ! nat l) \<in>
      {- 1, ACTIVE_GROUP_ALIVE, ACTIVE_GROUP_DAILY, ACTIVE_GROUP_FIXED, ACTIVE_GROUP_RARE}"
    if "l \<in> {- 1, 0, 1, 2, 3}" for l
    using that by (auto simp: LEVEL_GROUP_def)
  from this [OF l] show ?thesis
    by (cases "gc_history g") (simp_all add: GetNewGroup_def Let_def)
qed

lemma SetAppGroup_record:
  assumes "history_of userId (GetBundleUsageKey bn uid) s = Some h"
  shows "history_of u k (snd (UserHistory_SetAppGroup D bn userId uid t g r False s)) =
    (if u = userId \<and> k = GetBundleUsageKey bn uid
     then Some (if ph_currentGroup h = g \<and> ph_reasonInGroup h = r then h
                else h \<lparr> ph_currentGroup := g, ph_reasonInGroup := r, ph_isChanged := True \<rparr>)
     else history_of u k s)"
proof -
  obtain m where m: "om_find (uh_userHistory s) userId = Some m" "om_find m (GetBundleUsageKey bn uid) = Some h"
    using assms by (auto simp: history_of_def split: option.splits)
  show ?thesis
    using m assms
    by (auto simp: UserHistory_SetAppGroup_def GetUserHistory_no_create GetUsageHistoryIn_no_create
        Let_def store_history_of)
qed

definition usual_reason :: "package_history \<Rightarrow> bool" where
  "usual_reason h \<longleftrightarrow> ph_reasonInGroup h AND GROUP_CONTROL_REASON_MASK \<in>
     {GROUP_CONTROL_REASON_DEFAULT, GROUP_CONTROL_REASON_USAGE, GROUP_CONTROL_REASON_TIMEOUT}"

lemma GetNewGroup_same_history:
  assumes "gc_history g = Some s" "om_find (uh_userHistory s) userId = Some m"
  shows "GetNewGroup E bn userId t uid (g \<lparr> gc_history :=
      Some (s \<lparr> uh_userHistory := om_insert userId m (uh_userHistory s) \<rparr>) \<rparr>) = GetNewGroup E bn userId t uid g"
  using assms
  by (auto simp: GetNewGroup_def GetLevelIndex_def GetUserHistory_no_create GetUsageHistoryIn_no_create
      Let_def split: option.splits)

text \<open>The group a check gives to a bundle that is not forced.\<close>

definition checked_group :: "package_history \<Rightarrow> int \<Rightarrow> int \<Rightarrow> int" where
  "checked_group h level now =
     (if level < 0 then ph_currentGroup h
      else if ph_bundleAliveTimeoutTimeStamp h > now then ACTIVE_GROUP_ALIVE
      else if level \<ge> ACTIVE_GROUP_DAILY \<and> ph_bundleDailyTimeoutTimeStamp h > now then ACTIVE_GROUP_DAILY
      else max (ph_currentGroup h) level)"

lemma CheckAndUpdateGroup_record:
  assumes g: "gc_history g = Some s" and h: "history_of userId (GetBundleUsageKey bn uid) s = Some h"
    and usual: "usual_reason h"
  shows "\<exists>s' h'. gc_history (CheckAndUpdateGroup E bn userId uid t g) = Some s' \<and>
    history_of userId (GetBundleUsageKey bn uid) s' = Some h' \<and>
    ph_currentGroup h' = checked_group h (GetNewGroup E bn userId t uid g) (GetBootBasedTimeStamp t s) \<and>
    (\<forall>u k. (u, k) \<noteq> (userId, GetBundleUsageKey bn uid) \<longrightarrow> history_of u k s' = history_of u k s)"
proof -
  obtain m where m: "om_find (uh_userHistory s) userId = Some m"
    using history_of_Some [OF h] by blast
  let ?s1 = "s \<lparr> uh_userHistory := om_insert userId m (uh_userHistory s) \<rparr>"
  let ?g1 = "g \<lparr> gc_history := Some ?s1 \<rparr>"
  let ?level = "GetNewGroup E bn userId t uid g"
  have get: "GetUsageHistoryForBundle (ge_db E) bn userId t True uid s = (Some h, ?s1)"
    using GetUsageHistoryForBundle_existing [OF h] m by simp
  have same: "history_of u k ?s1 = history_of u k s" for u k
    by (rule same_history_of [OF m])
  have level: "GetNewGroup E bn userId t uid ?g1 = ?level"
    by (rule GetNewGroup_same_history [OF g m])
  have pos: "?level < 0 \<or> 10 \<le> ?level"
    using GetNewGroup_range [of E bn userId t uid g] by auto
  have forced: "ph_reasonInGroup h AND 0xFF00 \<noteq> 0x400"
    using usual by (auto simp: usual_reason_def)
  have calc: "ph_reasonInGroup h AND 0xFF00 = 0x100 \<or> ph_reasonInGroup h AND 0xFF00 = 0x300 \<or>
      ph_reasonInGroup h AND 0xFF00 = 0x200"
    using usual by (auto simp: usual_reason_def)
  note rec = SetAppGroup_record [of userId bn uid ?s1 h, unfolded same, OF h]
  define now where "now = GetBootBasedTimeStamp t s"
  define new where "new = checked_group h ?level now"
  show ?thesis
  proof (cases "?level < 0")
    case True
    then have "CheckAndUpdateGroup E bn userId uid t g = ?g1"
      by (simp add: CheckAndUpdateGroup_def g get forced calc level Let_def)
    then show ?thesis
      using True h by (simp add: same checked_group_def)
  next
    case False
    have "\<exists>r. CheckAndUpdateGroup E bn userId uid t g = ?g1 \<and> ph_currentGroup h = new \<or>
        CheckAndUpdateGroup E bn userId uid t g =
          ?g1 \<lparr> gc_history := Some (snd (UserHistory_SetAppGroup (ge_db E) bn userId uid t new r False ?s1)) \<rparr>"
      using False pos calc
      by (auto simp: CheckAndUpdateGroup_def g get forced level Let_def new_def checked_group_def now_def max_def)
    then show ?thesis
      using h by (auto simp: same rec new_def now_def)
  qed
qed

text \<open>The sent check is filed under its key, live, and replaces the one that was there.\<close>

lemma SendCheckBundleMsg_lookup:
  assumes "th_isInited h" "obj \<noteq> None"
    and "fq_submit Q (CheckTask e obj (GetMsgKey e obj d)) (GetFFRTDelayTime d)
      (case om_find (gh_checkBundleTaskMap h) (GetMsgKey e obj d) of
         None \<Rightarrow> th_queue h | Some old \<Rightarrow> fq_cancel Q old (th_queue h)) = (n, q)"
  shows "om_find (gh_checkBundleTaskMap (Handler_SendCheckBundleMsg Q e obj d h)) k =
      (if k = GetMsgKey e obj d then Some n else om_find (gh_checkBundleTaskMap h) k) \<and>
    th_queue (Handler_SendCheckBundleMsg Q e obj d h) = q"
proof -
  have "GetMsgKey e obj d \<noteq> ''''"
    using assms(2) by (auto simp: GetMsgKey_def)
  then show ?thesis
    using assms
    by (auto simp: Handler_SendCheckBundleMsg_def RemoveCheckBundleMsg_def Let_def split: option.splits)
qed

lemma matched_min_le:
  "fold (\<lambda>it a. if \<not> P it then a else case f it of None \<Rightarrow> a | Some h \<Rightarrow> min (g h) a) m (a::int) \<le> n \<longleftrightarrow>
   a \<le> n \<or> (\<exists>it \<in> set m. P it \<and> (\<exists>h. f it = Some h \<and> g h \<le> n))"
  by (induction m arbitrary: a) (auto split: option.splits)

lemma matched_flag:
  "fold (\<lambda>it a. if \<not> P it then a else case f it of None \<Rightarrow> a | Some h \<Rightarrow> if g h \<le> n then 0 else a) m (a::int) =
   (if \<exists>it \<in> set m. P it \<and> (\<exists>h. f it = Some h \<and> g h \<le> (n::int)) then 0 else a)"
  by (induction m arbitrary: a) (auto split: option.splits)

lemma DeleteUsageGroupCache_find:
  assumes "om_wf m"
  shows "om_find (DeleteUsageGroupCache bn uid appIndex m) k =
    (if starts_with k bn \<or> (appIndex \<noteq> 0 \<and> k = GetBundleUsageKey bn uid) then None else om_find m k)"
proof -
  have filt: "om_find (filter (\<lambda>it. \<not> starts_with (fst it) bn) l) k =
      (if starts_with k bn then None else om_find l k)" for l :: history_map
    by (induction l) auto
  show ?thesis
    using assms by (auto simp: DeleteUsageGroupCache_def Let_def filt)
qed

lemma usage_key_starts: "starts_with (GetBundleUsageKey bn uid) bn"
  by (simp add: GetBundleUsageKey_def starts_with_append)

section \<open>Properties\<close>

text \<open>C29: A delayed check of a bundle moves it by the rules and touches nothing else. A record whose
group was set by force keeps its group. A record with a usual reason takes the group of the level
its idle time has reached, never a more active one than it has, except while its alive or daily
timeout has not passed: then it is in that group. In both cases the records of all other bundles
and users are what they were.\<close>

theorem check_group_effect:
  assumes "gc_history g = Some s" "history_of userId (GetBundleUsageKey bn uid) s = Some h"
    and "is_forced h \<or> usual_reason h"
  shows "\<exists>s' h'. gc_history (CheckAndUpdateGroup E bn userId uid t g) = Some s' \<and>
    history_of userId (GetBundleUsageKey bn uid) s' = Some h' \<and>
    ph_currentGroup h' = (if is_forced h then ph_currentGroup h
      else checked_group h (GetNewGroup E bn userId t uid g) (GetBootBasedTimeStamp t s)) \<and>
    (\<forall>u k. (u, k) \<noteq> (userId, GetBundleUsageKey bn uid) \<longrightarrow> history_of u k s' = history_of u k s)"
proof (cases "is_forced h")
  case False
  then show ?thesis
    using CheckAndUpdateGroup_record [OF assms(1,2), of E t] assms(3) by auto
next
  case True
  obtain m where m: "om_find (uh_userHistory s) userId = Some m"
    using history_of_Some [OF assms(2)] by blast
  have "CheckAndUpdateGroup E bn userId uid t g =
      g \<lparr> gc_history := Some (s \<lparr> uh_userHistory := om_insert userId m (uh_userHistory s) \<rparr>) \<rparr>"
    using True m by (simp add: CheckAndUpdateGroup_def assms(1) is_forced_def
        GetUsageHistoryForBundle_existing [OF assms(2)] Let_def)
  then show ?thesis
    using True assms(2) by (simp add: same_history_of [OF m])
qed

definition group_demo_env :: "(unit, nat \<times> (nat \<times> group_task \<times> int) list) group_env" where
  "group_demo_env = \<lparr> ge_db = empty_db, ge_ffrt = list_queue, ge_installed = (\<lambda>bn u. True),
     ge_apps = (\<lambda>u. Some [(''app'', 7)]), ge_bootTime = Some 100, ge_now = 0, ge_screenOn = True,
     ge_activeUsers = [100] \<rparr>"

definition group_demo_history :: "package_history" where
  "group_demo_history = PackageHistory_default \<lparr> ph_bundleName := ''app'', ph_uid := 7,
     ph_currentGroup := 10, ph_bundleAliveTimeoutTimeStamp := 50 \<rparr>"

definition group_demo :: "(unit, nat \<times> (nat \<times> group_task \<times> int) list) group_controller" where
  "group_demo = GroupController_Init False (0, []) (Some (0, []))
     \<lparr> gc_history = Some (new_history \<lparr> uh_userHistory := [(100, [(''app7'', group_demo_history)])] \<rparr>),
       gc_handler = None, gc_timeoutForDirectlyUse = 0, gc_timeoutForNotifySeen = 0,
       gc_timeoutForSystemInteraction = 0, gc_screenTimeLevel = [], gc_bootTimeLevel = [],
       gc_eventIdMatchReason = [], gc_bundleGroupEnable = True, gc_isInit = False \<rparr>"

lemma group_demo_facts:
  "GetBundleUsageKey ''app'' 7 = ''app7''"
  "gc_history group_demo = Some (new_history \<lparr> uh_userHistory := [(100, [(''app7'', group_demo_history)])] \<rparr>)"
  "gc_screenTimeLevel group_demo = [0, 0, ONE_HOUR, 2 * ONE_HOUR]"
  "gc_bootTimeLevel group_demo = [0, 12 * ONE_HOUR, 24 * ONE_HOUR, 48 * ONE_HOUR]"
  by (simp add: GetBundleUsageKey_def int_to_string_def nat_to_string.simps digit_char_def char_of_def bit_iff_odd,
      simp_all add: group_demo_def GroupController_Init_def)

theorem check_group_effect_witness:
  "\<exists>s' h'. gc_history (CheckAndUpdateGroup group_demo_env ''app'' 100 7 (13 * ONE_HOUR) group_demo) = Some s' \<and>
    history_of 100 ''app7'' s' = Some h' \<and> ph_currentGroup h' = ACTIVE_GROUP_DAILY"
proof -
  let ?s = "new_history \<lparr> uh_userHistory := [(100, [(''app7'', group_demo_history)])] \<rparr>"
  have h: "history_of 100 (GetBundleUsageKey ''app'' 7) ?s = Some group_demo_history"
    by (simp add: history_of_def group_demo_facts)
  have nf: "\<not> is_forced group_demo_history" "usual_reason group_demo_history"
    by (simp_all add: is_forced_def usual_reason_def group_demo_history_def PackageHistory_default_def)
  have level: "GetNewGroup group_demo_env ''app'' 100 (13 * ONE_HOUR) 7 group_demo = ACTIVE_GROUP_DAILY"
    by (simp add: GetNewGroup_def GetLevelIndex_def GetUserHistory_no_create GetUsageHistoryIn_no_create
        group_demo_facts new_history_eq group_demo_history_def PackageHistory_default_def Let_def
        GetScreenOnTimeStamp_def GetBootBasedTimeStamp_def LEVEL_GROUP_def numeral_eq_Suc)
  have "checked_group group_demo_history ACTIVE_GROUP_DAILY (GetBootBasedTimeStamp (13 * ONE_HOUR) ?s) =
      ACTIVE_GROUP_DAILY"
    by (simp add: checked_group_def group_demo_history_def PackageHistory_default_def new_history_eq
        GetBootBasedTimeStamp_def)
  then show ?thesis
    using check_group_effect [OF group_demo_facts(2) h, of group_demo_env "13 * ONE_HOUR"] nf level
    by (auto simp: group_demo_facts)
qed

text \<open>Asking for the group and asking for idleness agree. For an installed bundle of a known user
both are answered; the group is the least one of the records whose key contains the bundle name (and
never worse than \<open>ACTIVE_GROUP_NEVER\<close>), and the bundle is idle exactly when that group is beyond
\<open>ACTIVE_GROUP_RARE\<close>.\<close>

theorem idle_iff_group_beyond_rare:
  assumes "gc_history g = Some s" "om_find (uh_userHistory s) userId = Some m"
    and "ge_installed E bn userId" "bn \<noteq> ''''"
  shows "\<exists>grp. GroupController_QueryAppGroup E bn userId g = Inr grp \<and> grp \<le> ACTIVE_GROUP_NEVER \<and>
    (\<forall>n < ACTIVE_GROUP_NEVER. grp \<le> n \<longleftrightarrow>
      (\<exists>it \<in> set m. contains_str (fst it) bn \<and>
        (\<exists>h. history_of userId (GetBundleUsageKey bn (ph_uid (snd it))) s = Some h \<and> ph_currentGroup h \<le> n))) \<and>
    IsBundleIdle E bn userId g = (if grp > ACTIVE_GROUP_RARE then 1 else 0)"
proof -
  let ?look = "\<lambda>it. fst (GetUsageHistoryForBundle (ge_db E) bn userId 0 False (ph_uid (snd it)) s)"
  let ?grp = "fold (\<lambda>it a. if \<not> contains_str (fst it) bn then a
      else case ?look it of None \<Rightarrow> a | Some h \<Rightarrow> min (ph_currentGroup h) a) m ACTIVE_GROUP_NEVER"
  have look: "?look it = history_of userId (GetBundleUsageKey bn (ph_uid (snd it))) s" for it
    using assms(2) by (simp add: GetUsageHistoryForBundle_def GetUserHistory_no_create
        GetUsageHistoryIn_no_create history_of_def)
  have q: "GroupController_QueryAppGroup E bn userId g = Inr ?grp"
    using assms by (simp add: GroupController_QueryAppGroup_def)
  have idle: "IsBundleIdle E bn userId g = (if ?grp > ACTIVE_GROUP_RARE then 1 else 0)"
    using assms by (simp add: IsBundleIdle_def matched_flag matched_min_le not_le [symmetric])
  have "?grp \<le> ACTIVE_GROUP_NEVER"
    by (simp only: matched_min_le) simp
  then show ?thesis
    using q idle by (intro exI [of _ ?grp]) (auto simp: matched_min_le look)
qed

theorem idle_iff_group_beyond_rare_witness:
  "\<exists>grp. GroupController_QueryAppGroup group_demo_env ''app'' 100 group_demo = Inr grp \<and>
    IsBundleIdle group_demo_env ''app'' 100 group_demo = (if grp > ACTIVE_GROUP_RARE then 1 else 0)"
  using idle_iff_group_beyond_rare [of group_demo _ 100 "[(''app7'', group_demo_history)]" group_demo_env "''app''"]
  by (auto simp: group_demo_facts group_demo_env_def)

text \<open>Sending a delayed check supersedes the pending one with the same key. Afterwards the key
holds the handle of the new task, that task is live, the old task of the key is cancelled, the tasks
and handles of the other keys stay as they are: at most one check per key is ever live.\<close>

theorem check_message_superseded:
  assumes "ffrt_contract Q live" "th_isInited h" "obj \<noteq> None"
    and "inj_on (\<lambda>k. om_find (gh_checkBundleTaskMap h) k) {k. om_find (gh_checkBundleTaskMap h) k \<noteq> None}"
  shows "\<exists>n. om_find (gh_checkBundleTaskMap (Handler_SendCheckBundleMsg Q e obj d h)) (GetMsgKey e obj d) = Some n \<and>
    n \<in> live (th_queue (Handler_SendCheckBundleMsg Q e obj d h)) \<and>
    (\<forall>old. om_find (gh_checkBundleTaskMap h) (GetMsgKey e obj d) = Some old \<and> old \<noteq> n \<longrightarrow>
      old \<notin> live (th_queue (Handler_SendCheckBundleMsg Q e obj d h))) \<and>
    (\<forall>k n'. k \<noteq> GetMsgKey e obj d \<and> om_find (gh_checkBundleTaskMap h) k = Some n' \<longrightarrow>
      om_find (gh_checkBundleTaskMap (Handler_SendCheckBundleMsg Q e obj d h)) k = Some n' \<and>
      (n' \<in> live (th_queue h) \<longrightarrow> n' \<noteq> n \<and> n' \<in> live (th_queue (Handler_SendCheckBundleMsg Q e obj d h))))"
proof -
  let ?k = "GetMsgKey e obj d"
  let ?q0 = "case om_find (gh_checkBundleTaskMap h) ?k of None \<Rightarrow> th_queue h | Some old \<Rightarrow> fq_cancel Q old (th_queue h)"
  obtain n q where nq: "fq_submit Q (CheckTask e obj ?k) (GetFFRTDelayTime d) ?q0 = (n, q)"
    by (metis prod.collapse)
  note look = SendCheckBundleMsg_lookup [OF assms(2,3) nq]
  have fresh: "n \<notin> live ?q0" "live q = insert n (live ?q0)"
    using assms(1) nq unfolding ffrt_contract_def by (metis fst_conv snd_conv)+
  have q0: "live ?q0 = live (th_queue h) - {old. om_find (gh_checkBundleTaskMap h) ?k = Some old}"
    using assms(1) by (auto simp: ffrt_contract_def split: option.splits)
  have other: "om_find (gh_checkBundleTaskMap h) ?k \<noteq> Some n'"
    if "k \<noteq> ?k" "om_find (gh_checkBundleTaskMap h) k = Some n'" for k n'
    using inj_onD [OF assms(4), of k ?k] that by auto
  have keep: "n' \<in> live q" "n' \<noteq> n"
    if "k \<noteq> ?k" "om_find (gh_checkBundleTaskMap h) k = Some n'" "n' \<in> live (th_queue h)" for k n'
    using other [OF that(1,2)] that(3) fresh q0 by auto
  have n_live: "n \<in> live q"
    using fresh by simp
  have gone: "old \<notin> live q" if "om_find (gh_checkBundleTaskMap h) ?k = Some old" "old \<noteq> n" for old
    using that fresh q0 by auto
  show ?thesis
    by (intro exI [of _ n] conjI allI impI) (auto simp: look n_live gone keep(1) dest: keep(2))
qed

theorem check_message_superseded_witness:
  "\<exists>n. om_find (gh_checkBundleTaskMap (Handler_SendCheckBundleMsg list_queue 0 (Some GroupHandlerObject_new) 5
      (GroupHandler_Init (Some (0, [])) (GroupHandler_new False (0, [])))))
      (GetMsgKey 0 (Some GroupHandlerObject_new) 5) = Some n"
  using check_message_superseded [OF list_queue_contract,
      of "GroupHandler_Init (Some (0, [])) (GroupHandler_new False (0, []))" "Some GroupHandlerObject_new" 0 5]
  by (auto simp: GroupHandler_Init_def GroupHandler_new_def)



text \<open>The message that \<open>PeriodCheckBundleState\<close> sends names no bundle. When it is processed, the user
gets a record under the key \<open>-1\<close>, which belongs to no bundle.\<close>

lemma GetUsageHistoryForBundle_created:
  assumes "om_find (uh_userHistory s) userId = Some m" "om_find m (GetBundleUsageKey bn uid) = None"
  shows "\<exists>h s1. GetUsageHistoryForBundle D bn userId t True uid s = (Some h, s1) \<and> ph_bundleName h = bn \<and>
    history_of userId (GetBundleUsageKey bn uid) s1 = Some h"
  using assms
  by (auto simp: GetUsageHistoryForBundle_def GetUserHistory_def GetUsageHistoryInUserHistory_def Let_def
      history_of_def)

lemma period_check_phantom:
  assumes g: "gc_history g = Some s" and m: "om_find (uh_userHistory s) userId = Some m" "om_find m ''-1'' = None"
  shows "\<exists>s' h. gc_history (CheckAndUpdateGroup E '''' userId (- 1) t g) = Some s' \<and>
    history_of userId ''-1'' s' = Some h \<and> ph_bundleName h = ''''"
proof -
  have key: "GetBundleUsageKey '''' (- 1) = ''-1''"
    by (simp add: GetBundleUsageKey_def int_to_string_def nat_to_string.simps digit_char_def char_of_def bit_iff_odd)
  obtain h s1 where new: "GetUsageHistoryForBundle (ge_db E) '''' userId t True (- 1) s = (Some h, s1)"
    "ph_bundleName h = ''''" "history_of userId ''-1'' s1 = Some h"
    using GetUsageHistoryForBundle_created [of s userId m "''''" "- 1" "ge_db E" t] m key by auto
  have set: "\<exists>h'. history_of userId ''-1'' (snd (UserHistory_SetAppGroup D '''' userId (- 1) t n r False s1)) = Some h' \<and>
      ph_bundleName h' = ''''" for D :: "'a history_db" and n r
    using SetAppGroup_record [of userId "''''" "- 1" s1 h userId "''-1''" D t n r] new key by simp
  show ?thesis
    using new set by (simp add: CheckAndUpdateGroup_def g Let_def)
qed

end
