(* ===== verification/ConfigReader.thy ===== *)
theory ConfigReader
  imports Prelude
begin

text \<open>\<open>BundleActiveConfigReader\<close> (\<open>services/common\<close>): the thresholds of the service, read from the
configuration files of the device. The JSON library (cJSON) and the files are parameters: a parsed
value is whatever \<open>js_parse\<close> answers and is only looked into with the library's own operations.\<close>

section \<open>Files and JSON values\<close>

record 'j json_ops =
  js_parse :: "string \<Rightarrow> 'j option"
  js_item :: "'j \<Rightarrow> string \<Rightarrow> 'j option"
  js_isObject :: "'j \<Rightarrow> bool"
  js_isNumber :: "'j \<Rightarrow> bool"
  js_valueint :: "'j \<Rightarrow> int"

text \<open>\<open>GetCfgFiles\<close> answers an array of paths, some of them null, or nothing.\<close>

record config_files =
  cf_paths :: "string option list option"
  cf_realpath :: "string \<Rightarrow> string option"
  cf_load :: "string \<Rightarrow> string option"

section \<open>The configuration\<close>

record AppUsePeriodicallyConfig =
  minUseTimes :: int
  maxUseTimes :: int
  minUseDays :: int

record AppHighFrequencyPeriodThresholdConfig =
  minTotalUseDays :: int
  minTopUseHoursLimit :: int
  minHourUseDays :: int
  maxHighFreqHourNum :: int

record config =
  appUsePeriodicallyConfig :: AppUsePeriodicallyConfig
  appHighFreqPeriodThresholdConfig :: AppHighFrequencyPeriodThresholdConfig
  maxDataSize :: "64 word"
  isWindowVisibilityEnable :: bool

abbreviation (input) NUM_HOUR_ONE_DAY :: int where "NUM_HOUR_ONE_DAY \<equiv> 24"
abbreviation (input) NUM_DAY_ONE_WEEK :: int where "NUM_DAY_ONE_WEEK \<equiv> 7"
abbreviation (input) MINIMUM_LIMIT :: int where "MINIMUM_LIMIT \<equiv> 0"
abbreviation (input) PATH_MAX :: nat where "PATH_MAX \<equiv> 4096"
abbreviation (input) DEFAULT_MAX_DATA_SIZE :: "64 word" where "DEFAULT_MAX_DATA_SIZE \<equiv> 5 * 1024 * 1024"

definition IsValidObject :: "'j json_ops \<Rightarrow> 'j option \<Rightarrow> bool" where
  "IsValidObject J item = (case item of None \<Rightarrow> False | Some j \<Rightarrow> js_isObject J j)"

definition IsValidNumber :: "'j json_ops \<Rightarrow> 'j option \<Rightarrow> bool" where
  "IsValidNumber J item = (case item of None \<Rightarrow> False | Some j \<Rightarrow> js_isNumber J j)"

definition GetIntValue :: "'j json_ops \<Rightarrow> 'j \<Rightarrow> string \<Rightarrow> int \<Rightarrow> int \<Rightarrow> int \<Rightarrow> int" where
  "GetIntValue J root parameterName minLimit maxLimit defaultValue =
     (case js_item J root parameterName of
        None \<Rightarrow> defaultValue
      | Some item \<Rightarrow>
          if \<not> IsValidNumber J (Some item) then defaultValue
          else let val = js_valueint J item
               in if val < minLimit \<or> val > maxLimit then defaultValue else val)"

definition LoadApplicationUsePeriodically :: "'j json_ops \<Rightarrow> 'j \<Rightarrow> config \<Rightarrow> config" where
  "LoadApplicationUsePeriodically J root c =
     (case js_item J root ''application_use_periodically'' of
        None \<Rightarrow> c
      | Some r \<Rightarrow>
          if \<not> IsValidObject J (Some r) then c
          else c \<lparr> appUsePeriodicallyConfig := \<lparr>
            minUseTimes = GetIntValue J r ''MinUseTimes'' MINIMUM_LIMIT INT32_MAX 1,
            maxUseTimes = GetIntValue J r ''MaxUseTimes'' MINIMUM_LIMIT INT32_MAX 10,
            minUseDays = GetIntValue J r ''MinUseDays'' MINIMUM_LIMIT INT32_MAX 3 \<rparr> \<rparr>)"

definition LoadAppHighFreqPeriodThresholdConfig :: "'j json_ops \<Rightarrow> 'j \<Rightarrow> config \<Rightarrow> config" where
  "LoadAppHighFreqPeriodThresholdConfig J root c =
     (case js_item J root ''application_use_high_frequency_judge_threshold'' of
        None \<Rightarrow> c
      | Some r \<Rightarrow>
          if \<not> IsValidObject J (Some r) then c
          else c \<lparr> appHighFreqPeriodThresholdConfig := \<lparr>
            minTotalUseDays = GetIntValue J r ''MinTotalUseDays'' MINIMUM_LIMIT NUM_DAY_ONE_WEEK 4,
            minTopUseHoursLimit = GetIntValue J r ''MinTopUseHoursLimit'' MINIMUM_LIMIT NUM_HOUR_ONE_DAY 6,
            minHourUseDays = GetIntValue J r ''MinHourUseDays'' MINIMUM_LIMIT NUM_DAY_ONE_WEEK 4,
            maxHighFreqHourNum = GetIntValue J r ''MaxHighFrequencyHourNum'' MINIMUM_LIMIT NUM_HOUR_ONE_DAY 3 \<rparr> \<rparr>)"

text \<open>The number is a C \<open>int\<close>; a negative one becomes a huge size.\<close>

definition LoadMaxDataSize :: "'j json_ops \<Rightarrow> 'j \<Rightarrow> config \<Rightarrow> config" where
  "LoadMaxDataSize J root c =
     (case js_item J root ''MaxDataSize'' of
        None \<Rightarrow> c
      | Some item \<Rightarrow>
          if \<not> IsValidNumber J (Some item) then c
          else c \<lparr> maxDataSize := word_of_int (js_valueint J item) \<rparr>)"

definition LoadWindowVisibilityEnable :: "'j json_ops \<Rightarrow> 'j \<Rightarrow> config \<Rightarrow> config" where
  "LoadWindowVisibilityEnable J root c =
     (case js_item J root ''window_visibility_enable'' of
        None \<Rightarrow> c
      | Some item \<Rightarrow>
          if \<not> IsValidNumber J (Some item) then c
          else c \<lparr> isWindowVisibilityEnable := (js_valueint J item = 1) \<rparr>)"

definition ConvertFullPath :: "config_files \<Rightarrow> string \<Rightarrow> string option" where
  "ConvertFullPath F partialPath =
     (if partialPath = '''' \<or> length partialPath \<ge> PATH_MAX then None else cf_realpath F partialPath)"

definition GetJsonFromFile :: "config_files \<Rightarrow> 'j json_ops \<Rightarrow> string \<Rightarrow> 'j option" where
  "GetJsonFromFile F J filePath =
     (case ConvertFullPath F filePath of
        None \<Rightarrow> None
      | Some realPath \<Rightarrow>
          (case cf_load F realPath of
             None \<Rightarrow> None
           | Some data \<Rightarrow> if data = '''' then None else js_parse J (c_str data)))"

definition LoadConfigFile :: "config_files \<Rightarrow> 'j json_ops \<Rightarrow> string option \<Rightarrow> config \<Rightarrow> config" where
  "LoadConfigFile F J filePath c =
     (case filePath of
        None \<Rightarrow> c
      | Some path \<Rightarrow>
          (case GetJsonFromFile F J path of
             None \<Rightarrow> c
           | Some root \<Rightarrow>
               LoadWindowVisibilityEnable J root (LoadMaxDataSize J root
                 (LoadAppHighFreqPeriodThresholdConfig J root (LoadApplicationUsePeriodically J root c)))))"

definition ConfigReader_new :: config where
  "ConfigReader_new = \<lparr>
     appUsePeriodicallyConfig = \<lparr> minUseTimes = 0, maxUseTimes = 0, minUseDays = 0 \<rparr>,
     appHighFreqPeriodThresholdConfig = \<lparr> minTotalUseDays = 0, minTopUseHoursLimit = 0, minHourUseDays = 0,
       maxHighFreqHourNum = 0 \<rparr>,
     maxDataSize = 0, isWindowVisibilityEnable = False \<rparr>"

definition LoadConfig :: "config_files \<Rightarrow> 'j json_ops \<Rightarrow> config \<Rightarrow> config" where
  "LoadConfig F J c =
     (let c1 = c \<lparr>
            appUsePeriodicallyConfig := \<lparr> minUseTimes = 1, maxUseTimes = 10, minUseDays = 3 \<rparr>,
            appHighFreqPeriodThresholdConfig := \<lparr> minTotalUseDays = 4, minTopUseHoursLimit = 6,
              minHourUseDays = 4, maxHighFreqHourNum = 3 \<rparr> \<rparr>
      in case cf_paths F of
           None \<Rightarrow> c1
         | Some paths \<Rightarrow> fold (LoadConfigFile F J) paths c1)"

definition GetMaxDataSize :: "config \<Rightarrow> 64 word" where
  "GetMaxDataSize c = (if maxDataSize c = 0 then DEFAULT_MAX_DATA_SIZE else maxDataSize c)"

section \<open>Limits\<close>

definition thresholds_ok :: "AppHighFrequencyPeriodThresholdConfig \<Rightarrow> bool" where
  "thresholds_ok t \<longleftrightarrow> minTotalUseDays t \<in> {0..NUM_DAY_ONE_WEEK} \<and> minTopUseHoursLimit t \<in> {0..NUM_HOUR_ONE_DAY} \<and>
     minHourUseDays t \<in> {0..NUM_DAY_ONE_WEEK} \<and> maxHighFreqHourNum t \<in> {0..NUM_HOUR_ONE_DAY}"

definition config_ok :: "config \<Rightarrow> bool" where
  "config_ok c \<longleftrightarrow> thresholds_ok (appHighFreqPeriodThresholdConfig c) \<and>
     minUseTimes (appUsePeriodicallyConfig c) \<in> {0..INT32_MAX} \<and>
     maxUseTimes (appUsePeriodicallyConfig c) \<in> {0..INT32_MAX} \<and>
     minUseDays (appUsePeriodicallyConfig c) \<in> {0..INT32_MAX}"

lemma GetIntValue_range: "lo \<le> d \<Longrightarrow> d \<le> hi \<Longrightarrow> GetIntValue J r n lo hi d \<in> {lo..hi}"
  by (auto simp: GetIntValue_def Let_def split: option.splits)

lemma LoadConfigFile_ok: "config_ok c \<Longrightarrow> config_ok (LoadConfigFile F J f c)"
  using GetIntValue_range [of 0 _ _ J] unfolding LoadConfigFile_def LoadWindowVisibilityEnable_def
    LoadMaxDataSize_def LoadAppHighFreqPeriodThresholdConfig_def LoadApplicationUsePeriodically_def
  by (auto simp: config_ok_def thresholds_ok_def INT32_MAX_def split: option.splits)

section \<open>Properties\<close>

text \<open>Whatever the configuration files hold, the loaded thresholds are within their limits: days
between 0 and 7, hours between 0 and 24, counts that fit 32 bits, and the limit on the data size is
never zero.\<close>

theorem loaded_config_within_limits:
  "config_ok (LoadConfig F J c) \<and> GetMaxDataSize (LoadConfig F J c) \<noteq> 0"
proof -
  have "config_ok c' \<Longrightarrow> config_ok (fold (LoadConfigFile F J) fs c')" for fs c'
    by (induction fs arbitrary: c') (auto intro: LoadConfigFile_ok)
  then have "config_ok (LoadConfig F J c)"
    by (auto simp: LoadConfig_def Let_def config_ok_def thresholds_ok_def INT32_MAX_def split: option.splits)
  then show ?thesis
    by (simp add: GetMaxDataSize_def)
qed

end
