(* ===== verification/UsageHabits.thy ===== *)
theory UsageHabits
  imports ConfigReader EventStats Util Event
begin

text \<open>The hours at which a bundle is usually used: \<open>ProcessEvents\<close>, \<open>GetTopHourUsage\<close> and
\<open>GetFreqBundleHours\<close> of \<open>BundleActiveCore\<close> (\<open>services/common\<close>). The events of a week are cut into
sessions, the sessions are counted per day of the week and hour, and the hours used on the most days
are answered.

\<open>std::sort\<close> leaves the order of equal elements open: the sorting function is a parameter that has to
answer a permutation in falling order of the key. An \<open>unordered_map\<close> is visited in an unspecified
order; the model visits it by name. The counters are C \<open>int\<close>s that count the events of one week.\<close>

section \<open>Sessions\<close>

record app_usage =
  au_dayUsage :: "int list"
  au_hourUsage :: "int list list"
  au_hourTotalUse :: "int list"
  au_startTime :: int

abbreviation (input) DEFAULT_INVALID_VALUE :: int where "DEFAULT_INVALID_VALUE \<equiv> 0"

definition AppUsage_new :: app_usage where
  "AppUsage_new = \<lparr> au_dayUsage = replicate 7 0, au_hourUsage = replicate 7 (replicate 24 0),
     au_hourTotalUse = replicate 24 0, au_startTime = DEFAULT_INVALID_VALUE \<rparr>"

definition bump :: "nat \<Rightarrow> int list \<Rightarrow> int list" where
  "bump i xs = xs[i := xs ! i + 1]"

text \<open>The end of a session that began at \<open>au_startTime\<close>.\<close>

definition end_session :: "tz \<Rightarrow> app_usage \<Rightarrow> app_usage" where
  "end_session z u =
     (case tz_localtime z (cdiv (au_startTime u) 1000) of
        None \<Rightarrow> u \<lparr> au_startTime := DEFAULT_INVALID_VALUE \<rparr>
      | Some startTimeTm \<Rightarrow>
          let weekDay = nat (tm_wday startTimeTm); hour = nat (tm_hour startTimeTm)
          in u \<lparr> au_dayUsage := bump weekDay (au_dayUsage u),
                 au_hourUsage := (au_hourUsage u)[weekDay := bump hour (au_hourUsage u ! weekDay)],
                 au_hourTotalUse := bump hour (au_hourTotalUse u),
                 au_startTime := DEFAULT_INVALID_VALUE \<rparr>)"

definition process_event :: "tz \<Rightarrow> event \<Rightarrow> (string, app_usage) omap \<Rightarrow> (string, app_usage) omap" where
  "process_event z e m =
     (let bundleName = ev_bundleName e
      in if ev_eventId e = ABILITY_FOREGROUND then
           (let u = (case om_find m bundleName of Some u \<Rightarrow> u | None \<Rightarrow> AppUsage_new)
            in om_insert bundleName
                 (if au_startTime u = DEFAULT_INVALID_VALUE then u \<lparr> au_startTime := ev_timeStamp e \<rparr> else u) m)
         else if ev_eventId e = ABILITY_BACKGROUND \<or> ev_eventId e = ABILITY_STOP then
           (case om_find m bundleName of
              None \<Rightarrow> m
            | Some u \<Rightarrow>
                if au_startTime u = DEFAULT_INVALID_VALUE then m else om_insert bundleName (end_session z u) m)
         else m)"

definition ProcessEvents :: "tz \<Rightarrow> (string, app_usage) omap \<Rightarrow> event list \<Rightarrow> (string, app_usage) omap" where
  "ProcessEvents z appUsages events = fold (process_event z) events appUsages"

section \<open>Frequent hours\<close>

type_synonym sorter = "(int \<times> int \<Rightarrow> int) \<Rightarrow> (int \<times> int) list \<Rightarrow> (int \<times> int) list"

definition sorts_down :: "(('a \<Rightarrow> int) \<Rightarrow> 'a list \<Rightarrow> 'a list) \<Rightarrow> bool" where
  "sorts_down srt \<longleftrightarrow> (\<forall>k xs. mset (srt k xs) = mset xs \<and> sorted (map (\<lambda>x. - k x) (srt k xs)))"

definition hour_days :: "app_usage \<Rightarrow> int \<Rightarrow> int" where
  "hour_days usage hour = int (length (filter (\<lambda>weekDay. au_hourUsage usage ! weekDay ! nat hour > 0) [0..<7]))"

definition GetTopHourUsage ::
    "sorter \<Rightarrow> AppHighFrequencyPeriodThresholdConfig \<Rightarrow> app_usage \<Rightarrow> (int \<times> int) list" where
  "GetTopHourUsage srt c usage =
     (let elementsWithIndices = srt fst (map (\<lambda>i. (au_hourTotalUse usage ! i, int i)) [0..<24])
      in concat (map (\<lambda>i.
           let hour = snd (elementsWithIndices ! i); hourUseDays = hour_days usage hour
           in if hourUseDays \<ge> minHourUseDays c then [(hour, hourUseDays)] else [])
         [0..<nat (minTopUseHoursLimit c)]))"

definition GetFreqBundleHours ::
    "sorter \<Rightarrow> AppHighFrequencyPeriodThresholdConfig \<Rightarrow> (string, app_usage) omap \<Rightarrow>
     high_freq_period list \<Rightarrow> high_freq_period list" where
  "GetFreqBundleHours srt c appUsages appFreqHours =
     fold (\<lambda>(appName, usage) appFreqHours.
         let totalDayUse = int (length (filter (\<lambda>i. au_dayUsage usage ! i \<noteq> 0) [0..<7]))
         in if totalDayUse < minTotalUseDays c then appFreqHours
            else
              let topHoursUsage = GetTopHourUsage srt c usage
              in if topHoursUsage = [] then appFreqHours
                 else
                   let topHours = srt snd topHoursUsage;
                       maxHighFreqHourNum = nat (maxHighFreqHourNum c mod 2 ^ 64);
                       cut = (if length topHours > maxHighFreqHourNum then take maxHighFreqHourNum topHours
                              else topHours)
                   in appFreqHours @ [HighFrequencyPeriod_default
                        \<lparr> hf_bundleName := appName, hf_highFreqHours := map fst cut \<rparr>])
       appUsages appFreqHours"

section \<open>Counting sessions\<close>

text \<open>The reference: the sessions of one bundle, by their start times, read off its own events.\<close>

fun sessions :: "int \<Rightarrow> event list \<Rightarrow> int list" where
  "sessions start [] = []"
| "sessions start (e # es) =
     (if ev_eventId e = ABILITY_FOREGROUND then sessions (if start = 0 then ev_timeStamp e else start) es
      else if ev_eventId e = ABILITY_BACKGROUND \<or> ev_eventId e = ABILITY_STOP then
        (if start = 0 then sessions 0 es else start # sessions 0 es)
      else sessions start es)"

definition day_of :: "tz \<Rightarrow> int \<Rightarrow> nat option" where
  "day_of z t = map_option (\<lambda>m. nat (tm_wday m)) (tz_localtime z (cdiv t 1000))"

definition hour_of :: "tz \<Rightarrow> int \<Rightarrow> nat option" where
  "hour_of z t = map_option (\<lambda>m. nat (tm_hour m)) (tz_localtime z (cdiv t 1000))"

definition clock_ok :: "tz \<Rightarrow> bool" where
  "clock_ok z \<longleftrightarrow> (\<forall>s m. tz_localtime z s = Some m \<longrightarrow> tm_wday m \<in> {0..<7} \<and> tm_hour m \<in> {0..<24})"

definition usage_shape :: "app_usage \<Rightarrow> bool" where
  "usage_shape u \<longleftrightarrow> length (au_dayUsage u) = 7 \<and> length (au_hourUsage u) = 7 \<and>
     (\<forall>d < 7. length (au_hourUsage u ! d) = 24) \<and> length (au_hourTotalUse u) = 24"

text \<open>What the events of a bundle do to its own entry.\<close>

definition habit_step :: "tz \<Rightarrow> event \<Rightarrow> app_usage option \<Rightarrow> app_usage option" where
  "habit_step z e entry =
     (if ev_eventId e = ABILITY_FOREGROUND then
        (let u = (case entry of Some u \<Rightarrow> u | None \<Rightarrow> AppUsage_new)
         in Some (if au_startTime u = 0 then u \<lparr> au_startTime := ev_timeStamp e \<rparr> else u))
      else if ev_eventId e = ABILITY_BACKGROUND \<or> ev_eventId e = ABILITY_STOP then
        (case entry of None \<Rightarrow> None | Some u \<Rightarrow> Some (if au_startTime u = 0 then u else end_session z u))
      else entry)"

lemma process_event_find:
  "om_find (process_event z e m) b =
     (if ev_bundleName e = b then habit_step z e (om_find m b) else om_find m b)"
  by (auto simp: process_event_def habit_step_def Let_def om_find_insert split: option.splits)

lemma ProcessEvents_find:
  "om_find (ProcessEvents z m es) b =
     fold (habit_step z) (filter (\<lambda>e. ev_bundleName e = b) es) (om_find m b)"
  unfolding ProcessEvents_def by (induction es arbitrary: m) (simp_all add: process_event_find)

lemma habit_step_new:
  "ev_eventId e \<noteq> ABILITY_FOREGROUND \<Longrightarrow> habit_step z e None = None \<and>
     habit_step z e (Some AppUsage_new) = Some AppUsage_new"
  by (simp add: habit_step_def AppUsage_new_def)

lemma habit_fold_None:
  "fold (habit_step z) es None = Some u \<Longrightarrow> fold (habit_step z) es (Some AppUsage_new) = Some u"
proof (induction es)
  case (Cons e es)
  show ?case
  proof (cases "ev_eventId e = ABILITY_FOREGROUND")
    case True
    then have "habit_step z e None = habit_step z e (Some AppUsage_new)"
      by (simp add: habit_step_def)
    then show ?thesis using Cons.prems by simp
  next
    case False
    then show ?thesis using Cons habit_step_new [OF False, of z] by simp
  qed
qed simp

lemma bump_nth: "i < length xs \<Longrightarrow> j < length xs \<Longrightarrow> bump i xs ! j = xs ! j + of_bool (i = j)"
  by (simp add: bump_def nth_list_update)

lemma bump_length [simp]: "length (bump i xs) = length xs"
  by (simp add: bump_def)

lemma end_session_counts:
  assumes "clock_ok z" "usage_shape u"
  shows "usage_shape (end_session z u) \<and> au_startTime (end_session z u) = 0 \<and>
    (\<forall>d < 7. au_dayUsage (end_session z u) ! d =
       au_dayUsage u ! d + of_bool (day_of z (au_startTime u) = Some d)) \<and>
    (\<forall>h < 24. au_hourTotalUse (end_session z u) ! h =
       au_hourTotalUse u ! h + of_bool (hour_of z (au_startTime u) = Some h)) \<and>
    (\<forall>d < 7. \<forall>h < 24. au_hourUsage (end_session z u) ! d ! h = au_hourUsage u ! d ! h +
       of_bool (day_of z (au_startTime u) = Some d \<and> hour_of z (au_startTime u) = Some h))"
proof (cases "tz_localtime z (cdiv (au_startTime u) 1000)")
  case None
  then show ?thesis
    using assms(2) by (simp add: end_session_def day_of_def hour_of_def usage_shape_def)
next
  case (Some m)
  then have "nat (tm_wday m) < 7" "nat (tm_hour m) < 24"
    using assms(1) by (auto simp: clock_ok_def nat_less_iff)
  then show ?thesis
    using assms(2) Some
    by (auto simp: end_session_def day_of_def hour_of_def usage_shape_def Let_def bump_nth nth_list_update)
qed

definition counted :: "tz \<Rightarrow> int list \<Rightarrow> app_usage \<Rightarrow> app_usage \<Rightarrow> bool" where
  "counted z ss u0 u \<longleftrightarrow> usage_shape u \<and>
     (\<forall>d < 7. au_dayUsage u ! d = au_dayUsage u0 ! d + int (length (filter (\<lambda>s. day_of z s = Some d) ss))) \<and>
     (\<forall>h < 24. au_hourTotalUse u ! h = au_hourTotalUse u0 ! h + int (length (filter (\<lambda>s. hour_of z s = Some h) ss))) \<and>
     (\<forall>d < 7. \<forall>h < 24. au_hourUsage u ! d ! h = au_hourUsage u0 ! d ! h +
        int (length (filter (\<lambda>s. day_of z s = Some d \<and> hour_of z s = Some h) ss)))"

lemma counted_end:
  assumes "clock_ok z" "usage_shape u0" "counted z ss (end_session z u0) u"
  shows "counted z (au_startTime u0 # ss) u0 u"
  using assms(3) end_session_counts [OF assms(1,2)] by (simp add: counted_def)

lemma habit_fold_counts:
  assumes "clock_ok z"
  shows "usage_shape u0 \<Longrightarrow>
    \<exists>u. fold (habit_step z) es (Some u0) = Some u \<and> counted z (sessions (au_startTime u0) es) u0 u"
proof (induction es arbitrary: u0)
  case Nil
  then show ?case by (simp add: counted_def)
next
  case (Cons e es)
  define u1 where "u1 = (if ev_eventId e = ABILITY_FOREGROUND then
      (if au_startTime u0 = 0 then u0 \<lparr> au_startTime := ev_timeStamp e \<rparr> else u0)
    else if (ev_eventId e = ABILITY_BACKGROUND \<or> ev_eventId e = ABILITY_STOP) \<and> au_startTime u0 \<noteq> 0
      then end_session z u0 else u0)"
  have step: "habit_step z e (Some u0) = Some u1"
    by (auto simp: habit_step_def u1_def Let_def)
  have "usage_shape u1"
    using Cons.prems end_session_counts [OF assms Cons.prems] by (simp add: u1_def usage_shape_def)
  from Cons.IH [OF this] obtain u where u: "fold (habit_step z) es (Some u1) = Some u"
    "counted z (sessions (au_startTime u1) es) u1 u" by blast
  have "counted z (sessions (au_startTime u0) (e # es)) u0 u"
  proof (cases "(ev_eventId e = ABILITY_BACKGROUND \<or> ev_eventId e = ABILITY_STOP) \<and> au_startTime u0 \<noteq> 0")
    case True
    then show ?thesis
      using counted_end [OF assms Cons.prems] u(2) end_session_counts [OF assms Cons.prems]
      by (auto simp: u1_def)
  next
    case False
    then show ?thesis
      using u(2) by (auto simp: u1_def counted_def split: if_splits)
  qed
  then show ?case
    using u(1) step by auto
qed

lemma AppUsage_new_nth [simp]:
  "d < 7 \<Longrightarrow> au_dayUsage AppUsage_new ! d = 0" "h < 24 \<Longrightarrow> au_hourTotalUse AppUsage_new ! h = 0"
  "d < 7 \<Longrightarrow> h < 24 \<Longrightarrow> au_hourUsage AppUsage_new ! d ! h = 0" "au_startTime AppUsage_new = 0"
  "usage_shape AppUsage_new"
  by (simp_all add: AppUsage_new_def usage_shape_def)

section \<open>Choosing the hours\<close>

definition stable_down :: "('a \<Rightarrow> int) \<Rightarrow> 'a list \<Rightarrow> 'a list" where
  "stable_down k xs = sort_key (\<lambda>x. - k x) xs"

text \<open>What \<open>std::sort\<close> promises, for elements of any type.\<close>

locale falling_sorter =
  fixes srt :: "('a \<Rightarrow> int) \<Rightarrow> 'a list \<Rightarrow> 'a list"
  assumes perm: "mset (srt k xs) = mset xs"
    and falling: "sorted (map (\<lambda>x. - k x) (srt k xs))"
begin

lemma srt_set: "set (srt k xs) = set xs"
  by (metis perm set_mset_mset)

lemma srt_length: "length (srt k xs) = length xs"
  by (metis perm size_mset)

lemma srt_distinct: "distinct (map f (srt k xs)) \<longleftrightarrow> distinct (map f xs)"
  by (metis perm mset_map mset_eq_imp_distinct_iff)

lemma falling_nth:
  assumes "i \<le> j" "j < length xs"
  shows "k (srt k xs ! j) \<le> k (srt k xs ! i)"
  using sorted_nth_mono [OF falling [of k xs] assms(1)] assms by (simp add: srt_length)

text \<open>The first \<open>n\<close> elements have the greatest keys.\<close>

lemma take_greatest:
  assumes "x \<in> set (take n (srt k xs))" "y \<in># mset xs - mset (take n (srt k xs))"
  shows "k y \<le> k x"
proof -
  have "mset xs - mset (take n (srt k xs)) = mset (drop n (srt k xs))"
    using perm [of k xs] mset_append [of "take n (srt k xs)" "drop n (srt k xs)"] by simp
  then have "y \<in> set (drop n (srt k xs))"
    using assms(2) by simp
  moreover have "sorted (map (\<lambda>x. - k x) (take n (srt k xs) @ drop n (srt k xs)))"
    using falling [of k xs] by simp
  ultimately show ?thesis
    using assms(1) unfolding map_append sorted_append by force
qed

end

interpretation stable_any: falling_sorter stable_down
  by unfold_locales (simp_all add: stable_down_def)

locale down_sorter = falling_sorter srt for srt :: sorter

interpretation stable: down_sorter stable_down
  by unfold_locales

definition ranked :: "sorter \<Rightarrow> app_usage \<Rightarrow> (int \<times> int) list" where
  "ranked srt u = srt fst (map (\<lambda>i. (au_hourTotalUse u ! i, int i)) [0..<24])"

context down_sorter
begin

lemma ranked_facts:
  "length (ranked srt u) = 24" "distinct (map snd (ranked srt u))"
  "set (ranked srt u) = (\<lambda>i. (au_hourTotalUse u ! i, int i)) ` {0..<24}"
proof -
  show "distinct (map snd (ranked srt u))"
    unfolding ranked_def srt_distinct by (simp add: distinct_map inj_on_def)
qed (simp_all add: ranked_def srt_length srt_set)

lemma ranked_nth: "i < 24 \<Longrightarrow> \<exists>h < 24. ranked srt u ! i = (au_hourTotalUse u ! h, int h)"
  using nth_mem [of i "ranked srt u"] ranked_facts(1,3) [of u] by auto

lemma ranked_snd_inj: "i < 24 \<Longrightarrow> j < 24 \<Longrightarrow> snd (ranked srt u ! i) = snd (ranked srt u ! j) \<Longrightarrow> i = j"
  using ranked_facts(1,2) [of u] by (metis distinct_conv_nth length_map nth_map)

lemma GetTopHourUsage_eq:
  "GetTopHourUsage srt c u = map (\<lambda>i. (snd (ranked srt u ! i), hour_days u (snd (ranked srt u ! i))))
     (filter (\<lambda>i. minHourUseDays c \<le> hour_days u (snd (ranked srt u ! i))) [0..<nat (minTopUseHoursLimit c)])"
proof -
  have "concat (map (\<lambda>i. if P i then [f i] else []) xs) = map f (filter P xs)" for P and f :: "nat \<Rightarrow> int \<times> int" and xs
    by (induction xs) simp_all
  then show ?thesis
    unfolding GetTopHourUsage_def ranked_def Let_def by simp
qed

lemma GetTopHourUsage_mem:
  "p \<in> set (GetTopHourUsage srt c u) \<longleftrightarrow> (\<exists>i < nat (minTopUseHoursLimit c). fst p = snd (ranked srt u ! i) \<and>
     snd p = hour_days u (fst p) \<and> minHourUseDays c \<le> snd p)"
  by (cases p) (auto simp: GetTopHourUsage_eq)

lemma top_hours:
  assumes "thresholds_ok c"
  shows "p \<in> set (GetTopHourUsage srt c u) \<Longrightarrow>
      fst p \<in> {0..<24} \<and> snd p = hour_days u (fst p) \<and> minHourUseDays c \<le> snd p"
    and "distinct (map fst (GetTopHourUsage srt c u))"
proof -
  have n: "nat (minTopUseHoursLimit c) \<le> 24"
    using assms by (auto simp: thresholds_ok_def)
  show "fst p \<in> {0..<24} \<and> snd p = hour_days u (fst p) \<and> minHourUseDays c \<le> snd p"
    if "p \<in> set (GetTopHourUsage srt c u)"
  proof -
    obtain i where i: "i < nat (minTopUseHoursLimit c)" "fst p = snd (ranked srt u ! i)"
      "snd p = hour_days u (fst p)" "minHourUseDays c \<le> snd p"
      using \<open>p \<in> set _\<close> unfolding GetTopHourUsage_mem by blast
    then show ?thesis
      using ranked_nth [of i u] n by auto
  qed
  show "distinct (map fst (GetTopHourUsage srt c u))"
    using n ranked_snd_inj [of _ _ u] unfolding GetTopHourUsage_eq by (auto simp: distinct_map inj_on_def)
qed

text \<open>An hour used on enough days that is not among the top hours is used less often than those at the
front.\<close>

lemma not_top:
  assumes "thresholds_ok c" "h \<in> {0..<24}" "minHourUseDays c \<le> hour_days u h"
    "h \<notin> fst ` set (GetTopHourUsage srt c u)"
  shows "\<exists>H \<subseteq> {0..<24}. int (card H) = minTopUseHoursLimit c \<and>
    (\<forall>h' \<in> H. au_hourTotalUse u ! nat h \<le> au_hourTotalUse u ! nat h')"
proof -
  let ?n = "nat (minTopUseHoursLimit c)"
  have n: "?n \<le> 24" "int ?n = minTopUseHoursLimit c"
    using assms(1) by (auto simp: thresholds_ok_def)
  have "(au_hourTotalUse u ! nat h, h) \<in> set (ranked srt u)"
    using assms(2) by (auto simp: ranked_facts(3) intro!: image_eqI [of _ _ "nat h"])
  then obtain j where j: "j < 24" "ranked srt u ! j = (au_hourTotalUse u ! nat h, h)"
    using ranked_facts(1) [of u] by (metis in_set_conv_nth)
  have "?n \<le> j"
  proof (rule ccontr)
    assume "\<not> ?n \<le> j"
    then have "h \<in> fst ` set (GetTopHourUsage srt c u)"
      using j assms(3) GetTopHourUsage_mem [of "(h, hour_days u h)" c u] by (force simp: not_le)
    then show False using assms(4) by simp
  qed
  let ?H = "(\<lambda>i. snd (ranked srt u ! i)) ` {0..<?n}"
  have "snd (ranked srt u ! i) \<in> {0..<24}" if "i < ?n" for i
    using ranked_nth [of i u] n(1) that by auto
  then have "?H \<subseteq> {0..<24}"
    by auto
  moreover have "card ?H = ?n"
    using card_image [of "\<lambda>i. snd (ranked srt u ! i)" "{0..<?n}"] ranked_snd_inj [of _ _ u] n(1)
    by (simp add: inj_on_def)
  moreover have "au_hourTotalUse u ! nat h \<le> au_hourTotalUse u ! nat (snd (ranked srt u ! i))" if i: "i < ?n" for i
  proof -
    obtain k where "k < 24" "ranked srt u ! i = (au_hourTotalUse u ! k, int k)"
      using ranked_nth [of i u] less_le_trans [OF i n(1)] by blast
    moreover have "fst (ranked srt u ! j) \<le> fst (ranked srt u ! i)"
      using falling_nth [of i j _ fst] i \<open>?n \<le> j\<close> j(1) unfolding ranked_def by simp
    ultimately show ?thesis using j(2) by simp
  qed
  ultimately show ?thesis
    using n(2) by (intro exI [of _ ?H]) auto
qed

end

context down_sorter
begin

definition frequent_hours :: "AppHighFrequencyPeriodThresholdConfig \<Rightarrow> app_usage \<Rightarrow> int list" where
  "frequent_hours c u = map fst (take (nat (maxHighFreqHourNum c)) (srt snd (GetTopHourUsage srt c u)))"

lemma GetFreqBundleHours_eq:
  assumes "thresholds_ok c"
  shows "GetFreqBundleHours srt c us acc = acc @ map (\<lambda>(n, u). \<lparr> hf_bundleName = n, hf_highFreqHours = frequent_hours c u \<rparr>)
    (filter (\<lambda>(n, u). minTotalUseDays c \<le> int (length (filter (\<lambda>i. au_dayUsage u ! i \<noteq> 0) [0..<7])) \<and>
      GetTopHourUsage srt c u \<noteq> []) us)"
proof -
  have m: "nat (maxHighFreqHourNum c mod 2 ^ 64) = nat (maxHighFreqHourNum c)"
    using assms by (auto simp: thresholds_ok_def)
  have t: "(if length xs > n then take n xs else xs) = take n xs" for n and xs :: "(int \<times> int) list"
    by simp
  show ?thesis
    unfolding GetFreqBundleHours_def Let_def m t
  proof (induction us arbitrary: acc)
    case (Cons nu us)
    obtain n u where "nu = (n, u)" by (cases nu)
    then show ?case
      by (simp add: Cons.IH HighFrequencyPeriod_default_def frequent_hours_def not_less)
  qed simp
qed

lemma frequent_hours_facts:
  assumes "thresholds_ok c"
  shows "h \<in> set (frequent_hours c u) \<Longrightarrow> h \<in> {0..<24} \<and> minHourUseDays c \<le> hour_days u h"
    and "distinct (frequent_hours c u)"
    and "int (length (frequent_hours c u)) \<le> maxHighFreqHourNum c"
    and "sorted (map (\<lambda>h. - hour_days u h) (frequent_hours c u))"
proof -
  let ?T = "srt snd (GetTopHourUsage srt c u)"
  have top: "fst p \<in> {0..<24} \<and> snd p = hour_days u (fst p) \<and> minHourUseDays c \<le> snd p" if "p \<in> set ?T" for p
    using top_hours(1) [OF assms, of p u] that unfolding srt_set by blast
  have "p \<in> set ?T" if "p \<in> set (take n ?T)" for p n
    using that by (rule in_set_takeD)
  then show "h \<in> {0..<24} \<and> minHourUseDays c \<le> hour_days u h" if "h \<in> set (frequent_hours c u)"
    using that top by (force simp: frequent_hours_def)
  have "distinct (map fst ?T)"
    unfolding srt_distinct by (rule top_hours(2) [OF assms])
  then show "distinct (frequent_hours c u)"
    by (simp add: frequent_hours_def flip: take_map)
  show "int (length (frequent_hours c u)) \<le> maxHighFreqHourNum c"
    using assms by (auto simp: frequent_hours_def thresholds_ok_def)
  have "sorted (map (\<lambda>p. - hour_days u (fst p)) ?T) \<longleftrightarrow> sorted (map (\<lambda>p. - snd p) ?T)"
    using top by (intro arg_cong [where f = sorted] map_cong) auto
  then have "sorted (map (\<lambda>p. - hour_days u (fst p)) ?T)"
    using falling by blast
  then show "sorted (map (\<lambda>h. - hour_days u h) (frequent_hours c u))"
    by (simp add: frequent_hours_def comp_def sorted_wrt_take flip: take_map)
qed

text \<open>A top hour that is left out is not used on more days than any that is answered, and as many as
allowed are answered.\<close>

lemma frequent_hours_best:
  assumes "thresholds_ok c" "h \<in> fst ` set (GetTopHourUsage srt c u)" "h \<notin> set (frequent_hours c u)"
  shows "int (length (frequent_hours c u)) = maxHighFreqHourNum c \<and>
    (\<forall>h' \<in> set (frequent_hours c u). hour_days u h \<le> hour_days u h')"
proof -
  let ?T = "srt snd (GetTopHourUsage srt c u)" and ?n = "nat (maxHighFreqHourNum c)"
  obtain p where p: "p \<in> set ?T" "fst p = h" using assms(2) by (auto simp: srt_set)
  then obtain j where j: "j < length ?T" "fst (?T ! j) = h" by (metis in_set_conv_nth)
  have days: "snd (?T ! i) = hour_days u (fst (?T ! i))" if "i < length ?T" for i
    using top_hours(1) [OF assms(1)] nth_mem [OF that] by (simp add: srt_set)
  have "\<not> j < ?n"
  proof
    assume "j < ?n"
    then have "?T ! j \<in> set (take ?n ?T)" using j(1) by (auto simp: in_set_conv_nth)
    then show False using assms(3) j(2) by (force simp: frequent_hours_def)
  qed
  moreover have "hour_days u h \<le> hour_days u h'" if h': "h' \<in> set (frequent_hours c u)" for h'
  proof -
    obtain i where i: "i < ?n" "i < length ?T" "fst (?T ! i) = h'"
      using h' by (auto simp: frequent_hours_def in_set_conv_nth)
    have "snd (?T ! j) \<le> snd (?T ! i)"
      using falling_nth [of i j _ snd] i \<open>\<not> j < ?n\<close> j(1) by (simp add: srt_length)
    then show ?thesis using days i j by simp
  qed
  ultimately show ?thesis
    using j(1) assms(1) by (auto simp: frequent_hours_def thresholds_ok_def)
qed

end

section \<open>Properties\<close>

text \<open>C35: The counters of a bundle are the counts of its own sessions. Whatever the other bundles do in
between, the entry of a bundle counts, for every day of the week and every hour, the sessions read off
the events of this bundle alone that began then.\<close>

theorem sessions_counted:
  assumes "clock_ok z" "om_find (ProcessEvents z [] es) b = Some u"
    and "ss = sessions 0 (filter (\<lambda>e. ev_bundleName e = b) es)" "d < 7" "h < 24"
  shows "au_dayUsage u ! d = int (length (filter (\<lambda>s. day_of z s = Some d) ss)) \<and>
    au_hourTotalUse u ! h = int (length (filter (\<lambda>s. hour_of z s = Some h) ss)) \<and>
    au_hourUsage u ! d ! h = int (length (filter (\<lambda>s. day_of z s = Some d \<and> hour_of z s = Some h) ss))"
proof -
  let ?es = "filter (\<lambda>e. ev_bundleName e = b) es"
  have "fold (habit_step z) ?es None = Some u"
    using assms(2) unfolding ProcessEvents_find by simp
  then have "fold (habit_step z) ?es (Some AppUsage_new) = Some u"
    by (rule habit_fold_None)
  then have "counted z (sessions 0 ?es) AppUsage_new u"
    using habit_fold_counts [OF assms(1), of AppUsage_new ?es] by auto
  then show ?thesis
    using assms(3-5) by (simp add: counted_def)
qed

definition monday_nine :: tz where
  "monday_nine = \<lparr> tz_localtime = (\<lambda>_. Some \<lparr> tm_year = 0, tm_mon = 0, tm_mday = 1, tm_wday = 1, tm_hour = 9,
     tm_min = 0, tm_sec = 0 \<rparr>), tz_mktime = (\<lambda>_. 0) \<rparr>"

definition demo_events :: "event list" where
  "demo_events = map (\<lambda>(i, n, t). Event_default \<lparr> ev_eventId := i, ev_bundleName := n, ev_timeStamp := t \<rparr>)
     [(ABILITY_FOREGROUND, ''app'', 1000), (ABILITY_FOREGROUND, ''other'', 2000), (ABILITY_BACKGROUND, ''app'', 3000)]"

theorem sessions_counted_witness:
  "\<exists>u. om_find (ProcessEvents monday_nine [] demo_events) ''app'' = Some u \<and> au_hourUsage u ! 1 ! 9 = 1"
proof -
  obtain u where u: "om_find (ProcessEvents monday_nine [] demo_events) ''app'' = Some u"
    by (cases "om_find (ProcessEvents monday_nine [] demo_events) ''app''")
      (simp_all add: ProcessEvents_find habit_step_def demo_events_def Let_def split: option.splits)
  have c: "clock_ok monday_nine"
    by (simp add: clock_ok_def monday_nine_def)
  have "au_hourUsage u ! 1 ! 9 = 1"
    using sessions_counted [OF c u refl, of 1 9]
    by (simp add: demo_events_def day_of_def hour_of_def monday_nine_def)
  with u show ?thesis by blast
qed

text \<open>The frequent hours answered for a bundle are the right ones. A bundle is answered only if it was
used on enough days; its hours are distinct hours of the day, at most as many as configured, each used on
enough days, in falling order of the days; and an hour used on enough days is missing only if the list is
full with hours used on at least as many days, or if as many hours as are looked at were used at least as
often.\<close>

theorem frequent_hours_correct:
  assumes "sorts_down srt" "thresholds_ok c" "\<lparr> hf_bundleName = n, hf_highFreqHours = hs \<rparr> \<in> set (GetFreqBundleHours srt c us [])"
  shows "\<exists>u. (n, u) \<in> set us \<and>
    minTotalUseDays c \<le> int (length (filter (\<lambda>i. au_dayUsage u ! i \<noteq> 0) [0..<7])) \<and>
    distinct hs \<and> int (length hs) \<le> maxHighFreqHourNum c \<and> sorted (map (\<lambda>h. - hour_days u h) hs) \<and>
    (\<forall>h \<in> set hs. h \<in> {0..<24} \<and> minHourUseDays c \<le> hour_days u h) \<and>
    (\<forall>h \<in> {0..<24} - set hs. minHourUseDays c \<le> hour_days u h \<longrightarrow>
      (int (length hs) = maxHighFreqHourNum c \<and> (\<forall>h' \<in> set hs. hour_days u h \<le> hour_days u h')) \<or>
      (\<exists>H \<subseteq> {0..<24}. int (card H) = minTopUseHoursLimit c \<and>
        (\<forall>h' \<in> H. au_hourTotalUse u ! nat h \<le> au_hourTotalUse u ! nat h')))"
proof -
  have s: "down_sorter srt"
    using assms(1) by (simp add: sorts_down_def down_sorter_def falling_sorter_def)
  obtain u where u: "(n, u) \<in> set us" "hs = down_sorter.frequent_hours srt c u"
    "minTotalUseDays c \<le> int (length (filter (\<lambda>i. au_dayUsage u ! i \<noteq> 0) [0..<7]))"
    using assms(3) unfolding down_sorter.GetFreqBundleHours_eq [OF s assms(2)] by auto
  note facts = down_sorter.frequent_hours_facts [OF s assms(2)]
  have rest: "(int (length hs) = maxHighFreqHourNum c \<and> (\<forall>h' \<in> set hs. hour_days u h \<le> hour_days u h')) \<or>
      (\<exists>H \<subseteq> {0..<24}. int (card H) = minTopUseHoursLimit c \<and>
        (\<forall>h' \<in> H. au_hourTotalUse u ! nat h \<le> au_hourTotalUse u ! nat h'))"
    if "h \<in> {0..<24} - set hs" "minHourUseDays c \<le> hour_days u h" for h
  proof (cases "h \<in> fst ` set (GetTopHourUsage srt c u)")
    case True
    then show ?thesis
      using down_sorter.frequent_hours_best [OF s assms(2) True] that(1) u(2) by simp
  next
    case False
    then show ?thesis
      using down_sorter.not_top [OF s assms(2) _ that(2) False] that(1) by simp
  qed
  show ?thesis
    using u(1,3) facts(1) [of _ u] facts(2-4) [of u] rest unfolding u(2) by (intro exI [of _ u] conjI ballI impI) simp_all
qed

definition demo_usage :: app_usage where
  "demo_usage = AppUsage_new \<lparr> au_dayUsage := [0, 1, 0, 0, 0, 0, 0],
     au_hourUsage := (replicate 7 (replicate 24 0))[1 := (replicate 24 0)[9 := 1]],
     au_hourTotalUse := (replicate 24 0)[9 := 1] \<rparr>"

definition demo_limits :: AppHighFrequencyPeriodThresholdConfig where
  "demo_limits = \<lparr> minTotalUseDays = 1, minTopUseHoursLimit = 2, minHourUseDays = 1, maxHighFreqHourNum = 3 \<rparr>"

lemma demo_hours:
  "GetFreqBundleHours stable_down demo_limits [(''app'', demo_usage)] [] =
    [\<lparr> hf_bundleName = ''app'', hf_highFreqHours = [9] \<rparr>]"
  by code_simp

theorem frequent_hours_correct_witness:
  "\<exists>u. (''app'', u) \<in> set [(''app'', demo_usage)] \<and> minHourUseDays demo_limits \<le> hour_days u 9"
proof -
  have "sorts_down stable_down"
    by (simp add: sorts_down_def stable_down_def)
  moreover have "thresholds_ok demo_limits"
    by (simp add: thresholds_ok_def demo_limits_def)
  moreover have "\<lparr> hf_bundleName = ''app'', hf_highFreqHours = [9] \<rparr> \<in>
      set (GetFreqBundleHours stable_down demo_limits [(''app'', demo_usage)] [])"
    unfolding demo_hours by simp
  ultimately show ?thesis
    using frequent_hours_correct [of stable_down demo_limits "''app''" "[9]" "[(''app'', demo_usage)]"] by auto
qed

end
