(* ===== verification/DiskSpace.thy ===== *)
theory DiskSpace
  imports Util "HOL-Library.Log_Nat"
begin

text \<open>The free space of the device in floating point (\<open>bundle_active_util.cpp\<close>). A double is the rational number
that it stands for; the quotients and products here stay far from the least and the largest exponent, so each
operation is the exact one followed by the rounding to 53 bits, to even where two doubles are equally near.\<close>

section \<open>Rounding\<close>

definition half_even :: "rat \<Rightarrow> int" where
  "half_even r = (let f = \<lfloor>r\<rfloor>; d = r - of_int f in if d < 1 / 2 \<or> (d = 1 / 2 \<and> even f) then f else f + 1)"

text \<open>\<open>binade x\<close> is the exponent of the greatest power of two up to \<open>x\<close>.\<close>

definition binade :: "rat \<Rightarrow> int" where
  "binade x = (let (n, d) = quotient_of x; k = bitlen n - bitlen d in if 2 powi k \<le> x then k else k - 1)"

definition round_double :: "rat \<Rightarrow> rat" where
  "round_double x = (if x \<le> 0 then 0 else let ulp = 2 powi (binade x - 52) in of_int (half_even (x / ulp)) * ulp)"

section \<open>Free space\<close>

record statfs =
  fs_blocks :: "64 word"
  fs_bfree :: "64 word"
  fs_bsize :: "64 word"

abbreviation (input) units :: rat where "units \<equiv> 1024"

text \<open>The size of a block is a signed number that is never negative.\<close>

definition GetDeviceValidSize :: "(string \<Rightarrow> statfs option) \<Rightarrow> string \<Rightarrow> rat" where
  "GetDeviceValidSize F path =
     (case F (GetPartitionName path) of
        None \<Rightarrow> 0
      | Some stat \<Rightarrow> round_double (round_double (round_double (of_int (uint (fs_bfree stat))) / units) *
          round_double (round_double (of_int (uint (fs_bsize stat))) / units)))"

definition GetPercentOfAvailableUserSpace :: "(string \<Rightarrow> statfs option) \<Rightarrow> string \<Rightarrow> rat" where
  "GetPercentOfAvailableUserSpace F path =
     (case F (GetPartitionName path) of
        None \<Rightarrow> 0
      | Some stat \<Rightarrow>
          let totalBytes = fs_blocks stat * fs_bsize stat; availableBytes = fs_bfree stat * fs_bsize stat
          in if totalBytes = 0 \<or> availableBytes = 0 then 0
             else round_double (round_double (of_int (uint availableBytes)) / round_double (of_int (uint totalBytes))))"

section \<open>Rounding is monotone\<close>

lemma half_even_bounds: "\<lfloor>r\<rfloor> \<le> half_even r" "half_even r \<le> \<lfloor>r\<rfloor> + 1"
  by (auto simp: half_even_def Let_def)

lemma half_even_mono:
  assumes "r \<le> r'"
  shows "half_even r \<le> half_even r'"
proof (cases "\<lfloor>r\<rfloor> = \<lfloor>r'\<rfloor>")
  case True
  then show ?thesis
    using assms by (auto simp: half_even_def Let_def)
next
  case False
  then have "\<lfloor>r\<rfloor> + 1 \<le> \<lfloor>r'\<rfloor>"
    using floor_mono [OF assms] by linarith
  then show ?thesis
    using half_even_bounds(2) [of r] half_even_bounds(1) [of r'] by linarith
qed

lemma half_even_int [simp]: "half_even (of_int i) = i"
  by (simp add: half_even_def)

lemma two_powi_add: "(2 :: rat) powi (a + b) = 2 powi a * 2 powi b"
  by (rule power_int_add) simp

lemma two_powi_mono: "a \<le> b \<Longrightarrow> (2 :: rat) powi a \<le> 2 powi b"
  by (rule power_int_increasing) simp_all

lemma bitlen_powi:
  assumes "0 < n"
  shows "2 powi (bitlen n - 1) \<le> (of_int n :: rat)" "(of_int n :: rat) < 2 powi bitlen n"
proof -
  have b: "2 ^ nat (bitlen n - 1) \<le> n" "n < 2 ^ nat (bitlen n)" and p: "0 < bitlen n"
    using bitlen_bounds [OF assms] assms bitlen_nonneg [of n] bitlen_eq_zero_iff [of n] by auto
  have "(2 :: rat) powi (bitlen n - 1) = of_int (2 ^ nat (bitlen n - 1))" "(2 :: rat) powi bitlen n = of_int (2 ^ nat (bitlen n))"
    using p by (simp_all add: power_int_def)
  then show "2 powi (bitlen n - 1) \<le> (of_int n :: rat)" "(of_int n :: rat) < 2 powi bitlen n"
    using b by (simp_all only: of_int_le_iff of_int_less_iff)
qed

lemma binade:
  assumes "0 < x"
  shows "2 powi binade x \<le> x" "x < 2 powi (binade x + 1)"
proof -
  obtain n d where q: "quotient_of x = (n, d)" by fastforce
  have x: "x = of_int n / of_int d" and d: "0 < d"
    using quotient_of_div [OF q] quotient_of_denom_pos [OF q] by simp_all
  have n: "0 < n"
    using assms d unfolding x by (simp add: zero_less_divide_iff)
  let ?k = "bitlen n - bitlen d"
  have "2 powi (?k - 1) \<le> x"
  proof -
    have "(2 :: rat) powi (?k - 1) * 2 powi bitlen d = 2 powi (bitlen n - 1)"
      by (simp flip: two_powi_add)
    moreover have "(2 :: rat) powi (?k - 1) * of_int d \<le> 2 powi (?k - 1) * 2 powi bitlen d"
      using bitlen_powi(2) [OF d] by (intro mult_left_mono) simp_all
    ultimately have "2 powi (?k - 1) * of_int d \<le> (of_int n :: rat)"
      using bitlen_powi(1) [OF n] by linarith
    then show ?thesis
      using d by (simp add: x pos_le_divide_eq)
  qed
  moreover have "x < 2 powi (?k + 1)"
  proof -
    have "(2 :: rat) powi (?k + 1) * 2 powi (bitlen d - 1) = 2 powi bitlen n"
      by (simp flip: two_powi_add)
    moreover have "(2 :: rat) powi (?k + 1) * 2 powi (bitlen d - 1) \<le> 2 powi (?k + 1) * of_int d"
      using bitlen_powi(1) [OF d] by (intro mult_left_mono) simp_all
    ultimately have "(of_int n :: rat) < 2 powi (?k + 1) * of_int d"
      using bitlen_powi(2) [OF n] by linarith
    then show ?thesis
      using d by (simp add: x pos_divide_less_eq)
  qed
  ultimately show "2 powi binade x \<le> x" "x < 2 powi (binade x + 1)"
    by (auto simp: binade_def q Let_def)
qed

lemma binade_mono:
  assumes "0 < x" "x \<le> y"
  shows "binade x \<le> binade y"
proof (rule ccontr)
  assume "\<not> binade x \<le> binade y"
  then have "(2 :: rat) powi (binade y + 1) \<le> 2 powi binade x"
    by (intro two_powi_mono) simp
  then show False
    using binade(1) [OF assms(1)] binade(2) [of y] assms by linarith
qed

lemma round_double_within:
  assumes "0 < x"
  shows "2 powi binade x \<le> round_double x" "round_double x \<le> 2 powi (binade x + 1)"
proof -
  let ?u = "2 powi (binade x - 52) :: rat"
  have u: "0 < ?u" "of_int (2 ^ 52) * ?u = 2 powi binade x" "of_int (2 ^ 53) * ?u = 2 powi (binade x + 1)"
    using two_powi_add [of 52 "binade x - 52"] two_powi_add [of 53 "binade x - 52"] by (simp_all add: add.commute)
  have "of_int (2 ^ 52) \<le> x / ?u" "x / ?u \<le> of_int (2 ^ 53)"
    using binade [OF assms] u by (simp_all only: pos_le_divide_eq pos_divide_le_eq less_imp_le)
  then have "2 ^ 52 \<le> half_even (x / ?u)" "half_even (x / ?u) \<le> 2 ^ 53"
    using half_even_mono [of "of_int (2 ^ 52)" "x / ?u"] half_even_mono [of "x / ?u" "of_int (2 ^ 53)"]
    by (simp_all only: half_even_int)
  then have "(of_int (2 ^ 52) :: rat) * ?u \<le> of_int (half_even (x / ?u)) * ?u"
    "of_int (half_even (x / ?u)) * ?u \<le> (of_int (2 ^ 53) :: rat) * ?u"
    using u(1) by (intro mult_right_mono; simp only: of_int_le_iff less_imp_le)+
  moreover have "round_double x = of_int (half_even (x / ?u)) * ?u"
    using assms by (simp add: round_double_def Let_def)
  ultimately show "2 powi binade x \<le> round_double x" "round_double x \<le> 2 powi (binade x + 1)"
    using u(2,3) by linarith+
qed

lemma round_double_nonneg [simp]: "0 \<le> round_double x"
proof (cases "0 < x")
  case True
  have "(0 :: rat) \<le> 2 powi binade x" by simp
  then show ?thesis using round_double_within(1) [OF True] by (rule order_trans)
qed (simp add: round_double_def)

lemma round_double_mono:
  assumes "x \<le> y"
  shows "round_double x \<le> round_double y"
proof (cases "0 < x")
  case True
  then have y: "0 < y" using assms by linarith
  show ?thesis
  proof (cases "binade x = binade y")
    case same: True
    let ?u = "2 powi (binade y - 52) :: rat"
    have "half_even (x / ?u) \<le> half_even (y / ?u)"
      using assms by (intro half_even_mono divide_right_mono) simp_all
    then have "of_int (half_even (x / ?u)) * ?u \<le> of_int (half_even (y / ?u)) * ?u"
      by (intro mult_right_mono) simp_all
    then show ?thesis
      using True y by (simp add: round_double_def same Let_def)
  next
    case False
    then have "(2 :: rat) powi (binade x + 1) \<le> 2 powi binade y"
      using binade_mono [OF True assms] by (intro two_powi_mono) simp
    then show ?thesis
      using round_double_within(2) [OF True] round_double_within(1) [OF y] by linarith
  qed
next
  case False
  then have "round_double x = 0"
    by (simp add: round_double_def)
  then show ?thesis
    by simp
qed

lemma round_double_int:
  assumes "0 \<le> i" "i < 2 ^ 53"
  shows "round_double (of_int i) = of_int i"
proof (cases "i = 0")
  case False
  then have x: "0 < (of_int i :: rat)"
    using assms(1) by simp
  let ?b = "binade (of_int i)"
  have "(2 :: rat) powi 0 \<le> of_int i" "(of_int i :: rat) < of_int (2 ^ 53)"
    using False assms by (simp, simp only: of_int_less_iff)
  then have "(2 :: rat) powi 0 < 2 powi (?b + 1)" "(2 :: rat) powi ?b < 2 powi 53"
    using binade [OF x] by simp_all
  then have "0 < ?b + 1" "?b < 53"
    using two_powi_mono [of "?b + 1" 0] two_powi_mono [of 53 ?b] by linarith+
  then obtain k where k: "52 - ?b = int k"
    using zero_le_imp_eq_int [of "52 - ?b"] by auto
  have one: "(2 :: rat) powi (?b - 52) * 2 ^ k = 1"
  proof -
    have "?b - 52 + int k = 0"
      using k by simp
    then show ?thesis
      using two_powi_add [of "?b - 52" "int k"] by simp
  qed
  then have u: "(of_int i :: rat) / 2 powi (?b - 52) = of_int (i * 2 ^ k)"
    using one by (simp add: divide_eq_eq mult.assoc mult.commute)
  then have "round_double (of_int i) = of_int (i * 2 ^ k) * 2 powi (?b - 52)"
    using x by (simp only: round_double_def Let_def half_even_int) simp
  also have "\<dots> = of_int i"
    using one by (simp add: mult.assoc mult.commute)
  finally show ?thesis .
qed (simp add: round_double_def)

section \<open>The limit of a tenth\<close>

definition DEFAULT_PERCENT_USER_SPACE_LIMIT :: rat where
  "DEFAULT_PERCENT_USER_SPACE_LIMIT = round_double (1 / 10)"

lemma doubles_near_tenth:
  "round_double (1 / 10) = 3602879701896397 / 36028797018963968"
  "round_double (3602879701896398 / 36028797018963968) = 3602879701896398 / 36028797018963968"
  by code_simp+

lemma limit_value: "DEFAULT_PERCENT_USER_SPACE_LIMIT = 3602879701896397 / 36028797018963968"
  by (simp only: DEFAULT_PERCENT_USER_SPACE_LIMIT_def doubles_near_tenth)

lemma mult_no_wrap: "uint a * uint b < 2 ^ 64 \<Longrightarrow> uint (a * b :: 64 word) = uint a * uint b"
  using uint_mult_lem [of a b] by simp

lemma quotient_le:
  assumes "0 < n" "10 * f \<le> n"
  shows "(of_int f :: rat) / of_int n \<le> 1 / 10"
proof -
  have "of_int (10 * f) \<le> (of_int n :: rat)"
    using assms(2) by (simp only: of_int_le_iff)
  then show ?thesis
    using assms(1) by (simp add: divide_le_eq)
qed

lemma le_quotient:
  assumes "0 < n" "0 < q" "p * n \<le> q * f"
  shows "of_int p / of_int q \<le> (of_int f :: rat) / of_int n"
proof -
  have "of_int (p * n) \<le> (of_int (q * f) :: rat)"
    using assms(3) by (simp only: of_int_le_iff)
  then show ?thesis
    using assms(1,2) by (simp add: divide_le_eq le_divide_eq mult.commute)
qed

text \<open>On a device of less than 8 PiB the limit is a tenth of the blocks, up to the 50th binary place.\<close>

lemma percent_against_limit:
  assumes "F (GetPartitionName path) = Some st" "0 < uint (fs_blocks st) * uint (fs_bsize st)"
    "uint (fs_blocks st) * uint (fs_bsize st) < 2 ^ 53" "uint (fs_bfree st) \<le> uint (fs_blocks st)"
  shows "10 * uint (fs_bfree st) \<le> uint (fs_blocks st) \<Longrightarrow>
      GetPercentOfAvailableUserSpace F path \<le> DEFAULT_PERCENT_USER_SPACE_LIMIT"
    "2 ^ 50 * (10 * uint (fs_bfree st)) \<ge> (2 ^ 50 + 1) * uint (fs_blocks st) \<Longrightarrow>
      DEFAULT_PERCENT_USER_SPACE_LIMIT < GetPercentOfAvailableUserSpace F path"
proof -
  let ?n = "uint (fs_blocks st)" and ?f = "uint (fs_bfree st)" and ?b = "uint (fs_bsize st)"
  have pos: "0 < ?n" "0 < ?b"
    using assms(2) by (simp_all add: zero_less_mult_iff)
  have le: "?f * ?b \<le> ?n * ?b"
    using assms(4) pos by simp
  have u: "uint (fs_blocks st * fs_bsize st) = ?n * ?b" "uint (fs_bfree st * fs_bsize st) = ?f * ?b"
    using le assms(3) by (simp_all add: mult_no_wrap)
  have exact: "round_double (of_int (?n * ?b)) = of_int (?n * ?b)" "round_double (of_int (?f * ?b)) = of_int (?f * ?b)"
    using le assms(2,3) by (intro round_double_int; simp)+
  have "0 < n \<Longrightarrow> 0 < b \<Longrightarrow> (of_int (f * b) :: rat) / of_int (n * b) = of_int f / of_int n" for n f b
    by simp
  note q = this [OF pos, of ?f]
  have "fs_blocks st * fs_bsize st = 0 \<longleftrightarrow> ?n * ?b = 0" "fs_bfree st * fs_bsize st = 0 \<longleftrightarrow> ?f * ?b = 0"
    using u by (metis uint_0_iff)+
  then have p: "GetPercentOfAvailableUserSpace F path = round_double (of_int ?f / of_int ?n)"
  proof (cases "?f = 0")
    case True
    then have "fs_bfree st * fs_bsize st = 0"
      using \<open>fs_bfree st * fs_bsize st = 0 \<longleftrightarrow> ?f * ?b = 0\<close> by simp
    then have "GetPercentOfAvailableUserSpace F path = 0"
      by (simp only: GetPercentOfAvailableUserSpace_def assms(1) option.case Let_def) simp
    then show ?thesis
      by (simp only: True) (simp add: round_double_def)
  next
    case False
    then have nz: "fs_blocks st * fs_bsize st \<noteq> 0" "fs_bfree st * fs_bsize st \<noteq> 0"
      using pos \<open>fs_blocks st * fs_bsize st = 0 \<longleftrightarrow> ?n * ?b = 0\<close> \<open>fs_bfree st * fs_bsize st = 0 \<longleftrightarrow> ?f * ?b = 0\<close> by simp_all
    show ?thesis
      by (simp only: GetPercentOfAvailableUserSpace_def assms(1) option.case Let_def nz simp_thms if_False u exact q)
  qed
  show "GetPercentOfAvailableUserSpace F path \<le> DEFAULT_PERCENT_USER_SPACE_LIMIT" if "10 * ?f \<le> ?n"
  proof -
    have "(of_int ?f :: rat) / of_int ?n \<le> 1 / 10"
      by (rule quotient_le [OF pos(1)]) (use that in simp)
    then show ?thesis
      unfolding p DEFAULT_PERCENT_USER_SPACE_LIMIT_def by (rule round_double_mono)
  qed
  show "DEFAULT_PERCENT_USER_SPACE_LIMIT < GetPercentOfAvailableUserSpace F path" if "2 ^ 50 * (10 * ?f) \<ge> (2 ^ 50 + 1) * ?n"
  proof -
    have "3602879701896398 * ?n \<le> 36028797018963968 * ?f"
      using that pos by simp
    then have "(of_int 3602879701896398 :: rat) / of_int 36028797018963968 \<le> of_int ?f / of_int ?n"
      by (intro le_quotient [OF pos(1)]) simp_all
    then have "(3602879701896398 / 36028797018963968 :: rat) \<le> of_int ?f / of_int ?n"
      by (simp only: of_int_numeral)
    then have "3602879701896398 / 36028797018963968 \<le> GetPercentOfAvailableUserSpace F path"
      unfolding p using round_double_mono doubles_near_tenth(2) by metis
    then show ?thesis
      unfolding limit_value by simp
  qed
qed

end
