(* ===== verification/Core.thy ===== *)
theory Core
  imports DatabaseUpgrade GroupController UsageHabits UidRegistry DiskSpace
begin

text \<open>\<open>BundleActiveCore\<close> with its event subscriber (\<open>services/common\<close>) and \<open>BundleActiveReportHandler\<close>,
\<open>BundleActiveReportController\<close> (\<open>services/packageusage\<close>): the core keeps one user service per user, the
group controller, the report queue, the clock, the uids that were just uninstalled and the observers of
group changes, and dispatches every event and query to them.

What the code reaches through singletons is part of the core's state: the group controller, the report
handler, the registry of uids and the launcher cache. \<open>co_world\<close> are the database files: every user
service, and the group history, has a database object of its own over the same files, so the files are
put under the object before an operation and taken back after it. The clocks, the account manager, the
bundle manager, the runtime's queues and the access tokens are given by an environment and do not move
during one operation.

The user service and the group history call the core back (\<open>OnStatsChanged\<close>, \<open>OnStatsReload\<close>,
\<open>OnAppGroupChanged\<close>); their calls are collected and answered when the operation that made them is done.
Calls that leave the service are logged in \<open>co_calls\<close>.\<close>

section \<open>State\<close>

record report_obj =
  ro_event :: event
  ro_userId :: int
  ro_bundleName :: string
  ro_uid :: int
  ro_appIndex :: int

definition ReportObj_default :: report_obj where
  "ReportObj_default = \<lparr> ro_event = Event_default, ro_userId = - 1, ro_bundleName = '''', ro_uid = 0, ro_appIndex = 0 \<rparr>"

definition ReportObj_new :: "int \<Rightarrow> string \<Rightarrow> report_obj" where
  "ReportObj_new userId bundleName = \<lparr> ro_event = Event_default, ro_userId = userId, ro_bundleName = bundleName,
     ro_uid = 0, ro_appIndex = 0 \<rparr>"

definition ReportObj_copy :: "report_obj \<Rightarrow> report_obj" where
  "ReportObj_copy orig = \<lparr> ro_event = Event_copy (ro_event orig), ro_userId = ro_userId orig,
     ro_bundleName = ro_bundleName orig, ro_uid = ro_uid orig, ro_appIndex = ro_appIndex orig \<rparr>"

abbreviation (input) MSG_REPORT_EVENT :: int where "MSG_REPORT_EVENT \<equiv> 0"
abbreviation (input) MSG_FLUSH_TO_DISK :: int where "MSG_FLUSH_TO_DISK \<equiv> 1"
abbreviation (input) MSG_REMOVE_USER :: int where "MSG_REMOVE_USER \<equiv> 2"
abbreviation (input) MSG_BUNDLE_UNINSTALLED :: int where "MSG_BUNDLE_UNINSTALLED \<equiv> 3"
abbreviation (input) MSG_SWITCH_USER :: int where "MSG_SWITCH_USER \<equiv> 4"
abbreviation (input) MSG_BUNDLE_INSTALLED :: int where "MSG_BUNDLE_INSTALLED \<equiv> 5"

text \<open>The closures submitted to the queues of the core.\<close>

datatype core_task =
    ReportTask int "report_obj option"
  | ForgetUninstalled int
  | DataSizeTask
  | ReportFileSizeTask

text \<open>An observer of group changes: the proxy and the remote object behind it, when there is one.\<close>

record app_callback =
  ac_proxy :: nat
  ac_object :: "nat option"

datatype common_action = ScreenOff | ScreenOn | UserRemoved | UserSwitched | PackageRemoved | BundleRemoved
  | PackageFullyRemoved | PackageAdded | UnlockScreen | LockScreen | OtherAction

datatype core_call =
    AddDeathRecipient nat
  | RemoveDeathRecipient nat
  | CallObserver app_callback callback_info
  | UpdateGroupEvent callback_info int
  | ReportSizes rat "string list" "64 word list"
  | SubscribeCommonEvent "common_action list"
  | UnSubscribeCommonEvent

datatype token_type = TokenNative | TokenHap | TokenOther

record ('d, 'w, 'g, 'q) core =
  co_systemTimeShot :: int
  co_realTimeShot :: int
  co_currentUsedUser :: int
  co_flushInterval :: int
  co_debugCore :: bool
  co_userStatServices :: "(int, 'd user_service) omap"
  co_bundleUninstalledSet :: "int list"
  co_taskMap :: "(int, nat) omap"
  co_groupChangeObservers :: "(nat, app_callback) omap"
  co_recipientMap :: "nat list"
  co_config :: "config option"
  co_groups :: "('d, 'g) group_controller"
  co_report :: "'q task_handler option"
  co_reportIsInit :: bool
  co_fileSizeTaskSubmitted :: bool
  co_recorder :: string
  co_uids :: uidmap
  co_launchers :: launcher_state
  co_world :: 'w
  co_pool :: 'q
  co_calls :: "core_call list"

record ('d, 'w, 'g, 'q) core_env =
  ce_usage :: "'d usage_db"
  ce_newDatabase :: 'd
  ce_attach :: "'w \<Rightarrow> 'd \<Rightarrow> 'd"
  ce_detach :: "'d \<Rightarrow> 'w"
  ce_group :: "('d, 'g) group_env"
  ce_zone :: tz
  ce_ffrt :: "(core_task, 'q) ffrt_ops"
  ce_bundleMgr :: bundle_mgr
  ce_bootTime :: int
  ce_nowMicro :: int
  ce_statfs :: "string \<Rightarrow> statfs option"
  ce_dataFolder :: "'w \<Rightarrow> fsnode"
  ce_tokenType :: "nat \<Rightarrow> token_type"
  ce_tokenUser :: "nat \<Rightarrow> int"
  ce_sorter :: sorter

abbreviation (input) TWO_SECONDS :: int where "TWO_SECONDS \<equiv> 2 * 1000"
abbreviation (input) TWO_MINUTE :: int where "TWO_MINUTE \<equiv> 2 * 60 * 1000"
abbreviation (input) TIME_CHANGE_THRESHOLD_MILLIS :: int where "TIME_CHANGE_THRESHOLD_MILLIS \<equiv> 10 * 60 * 1000"
abbreviation (input) THIRTY_MINUTE :: int where "THIRTY_MINUTE \<equiv> 30 * 60 * 1000"
abbreviation (input) BUNDLE_UNINSTALL_DELAY_TIME :: int where "BUNDLE_UNINSTALL_DELAY_TIME \<equiv> 5 * 1000 * 1000"
abbreviation (input) FIRST_REPORT_TIME :: int where "FIRST_REPORT_TIME \<equiv> 10 * 1000 * 1000"
abbreviation (input) ONE_DAY_MICRO_SECOND :: int where "ONE_DAY_MICRO_SECOND \<equiv> 24 * 60 * 60 * 1000 * 1000"
abbreviation (input) MIN_USER_ID :: int where "MIN_USER_ID \<equiv> - 1"
abbreviation (input) DEFAULT_USER_ID :: int where "DEFAULT_USER_ID \<equiv> - 1"
abbreviation (input) DEFAULT_DELETE_EVENT_DALIYS :: nat where "DEFAULT_DELETE_EVENT_DALIYS \<equiv> 0"
abbreviation (input) MAX_DELETE_EVENT_DALIYS :: nat where "MAX_DELETE_EVENT_DALIYS \<equiv> 6"

definition ce_systemTime :: "('d, 'w, 'g, 'q) core_env \<Rightarrow> int" where
  "ce_systemTime E = GetSystemTimeMs (ge_now (ce_group E))"

text \<open>The two switches of \<open>bundle_active_debug_mode.cpp\<close>, from the parameters of the system.\<close>

definition ENG_MODE :: "(string \<Rightarrow> int \<Rightarrow> int) \<Rightarrow> bool" where
  "ENG_MODE GetIntParameter \<longleftrightarrow> GetIntParameter ''const.debuggable'' 0 \<noteq> 0"

definition DEBUG_ON :: "(string \<Rightarrow> int \<Rightarrow> int) \<Rightarrow> bool" where
  "DEBUG_ON GetIntParameter \<longleftrightarrow> GetIntParameter ''persist.sys.device_usage_debug_on'' 0 \<noteq> 0 \<and> ENG_MODE GetIntParameter"

text \<open>\<open>debug\<close> is the second of them.\<close>

definition Core_new ::
    "bool \<Rightarrow> ('d, 'g) group_controller \<Rightarrow> uidmap \<Rightarrow> launcher_state \<Rightarrow> 'w \<Rightarrow> 'q \<Rightarrow> ('d, 'w, 'g, 'q) core" where
  "Core_new debug g um l w q = \<lparr>
     co_systemTimeShot = - 1, co_realTimeShot = - 1, co_currentUsedUser = - 1,
     co_flushInterval = (if debug then TWO_MINUTE else THIRTY_MINUTE), co_debugCore = debug,
     co_userStatServices = [], co_bundleUninstalledSet = [], co_taskMap = [], co_groupChangeObservers = [],
     co_recipientMap = [], co_config = None, co_groups = g, co_report = None, co_reportIsInit = False,
     co_fileSizeTaskSubmitted = False, co_recorder = '''', co_uids = um, co_launchers = l, co_world = w, co_pool = q, co_calls = [] \<rparr>"

section \<open>The report queue\<close>

definition ReportHandler_new :: "'q \<Rightarrow> 'q task_handler" where
  "ReportHandler_new q = \<lparr> th_isInited = False, th_queue = q, th_taskHandlerMap = [] \<rparr>"

definition ReportHandler_Init :: "'q option \<Rightarrow> 'q task_handler \<Rightarrow> 'q task_handler" where
  "ReportHandler_Init ffrtQueue h =
     (case ffrtQueue of None \<Rightarrow> h | Some q \<Rightarrow> h \<lparr> th_queue := q, th_isInited := True \<rparr>)"

definition ReportController_Init ::
    "'q \<Rightarrow> 'q option \<Rightarrow> ('d, 'w, 'g, 'q) core \<Rightarrow> ('d, 'w, 'g, 'q) core" where
  "ReportController_Init q0 ffrtQueue c =
     (if co_reportIsInit c then c
      else c \<lparr> co_report := Some (ReportHandler_Init ffrtQueue (ReportHandler_new q0)), co_reportIsInit := True \<rparr>)"

definition ReportController_DeInit ::
    "(core_task, 'q) ffrt_ops \<Rightarrow> ('d, 'w, 'g, 'q) core \<Rightarrow> ('d, 'w, 'g, 'q) core" where
  "ReportController_DeInit Q c =
     (if \<not> co_reportIsInit c then c
      else c \<lparr> co_reportIsInit := False, co_report := map_option (Handler_DeInit Q) (co_report c) \<rparr>)"

definition GetBundleReportHandler :: "('d, 'w, 'g, 'q) core \<Rightarrow> 'q task_handler option" where
  "GetBundleReportHandler c = (if \<not> co_reportIsInit c then None else co_report c)"

text \<open>The operations on the handler answered by \<open>GetBundleReportHandler\<close>; a null handler is tested by
every caller.\<close>

definition on_report ::
    "('q task_handler \<Rightarrow> 'q task_handler) \<Rightarrow> ('d, 'w, 'g, 'q) core \<Rightarrow> ('d, 'w, 'g, 'q) core" where
  "on_report f c =
     (case GetBundleReportHandler c of None \<Rightarrow> c | Some h \<Rightarrow> c \<lparr> co_report := Some (f h) \<rparr>)"

definition ReportHandler_SendEvent ::
    "('d, 'w, 'g, 'q) core_env \<Rightarrow> int \<Rightarrow> report_obj \<Rightarrow> int \<Rightarrow> ('d, 'w, 'g, 'q) core \<Rightarrow> ('d, 'w, 'g, 'q) core" where
  "ReportHandler_SendEvent E eventId obj delayTime c =
     on_report (Handler_SendEvent (ce_ffrt E) eventId (ReportTask eventId (Some obj)) delayTime) c"

definition ReportHandler_RemoveEvent ::
    "('d, 'w, 'g, 'q) core_env \<Rightarrow> int \<Rightarrow> ('d, 'w, 'g, 'q) core \<Rightarrow> ('d, 'w, 'g, 'q) core" where
  "ReportHandler_RemoveEvent E eventId c = on_report (Handler_RemoveEvent (ce_ffrt E) eventId) c"

section \<open>Calls from the user services and the group history\<close>

definition Core_OnStatsChanged ::
    "('d, 'w, 'g, 'q) core_env \<Rightarrow> int \<Rightarrow> ('d, 'w, 'g, 'q) core \<Rightarrow> ('d, 'w, 'g, 'q) core" where
  "Core_OnStatsChanged E userId c =
     (case GetBundleReportHandler c of
        None \<Rightarrow> c
      | Some h \<Rightarrow>
          if \<not> Handler_HasEvent MSG_FLUSH_TO_DISK h
          then ReportHandler_SendEvent E MSG_FLUSH_TO_DISK (ReportObj_copy (ReportObj_default \<lparr> ro_userId := userId \<rparr>))
                 (co_flushInterval c) c
          else c)"

definition Core_OnAppGroupChanged ::
    "('d, 'w, 'g, 'q) core_env \<Rightarrow> callback_info \<Rightarrow> ('d, 'w, 'g, 'q) core \<Rightarrow> ('d, 'w, 'g, 'q) core" where
  "Core_OnAppGroupChanged E callbackInfo c =
     (let c1 = (case GetBundleGroupHandler (co_groups c) of
            None \<Rightarrow> c
          | Some h \<Rightarrow> c \<lparr> co_groups := on_handler (GroupHandler_PostTask (ge_ffrt (ce_group E)) (NotifyTask callbackInfo))
                                      (co_groups c) \<rparr>)
      in c1 \<lparr> co_calls := co_calls c1 @ [UpdateGroupEvent callbackInfo (ce_systemTime E)] \<rparr>)"

text \<open>An operation of the group controller, on the shared files, and the calls it makes.\<close>

definition with_groups ::
    "('d, 'w, 'g, 'q) core_env \<Rightarrow> (('d, 'g) group_controller \<Rightarrow> 'a \<times> ('d, 'g) group_controller) \<Rightarrow>
     ('d, 'w, 'g, 'q) core \<Rightarrow> 'a \<times> ('d, 'w, 'g, 'q) core" where
  "with_groups E f c =
     (let g0 = on_history (\<lambda>s. s \<lparr> uh_db := ce_attach E (co_world c) (uh_db s) \<rparr>) (co_groups c);
          (r, g1) = f g0;
          (infos, w) = (case gc_history g1 of
              None \<Rightarrow> ([], co_world c) | Some s \<Rightarrow> (uh_callbacks s, ce_detach E (uh_db s)));
          g2 = on_history (\<lambda>s. s \<lparr> uh_callbacks := [] \<rparr>) g1
      in (r, fold (Core_OnAppGroupChanged E) infos (c \<lparr> co_groups := g2, co_world := w \<rparr>)))"

definition on_groups ::
    "('d, 'w, 'g, 'q) core_env \<Rightarrow> (('d, 'g) group_controller \<Rightarrow> ('d, 'g) group_controller) \<Rightarrow>
     ('d, 'w, 'g, 'q) core \<Rightarrow> ('d, 'w, 'g, 'q) core" where
  "on_groups E f c = snd (with_groups E (\<lambda>g. ((), f g)) c)"

definition Core_OnStatsReload ::
    "('d, 'w, 'g, 'q) core_env \<Rightarrow> ('d, 'w, 'g, 'q) core \<Rightarrow> ('d, 'w, 'g, 'q) core" where
  "Core_OnStatsReload E c = on_groups E (CheckIdleStatsOneTime (ce_group E)) c"

fun answer_notice ::
    "('d, 'w, 'g, 'q) core_env \<Rightarrow> notice \<Rightarrow> ('d, 'w, 'g, 'q) core \<Rightarrow> ('d, 'w, 'g, 'q) core" where
  "answer_notice E (OnStatsChanged userId) c = Core_OnStatsChanged E userId c"
| "answer_notice E (OnSystemUpdate userId) c = c"
| "answer_notice E OnStatsReload c = Core_OnStatsReload E c"

text \<open>An operation of the service of one user, on the shared files and registry, and the calls it makes.
There is no answer when the user has no service.\<close>

definition with_service ::
    "('d, 'w, 'g, 'q) core_env \<Rightarrow> int \<Rightarrow> ('d user_service \<Rightarrow> 'a \<times> 'd user_service) \<Rightarrow>
     ('d, 'w, 'g, 'q) core \<Rightarrow> 'a option \<times> ('d, 'w, 'g, 'q) core" where
  "with_service E userId f c =
     (case om_find (co_userStatServices c) userId of
        None \<Rightarrow> (None, c)
      | Some s \<Rightarrow>
          let (r, s1) = f (s \<lparr> us_uids := co_uids c, us_database := ce_attach E (co_world c) (us_database s) \<rparr>)
          in (Some r, fold (answer_notice E) (us_notices s1)
                (c \<lparr> co_userStatServices := om_insert userId (s1 \<lparr> us_notices := [] \<rparr>) (co_userStatServices c),
                     co_uids := us_uids s1, co_world := ce_detach E (us_database s1) \<rparr>)))"

definition on_service ::
    "('d, 'w, 'g, 'q) core_env \<Rightarrow> int \<Rightarrow> ('d user_service \<Rightarrow> 'd user_service) \<Rightarrow>
     ('d, 'w, 'g, 'q) core \<Rightarrow> ('d, 'w, 'g, 'q) core" where
  "on_service E userId f c = snd (with_service E userId (\<lambda>s. ((), f s)) c)"

section \<open>Starting\<close>

text \<open>The loop that waits for a clock: reading \<open>n\<close> is the pair of the boot time and the system time it
answers, and the loop goes on while both are \<open>-1\<close>. The answer is the number of the first reading after
the loop.\<close>

partial_function (option) wait_clock :: "(nat \<Rightarrow> int \<times> int) \<Rightarrow> nat \<Rightarrow> nat option" where
  "wait_clock clock n =
     (case clock n of (realTime, systemTime) \<Rightarrow>
        if realTime = - 1 \<and> systemTime = - 1 then wait_clock clock (Suc n) else Some (Suc n))"

definition SubmitDelayTask ::
    "('d, 'w, 'g, 'q) core_env \<Rightarrow> int \<Rightarrow> ('d, 'w, 'g, 'q) core \<Rightarrow> ('d, 'w, 'g, 'q) core" where
  "SubmitDelayTask E delayTime c =
     c \<lparr> co_pool := snd (fq_submit (ce_ffrt E) ReportFileSizeTask delayTime (co_pool c)) \<rparr>"

definition ReportFileSizeEvent ::
    "('d, 'w, 'g, 'q) core_env \<Rightarrow> ('d, 'w, 'g, 'q) core \<Rightarrow> ('d, 'w, 'g, 'q) core" where
  "ReportFileSizeEvent E c =
     (if \<not> co_fileSizeTaskSubmitted c
      then (SubmitDelayTask E FIRST_REPORT_TIME c) \<lparr> co_fileSizeTaskSubmitted := True \<rparr>
      else c)"

text \<open>The recorder file holds the time of the last report; it is empty when it cannot be read.\<close>

definition ReportFileSizeInner ::
    "('d, 'w, 'g, 'q) core_env \<Rightarrow> ('d, 'w, 'g, 'q) core \<Rightarrow> ('d, 'w, 'g, 'q) core" where
  "ReportFileSizeInner E c =
     (let folder = ce_dataFolder E (co_world c);
          filesPath = BUNDLE_ACTIVE_DATABASE_DIR # map (\<lambda>t. BUNDLE_ACTIVE_DATABASE_DIR @ t) DATABASE_TYPE;
          filesPathSize = GetFolderOrFileSize folder '''' # map (GetFolderOrFileSize folder) DATABASE_TYPE;
          remainSize = GetDeviceValidSize (ce_statfs E) ''/data''
      in SubmitDelayTask E ONE_DAY_MICRO_SECOND
           (c \<lparr> co_calls := co_calls c @ [ReportSizes remainSize filesPath filesPathSize],
                co_recorder := int_to_string (ce_nowMicro E) \<rparr>))"

definition ReportFileSizeDaily ::
    "('d, 'w, 'g, 'q) core_env \<Rightarrow> ('d, 'w, 'g, 'q) core \<Rightarrow> ('d, 'w, 'g, 'q) core" where
  "ReportFileSizeDaily E c =
     (let lastReportTime = co_recorder c
      in if lastReportTime = '''' then ReportFileSizeInner E c
         else
           let lastReportTimeValue = StringToInt64 lastReportTime
           in if lastReportTimeValue \<le> 0 then ReportFileSizeInner E c
              else
                let nowTime = ce_nowMicro E
                in if nowTime - lastReportTimeValue < ONE_DAY_MICRO_SECOND
                   then SubmitDelayTask E (ONE_DAY_MICRO_SECOND - (nowTime - lastReportTimeValue)) c
                   else ReportFileSizeInner E c)"

definition Core_Init ::
    "('d, 'w, 'g, 'q) core_env \<Rightarrow> (nat \<Rightarrow> int \<times> int) \<Rightarrow> config_files \<Rightarrow> 'j json_ops \<Rightarrow>
     ('d, 'w, 'g, 'q) core \<Rightarrow> ('d, 'w, 'g, 'q) core option" where
  "Core_Init E clock F J c =
     (case wait_clock clock 0 of
        None \<Rightarrow> None
      | Some n \<Rightarrow>
          Some (ReportFileSizeEvent E (c \<lparr> co_realTimeShot := fst (clock n), co_systemTimeShot := snd (clock n),
            co_config := Some (LoadConfig F J ConfigReader_new) \<rparr>)))"

definition RegisterSubscriber :: "('d, 'w, 'g, 'q) core \<Rightarrow> ('d, 'w, 'g, 'q) core" where
  "RegisterSubscriber c = c \<lparr> co_calls := co_calls c @
     [SubscribeCommonEvent [ScreenOff, ScreenOn, UserRemoved, UserSwitched, PackageRemoved, BundleRemoved,
        PackageFullyRemoved, PackageAdded],
      SubscribeCommonEvent [UnlockScreen, LockScreen]] \<rparr>"

definition UnRegisterSubscriber :: "('d, 'w, 'g, 'q) core \<Rightarrow> ('d, 'w, 'g, 'q) core" where
  "UnRegisterSubscriber c = c \<lparr> co_calls := co_calls c @ [UnSubscribeCommonEvent, UnSubscribeCommonEvent] \<rparr>"

definition InitBundleGroupController ::
    "('d, 'w, 'g, 'q) core_env \<Rightarrow> 'g \<Rightarrow> 'g option \<Rightarrow> ('d, 'w, 'g, 'q) core \<Rightarrow> ('d, 'w, 'g, 'q) core" where
  "InitBundleGroupController E q0 ffrtQueue c =
     (let G = ce_group E;
          c1 = on_groups E (\<lambda>g. CreateUserHistory G (co_realTimeShot c) True
                 (ce_attach E (co_world c) (ce_newDatabase E)) (GroupController_Init (co_debugCore c) q0 ffrtQueue g)) c;
          c2 = on_groups E (SetBundleGroupEnable True) (RegisterSubscriber c1)
      in fold (\<lambda>userId. on_groups E (PeriodCheckBundleState G userId)) (ge_activeUsers G) c2)"

definition Core_DeInit ::
    "('d, 'w, 'g, 'q) core_env \<Rightarrow> ('d, 'w, 'g, 'q) core \<Rightarrow> ('d, 'w, 'g, 'q) core" where
  "Core_DeInit E c = ReportController_DeInit (ce_ffrt E) (on_groups E (GroupController_DeInit (ge_ffrt (ce_group E))) c)"

section \<open>The clock\<close>

definition flush_event :: "int \<Rightarrow> event" where
  "flush_event timeStamp = Event_default \<lparr> ev_eventId := FLUSH, ev_timeStamp := timeStamp, ev_abilityId := '''' \<rparr>"

text \<open>What a jump of the system time does to a service.\<close>

definition follow_time_change ::
    "('d, 'w, 'g, 'q) core_env \<Rightarrow> int \<Rightarrow> int \<Rightarrow> 'd user_service \<Rightarrow> 'd user_service" where
  "follow_time_change E expectedSystemTime actualSystemTime s =
     (let D = ce_usage E; z = ce_zone E
      in LoadModuleAndFormStats D (LoadActiveStats D z actualSystemTime True True
           (UserService_RenewTableTime D expectedSystemTime actualSystemTime
             (RestoreStats D True (UserService_ReportEvent D z (flush_event expectedSystemTime) s)))))"

definition CheckTimeChangeAndGetWallTime ::
    "('d, 'w, 'g, 'q) core_env \<Rightarrow> int \<Rightarrow> ('d, 'w, 'g, 'q) core \<Rightarrow> int \<times> ('d, 'w, 'g, 'q) core" where
  "CheckTimeChangeAndGetWallTime E userId c =
     (let actualSystemTime = ce_systemTime E;
          actualRealTime = ce_bootTime E;
          expectedSystemTime = (actualRealTime - co_realTimeShot c) + co_systemTimeShot c;
          diffSystemTime = actualSystemTime - expectedSystemTime;
          shot = (\<lambda>c. c \<lparr> co_realTimeShot := actualRealTime, co_systemTimeShot := actualSystemTime \<rparr>)
      in if actualSystemTime = - 1 \<or> actualRealTime = - 1 then (errcode_num ERR_TIME_OPERATION_FAILED, c)
         else if \<bar>diffSystemTime\<bar> < TIME_CHANGE_THRESHOLD_MILLIS then
           (actualSystemTime, if \<bar>diffSystemTime\<bar> > TWO_SECONDS then shot c else c)
         else case om_find (co_userStatServices c) userId of
           None \<Rightarrow> (actualSystemTime, shot c)
         | Some _ \<Rightarrow>
             let c1 = on_service E userId (follow_time_change E expectedSystemTime actualSystemTime) c
             in case GetBundleReportHandler c1 of
                  None \<Rightarrow> (actualSystemTime, c1)
                | Some h \<Rightarrow> (actualSystemTime, shot (ReportHandler_RemoveEvent E MSG_FLUSH_TO_DISK c1)))"

definition ConvertToSystemTimeLocked :: "('d, 'w, 'g, 'q) core \<Rightarrow> event \<Rightarrow> event" where
  "ConvertToSystemTimeLocked c ev =
     ev \<lparr> ev_timeStamp := max 0 (ev_timeStamp ev - co_realTimeShot c) + co_systemTimeShot c \<rparr>"

definition time_failed :: "int \<Rightarrow> bool" where
  "time_failed timeNow \<longleftrightarrow> timeNow = errcode_num ERR_TIME_OPERATION_FAILED"

definition GetUserDataAndInitializeIfNeeded ::
    "('d, 'w, 'g, 'q) core_env \<Rightarrow> int \<Rightarrow> int \<Rightarrow> bool \<Rightarrow> ('d, 'w, 'g, 'q) core \<Rightarrow> ('d, 'w, 'g, 'q) core" where
  "GetUserDataAndInitializeIfNeeded E userId timeStamp debug c =
     (case om_find (co_userStatServices c) userId of
        Some _ \<Rightarrow> c
      | None \<Rightarrow>
          let service = UserService_new (ce_usage E) userId debug (ce_attach E (co_world c) (ce_newDatabase E)) (co_uids c)
          in on_service E userId (UserService_Init (ce_usage E) (ce_zone E) timeStamp)
               (c \<lparr> co_userStatServices := om_insert userId service (co_userStatServices c),
                    co_world := ce_detach E (us_database service) \<rparr>))"

section \<open>Uninstalled applications\<close>

definition AddbundleUninstalledUid :: "int \<Rightarrow> ('d, 'w, 'g, 'q) core \<Rightarrow> ('d, 'w, 'g, 'q) core" where
  "AddbundleUninstalledUid uid c = c \<lparr> co_bundleUninstalledSet := os_insert uid (co_bundleUninstalledSet c) \<rparr>"

definition DelayRemoveBundleUninstalledUid ::
    "('d, 'w, 'g, 'q) core_env \<Rightarrow> int \<Rightarrow> ('d, 'w, 'g, 'q) core \<Rightarrow> ('d, 'w, 'g, 'q) core" where
  "DelayRemoveBundleUninstalledUid E uid c =
     (let (task, q) = fq_submit (ce_ffrt E) (ForgetUninstalled uid) BUNDLE_UNINSTALL_DELAY_TIME (co_pool c)
      in c \<lparr> co_pool := q, co_taskMap := om_insert uid task (co_taskMap c) \<rparr>)"

text \<open>The closure that is submitted.\<close>

definition forget_uninstalled :: "int \<Rightarrow> ('d, 'w, 'g, 'q) core \<Rightarrow> ('d, 'w, 'g, 'q) core" where
  "forget_uninstalled uid c =
     (let c1 = c \<lparr> co_bundleUninstalledSet := os_erase uid (co_bundleUninstalledSet c) \<rparr>
      in case om_find (co_taskMap c1) uid of
           None \<Rightarrow> c1
         | Some _ \<Rightarrow> c1 \<lparr> co_taskMap := om_erase uid (co_taskMap c1) \<rparr>)"

definition isUninstalledApp :: "int \<Rightarrow> ('d, 'w, 'g, 'q) core \<Rightarrow> bool" where
  "isUninstalledApp uid c \<longleftrightarrow> uid \<in> set (co_bundleUninstalledSet c)"

definition Core_OnBundleUninstalled ::
    "('d, 'w, 'g, 'q) core_env \<Rightarrow> int \<Rightarrow> string \<Rightarrow> int \<Rightarrow> int \<Rightarrow> ('d, 'w, 'g, 'q) core \<Rightarrow> ('d, 'w, 'g, 'q) core" where
  "Core_OnBundleUninstalled E userId bundleName uid appIndex c =
     (let (timeNow, c1) = CheckTimeChangeAndGetWallTime E userId c
      in if time_failed timeNow then c1
         else
           let c2 = GetUserDataAndInitializeIfNeeded E userId timeNow (co_debugCore c1) c1;
               c3 = DelayRemoveBundleUninstalledUid E uid (AddbundleUninstalledUid uid c2);
               c4 = on_service E userId (DeleteUninstalledBundleStats (ce_usage E) bundleName uid appIndex) c3
           in on_groups E (GroupController_OnBundleUninstalled (ce_group E) userId bundleName uid appIndex) c4)"

definition Core_OnBundleInstalled ::
    "('d, 'w, 'g, 'q) core_env \<Rightarrow> int \<Rightarrow> ('d, 'w, 'g, 'q) core \<Rightarrow> ('d, 'w, 'g, 'q) core" where
  "Core_OnBundleInstalled E uid c =
     (if uid \<notin> set (co_bundleUninstalledSet c) then c
      else
        let c1 = c \<lparr> co_bundleUninstalledSet := os_erase uid (co_bundleUninstalledSet c) \<rparr>
        in case om_find (co_taskMap c1) uid of
             None \<Rightarrow> c1
           | Some task \<Rightarrow> c1 \<lparr> co_pool := fq_cancel (ce_ffrt E) task (co_pool c1),
                            co_taskMap := om_erase uid (co_taskMap c1) \<rparr>)"
section \<open>Saving\<close>

definition RestoreAllData ::
    "('d, 'w, 'g, 'q) core_env \<Rightarrow> ('d, 'w, 'g, 'q) core \<Rightarrow> ('d, 'w, 'g, 'q) core" where
  "RestoreAllData E c =
     (let c1 = fold (\<lambda>userId c. on_groups E (GroupController_RestoreToDatabase (ce_group E) userId)
                   (on_service E userId (RestoreStats (ce_usage E) True) c))
                 (map fst (co_userStatServices c)) c
      in ReportHandler_RemoveEvent E MSG_FLUSH_TO_DISK (on_groups E (RestoreDurationToDatabase (ce_group E)) c1))"

definition RestoreToDatabaseLocked ::
    "('d, 'w, 'g, 'q) core_env \<Rightarrow> int \<Rightarrow> ('d, 'w, 'g, 'q) core \<Rightarrow> ('d, 'w, 'g, 'q) core" where
  "RestoreToDatabaseLocked E userId c =
     ReportHandler_RemoveEvent E MSG_FLUSH_TO_DISK (on_groups E (RestoreDurationToDatabase (ce_group E))
       (on_service E userId (RestoreStats (ce_usage E) False) c))"

definition IsUserSpaceMemoryLimit :: "('d, 'w, 'g, 'q) core_env \<Rightarrow> bool" where
  "IsUserSpaceMemoryLimit E \<longleftrightarrow>
     GetPercentOfAvailableUserSpace (ce_statfs E) ''/data'' \<le> DEFAULT_PERCENT_USER_SPACE_LIMIT"

definition RestoreToDatabase ::
    "('d, 'w, 'g, 'q) core_env \<Rightarrow> int \<Rightarrow> ('d, 'w, 'g, 'q) core \<Rightarrow> ('d, 'w, 'g, 'q) core" where
  "RestoreToDatabase E userId c =
     (if IsUserSpaceMemoryLimit E then c
      else
        let c1 = on_service E userId
              (UserService_ReportEvent (ce_usage E) (ce_zone E) (flush_event (ce_systemTime E))) c;
            c2 = RestoreToDatabaseLocked E userId c1
        in c2 \<lparr> co_pool := snd (fq_submit (ce_ffrt E) DataSizeTask 0 (co_pool c2)) \<rparr>)"

definition IsFolderSizeLimit :: "('d, 'w, 'g, 'q) core_env \<Rightarrow> config \<Rightarrow> ('d, 'w, 'g, 'q) core \<Rightarrow> bool" where
  "IsFolderSizeLimit E cfg c \<longleftrightarrow> GetFolderOrFileSize (ce_dataFolder E (co_world c)) '''' \<ge> GetMaxDataSize cfg"

text \<open>The loop of \<open>DeleteExcessiveTableData\<close> from \<open>deleteDays\<close> on, and the days it has gone through.\<close>

function delete_days ::
    "('d, 'w, 'g, 'q) core_env \<Rightarrow> config \<Rightarrow> nat \<Rightarrow> ('d, 'w, 'g, 'q) core \<Rightarrow> ('d, 'w, 'g, 'q) core" where
  "delete_days E cfg deleteDays c =
     (if deleteDays \<le> MAX_DELETE_EVENT_DALIYS then
        let c1 = on_service E (co_currentUsedUser c)
              (UserService_DeleteExcessiveEventTableData (ce_usage E) (int deleteDays)) c
        in if \<not> IsFolderSizeLimit E cfg c1 then c1 else delete_days E cfg (Suc deleteDays) c1
      else c)"
  by pat_completeness auto
termination
  by (relation "measure (\<lambda>(E, cfg, n, c). Suc MAX_DELETE_EVENT_DALIYS - n)") auto

declare delete_days.simps [simp del]

definition Core_DeleteExcessiveTableData ::
    "('d, 'w, 'g, 'q) core_env \<Rightarrow> config \<Rightarrow> ('d, 'w, 'g, 'q) core \<Rightarrow> ('d, 'w, 'g, 'q) core" where
  "Core_DeleteExcessiveTableData E cfg c =
     (if om_find (co_userStatServices c) (co_currentUsedUser c) = None then c
      else delete_days E cfg DEFAULT_DELETE_EVENT_DALIYS c)"

definition ProcessDataSize ::
    "('d, 'w, 'g, 'q) core_env \<Rightarrow> ('d, 'w, 'g, 'q) core \<Rightarrow> ('d, 'w, 'g, 'q) core" where
  "ProcessDataSize E c =
     (case co_config c of
        None \<Rightarrow> c
      | Some cfg \<Rightarrow> if \<not> IsFolderSizeLimit E cfg c then c else Core_DeleteExcessiveTableData E cfg c)"

section \<open>Reporting\<close>

definition ObtainSystemEventName :: "event \<Rightarrow> event" where
  "ObtainSystemEventName ev =
     (if ev_eventId ev = SYSTEM_LOCK then ev \<lparr> ev_bundleName := OPERATION_SYSTEM_LOCK \<rparr>
      else if ev_eventId ev = SYSTEM_UNLOCK then ev \<lparr> ev_bundleName := OPERATION_SYSTEM_UNLOCK \<rparr>
      else if ev_eventId ev = SYSTEM_SLEEP then ev \<lparr> ev_bundleName := OPERATION_SYSTEM_SLEEP \<rparr>
      else if ev_eventId ev = SYSTEM_WAKEUP then ev \<lparr> ev_bundleName := OPERATION_SYSTEM_WAKEUP \<rparr>
      else ev)"

definition Core_ReportEvent ::
    "('d, 'w, 'g, 'q) core_env \<Rightarrow> event \<Rightarrow> int \<Rightarrow> ('d, 'w, 'g, 'q) core \<Rightarrow> int \<times> ('d, 'w, 'g, 'q) core" where
  "Core_ReportEvent E ev0 userId c0 =
     (let ev = ObtainSystemEventName ev0
      in if userId = 0 \<or> userId = - 1 then (- 1, c0)
         else
           let c = (if co_currentUsedUser c0 = - 1 then c0 \<lparr> co_currentUsedUser := userId \<rparr> else c0);
               bootBasedTimeStamp = ce_bootTime E;
               (launcher, l) = IsLauncherApp (ce_bundleMgr E) (ev_bundleName ev) userId (co_launchers c);
               c1 = c \<lparr> co_launchers := l \<rparr>;
               to_groups = (\<lambda>ev. on_groups E (GroupController_ReportEvent (ce_group E) ev bootBasedTimeStamp userId))
           in if launcher then (0, to_groups ev c1)
              else
                let (timeNow, c2) = CheckTimeChangeAndGetWallTime E userId c1
                in if time_failed timeNow then (- 1, c2)
                   else
                     let ev1 = ConvertToSystemTimeLocked c2 ev;
                         c3 = GetUserDataAndInitializeIfNeeded E userId timeNow (co_debugCore c2) c2
                     in if ev_eventId ev1 = FORM_IS_CLICKED \<or> ev_eventId ev1 = FORM_IS_REMOVED then
                          (0, on_service E userId (ReportFormEvent (ce_usage E) ev1) c3)
                        else
                          (0, to_groups ev1 (on_service E userId (\<lambda>s. UserService_ReportEvent (ce_usage E) (ce_zone E) ev1
                                (ReportModuleEvent ev1 s)) c3)))"

text \<open>The loop over the users returns in its first turn.\<close>

definition ReportEventToAllUserId ::
    "('d, 'w, 'g, 'q) core_env \<Rightarrow> event \<Rightarrow> ('d, 'w, 'g, 'q) core \<Rightarrow> int \<times> ('d, 'w, 'g, 'q) core" where
  "ReportEventToAllUserId E ev c =
     (let (timeNow, c1) = CheckTimeChangeAndGetWallTime E 0 c
      in if time_failed timeNow then (- 1, c1)
         else case co_userStatServices c1 of
           [] \<Rightarrow> (DEFAULT_USER_ID, c1)
         | (userId, _) # _ \<Rightarrow>
             let ev1 = ConvertToSystemTimeLocked c1 ev;
                 c2 = GetUserDataAndInitializeIfNeeded E userId timeNow (co_debugCore c1) c1
             in (0, on_service E userId (ReportForShutdown (ce_usage E) (ce_zone E) ev1) c2))"

definition PreservePowerStateInfo ::
    "('d, 'w, 'g, 'q) core_env \<Rightarrow> int \<Rightarrow> ('d, 'w, 'g, 'q) core \<Rightarrow> ('d, 'w, 'g, 'q) core" where
  "PreservePowerStateInfo E eventId c =
     (let currentActiveUser = ge_activeUsers (ce_group E);
          userId = (if length currentActiveUser = 1 then hd currentActiveUser else - 1);
          obj = (ReportObj_new userId '''')
            \<lparr> ro_event := Event_default \<lparr> ev_eventId := eventId, ev_timeStamp := ce_bootTime E \<rparr> \<rparr>
      in ReportHandler_SendEvent E MSG_REPORT_EVENT (ReportObj_copy obj) 0 c)"

definition Core_ShutDown ::
    "('d, 'w, 'g, 'q) core_env \<Rightarrow> ('d, 'w, 'g, 'q) core \<Rightarrow> ('d, 'w, 'g, 'q) core" where
  "Core_ShutDown E c =
     (let timeStamp = ce_bootTime E;
          ev = (Event_time SHUTDOWN timeStamp) \<lparr> ev_bundleName := DEVICE_EVENT_PACKAGE_NAME \<rparr>;
          users = ge_activeUsers (ce_group E)
      in if users = [] then c
         else
           let c1 = fold (\<lambda>userId. on_groups E (GroupController_ShutDown (ce_group E) timeStamp userId)) users c
           in RestoreAllData E (snd (ReportEventToAllUserId E ev c1)))"

section \<open>Users\<close>

definition Core_OnUserRemoved ::
    "('d, 'w, 'g, 'q) core_env \<Rightarrow> int \<Rightarrow> ('d, 'w, 'g, 'q) core \<Rightarrow> ('d, 'w, 'g, 'q) core" where
  "Core_OnUserRemoved E userId c =
     (if MIN_USER_ID > userId \<or> userId > INT32_MAX then c
      else case om_find (co_userStatServices c) userId of
        None \<Rightarrow> c
      | Some _ \<Rightarrow>
          let c1 = on_service E userId (UserService_OnUserRemoved (ce_usage E)) c;
              c2 = c1 \<lparr> co_userStatServices := om_erase userId (co_userStatServices c1) \<rparr>
          in on_groups E (GroupController_OnUserRemoved (ce_group E) userId) c2)"

definition Core_OnUserSwitched ::
    "('d, 'w, 'g, 'q) core_env \<Rightarrow> int \<Rightarrow> ('d, 'w, 'g, 'q) core \<Rightarrow> ('d, 'w, 'g, 'q) core" where
  "Core_OnUserSwitched E userId c =
     (let D = ce_usage E;
          now = (ce_bootTime E - co_realTimeShot c) + co_systemTimeShot c;
          c1 = on_service E (co_currentUsedUser c) (\<lambda>s. RestoreStats D True
                 (UserService_ReportEvent D (ce_zone E) (flush_event now) s)) c;
          users = ge_activeUsers (ce_group E)
      in if users = [] then c1
         else
           let c2 = fold (\<lambda>u. on_groups E (GroupController_OnUserSwitched (ce_group E) u (co_currentUsedUser c1))) users c1
           in Core_OnStatsChanged E userId (c2 \<lparr> co_currentUsedUser := userId \<rparr>))"

section \<open>Queries\<close>

text \<open>What every query does first: the clock is checked, the service of the user is there.\<close>

definition with_query ::
    "('d, 'w, 'g, 'q) core_env \<Rightarrow> int \<Rightarrow> (int \<Rightarrow> errcode option) \<Rightarrow>
     ('d user_service \<Rightarrow> (errcode + 'a) \<times> 'd user_service) \<Rightarrow> ('d, 'w, 'g, 'q) core \<Rightarrow>
     (errcode + 'a) \<times> ('d, 'w, 'g, 'q) core" where
  "with_query E userId refuse f c =
     (let (timeNow, c1) = CheckTimeChangeAndGetWallTime E userId c
      in if time_failed timeNow then (Inl ERR_TIME_OPERATION_FAILED, c1)
         else case refuse timeNow of
           Some err \<Rightarrow> (Inl err, c1)
         | None \<Rightarrow>
             (case with_service E userId f (GetUserDataAndInitializeIfNeeded E userId timeNow (co_debugCore c1) c1) of
                (None, c2) \<Rightarrow> (Inl ERR_MEMORY_OPERATION_FAILED, c2)
              | (Some r, c2) \<Rightarrow> (r, c2)))"

definition refuse_span :: "int \<Rightarrow> int \<Rightarrow> int \<Rightarrow> errcode option" where
  "refuse_span beginTime endTime timeNow =
     (if beginTime > timeNow \<or> beginTime \<ge> endTime then Some ERR_QUERY_TIME_OUT_OF_RANGE else None)"

definition Core_QueryBundleStatsInfos ::
    "('d, 'w, 'g, 'q) core_env \<Rightarrow> int \<Rightarrow> int \<Rightarrow> int \<Rightarrow> int \<Rightarrow> string \<Rightarrow> ('d, 'w, 'g, 'q) core \<Rightarrow>
     (errcode + package_stats list) \<times> ('d, 'w, 'g, 'q) core" where
  "Core_QueryBundleStatsInfos E userId intervalType beginTime endTime bundleName c =
     with_query E userId (refuse_span beginTime endTime)
       (UserService_QueryBundleStatsInfos (ce_usage E) intervalType beginTime endTime userId bundleName) c"

definition Core_QueryBundleEvents ::
    "('d, 'w, 'g, 'q) core_env \<Rightarrow> int \<Rightarrow> int \<Rightarrow> int \<Rightarrow> string \<Rightarrow> ('d, 'w, 'g, 'q) core \<Rightarrow>
     (errcode + event list) \<times> ('d, 'w, 'g, 'q) core" where
  "Core_QueryBundleEvents E userId beginTime endTime bundleName c =
     with_query E userId (refuse_span beginTime endTime)
       (UserService_QueryBundleEvents (ce_usage E) beginTime endTime userId bundleName) c"

definition Core_QueryModuleUsageRecords ::
    "('d, 'w, 'g, 'q) core_env \<Rightarrow> int \<Rightarrow> int \<Rightarrow> ('d, 'w, 'g, 'q) core \<Rightarrow>
     (errcode + module_record list) \<times> ('d, 'w, 'g, 'q) core" where
  "Core_QueryModuleUsageRecords E maxNum userId c =
     with_query E userId (\<lambda>_. None) (\<lambda>s. (Inr (UserService_QueryModuleUsageRecords maxNum s), s)) c"

definition Core_QueryDeviceEventStats ::
    "('d, 'w, 'g, 'q) core_env \<Rightarrow> int \<Rightarrow> int \<Rightarrow> int \<Rightarrow> ('d, 'w, 'g, 'q) core \<Rightarrow>
     (errcode + event_stats list) \<times> ('d, 'w, 'g, 'q) core" where
  "Core_QueryDeviceEventStats E beginTime endTime userId c =
     with_query E userId (\<lambda>_. None) (UserService_QueryDeviceEventStats (ce_usage E) beginTime endTime userId) c"

definition Core_QueryNotificationEventStats ::
    "('d, 'w, 'g, 'q) core_env \<Rightarrow> int \<Rightarrow> int \<Rightarrow> int \<Rightarrow> ('d, 'w, 'g, 'q) core \<Rightarrow>
     (errcode + event_stats list) \<times> ('d, 'w, 'g, 'q) core" where
  "Core_QueryNotificationEventStats E beginTime endTime userId c =
     with_query E userId (\<lambda>_. None) (UserService_QueryNotificationEventStats (ce_usage E) beginTime endTime userId) c"

text \<open>The configuration is dereferenced without a test; after \<open>Init\<close> it is there, and the model answers
with the untouched one when it is not.\<close>

definition core_config :: "('d, 'w, 'g, 'q) core \<Rightarrow> config" where
  "core_config c = (case co_config c of Some cfg \<Rightarrow> cfg | None \<Rightarrow> ConfigReader_new)"

definition Core_QueryHighFrequencyPeriodBundle ::
    "('d, 'w, 'g, 'q) core_env \<Rightarrow> int \<Rightarrow> ('d, 'w, 'g, 'q) core \<Rightarrow>
     (errcode + high_freq_period list) \<times> ('d, 'w, 'g, 'q) core" where
  "Core_QueryHighFrequencyPeriodBundle E userId c =
     (let currentSystemTime = ce_systemTime E;
          aWeekAgo = currentSystemTime - ONE_WEEK_TIME
      in case with_query E userId (\<lambda>_. None)
            (UserService_QueryBundleEvents (ce_usage E) aWeekAgo currentSystemTime userId '''') c of
           (Inl err, c1) \<Rightarrow> (Inl err, c1)
         | (Inr bundleActiveEvents, c1) \<Rightarrow>
             (Inr (GetFreqBundleHours (ce_sorter E) (appHighFreqPeriodThresholdConfig (core_config c1))
                (ProcessEvents (ce_zone E) [] bundleActiveEvents) []), c1))"

definition Core_SetAppGroup ::
    "('d, 'w, 'g, 'q) core_env \<Rightarrow> string \<Rightarrow> int \<Rightarrow> int \<Rightarrow> bool \<Rightarrow> ('d, 'w, 'g, 'q) core \<Rightarrow>
     errcode \<times> ('d, 'w, 'g, 'q) core" where
  "Core_SetAppGroup E bundleName newGroup userId isFlush c =
     with_groups E (GroupController_SetAppGroup (ce_group E) bundleName userId newGroup GROUP_CONTROL_REASON_FORCED
       (ce_bootTime E) isFlush) c"

definition Core_QueryAppGroup ::
    "('d, 'w, 'g, 'q) core_env \<Rightarrow> string \<Rightarrow> int \<Rightarrow> ('d, 'w, 'g, 'q) core \<Rightarrow> errcode + int" where
  "Core_QueryAppGroup E bundleName userId c = GroupController_QueryAppGroup (ce_group E) bundleName userId (co_groups c)"

definition Core_IsBundleIdle ::
    "('d, 'w, 'g, 'q) core_env \<Rightarrow> string \<Rightarrow> int \<Rightarrow> ('d, 'w, 'g, 'q) core \<Rightarrow> int" where
  "Core_IsBundleIdle E bundleName userId c = IsBundleIdle (ce_group E) bundleName userId (co_groups c)"

text \<open>The days in the week before now on which the bundle was started neither too rarely nor too often.\<close>

definition Core_IsBundleUsePeriod ::
    "('d, 'w, 'g, 'q) core_env \<Rightarrow> string \<Rightarrow> int \<Rightarrow> ('d, 'w, 'g, 'q) core \<Rightarrow> bool \<times> ('d, 'w, 'g, 'q) core" where
  "Core_IsBundleUsePeriod E bundleName userId c =
     (if \<not> ge_installed (ce_group E) bundleName userId then (False, c)
      else if IsUsedOverOneWeek (ce_group E) bundleName userId (co_groups c) then (True, c)
      else
        let currentSystemTime = ce_systemTime E;
            aWeekAgo = currentSystemTime - ONE_WEEK_TIME;
            startTime = GetIntervalTypeStartTime (ce_zone E) aWeekAgo PERIOD_DAILY;
            (answer, c1) = Core_QueryBundleStatsInfos E userId PERIOD_DAILY startTime currentSystemTime bundleName c;
            packageStats = (case answer of Inl _ \<Rightarrow> [] | Inr stats \<Rightarrow> stats);
            cfg = appUsePeriodicallyConfig (core_config c1);
            useDayPeriod = int (length (filter (\<lambda>item. pk_startCount item \<ge> minUseTimes cfg \<and>
              pk_startCount item \<le> maxUseTimes cfg) packageStats))
        in (useDayPeriod \<ge> minUseDays cfg, c1))"

definition Core_IsWindowVisibilityEnable :: "('d, 'w, 'g, 'q) core \<Rightarrow> bool" where
  "Core_IsWindowVisibilityEnable c = isWindowVisibilityEnable (core_config c)"

section \<open>Observers of group changes\<close>

definition AddObserverDeathRecipient :: "app_callback \<Rightarrow> ('d, 'w, 'g, 'q) core \<Rightarrow> ('d, 'w, 'g, 'q) core" where
  "AddObserverDeathRecipient observer c =
     (case ac_object observer of
        None \<Rightarrow> c
      | Some object \<Rightarrow>
          if object \<in> set (co_recipientMap c) then c
          else c \<lparr> co_calls := co_calls c @ [AddDeathRecipient object],
                   co_recipientMap := os_insert object (co_recipientMap c) \<rparr>)"

definition RemoveObserverDeathRecipient :: "app_callback \<Rightarrow> ('d, 'w, 'g, 'q) core \<Rightarrow> ('d, 'w, 'g, 'q) core" where
  "RemoveObserverDeathRecipient observer c =
     (case ac_object observer of
        None \<Rightarrow> c
      | Some object \<Rightarrow>
          if object \<in> set (co_recipientMap c)
          then c \<lparr> co_calls := co_calls c @ [RemoveDeathRecipient object],
                   co_recipientMap := os_erase object (co_recipientMap c) \<rparr>
          else c)"

definition Core_RegisterAppGroupCallBack ::
    "nat \<Rightarrow> app_callback option \<Rightarrow> ('d, 'w, 'g, 'q) core \<Rightarrow> errcode \<times> ('d, 'w, 'g, 'q) core" where
  "Core_RegisterAppGroupCallBack tokenId observer c =
     (case observer of
        None \<Rightarrow> (ERR_MEMORY_OPERATION_FAILED, c)
      | Some ob \<Rightarrow>
          if om_find (co_groupChangeObservers c) tokenId \<noteq> None
          then (ERR_REPEAT_REGISTER_OR_DEREGISTER_GROUP_CALLBACK, c)
          else (ERR_OK, AddObserverDeathRecipient ob
                 (c \<lparr> co_groupChangeObservers := om_insert tokenId ob (co_groupChangeObservers c) \<rparr>)))"

definition Core_UnRegisterAppGroupCallBack ::
    "nat \<Rightarrow> ('d, 'w, 'g, 'q) core \<Rightarrow> errcode \<times> ('d, 'w, 'g, 'q) core" where
  "Core_UnRegisterAppGroupCallBack tokenId c =
     (case om_find (co_groupChangeObservers c) tokenId of
        None \<Rightarrow> (ERR_REPEAT_REGISTER_OR_DEREGISTER_GROUP_CALLBACK, c)
      | Some ob \<Rightarrow>
          let c1 = RemoveObserverDeathRecipient ob c
          in (ERR_OK, c1 \<lparr> co_groupChangeObservers := om_erase tokenId (co_groupChangeObservers c1) \<rparr>))"

text \<open>The loop stops at the first observer with the dead object.\<close>

definition OnObserverDiedInner :: "nat \<Rightarrow> ('d, 'w, 'g, 'q) core \<Rightarrow> ('d, 'w, 'g, 'q) core" where
  "OnObserverDiedInner object c =
     (let c1 = (case find (\<lambda>item. ac_object (snd item) = Some object) (co_groupChangeObservers c) of
            None \<Rightarrow> c
          | Some item \<Rightarrow> c \<lparr> co_groupChangeObservers := om_erase (fst item) (co_groupChangeObservers c) \<rparr>)
      in c1 \<lparr> co_recipientMap := os_erase object (co_recipientMap c1) \<rparr>)"

text \<open>\<open>remote\<close> is the reference handed in, \<open>promoted\<close> what it can be promoted to; the task on the group
queue is waited for.\<close>

definition OnObserverDied ::
    "nat option \<Rightarrow> nat option \<Rightarrow> ('d, 'w, 'g, 'q) core \<Rightarrow> ('d, 'w, 'g, 'q) core" where
  "OnObserverDied remote promoted c =
     (case (remote, GetBundleGroupHandler (co_groups c), promoted) of
        (Some _, Some h, Some object) \<Rightarrow> if th_isInited h then OnObserverDiedInner object c else c
      | _ \<Rightarrow> c)"

definition NotifOberserverGroupChanged ::
    "('d, 'w, 'g, 'q) core_env \<Rightarrow> callback_info \<Rightarrow> ('d, 'w, 'g, 'q) core \<Rightarrow> ('d, 'w, 'g, 'q) core" where
  "NotifOberserverGroupChanged E callbackInfo c =
     fold (\<lambda>(tokenId, observer) c.
         let call = c \<lparr> co_calls := co_calls c @ [CallObserver observer callbackInfo] \<rparr>
         in case ce_tokenType E tokenId of
              TokenNative \<Rightarrow> call
            | TokenHap \<Rightarrow> if ce_tokenUser E tokenId = cb_userId callbackInfo then call else c
            | TokenOther \<Rightarrow> c)
       (co_groupChangeObservers c) c"
section \<open>The report handler\<close>

definition ProcessReportEvent ::
    "('d, 'w, 'g, 'q) core_env \<Rightarrow> report_obj \<Rightarrow> ('d, 'w, 'g, 'q) core \<Rightarrow> ('d, 'w, 'g, 'q) core" where
  "ProcessReportEvent E obj c =
     (if IsAppStateEvent (ev_eventId (ro_event obj)) \<and> isUninstalledApp (ev_uid (ro_event obj)) c then c
      else snd (Core_ReportEvent E (ro_event obj) (ro_userId obj) c))"

definition ProcessFlushToDiskEvent ::
    "('d, 'w, 'g, 'q) core_env \<Rightarrow> report_obj \<Rightarrow> ('d, 'w, 'g, 'q) core \<Rightarrow> ('d, 'w, 'g, 'q) core" where
  "ProcessFlushToDiskEvent E obj c =
     (if ro_userId obj \<noteq> co_currentUsedUser c then ReportHandler_RemoveEvent E MSG_FLUSH_TO_DISK c
      else RestoreToDatabase E (ro_userId obj) c)"

text \<open>The handler is the one of the controller; it does nothing before it is initialised.\<close>

definition ReportHandler_ProcessEvent ::
    "('d, 'w, 'g, 'q) core_env \<Rightarrow> int \<Rightarrow> report_obj option \<Rightarrow> ('d, 'w, 'g, 'q) core \<Rightarrow> ('d, 'w, 'g, 'q) core" where
  "ReportHandler_ProcessEvent E eventId handlerobj c =
     (if \<not> (case co_report c of None \<Rightarrow> False | Some h \<Rightarrow> th_isInited h) then c
      else case handlerobj of
        None \<Rightarrow> c
      | Some handlerobj \<Rightarrow>
          let obj = ReportObj_copy handlerobj
          in if eventId = MSG_REPORT_EVENT then ProcessReportEvent E obj c
             else if eventId = MSG_FLUSH_TO_DISK then ProcessFlushToDiskEvent E obj c
             else if eventId = MSG_REMOVE_USER then Core_OnUserRemoved E (ro_userId obj) c
             else if eventId = MSG_SWITCH_USER then Core_OnUserSwitched E (ro_userId obj) c
             else if eventId = MSG_BUNDLE_UNINSTALLED then
               Core_OnBundleUninstalled E (ro_userId obj) (ro_bundleName obj) (ro_uid obj) (ro_appIndex obj) c
             else if eventId = MSG_BUNDLE_INSTALLED then Core_OnBundleInstalled E (ro_uid obj) c
             else c)"

text \<open>The closures, when the queue runs them.\<close>

fun run_core_task ::
    "('d, 'w, 'g, 'q) core_env \<Rightarrow> core_task \<Rightarrow> ('d, 'w, 'g, 'q) core \<Rightarrow> ('d, 'w, 'g, 'q) core" where
  "run_core_task E (ReportTask eventId obj) c =
     (case GetBundleReportHandler c of
        None \<Rightarrow> c
      | Some h \<Rightarrow> if \<not> th_isInited h then c
          else on_report (Handler_finish eventId) (ReportHandler_ProcessEvent E eventId obj c))"
| "run_core_task E (ForgetUninstalled uid) c = forget_uninstalled uid c"
| "run_core_task E DataSizeTask c = ProcessDataSize E c"
| "run_core_task E ReportFileSizeTask c = ReportFileSizeDaily E c"

text \<open>A task of the group queue: the core's own, or one of the group controller.\<close>

definition run_group_queue_task ::
    "('d, 'w, 'g, 'q) core_env \<Rightarrow> group_task \<Rightarrow> ('d, 'w, 'g, 'q) core \<Rightarrow> ('d, 'w, 'g, 'q) core" where
  "run_group_queue_task E task c =
     (case task of
        NotifyTask callbackInfo \<Rightarrow> NotifOberserverGroupChanged E callbackInfo c
      | _ \<Rightarrow> on_groups E (run_group_task (ce_group E) task) c)"

section \<open>Common events, power and shutdown\<close>

text \<open>The intent of a common event: its action, its code, its integer parameters and the bundle.\<close>

record common_event =
  cv_action :: common_action
  cv_code :: int
  cv_params :: "string \<Rightarrow> int option"
  cv_bundleName :: string

definition GetIntParam :: "common_event \<Rightarrow> string \<Rightarrow> int \<Rightarrow> int" where
  "GetIntParam data key d = (case cv_params data key of Some i \<Rightarrow> i | None \<Rightarrow> d)"

definition HandleScreenEvent ::
    "('d, 'w, 'g, 'q) core_env \<Rightarrow> ('d, 'w, 'g, 'q) core \<Rightarrow> ('d, 'w, 'g, 'q) core" where
  "HandleScreenEvent E c =
     (case GetBundleGroupHandler (co_groups c) of
        None \<Rightarrow> c
      | Some _ \<Rightarrow> on_groups E (OnScreenChanged (ce_group E) (ge_screenOn (ce_group E)) (ce_bootTime E)) c)"

definition HandleUserRemoveEvent ::
    "('d, 'w, 'g, 'q) core_env \<Rightarrow> common_event \<Rightarrow> ('d, 'w, 'g, 'q) core \<Rightarrow> ('d, 'w, 'g, 'q) core" where
  "HandleUserRemoveEvent E data c =
     ReportHandler_SendEvent E MSG_REMOVE_USER (ReportObj_copy (ReportObj_new (cv_code data) '''')) 0 c"

definition HandleUserSwitchEvent ::
    "('d, 'w, 'g, 'q) core_env \<Rightarrow> common_event \<Rightarrow> ('d, 'w, 'g, 'q) core \<Rightarrow> ('d, 'w, 'g, 'q) core" where
  "HandleUserSwitchEvent E data c =
     ReportHandler_SendEvent E MSG_SWITCH_USER (ReportObj_copy (ReportObj_new (cv_code data) '''')) 0 c"

definition package_obj :: "common_event \<Rightarrow> report_obj" where
  "package_obj data = ReportObj_copy ((ReportObj_new (GetIntParam data ''userId'' 0) (cv_bundleName data))
     \<lparr> ro_uid := GetIntParam data ''uid'' (- 1), ro_appIndex := GetIntParam data ''appIndex'' (- 1) \<rparr>)"

definition HandlePackageRemoveEvent ::
    "('d, 'w, 'g, 'q) core_env \<Rightarrow> common_event \<Rightarrow> ('d, 'w, 'g, 'q) core \<Rightarrow> ('d, 'w, 'g, 'q) core" where
  "HandlePackageRemoveEvent E data c = ReportHandler_SendEvent E MSG_BUNDLE_UNINSTALLED (package_obj data) 0 c"

definition HandlePackageAddEvent ::
    "('d, 'w, 'g, 'q) core_env \<Rightarrow> common_event \<Rightarrow> ('d, 'w, 'g, 'q) core \<Rightarrow> ('d, 'w, 'g, 'q) core" where
  "HandlePackageAddEvent E data c = ReportHandler_SendEvent E MSG_BUNDLE_INSTALLED (package_obj data) 0 c"

definition HandleLockEvent ::
    "('d, 'w, 'g, 'q) core_env \<Rightarrow> common_event \<Rightarrow> ('d, 'w, 'g, 'q) core \<Rightarrow> ('d, 'w, 'g, 'q) core" where
  "HandleLockEvent E data c =
     (let eventId = (if cv_action data = UnlockScreen then SYSTEM_UNLOCK else SYSTEM_LOCK);
          obj = (ReportObj_new (- 1) '''') \<lparr> ro_userId := GetIntParam data ''userId'' 0,
            ro_event := Event_default \<lparr> ev_eventId := eventId, ev_timeStamp := ce_bootTime E \<rparr> \<rparr>
      in ReportHandler_SendEvent E MSG_REPORT_EVENT (ReportObj_copy obj) 0 c)"

definition OnReceiveEvent ::
    "('d, 'w, 'g, 'q) core_env \<Rightarrow> common_event \<Rightarrow> ('d, 'w, 'g, 'q) core \<Rightarrow> ('d, 'w, 'g, 'q) core" where
  "OnReceiveEvent E data c =
     (case cv_action data of
        ScreenOff \<Rightarrow> HandleScreenEvent E c
      | ScreenOn \<Rightarrow> HandleScreenEvent E c
      | UserRemoved \<Rightarrow> HandleUserRemoveEvent E data c
      | UserSwitched \<Rightarrow> HandleUserSwitchEvent E data c
      | PackageRemoved \<Rightarrow> HandlePackageRemoveEvent E data c
      | PackageFullyRemoved \<Rightarrow> HandlePackageRemoveEvent E data c
      | UnlockScreen \<Rightarrow> HandleLockEvent E data c
      | LockScreen \<Rightarrow> HandleLockEvent E data c
      | PackageAdded \<Rightarrow> HandlePackageAddEvent E data c
      | BundleRemoved \<Rightarrow> c
      | OtherAction \<Rightarrow> c)"

datatype power_state = Awake | Sleep | OtherPowerState

definition OnPowerStateChanged ::
    "('d, 'w, 'g, 'q) core_env \<Rightarrow> power_state \<Rightarrow> ('d, 'w, 'g, 'q) core \<Rightarrow> ('d, 'w, 'g, 'q) core" where
  "OnPowerStateChanged E state c =
     (case state of
        Awake \<Rightarrow> PreservePowerStateInfo E SYSTEM_WAKEUP c
      | Sleep \<Rightarrow> PreservePowerStateInfo E SYSTEM_SLEEP c
      | OtherPowerState \<Rightarrow> c)"

definition OnAsyncShutdown ::
    "('d, 'w, 'g, 'q) core_env \<Rightarrow> ('d, 'w, 'g, 'q) core \<Rightarrow> ('d, 'w, 'g, 'q) core" where
  "OnAsyncShutdown E c = Core_ShutDown E c"

section \<open>What an operation leaves alone\<close>

text \<open>The fields that no operation of a user service or of the group controller touches.\<close>

definition core_rest :: "('d, 'w, 'g, 'q) core \<Rightarrow> _" where
  "core_rest c = ((co_systemTimeShot c, co_realTimeShot c, co_currentUsedUser c, co_flushInterval c, co_debugCore c),
     (co_bundleUninstalledSet c, co_taskMap c, co_pool c), (co_groupChangeObservers c, co_recipientMap c),
     co_config c, co_reportIsInit c, co_fileSizeTaskSubmitted c, co_launchers c)"

lemma core_restD:
  assumes "core_rest c = core_rest c'"
  shows "co_systemTimeShot c = co_systemTimeShot c'" "co_realTimeShot c = co_realTimeShot c'"
    "co_currentUsedUser c = co_currentUsedUser c'" "co_flushInterval c = co_flushInterval c'"
    "co_debugCore c = co_debugCore c'" "co_bundleUninstalledSet c = co_bundleUninstalledSet c'"
    "co_taskMap c = co_taskMap c'" "co_pool c = co_pool c'"
    "co_groupChangeObservers c = co_groupChangeObservers c'" "co_recipientMap c = co_recipientMap c'"
    "co_config c = co_config c'" "co_reportIsInit c = co_reportIsInit c'"
    "co_fileSizeTaskSubmitted c = co_fileSizeTaskSubmitted c'" "co_launchers c = co_launchers c'"
  using assms by (simp_all add: core_rest_def)

lemma core_rest_update [simp]:
  "core_rest (c \<lparr> co_userStatServices := m \<rparr>) = core_rest c" "core_rest (c \<lparr> co_uids := um \<rparr>) = core_rest c"
  "core_rest (c \<lparr> co_world := w \<rparr>) = core_rest c" "core_rest (c \<lparr> co_groups := g \<rparr>) = core_rest c"
  "core_rest (c \<lparr> co_report := r \<rparr>) = core_rest c" "core_rest (c \<lparr> co_calls := cs \<rparr>) = core_rest c"
  by (simp_all add: core_rest_def)

lemma fold_keeps: "(\<And>x c. P (f x c) = P c) \<Longrightarrow> P (fold f xs c) = P c"
  by (induction xs arbitrary: c) simp_all

lemma on_report_rest [simp]: "core_rest (on_report f c) = core_rest c"
  by (simp add: on_report_def split: option.splits)

lemma ReportHandler_rest [simp]:
  "core_rest (ReportHandler_SendEvent E m ob d c) = core_rest c" "core_rest (ReportHandler_RemoveEvent E m c) = core_rest c"
  by (simp_all add: ReportHandler_SendEvent_def ReportHandler_RemoveEvent_def)

lemma OnAppGroupChanged_rest [simp]: "core_rest (Core_OnAppGroupChanged E i c) = core_rest c"
  by (simp add: Core_OnAppGroupChanged_def Let_def split: option.splits)

lemma OnAppGroupChanged_services [simp]:
  "co_userStatServices (Core_OnAppGroupChanged E i c) = co_userStatServices c"
  "co_uids (Core_OnAppGroupChanged E i c) = co_uids c" "co_report (Core_OnAppGroupChanged E i c) = co_report c"
  by (simp_all add: Core_OnAppGroupChanged_def Let_def split: option.splits)

lemma with_groups_rest [simp]:
  "core_rest (snd (with_groups E f c)) = core_rest c"
  "co_userStatServices (snd (with_groups E f c)) = co_userStatServices c"
  "co_uids (snd (with_groups E f c)) = co_uids c" "co_report (snd (with_groups E f c)) = co_report c"
  by (simp_all add: with_groups_def Let_def case_prod_beta fold_keeps)

lemma on_groups_rest [simp]:
  "core_rest (on_groups E f c) = core_rest c" "co_userStatServices (on_groups E f c) = co_userStatServices c"
  "co_uids (on_groups E f c) = co_uids c" "co_report (on_groups E f c) = co_report c"
  by (simp_all add: on_groups_def)

lemma OnStatsChanged_rest [simp]:
  "core_rest (Core_OnStatsChanged E u c) = core_rest c"
  "co_userStatServices (Core_OnStatsChanged E u c) = co_userStatServices c"
  "co_uids (Core_OnStatsChanged E u c) = co_uids c"
  by (simp_all add: Core_OnStatsChanged_def ReportHandler_SendEvent_def on_report_def split: option.splits)

lemma answer_notice_rest [simp]:
  "core_rest (answer_notice E n c) = core_rest c" "co_userStatServices (answer_notice E n c) = co_userStatServices c"
  "co_uids (answer_notice E n c) = co_uids c"
  by (cases n; simp add: Core_OnStatsReload_def)+

lemma with_service_rest [simp]: "core_rest (snd (with_service E u f c)) = core_rest c"
  by (simp add: with_service_def Let_def case_prod_beta fold_keeps split: option.splits)

lemma on_service_rest [simp]: "core_rest (on_service E u f c) = core_rest c"
  by (simp add: on_service_def)

text \<open>The report handler is never taken away: every operation on it answers one.\<close>

lemma handler_update [simp]:
  "GetBundleReportHandler (c \<lparr> co_userStatServices := m \<rparr>) = GetBundleReportHandler c"
  "GetBundleReportHandler (c \<lparr> co_uids := um \<rparr>) = GetBundleReportHandler c"
  "GetBundleReportHandler (c \<lparr> co_world := w \<rparr>) = GetBundleReportHandler c"
  by (simp_all add: GetBundleReportHandler_def)

lemma handler_stays_report: "(GetBundleReportHandler (on_report f c) = None) = (GetBundleReportHandler c = None)"
  by (auto simp: on_report_def GetBundleReportHandler_def split: option.splits)

lemma handler_stays_groups [simp]: "GetBundleReportHandler (on_groups E k c) = GetBundleReportHandler c"
  using core_restD(12) [OF on_groups_rest(1), of E k c] by (simp add: GetBundleReportHandler_def)

lemma handler_stays_changed:
  "(GetBundleReportHandler (Core_OnStatsChanged E u c) = None) = (GetBundleReportHandler c = None)"
proof (cases "GetBundleReportHandler c")
  case (Some h)
  show ?thesis
    unfolding Core_OnStatsChanged_def ReportHandler_SendEvent_def Some option.case
    by (cases "Handler_HasEvent MSG_FLUSH_TO_DISK h")
      (simp_all only: handler_stays_report Some if_True if_False not_True_eq_False not_False_eq_True)
qed (simp add: Core_OnStatsChanged_def)

lemma handler_stays_notices:
  "(GetBundleReportHandler (fold (answer_notice E) ns c) = None) = (GetBundleReportHandler c = None)"
proof (induction ns arbitrary: c)
  case (Cons n ns)
  then show ?case
    by (cases n) (simp_all add: Core_OnStatsReload_def handler_stays_changed)
qed simp

lemma handler_stays_service:
  "(GetBundleReportHandler (on_service E u f c) = None) = (GetBundleReportHandler c = None)"
  by (simp add: on_service_def with_service_def Let_def handler_stays_notices split: option.splits)

section \<open>The clock in step\<close>

definition clock_drift :: "('d, 'w, 'g, 'q) core_env \<Rightarrow> ('d, 'w, 'g, 'q) core \<Rightarrow> int" where
  "clock_drift E c = \<bar>ce_systemTime E - ((ce_bootTime E - co_realTimeShot c) + co_systemTimeShot c)\<bar>"

lemma CheckTime_cases:
  assumes "CheckTimeChangeAndGetWallTime E u c = (t, c')"
  shows "(ce_systemTime E = - 1 \<or> ce_bootTime E = - 1) \<and> time_failed t \<and> c' = c \<or>
    ce_systemTime E \<noteq> - 1 \<and> ce_bootTime E \<noteq> - 1 \<and> t = ce_systemTime E"
  using assms unfolding CheckTimeChangeAndGetWallTime_def Let_def time_failed_def
  by (auto split: if_splits option.splits)

lemma CheckTime_drift:
  assumes "CheckTimeChangeAndGetWallTime E u c = (t, c')" "ce_systemTime E \<noteq> - 1" "ce_bootTime E \<noteq> - 1"
    "GetBundleReportHandler c \<noteq> None"
  shows "t = ce_systemTime E \<and> clock_drift E c' \<le> TWO_SECONDS"
proof -
  have "t = ce_systemTime E"
    using CheckTime_cases [OF assms(1)] assms(2,3) by blast
  moreover have "c' = c \<and> clock_drift E c \<le> TWO_SECONDS \<or>
      co_realTimeShot c' = ce_bootTime E \<and> co_systemTimeShot c' = ce_systemTime E"
  proof -
    let ?c1 = "on_service E u (follow_time_change E ((ce_bootTime E - co_realTimeShot c) + co_systemTimeShot c)
      (ce_systemTime E)) c"
    obtain h where "GetBundleReportHandler ?c1 = Some h"
      using assms(4) handler_stays_service [of E u _ c] by (metis option.exhaust)
    then show ?thesis
      using assms(1-3) unfolding CheckTimeChangeAndGetWallTime_def Let_def clock_drift_def
      by (auto split: if_splits option.splits)
  qed
  ultimately show ?thesis
    by (auto simp: clock_drift_def)
qed

text \<open>C15: After the clock was checked the two time shots agree with the clocks up to two seconds, whatever
jump the system time made since the last check, and an event that is stamped with a boot time that is
over is not converted to a wall time more than two seconds ahead.\<close>

theorem clock_in_step:
  assumes "CheckTimeChangeAndGetWallTime E u c = (t, c')" "ce_systemTime E \<noteq> - 1" "ce_bootTime E \<noteq> - 1"
    "GetBundleReportHandler c \<noteq> None" "ev_timeStamp ev \<le> ce_bootTime E" "co_realTimeShot c' \<le> ce_bootTime E"
  shows "t = ce_systemTime E \<and> clock_drift E c' \<le> TWO_SECONDS \<and>
    co_systemTimeShot c' \<le> ev_timeStamp (ConvertToSystemTimeLocked c' ev) \<and>
    ev_timeStamp (ConvertToSystemTimeLocked c' ev) \<le> t + TWO_SECONDS"
  using CheckTime_drift [OF assms(1-4)] assms(5,6) by (auto simp: clock_drift_def ConvertToSystemTimeLocked_def)

definition demo_env :: "(unit, unit, nat \<times> (nat \<times> group_task \<times> int) list, nat \<times> (nat \<times> core_task \<times> int) list) core_env" where
  "demo_env = \<lparr> ce_usage = blank_usage_db, ce_newDatabase = (), ce_attach = (\<lambda>w d. ()), ce_detach = (\<lambda>d. ()),
     ce_group = group_demo_env \<lparr> ge_now := 5000 \<rparr>, ce_zone = utc_zero, ce_ffrt = list_queue,
     ce_bundleMgr = \<lparr> bm_info = (\<lambda>_ _. Some False), bm_infos = None \<rparr>, ce_bootTime = 900, ce_nowMicro = 5000000000, 
     ce_statfs = (\<lambda>_. Some \<lparr> fs_blocks = 1000, fs_bfree = 500, fs_bsize = 4096 \<rparr>),
     ce_dataFolder = (\<lambda>_. NoEntry), ce_tokenType = (\<lambda>_. TokenNative), ce_tokenUser = (\<lambda>_. 100),
     ce_sorter = stable_down \<rparr>"

definition demo_core :: "(unit, unit, nat \<times> (nat \<times> group_task \<times> int) list, nat \<times> (nat \<times> core_task \<times> int) list) core" where
  "demo_core = ReportController_Init (0, []) (Some (0, []))
     (Core_new False group_demo [] \<lparr> la_isInit = False, la_map = [] \<rparr> () (0, []))
       \<lparr> co_realTimeShot := 100, co_systemTimeShot := 40000 \<rparr>"

lemma demo_core_facts:
  "ce_systemTime demo_env = 5000000" "ce_bootTime demo_env = 900" "GetBundleReportHandler demo_core \<noteq> None"
  by (simp_all add: demo_env_def demo_core_def ce_systemTime_def GetSystemTimeMs_def GetBundleReportHandler_def
      ReportController_Init_def Core_new_def)

theorem clock_in_step_witness:
  "clock_drift demo_env (snd (CheckTimeChangeAndGetWallTime demo_env 100 demo_core)) \<le> TWO_SECONDS"
proof -
  let ?c = "snd (CheckTimeChangeAndGetWallTime demo_env 100 demo_core)"
  have "co_realTimeShot ?c \<le> ce_bootTime demo_env"
    by (simp add: CheckTimeChangeAndGetWallTime_def Let_def demo_core_facts)
      (simp add: demo_core_def ReportController_Init_def Core_new_def)
  then show ?thesis
    using clock_in_step [of demo_env 100 demo_core _ ?c Event_default, OF surjective_pairing] demo_core_facts
    by (simp add: Event_default_def)
qed

section \<open>Waiting for a clock\<close>

lemma wait_clock_step:
  "wait_clock clock n = (if clock n = (- 1, - 1) then wait_clock clock (Suc n) else Some (Suc n))"
  by (subst wait_clock.simps) (auto split: prod.splits)

lemma wait_clock_some:
  assumes "clock (n + k) \<noteq> (- 1, - 1)" "\<forall>j < k. clock (n + j) = (- 1, - 1)"
  shows "wait_clock clock n = Some (Suc (n + k))"
  using assms
proof (induction k arbitrary: n)
  case 0
  then show ?case by (subst wait_clock_step) simp
next
  case (Suc k)
  have "clock n = (- 1, - 1)"
    using Suc.prems(2) by force
  moreover have "\<forall>j < k. clock (Suc n + j) = (- 1, - 1)"
    using Suc.prems(2) by (metis Suc_less_eq add_Suc_shift)
  then have "wait_clock clock (Suc n) = Some (Suc (Suc n + k))"
    using Suc.IH [of "Suc n"] Suc.prems(1) by simp
  ultimately show ?case by (subst wait_clock_step) simp
qed

text \<open>C37: The start waits for a clock and no longer. If some reading of the two clocks is not a failure of
both, the start returns, and its time shots are the reading that follows the first such one, with the
configuration loaded and the thresholds within their limits.\<close>

theorem start_returns:
  assumes "clock k \<noteq> (- 1, - 1)" "\<forall>j < k. clock j = (- 1, - 1)"
  shows "\<exists>c'. Core_Init E clock F J c = Some c' \<and> (co_realTimeShot c', co_systemTimeShot c') = clock (Suc k) \<and>
    (\<exists>cfg. co_config c' = Some cfg \<and> config_ok cfg)"
proof -
  have "config_ok c' \<Longrightarrow> config_ok (fold (LoadConfigFile F J) fs c')" for fs c'
    by (induction fs arbitrary: c') (auto intro: LoadConfigFile_ok)
  then have "config_ok (LoadConfig F J ConfigReader_new)"
    by (auto simp: LoadConfig_def Let_def config_ok_def thresholds_ok_def INT32_MAX_def split: option.splits)
  then show ?thesis
    using wait_clock_some [of clock 0 k] assms
    by (simp add: Core_Init_def ReportFileSizeEvent_def SubmitDelayTask_def)
qed

theorem start_returns_witness:
  "\<exists>c'. Core_Init demo_env (\<lambda>n. if n < 2 then (- 1, - 1) else (int n, 7)) \<lparr> cf_paths = None, cf_realpath = (\<lambda>_. None),
     cf_load = (\<lambda>_. None) \<rparr> \<lparr> js_parse = (\<lambda>_. None :: unit option), js_item = (\<lambda>_ _. None), js_isObject = (\<lambda>_. False),
     js_isNumber = (\<lambda>_. False), js_valueint = (\<lambda>_. 0) \<rparr> demo_core = Some c' \<and> co_realTimeShot c' = 3"
  using start_returns [of "\<lambda>n. if n < 2 then (- 1, - 1) else (int n, 7)" 2 demo_env] by force

end
