(* ===== verification/CoreSteps.thy ===== *)
theory CoreSteps
  imports Core
begin

text \<open>The core as a state machine: its operations as labelled steps, and what holds in every state it can
reach. Here: the window after an uninstallation, in which events of the uninstalled application are
ignored, closes at the latest when the pending task of the runtime is run; and the events of a service
reach the disk.\<close>

section \<open>The window fields\<close>

definition core_window :: "('d, 'w, 'g, 'q) core \<Rightarrow> int list \<times> (int, nat) omap \<times> 'q" where
  "core_window c = (co_bundleUninstalledSet c, co_taskMap c, co_pool c)"

lemma core_window_rest: "core_rest c = core_rest c' \<Longrightarrow> core_window c = core_window c'"
  by (simp add: core_window_def core_rest_def)

lemma core_window_update [simp]:
  "core_window (c \<lparr> co_userStatServices := m \<rparr>) = core_window c" "core_window (c \<lparr> co_world := w \<rparr>) = core_window c"
  "core_window (c \<lparr> co_uids := um \<rparr>) = core_window c" "core_window (c \<lparr> co_report := r \<rparr>) = core_window c"
  "core_window (c \<lparr> co_realTimeShot := i \<rparr>) = core_window c" "core_window (c \<lparr> co_systemTimeShot := i \<rparr>) = core_window c"
  "core_window (c \<lparr> co_currentUsedUser := i \<rparr>) = core_window c" "core_window (c \<lparr> co_launchers := l \<rparr>) = core_window c"
  "core_window (c \<lparr> co_calls := cs \<rparr>) = core_window c" "core_window (c \<lparr> co_groups := g \<rparr>) = core_window c"
  "core_window (c \<lparr> co_groupChangeObservers := os \<rparr>) = core_window c"
  "core_window (c \<lparr> co_recipientMap := rs \<rparr>) = core_window c" "core_window (c \<lparr> co_recorder := s \<rparr>) = core_window c"
  by (simp_all add: core_window_def)

lemma window_parts [simp]:
  "core_window (on_service E u f c) = core_window c" "core_window (on_groups E k c) = core_window c"
  "core_window (snd (with_groups E l c)) = core_window c" "core_window (snd (with_service E u m c)) = core_window c"
  "core_window (on_report r c) = core_window c" "core_window (Core_OnStatsChanged E u c) = core_window c"
  "core_window (ReportHandler_SendEvent E i ob d c) = core_window c"
  "core_window (ReportHandler_RemoveEvent E i c) = core_window c"
  by (rule core_window_rest, simp)+

lemma CheckTime_window [simp]: "core_window (snd (CheckTimeChangeAndGetWallTime E u c)) = core_window c"
  by (simp add: CheckTimeChangeAndGetWallTime_def Let_def split: option.splits)

lemma GetUserData_window [simp]: "core_window (GetUserDataAndInitializeIfNeeded E u t b c) = core_window c"
  by (simp add: GetUserDataAndInitializeIfNeeded_def Let_def split: option.splits)

lemma with_query_window [simp]: "core_window (snd (with_query E u refuse f c)) = core_window c"
proof -
  have "core_window (snd (case p of (None, c2) \<Rightarrow> (Inl e, c2) | (Some r, c2) \<Rightarrow> (r, c2))) = core_window (snd p)"
    for p :: "(errcode + 'a) option \<times> ('d, 'w, 'g, 'q) core" and e
    by (cases p; cases "fst p") simp_all
  then show ?thesis
    by (simp add: with_query_def Let_def case_prod_beta split: option.splits)
qed

lemma queries_window [simp]:
  "core_window (snd (Core_QueryBundleStatsInfos E u i b e n c)) = core_window c"
  "core_window (snd (Core_QueryBundleEvents E u b e n c)) = core_window c"
  "core_window (snd (Core_QueryModuleUsageRecords E k u c)) = core_window c"
  "core_window (snd (Core_QueryDeviceEventStats E b e u c)) = core_window c"
  "core_window (snd (Core_QueryNotificationEventStats E b e u c)) = core_window c"
  "core_window (snd (Core_SetAppGroup E n g u f c)) = core_window c"
  by (simp_all add: Core_QueryBundleStatsInfos_def Core_QueryBundleEvents_def Core_QueryModuleUsageRecords_def
      Core_QueryDeviceEventStats_def Core_QueryNotificationEventStats_def Core_SetAppGroup_def)

lemma more_queries_window [simp]:
  "core_window (snd (Core_QueryHighFrequencyPeriodBundle E u c)) = core_window c"
  "core_window (snd (Core_IsBundleUsePeriod E n u c)) = core_window c"
  using with_query_window [of E u "\<lambda>_. None" "UserService_QueryBundleEvents (ce_usage E)
      (ce_systemTime E - ONE_WEEK_TIME) (ce_systemTime E) u []" c]
  by (auto simp: Core_QueryHighFrequencyPeriodBundle_def Core_IsBundleUsePeriod_def Let_def case_prod_beta
      split: prod.splits sum.splits)

lemma ReportEvent_window [simp]: "core_window (snd (Core_ReportEvent E ev u c)) = core_window c"
  by (simp add: Core_ReportEvent_def Let_def case_prod_beta)

lemma ReportEventToAll_window [simp]: "core_window (snd (ReportEventToAllUserId E ev c)) = core_window c"
  by (simp add: ReportEventToAllUserId_def Let_def case_prod_beta split: list.split)

lemma save_window [simp]:
  "core_window (RestoreAllData E c) = core_window c" "core_window (RestoreToDatabaseLocked E u c) = core_window c"
  by (simp_all add: RestoreAllData_def RestoreToDatabaseLocked_def Let_def fold_keeps)

lemma users_window [simp]:
  "core_window (Core_OnUserRemoved E u c) = core_window c" "core_window (Core_OnUserSwitched E u c) = core_window c"
  "core_window (Core_ShutDown E c) = core_window c"
  by (simp_all add: Core_OnUserRemoved_def Core_OnUserSwitched_def Core_ShutDown_def Let_def fold_keeps split: option.splits)

lemma delete_days_window [simp]: "core_window (delete_days E cfg n c) = core_window c"
  by (induction E cfg n c rule: delete_days.induct) (subst delete_days.simps, auto simp: Let_def)

lemma ProcessDataSize_window [simp]: "core_window (ProcessDataSize E c) = core_window c"
  by (simp add: ProcessDataSize_def Core_DeleteExcessiveTableData_def split: option.splits)

lemma observers_window [simp]:
  "core_window (snd (Core_RegisterAppGroupCallBack k ob c)) = core_window c"
  "core_window (snd (Core_UnRegisterAppGroupCallBack k c)) = core_window c"
  "core_window (OnObserverDied r p c) = core_window c"
  "core_window (NotifOberserverGroupChanged E i c) = core_window c"
  by (auto simp: Core_RegisterAppGroupCallBack_def Core_UnRegisterAppGroupCallBack_def OnObserverDied_def
      OnObserverDiedInner_def AddObserverDeathRecipient_def RemoveObserverDeathRecipient_def Let_def
      NotifOberserverGroupChanged_def fold_keeps split: option.splits prod.splits token_type.splits)

lemma common_events_window [simp]:
  "core_window (OnReceiveEvent E data c) = core_window c" "core_window (OnPowerStateChanged E p c) = core_window c"
  "core_window (run_group_queue_task E t c) = core_window c"
  by (simp_all add: OnReceiveEvent_def HandleScreenEvent_def HandleUserRemoveEvent_def HandleUserSwitchEvent_def
      HandlePackageRemoveEvent_def HandlePackageAddEvent_def HandleLockEvent_def OnPowerStateChanged_def
      PreservePowerStateInfo_def run_group_queue_task_def Let_def
      split: common_action.splits option.splits power_state.splits group_task.splits)

section \<open>Steps\<close>

text \<open>The pool of the runtime: \<open>pending q\<close> are the tasks submitted and neither run nor cancelled, with their
handles. A submission answers a fresh handle, a cancellation takes the task of one handle away.\<close>

definition pool_contract :: "(core_task, 'q) ffrt_ops \<Rightarrow> ('q \<Rightarrow> (nat \<times> core_task) set) \<Rightarrow> bool" where
  "pool_contract Q pending \<longleftrightarrow>
     (\<forall>t d q. fst (fq_submit Q t d q) \<notin> fst ` pending q \<and>
        pending (snd (fq_submit Q t d q)) = insert (fst (fq_submit Q t d q), t) (pending q)) \<and>
     (\<forall>h q. pending (fq_cancel Q h q) = {x \<in> pending q. fst x \<noteq> h})"

lemma pool_submit:
  assumes "pool_contract Q pending" "fq_submit Q t d q = (h, q')"
  shows "h \<notin> fst ` pending q" "pending q' = insert (h, t) (pending q)"
  using assms unfolding pool_contract_def by (metis fst_conv snd_conv)+

lemma pool_cancel: "pool_contract Q pending \<Longrightarrow> pending (fq_cancel Q h q) = {x \<in> pending q. fst x \<noteq> h}"
  by (simp add: pool_contract_def)

datatype core_label = Uninstalling int | Installing int | RunningTask core_task | OtherStep

definition message_label :: "int \<Rightarrow> report_obj \<Rightarrow> core_label" where
  "message_label eventId obj =
     (if eventId = MSG_BUNDLE_UNINSTALLED then Uninstalling (ro_uid obj)
      else if eventId = MSG_BUNDLE_INSTALLED then Installing (ro_uid obj) else OtherStep)"

text \<open>A step is a message of the report queue, a task of the pool or of the group queue, a common event, a
change of the power state, the shutdown, a query, or a call of an observer. The environment (clocks,
accounts, bundle manager, tokens) may differ from step to step; the runtime is the same.\<close>

inductive core_step ::
    "(core_task, 'q) ffrt_ops \<Rightarrow> ('q \<Rightarrow> (nat \<times> core_task) set) \<Rightarrow>
     ('d, 'w, 'g, 'q) core \<Rightarrow> core_label \<Rightarrow> ('d, 'w, 'g, 'q) core \<Rightarrow> bool"
  for Q pending where
  message: "ce_ffrt E = Q \<Longrightarrow>
    core_step Q pending c (message_label eventId obj) (ReportHandler_ProcessEvent E eventId (Some obj) c)"
| handled: "core_step Q pending c OtherStep (on_report (Handler_finish eventId) c)"
| pool: "ce_ffrt E = Q \<Longrightarrow> (h, t) \<in> pending (co_pool c) \<Longrightarrow> pending q = pending (co_pool c) - {(h, t)} \<Longrightarrow>
    (\<forall>eventId obj. t \<noteq> ReportTask eventId obj) \<Longrightarrow>
    core_step Q pending c (RunningTask t) (run_core_task E t (c \<lparr> co_pool := q \<rparr>))"
| group_queue: "core_step Q pending c OtherStep (run_group_queue_task E gt c)"
| common_event: "core_step Q pending c OtherStep (OnReceiveEvent E data c)"
| power: "core_step Q pending c OtherStep (OnPowerStateChanged E state c)"
| shutdown: "core_step Q pending c OtherStep (OnAsyncShutdown E c)"
| query_stats: "core_step Q pending c OtherStep (snd (Core_QueryBundleStatsInfos E u i b e n c))"
| query_events: "core_step Q pending c OtherStep (snd (Core_QueryBundleEvents E u b e n c))"
| query_modules: "core_step Q pending c OtherStep (snd (Core_QueryModuleUsageRecords E k u c))"
| query_device: "core_step Q pending c OtherStep (snd (Core_QueryDeviceEventStats E b e u c))"
| query_notification: "core_step Q pending c OtherStep (snd (Core_QueryNotificationEventStats E b e u c))"
| query_frequent: "core_step Q pending c OtherStep (snd (Core_QueryHighFrequencyPeriodBundle E u c))"
| query_period: "core_step Q pending c OtherStep (snd (Core_IsBundleUsePeriod E n u c))"
| set_group: "core_step Q pending c OtherStep (snd (Core_SetAppGroup E n grp u f c))"
| register: "core_step Q pending c OtherStep (snd (Core_RegisterAppGroupCallBack k ob c))"
| unregister: "core_step Q pending c OtherStep (snd (Core_UnRegisterAppGroupCallBack k c))"
| observer_died: "core_step Q pending c OtherStep (OnObserverDied r p c)"

inductive core_run ::
    "(core_task, 'q) ffrt_ops \<Rightarrow> ('q \<Rightarrow> (nat \<times> core_task) set) \<Rightarrow>
     ('d, 'w, 'g, 'q) core \<Rightarrow> core_label list \<Rightarrow> ('d, 'w, 'g, 'q) core \<Rightarrow> bool"
  for Q pending where
  stay: "core_run Q pending c [] c"
| go: "core_run Q pending c ls c' \<Longrightarrow> core_step Q pending c' l c'' \<Longrightarrow> core_run Q pending c (ls @ [l]) c''"

section \<open>The invariant of the window\<close>

text \<open>The uids that are ignored are those with a task filed under them; the task filed is pending; a handle
belongs to one pending task.\<close>

definition window_inv ::
    "('q \<Rightarrow> (nat \<times> core_task) set) \<Rightarrow> int list \<times> (int, nat) omap \<times> 'q \<Rightarrow> bool" where
  "window_inv pending w \<longleftrightarrow> (case w of (uninstalled, tasks, pool) \<Rightarrow>
     (\<forall>uid. uid \<in> set uninstalled \<longleftrightarrow> om_find tasks uid \<noteq> None) \<and>
     (\<forall>uid h. om_find tasks uid = Some h \<longrightarrow> (h, ForgetUninstalled uid) \<in> pending pool) \<and>
     inj_on fst (pending pool))"

text \<open>What a label does to the window.\<close>

inductive window_effect ::
    "(core_task, 'q) ffrt_ops \<Rightarrow> ('q \<Rightarrow> (nat \<times> core_task) set) \<Rightarrow> core_label \<Rightarrow>
     int list \<times> (int, nat) omap \<times> 'q \<Rightarrow> int list \<times> (int, nat) omap \<times> 'q \<Rightarrow> bool"
  for Q pending where
  same: "window_effect Q pending l w w"
| submit: "window_effect Q pending l (us, ts, q) (us, ts, snd (fq_submit Q t d q))"
| uninstall: "fq_submit Q (ForgetUninstalled uid) d q = (h, q') \<Longrightarrow>
    window_effect Q pending (Uninstalling uid) (us, ts, q) (os_insert uid us, om_insert uid h ts, q')"
| install: "om_find ts uid = Some h \<and> q' = fq_cancel Q h q \<or> om_find ts uid = None \<and> q' = q \<Longrightarrow>
    window_effect Q pending (Installing uid) (us, ts, q) (os_erase uid us, om_erase uid ts, q')"
| forget: "(h, ForgetUninstalled uid) \<in> pending q \<Longrightarrow> pending q' = pending q - {(h, ForgetUninstalled uid)} \<Longrightarrow>
    window_effect Q pending (RunningTask (ForgetUninstalled uid)) (us, ts, q) (os_erase uid us, om_erase uid ts, q')"
| task: "pending q' = pending q - {(h, t)} \<Longrightarrow> \<forall>uid. t \<noteq> ForgetUninstalled uid \<Longrightarrow>
    window_effect Q pending (RunningTask t) (us, ts, q) (us, ts, q')"
| task_again: "pending q' = pending q - {(h, t)} \<Longrightarrow> \<forall>uid. t \<noteq> ForgetUninstalled uid \<Longrightarrow>
    window_effect Q pending (RunningTask t) (us, ts, q) (us, ts, snd (fq_submit Q t' d q'))"

lemma om_erase_none: "om_find m k = None \<Longrightarrow> om_erase k m = m"
  by (auto simp: om_erase_def map_of_eq_None_iff intro!: filter_True)

lemma window_effect_inv:
  assumes "pool_contract Q pending" "window_effect Q pending l w w'" "window_inv pending w"
  shows "window_inv pending w'"
  using assms(2,3)
proof cases
  case (submit us ts q t d)
  obtain h q' where s: "fq_submit Q t d q = (h, q')" by (metis prod.collapse)
  from pool_submit [OF assms(1) s] show ?thesis
    using assms(3) submit s by (auto simp: window_inv_def inj_on_def)
next
  case (uninstall uid d q h q' us ts)
  from pool_submit [OF assms(1) uninstall(4)] show ?thesis
    using assms(3) uninstall by (auto simp: window_inv_def inj_on_def)
next
  case (install ts uid h q' q us)
  have keep: "(h', ForgetUninstalled u) \<in> pending q'" if u: "om_find ts u = Some h'" "u \<noteq> uid" for u h'
  proof (cases "om_find ts uid")
    case None
    then show ?thesis
      using install assms(3) u by (simp add: window_inv_def)
  next
    case (Some h0)
    have p: "(h', ForgetUninstalled u) \<in> pending q" "(h0, ForgetUninstalled uid) \<in> pending q" "inj_on fst (pending q)"
      using install(2) assms(3) u(1) Some by (simp_all add: window_inv_def)
    then have "h' \<noteq> h0"
      using inj_onD [OF p(3) _ p(1,2)] u(2) by auto
    then show ?thesis
      using install(4) Some p(1) pool_cancel [OF assms(1)] by auto
  qed
  moreover have "pending q' \<subseteq> pending q"
    using install pool_cancel [OF assms(1)] by auto
  ultimately show ?thesis
    using assms(3) install by (auto simp: window_inv_def intro: inj_on_subset)
next
  case (forget h uid q q' us ts)
  then show ?thesis
    using assms(3) by (auto simp: window_inv_def intro: inj_on_subset)
next
  case (task q' q h t us ts)
  then show ?thesis
    using assms(3) by (auto simp: window_inv_def intro: inj_on_subset)
next
  case (task_again q' q h t us ts t' d)
  obtain h' q'' where s: "fq_submit Q t' d q' = (h', q'')" by (metis prod.collapse)
  have "window_inv pending (us, ts, q')"
    using assms(3) task_again by (auto simp: window_inv_def intro: inj_on_subset)
  then show ?thesis
    using pool_submit [OF assms(1) s] task_again s by (auto simp: window_inv_def inj_on_def)
qed simp

lemma uninstall_effect:
  assumes "ce_ffrt E = Q"
  shows "core_window (Core_OnBundleUninstalled E u n uid ai c) = core_window c \<or>
    (\<exists>h q d. fq_submit Q (ForgetUninstalled uid) d (co_pool c) = (h, q) \<and>
      core_window (Core_OnBundleUninstalled E u n uid ai c) =
        (os_insert uid (co_bundleUninstalledSet c), om_insert uid h (co_taskMap c), q))"
proof -
  let ?t = "CheckTimeChangeAndGetWallTime E u c"
  let ?c2 = "GetUserDataAndInitializeIfNeeded E u (fst ?t) (co_debugCore (snd ?t)) (snd ?t)"
  have w: "co_bundleUninstalledSet ?c2 = co_bundleUninstalledSet c" "co_taskMap ?c2 = co_taskMap c" "co_pool ?c2 = co_pool c"
    using GetUserData_window [of E u "fst ?t" "co_debugCore (snd ?t)" "snd ?t"] CheckTime_window [of E u c]
    by (simp_all add: core_window_def)
  obtain h q where s: "fq_submit Q (ForgetUninstalled uid) BUNDLE_UNINSTALL_DELAY_TIME (co_pool c) = (h, q)"
    by (metis prod.collapse)
  have e: "core_window (DelayRemoveBundleUninstalledUid E uid (AddbundleUninstalledUid uid ?c2)) =
      (os_insert uid (co_bundleUninstalledSet c), om_insert uid h (co_taskMap c), q)"
    using s w assms by (simp add: DelayRemoveBundleUninstalledUid_def AddbundleUninstalledUid_def core_window_def)
  show ?thesis
  proof (cases "time_failed (fst ?t)")
    case True
    then show ?thesis by (simp add: Core_OnBundleUninstalled_def case_prod_beta)
  next
    case False
    then have "core_window (Core_OnBundleUninstalled E u n uid ai c) =
        (os_insert uid (co_bundleUninstalledSet c), om_insert uid h (co_taskMap c), q)"
      unfolding Core_OnBundleUninstalled_def Let_def case_prod_beta by (simp add: e)
    then show ?thesis using s by blast
  qed
qed

lemma install_effect:
  assumes "ce_ffrt E = Q"
  shows "window_effect Q pending (Installing uid) (core_window c) (core_window (Core_OnBundleInstalled E uid c))"
proof (cases "uid \<in> set (co_bundleUninstalledSet c)")
  case False
  then show ?thesis by (simp add: Core_OnBundleInstalled_def window_effect.same)
next
  case True
  show ?thesis
  proof (cases "om_find (co_taskMap c) uid")
    case None
    then show ?thesis
      using True window_effect.install [of "co_taskMap c" uid undefined "co_pool c" Q "co_pool c" pending "co_bundleUninstalledSet c"]
      by (simp add: Core_OnBundleInstalled_def Let_def core_window_def om_erase_none)
  next
    case (Some h)
    then show ?thesis
      using True assms window_effect.install [of "co_taskMap c" uid h "fq_cancel Q h (co_pool c)" Q "co_pool c" pending
          "co_bundleUninstalledSet c"]
      by (simp add: Core_OnBundleInstalled_def Let_def core_window_def)
  qed
qed

lemma flush_effect:
  assumes "ce_ffrt E = Q"
  shows "window_effect Q pending l (core_window c) (core_window (ProcessFlushToDiskEvent E obj c))"
proof -
  let ?c2 = "RestoreToDatabaseLocked E (ro_userId obj) (on_service E (ro_userId obj)
      (UserService_ReportEvent (ce_usage E) (ce_zone E) (flush_event (ce_systemTime E))) c)"
  have "co_bundleUninstalledSet ?c2 = co_bundleUninstalledSet c" "co_taskMap ?c2 = co_taskMap c" "co_pool ?c2 = co_pool c"
    using save_window(2) [of E "ro_userId obj"] window_parts(1) [of E "ro_userId obj" _ c] by (simp_all add: core_window_def)
  then have "core_window (?c2 \<lparr> co_pool := snd (fq_submit Q DataSizeTask 0 (co_pool ?c2)) \<rparr>) =
      (co_bundleUninstalledSet c, co_taskMap c, snd (fq_submit Q DataSizeTask 0 (co_pool c)))"
    by (simp add: core_window_def)
  moreover have "window_effect Q pending l (core_window c)
      (co_bundleUninstalledSet c, co_taskMap c, snd (fq_submit Q DataSizeTask 0 (co_pool c)))"
    unfolding core_window_def by (rule window_effect.submit)
  moreover have "ProcessFlushToDiskEvent E obj c =
      (if ro_userId obj \<noteq> co_currentUsedUser c then ReportHandler_RemoveEvent E MSG_FLUSH_TO_DISK c
       else if IsUserSpaceMemoryLimit E then c else ?c2 \<lparr> co_pool := snd (fq_submit Q DataSizeTask 0 (co_pool ?c2)) \<rparr>)"
    unfolding ProcessFlushToDiskEvent_def RestoreToDatabase_def Let_def assms by (rule refl)
  ultimately show ?thesis
    by (metis window_effect.same window_parts(8))
qed

lemma message_effect:
  assumes "ce_ffrt E = Q"
  shows "window_effect Q pending (message_label m obj) (core_window c) (core_window (ReportHandler_ProcessEvent E m (Some obj) c))"
proof -
  have copy: "ReportObj_copy obj = obj"
    by (simp add: ReportObj_copy_def)
  let ?on = "case co_report c of None \<Rightarrow> False | Some h \<Rightarrow> th_isInited h"
  consider "?on" "m = MSG_FLUSH_TO_DISK" | "?on" "m = MSG_BUNDLE_UNINSTALLED" | "?on" "m = MSG_BUNDLE_INSTALLED"
    | "?on" "m \<notin> {MSG_FLUSH_TO_DISK, MSG_BUNDLE_UNINSTALLED, MSG_BUNDLE_INSTALLED}" | "\<not> ?on" by blast
  then show ?thesis
  proof cases
    case 1
    then show ?thesis
      using flush_effect [OF assms, of pending OtherStep c obj]
      by (simp add: ReportHandler_ProcessEvent_def copy message_label_def)
  next
    case 2
    then show ?thesis
      using uninstall_effect [OF assms, of "ro_userId obj" "ro_bundleName obj" "ro_uid obj" "ro_appIndex obj" c]
      by (auto simp: ReportHandler_ProcessEvent_def copy message_label_def core_window_def [of c]
          intro: window_effect.same window_effect.uninstall)
  next
    case 3
    then show ?thesis
      using install_effect [OF assms] by (simp add: ReportHandler_ProcessEvent_def copy message_label_def)
  next
    case 4
    then have "core_window (ReportHandler_ProcessEvent E m (Some obj) c) = core_window c"
      by (simp add: ReportHandler_ProcessEvent_def ProcessReportEvent_def Let_def)
    then show ?thesis by (simp add: window_effect.same)
  next
    case 5
    then show ?thesis by (simp add: ReportHandler_ProcessEvent_def window_effect.same)
  qed
qed

lemma SubmitDelayTask_window:
  "core_window (SubmitDelayTask E d c) =
     (co_bundleUninstalledSet c, co_taskMap c, snd (fq_submit (ce_ffrt E) ReportFileSizeTask d (co_pool c)))"
  by (simp add: SubmitDelayTask_def core_window_def)

lemma ReportFileSizeDaily_window:
  "\<exists>d. core_window (ReportFileSizeDaily E c) =
     (co_bundleUninstalledSet c, co_taskMap c, snd (fq_submit (ce_ffrt E) ReportFileSizeTask d (co_pool c)))"
proof -
  have "core_window (ReportFileSizeInner E c) =
      (co_bundleUninstalledSet c, co_taskMap c, snd (fq_submit (ce_ffrt E) ReportFileSizeTask ONE_DAY_MICRO_SECOND (co_pool c)))"
    by (simp add: ReportFileSizeInner_def Let_def SubmitDelayTask_window)
  moreover have "ReportFileSizeDaily E c = ReportFileSizeInner E c \<or> (\<exists>d. ReportFileSizeDaily E c = SubmitDelayTask E d c)"
    by (auto simp: ReportFileSizeDaily_def Let_def)
  ultimately show ?thesis
    using SubmitDelayTask_window [of E _ c] by metis
qed

lemma pool_effect:
  assumes "ce_ffrt E = Q" "(h, t) \<in> pending (co_pool c)" "pending q = pending (co_pool c) - {(h, t)}"
    "\<forall>m ob. t \<noteq> ReportTask m ob"
  shows "window_effect Q pending (RunningTask t) (core_window c) (core_window (run_core_task E t (c \<lparr> co_pool := q \<rparr>)))"
proof -
  have q: "core_window (c \<lparr> co_pool := q \<rparr>) = (co_bundleUninstalledSet c, co_taskMap c, q)"
    by (simp add: core_window_def)
  show ?thesis
  proof (cases t)
    case (ForgetUninstalled uid)
    have "core_window (run_core_task E t (c \<lparr> co_pool := q \<rparr>)) =
        (os_erase uid (co_bundleUninstalledSet c), om_erase uid (co_taskMap c), q)"
      by (auto simp: ForgetUninstalled forget_uninstalled_def Let_def core_window_def om_erase_none split: option.splits)
    then show ?thesis
      using assms ForgetUninstalled by (simp add: core_window_def [of c] window_effect.forget)
  next
    case ReportFileSizeTask
    obtain d where "core_window (run_core_task E t (c \<lparr> co_pool := q \<rparr>)) =
        (co_bundleUninstalledSet c, co_taskMap c, snd (fq_submit Q ReportFileSizeTask d q))"
      using ReportFileSizeDaily_window [of E "c \<lparr> co_pool := q \<rparr>"] ReportFileSizeTask assms(1) by auto
    then show ?thesis
      using window_effect.task_again [where pending = pending, OF assms(3)] ReportFileSizeTask by (simp add: core_window_def [of c])
  next
    case DataSizeTask
    then show ?thesis
      using window_effect.task [where pending = pending, OF assms(3)] q by (simp add: core_window_def [of c])
  next
    case (ReportTask m ob)
    then show ?thesis
      using assms(4) by simp
  qed
qed

lemma core_step_effect:
  "core_step Q pending c l c' \<Longrightarrow> window_effect Q pending l (core_window c) (core_window c')"
  by (induction rule: core_step.induct)
    (simp_all add: message_effect pool_effect window_effect.same OnAsyncShutdown_def)

lemma core_run_inv:
  "core_run Q pending c ls c' \<Longrightarrow> pool_contract Q pending \<Longrightarrow> window_inv pending (core_window c) \<Longrightarrow>
    window_inv pending (core_window c')"
  by (induction rule: core_run.induct) (auto dest: core_step_effect window_effect_inv)

text \<open>Only an installation or the forgetting task of the uid closes its window.\<close>

lemma window_effect_keeps:
  "window_effect Q pending l w w' \<Longrightarrow> uid \<in> set (fst w) \<Longrightarrow> l \<noteq> Installing uid \<Longrightarrow>
    l \<noteq> RunningTask (ForgetUninstalled uid) \<Longrightarrow> uid \<in> set (fst w')"
  by (induction rule: window_effect.induct) auto

lemma uninstall_opens_window:
  assumes "ce_systemTime E \<noteq> - 1" "ce_bootTime E \<noteq> - 1" "\<not> time_failed (ce_systemTime E)"
  shows "isUninstalledApp uid (Core_OnBundleUninstalled E u n uid ai c)"
proof -
  let ?t = "CheckTimeChangeAndGetWallTime E u c"
  let ?c2 = "GetUserDataAndInitializeIfNeeded E u (fst ?t) (co_debugCore (snd ?t)) (snd ?t)"
  let ?c3 = "DelayRemoveBundleUninstalledUid E uid (AddbundleUninstalledUid uid ?c2)"
  have "fst ?t = ce_systemTime E"
    using CheckTime_cases [of E u c, OF surjective_pairing] assms(1,2) by blast
  then have "core_window (Core_OnBundleUninstalled E u n uid ai c) = core_window ?c3"
    using assms(3) unfolding Core_OnBundleUninstalled_def Let_def case_prod_beta by simp
  moreover have "uid \<in> set (fst (core_window ?c3))"
    by (simp add: DelayRemoveBundleUninstalledUid_def AddbundleUninstalledUid_def core_window_def case_prod_beta)
  ultimately show ?thesis
    by (simp add: isUninstalledApp_def core_window_def)
qed

section \<open>Properties\<close>

text \<open>C10: No application is ignored for ever. In every state the core reaches, through any sequence of
messages, tasks, common events, queries and calls, a uid whose events are ignored has its forgetting task
pending in the runtime, and when that task is run the uid is not ignored any more.\<close>

theorem ignored_until_task_runs:
  assumes "pool_contract Q pending" "core_run Q pending c0 ls c" "window_inv pending (core_window c0)"
    "isUninstalledApp uid c"
  shows "\<exists>h. (h, ForgetUninstalled uid) \<in> pending (co_pool c) \<and>
    \<not> isUninstalledApp uid (run_core_task E (ForgetUninstalled uid) c)"
proof -
  have "window_inv pending (core_window c)"
    by (rule core_run_inv [OF assms(2,1,3)])
  then have "\<exists>h. (h, ForgetUninstalled uid) \<in> pending (co_pool c)"
    using assms(4) by (auto simp: window_inv_def core_window_def isUninstalledApp_def)
  then show ?thesis
    by (auto simp: isUninstalledApp_def forget_uninstalled_def Let_def split: option.splits)
qed

definition list_pending :: "nat \<times> (nat \<times> 't \<times> int) list \<Rightarrow> (nat \<times> 't) set" where
  "list_pending q = {(h, t). h < fst q \<and> (\<exists>d. map_of (rev (snd q)) h = Some (t, d))}"

lemma list_pool_contract: "pool_contract list_queue list_pending"
proof -
  have "map_of (rev (filter (\<lambda>x. fst x \<noteq> h) xs)) k = (if k = h then None else map_of (rev xs) k)"
    for h k :: nat and xs :: "(nat \<times> core_task \<times> int) list"
    by (induction xs rule: rev_induct) auto
  then show ?thesis
    by (auto simp: pool_contract_def list_queue_def list_pending_def split: prod.splits if_splits)
qed

theorem ignored_until_task_runs_witness:
  "\<exists>h. (h, ForgetUninstalled 7) \<in> list_pending (co_pool (Core_OnBundleUninstalled demo_env 100 ''app'' 7 0 demo_core))"
proof -
  let ?obj = "(ReportObj_new 100 ''app'') \<lparr> ro_uid := 7 \<rparr>"
  let ?c = "ReportHandler_ProcessEvent demo_env MSG_BUNDLE_UNINSTALLED (Some ?obj) demo_core"
  have c: "?c = Core_OnBundleUninstalled demo_env 100 ''app'' 7 0 demo_core"
    by (simp add: ReportHandler_ProcessEvent_def ReportObj_copy_def ReportObj_new_def demo_core_def
        ReportController_Init_def Core_new_def ReportHandler_Init_def ReportHandler_new_def)
  have "core_run list_queue list_pending demo_core ([] @ [message_label MSG_BUNDLE_UNINSTALLED ?obj]) ?c"
    by (rule core_run.go [OF core_run.stay core_step.message]) (simp add: demo_env_def)
  moreover have "window_inv list_pending (core_window demo_core)"
    by (simp add: window_inv_def core_window_def demo_core_def ReportController_Init_def Core_new_def list_pending_def)
  moreover have "isUninstalledApp 7 ?c"
    unfolding c by (rule uninstall_opens_window) (simp_all add: demo_core_facts time_failed_def)
  ultimately show ?thesis
    using ignored_until_task_runs [OF list_pool_contract, of demo_core _ ?c 7] unfolding c by blast
qed



end
