(* ===== verification/CoreUsers.thy ===== *)
theory CoreUsers
  imports CoreSteps
begin

text \<open>The core between the users and the disk: a change of the statistics leaves a message that will write
them, an event reaches the service of one user only, the loop that makes room on the disk ends, and the
observers of group changes. The lemmas at the end show what the core does not do: an uninstallation by
one user forgets the uids of the bundle for all of them, a flush that is skipped for want of space is not
tried again, and a shutdown reaches the statistics of one user only.\<close>

section \<open>Changes are written\<close>

text \<open>A service that has changed has told its listener so since it was last saved.\<close>

definition told :: "'d user_service \<Rightarrow> bool" where
  "told s \<longleftrightarrow> (us_statsChanged s \<longrightarrow> (\<exists>u. OnStatsChanged u \<in> set (us_notices s)))"

lemma on_period_told [simp]:
  "us_statsChanged (on_period i f s) = us_statsChanged s" "us_notices (on_period i f s) = us_notices s"
  by (simp_all add: on_period_def split: option.splits prod.splits)

lemma each_period_told [simp]:
  "us_statsChanged (each_period f s) = us_statsChanged s" "us_notices (each_period f s) = us_notices s"
  unfolding each_period_def by (rule fold_fields, simp)+

lemma NotifyStatsChanged_told: "told s \<Longrightarrow> told (NotifyStatsChanged s) \<and> us_statsChanged (NotifyStatsChanged s)"
  by (auto simp: told_def NotifyStatsChanged_def)

lemma ReportModuleEvent_told: "told s \<Longrightarrow> told (ReportModuleEvent ev s)"
  by (auto simp: ReportModuleEvent_def GetOrCreateModuleRecord_def Let_def NotifyStatsChanged_def told_def
      split: option.splits)

lemma RestoreStats_forced: "us_statsChanged (RestoreStats D True s) = False"
  by (simp add: RestoreStats_def Let_def)

lemma RenewStats_told: "told (RenewStatsInMemory D z t s)"
  by (simp add: RenewStatsInMemory_def Let_def told_def RestoreStats_forced split: prod.splits)

text \<open>The day's statistics stay there.\<close>

definition has_day :: "'d user_service \<Rightarrow> bool" where
  "has_day s \<longleftrightarrow> us_period s 0 \<noteq> None"

lemma has_day_on_period [simp]: "has_day (on_period i f s) = has_day s"
  by (auto simp: has_day_def on_period_def us_period_def nth_list_update split: option.splits prod.splits)

lemma has_day_each_period [simp]: "has_day (each_period f s) = has_day s"
  unfolding each_period_def by (rule fold_fields) simp

lemma has_day_update [simp]:
  "has_day (s \<lparr> us_statsChanged := b \<rparr>) = has_day s" "has_day (s \<lparr> us_notices := n \<rparr>) = has_day s"
  "has_day (s \<lparr> us_database := d \<rparr>) = has_day s" "has_day (s \<lparr> us_uids := um \<rparr>) = has_day s"
  "has_day (s \<lparr> us_dailyExpiryDate := e \<rparr>) = has_day s" "has_day (s \<lparr> us_moduleRecords := m \<rparr>) = has_day s"
  "has_day (s \<lparr> us_lastForegroundBundle := l \<rparr>) = has_day s" "has_day (NotifyStatsChanged s) = has_day s"
  by (simp_all add: has_day_def us_period_def NotifyStatsChanged_def)

lemma has_day_save_period [simp]: "has_day (save_period D i s) = has_day s"
  by (auto simp: save_period_def has_day_def us_period_def nth_list_update Let_def split: option.splits prod.splits)

lemma has_day_RestoreStats [simp]: "has_day (RestoreStats D b s) = has_day s"
  using fold_fields [of has_day "save_period D" "[0..<length (us_currentStats s)]" s]
  by (simp add: RestoreStats_def Let_def)

lemma has_day_flush_record: "has_day (snd (flush_record i k cs)) = has_day (snd cs)"
  by (simp add: flush_record_def Let_def split: option.splits prod.splits)

lemma has_day_flush_period: "has_day (snd (flush_period i cs)) = has_day (snd cs)"
proof (cases "us_period (snd cs) i")
  case (Some p)
  have "has_day (snd (fold (flush_record i) ks cs)) = has_day (snd cs)" for ks
    by (rule fold_fields [of "\<lambda>cs. has_day (snd cs)"]) (rule has_day_flush_record)
  then show ?thesis
    using Some by (simp add: flush_period_def case_prod_beta)
qed (simp add: flush_period_def)

lemma has_day_FlushDataInMem: "has_day (snd (FlushDataInMem s)) = has_day s"
  unfolding FlushDataInMem_def
  by (subst fold_fields [of "\<lambda>cs. has_day (snd cs)"]) (simp_all add: has_day_flush_period)

lemma has_day_load_period: "has_day s \<Longrightarrow> has_day (load_period D z t f i s)"
  by (auto simp: load_period_def Let_def has_day_def us_period_def nth_list_update split: prod.splits)

lemma has_day_LoadActiveStats: "has_day s \<Longrightarrow> has_day (LoadActiveStats D z t f tc s)"
proof -
  assume "has_day s"
  then have "has_day (fold (load_period D z t f) [0..<length (us_periodLength s)] s)"
    by (rule fold_inv [rotated]) (rule has_day_load_period)
  then show ?thesis
    by (simp add: LoadActiveStats_def UpdateExpiryDate_def Let_def)
qed

lemma has_day_RenewStats:
  assumes "has_day s"
  shows "has_day (RenewStatsInMemory D z t s)"
proof -
  obtain c s1 where f: "FlushDataInMem s = (c, s1)" by fastforce
  have "has_day (fold (continue_bundle c) bs s2) = has_day s2" for bs and s2 :: "'a user_service"
    by (rule fold_fields) (simp add: continue_bundle_def Let_def)
  then show ?thesis
    using has_day_FlushDataInMem [of s] f assms by (simp add: RenewStatsInMemory_def has_day_LoadActiveStats Let_def)
qed

lemma has_day_ReportModuleEvent [simp]: "has_day (ReportModuleEvent ev s) = has_day s"
  by (simp add: ReportModuleEvent_def GetOrCreateModuleRecord_def Let_def split: option.splits)

lemma report_is_told:
  assumes "told s" "has_day s" "ev_eventId ev \<noteq> FLUSH"
  shows "\<exists>u. OnStatsChanged u \<in> set (us_notices (UserService_ReportEvent D z ev s))"
proof -
  define s1 where "s1 = (if ev_timeStamp ev \<ge> GetMilliseconds (us_dailyExpiryDate s)
    then RenewStatsInMemory D z (ev_timeStamp ev) s else s)"
  have s1: "told s1" "us_period s1 0 \<noteq> None"
    using assms RenewStats_told [of D z "ev_timeStamp ev" s] has_day_RenewStats [OF assms(2), of D z "ev_timeStamp ev"]
    by (simp_all add: has_day_def s1_def)
  define s2 where "s2 = (if ev_eventId ev \<noteq> SYSTEM_INTERACTIVE \<and> ev_eventId ev \<noteq> FLUSH
    then on_period 0 (\<lambda>(p, um). (PeriodStats_AddEvent ev p, um)) s1 else s1)"
  have s2: "told s2"
    using s1(1) by (simp add: told_def s2_def)
  have upd: "\<exists>u. OnStatsChanged u \<in> set (us_notices (UpdatePeriodStats ev b s'))"
    if "told s'" for b and s' :: "'a user_service"
    using NotifyStatsChanged_told [of "each_period (update_period_stats ev b) s'"] assms(3) that
    by (simp add: UpdatePeriodStats_def Let_def told_def)
  have l: "told (s2 \<lparr> us_lastForegroundBundle := n \<rparr>)" for n
    using s2 by (simp add: told_def)
  obtain p where "us_period s1 0 = Some p"
    using s1(2) by blast
  then show ?thesis
    using upd [OF s2] upd [OF l]
    unfolding UserService_ReportEvent_def s1_def [symmetric] s2_def [symmetric] Let_def by simp
qed

section \<open>A flush is pending\<close>

definition flush_pending :: "('d, 'w, 'g, 'q) core \<Rightarrow> bool" where
  "flush_pending c \<longleftrightarrow> (\<exists>h. GetBundleReportHandler c = Some h \<and> Handler_HasEvent MSG_FLUSH_TO_DISK h)"

definition handler_ready :: "('d, 'w, 'g, 'q) core \<Rightarrow> bool" where
  "handler_ready c \<longleftrightarrow> (\<exists>h. GetBundleReportHandler c = Some h \<and> th_isInited h)"

lemma OnStatsChanged_pending:
  assumes "handler_ready c"
  shows "handler_ready (Core_OnStatsChanged E u c) \<and> flush_pending (Core_OnStatsChanged E u c)"
proof -
  obtain h where h: "GetBundleReportHandler c = Some h" "th_isInited h"
    using assms by (auto simp: handler_ready_def)
  show ?thesis
  proof (cases "Handler_HasEvent MSG_FLUSH_TO_DISK h")
    case True
    then show ?thesis using h by (simp add: Core_OnStatsChanged_def handler_ready_def flush_pending_def)
  next
    case False
    let ?h = "Handler_SendEvent (ce_ffrt E) MSG_FLUSH_TO_DISK
      (ReportTask MSG_FLUSH_TO_DISK (Some (ReportObj_copy (ReportObj_default \<lparr> ro_userId := u \<rparr>)))) (co_flushInterval c) h"
    have "GetBundleReportHandler (Core_OnStatsChanged E u c) = Some ?h"
      using h False by (auto simp: Core_OnStatsChanged_def ReportHandler_SendEvent_def on_report_def
          GetBundleReportHandler_def split: if_splits)
    moreover have "th_isInited ?h \<and> Handler_HasEvent MSG_FLUSH_TO_DISK ?h"
      using h(2) by (simp add: Handler_SendEvent_def Handler_HasEvent_def Let_def case_prod_beta)
    ultimately show ?thesis by (simp add: handler_ready_def flush_pending_def)
  qed
qed

lemma answer_notice_pending:
  assumes "handler_ready c"
  shows "handler_ready (answer_notice E n c)" "flush_pending c \<or> (\<exists>u. n = OnStatsChanged u) \<Longrightarrow> flush_pending (answer_notice E n c)"
proof -
  have g: "handler_ready (on_groups E k c) = handler_ready c" "flush_pending (on_groups E k c) = flush_pending c" for k
    by (simp_all add: handler_ready_def flush_pending_def)
  show "handler_ready (answer_notice E n c)"
    using OnStatsChanged_pending [OF assms] assms by (cases n) (simp_all add: Core_OnStatsReload_def g)
  show "flush_pending (answer_notice E n c)" if "flush_pending c \<or> (\<exists>u. n = OnStatsChanged u)"
    using OnStatsChanged_pending [OF assms] that by (cases n) (auto simp: Core_OnStatsReload_def g)
qed

lemma notices_pending:
  "handler_ready c \<Longrightarrow> flush_pending c \<or> (\<exists>u. OnStatsChanged u \<in> set ns) \<Longrightarrow> flush_pending (fold (answer_notice E) ns c)"
proof (induction ns arbitrary: c)
  case (Cons n ns)
  then show ?case
    using answer_notice_pending(1) [OF Cons.prems(1), of E n] answer_notice_pending(2) [OF Cons.prems(1), of n E] by auto
qed simp

lemma handler_ready_cong:
  "GetBundleReportHandler c = GetBundleReportHandler c' \<Longrightarrow> handler_ready c = handler_ready c' \<and> flush_pending c = flush_pending c'"
  by (simp add: handler_ready_def flush_pending_def)

lemma on_service_pending:
  assumes "handler_ready c" "om_find (co_userStatServices c) u = Some s"
    "\<exists>v. OnStatsChanged v \<in> set (us_notices (f (s \<lparr> us_uids := co_uids c, us_database := ce_attach E (co_world c) (us_database s) \<rparr>)))"
  shows "flush_pending (on_service E u f c)"
proof -
  let ?s1 = "f (s \<lparr> us_uids := co_uids c, us_database := ce_attach E (co_world c) (us_database s) \<rparr>)"
  let ?c1 = "c \<lparr> co_userStatServices := om_insert u (?s1 \<lparr> us_notices := [] \<rparr>) (co_userStatServices c),
      co_uids := us_uids ?s1, co_world := ce_detach E (us_database ?s1) \<rparr>"
  have "on_service E u f c = fold (answer_notice E) (us_notices ?s1) ?c1"
    using assms(2) by (simp add: on_service_def with_service_def Let_def)
  moreover have "handler_ready ?c1"
    using assms(1) by (simp add: handler_ready_def)
  ultimately show ?thesis
    using notices_pending assms(3) by metis
qed

section \<open>A report with the clock in step\<close>

lemma CheckTime_quiet:
  assumes "ce_systemTime E \<noteq> - 1" "ce_bootTime E \<noteq> - 1" "clock_drift E c < TIME_CHANGE_THRESHOLD_MILLIS"
  shows "CheckTimeChangeAndGetWallTime E u c = (ce_systemTime E, if clock_drift E c > TWO_SECONDS
    then c \<lparr> co_realTimeShot := ce_bootTime E, co_systemTimeShot := ce_systemTime E \<rparr> else c)"
  using assms by (simp add: CheckTimeChangeAndGetWallTime_def clock_drift_def Let_def)

text \<open>The event as the core hands it on: its time is that of the wall clock.\<close>

definition logged_event :: "('d, 'w, 'g, 'q) core_env \<Rightarrow> ('d, 'w, 'g, 'q) core \<Rightarrow> int \<Rightarrow> event \<Rightarrow> event" where
  "logged_event E c u ev = ConvertToSystemTimeLocked (snd (CheckTimeChangeAndGetWallTime E u c)) ev"

lemma logged_event_fields [simp]:
  "ev_eventId (logged_event E c u ev) = ev_eventId ev" "ev_bundleName (logged_event E c u ev) = ev_bundleName ev"
  by (simp_all add: logged_event_def ConvertToSystemTimeLocked_def)

text \<open>With the clock in step, the event of an application that is not a launcher is handed on to the service of its
user and to the groups.\<close>

lemma report_runs:
  assumes "om_find (co_userStatServices c) u = Some s" "u \<noteq> 0" "u \<noteq> - 1"
    and "\<not> fst (IsLauncherApp (ce_bundleMgr E) (ev_bundleName (ObtainSystemEventName ev)) u (co_launchers c))"
    and "ce_systemTime E \<noteq> - 1" "ce_bootTime E \<noteq> - 1" "\<not> time_failed (ce_systemTime E)"
      "clock_drift E c < TIME_CHANGE_THRESHOLD_MILLIS"
    and "ev_eventId ev \<notin> {FORM_IS_CLICKED, FORM_IS_REMOVED}" "ev1 = logged_event E c u (ObtainSystemEventName ev)"
  shows "\<exists>c2. snd (Core_ReportEvent E ev u c) = on_groups E (GroupController_ReportEvent (ce_group E) ev1 (ce_bootTime E) u)
        (on_service E u (\<lambda>s. UserService_ReportEvent (ce_usage E) (ce_zone E) ev1 (ReportModuleEvent ev1 s)) c2) \<and>
      GetBundleReportHandler c2 = GetBundleReportHandler c \<and> co_userStatServices c2 = co_userStatServices c"
proof -
  define l where "l = snd (IsLauncherApp (ce_bundleMgr E) (ev_bundleName (ObtainSystemEventName ev)) u (co_launchers c))"
  define c0 where "c0 = (if co_currentUsedUser c = - 1 then c \<lparr> co_currentUsedUser := u \<rparr> else c)"
  define c1 where "c1 = c0 \<lparr> co_launchers := l \<rparr>"
  define c2 where "c2 = snd (CheckTimeChangeAndGetWallTime E u c1)"
  have id: "ev_eventId ev1 = ev_eventId ev"
    using assms(10) by (simp add: ObtainSystemEventName_def)
  have "clock_drift E c1 = clock_drift E c"
    by (simp add: clock_drift_def c1_def c0_def)
  note quiet = CheckTime_quiet [OF assms(5,6), of c1 u, unfolded this, OF assms(8)] CheckTime_quiet [OF assms(5,6,8), of u]
  have t: "CheckTimeChangeAndGetWallTime E u c1 = (ce_systemTime E, c2)" "co_userStatServices c2 = co_userStatServices c"
    "GetBundleReportHandler c2 = GetBundleReportHandler c"
    using quiet(1) by (simp_all add: c2_def c1_def c0_def GetBundleReportHandler_def)
  have e1: "ConvertToSystemTimeLocked c2 (ObtainSystemEventName ev) = ev1"
    using quiet assms(10) by (simp add: c2_def logged_event_def ConvertToSystemTimeLocked_def c1_def c0_def)
  have g: "GetUserDataAndInitializeIfNeeded E u (ce_systemTime E) (co_debugCore c2) c2 = c2"
    using assms(1) t(2) by (simp add: GetUserDataAndInitializeIfNeeded_def)
  have "fst (IsLauncherApp (ce_bundleMgr E) (ev_bundleName (ObtainSystemEventName ev)) u (co_launchers c0)) = False"
    "c0 \<lparr> co_launchers := snd (IsLauncherApp (ce_bundleMgr E) (ev_bundleName (ObtainSystemEventName ev)) u (co_launchers c0)) \<rparr> = c1"
    using assms(4) by (simp_all add: c0_def c1_def l_def)
  then have "snd (Core_ReportEvent E ev u c) = on_groups E (GroupController_ReportEvent (ce_group E) ev1 (ce_bootTime E) u)
        (on_service E u (\<lambda>s. UserService_ReportEvent (ce_usage E) (ce_zone E) ev1 (ReportModuleEvent ev1 s)) c2)"
    using assms(2,3,7,9) t(1) g id e1 unfolding Core_ReportEvent_def Let_def c0_def [symmetric] by (simp add: case_prod_beta)
  with t(2,3) show ?thesis by blast
qed

section \<open>Properties\<close>


definition idle_service :: "unit user_service" where
  "idle_service = (UserService_new blank_usage_db 100 False () [])
     \<lparr> us_currentStats := [Some PeriodStats_default, None, None, None] \<rparr>"

definition flush_demo :: "(unit, unit, nat \<times> (nat \<times> group_task \<times> int) list, nat \<times> (nat \<times> core_task \<times> int) list) core" where
  "flush_demo = demo_core \<lparr> co_systemTimeShot := 4999200, co_currentUsedUser := 100,
     co_userStatServices := [(100, idle_service)] \<rparr>"


lemma answer_notices_services:
  "co_userStatServices (fold (answer_notice E) ns c) = co_userStatServices c"
  by (rule fold_keeps) simp

lemma on_service_others:
  "v \<noteq> u \<Longrightarrow> om_find (co_userStatServices (on_service E u f c)) v = om_find (co_userStatServices c) v"
  by (simp add: on_service_def with_service_def Let_def case_prod_beta answer_notices_services split: option.splits)

lemma on_report_services [simp]: "co_userStatServices (on_report f c) = co_userStatServices c"
  by (simp add: on_report_def split: option.splits)

lemma CheckTime_others:
  "v \<noteq> u \<Longrightarrow> om_find (co_userStatServices (snd (CheckTimeChangeAndGetWallTime E u c))) v = om_find (co_userStatServices c) v"
  by (simp add: CheckTimeChangeAndGetWallTime_def Let_def on_service_others ReportHandler_RemoveEvent_def split: option.splits)

lemma GetUserData_others:
  "v \<noteq> u \<Longrightarrow> om_find (co_userStatServices (GetUserDataAndInitializeIfNeeded E u t b c)) v = om_find (co_userStatServices c) v"
  by (simp add: GetUserDataAndInitializeIfNeeded_def Let_def on_service_others split: option.splits)

lemma ReportEvent_others:
  assumes "v \<noteq> u"
  shows "om_find (co_userStatServices (snd (Core_ReportEvent E ev u c))) v = om_find (co_userStatServices c) v"
  unfolding Core_ReportEvent_def Let_def case_prod_beta
  by (simp add: CheckTime_others [OF assms] GetUserData_others [OF assms] on_service_others [OF assms])

text \<open>C9: An event reaches the statistics of its own user only. Reporting an event for one user leaves the
service of every other user as it was, whatever the clock, the launcher and the groups do. An event without
a user is refused and changes nothing, and an event of a launcher reaches the groups but no statistics.\<close>

theorem event_reaches_own_user:
  assumes "snd (Core_ReportEvent E ev u c) = c'" "v \<noteq> u \<or> u = 0 \<or> u = - 1 \<or>
    fst (IsLauncherApp (ce_bundleMgr E) (ev_bundleName (ObtainSystemEventName ev)) u (co_launchers c))"
  shows "om_find (co_userStatServices c') v = om_find (co_userStatServices c) v \<and> (u = 0 \<or> u = - 1 \<longrightarrow> c' = c)"
proof (intro conjI impI)
  show "c' = c" if "u = 0 \<or> u = - 1"
    using assms(1) that by (auto simp: Core_ReportEvent_def Let_def)
  show "om_find (co_userStatServices c') v = om_find (co_userStatServices c) v"
  proof (cases "v \<noteq> u")
    case True
    then show ?thesis using ReportEvent_others [of v u E ev c] assms(1) by simp
  next
    case False
    then have "u = 0 \<or> u = - 1 \<or>
        fst (IsLauncherApp (ce_bundleMgr E) (ev_bundleName (ObtainSystemEventName ev)) u (co_launchers c))"
      using assms(2) by blast
    then have "co_userStatServices c' = co_userStatServices c"
      using assms(1) by (auto simp: Core_ReportEvent_def Let_def case_prod_beta)
    then show ?thesis by simp
  qed
qed

theorem event_reaches_own_user_witness:
  "om_find (co_userStatServices (snd (Core_ReportEvent demo_env (Event_bundle ABILITY_FOREGROUND ''app'' 7) 101 flush_demo))) 100 =
   Some idle_service"
  using event_reaches_own_user [of demo_env "Event_bundle ABILITY_FOREGROUND ''app'' 7" 101 flush_demo, OF refl, of 100]
  by (simp add: flush_demo_def)

section \<open>Room on the disk\<close>

text \<open>The core after the first \<open>n\<close> rounds of the loop.\<close>

definition delete_rounds ::
    "('d, 'w, 'g, 'q) core_env \<Rightarrow> nat \<Rightarrow> ('d, 'w, 'g, 'q) core \<Rightarrow> ('d, 'w, 'g, 'q) core" where
  "delete_rounds E n c = fold (\<lambda>d c. on_service E (co_currentUsedUser c)
     (UserService_DeleteExcessiveEventTableData (ce_usage E) (int d)) c) [0..<n] c"

lemma delete_rounds_Suc:
  "delete_rounds E (Suc n) c = on_service E (co_currentUsedUser (delete_rounds E n c))
     (UserService_DeleteExcessiveEventTableData (ce_usage E) (int n)) (delete_rounds E n c)"
  by (simp add: delete_rounds_def)

lemma delete_days_rounds:
  "k \<le> 7 \<Longrightarrow> \<exists>n. k \<le> n \<and> n \<le> 7 \<and> delete_days E cfg k (delete_rounds E k c) = delete_rounds E n c \<and>
     (n < 7 \<longrightarrow> k < n \<and> \<not> IsFolderSizeLimit E cfg (delete_rounds E n c)) \<and>
     (\<forall>m. k < m \<and> m < n \<longrightarrow> IsFolderSizeLimit E cfg (delete_rounds E m c))"
proof (induction "7 - k" arbitrary: k)
  case 0
  then show ?case
    using delete_days.simps [of E cfg 7 "delete_rounds E 7 c"] by (intro exI [of _ 7]) auto
next
  case (Suc r)
  note step = delete_days.simps [of E cfg k "delete_rounds E k c", unfolded Let_def, folded delete_rounds_Suc]
  show ?case
  proof (cases "IsFolderSizeLimit E cfg (delete_rounds E (Suc k) c)")
    case False
    then show ?thesis
      using Suc.hyps(2) step by (intro exI [of _ "Suc k"]) auto
  next
    case True
    have "r = 7 - Suc k" "Suc k \<le> 7"
      using Suc.hyps(2) by simp_all
    from Suc.hyps(1) [OF this] obtain n where n: "Suc k \<le> n" "n \<le> 7"
      "delete_days E cfg (Suc k) (delete_rounds E (Suc k) c) = delete_rounds E n c"
      "n < 7 \<longrightarrow> Suc k < n \<and> \<not> IsFolderSizeLimit E cfg (delete_rounds E n c)"
      "\<forall>m. Suc k < m \<and> m < n \<longrightarrow> IsFolderSizeLimit E cfg (delete_rounds E m c)" by blast
    have "IsFolderSizeLimit E cfg (delete_rounds E m c)" if "k < m" "m < n" for m
      using True n(5) that by (cases "m = Suc k") auto
    then show ?thesis
      using n Suc.hyps(2) step True by (intro exI [of _ n]) auto
  qed
qed

text \<open>C36: Making room ends, after the least number of rounds. Rounds delete the oldest event tables for
growing numbers of days; when the database folder is over its limit and the current user has a service,
between one and seven rounds are made, the folder was over the limit before each of them, and it is below the
limit at the end unless all seven were made.\<close>

theorem making_room_ends:
  assumes "co_config c = Some cfg" "IsFolderSizeLimit E cfg c" "om_find (co_userStatServices c) (co_currentUsedUser c) \<noteq> None"
  shows "\<exists>n \<in> {1..7}. ProcessDataSize E c = delete_rounds E n c \<and>
    (n < 7 \<longrightarrow> \<not> IsFolderSizeLimit E cfg (ProcessDataSize E c)) \<and>
    (\<forall>m < n. IsFolderSizeLimit E cfg (delete_rounds E m c))"
proof -
  have 0: "delete_rounds E 0 c = c" by (simp add: delete_rounds_def)
  obtain n where n: "n \<le> 7" "delete_days E cfg 0 c = delete_rounds E n c"
    "n < 7 \<longrightarrow> 0 < n \<and> \<not> IsFolderSizeLimit E cfg (delete_rounds E n c)"
    "\<forall>m. 0 < m \<and> m < n \<longrightarrow> IsFolderSizeLimit E cfg (delete_rounds E m c)"
    using delete_days_rounds [of 0 E cfg c] by (auto simp: 0)
  have "ProcessDataSize E c = delete_rounds E n c"
    using assms n(2) by (auto simp: ProcessDataSize_def Core_DeleteExcessiveTableData_def)
  moreover have "IsFolderSizeLimit E cfg (delete_rounds E m c)" if "m < n" for m
    using n(4) that assms(2) 0 by (cases m) auto
  ultimately show ?thesis
    using n(1,3) by (intro bexI [of _ n]) auto
qed

theorem making_room_ends_witness:
  "\<exists>n \<in> {1..7}. ProcessDataSize (demo_env \<lparr> ce_dataFolder := (\<lambda>_. RegularFile 9) \<rparr>)
     (flush_demo \<lparr> co_config := Some (ConfigReader_new \<lparr> maxDataSize := 8 \<rparr>) \<rparr>) =
     delete_rounds (demo_env \<lparr> ce_dataFolder := (\<lambda>_. RegularFile 9) \<rparr>) n
       (flush_demo \<lparr> co_config := Some (ConfigReader_new \<lparr> maxDataSize := 8 \<rparr>) \<rparr>)"
proof -
  let ?E = "demo_env \<lparr> ce_dataFolder := (\<lambda>_. RegularFile 9) \<rparr>" and ?cfg = "ConfigReader_new \<lparr> maxDataSize := 8 \<rparr>"
  let ?c = "flush_demo \<lparr> co_config := Some ?cfg \<rparr>"
  have "IsFolderSizeLimit ?E ?cfg ?c"
    by (simp add: IsFolderSizeLimit_def GetMaxDataSize_def)
  then show ?thesis
    using making_room_ends [of ?c ?cfg ?E] by (force simp: flush_demo_def)
qed

lemma data_partition: "GetPartitionName ''/data'' = ''/data''"
  by code_simp

text \<open>C23: The statistics are written while at least a tenth of the user's storage is free. On a storage of less
than 8 PiB a flush changes nothing when at most a tenth of the blocks are free; when more than a tenth are, by one
part in \<open>2 ^ 50\<close> or more, it reports the flush, writes the statistics of the user and submits the check of their
size. The tenth and the quotient are doubles: neither the rounding of 0.1 nor that of the quotient moves the limit
further than that.\<close>

theorem flush_needs_a_tenth:
  assumes "ce_statfs E ''/data'' = Some st" "0 < uint (fs_blocks st) * uint (fs_bsize st)"
    "uint (fs_blocks st) * uint (fs_bsize st) < 2 ^ 53" "uint (fs_bfree st) \<le> uint (fs_blocks st)"
  shows "(10 * uint (fs_bfree st) \<le> uint (fs_blocks st) \<longrightarrow> RestoreToDatabase E u c = c) \<and>
    (2 ^ 50 * (10 * uint (fs_bfree st)) \<ge> (2 ^ 50 + 1) * uint (fs_blocks st) \<longrightarrow>
      (let c1 = RestoreToDatabaseLocked E u (on_service E u
             (UserService_ReportEvent (ce_usage E) (ce_zone E) (flush_event (ce_systemTime E))) c)
       in RestoreToDatabase E u c = c1 \<lparr> co_pool := snd (fq_submit (ce_ffrt E) DataSizeTask 0 (co_pool c1)) \<rparr>))"
proof -
  have p: "ce_statfs E (GetPartitionName ''/data'') = Some st"
    using assms(1) by (simp only: data_partition)
  have "IsUserSpaceMemoryLimit E" if "10 * uint (fs_bfree st) \<le> uint (fs_blocks st)"
    unfolding IsUserSpaceMemoryLimit_def by (rule percent_against_limit(1) [of "ce_statfs E" "''/data''" st, OF p assms(2-4) that])
  moreover have "\<not> IsUserSpaceMemoryLimit E" if "2 ^ 50 * (10 * uint (fs_bfree st)) \<ge> (2 ^ 50 + 1) * uint (fs_blocks st)"
    unfolding IsUserSpaceMemoryLimit_def not_le by (rule percent_against_limit(2) [of "ce_statfs E" "''/data''" st, OF p assms(2-4) that])
  ultimately show ?thesis
    unfolding RestoreToDatabase_def Let_def by presburger
qed

theorem flush_needs_a_tenth_witness:
  "RestoreToDatabase (demo_env \<lparr> ce_statfs := (\<lambda>_. Some \<lparr> fs_blocks = 1000, fs_bfree = 100, fs_bsize = 4096 \<rparr>) \<rparr>) 100 demo_core =
    demo_core"
  using flush_needs_a_tenth [of "demo_env \<lparr> ce_statfs := (\<lambda>_. Some \<lparr> fs_blocks = 1000, fs_bfree = 100, fs_bsize = 4096 \<rparr>) \<rparr>"
      "\<lparr> fs_blocks = 1000, fs_bfree = 100, fs_bsize = 4096 \<rparr>" 100 demo_core] by simp

section \<open>Observers\<close>

lemma om_erase_insert: "om_wf m \<Longrightarrow> om_find m k = None \<Longrightarrow> om_erase k (om_insert k v m) = m"
  by (rule om_ext) simp_all

lemma os_erase_insert: "x \<notin> set xs \<Longrightarrow> os_erase x (os_insert x xs) = xs"
  by (auto simp: os_insert_def os_erase_def filter_insort_triv intro!: filter_True)

text \<open>A caller observes the groups at most once, and can stop. Registering answers an error for a null
observer and for a caller that is registered already, and changes nothing then; otherwise the observer is
added for this caller alone, a second registration is refused, and when no other caller uses the same remote
object, unregistering restores the registry and the death recipients as they were, after which unregistering
again is refused.\<close>

theorem observers_register_once:
  assumes "om_wf (co_groupChangeObservers c)" "om_find (co_groupChangeObservers c) k = None"
    and "ac_object ob = Some obj" "obj \<notin> set (co_recipientMap c)"
    and "Core_RegisterAppGroupCallBack k (Some ob) c = (r, c1)" "Core_UnRegisterAppGroupCallBack k c1 = (r', c2)"
  shows "r = ERR_OK \<and> r' = ERR_OK \<and> om_find (co_groupChangeObservers c1) k = Some ob \<and>
    (\<forall>k'. k' \<noteq> k \<longrightarrow> om_find (co_groupChangeObservers c1) k' = om_find (co_groupChangeObservers c) k') \<and>
    (\<forall>ob'. Core_RegisterAppGroupCallBack k (Some ob') c1 = (ERR_REPEAT_REGISTER_OR_DEREGISTER_GROUP_CALLBACK, c1)) \<and>
    Core_RegisterAppGroupCallBack k None c = (ERR_MEMORY_OPERATION_FAILED, c) \<and>
    co_groupChangeObservers c2 = co_groupChangeObservers c \<and> co_recipientMap c2 = co_recipientMap c \<and>
    Core_UnRegisterAppGroupCallBack k c2 = (ERR_REPEAT_REGISTER_OR_DEREGISTER_GROUP_CALLBACK, c2)"
proof -
  have c1: "r = ERR_OK" "co_groupChangeObservers c1 = om_insert k ob (co_groupChangeObservers c)"
    "co_recipientMap c1 = os_insert obj (co_recipientMap c)"
    using assms(2-5) by (auto simp: Core_RegisterAppGroupCallBack_def AddObserverDeathRecipient_def)
  have c2: "r' = ERR_OK" "co_groupChangeObservers c2 = om_erase k (co_groupChangeObservers c1)"
    "co_recipientMap c2 = os_erase obj (co_recipientMap c1)"
    using assms(3,6) c1(2,3) by (auto simp: Core_UnRegisterAppGroupCallBack_def RemoveObserverDeathRecipient_def Let_def)
  show ?thesis
    using c1 c2 om_erase_insert [OF assms(1,2)] os_erase_insert [OF assms(4)] assms(2)
    by (simp add: Core_RegisterAppGroupCallBack_def Core_UnRegisterAppGroupCallBack_def)
qed

theorem observers_register_once_witness:
  "fst (Core_UnRegisterAppGroupCallBack 3 (snd (Core_RegisterAppGroupCallBack 3
     (Some \<lparr> ac_proxy = 1, ac_object = Some 9 \<rparr>) demo_core))) = ERR_OK"
proof -
  have "om_wf (co_groupChangeObservers demo_core)"
    "om_find (co_groupChangeObservers demo_core) 3 = None" "9 \<notin> set (co_recipientMap demo_core)"
    by (simp_all add: demo_core_def ReportController_Init_def Core_new_def)
  from observers_register_once [OF this(1,2) _ this(3) surjective_pairing surjective_pairing,
      of "\<lparr> ac_proxy = 1, ac_object = Some 9 \<rparr>"] show ?thesis by simp
qed

text \<open>A group change is told to those who may know. The observers called are, in the order of their
tokens, those registered by a native service and those registered by an application of the user whose bundle
changed its group, each once; nothing else happens.\<close>

theorem observers_called:
  "NotifOberserverGroupChanged E info c = c \<lparr> co_calls := co_calls c @
     map (\<lambda>item. CallObserver (snd item) info) (filter (\<lambda>item. ce_tokenType E (fst item) = TokenNative \<or>
       ce_tokenType E (fst item) = TokenHap \<and> ce_tokenUser E (fst item) = cb_userId info) (co_groupChangeObservers c)) \<rparr>"
proof -
  let ?p = "\<lambda>item. ce_tokenType E (fst item) = TokenNative \<or>
    ce_tokenType E (fst item) = TokenHap \<and> ce_tokenUser E (fst item) = cb_userId info"
  have "fold (\<lambda>(tokenId, observer) c.
         let call = c \<lparr> co_calls := co_calls c @ [CallObserver observer info] \<rparr>
         in case ce_tokenType E tokenId of
              TokenNative \<Rightarrow> call
            | TokenHap \<Rightarrow> if ce_tokenUser E tokenId = cb_userId info then call else c
            | TokenOther \<Rightarrow> c) xs c =
      c \<lparr> co_calls := co_calls c @ map (\<lambda>item. CallObserver (snd item) info) (filter ?p xs) \<rparr>" for xs
    by (induction xs arbitrary: c) (auto simp: Let_def split: token_type.splits)
  then show ?thesis
    unfolding NotifOberserverGroupChanged_def .
qed

section \<open>What the core does not do\<close>

text \<open>The registry of uids is shared by all users. An uninstallation with the main index forgets every uid
of the bundle, those of the users who keep it included: a later uninstallation by such a user removes nothing
from the statistics in its memory, and the end of the day carries nothing on for it.\<close>

lemma uninstall_forgets_other_users:
  assumes "ce_systemTime E \<noteq> - 1" "ce_bootTime E \<noteq> - 1" "\<not> time_failed (ce_systemTime E)" "uidmap_inv (co_uids c)"
    and "om_find (co_userStatServices (snd (CheckTimeChangeAndGetWallTime E u c))) u \<noteq> None"
  shows "GetPackageUidSet bn (co_uids (Core_OnBundleUninstalled E u bn uid 0 c)) = [] \<and>
    DeleteMemUsageStats bn uid' 0 (p, co_uids (Core_OnBundleUninstalled E u bn uid 0 c)) =
      (p, co_uids (Core_OnBundleUninstalled E u bn uid 0 c))"
proof -
  have del: "GetPackageUidSet bn (us_uids (DeleteUninstalledBundleStats D bn uid 0 s)) = []" for D and s :: "'a user_service"
    by (simp add: DeleteUninstalledBundleStats_def Let_def DeleteMemPackageUidSet_def DeleteMemPackage_def GetPackageUidSet_def)
  have uids: "co_uids (fold (answer_notice E) ns d) = co_uids d" for ns d
    by (rule fold_keeps) simp
  have srv: "GetPackageUidSet bn (co_uids (on_service E u (DeleteUninstalledBundleStats (ce_usage E) bn uid 0) d)) = []"
    if "om_find (co_userStatServices d) u \<noteq> None" for d
    using that by (auto simp: on_service_def with_service_def Let_def uids del)
  let ?t = "CheckTimeChangeAndGetWallTime E u c"
  have "fst ?t = ce_systemTime E"
    using CheckTime_cases [of E u c, OF surjective_pairing] assms(1,2) by blast
  then have "GetPackageUidSet bn (co_uids (Core_OnBundleUninstalled E u bn uid 0 c)) = []"
    using assms(3,5) unfolding Core_OnBundleUninstalled_def Let_def case_prod_beta
    by (auto intro!: srv simp: DelayRemoveBundleUninstalledUid_def AddbundleUninstalledUid_def
        GetUserDataAndInitializeIfNeeded_def case_prod_beta)
  then show ?thesis
    by (simp add: DeleteMemUsageStats_def)
qed

text \<open>A flush that finds too little space on the disk leaves the entry of its message behind, without a task.
From then on a flush counts as pending, and changes of the statistics send no further one.\<close>

lemma skipped_flush_is_final:
  assumes "IsUserSpaceMemoryLimit E" "GetBundleReportHandler c = Some h" "th_isInited h"
    "om_find (th_taskHandlerMap h) MSG_FLUSH_TO_DISK = Some [task]" "ro_userId obj = co_currentUsedUser c"
    and "c' = run_core_task E (ReportTask MSG_FLUSH_TO_DISK (Some obj)) c"
  shows "\<exists>h'. GetBundleReportHandler c' = Some h' \<and> om_find (th_taskHandlerMap h') MSG_FLUSH_TO_DISK = Some [] \<and>
    Core_OnStatsChanged E' u c' = c'"
proof -
  have "ReportHandler_ProcessEvent E MSG_FLUSH_TO_DISK (Some obj) c = c"
    using assms(1,5) by (simp add: ReportHandler_ProcessEvent_def ProcessFlushToDiskEvent_def RestoreToDatabase_def
        ReportObj_copy_def Let_def)
  then have "c' = on_report (Handler_finish MSG_FLUSH_TO_DISK) c"
    using assms(2,3,6) by simp
  then have h': "GetBundleReportHandler c' = Some (h \<lparr> th_taskHandlerMap := om_insert MSG_FLUSH_TO_DISK [] (th_taskHandlerMap h) \<rparr>)"
    using assms(2,4) by (auto simp: on_report_def Handler_finish_def GetBundleReportHandler_def split: if_splits)
  then show ?thesis
    using assms(3) by (simp add: Core_OnStatsChanged_def Handler_HasEvent_def)
qed

text \<open>\<open>ReportEventToAllUserId\<close> reports to the user with the least id and to no other.\<close>

lemma shutdown_reaches_first_user:
  assumes "co_userStatServices (snd (CheckTimeChangeAndGetWallTime E 0 c)) = (u, s) # rest"
    "snd (CheckTimeChangeAndGetWallTime E 0 c) = c1" "v \<noteq> u"
  shows "om_find (co_userStatServices (snd (ReportEventToAllUserId E ev c))) v = om_find (co_userStatServices c1) v"
  using assms by (simp add: ReportEventToAllUserId_def Let_def case_prod_beta on_service_others GetUserData_others)

text \<open>The death recipient of an object is shared by the callers that registered it, and taken away with the
first of them.\<close>

lemma shared_recipient_lost:
  assumes "om_find (co_groupChangeObservers c) k = Some ob" "om_find (co_groupChangeObservers c) k' = Some ob'" "k' \<noteq> k"
    "ac_object ob = Some obj" "ac_object ob' = Some obj" "Core_UnRegisterAppGroupCallBack k c = (r, c')"
  shows "om_find (co_groupChangeObservers c') k' = Some ob' \<and> obj \<notin> set (co_recipientMap c')"
  using assms by (auto simp: Core_UnRegisterAppGroupCallBack_def RemoveObserverDeathRecipient_def Let_def split: if_splits)

section \<open>The report of file sizes\<close>

text \<open>The sizes of the files are reported once a day. After a report, running the reporting task
before a day has passed reports nothing and submits it again for the end of that day; running it later
reports again.\<close>

theorem file_sizes_reported_daily:
  assumes "0 < ce_nowMicro E" "ce_nowMicro E \<le> INT64_MAX" "ce_nowMicro E \<le> ce_nowMicro E'"
  shows "ReportFileSizeDaily E' (ReportFileSizeInner E c) =
    (if ce_nowMicro E' - ce_nowMicro E < ONE_DAY_MICRO_SECOND
     then SubmitDelayTask E' (ce_nowMicro E + ONE_DAY_MICRO_SECOND - ce_nowMicro E') (ReportFileSizeInner E c)
     else ReportFileSizeInner E' (ReportFileSizeInner E c))"
proof -
  have rec: "co_recorder (ReportFileSizeInner E c) = int_to_string (ce_nowMicro E)"
    by (simp add: ReportFileSizeInner_def Let_def SubmitDelayTask_def)
  have "StringToInt64 (int_to_string (ce_nowMicro E)) = ce_nowMicro E"
    using assms(1,2) by (intro StringToInt64_to_string) (simp_all add: INT64_MAX_def INT64_MIN_def)
  moreover have "int_to_string (ce_nowMicro E) \<noteq> ''''"
    by simp
  ultimately show ?thesis
    using assms(1,3) by (simp add: ReportFileSizeDaily_def Let_def rec algebra_simps)
qed

theorem file_sizes_reported_daily_witness:
  "ReportFileSizeDaily (demo_env \<lparr> ce_nowMicro := 5000000007 \<rparr>) (ReportFileSizeInner demo_env demo_core) =
   SubmitDelayTask (demo_env \<lparr> ce_nowMicro := 5000000007 \<rparr>) 86399999993 (ReportFileSizeInner demo_env demo_core)"
  using file_sizes_reported_daily [of demo_env "demo_env \<lparr> ce_nowMicro := 5000000007 \<rparr>" demo_core]
  by (simp add: demo_env_def INT64_MAX_def)

end
