(* ===== verification/Service.thy ===== *)
theory Service
  imports CoreUsers
begin

text \<open>\<open>BundleActiveService\<close> (\<open>services/common\<close>): the entry points of the system ability. Every call names a
caller; the service finds the user, checks the caller's rights, asks the core and merges the records of
one bundle and uid.

A call answers an error number and the value of its out-parameter, which is empty until the code writes
it. The tokens, the accounts and the bundle manager are given by an environment; the errors of the
account manager are numbers of its own.\<close>

section \<open>Callers and the environment\<close>

datatype token_flag = FlagNative | FlagShell | FlagOther

abbreviation (input) PERMISSION_GRANTED :: int where "PERMISSION_GRANTED \<equiv> 0"

record caller =
  ca_uid :: int
  ca_tokenId :: nat
  ca_isHap :: bool
  ca_tokenFlag :: token_flag
  ca_permission :: int
  ca_systemApp :: bool
  ca_processName :: string
  ca_dumpPermission :: int

record application_info =
  ai_deviceId :: string
  ai_labelId :: nat

record ability_info =
  bi_name :: string
  bi_isPage :: bool
  bi_labelId :: nat
  bi_descriptionId :: nat
  bi_iconId :: nat

record hap_module_info =
  hm_moduleName :: string
  hm_mainAbility :: string
  hm_abilityInfos :: "ability_info list"
  hm_labelId :: nat
  hm_installationFree :: bool

text \<open>\<open>se_account uid\<close> is the answer of the account manager and the user id it leaves;
\<open>se_name\<close> answers an empty name and \<open>se_appIndex\<close> answers \<open>-1\<close> when the bundle manager does not know
the uid.\<close>

record ('d, 'w, 'g, 'q) service_env =
  se_core :: "('d, 'w, 'g, 'q) core_env"
  se_account :: "int \<Rightarrow> int \<times> int"
  se_name :: "int \<Rightarrow> string"
  se_appIndex :: "int \<Rightarrow> int"
  se_appInfo :: "string \<Rightarrow> int \<Rightarrow> application_info option"
  se_bundleInfo :: "string \<Rightarrow> int \<Rightarrow> hap_module_info list option"
  se_sorter :: "(package_stats \<Rightarrow> int) \<Rightarrow> package_stats list \<Rightarrow> package_stats list"
  se_engMode :: int
  se_saved :: bool

abbreviation (input) OK :: int where "OK \<equiv> errcode_num ERR_OK"

text \<open>What a call of the core answers, as an error number and the value of the out-parameter.\<close>

definition core_answer :: "'a \<Rightarrow> errcode + 'a \<Rightarrow> int \<times> 'a" where
  "core_answer d r = (case r of Inl err \<Rightarrow> (errcode_num err, d) | Inr v \<Rightarrow> (OK, v))"

section \<open>Rights of the caller\<close>

definition CheckNativePermission :: "caller \<Rightarrow> int" where
  "CheckNativePermission ca =
     (if ca_permission ca \<noteq> PERMISSION_GRANTED then errcode_num ERR_PERMISSION_DENIED
      else if ca_tokenFlag ca = FlagNative then OK
      else if ca_tokenFlag ca = FlagShell then OK
      else errcode_num ERR_PERMISSION_DENIED)"

definition CheckBundleIsSystemAppAndHasPermission :: "caller \<Rightarrow> int" where
  "CheckBundleIsSystemAppAndHasPermission ca =
     (if \<not> ca_systemApp ca then errcode_num ERR_NOT_SYSTEM_APP
      else if ca_permission ca \<noteq> 0 then errcode_num ERR_PERMISSION_DENIED
      else OK)"

definition CheckSystemAppOrNativePermission :: "caller \<Rightarrow> int" where
  "CheckSystemAppOrNativePermission ca =
     (if ca_isHap ca then CheckBundleIsSystemAppAndHasPermission ca else CheckNativePermission ca)"

text \<open>The user of a call: the one that is given, or the one of the caller. \<open>fail\<close> answers when there is
none, from the error of the account manager.\<close>

definition GetUserId :: "('d, 'w, 'g, 'q) service_env \<Rightarrow> int \<Rightarrow> int \<times> int" where
  "GetUserId S uid = se_account S uid"

definition with_user ::
    "('d, 'w, 'g, 'q) service_env \<Rightarrow> caller \<Rightarrow> int \<Rightarrow> (int \<Rightarrow> 'r) \<Rightarrow> (int \<Rightarrow> 'r) \<Rightarrow> 'r" where
  "with_user S ca userId fail f =
     (if userId = - 1 then
        (case GetUserId S (ca_uid ca) of (ret, u) \<Rightarrow> if ret \<noteq> OK \<or> u = - 1 then fail ret else f u)
      else f userId)"

section \<open>Merging\<close>

definition MergeSamePackageStats :: "package_stats \<Rightarrow> package_stats \<Rightarrow> package_stats" where
  "MergeSamePackageStats left right =
     (if pk_bundleName left \<noteq> pk_bundleName right then left
      else left \<lparr>
        pk_lastTimeUsed := max (pk_lastTimeUsed left) (pk_lastTimeUsed right),
        pk_lastContiniousTaskUsed := max (pk_lastContiniousTaskUsed left) (pk_lastContiniousTaskUsed right),
        pk_totalInFrontTime := pk_totalInFrontTime left + pk_totalInFrontTime right,
        pk_totalContiniousTaskUsedTime := pk_totalContiniousTaskUsedTime left + pk_totalContiniousTaskUsedTime right,
        pk_bundleStartedCount := pk_bundleStartedCount left + pk_bundleStartedCount right,
        pk_startCount := pk_startCount left + pk_startCount right \<rparr>)"

definition merge_one :: "package_stats \<Rightarrow> (string, package_stats) omap \<Rightarrow> (string, package_stats) omap" where
  "merge_one packageStat merged =
     (let key = pk_bundleName packageStat @ int_to_string (pk_uid packageStat)
      in case om_find merged key of
           Some old \<Rightarrow> om_insert key (MergeSamePackageStats old packageStat) merged
         | None \<Rightarrow> om_insert key packageStat merged)"

definition MergePackageStats :: "package_stats list \<Rightarrow> package_stats list" where
  "MergePackageStats packageStats =
     (if packageStats = [] then packageStats else map snd (fold merge_one packageStats []))"

definition ConvertIntervalType :: "int \<Rightarrow> int" where
  "ConvertIntervalType intervalType =
     (if intervalType = 0 then 4
      else if intervalType > 0 \<and> intervalType \<le> 4 then intervalType - 1
      else - 1)"

definition DeleteOutOfLimitEvents :: "event list \<Rightarrow> nat \<Rightarrow> event list" where
  "DeleteOutOfLimitEvents bundleActiveEvents reserveCount =
     (if length bundleActiveEvents > reserveCount
      then drop (length bundleActiveEvents - reserveCount) bundleActiveEvents
      else bundleActiveEvents)"

section \<open>Reporting\<close>

definition Service_ReportEvent ::
    "('d, 'w, 'g, 'q) service_env \<Rightarrow> caller \<Rightarrow> event \<Rightarrow> int \<Rightarrow> ('d, 'w, 'g, 'q) core \<Rightarrow>
     int \<times> ('d, 'w, 'g, 'q) core" where
  "Service_ReportEvent S ca event userId c =
     (if CheckNativePermission ca \<noteq> OK then (errcode_num ERR_PERMISSION_DENIED, c)
      else if ca_processName ca \<noteq> ''foundation'' \<and> ca_processName ca \<noteq> ''resource_schedule_service''
      then (errcode_num ERR_PERMISSION_DENIED, c)
      else
        let obj = (ReportObj_new userId '''') \<lparr> ro_event := (Event_copy event)
              \<lparr> ev_timeStamp := ce_bootTime (se_core S) \<rparr> \<rparr>
        in (OK, ReportHandler_SendEvent (se_core S) MSG_REPORT_EVENT (ReportObj_copy obj) 0 c))"

section \<open>Idleness and groups\<close>

definition Service_IsBundleIdle ::
    "('d, 'w, 'g, 'q) service_env \<Rightarrow> caller \<Rightarrow> string \<Rightarrow> int \<Rightarrow> ('d, 'w, 'g, 'q) core \<Rightarrow> int \<times> bool" where
  "Service_IsBundleIdle S ca bundleName userId c =
     with_user S ca userId (\<lambda>ret. (ret, False)) (\<lambda>userId.
       let ret = (if se_name S (ca_uid ca) = bundleName
                  then (if \<not> ca_systemApp ca then errcode_num ERR_NOT_SYSTEM_APP else OK)
                  else CheckSystemAppOrNativePermission ca)
       in if ret \<noteq> OK then (ret, False)
          else let result = Core_IsBundleIdle (se_core S) bundleName userId c
               in (OK, \<not> (result = 0 \<or> result = - 1)))"

definition Service_IsBundleUsePeriod ::
    "('d, 'w, 'g, 'q) service_env \<Rightarrow> caller \<Rightarrow> string \<Rightarrow> int \<Rightarrow> ('d, 'w, 'g, 'q) core \<Rightarrow>
     (int \<times> bool) \<times> ('d, 'w, 'g, 'q) core" where
  "Service_IsBundleUsePeriod S ca bundleName userId c =
     (let ret = CheckNativePermission ca
      in if ret \<noteq> OK then ((ret, False), c)
         else with_user S ca userId (\<lambda>ret. ((ret, False), c)) (\<lambda>userId.
           let (isUsePeriod, c1) = Core_IsBundleUsePeriod (se_core S) bundleName userId c in ((OK, isUsePeriod), c1)))"

definition Service_SetAppGroup ::
    "('d, 'w, 'g, 'q) service_env \<Rightarrow> caller \<Rightarrow> string \<Rightarrow> int \<Rightarrow> int \<Rightarrow> ('d, 'w, 'g, 'q) core \<Rightarrow>
     int \<times> ('d, 'w, 'g, 'q) core" where
  "Service_SetAppGroup S ca bundleName newGroup userId c =
     (let isFlush = (userId = - 1)
      in with_user S ca userId (\<lambda>_. (errcode_num ERR_SYSTEM_ABILITY_SUPPORT_FAILED, c)) (\<lambda>userId.
           if se_name S (ca_uid ca) = bundleName then (errcode_num ERR_PERMISSION_DENIED, c)
           else
             let ret = CheckSystemAppOrNativePermission ca
             in if ret = OK
                then (let (r, c1) = Core_SetAppGroup (se_core S) bundleName newGroup userId isFlush c
                      in (errcode_num r, c1))
                else (ret, c)))"

definition Service_QueryAppGroup ::
    "('d, 'w, 'g, 'q) service_env \<Rightarrow> caller \<Rightarrow> string \<Rightarrow> int \<Rightarrow> int \<Rightarrow> ('d, 'w, 'g, 'q) core \<Rightarrow> int \<times> int" where
  "Service_QueryAppGroup S ca bundleName userId appGroup c =
     with_user S ca userId (\<lambda>_. (errcode_num ERR_SYSTEM_ABILITY_SUPPORT_FAILED, appGroup)) (\<lambda>userId.
       if bundleName = '''' then
         (if \<not> ca_systemApp ca then (errcode_num ERR_NOT_SYSTEM_APP, appGroup)
          else core_answer appGroup (Core_QueryAppGroup (se_core S) (se_name S (ca_uid ca)) userId c))
       else
         let ret = CheckSystemAppOrNativePermission ca
         in if ret = OK then core_answer appGroup (Core_QueryAppGroup (se_core S) bundleName userId c)
            else (ret, appGroup))"

definition Service_RegisterAppGroupCallBack ::
    "caller \<Rightarrow> app_callback option \<Rightarrow> ('d, 'w, 'g, 'q) core \<Rightarrow> int \<times> ('d, 'w, 'g, 'q) core" where
  "Service_RegisterAppGroupCallBack ca observer c =
     (let ret = CheckSystemAppOrNativePermission ca
      in if ret = OK
         then (let (r, c1) = Core_RegisterAppGroupCallBack (ca_tokenId ca) observer c in (errcode_num r, c1))
         else (ret, c))"

definition Service_UnRegisterAppGroupCallBack ::
    "caller \<Rightarrow> ('d, 'w, 'g, 'q) core \<Rightarrow> int \<times> ('d, 'w, 'g, 'q) core" where
  "Service_UnRegisterAppGroupCallBack ca c =
     (let ret = CheckSystemAppOrNativePermission ca
      in if ret = OK
         then (let (r, c1) = Core_UnRegisterAppGroupCallBack (ca_tokenId ca) c in (errcode_num r, c1))
         else (ret, c))"

section \<open>Queries\<close>

definition Service_QueryBundleStatsInfoByInterval ::
    "('d, 'w, 'g, 'q) service_env \<Rightarrow> caller \<Rightarrow> int \<Rightarrow> int \<Rightarrow> int \<Rightarrow> int \<Rightarrow> ('d, 'w, 'g, 'q) core \<Rightarrow>
     (int \<times> package_stats list) \<times> ('d, 'w, 'g, 'q) core" where
  "Service_QueryBundleStatsInfoByInterval S ca intervalType beginTime endTime userId c =
     with_user S ca userId (\<lambda>ret. ((ret, []), c)) (\<lambda>userId.
       let ret = CheckSystemAppOrNativePermission ca
       in if ret \<noteq> OK then ((ret, []), c)
          else
            let (r, c1) = Core_QueryBundleStatsInfos (se_core S) userId (ConvertIntervalType intervalType)
                  beginTime endTime '''' c;
                (ret, tempPackageStats) = core_answer [] r;
                indexed = map (\<lambda>packageStat. packageStat \<lparr> pk_appIndex := se_appIndex S (pk_uid packageStat) \<rparr>)
                  tempPackageStats
            in ((ret, MergePackageStats indexed), c1))"

definition Service_QueryBundleEvents ::
    "('d, 'w, 'g, 'q) service_env \<Rightarrow> caller \<Rightarrow> int \<Rightarrow> int \<Rightarrow> int \<Rightarrow> int \<Rightarrow> ('d, 'w, 'g, 'q) core \<Rightarrow>
     (int \<times> event list) \<times> ('d, 'w, 'g, 'q) core" where
  "Service_QueryBundleEvents S ca beginTime endTime userId maxNum c =
     (if maxNum \<le> 0 \<or> maxNum > 1000 then ((param_num ERR_MAX_RECORDS_NUM_BIGER_THEN_ONE_THOUSAND, []), c)
      else with_user S ca userId (\<lambda>ret. ((ret, []), c)) (\<lambda>userId.
        let ret = CheckSystemAppOrNativePermission ca
        in if ret = OK then
             (let (r, c1) = Core_QueryBundleEvents (se_core S) userId beginTime endTime '''' c;
                  (ret, bundleActiveEvents) = core_answer [] r
              in ((ret, DeleteOutOfLimitEvents bundleActiveEvents (nat maxNum)), c1))
           else ((ret, []), c)))"

definition Service_QueryHighFrequencyPeriodBundle ::
    "('d, 'w, 'g, 'q) service_env \<Rightarrow> caller \<Rightarrow> int \<Rightarrow> ('d, 'w, 'g, 'q) core \<Rightarrow>
     (int \<times> high_freq_period list) \<times> ('d, 'w, 'g, 'q) core" where
  "Service_QueryHighFrequencyPeriodBundle S ca userId c =
     with_user S ca userId (\<lambda>ret. ((ret, []), c)) (\<lambda>userId.
       let ret = CheckSystemAppOrNativePermission ca
       in if ret = OK then
            (let (r, c1) = Core_QueryHighFrequencyPeriodBundle (se_core S) userId c in (core_answer [] r, c1))
          else ((ret, []), c))"

definition Service_QueryBundleTodayLatestUsedTime ::
    "('d, 'w, 'g, 'q) service_env \<Rightarrow> caller \<Rightarrow> string \<Rightarrow> int \<Rightarrow> int \<Rightarrow> ('d, 'w, 'g, 'q) core \<Rightarrow>
     (int \<times> int) \<times> ('d, 'w, 'g, 'q) core" where
  "Service_QueryBundleTodayLatestUsedTime S ca bundleName userId latestUsedTime c =
     with_user S ca userId (\<lambda>ret. ((ret, latestUsedTime), c)) (\<lambda>userId.
       let ret = CheckSystemAppOrNativePermission ca
       in if ret \<noteq> OK then ((ret, latestUsedTime), c)
          else
            let currentSystemTime = ce_systemTime (se_core S);
                startTime = GetIntervalTypeStartTime (ce_zone (se_core S)) currentSystemTime PERIOD_DAILY;
                (r, c1) = Core_QueryBundleStatsInfos (se_core S) userId PERIOD_DAILY startTime currentSystemTime
                  bundleName c
            in case r of
                 Inl err \<Rightarrow> ((errcode_num err, latestUsedTime), c1)
               | Inr packageStats \<Rightarrow>
                   (case MergePackageStats packageStats of
                      [] \<Rightarrow> ((errcode_num ERR_NO_APP_GROUP_INFO_IN_DATABASE, latestUsedTime), c1)
                    | first # _ \<Rightarrow>
                        if pk_bundleName first \<noteq> bundleName
                        then ((errcode_num ERR_NO_APP_GROUP_INFO_IN_DATABASE, latestUsedTime), c1)
                        else ((OK, pk_lastTimeUsed first), c1)))"

definition Service_QueryBundleStatsInfos ::
    "('d, 'w, 'g, 'q) service_env \<Rightarrow> caller \<Rightarrow> int \<Rightarrow> int \<Rightarrow> int \<Rightarrow> ('d, 'w, 'g, 'q) core \<Rightarrow>
     (int \<times> package_stats list) \<times> ('d, 'w, 'g, 'q) core" where
  "Service_QueryBundleStatsInfos S ca intervalType beginTime endTime c =
     with_user S ca (- 1) (\<lambda>ret. ((ret, []), c)) (\<lambda>userId.
       let bundleName = se_name S (ca_uid ca)
       in if bundleName \<noteq> '''' \<and> CheckBundleIsSystemAppAndHasPermission ca = OK then
            (let (r, c1) = Core_QueryBundleStatsInfos (se_core S) userId (ConvertIntervalType intervalType)
                   beginTime endTime bundleName c;
                 (ret, tempPackageStats) = core_answer [] r
             in ((ret, MergePackageStats tempPackageStats), c1))
          else ((OK, []), c))"

definition Service_QueryHighFrequencyUsageBundleInfos ::
    "('d, 'w, 'g, 'q) service_env \<Rightarrow> caller \<Rightarrow> int \<Rightarrow> int \<Rightarrow> int \<Rightarrow> ('d, 'w, 'g, 'q) core \<Rightarrow>
     (int \<times> package_stats list) \<times> ('d, 'w, 'g, 'q) core" where
  "Service_QueryHighFrequencyUsageBundleInfos S ca userId maxNum queryDayRange c =
     (if maxNum \<le> 0 \<or> queryDayRange \<le> 0 \<or> queryDayRange > 7 then ((errcode_num ERR_PARAM_ERROR, []), c)
      else if CheckSystemAppOrNativePermission ca \<noteq> OK then ((errcode_num ERR_PERMISSION_DENIED, []), c)
      else
        let timeRange = queryDayRange * 24 * 60 * 60 * 1000;
            endTime = ce_systemTime (se_core S);
            beginTime = endTime - timeRange;
            (r, c1) = Core_QueryBundleStatsInfos (se_core S) userId PERIOD_DAILY beginTime endTime '''' c;
            (ret, tempPackageStats) = core_answer [] r;
            results = se_sorter S pk_startCount (MergePackageStats tempPackageStats)
        in ((ret, if int (length results) > maxNum then take (nat maxNum) results else results), c1))"

definition Service_QueryCurrentBundleEvents ::
    "('d, 'w, 'g, 'q) service_env \<Rightarrow> caller \<Rightarrow> int \<Rightarrow> int \<Rightarrow> int \<Rightarrow> ('d, 'w, 'g, 'q) core \<Rightarrow>
     (int \<times> event list) \<times> ('d, 'w, 'g, 'q) core" where
  "Service_QueryCurrentBundleEvents S ca beginTime endTime maxNum c =
     (if maxNum \<le> 0 \<or> maxNum > 1000 then ((param_num ERR_MAX_RECORDS_NUM_BIGER_THEN_ONE_THOUSAND, []), c)
      else with_user S ca (- 1) (\<lambda>ret. ((ret, []), c)) (\<lambda>userId.
        let bundleName = se_name S (ca_uid ca)
        in if bundleName \<noteq> '''' then
             (if \<not> ca_systemApp ca then ((errcode_num ERR_NOT_SYSTEM_APP, []), c)
              else
                let (r, c1) = Core_QueryBundleEvents (se_core S) userId beginTime endTime bundleName c;
                    (ret, bundleActiveEvents) = core_answer [] r
                in ((ret, DeleteOutOfLimitEvents bundleActiveEvents (nat maxNum)), c1))
           else ((OK, []), c)))"

definition Service_QueryDeviceEventStats ::
    "('d, 'w, 'g, 'q) service_env \<Rightarrow> caller \<Rightarrow> int \<Rightarrow> int \<Rightarrow> int \<Rightarrow> ('d, 'w, 'g, 'q) core \<Rightarrow>
     (int \<times> event_stats list) \<times> ('d, 'w, 'g, 'q) core" where
  "Service_QueryDeviceEventStats S ca beginTime endTime userId c =
     with_user S ca userId (\<lambda>ret. ((ret, []), c)) (\<lambda>userId.
       let ret = CheckSystemAppOrNativePermission ca
       in if ret = OK then
            (let (r, c1) = Core_QueryDeviceEventStats (se_core S) beginTime endTime userId c in (core_answer [] r, c1))
          else ((ret, []), c))"

definition Service_QueryNotificationEventStats ::
    "('d, 'w, 'g, 'q) service_env \<Rightarrow> caller \<Rightarrow> int \<Rightarrow> int \<Rightarrow> int \<Rightarrow> ('d, 'w, 'g, 'q) core \<Rightarrow>
     (int \<times> event_stats list) \<times> ('d, 'w, 'g, 'q) core" where
  "Service_QueryNotificationEventStats S ca beginTime endTime userId c =
     with_user S ca userId (\<lambda>ret. ((ret, []), c)) (\<lambda>userId.
       let ret = CheckSystemAppOrNativePermission ca
       in if ret = OK then
            (let (r, c1) = Core_QueryNotificationEventStats (se_core S) beginTime endTime userId c
             in (core_answer [] r, c1))
          else ((ret, []), c))"

section \<open>Module records\<close>

definition SerModuleProperties ::
    "hap_module_info \<Rightarrow> application_info \<Rightarrow> ability_info \<Rightarrow> module_record \<Rightarrow> module_record" where
  "SerModuleProperties hapModuleInfo appInfo abilityInfo moduleRecord = moduleRecord \<lparr>
     mr_deviceId := ai_deviceId appInfo, mr_abilityName := bi_name abilityInfo,
     mr_appLabelId := ai_labelId appInfo, mr_labelId := hm_labelId hapModuleInfo,
     mr_abilityLableId := bi_labelId abilityInfo, mr_descriptionId := bi_descriptionId abilityInfo,
     mr_abilityIconId := bi_iconId abilityInfo, mr_installFreeSupported := hm_installationFree hapModuleInfo \<rparr>"

text \<open>The inner loop stops at the main page ability, or at the first page ability when there is none.\<close>

definition QueryModuleRecordInfos ::
    "('d, 'w, 'g, 'q) service_env \<Rightarrow> module_record \<Rightarrow> module_record" where
  "QueryModuleRecordInfos S moduleRecord =
     (case se_appInfo S (mr_bundleName moduleRecord) (mr_userId moduleRecord) of
        None \<Rightarrow> moduleRecord
      | Some appInfo \<Rightarrow>
          (case se_bundleInfo S (mr_bundleName moduleRecord) (mr_userId moduleRecord) of
             None \<Rightarrow> moduleRecord
           | Some hapModuleInfos \<Rightarrow>
               fold (\<lambda>oneModuleInfo m.
                   if hm_moduleName oneModuleInfo = mr_moduleName m then
                     (case find (\<lambda>a. bi_isPage a \<and> (hm_mainAbility oneModuleInfo = '''' \<or>
                             hm_mainAbility oneModuleInfo = bi_name a)) (hm_abilityInfos oneModuleInfo) of
                        None \<Rightarrow> m
                      | Some oneAbilityInfo \<Rightarrow> SerModuleProperties oneModuleInfo appInfo oneAbilityInfo m)
                   else m)
                 hapModuleInfos moduleRecord))"

definition Service_QueryModuleUsageRecords ::
    "('d, 'w, 'g, 'q) service_env \<Rightarrow> caller \<Rightarrow> int \<Rightarrow> int \<Rightarrow> ('d, 'w, 'g, 'q) core \<Rightarrow>
     (int \<times> module_record list) \<times> ('d, 'w, 'g, 'q) core" where
  "Service_QueryModuleUsageRecords S ca maxNum userId c =
     (if maxNum > 1000 \<or> maxNum \<le> 0 then ((errcode_num ERR_FIND_APP_USAGE_RECORDS_FAILED, []), c)
      else with_user S ca userId (\<lambda>ret. ((ret, []), c)) (\<lambda>userId.
        let ret = CheckSystemAppOrNativePermission ca
        in if ret = OK then
             (let (r, c1) = Core_QueryModuleUsageRecords (se_core S) maxNum userId c;
                  (ret, results) = core_answer [] r
              in ((ret, map (QueryModuleRecordInfos S) results), c1))
           else ((ret, []), c)))"

section \<open>Dumping\<close>

text \<open>The arguments are the converted strings; the answer is the error number and the text written.\<close>

abbreviation (input) newline :: string where "newline \<equiv> [CHR 0x0A]"

definition AllowDump :: "('d, 'w, 'g, 'q) service_env \<Rightarrow> caller \<Rightarrow> bool" where
  "AllowDump S ca \<longleftrightarrow> se_engMode S \<noteq> 0 \<and> ca_dumpPermission ca = PERMISSION_GRANTED"

definition DumpUsage :: string where
  "DumpUsage =
     ''usage: bundleactive dump [<options>]'' @ newline @
     ''options list:'' @ newline @
     ''  -h                                                             help menu'' @ newline @
     ''  -A                                                                                    '' @ newline @
     ''      Events [beginTime] [endTime] [userId]                      get events for one user'' @ newline @
     ''      PackageUsage [intervalType] [beginTime] [endTime] [userId] get package usage for one user'' @ newline @
     ''      ModuleUsage [maxNum] [userId]                              get module usage for one user'' @ newline"

definition DumpEvents ::
    "('d, 'w, 'g, 'q) service_env \<Rightarrow> string list \<Rightarrow> ('d, 'w, 'g, 'q) core \<Rightarrow>
     (int \<times> string list) \<times> ('d, 'w, 'g, 'q) core" where
  "DumpEvents S dumpOption c =
     (if length dumpOption \<noteq> 5 then ((- 1, []), c)
      else
        let beginTime = StringToInt64 (dumpOption ! 2);
            endTime = StringToInt64 (dumpOption ! 3);
            userId = StringToInt32 (dumpOption ! 4);
            (r, c1) = Core_QueryBundleEvents (se_core S) userId beginTime endTime '''' c
        in ((- 1, map Event_ToString (snd (core_answer [] r))), c1))"

definition DumpPackageUsage ::
    "('d, 'w, 'g, 'q) service_env \<Rightarrow> string list \<Rightarrow> ('d, 'w, 'g, 'q) core \<Rightarrow>
     (int \<times> string list) \<times> ('d, 'w, 'g, 'q) core" where
  "DumpPackageUsage S dumpOption c =
     (if length dumpOption \<noteq> 6 then ((- 1, []), c)
      else
        let intervalType = ConvertIntervalType (StringToInt32 (dumpOption ! 2));
            beginTime = StringToInt64 (dumpOption ! 3);
            endTime = StringToInt64 (dumpOption ! 4);
            userId = StringToInt32 (dumpOption ! 5);
            (r, c1) = Core_QueryBundleStatsInfos (se_core S) userId intervalType beginTime endTime '''' c
        in ((- 1, map PackageStats_ToString (MergePackageStats (snd (core_answer [] r)))), c1))"

definition module_lines :: "module_record \<Rightarrow> string list" where
  "module_lines r = ModuleRecord_ToString r #
     map (\<lambda>i. ''form '' @ int_to_string (int i + 1) @ '', '' @ FormRecord_ToString (mr_formRecords r ! i))
       [0..<length (mr_formRecords r)]"

definition DumpModuleUsage ::
    "('d, 'w, 'g, 'q) service_env \<Rightarrow> string list \<Rightarrow> ('d, 'w, 'g, 'q) core \<Rightarrow>
     (int \<times> string list) \<times> ('d, 'w, 'g, 'q) core" where
  "DumpModuleUsage S dumpOption c =
     (if length dumpOption \<noteq> 4 then ((- 1, []), c)
      else
        let maxNum = StringToInt32 (dumpOption ! 2);
            userId = StringToInt32 (dumpOption ! 3);
            (r, c1) = Core_QueryModuleUsageRecords (se_core S) maxNum userId c;
            (ret, moduleResult) = core_answer [] r
        in ((ret, concat (map module_lines (map (QueryModuleRecordInfos S) moduleResult))), c1))"

definition DumpHighFreqHourUsage ::
    "('d, 'w, 'g, 'q) service_env \<Rightarrow> string list \<Rightarrow> ('d, 'w, 'g, 'q) core \<Rightarrow>
     (int \<times> string list) \<times> ('d, 'w, 'g, 'q) core" where
  "DumpHighFreqHourUsage S dumpOption c =
     (if length dumpOption \<noteq> 3 then ((- 1, []), c)
      else
        let userId = StringToInt32 (dumpOption ! 2);
            (r, c1) = Core_QueryHighFrequencyPeriodBundle (se_core S) userId c;
            (ret, appFreqHours) = core_answer [] r
        in ((ret, (''appFreqHour size '' @ int_to_string (int (length appFreqHours)) @ newline) #
             map HighFrequencyPeriod_ToString appFreqHours), c1))"

definition ShellDump ::
    "('d, 'w, 'g, 'q) service_env \<Rightarrow> string list \<Rightarrow> ('d, 'w, 'g, 'q) core \<Rightarrow>
     (int \<times> string list) \<times> ('d, 'w, 'g, 'q) core" where
  "ShellDump S dumpOption c =
     (if dumpOption ! 1 = ''Events'' then DumpEvents S dumpOption c
      else if dumpOption ! 1 = ''PackageUsage'' then DumpPackageUsage S dumpOption c
      else if dumpOption ! 1 = ''ModuleUsage'' then DumpModuleUsage S dumpOption c
      else if dumpOption ! 1 = ''HighFreqHourUsage'' then DumpHighFreqHourUsage S dumpOption c
      else ((- 1, []), c))"

definition Service_Dump ::
    "('d, 'w, 'g, 'q) service_env \<Rightarrow> caller \<Rightarrow> string list \<Rightarrow> ('d, 'w, 'g, 'q) core \<Rightarrow>
     (int \<times> string) \<times> ('d, 'w, 'g, 'q) core" where
  "Service_Dump S ca argsInStr c =
     (if \<not> AllowDump S ca then ((errcode_num ERR_PERMISSION_DENIED, ''''), c)
      else
        let ((ret, result), c1) =
              (if length argsInStr = 0 then ((OK, DumpUsage), c)
               else if argsInStr ! 0 = ''-h'' then ((OK, DumpUsage), c)
               else if argsInStr ! 0 = ''-A'' \<and> length argsInStr > 1 then
                 (let ((ret, infos), c1) = ShellDump S argsInStr c in ((ret, concat infos), c1))
               else ((errcode_num ERR_USAGE_STATS_INVALID_PARAM, ''BundleActiveService Error params.'' @ newline), c))
        in (if \<not> se_saved S then ((errcode_num ERR_USAGE_STATS_METHOD_CALLED_FAILED, ''''), c1)
            else ((ret, result), c1)))"

section \<open>Starting and stopping\<close>

text \<open>The parts of the service that its start brings up, and the calls it makes on other services. The two
build switches, the system abilities and what their registrations answer are given by an environment;
\<open>si_new\<close> is a core as its constructor leaves it.\<close>

datatype service_call =
    SubmitInit int
  | RegisterShutdownCallback
  | UnRegisterShutdownCallback
  | RegisterPowerStateCallback
  | UnRegisterPowerStateCallback
  | RegisterApplicationStateObserver
  | SubscribeBackgroundTask
  | RegisterVisibilityChangedListener
  | PublishAbility

record ('d, 'w, 'g, 'q) service =
  sv_ready :: bool
  sv_core :: "('d, 'w, 'g, 'q) core option"
  sv_isWindowVisibilityEnable :: bool
  sv_shutdownCallback :: bool
  sv_powerStateCallback :: bool
  sv_appStateObserver :: bool
  sv_continuousTaskObserver :: bool
  sv_windowVisibilityManager :: bool
  sv_visibilityChangedListener :: bool
  sv_calls :: "service_call list"

record ('d, 'w, 'g, 'q, 'j) init_env =
  si_core :: "('d, 'w, 'g, 'q) core_env"
  si_new :: "('d, 'w, 'g, 'q) core"
  si_clock :: "nat \<Rightarrow> int \<times> int"
  si_files :: config_files
  si_json :: "'j json_ops"
  si_reportQueue :: "'q \<times> 'q option"
  si_groupQueue :: "'g \<times> 'g option"
  si_abilityManager :: bool
  si_checkAbility :: "string \<Rightarrow> bool"
  si_getAbility :: "string \<Rightarrow> bool"
  si_powerEnabled :: bool
  si_bgTaskEnabled :: bool
  si_alloc :: bool

definition serviceIdSets :: "string list" where
  "serviceIdSets = [''APP_MGR_SERVICE_ID'', ''BUNDLE_MGR_SERVICE_SYS_ABILITY_ID'', ''POWER_MANAGER_SERVICE_ID'',
     ''COMMON_EVENT_SERVICE_ID'', ''BACKGROUND_TASK_MANAGER_SERVICE_ID'', ''TIME_SERVICE_ID'', ''WINDOW_MANAGER_SERVICE_ID'']"

abbreviation (input) DELAY_TIME :: int where "DELAY_TIME \<equiv> 2000 * 1000"

definition service_call :: "service_call \<Rightarrow> ('d, 'w, 'g, 'q) service \<Rightarrow> ('d, 'w, 'g, 'q) service" where
  "service_call call s = s \<lparr> sv_calls := sv_calls s @ [call] \<rparr>"

definition OnStart :: "('d, 'w, 'g, 'q) service \<Rightarrow> ('d, 'w, 'g, 'q) service" where
  "OnStart s = (if sv_ready s then s else service_call (SubmitInit 0) s)"

definition InitWindowVisibilitySubscriber ::
    "('d, 'w, 'g, 'q, 'j) init_env \<Rightarrow> ('d, 'w, 'g, 'q) service \<Rightarrow> ('d, 'w, 'g, 'q) service" where
  "InitWindowVisibilitySubscriber I s =
     (if \<not> sv_isWindowVisibilityEnable s then s
      else
        let s1 = s \<lparr> sv_windowVisibilityManager := True \<rparr>
        in if \<not> sv_visibilityChangedListener s1 then s1 \<lparr> sv_visibilityChangedListener := si_alloc I \<rparr> else s1)"

definition InitAppStateSubscriber ::
    "('d, 'w, 'g, 'q, 'j) init_env \<Rightarrow> ('d, 'w, 'g, 'q) service \<Rightarrow> ('d, 'w, 'g, 'q) service" where
  "InitAppStateSubscriber I s =
     (if \<not> sv_appStateObserver s then s \<lparr> sv_appStateObserver := si_alloc I \<rparr> else s)"

definition InitContinuousSubscriber ::
    "('d, 'w, 'g, 'q, 'j) init_env \<Rightarrow> ('d, 'w, 'g, 'q) service \<Rightarrow> ('d, 'w, 'g, 'q) service" where
  "InitContinuousSubscriber I s = (if si_bgTaskEnabled I then s \<lparr> sv_continuousTaskObserver := True \<rparr> else s)"

definition SubscribeAppState ::
    "('d, 'w, 'g, 'q, 'j) init_env \<Rightarrow> ('d, 'w, 'g, 'q) service \<Rightarrow> ('d, 'w, 'g, 'q) service" where
  "SubscribeAppState I s =
     (if \<not> sv_appStateObserver s \<or> \<not> (si_abilityManager I \<and> si_getAbility I ''APP_MGR_SERVICE_ID'') then s
      else service_call RegisterApplicationStateObserver s)"

definition SubscribeContinuousTask ::
    "('d, 'w, 'g, 'q, 'j) init_env \<Rightarrow> ('d, 'w, 'g, 'q) service \<Rightarrow> ('d, 'w, 'g, 'q) service" where
  "SubscribeContinuousTask I s =
     (if si_bgTaskEnabled I \<and> sv_continuousTaskObserver s then service_call SubscribeBackgroundTask s else s)"

definition SubscribeWindowVisibility :: "('d, 'w, 'g, 'q) service \<Rightarrow> ('d, 'w, 'g, 'q) service" where
  "SubscribeWindowVisibility s =
     (if \<not> sv_isWindowVisibilityEnable s then s
      else if \<not> sv_visibilityChangedListener s then s
      else service_call RegisterVisibilityChangedListener s)"

text \<open>The start has no answer when the core waits for a clock for ever.\<close>

definition InitService ::
    "('d, 'w, 'g, 'q, 'j) init_env \<Rightarrow> ('d, 'w, 'g, 'q) service \<Rightarrow> ('d, 'w, 'g, 'q) service option" where
  "InitService I s =
     (case (case sv_core s of
              None \<Rightarrow> Core_Init (si_core I) (si_clock I) (si_files I) (si_json I) (si_new I)
            | Some c \<Rightarrow> Some c) of
        None \<Rightarrow> None
      | Some c0 \<Rightarrow>
          let c1 = ReportController_Init (fst (si_reportQueue I)) (snd (si_reportQueue I)) c0;
              s1 = s \<lparr> sv_core := Some c1, sv_isWindowVisibilityEnable := Core_IsWindowVisibilityEnable c1 \<rparr>
          in if GetBundleReportHandler c1 = None then Some s1
             else
               let s2 = (if \<not> si_powerEnabled I then s1
                         else if \<not> si_alloc I then s1 \<lparr> sv_shutdownCallback := False, sv_powerStateCallback := False \<rparr>
                         else service_call RegisterPowerStateCallback (service_call RegisterShutdownCallback
                                (s1 \<lparr> sv_shutdownCallback := True, sv_powerStateCallback := True \<rparr>)));
                   s3 = InitContinuousSubscriber I (InitAppStateSubscriber I (InitWindowVisibilitySubscriber I s2));
                   s4 = s3 \<lparr> sv_core := Some (InitBundleGroupController (si_core I) (fst (si_groupQueue I))
                                            (snd (si_groupQueue I)) c1) \<rparr>
               in Some (SubscribeWindowVisibility (SubscribeContinuousTask I (SubscribeAppState I s4))))"

definition InitNecessaryState ::
    "('d, 'w, 'g, 'q, 'j) init_env \<Rightarrow> ('d, 'w, 'g, 'q) service \<Rightarrow> ('d, 'w, 'g, 'q) service option" where
  "InitNecessaryState I s =
     (if \<not> si_abilityManager I then Some (service_call (SubmitInit DELAY_TIME) s)
      else if \<not> list_all (si_checkAbility I) serviceIdSets then Some (service_call (SubmitInit DELAY_TIME) s)
      else if \<not> list_all (si_getAbility I) serviceIdSets then Some (service_call (SubmitInit DELAY_TIME) s)
      else
        (case InitService I s of
           None \<Rightarrow> None
         | Some s1 \<Rightarrow> Some (service_call PublishAbility (s1 \<lparr> sv_ready := True \<rparr>))))"

definition OnStop ::
    "('d, 'w, 'g, 'q, 'j) init_env \<Rightarrow> ('d, 'w, 'g, 'q) service \<Rightarrow> ('d, 'w, 'g, 'q) service" where
  "OnStop I s =
     (if si_powerEnabled I \<and> sv_shutdownCallback s
      then service_call UnRegisterPowerStateCallback (service_call UnRegisterShutdownCallback s)
      else s \<lparr> sv_core := map_option (Core_DeInit (si_core I)) (sv_core s), sv_ready := False \<rparr>)"

end
