(* ===== verification/Observers.thy ===== *)
theory Observers
  imports Service
begin

text \<open>The observers that feed the report queue (\<open>services/common\<close>): \<open>BundleActiveWindowVisibilityManager\<close>
with its listener, \<open>BundleActiveAppStateObserver\<close> and \<open>BundleActiveContinuousTaskObserver\<close>. They turn the
changes of windows, abilities and continuous tasks into events that are stamped with the boot time and sent
to the report handler.

The window manager, the ability manager and the background task manager are outside: their messages are
records. The global pointer to the visibility manager is an argument, null when the feature is off. The
state of an operation is the visibility manager together with the core.\<close>

section \<open>Windows\<close>

record window_info =
  wi_bundleName :: string
  wi_abilityName :: string
  wi_moduleName :: string
  wi_windowId :: nat
  wi_belowTotalOcclusion :: bool
  wi_isSystem :: bool
  wi_uid :: int
  wi_pid :: int

record window_data =
  wd_bundleName :: string
  wd_abilityName :: string
  wd_moduleName :: string
  wd_uid :: int
  wd_pid :: int
  wd_windowId :: nat
  wd_isVisible :: bool
  wd_isSystem :: bool

record ability_window =
  aw_bundleName :: string
  aw_abilityName :: string
  aw_moduleName :: string
  aw_uid :: int
  aw_windowVisibilityMap :: "(nat, bool) omap"

record visibility =
  vm_abilityWindowMap :: "(string, ability_window) omap"
  vm_appVisibilityMap :: "(string, bool) omap"

definition Visibility_new :: visibility where
  "Visibility_new = \<lparr> vm_abilityWindowMap = [], vm_appVisibilityMap = [] \<rparr>"

definition GenerateAbilityKey :: "int \<Rightarrow> string \<Rightarrow> string \<Rightarrow> string" where
  "GenerateAbilityKey uid abilityName moduleName = int_to_string uid @ ''|'' @ abilityName @ ''|'' @ moduleName"

definition AreAllWindowsInvisible :: "ability_window \<Rightarrow> bool" where
  "AreAllWindowsInvisible windowInfo \<longleftrightarrow> list_all (\<lambda>iter. \<not> snd iter) (aw_windowVisibilityMap windowInfo)"

definition ExtractWindowInfo :: "window_info \<Rightarrow> window_data" where
  "ExtractWindowInfo info = \<lparr> wd_bundleName = wi_bundleName info, wd_abilityName = wi_abilityName info,
     wd_moduleName = wi_moduleName info, wd_uid = wi_uid info, wd_pid = wi_pid info,
     wd_windowId = wi_windowId info, wd_isVisible = wi_belowTotalOcclusion info, wd_isSystem = wi_isSystem info \<rparr>"

definition HandleNewAbilityWindow :: "string \<Rightarrow> window_data \<Rightarrow> visibility \<Rightarrow> visibility" where
  "HandleNewAbilityWindow abilityKey windowData vm =
     (let windowInfo = \<lparr> aw_bundleName = wd_bundleName windowData, aw_abilityName = wd_abilityName windowData,
            aw_moduleName = wd_moduleName windowData, aw_uid = wd_uid windowData,
            aw_windowVisibilityMap = om_insert (wd_windowId windowData) (wd_isVisible windowData) [] \<rparr>
      in vm \<lparr> vm_abilityWindowMap := om_insert abilityKey windowInfo (vm_abilityWindowMap vm) \<rparr>)"

text \<open>\<open>entry\<close> is the key of the record that is handed in by reference.\<close>

definition UpdateExistingAbilityWindow :: "string \<Rightarrow> ability_window \<Rightarrow> window_data \<Rightarrow> visibility \<Rightarrow> visibility" where
  "UpdateExistingAbilityWindow entry windowInfo windowData vm =
     (let windows = (if wd_isVisible windowData
                     then om_insert (wd_windowId windowData) (wd_isVisible windowData) (aw_windowVisibilityMap windowInfo)
                     else om_erase (wd_windowId windowData) (aw_windowVisibilityMap windowInfo));
          windowInfo1 = windowInfo \<lparr> aw_windowVisibilityMap := windows \<rparr>;
          abilities = om_insert entry windowInfo1 (vm_abilityWindowMap vm);
          abilityKey = GenerateAbilityKey (aw_uid windowInfo1) (aw_abilityName windowInfo1) (aw_moduleName windowInfo1)
      in vm \<lparr> vm_abilityWindowMap := (if windows = [] then om_erase abilityKey abilities else abilities) \<rparr>)"

definition IsAllAbilitiesInvisible :: "string \<Rightarrow> visibility \<Rightarrow> bool" where
  "IsAllAbilitiesInvisible bundleName vm \<longleftrightarrow>
     list_all (\<lambda>iter. aw_bundleName (snd iter) = bundleName \<longrightarrow> AreAllWindowsInvisible (snd iter)) (vm_abilityWindowMap vm)"

definition ReportAppStateChanged ::
    "('d, 'w, 'g, 'q) service_env \<Rightarrow> string \<Rightarrow> string \<Rightarrow> string \<Rightarrow> int \<Rightarrow> bool \<Rightarrow>
     ('d, 'w, 'g, 'q) core \<Rightarrow> ('d, 'w, 'g, 'q) core" where
  "ReportAppStateChanged S bundleName abilityName moduleName uid toForeground c =
     (case GetUserId S uid of (ret, userId) \<Rightarrow>
        if ret \<noteq> OK \<or> userId = - 1 then c
        else
          let event = (Event_ability bundleName abilityName abilityName moduleName uid)
                \<lparr> ev_timeStamp := ce_bootTime (se_core S),
                  ev_eventId := (if toForeground then ABILITY_FOREGROUND else ABILITY_BACKGROUND) \<rparr>
          in ReportHandler_SendEvent (se_core S) MSG_REPORT_EVENT
               (ReportObj_copy ((ReportObj_new userId bundleName) \<lparr> ro_event := event \<rparr>)) 0 c)"

definition UpdateAppVisibility ::
    "('d, 'w, 'g, 'q) service_env \<Rightarrow> string \<Rightarrow> string \<Rightarrow> string \<Rightarrow> int \<Rightarrow>
     visibility \<times> ('d, 'w, 'g, 'q) core \<Rightarrow> visibility \<times> ('d, 'w, 'g, 'q) core" where
  "UpdateAppVisibility S bundleName abilityName moduleName uid = (\<lambda>(vm, c).
     let isVisible = (\<not> IsAllAbilitiesInvisible bundleName vm);
         wasVisible = (case om_find (vm_appVisibilityMap vm) bundleName of Some b \<Rightarrow> b | None \<Rightarrow> False);
         apps = (if isVisible then om_insert bundleName isVisible (vm_appVisibilityMap vm)
                 else om_erase bundleName (vm_appVisibilityMap vm))
     in (vm \<lparr> vm_appVisibilityMap := apps \<rparr>,
         if \<not> wasVisible \<and> isVisible then ReportAppStateChanged S bundleName abilityName moduleName uid True c
         else if wasVisible \<and> \<not> isVisible then ReportAppStateChanged S bundleName abilityName moduleName uid False c
         else c))"

text \<open>The first loop of \<open>OnWindowVisibilityChanged\<close>: one window, which may be null.\<close>

definition accepted :: "window_data \<Rightarrow> bool" where
  "accepted windowData \<longleftrightarrow> \<not> (wd_uid windowData \<le> 0 \<or> wd_bundleName windowData = '''') \<and>
     \<not> (wd_isSystem windowData \<or> wd_abilityName windowData = '''')"

definition enter_window ::
    "window_info option \<Rightarrow> visibility \<times> window_data list \<Rightarrow> visibility \<times> window_data list" where
  "enter_window info = (\<lambda>(vm, windowDataList).
     case info of
       None \<Rightarrow> (vm, windowDataList)
     | Some i \<Rightarrow>
         let windowData = ExtractWindowInfo i
         in if \<not> accepted windowData then (vm, windowDataList)
            else
              let abilityKey = GenerateAbilityKey (wd_uid windowData) (wd_abilityName windowData) (wd_moduleName windowData)
              in (case om_find (vm_abilityWindowMap vm) abilityKey of
                    None \<Rightarrow> HandleNewAbilityWindow abilityKey windowData vm
                  | Some windowInfo \<Rightarrow> UpdateExistingAbilityWindow abilityKey windowInfo windowData vm,
                  windowDataList @ [windowData]))"

definition OnWindowVisibilityChanged ::
    "('d, 'w, 'g, 'q) service_env \<Rightarrow> window_info option list \<Rightarrow>
     visibility \<times> ('d, 'w, 'g, 'q) core \<Rightarrow> visibility \<times> ('d, 'w, 'g, 'q) core" where
  "OnWindowVisibilityChanged S windowVisibilityInfo = (\<lambda>(vm, c).
     if windowVisibilityInfo = [] then (vm, c)
     else
       let (vm1, windowDataList) = fold enter_window windowVisibilityInfo (vm, [])
       in fold (\<lambda>windowData. UpdateAppVisibility S (wd_bundleName windowData) (wd_abilityName windowData)
                 (wd_moduleName windowData) (wd_uid windowData)) windowDataList (vm1, c))"

definition ClearAbilityWindowInfo ::
    "('d, 'w, 'g, 'q) service_env \<Rightarrow> string \<Rightarrow> string \<Rightarrow> string \<Rightarrow> int \<Rightarrow>
     visibility \<times> ('d, 'w, 'g, 'q) core \<Rightarrow> visibility \<times> ('d, 'w, 'g, 'q) core" where
  "ClearAbilityWindowInfo S bundleName abilityName moduleName uid = (\<lambda>(vm, c).
     let abilityKey = GenerateAbilityKey uid abilityName moduleName;
         vm1 = (case om_find (vm_abilityWindowMap vm) abilityKey of
                  None \<Rightarrow> vm
                | Some _ \<Rightarrow> vm \<lparr> vm_abilityWindowMap := om_erase abilityKey (vm_abilityWindowMap vm) \<rparr>)
     in UpdateAppVisibility S bundleName abilityName moduleName uid (vm1, c))"

text \<open>The listener hands the message on to the manager, when there is one.\<close>

definition Listener_OnWindowVisibilityChanged ::
    "('d, 'w, 'g, 'q) service_env \<Rightarrow> window_info option list \<Rightarrow>
     visibility option \<times> ('d, 'w, 'g, 'q) core \<Rightarrow> visibility option \<times> ('d, 'w, 'g, 'q) core" where
  "Listener_OnWindowVisibilityChanged S windowVisibilityInfo = (\<lambda>(manager, c).
     if windowVisibilityInfo = [] then (manager, c)
     else case manager of
       None \<Rightarrow> (manager, c)
     | Some vm \<Rightarrow> (let (vm1, c1) = OnWindowVisibilityChanged S windowVisibilityInfo (vm, c) in (Some vm1, c1)))"

section \<open>Abilities\<close>

datatype ability_state = StateForeground | StateBackground | StateTerminated | OtherAbilityState

text \<open>\<open>as_valid\<close> is the answer of \<open>ValidateAbilityStateData\<close> of the ability manager's library.\<close>

record ability_state_data =
  as_bundleName :: string
  as_abilityName :: string
  as_moduleName :: string
  as_uid :: int
  as_abilityType :: int
  as_abilityState :: ability_state
  as_valid :: bool

definition ValidateAbilityTypeData :: "ability_state_data \<Rightarrow> bool" where
  "ValidateAbilityTypeData d = (if \<not> as_valid d then False else if as_abilityType d \<noteq> 1 then False else True)"

definition ShouldProcessForegroundEvent :: "visibility option \<Rightarrow> string \<Rightarrow> bool" where
  "ShouldProcessForegroundEvent manager bundleName =
     (case manager of None \<Rightarrow> True | Some vm \<Rightarrow> if \<not> IsAllAbilitiesInvisible bundleName vm then True else False)"

definition OnAbilityStateChanged ::
    "('d, 'w, 'g, 'q) service_env \<Rightarrow> ability_state_data \<Rightarrow>
     visibility option \<times> ('d, 'w, 'g, 'q) core \<Rightarrow> visibility option \<times> ('d, 'w, 'g, 'q) core" where
  "OnAbilityStateChanged S d = (\<lambda>(manager, c).
     if \<not> ValidateAbilityTypeData d then (manager, c)
     else case GetUserId S (as_uid d) of (ret, userId) \<Rightarrow>
       if ret = OK \<and> userId \<noteq> - 1 then
         (let event = (Event_ability (as_bundleName d) (as_abilityName d) (as_abilityName d) (as_moduleName d) (as_uid d))
                \<lparr> ev_timeStamp := ce_bootTime (se_core S) \<rparr>;
              send = (\<lambda>eventId. ReportHandler_SendEvent (se_core S) MSG_REPORT_EVENT
                (ReportObj_copy ((ReportObj_new userId '''') \<lparr> ro_event := event \<lparr> ev_eventId := eventId \<rparr> \<rparr>)) 0)
          in case as_abilityState d of
               StateForeground \<Rightarrow>
                 if \<not> ShouldProcessForegroundEvent manager (as_bundleName d) then (manager, c)
                 else (manager, send ABILITY_FOREGROUND c)
             | StateBackground \<Rightarrow> (manager, send ABILITY_BACKGROUND c)
             | StateTerminated \<Rightarrow>
                 (case manager of
                    None \<Rightarrow> (manager, send ABILITY_STOP c)
                  | Some vm \<Rightarrow>
                      (let (vm1, c1) = ClearAbilityWindowInfo S (as_bundleName d) (as_abilityName d) (as_moduleName d)
                             (as_uid d) (vm, c)
                       in (Some vm1, send ABILITY_STOP c1)))
             | OtherAbilityState \<Rightarrow> (manager, c))
       else (manager, c))"

section \<open>Continuous tasks\<close>

record task_info =
  ti_uid :: int
  ti_abilityName :: string

text \<open>The observer keeps the proxy of the bundle manager (\<open>to_bundleMgr\<close>: it is there) and notes that a remote
object has died. The proxy is fetched when it is not there: \<open>br_asObject\<close> says whether an object is behind it.\<close>

record task_observer =
  to_bundleMgr :: bool
  to_isRemoteDied :: bool

record task_registry = bms_registry +
  br_asObject :: bool

definition TaskObserver_OnRemoteDied :: "task_observer \<Rightarrow> task_observer" where
  "TaskObserver_OnRemoteDied ob = ob \<lparr> to_isRemoteDied := True \<rparr>"

definition GetBundleMgr :: "task_registry \<Rightarrow> task_observer \<Rightarrow> bool \<times> task_observer" where
  "GetBundleMgr R ob =
     (if to_bundleMgr ob then (True, ob)
      else if \<not> br_manager R then (False, ob)
      else if \<not> br_object R then (False, ob)
      else
        let ob1 = ob \<lparr> to_bundleMgr := br_cast R \<rparr>
        in if \<not> to_bundleMgr ob1 then (False, ob1)
           else if \<not> br_asObject R then (False, ob1)
           else (True, ob1))"

definition ReportContinuousTaskEvent ::
    "('d, 'w, 'g, 'q) service_env \<Rightarrow> task_registry \<Rightarrow> task_info \<Rightarrow> bool \<Rightarrow>
     task_observer \<times> ('d, 'w, 'g, 'q) core \<Rightarrow> task_observer \<times> ('d, 'w, 'g, 'q) core" where
  "ReportContinuousTaskEvent S R info isStart = (\<lambda>(ob, c).
     let uid = ti_uid info; (reached, ob1) = GetBundleMgr R ob
     in if \<not> reached then (ob1, c)
        else
          let bundleName = se_name S uid
          in case GetUserId S uid of (ret, userId) \<Rightarrow>
               if ret = OK \<and> userId \<noteq> - 1 \<and> bundleName \<noteq> '''' then
                 (let event = (Event_task bundleName (ti_abilityName info) uid)
                        \<lparr> ev_timeStamp := ce_bootTime (se_core S),
                          ev_eventId := (if isStart then LONG_TIME_TASK_STARTTED else LONG_TIME_TASK_ENDED) \<rparr>
                  in (ob1, ReportHandler_SendEvent (se_core S) MSG_REPORT_EVENT
                       (ReportObj_copy ((ReportObj_new userId '''') \<lparr> ro_event := event \<rparr>)) 0 c))
               else (ob1, c))"

definition OnContinuousTaskStart ::
    "('d, 'w, 'g, 'q) service_env \<Rightarrow> task_registry \<Rightarrow> task_info \<Rightarrow>
     task_observer \<times> ('d, 'w, 'g, 'q) core \<Rightarrow> task_observer \<times> ('d, 'w, 'g, 'q) core" where
  "OnContinuousTaskStart S R info st = ReportContinuousTaskEvent S R info True st"

definition OnContinuousTaskStop ::
    "('d, 'w, 'g, 'q) service_env \<Rightarrow> task_registry \<Rightarrow> task_info \<Rightarrow>
     task_observer \<times> ('d, 'w, 'g, 'q) core \<Rightarrow> task_observer \<times> ('d, 'w, 'g, 'q) core" where
  "OnContinuousTaskStop S R info st = ReportContinuousTaskEvent S R info False st"

end
