(* ===== verification/ServiceRights.thy ===== *)
theory ServiceRights
  imports Service
begin

text \<open>What the entry points of the service promise: merging adds up the records of one bundle and uid, callers
without the right are refused and change nothing, at most the requested number of events and bundles is
answered, and the start brings everything up or tries again.\<close>

section \<open>Merging\<close>

definition merge_key :: "package_stats \<Rightarrow> string" where
  "merge_key s = pk_bundleName s @ int_to_string (pk_uid s)"

lemma merge_key_usage_key: "merge_key s = GetBundleUsageKey (pk_bundleName s) (pk_uid s)"
  by (simp add: merge_key_def GetBundleUsageKey_def)

definition records_of :: "string \<Rightarrow> package_stats list \<Rightarrow> package_stats list" where
  "records_of k xs = filter (\<lambda>s. merge_key s = k) xs"

lemma records_of_simps [simp]:
  "records_of k [] = []"
  "records_of k (x # xs) = (if merge_key x = k then x # records_of k xs else records_of k xs)"
  by (simp_all add: records_of_def)

lemma records_of_mem: "s \<in> set (records_of k xs) \<longleftrightarrow> s \<in> set xs \<and> merge_key s = k"
  by (auto simp: records_of_def)

lemma merge_one_find:
  "om_find (merge_one s m) k =
     (if merge_key s = k then Some (case om_find m k of Some old \<Rightarrow> MergeSamePackageStats old s | None \<Rightarrow> s)
      else om_find m k)"
  by (auto simp: merge_one_def merge_key_def Let_def split: option.splits)

lemma merge_one_wf: "om_wf m \<Longrightarrow> om_wf (merge_one s m)"
  by (simp add: merge_one_def Let_def split: option.splits)

lemma merge_fold_wf: "om_wf m \<Longrightarrow> om_wf (fold merge_one xs m)"
  by (induction xs arbitrary: m) (simp_all add: merge_one_wf)

lemma merge_fold_find:
  "om_find (fold merge_one xs m) k =
     (case om_find m k of
        Some r \<Rightarrow> Some (foldl MergeSamePackageStats r (records_of k xs))
      | None \<Rightarrow> (case records_of k xs of [] \<Rightarrow> None | r # rs \<Rightarrow> Some (foldl MergeSamePackageStats r rs)))"
proof (induction xs arbitrary: m)
  case Nil
  then show ?case by (simp split: option.split)
next
  case (Cons x xs)
  then show ?case by (simp add: merge_one_find split: option.split)
qed

text \<open>The records of one name add up.\<close>

lemma foldl_merge:
  assumes "\<forall>s \<in> set rs. pk_bundleName s = pk_bundleName r"
  shows "pk_bundleName (foldl MergeSamePackageStats r rs) = pk_bundleName r"
    "pk_uid (foldl MergeSamePackageStats r rs) = pk_uid r"
    "pk_totalInFrontTime (foldl MergeSamePackageStats r rs) = sum_list (map pk_totalInFrontTime (r # rs))"
    "pk_totalContiniousTaskUsedTime (foldl MergeSamePackageStats r rs) =
       sum_list (map pk_totalContiniousTaskUsedTime (r # rs))"
    "pk_startCount (foldl MergeSamePackageStats r rs) = sum_list (map pk_startCount (r # rs))"
    "pk_bundleStartedCount (foldl MergeSamePackageStats r rs) = sum_list (map pk_bundleStartedCount (r # rs))"
    "pk_lastTimeUsed (foldl MergeSamePackageStats r rs) = Max (pk_lastTimeUsed ` set (r # rs))"
    "pk_lastContiniousTaskUsed (foldl MergeSamePackageStats r rs) = Max (pk_lastContiniousTaskUsed ` set (r # rs))"
proof -
  let ?f = "foldl MergeSamePackageStats r rs"
  have "pk_bundleName ?f = pk_bundleName r \<and> pk_uid ?f = pk_uid r \<and>
      pk_totalInFrontTime ?f = sum_list (map pk_totalInFrontTime (r # rs)) \<and>
      pk_totalContiniousTaskUsedTime ?f = sum_list (map pk_totalContiniousTaskUsedTime (r # rs)) \<and>
      pk_startCount ?f = sum_list (map pk_startCount (r # rs)) \<and>
      pk_bundleStartedCount ?f = sum_list (map pk_bundleStartedCount (r # rs)) \<and>
      pk_lastTimeUsed ?f = Max (pk_lastTimeUsed ` set (r # rs)) \<and>
      pk_lastContiniousTaskUsed ?f = Max (pk_lastContiniousTaskUsed ` set (r # rs))"
    using assms
  proof (induction rs rule: rev_induct)
    case (snoc s rs)
    let ?g = "foldl MergeSamePackageStats r rs"
    have m: "Max (f ` set (r # rs @ [s])) = max (Max (f ` set (r # rs))) (f s)" for f :: "package_stats \<Rightarrow> int"
    proof -
      have "f ` set (r # rs @ [s]) = insert (f s) (f ` set (r # rs))" by auto
      then show ?thesis by (simp del: list.set set_append add: max.commute)
    qed
    have n: "\<forall>s \<in> set rs. pk_bundleName s = pk_bundleName r" "pk_bundleName s = pk_bundleName r"
      using snoc.prems by simp_all
    note IH = snoc.IH [OF n(1)]
    have "pk_bundleName ?g = pk_bundleName s"
      using IH by (simp only: n(2))
    then have "foldl MergeSamePackageStats r (rs @ [s]) = ?g \<lparr>
        pk_lastTimeUsed := max (pk_lastTimeUsed ?g) (pk_lastTimeUsed s),
        pk_lastContiniousTaskUsed := max (pk_lastContiniousTaskUsed ?g) (pk_lastContiniousTaskUsed s),
        pk_totalInFrontTime := pk_totalInFrontTime ?g + pk_totalInFrontTime s,
        pk_totalContiniousTaskUsedTime := pk_totalContiniousTaskUsedTime ?g + pk_totalContiniousTaskUsedTime s,
        pk_bundleStartedCount := pk_bundleStartedCount ?g + pk_bundleStartedCount s,
        pk_startCount := pk_startCount ?g + pk_startCount s \<rparr>"
      by (simp add: MergeSamePackageStats_def)
    then show ?case
      unfolding m using IH by (simp del: list.set)
  qed simp
  then show "pk_bundleName ?f = pk_bundleName r" "pk_uid ?f = pk_uid r"
    "pk_totalInFrontTime ?f = sum_list (map pk_totalInFrontTime (r # rs))"
    "pk_totalContiniousTaskUsedTime ?f = sum_list (map pk_totalContiniousTaskUsedTime (r # rs))"
    "pk_startCount ?f = sum_list (map pk_startCount (r # rs))"
    "pk_bundleStartedCount ?f = sum_list (map pk_bundleStartedCount (r # rs))"
    "pk_lastTimeUsed ?f = Max (pk_lastTimeUsed ` set (r # rs))"
    "pk_lastContiniousTaskUsed ?f = Max (pk_lastContiniousTaskUsed ` set (r # rs))"
    by blast+
qed

text \<open>\<open>summed xs r\<close>: \<open>r\<close> is what the records \<open>xs\<close> of one bundle and uid amount to.\<close>

definition summed :: "package_stats list \<Rightarrow> package_stats \<Rightarrow> bool" where
  "summed xs r \<longleftrightarrow>
     pk_totalInFrontTime r = sum_list (map pk_totalInFrontTime xs) \<and>
     pk_totalContiniousTaskUsedTime r = sum_list (map pk_totalContiniousTaskUsedTime xs) \<and>
     pk_startCount r = sum_list (map pk_startCount xs) \<and>
     pk_bundleStartedCount r = sum_list (map pk_bundleStartedCount xs) \<and>
     pk_lastTimeUsed r = Max (pk_lastTimeUsed ` set xs) \<and>
     pk_lastContiniousTaskUsed r = Max (pk_lastContiniousTaskUsed ` set xs)"

text \<open>No two bundles of the list are taken for one another. Uids printed with the same number of characters
are enough for that.\<close>

definition keys_apart :: "package_stats list \<Rightarrow> bool" where
  "keys_apart xs \<longleftrightarrow> (\<forall>s \<in> set xs. \<forall>t \<in> set xs. merge_key s = merge_key t \<longrightarrow> pk_bundleName s = pk_bundleName t)"

lemma same_width_apart:
  assumes "\<And>s. s \<in> set xs \<Longrightarrow> length (int_to_string (pk_uid s)) = w"
  shows "keys_apart xs"
  using assms by (auto simp: keys_apart_def merge_key_def)

lemma merge_entry:
  assumes "keys_apart xs"
  shows "om_find (fold merge_one xs []) k = (case records_of k xs of [] \<Rightarrow> None
    | r # rs \<Rightarrow> Some (foldl MergeSamePackageStats r rs))"
    "om_find (fold merge_one xs []) k = Some r \<Longrightarrow> merge_key r = k \<and> summed (records_of k xs) r"
proof -
  show find: "om_find (fold merge_one xs []) k = (case records_of k xs of [] \<Rightarrow> None
      | r # rs \<Rightarrow> Some (foldl MergeSamePackageStats r rs))"
    by (simp add: merge_fold_find)
  assume "om_find (fold merge_one xs []) k = Some r"
  then obtain r0 rs where r0: "records_of k xs = r0 # rs" "r = foldl MergeSamePackageStats r0 rs"
    by (auto simp: find split: list.splits)
  have sub: "s \<in> set xs \<and> merge_key s = k" if "s \<in> set (r0 # rs)" for s
    using that unfolding r0(1) [symmetric] records_of_mem .
  then have "\<forall>s \<in> set rs. pk_bundleName s = pk_bundleName r0"
    using assms unfolding keys_apart_def by (metis list.set_intros(1,2))
  note facts = foldl_merge [OF this, folded r0(2)]
  have "merge_key r = k"
    using facts(1,2) sub [of r0] by (simp add: merge_key_def)
  then show "merge_key r = k \<and> summed (records_of k xs) r"
    using facts(3-8) r0(1) by (simp add: summed_def)
qed

lemma merge_sums_facts:
  assumes "keys_apart xs"
  shows "distinct (map merge_key (MergePackageStats xs))" "merge_key ` set (MergePackageStats xs) = merge_key ` set xs"
    "r \<in> set (MergePackageStats xs) \<Longrightarrow> summed (filter (\<lambda>s. merge_key s = merge_key r) xs) r"
proof -
  have "distinct (map merge_key (MergePackageStats xs)) \<and>
    merge_key ` set (MergePackageStats xs) = merge_key ` set xs \<and>
    (\<forall>r \<in> set (MergePackageStats xs). summed (filter (\<lambda>s. merge_key s = merge_key r) xs) r)"
  proof (cases "xs = []")
    case False
    let ?m = "fold merge_one xs []"
    have wf: "om_wf ?m" by (simp add: merge_fold_wf)
    have entry: "merge_key r = k \<and> summed (records_of k xs) r" if "(k, r) \<in> set ?m" for k r
      using that merge_entry(2) [OF assms] om_find_mem [OF wf] by blast
    have out: "MergePackageStats xs = map snd ?m"
      using False by (simp add: MergePackageStats_def)
    have "map merge_key (map snd ?m) = map fst ?m"
      using entry by (auto simp: map_eq_conv)
    moreover have "fst ` set ?m = merge_key ` set xs"
    proof -
      have "k \<in> fst ` set ?m \<longleftrightarrow> records_of k xs \<noteq> []" for k
        using merge_entry(1) [OF assms, of k] map_of_eq_None_iff [of ?m k] by (cases "records_of k xs") simp_all
      moreover have "records_of k xs \<noteq> [] \<longleftrightarrow> k \<in> merge_key ` set xs" for k
        by (auto simp: records_of_def filter_empty_conv)
      ultimately show ?thesis by (intro set_eqI) simp
    qed
    ultimately have "distinct (map merge_key (map snd ?m)) \<and> merge_key ` set (map snd ?m) = merge_key ` set xs"
      using om_wf_distinct [OF wf] by (metis list.set_map)
    moreover have "summed (filter (\<lambda>s. merge_key s = merge_key r) xs) r" if "r \<in> set (map snd ?m)" for r
      using that entry by (auto simp: records_of_def)
    ultimately show ?thesis
      unfolding out by blast
  qed (simp add: MergePackageStats_def)
  then show "distinct (map merge_key (MergePackageStats xs))" "merge_key ` set (MergePackageStats xs) = merge_key ` set xs"
    "r \<in> set (MergePackageStats xs) \<Longrightarrow> summed (filter (\<lambda>s. merge_key s = merge_key r) xs) r"
    by blast+
qed

text \<open>C14: Merging answers exactly one record for each bundle and uid of the list, with the sums of their
times and counts and the latest of their last uses.\<close>

theorem merge_sums:
  assumes "keys_apart xs"
  shows "distinct (map merge_key (MergePackageStats xs)) \<and>
    merge_key ` set (MergePackageStats xs) = merge_key ` set xs \<and>
    (\<forall>r \<in> set (MergePackageStats xs). summed (filter (\<lambda>s. merge_key s = merge_key r) xs) r)"
  using merge_sums_facts [OF assms] by blast

definition demo_record :: "string \<Rightarrow> int \<Rightarrow> int \<Rightarrow> int \<Rightarrow> package_stats" where
  "demo_record n uid inFront used = PackageStats_default \<lparr> pk_bundleName := n, pk_uid := uid,
     pk_totalInFrontTime := inFront, pk_lastTimeUsed := used, pk_startCount := 1 \<rparr>"

theorem merge_sums_witness:
  "pk_totalInFrontTime (hd (MergePackageStats [demo_record ''a'' 7 30 5, demo_record ''a'' 7 12 9])) = 42"
proof -
  let ?xs = "[demo_record ''a'' 7 30 5, demo_record ''a'' 7 12 9]"
  have keys: "merge_key s = ''a'' @ int_to_string 7" if "s \<in> set ?xs" for s
    using that by (auto simp: merge_key_def demo_record_def)
  have "keys_apart ?xs"
    by (rule same_width_apart [where w = "length (int_to_string 7)"]) (auto simp: demo_record_def)
  note facts = merge_sums [OF this]
  let ?r = "hd (MergePackageStats ?xs)"
  have "MergePackageStats ?xs \<noteq> []"
    using facts [THEN conjunct2, THEN conjunct1] by (intro notI) simp
  then have mem: "?r \<in> set (MergePackageStats ?xs)"
    by (rule hd_in_set)
  then have "merge_key ?r \<in> merge_key ` set ?xs"
    unfolding facts [THEN conjunct2, THEN conjunct1, symmetric] by (rule imageI)
  then obtain s where "merge_key ?r = merge_key s" "s \<in> set ?xs"
    by (rule imageE)
  then have k: "merge_key ?r = ''a'' @ int_to_string 7"
    by (simp only: keys)
  then have "filter (\<lambda>s. merge_key s = merge_key ?r) ?xs = ?xs"
    unfolding k using keys by (intro filter_True ballI)
  then have "summed ?xs ?r"
    using facts [THEN conjunct2, THEN conjunct2, THEN bspec, OF mem] by (simp only:)
  then show ?thesis
    unfolding summed_def by (simp add: demo_record_def)
qed

text \<open>A name that ends in a digit can be taken for another: the second record is dropped.\<close>

lemma merge_collision_drops:
  "merge_key x = merge_key y \<Longrightarrow> pk_bundleName x \<noteq> pk_bundleName y \<Longrightarrow> MergePackageStats [x, y] = [x]"
  by (simp add: MergePackageStats_def merge_one_def MergeSamePackageStats_def merge_key_def)

lemma merge_collision_exists: "merge_key (demo_record ''a1'' 2 30 5) = merge_key (demo_record ''a'' 12 99 9)"
  by code_simp

section \<open>Rights\<close>

text \<open>A call that is refused: it answers the empty out-parameter, leaves the core alone, and, when the user
was named, an error.\<close>

definition refused :: "int \<Rightarrow> 'a \<Rightarrow> 'c \<Rightarrow> (int \<times> 'a) \<times> 'c \<Rightarrow> bool" where
  "refused userId d c answer \<longleftrightarrow> snd (fst answer) = d \<and> snd answer = c \<and> (userId \<noteq> - 1 \<longrightarrow> fst (fst answer) \<noteq> OK)"

lemma refused_user:
  assumes "\<And>u. refused 0 d c (f u)"
  shows "refused userId d c (with_user S ca userId (\<lambda>ret. ((ret, d), c)) f)"
  using assms by (auto simp: refused_def with_user_def split: prod.split)


definition demo_caller :: caller where
  "demo_caller = \<lparr> ca_uid = 7, ca_tokenId = 1, ca_isHap = True, ca_tokenFlag = FlagOther, ca_permission = 0,
     ca_systemApp = True, ca_processName = '''', ca_dumpPermission = 0 \<rparr>"

definition demo_service_env ::
    "(unit, unit, nat \<times> (nat \<times> group_task \<times> int) list, nat \<times> (nat \<times> core_task \<times> int) list) service_env" where
  "demo_service_env = \<lparr> se_core = demo_env, se_account = (\<lambda>_. (0, 100)), se_name = (\<lambda>_. ''app''),
     se_appIndex = (\<lambda>_. 0), se_appInfo = (\<lambda>_ _. None), se_bundleInfo = (\<lambda>_ _. None), se_sorter = stable_down,
     se_engMode = 0, se_saved = True \<rparr>"


text \<open>A denied query of one's own statistics is answered with success and no record.\<close>

lemma denied_looks_empty:
  "CheckBundleIsSystemAppAndHasPermission ca \<noteq> OK \<Longrightarrow> se_account S (ca_uid ca) = (OK, u) \<Longrightarrow> u \<noteq> - 1 \<Longrightarrow>
    Service_QueryBundleStatsInfos S ca i b e c = ((OK, []), c)"
  by (simp add: Service_QueryBundleStatsInfos_def with_user_def GetUserId_def)

text \<open>The answer to the latest use is the one of the first record, whichever uid was used last.\<close>

lemma latest_use_of_other_uid_ignored:
  assumes "CheckSystemAppOrNativePermission ca = OK" "u \<noteq> - 1" "pk_bundleName s1 = bn" "pk_bundleName s2 = bn"
    "merge_key s1 < merge_key s2"
    "Core_QueryBundleStatsInfos (se_core S) u PERIOD_DAILY (GetIntervalTypeStartTime (ce_zone (se_core S))
       (ce_systemTime (se_core S)) PERIOD_DAILY) (ce_systemTime (se_core S)) bn c = (Inr [s1, s2], c1)"
  shows "Service_QueryBundleTodayLatestUsedTime S ca bn u t c = ((OK, pk_lastTimeUsed s1), c1)"
proof -
  have "MergePackageStats [s1, s2] = [s1, s2]"
    using assms(3-5) by (auto simp: MergePackageStats_def merge_one_def merge_key_def Let_def)
  then show ?thesis
    using assms by (simp add: Service_QueryBundleTodayLatestUsedTime_def with_user_def Let_def)
qed

text \<open>Two of the dumps answer a failure in every case.\<close>

lemma dumps_answer_failure: "fst (fst (DumpEvents S opt c)) = - 1" "fst (fst (DumpPackageUsage S opt c)) = - 1"
  by (simp_all add: DumpEvents_def DumpPackageUsage_def Let_def case_prod_beta)

section \<open>Bounded answers\<close>

lemma left_out: "y \<in> set xs \<Longrightarrow> y \<notin> set ys \<Longrightarrow> y \<in># mset xs - mset ys"
  unfolding in_diff_count by (metis count_greater_zero_iff count_mset_0_iff set_mset_mset)

text \<open>C19: The bundles used most are the ones with the most starts. A permitted query for \<open>n\<close> bundles answers
one record for each of at most \<open>n\<close> bundles, with the sums of the days asked for, in falling order of the
starts, and no bundle left out was started more often than one that is answered.\<close>

theorem most_used_bundles:
  assumes "sorts_down (se_sorter S)" "CheckSystemAppOrNativePermission ca = OK" "0 < n" "1 \<le> days" "days \<le> 7"
    "Core_QueryBundleStatsInfos (se_core S) u PERIOD_DAILY (ce_systemTime (se_core S) - days * 24 * 60 * 60 * 1000)
       (ce_systemTime (se_core S)) '''' c = (Inr xs, c1)" "keys_apart xs"
  shows "\<exists>rs. Service_QueryHighFrequencyUsageBundleInfos S ca u n days c = ((OK, rs), c1) \<and>
    length rs = min (nat n) (card (merge_key ` set xs)) \<and> distinct (map merge_key rs) \<and>
    sorted_wrt (\<lambda>r r'. pk_startCount r' \<le> pk_startCount r) rs \<and>
    (\<forall>r \<in> set rs. summed (filter (\<lambda>s. merge_key s = merge_key r) xs) r) \<and>
    (\<forall>k \<in> merge_key ` set xs - merge_key ` set rs. \<forall>r \<in> set rs.
       sum_list (map pk_startCount (filter (\<lambda>s. merge_key s = k) xs)) \<le> pk_startCount r)"
proof -
  let ?out = "MergePackageStats xs"
  let ?all = "se_sorter S pk_startCount ?out"
  let ?rs = "take (nat n) ?all"
  have srt: "falling_sorter (se_sorter S)"
    using assms(1) by (simp add: sorts_down_def falling_sorter_def)
  note merged = merge_sums_facts [OF assms(7)]
  have all: "mset ?all = mset ?out" "set ?all = set ?out" "length ?all = length ?out"
    by (simp_all add: falling_sorter.perm [OF srt] falling_sorter.srt_set [OF srt] falling_sorter.srt_length [OF srt])
  have distinct: "distinct (map merge_key ?all)"
    using merged(1) by (simp add: falling_sorter.srt_distinct [OF srt])
  have answer: "Service_QueryHighFrequencyUsageBundleInfos S ca u n days c = ((OK, ?rs), c1)"
    using assms(2-6) by (auto simp: Service_QueryHighFrequencyUsageBundleInfos_def core_answer_def Let_def)
  have "length ?out = card (merge_key ` set xs)"
    using merged(1,2) distinct_card [of "map merge_key ?out"] by simp
  then have len: "length ?rs = min (nat n) (card (merge_key ` set xs))"
    by (simp add: all(3) min.commute)
  have falling: "sorted_wrt (\<lambda>r r'. pk_startCount r' \<le> pk_startCount r) ?rs"
    using falling_sorter.falling [OF srt, of pk_startCount ?out] sorted_wrt_take by (auto simp: sorted_wrt_map)
  have sums: "summed (filter (\<lambda>s. merge_key s = merge_key r) xs) r" if "r \<in> set ?rs" for r
    by (rule merged(3) [OF in_set_takeD [OF that, unfolded all(2)]])
  have rest: "sum_list (map pk_startCount (filter (\<lambda>s. merge_key s = k) xs)) \<le> pk_startCount r"
    if k: "k \<in> merge_key ` set xs - merge_key ` set ?rs" and r: "r \<in> set ?rs" for k r
  proof -
    have "k \<in> merge_key ` set ?out"
      unfolding merged(2) using k by (rule DiffD1)
    then obtain y where y: "k = merge_key y" "y \<in> set ?out"
      by (rule imageE)
    have "y \<notin> set ?rs"
      using k [unfolded y(1)] imageI [of y "set ?rs" merge_key] by (metis DiffD2)
    then have "y \<in># mset ?out - mset ?rs"
      by (rule left_out [OF y(2)])
    then have "pk_startCount y \<le> pk_startCount r"
      using falling_sorter.take_greatest [OF srt r] by blast
    then show ?thesis
      using merged(3) [OF y(2)] unfolding y(1) by (simp add: summed_def)
  qed
  show ?thesis
    using answer len distinct falling sums rest by (intro exI [of _ ?rs]) (simp add: distinct_take flip: take_map)
qed

definition demo_records :: "package_stats list" where
  "demo_records = [demo_record ''a'' 7 30 5, demo_record ''b'' 8 12 9, demo_record ''a'' 7 11 6]"

definition demo_query_env ::
    "(unit, unit, nat \<times> (nat \<times> group_task \<times> int) list, nat \<times> (nat \<times> core_task \<times> int) list) service_env" where
  "demo_query_env = demo_service_env \<lparr> se_core := demo_env \<lparr> ce_usage := blank_usage_db
     \<lparr> ud_QueryDatabaseUsageStats := (\<lambda>i b e u n d. (demo_records, d)) \<rparr> \<rparr> \<rparr>"

lemma with_query_present:
  assumes "CheckTimeChangeAndGetWallTime E u c = (t, c1)" "\<not> time_failed t" "refuse t = None"
    "om_find (co_userStatServices c1) u = Some s"
  shows "fst (with_query E u refuse f c) =
    fst (f (s \<lparr> us_uids := co_uids c1, us_database := ce_attach E (co_world c1) (us_database s) \<rparr>))"
  using assms by (simp add: with_query_def with_service_def GetUserDataAndInitializeIfNeeded_def Let_def case_prod_beta)

lemma demo_query_answer:
  "fst (Core_QueryBundleStatsInfos (se_core demo_query_env) 100 PERIOD_DAILY (- 81400000) 5000000 '''' flush_demo) =
    Inr demo_records"
proof -
  let ?E = "se_core demo_query_env"
  have E: "ce_systemTime ?E = 5000000" "ce_bootTime ?E = 900" "ce_attach ?E = (\<lambda>w d. ())"
    "ud_QueryDatabaseUsageStats (ce_usage ?E) = (\<lambda>i b e u n d. (demo_records, d))"
    by (simp_all add: demo_query_env_def demo_service_env_def demo_env_def ce_systemTime_def GetSystemTimeMs_def)
  have "co_systemTimeShot flush_demo = 4999200" "co_realTimeShot flush_demo = 100"
    by (simp_all add: flush_demo_def demo_core_def ReportController_Init_def Core_new_def)
  then have t: "CheckTimeChangeAndGetWallTime ?E 100 flush_demo = (5000000, flush_demo)"
    by (simp add: CheckTimeChangeAndGetWallTime_def Let_def E)
  have s: "om_find (co_userStatServices flush_demo) 100 = Some idle_service"
    by (simp add: flush_demo_def)
  show ?thesis
    unfolding Core_QueryBundleStatsInfos_def
    by (subst with_query_present [OF t _ _ s])
      (simp_all add: time_failed_def refuse_span_def UserService_QueryBundleStatsInfos_def Let_def E us_period_def
        idle_service_def UserService_new_def PeriodStats_default_def ONE_DAY_TIME_def)
qed

theorem most_used_bundles_witness:
  "\<exists>rs c1. Service_QueryHighFrequencyUsageBundleInfos demo_query_env demo_caller 100 1 1 flush_demo = ((0, rs), c1) \<and>
     length rs = 1"
proof -
  have now: "ce_systemTime (se_core demo_query_env) = 5000000"
    by (simp add: demo_query_env_def demo_service_env_def demo_env_def ce_systemTime_def GetSystemTimeMs_def)
  obtain c1 where core: "Core_QueryBundleStatsInfos (se_core demo_query_env) 100 PERIOD_DAILY (- 81400000) 5000000 '''' flush_demo =
      (Inr demo_records, c1)"
    using demo_query_answer by (metis prod.collapse)
  have "keys_apart demo_records"
    by (rule same_width_apart [where w = 1])
      (auto simp: demo_records_def demo_record_def int_to_string_def nat_to_string.simps)
  moreover have "sorts_down (se_sorter demo_query_env)"
    by (simp add: demo_query_env_def demo_service_env_def sorts_down_def stable_down_def)
  moreover have "CheckSystemAppOrNativePermission demo_caller = OK"
    by (simp add: demo_caller_def CheckSystemAppOrNativePermission_def CheckBundleIsSystemAppAndHasPermission_def)
  ultimately obtain rs where
    "Service_QueryHighFrequencyUsageBundleInfos demo_query_env demo_caller 100 1 1 flush_demo = ((0, rs), c1)"
    "length rs = min 1 (card (merge_key ` set demo_records))"
    using most_used_bundles [of demo_query_env demo_caller 1 1 100 flush_demo demo_records c1] core
    by (auto simp: now)
  moreover have "card (merge_key ` set demo_records) \<noteq> 0"
    by (simp add: demo_records_def)
  ultimately show ?thesis by auto
qed

section \<open>Own events\<close>

lemma with_query_answer:
  assumes "fst (with_query E u refuse f c) = Inr v"
  shows "\<exists>s. fst (f s) = Inr v"
  using assms unfolding with_query_def with_service_def Let_def case_prod_beta
  by (auto split: if_splits option.splits prod.splits)

lemma UserService_events_of:
  assumes "\<And>b e u d x. x \<in> set (fst (ud_QueryDatabaseEvents D b e u bn d)) \<Longrightarrow> ev_bundleName x = bn" "bn \<noteq> ''''"
    "fst (UserService_QueryBundleEvents D b e u bn s) = Inr es" "x \<in> set es"
  shows "ev_bundleName x = bn"
  using assms(2-4) assms(1)
  unfolding UserService_QueryBundleEvents_def Let_def case_prod_beta
  by (auto split: option.splits if_splits dest: in_set_dropD)



section \<open>Starting\<close>

definition abilities_up :: "('d, 'w, 'g, 'q, 'j) init_env \<Rightarrow> bool" where
  "abilities_up I \<longleftrightarrow> si_abilityManager I \<and> list_all (si_checkAbility I) serviceIdSets \<and> list_all (si_getAbility I) serviceIdSets"

lemma RegisterSubscriber_handler [simp]: "GetBundleReportHandler (RegisterSubscriber c) = GetBundleReportHandler c"
  by (simp add: RegisterSubscriber_def GetBundleReportHandler_def)

lemma InitBundleGroupController_handler [simp]:
  "GetBundleReportHandler (InitBundleGroupController E q0 q c) = GetBundleReportHandler c"
  unfolding InitBundleGroupController_def Let_def
  by (subst fold_keeps [where P = GetBundleReportHandler]) simp_all

lemma subscribe_keeps [simp]:
  "sv_core (SubscribeAppState I s) = sv_core s" "sv_core (SubscribeContinuousTask I s) = sv_core s"
  "sv_core (SubscribeWindowVisibility s) = sv_core s" "sv_core (service_call k s) = sv_core s"
  by (simp_all add: SubscribeAppState_def SubscribeContinuousTask_def SubscribeWindowVisibility_def service_call_def)

lemma init_keeps_calls [simp]:
  "sv_calls (InitWindowVisibilitySubscriber I s) = sv_calls s" "sv_calls (InitAppStateSubscriber I s) = sv_calls s"
  "sv_calls (InitContinuousSubscriber I s) = sv_calls s"
  by (simp_all add: InitWindowVisibilitySubscriber_def InitAppStateSubscriber_def InitContinuousSubscriber_def Let_def)

text \<open>The flags of the observers after the three \<open>Init\<close> calls.\<close>

definition observers_up :: "('d, 'w, 'g, 'q, 'j) init_env \<Rightarrow> ('d, 'w, 'g, 'q) service \<Rightarrow> ('d, 'w, 'g, 'q) service" where
  "observers_up I s = InitContinuousSubscriber I (InitAppStateSubscriber I (InitWindowVisibilitySubscriber I s))"

lemma observers_up_flags:
  assumes "si_alloc I"
  shows "sv_appStateObserver (observers_up I s)" "si_bgTaskEnabled I \<Longrightarrow> sv_continuousTaskObserver (observers_up I s)"
    "sv_isWindowVisibilityEnable (observers_up I s) = sv_isWindowVisibilityEnable s"
    "sv_isWindowVisibilityEnable s \<Longrightarrow> sv_visibilityChangedListener (observers_up I s)"
    "sv_shutdownCallback (observers_up I s) = sv_shutdownCallback s" "sv_calls (observers_up I s) = sv_calls s"
  using assms by (simp_all add: observers_up_def InitWindowVisibilitySubscriber_def InitAppStateSubscriber_def
      InitContinuousSubscriber_def Let_def)

text \<open>What a completed start has brought up.\<close>

definition started :: "('d, 'w, 'g, 'q, 'j) init_env \<Rightarrow> ('d, 'w, 'g, 'q) service \<Rightarrow> bool" where
  "started I s \<longleftrightarrow> sv_ready s \<and> (\<exists>c h. sv_core s = Some c \<and> GetBundleReportHandler c = Some h \<and> th_isInited h) \<and>
     (si_alloc I \<longrightarrow> RegisterApplicationStateObserver \<in> set (sv_calls s) \<and>
        (si_bgTaskEnabled I \<longrightarrow> SubscribeBackgroundTask \<in> set (sv_calls s)) \<and>
        (si_powerEnabled I \<longrightarrow> {RegisterShutdownCallback, RegisterPowerStateCallback} \<subseteq> set (sv_calls s)) \<and>
        (sv_isWindowVisibilityEnable s \<longrightarrow> RegisterVisibilityChangedListener \<in> set (sv_calls s)))"

lemma service_call_fields [simp]:
  "sv_calls (service_call k s) = sv_calls s @ [k]" "sv_ready (service_call k s) = sv_ready s"
  "sv_isWindowVisibilityEnable (service_call k s) = sv_isWindowVisibilityEnable s"
  "sv_appStateObserver (service_call k s) = sv_appStateObserver s"
  "sv_continuousTaskObserver (service_call k s) = sv_continuousTaskObserver s"
  "sv_visibilityChangedListener (service_call k s) = sv_visibilityChangedListener s"
  by (simp_all add: service_call_def)

lemma started_after_subscribing:
  assumes "si_alloc I" "si_abilityManager I \<and> si_getAbility I ''APP_MGR_SERVICE_ID''" "sv_appStateObserver s"
    "si_bgTaskEnabled I \<Longrightarrow> sv_continuousTaskObserver s"
    "sv_isWindowVisibilityEnable s \<Longrightarrow> sv_visibilityChangedListener s"
    "si_powerEnabled I \<Longrightarrow> {RegisterShutdownCallback, RegisterPowerStateCallback} \<subseteq> set (sv_calls s)"
    "sv_core s = Some c" "GetBundleReportHandler c = Some h" "th_isInited h"
  shows "started I (service_call PublishAbility
    ((SubscribeWindowVisibility (SubscribeContinuousTask I (SubscribeAppState I s))) \<lparr> sv_ready := True \<rparr>))"
  using assms unfolding started_def SubscribeWindowVisibility_def SubscribeContinuousTask_def SubscribeAppState_def
  by (cases "si_bgTaskEnabled I"; cases "si_powerEnabled I"; cases "sv_isWindowVisibilityEnable s") simp_all

text \<open>A start completes or tries again. While a system ability the service needs is missing, the attempt
changes nothing but submits one further attempt; once they are all there, and a clock answers, the attempt
returns with the service ready, its report queue running and every observer registered.\<close>

theorem start_completes_or_retries:
  assumes "sv_core s = None" "si_clock I k \<noteq> (- 1, - 1)" "\<forall>j < k. si_clock I j = (- 1, - 1)"
    "\<not> co_reportIsInit (si_new I)" "snd (si_reportQueue I) = Some q"
  shows "\<exists>s'. InitNecessaryState I s = Some s' \<and>
    (if abilities_up I then started I s' else s' = s \<lparr> sv_calls := sv_calls s @ [SubmitInit DELAY_TIME] \<rparr>)"
proof (cases "abilities_up I")
  case False
  then show ?thesis
    by (auto simp: InitNecessaryState_def abilities_up_def service_call_def)
next
  case True
  obtain c0 where c0: "Core_Init (si_core I) (si_clock I) (si_files I) (si_json I) (si_new I) = Some c0"
    "\<not> co_reportIsInit c0"
  proof
    show "Core_Init (si_core I) (si_clock I) (si_files I) (si_json I) (si_new I) =
        Some (ReportFileSizeEvent (si_core I) ((si_new I) \<lparr> co_realTimeShot := fst (si_clock I (Suc k)),
          co_systemTimeShot := snd (si_clock I (Suc k)), co_config := Some (LoadConfig (si_files I) (si_json I) ConfigReader_new) \<rparr>))"
      using wait_clock_some [of "si_clock I" 0 k] assms(2,3) by (simp add: Core_Init_def)
  qed (use assms(4) in \<open>simp add: ReportFileSizeEvent_def SubmitDelayTask_def\<close>)
  let ?c1 = "ReportController_Init (fst (si_reportQueue I)) (snd (si_reportQueue I)) c0"
  obtain h where h: "GetBundleReportHandler ?c1 = Some h" "th_isInited h"
    using c0(2) assms(5) by (simp add: ReportController_Init_def GetBundleReportHandler_def ReportHandler_Init_def)
  let ?s1 = "s \<lparr> sv_core := Some ?c1, sv_isWindowVisibilityEnable := Core_IsWindowVisibilityEnable ?c1 \<rparr>"
  let ?s2 = "if \<not> si_powerEnabled I then ?s1
     else if \<not> si_alloc I then ?s1 \<lparr> sv_shutdownCallback := False, sv_powerStateCallback := False \<rparr>
     else service_call RegisterPowerStateCallback (service_call RegisterShutdownCallback
            (?s1 \<lparr> sv_shutdownCallback := True, sv_powerStateCallback := True \<rparr>))"
  let ?c2 = "InitBundleGroupController (si_core I) (fst (si_groupQueue I)) (snd (si_groupQueue I)) ?c1"
  let ?s3 = "observers_up I ?s2 \<lparr> sv_core := Some ?c2 \<rparr>"
  let ?s4 = "SubscribeWindowVisibility (SubscribeContinuousTask I (SubscribeAppState I ?s3))"
  have "InitService I s = Some ?s4"
    unfolding InitService_def Let_def observers_up_def using assms(1) c0(1) h(1) by simp
  then have answer: "InitNecessaryState I s = Some (service_call PublishAbility (?s4 \<lparr> sv_ready := True \<rparr>))"
    using True by (simp add: InitNecessaryState_def abilities_up_def)
  have app: "si_abilityManager I \<and> si_getAbility I ''APP_MGR_SERVICE_ID''"
    using True by (simp add: abilities_up_def serviceIdSets_def)
  have "started I (service_call PublishAbility (?s4 \<lparr> sv_ready := True \<rparr>))"
  proof (cases "si_alloc I")
    case alloc: True
    note flags = observers_up_flags [OF alloc, of ?s2]
    show ?thesis
      by (rule started_after_subscribing [where c = ?c2 and h = h, OF alloc app]) (use flags alloc h in simp_all)
  next
    case False
    then show ?thesis
      using h by (simp add: started_def)
  qed
  then show ?thesis
    using answer True by simp
qed

definition demo_init ::
    "(unit, unit, nat \<times> (nat \<times> group_task \<times> int) list, nat \<times> (nat \<times> core_task \<times> int) list, unit) init_env" where
  "demo_init = \<lparr> si_core = demo_env,
     si_new = Core_new False group_demo [] \<lparr> la_isInit = False, la_map = [] \<rparr> () (0, []),
     si_clock = (\<lambda>n. (100, 5000)), si_files = \<lparr> cf_paths = None, cf_realpath = (\<lambda>_. None), cf_load = (\<lambda>_. None) \<rparr>,
     si_json = \<lparr> js_parse = (\<lambda>_. None), js_item = (\<lambda>_ _. None), js_isObject = (\<lambda>_. False), js_isNumber = (\<lambda>_. False),
       js_valueint = (\<lambda>_. 0) \<rparr>,
     si_reportQueue = ((0, []), Some (0, [])), si_groupQueue = ((0, []), Some (0, [])), si_abilityManager = True,
     si_checkAbility = (\<lambda>_. True), si_getAbility = (\<lambda>_. True), si_powerEnabled = True, si_bgTaskEnabled = True,
     si_alloc = True \<rparr>"

definition demo_stopped ::
    "(unit, unit, nat \<times> (nat \<times> group_task \<times> int) list, nat \<times> (nat \<times> core_task \<times> int) list) service" where
  "demo_stopped = \<lparr> sv_ready = False, sv_core = None, sv_isWindowVisibilityEnable = False, sv_shutdownCallback = False,
     sv_powerStateCallback = False, sv_appStateObserver = False, sv_continuousTaskObserver = False,
     sv_windowVisibilityManager = False, sv_visibilityChangedListener = False, sv_calls = [] \<rparr>"

theorem start_completes_or_retries_witness:
  "(\<exists>s'. InitNecessaryState demo_init demo_stopped = Some s' \<and> started demo_init s') \<and>
   InitNecessaryState (demo_init \<lparr> si_checkAbility := (\<lambda>a. a \<noteq> ''TIME_SERVICE_ID'') \<rparr>) demo_stopped =
     Some (demo_stopped \<lparr> sv_calls := [SubmitInit 2000000] \<rparr>)"
proof
  have up: "abilities_up demo_init"
    by (simp add: abilities_up_def demo_init_def serviceIdSets_def)
  show "\<exists>s'. InitNecessaryState demo_init demo_stopped = Some s' \<and> started demo_init s'"
    using start_completes_or_retries [of demo_stopped demo_init 0 "(0, [])"] up
    by (simp add: demo_stopped_def) (simp add: demo_init_def Core_new_def)
  let ?I = "demo_init \<lparr> si_checkAbility := (\<lambda>a. a \<noteq> ''TIME_SERVICE_ID'') \<rparr>"
  have "\<not> abilities_up ?I"
    by (simp add: abilities_up_def demo_init_def serviceIdSets_def)
  then show "InitNecessaryState ?I demo_stopped = Some (demo_stopped \<lparr> sv_calls := [SubmitInit 2000000] \<rparr>)"
    using start_completes_or_retries [of demo_stopped ?I 0 "(0, [])"]
    by (simp add: demo_stopped_def) (simp add: demo_init_def Core_new_def)
qed

text \<open>A stop of a service with a shutdown callback leaves the core running and the service ready, so that the
next start does nothing.\<close>

lemma stop_leaves_running:
  assumes "si_powerEnabled I" "sv_shutdownCallback s" "sv_ready s"
  shows "sv_core (OnStop I s) = sv_core s" "OnStart (OnStop I s) = OnStop I s"
  using assms by (simp_all add: OnStop_def OnStart_def)

text \<open>Events are only taken from two native processes, and are stamped with the time of the report.\<close>

lemma report_needs_process:
  assumes "Service_ReportEvent S ca ev u c = (ret, c')" "c' \<noteq> c"
  shows "ca_permission ca = PERMISSION_GRANTED" "ca_processName ca \<in> {''foundation'', ''resource_schedule_service''}" "ret = OK"
  using assms by (auto simp: Service_ReportEvent_def CheckNativePermission_def split: if_splits)

end
