(* ===== verification/ObserverReports.thy ===== *)
theory ObserverReports
  imports Observers ServiceRights
begin

text \<open>What the observers promise: the visibility kept for a bundle is the visibility of its windows, and every
change of it is reported exactly once.\<close>

section \<open>Windows and visibility\<close>

definition shown :: "string \<Rightarrow> visibility \<Rightarrow> bool" where
  "shown b vm \<longleftrightarrow> \<not> IsAllAbilitiesInvisible b vm"

lemma key_uid: "GenerateAbilityKey u a m = GenerateAbilityKey u' a' m' \<Longrightarrow> u = u'"
proof -
  have no: "takeWhile (\<lambda>c. c \<noteq> CHR ''|'') (nat_to_string n @ CHR ''|'' # xs) = nat_to_string n" for n xs
  proof -
    have "\<forall>c \<in> set (nat_to_string n). c \<noteq> CHR ''|''"
      using nat_to_string_digits [of n] by (auto simp: is_digit_def)
    then show ?thesis by (simp add: takeWhile_append)
  qed
  have "takeWhile (\<lambda>c. c \<noteq> CHR ''|'') (GenerateAbilityKey u a m) = int_to_string u" for u a m
    unfolding GenerateAbilityKey_def int_to_string_def using no by simp
  then show "GenerateAbilityKey u a m = GenerateAbilityKey u' a' m' \<Longrightarrow> u = u'"
    by (metis int_to_string_inject)
qed

text \<open>Every record is filed under its own key and names the bundle of its uid.\<close>

definition windows_inv :: "(int \<Rightarrow> string) \<Rightarrow> visibility \<Rightarrow> bool" where
  "windows_inv names vm \<longleftrightarrow> om_wf (vm_abilityWindowMap vm) \<and>
     (\<forall>k w. om_find (vm_abilityWindowMap vm) k = Some w \<longrightarrow>
        k = GenerateAbilityKey (aw_uid w) (aw_abilityName w) (aw_moduleName w) \<and> aw_bundleName w = names (aw_uid w))"

definition vis_inv :: "(int \<Rightarrow> string) \<Rightarrow> visibility \<Rightarrow> bool" where
  "vis_inv names vm \<longleftrightarrow> windows_inv names vm \<and>
     (\<forall>b. om_find (vm_appVisibilityMap vm) b = (if shown b vm then Some True else None))"

lemma shown_find:
  "om_wf (vm_abilityWindowMap vm) \<Longrightarrow> shown b vm \<longleftrightarrow>
    (\<exists>k w. om_find (vm_abilityWindowMap vm) k = Some w \<and> aw_bundleName w = b \<and> \<not> AreAllWindowsInvisible w)"
  by (force simp: shown_def IsAllAbilitiesInvisible_def list_all_iff om_find_mem)

lemma shown_cong:
  assumes "om_wf (vm_abilityWindowMap vm)" "om_wf (vm_abilityWindowMap vm')"
    "\<And>k w. aw_bundleName w = b \<Longrightarrow>
      om_find (vm_abilityWindowMap vm) k = Some w \<longleftrightarrow> om_find (vm_abilityWindowMap vm') k = Some w"
  shows "shown b vm = shown b vm'"
  unfolding shown_find [OF assms(1)] shown_find [OF assms(2)] using assms(3) by blast

lemma shown_apps [simp]: "shown b (vm \<lparr> vm_appVisibilityMap := m \<rparr>) = shown b vm"
  by (simp add: shown_def IsAllAbilitiesInvisible_def)

lemma windows_inv_apps [simp]: "windows_inv names (vm \<lparr> vm_appVisibilityMap := m \<rparr>) = windows_inv names vm"
  by (simp add: windows_inv_def)

lemma erase_window:
  assumes "windows_inv names vm" "k = GenerateAbilityKey uid a m" "bn = names uid"
    "vm' = vm \<lparr> vm_abilityWindowMap := om_erase k (vm_abilityWindowMap vm) \<rparr>"
  shows "windows_inv names vm'" "b \<noteq> bn \<Longrightarrow> shown b vm' = shown b vm"
proof -
  have wf: "om_wf (vm_abilityWindowMap vm)" "om_wf (vm_abilityWindowMap vm')"
    using assms(1,4) by (simp_all add: windows_inv_def)
  show "windows_inv names vm'"
    using assms(1,4) by (simp add: windows_inv_def)
  have "aw_bundleName w = bn" if "om_find (vm_abilityWindowMap vm) k = Some w" for w
    using assms(1-3) that key_uid [of uid a m] by (fastforce simp: windows_inv_def)
  then show "b \<noteq> bn \<Longrightarrow> shown b vm' = shown b vm"
    by (intro shown_cong [OF wf(2,1)]) (auto simp: assms(4))
qed

lemma put_window:
  assumes "windows_inv names vm" "k = GenerateAbilityKey (aw_uid w) (aw_abilityName w) (aw_moduleName w)"
    "aw_bundleName w = names (aw_uid w)"
    "vm' = vm \<lparr> vm_abilityWindowMap := om_insert k w (vm_abilityWindowMap vm) \<rparr>"
  shows "windows_inv names vm'" "b \<noteq> aw_bundleName w \<Longrightarrow> shown b vm' = shown b vm"
proof -
  have wf: "om_wf (vm_abilityWindowMap vm)" "om_wf (vm_abilityWindowMap vm')"
    using assms(1,4) by (simp_all add: windows_inv_def)
  show "windows_inv names vm'"
    using assms by (auto simp: windows_inv_def)
  have "aw_bundleName w' = aw_bundleName w" if "om_find (vm_abilityWindowMap vm) k = Some w'" for w'
    using assms(1-3) that key_uid [of "aw_uid w"] by (fastforce simp: windows_inv_def)
  then show "b \<noteq> aw_bundleName w \<Longrightarrow> shown b vm' = shown b vm"
    by (intro shown_cong [OF wf(2,1)]) (auto simp: assms(4))
qed

text \<open>Every window names the bundle of its uid.\<close>

definition named_windows :: "(int \<Rightarrow> string) \<Rightarrow> window_info option list \<Rightarrow> bool" where
  "named_windows names infos \<longleftrightarrow> (\<forall>i. Some i \<in> set infos \<longrightarrow> wi_bundleName i = names (wi_uid i))"

lemma enter_window_frame:
  assumes "windows_inv names vm" "case info of None \<Rightarrow> True | Some i \<Rightarrow> wi_bundleName i = names (wi_uid i)"
    "enter_window info (vm, ds) = (vm', ds')"
  shows "windows_inv names vm' \<and> vm_appVisibilityMap vm' = vm_appVisibilityMap vm \<and> set ds \<subseteq> set ds' \<and>
    (\<forall>b. b \<notin> wd_bundleName ` set ds' \<longrightarrow> shown b vm' = shown b vm)"
proof (cases "case info of None \<Rightarrow> True | Some i \<Rightarrow> \<not> accepted (ExtractWindowInfo i)")
  case True
  then show ?thesis
    using assms(1,3) by (auto simp: enter_window_def Let_def split: option.splits)
next
  case False
  then obtain i where i: "info = Some i" "accepted (ExtractWindowInfo i)"
    by (auto split: option.splits)
  define d where "d = ExtractWindowInfo i"
  define k where "k = GenerateAbilityKey (wd_uid d) (wd_abilityName d) (wd_moduleName d)"
  have name: "wd_bundleName d = names (wd_uid d)"
    using assms(2) i(1) by (simp add: d_def ExtractWindowInfo_def)
  show ?thesis
  proof (cases "om_find (vm_abilityWindowMap vm) k")
    case None
    define w where "w = \<lparr> aw_bundleName = wd_bundleName d, aw_abilityName = wd_abilityName d,
      aw_moduleName = wd_moduleName d, aw_uid = wd_uid d,
      aw_windowVisibilityMap = om_insert (wd_windowId d) (wd_isVisible d) [] \<rparr>"
    have "vm' = vm \<lparr> vm_abilityWindowMap := om_insert k w (vm_abilityWindowMap vm) \<rparr>" "ds' = ds @ [d]"
      using assms(3) i None unfolding enter_window_def Let_def
      by (simp_all add: HandleNewAbilityWindow_def Let_def w_def flip: d_def k_def)
    then show ?thesis
      using put_window [OF assms(1), of k w vm'] name by (auto simp: w_def k_def)
  next
    case (Some w)
    have same: "k = GenerateAbilityKey (aw_uid w) (aw_abilityName w) (aw_moduleName w)" "aw_bundleName w = names (aw_uid w)"
      using assms(1) Some by (auto simp: windows_inv_def)
    then have uid: "aw_uid w = wd_uid d"
      using key_uid unfolding k_def by metis
    define ws where "ws = (if wd_isVisible d then om_insert (wd_windowId d) (wd_isVisible d) (aw_windowVisibilityMap w)
      else om_erase (wd_windowId d) (aw_windowVisibilityMap w))"
    let ?w1 = "w \<lparr> aw_windowVisibilityMap := ws \<rparr>"
    let ?vm1 = "vm \<lparr> vm_abilityWindowMap := om_insert k ?w1 (vm_abilityWindowMap vm) \<rparr>"
    have vm': "vm' = (if ws = [] then ?vm1 \<lparr> vm_abilityWindowMap := om_erase k (vm_abilityWindowMap ?vm1) \<rparr> else ?vm1)"
      "ds' = ds @ [d]"
    proof -
      have "UpdateExistingAbilityWindow k w d vm = vm'" "ds' = ds @ [d]"
        using assms(3) i Some unfolding enter_window_def Let_def by (simp_all flip: d_def k_def)
      then show "vm' = (if ws = [] then ?vm1 \<lparr> vm_abilityWindowMap := om_erase k (vm_abilityWindowMap ?vm1) \<rparr> else ?vm1)"
        "ds' = ds @ [d]"
        unfolding UpdateExistingAbilityWindow_def Let_def ws_def [symmetric] by (auto simp flip: same(1))
    qed
    have put: "windows_inv names ?vm1" "\<And>b. b \<noteq> aw_bundleName w \<Longrightarrow> shown b ?vm1 = shown b vm"
      using put_window [OF assms(1), of k ?w1 ?vm1] same by simp_all
    have erase: "windows_inv names vm'" "\<And>b. b \<noteq> aw_bundleName w \<Longrightarrow> shown b vm' = shown b ?vm1"
      using put(1) vm'(1) erase_window [OF put(1) k_def refl, of "?vm1 \<lparr> vm_abilityWindowMap := om_erase k (vm_abilityWindowMap ?vm1) \<rparr>"]
        same(2) uid by (simp_all split: if_splits)
    then show ?thesis
      using vm' put(2) name uid same(2) by auto
  qed
qed

lemma enter_windows_frame:
  assumes "windows_inv names vm" "named_windows names infos" "fold enter_window infos (vm, ds) = (vm', ds')"
  shows "windows_inv names vm' \<and> vm_appVisibilityMap vm' = vm_appVisibilityMap vm \<and> set ds \<subseteq> set ds' \<and>
    (\<forall>b. b \<notin> wd_bundleName ` set ds' \<longrightarrow> shown b vm' = shown b vm)"
  using assms
proof (induction infos arbitrary: vm ds)
  case (Cons info infos)
  obtain vm1 ds1 where s: "enter_window info (vm, ds) = (vm1, ds1)" by (metis prod.collapse)
  have "case info of None \<Rightarrow> True | Some i \<Rightarrow> wi_bundleName i = names (wi_uid i)"
    using Cons.prems(2) by (auto simp: named_windows_def split: option.splits)
  note step = enter_window_frame [OF Cons.prems(1) this s]
  have "windows_inv names vm' \<and> vm_appVisibilityMap vm' = vm_appVisibilityMap vm1 \<and> set ds1 \<subseteq> set ds' \<and>
      (\<forall>b. b \<notin> wd_bundleName ` set ds' \<longrightarrow> shown b vm' = shown b vm1)"
    using Cons.IH [of vm1 ds1] step Cons.prems(2,3) s by (simp add: named_windows_def)
  then show ?case
    using step by (metis (no_types, lifting) image_mono subset_iff)
qed simp

section \<open>Reports\<close>

text \<open>A report of the manager: the bundle, the ability, the module, the uid and the direction.\<close>

type_synonym vis_report = "string \<times> string \<times> string \<times> int \<times> bool"

definition send_report ::
    "('d, 'w, 'g, 'q) service_env \<Rightarrow> vis_report \<Rightarrow> ('d, 'w, 'g, 'q) core \<Rightarrow> ('d, 'w, 'g, 'q) core" where
  "send_report S = (\<lambda>(b, a, m, u, fg). ReportAppStateChanged S b a m u fg)"

definition directions :: "string \<Rightarrow> vis_report list \<Rightarrow> bool list" where
  "directions b rs = map (\<lambda>(_, _, _, _, fg). fg) (filter (\<lambda>r. fst r = b) rs)"

definition apps_mark :: "(string, bool) omap \<Rightarrow> string \<Rightarrow> bool" where
  "apps_mark m b \<longleftrightarrow> (case om_find m b of Some v \<Rightarrow> v | None \<Rightarrow> False)"

lemma UpdateAppVisibility_reports:
  assumes "UpdateAppVisibility S b a m u (vm, c) = (vm', c')"
  shows "\<exists>rs. c' = fold (send_report S) rs c \<and> vm_abilityWindowMap vm' = vm_abilityWindowMap vm \<and>
    (\<forall>b'. om_find (vm_appVisibilityMap vm') b' =
       (if b' = b then (if shown b vm then Some True else None) else om_find (vm_appVisibilityMap vm) b')) \<and>
    (\<forall>b'. directions b' rs =
       (if b' = b \<and> apps_mark (vm_appVisibilityMap vm) b \<noteq> shown b vm then [shown b vm] else []))"
proof -
  let ?was = "apps_mark (vm_appVisibilityMap vm) b"
  let ?rs = "if ?was \<noteq> shown b vm then [(b, a, m, u, shown b vm)] else []"
  have "c' = fold (send_report S) ?rs c"
    using assms by (auto simp: UpdateAppVisibility_def Let_def send_report_def shown_def apps_mark_def split: if_splits)
  moreover have "vm_abilityWindowMap vm' = vm_abilityWindowMap vm"
    using assms by (auto simp: UpdateAppVisibility_def Let_def)
  moreover have "om_find (vm_appVisibilityMap vm') b' =
      (if b' = b then (if shown b vm then Some True else None) else om_find (vm_appVisibilityMap vm) b')" for b'
    using assms by (auto simp: UpdateAppVisibility_def Let_def shown_def)
  ultimately show ?thesis
    by (intro exI [of _ ?rs]) (auto simp: directions_def)
qed

lemma shown_windows: "vm_abilityWindowMap vm' = vm_abilityWindowMap vm \<Longrightarrow> shown b vm' = shown b vm"
  by (simp add: shown_def IsAllAbilitiesInvisible_def)

lemma UpdateAppVisibility_fold:
  assumes "fold (\<lambda>d. UpdateAppVisibility S (wd_bundleName d) (wd_abilityName d) (wd_moduleName d) (wd_uid d)) ds (vm, c) = (vm', c')"
  shows "\<exists>rs. c' = fold (send_report S) rs c \<and> vm_abilityWindowMap vm' = vm_abilityWindowMap vm \<and>
    (\<forall>b. om_find (vm_appVisibilityMap vm') b =
       (if b \<in> wd_bundleName ` set ds then (if shown b vm then Some True else None) else om_find (vm_appVisibilityMap vm) b)) \<and>
    (\<forall>b. directions b rs =
       (if b \<in> wd_bundleName ` set ds \<and> apps_mark (vm_appVisibilityMap vm) b \<noteq> shown b vm then [shown b vm] else []))"
  using assms
proof (induction ds arbitrary: vm c)
  case Nil
  then show ?case by (intro exI [of _ "[]"]) (simp add: directions_def)
next
  case (Cons d ds)
  let ?b = "wd_bundleName d"
  obtain vm1 c1 where s: "UpdateAppVisibility S ?b (wd_abilityName d) (wd_moduleName d) (wd_uid d) (vm, c) = (vm1, c1)"
    by (metis prod.collapse)
  obtain r1 where r1: "c1 = fold (send_report S) r1 c" "vm_abilityWindowMap vm1 = vm_abilityWindowMap vm"
    "\<And>b. om_find (vm_appVisibilityMap vm1) b =
       (if b = ?b then (if shown ?b vm then Some True else None) else om_find (vm_appVisibilityMap vm) b)"
    "\<And>b. directions b r1 = (if b = ?b \<and> apps_mark (vm_appVisibilityMap vm) ?b \<noteq> shown ?b vm then [shown ?b vm] else [])"
    using UpdateAppVisibility_reports [OF s] by blast
  have sh: "shown b vm1 = shown b vm" for b
    by (rule shown_windows [OF r1(2)])
  have mark: "apps_mark (vm_appVisibilityMap vm1) b = (if b = ?b then shown ?b vm else apps_mark (vm_appVisibilityMap vm) b)" for b
    by (simp add: apps_mark_def r1(3))
  obtain r2 where r2: "c' = fold (send_report S) r2 c1" "vm_abilityWindowMap vm' = vm_abilityWindowMap vm1"
    "\<And>b. om_find (vm_appVisibilityMap vm') b =
       (if b \<in> wd_bundleName ` set ds then (if shown b vm1 then Some True else None) else om_find (vm_appVisibilityMap vm1) b)"
    "\<And>b. directions b r2 =
       (if b \<in> wd_bundleName ` set ds \<and> apps_mark (vm_appVisibilityMap vm1) b \<noteq> shown b vm1 then [shown b vm1] else [])"
    using Cons.IH [of vm1 c1] Cons.prems s by auto
  have dirs: "directions b (r1 @ r2) = directions b r1 @ directions b r2" for b
    by (simp add: directions_def)
  show ?case
    by (rule exI [of _ "r1 @ r2"]) (auto simp: r2(1-3) r1(1-3) sh dirs r1(4) r2(4) mark)
qed

text \<open>C12: Every change of the visibility of an application is reported exactly once. When the windows name the
bundles of their uids, a message about windows leaves the visibility kept for each bundle equal to that of its
windows, and is the sending of one report for each bundle whose visibility changed, in its direction, and of
none for the others; so foreground and background reports of a bundle alternate.\<close>

theorem visibility_reported_once:
  assumes "vis_inv names vm" "named_windows names infos" "OnWindowVisibilityChanged S infos (vm, c) = (vm', c')"
  shows "vis_inv names vm' \<and> (\<exists>rs. c' = fold (send_report S) rs c \<and>
    (\<forall>b. directions b rs = (if shown b vm' = shown b vm then [] else [shown b vm'])))"
proof (cases "infos = []")
  case True
  then show ?thesis
    using assms by (auto simp: OnWindowVisibilityChanged_def directions_def intro: exI [of _ "[]"])
next
  case False
  obtain vm1 ds where e: "fold enter_window infos (vm, []) = (vm1, ds)" by (metis prod.collapse)
  have inv: "windows_inv names vm" "\<And>b. om_find (vm_appVisibilityMap vm) b = (if shown b vm then Some True else None)"
    using assms(1) by (simp_all add: vis_inv_def)
  have frame: "windows_inv names vm1" "vm_appVisibilityMap vm1 = vm_appVisibilityMap vm"
    "\<And>b. b \<notin> wd_bundleName ` set ds \<Longrightarrow> shown b vm1 = shown b vm"
    using enter_windows_frame [OF inv(1) assms(2) e] by simp_all
  have "fold (\<lambda>d. UpdateAppVisibility S (wd_bundleName d) (wd_abilityName d) (wd_moduleName d) (wd_uid d)) ds (vm1, c) = (vm', c')"
    using assms(3) False e by (simp add: OnWindowVisibilityChanged_def)
  from UpdateAppVisibility_fold [OF this] obtain rs where rs: "c' = fold (send_report S) rs c"
    "vm_abilityWindowMap vm' = vm_abilityWindowMap vm1"
    "\<And>b. om_find (vm_appVisibilityMap vm') b =
       (if b \<in> wd_bundleName ` set ds then (if shown b vm1 then Some True else None) else om_find (vm_appVisibilityMap vm1) b)"
    "\<And>b. directions b rs =
       (if b \<in> wd_bundleName ` set ds \<and> apps_mark (vm_appVisibilityMap vm1) b \<noteq> shown b vm1 then [shown b vm1] else [])"
    by blast
  have sh: "shown b vm' = shown b vm1" for b
    by (rule shown_windows [OF rs(2)])
  have mark: "apps_mark (vm_appVisibilityMap vm1) b = shown b vm" for b
    by (simp add: apps_mark_def frame(2) inv(2))
  have "vis_inv names vm'"
    using frame(1,3) rs(2,3) inv(2) by (auto simp: vis_inv_def windows_inv_def sh frame(2))
  moreover have "directions b rs = (if shown b vm' = shown b vm then [] else [shown b vm'])" for b
    using frame(3) [of b] by (auto simp: rs(4) sh mark)
  ultimately show ?thesis
    using rs(1) by blast
qed

definition demo_window :: "int \<Rightarrow> string \<Rightarrow> nat \<Rightarrow> bool \<Rightarrow> window_info" where
  "demo_window uid bundle wid v = \<lparr> wi_bundleName = bundle, wi_abilityName = ''Main'', wi_moduleName = ''m'', wi_windowId = wid,
     wi_belowTotalOcclusion = v, wi_isSystem = False, wi_uid = uid, wi_pid = 1 \<rparr>"

lemma Visibility_new_inv: "vis_inv names Visibility_new"
  by (simp add: vis_inv_def windows_inv_def Visibility_new_def shown_def IsAllAbilitiesInvisible_def)

theorem visibility_reported_once_witness:
  "\<exists>vm' c' rs. OnWindowVisibilityChanged demo_service_env [Some (demo_window 7 ''app'' 1 True), None, Some (demo_window 7 ''app'' 2 True)]
      (Visibility_new, demo_core) = (vm', c') \<and> c' = fold (send_report demo_service_env) rs demo_core \<and>
    directions ''app'' rs = [True]"
proof -
  let ?infos = "[Some (demo_window 7 ''app'' 1 True), None, Some (demo_window 7 ''app'' 2 True)]"
  obtain vm' c' where s: "OnWindowVisibilityChanged demo_service_env ?infos (Visibility_new, demo_core) = (vm', c')"
    by (metis prod.collapse)
  have "named_windows (\<lambda>_. ''app'') ?infos"
    by (auto simp: named_windows_def demo_window_def)
  from visibility_reported_once [OF Visibility_new_inv this s] obtain rs where
    rs: "c' = fold (send_report demo_service_env) rs demo_core"
    "directions ''app'' rs = (if shown ''app'' vm' = shown ''app'' Visibility_new then [] else [shown ''app'' vm'])"
    by blast
  have "fst (OnWindowVisibilityChanged demo_service_env ?infos (Visibility_new, demo_core)) = vm'"
    using s by simp
  moreover have "shown ''app'' (fst (OnWindowVisibilityChanged demo_service_env ?infos (Visibility_new, demo_core)))"
    by (simp add: OnWindowVisibilityChanged_def enter_window_def demo_window_def ExtractWindowInfo_def accepted_def Let_def
        Visibility_new_def HandleNewAbilityWindow_def UpdateExistingAbilityWindow_def UpdateAppVisibility_def shown_def
        IsAllAbilitiesInvisible_def AreAllWindowsInvisible_def)
  moreover have "\<not> shown ''app'' Visibility_new"
    by (simp add: shown_def IsAllAbilitiesInvisible_def Visibility_new_def)
  ultimately show ?thesis
    using s rs by auto
qed

section \<open>Abilities\<close>

definition ability_event :: "('d, 'w, 'g, 'q) service_env \<Rightarrow> ability_state_data \<Rightarrow> int \<Rightarrow> int \<Rightarrow> report_obj" where
  "ability_event S d userId eventId = (ReportObj_new userId '''') \<lparr> ro_event :=
     (Event_ability (as_bundleName d) (as_abilityName d) (as_abilityName d) (as_moduleName d) (as_uid d))
       \<lparr> ev_timeStamp := ce_bootTime (se_core S), ev_eventId := eventId \<rparr> \<rparr>"

lemma ClearAbilityWindowInfo_reports:
  assumes "vis_inv names vm" "b = names u" "ClearAbilityWindowInfo S b a m u (vm, c) = (vm', c')"
  shows "vis_inv names vm' \<and> (\<exists>rs. c' = fold (send_report S) rs c \<and>
    (\<forall>b. directions b rs = (if shown b vm' = shown b vm then [] else [shown b vm'])))"
proof -
  let ?k = "GenerateAbilityKey u a m"
  let ?vm1 = "vm \<lparr> vm_abilityWindowMap := om_erase ?k (vm_abilityWindowMap vm) \<rparr>"
  have inv: "windows_inv names vm" "\<And>b. om_find (vm_appVisibilityMap vm) b = (if shown b vm then Some True else None)"
    using assms(1) by (simp_all add: vis_inv_def)
  obtain vm1 where vm1: "vm1 = (case om_find (vm_abilityWindowMap vm) ?k of None \<Rightarrow> vm | Some _ \<Rightarrow> ?vm1)"
    "UpdateAppVisibility S b a m u (vm1, c) = (vm', c')"
    using assms(3) by (simp add: ClearAbilityWindowInfo_def Let_def)
  have frame: "windows_inv names vm1" "vm_appVisibilityMap vm1 = vm_appVisibilityMap vm"
    "\<And>b'. b' \<noteq> b \<Longrightarrow> shown b' vm1 = shown b' vm"
    using inv(1) erase_window [OF inv(1) refl assms(2) refl] by (auto simp: vm1(1) split: option.splits)
  from UpdateAppVisibility_reports [OF vm1(2)] obtain rs where rs: "c' = fold (send_report S) rs c"
    "vm_abilityWindowMap vm' = vm_abilityWindowMap vm1"
    "\<And>b'. om_find (vm_appVisibilityMap vm') b' =
       (if b' = b then (if shown b vm1 then Some True else None) else om_find (vm_appVisibilityMap vm1) b')"
    "\<And>b'. directions b' rs = (if b' = b \<and> apps_mark (vm_appVisibilityMap vm1) b \<noteq> shown b vm1 then [shown b vm1] else [])"
    by blast
  have sh: "shown b' vm' = shown b' vm1" for b'
    by (rule shown_windows [OF rs(2)])
  have mark: "apps_mark (vm_appVisibilityMap vm1) b' = shown b' vm" for b'
    by (simp add: apps_mark_def frame(2) inv(2))
  have "vis_inv names vm'"
    using frame(1,3) rs(2,3) inv(2) by (auto simp: vis_inv_def windows_inv_def sh frame(2))
  moreover have "directions b' rs = (if shown b' vm' = shown b' vm then [] else [shown b' vm'])" for b'
    using frame(3) [of b'] by (auto simp: rs(4) sh mark)
  ultimately show ?thesis
    using rs(1) by blast
qed

text \<open>A page that comes to the front counts only when a window of its application can be seen, and a page
that ends takes its windows along: its end is reported after the loss of visibility it causes, if it causes
one, and the visibility kept stays that of the windows.\<close>

theorem ability_changes_reported:
  assumes "vis_inv names vm" "as_bundleName d = names (as_uid d)" "as_valid d" "as_abilityType d = 1"
    "se_account S (as_uid d) = (OK, userId)" "userId \<noteq> - 1"
    "OnAbilityStateChanged S d (Some vm, c) = (manager', c')"
  shows "(as_abilityState d = StateForeground \<longrightarrow> manager' = Some vm \<and>
      c' = (if shown (as_bundleName d) vm
            then ReportHandler_SendEvent (se_core S) MSG_REPORT_EVENT (ability_event S d userId ABILITY_FOREGROUND) 0 c else c)) \<and>
    (as_abilityState d = StateTerminated \<longrightarrow> (\<exists>vm' rs. manager' = Some vm' \<and> vis_inv names vm' \<and>
      c' = ReportHandler_SendEvent (se_core S) MSG_REPORT_EVENT (ability_event S d userId ABILITY_STOP) 0
             (fold (send_report S) rs c) \<and>
      (\<forall>b. directions b rs = (if shown b vm' = shown b vm then [] else [shown b vm']))))"
proof -
  have copy: "ReportObj_copy ob = ob" for ob
    by (simp add: ReportObj_copy_def)
  have valid: "ValidateAbilityTypeData d"
    using assms(3,4) by (simp add: ValidateAbilityTypeData_def)
  have fg: "as_abilityState d = StateForeground \<Longrightarrow> manager' = Some vm \<and>
      c' = (if shown (as_bundleName d) vm
            then ReportHandler_SendEvent (se_core S) MSG_REPORT_EVENT (ability_event S d userId ABILITY_FOREGROUND) 0 c else c)"
    using assms(5-7) valid
    by (auto simp: OnAbilityStateChanged_def GetUserId_def ShouldProcessForegroundEvent_def shown_def ability_event_def copy
        split: if_splits)
  obtain vm1 c1 where s: "ClearAbilityWindowInfo S (as_bundleName d) (as_abilityName d) (as_moduleName d) (as_uid d) (vm, c) = (vm1, c1)"
    by (metis prod.collapse)
  from ClearAbilityWindowInfo_reports [OF assms(1,2) s] obtain rs where rs: "vis_inv names vm1" "c1 = fold (send_report S) rs c"
    "\<forall>b. directions b rs = (if shown b vm1 = shown b vm then [] else [shown b vm1])"
    by blast
  have "manager' = Some vm1 \<and>
      c' = ReportHandler_SendEvent (se_core S) MSG_REPORT_EVENT (ability_event S d userId ABILITY_STOP) 0 c1"
    if "as_abilityState d = StateTerminated"
    using assms(5-7) valid that s by (simp add: OnAbilityStateChanged_def GetUserId_def ability_event_def copy)
  then show ?thesis
    using fg rs by blast
qed

definition demo_ability :: "ability_state \<Rightarrow> ability_state_data" where
  "demo_ability st = \<lparr> as_bundleName = ''app'', as_abilityName = ''Main'', as_moduleName = ''m'', as_uid = 7, as_abilityType = 1,
     as_abilityState = st, as_valid = True \<rparr>"

theorem ability_changes_reported_witness:
  "OnAbilityStateChanged demo_service_env (demo_ability StateForeground) (Some Visibility_new, demo_core) =
   (Some Visibility_new, demo_core)"
proof -
  obtain manager' c' where
    s: "OnAbilityStateChanged demo_service_env (demo_ability StateForeground) (Some Visibility_new, demo_core) = (manager', c')"
    by (metis prod.collapse)
  have "\<not> shown ''app'' Visibility_new"
    by (simp add: shown_def IsAllAbilitiesInvisible_def Visibility_new_def)
  then show ?thesis
    using ability_changes_reported [OF Visibility_new_inv [of "\<lambda>_. ''app''"], of "demo_ability StateForeground" demo_service_env 100, OF _ _ _ _ _ s] s
    by (simp add: demo_ability_def demo_service_env_def)
qed

text \<open>A record stays although none of its windows is visible, when its first window was entered hidden.\<close>

lemma hidden_windows_stay:
  "om_find (vm_abilityWindowMap (fst (fold enter_window
     [Some (demo_window 7 ''app'' 1 False), Some (demo_window 7 ''app'' 2 True), Some (demo_window 7 ''app'' 2 False)]
     (Visibility_new, [])))) (GenerateAbilityKey 7 ''Main'' ''m'') \<noteq> None"
  "\<not> shown ''app'' (fst (fold enter_window
     [Some (demo_window 7 ''app'' 1 False), Some (demo_window 7 ''app'' 2 True), Some (demo_window 7 ''app'' 2 False)]
     (Visibility_new, [])))"
  by (simp_all add: enter_window_def demo_window_def ExtractWindowInfo_def accepted_def Let_def Visibility_new_def
      HandleNewAbilityWindow_def UpdateExistingAbilityWindow_def shown_def IsAllAbilitiesInvisible_def
      AreAllWindowsInvisible_def om_erase_def)

section \<open>Continuous tasks\<close>

text \<open>Once the proxy is there, every start and end of a task of a named application is reported for its user. The
mark that \<open>OnRemoteDied\<close> leaves is read by nobody.\<close>

lemma tasks_reported:
  assumes "to_bundleMgr ob" "se_account S (ti_uid info) = (OK, u)" "u \<noteq> - 1" "se_name S (ti_uid info) \<noteq> ''''"
  shows "ReportContinuousTaskEvent S R info isStart (ob, c) = (ob, ReportHandler_SendEvent (se_core S) MSG_REPORT_EVENT
    (ReportObj_copy ((ReportObj_new u '''') \<lparr> ro_event := (Event_task (se_name S (ti_uid info)) (ti_abilityName info) (ti_uid info))
       \<lparr> ev_timeStamp := ce_bootTime (se_core S),
         ev_eventId := (if isStart then LONG_TIME_TASK_STARTTED else LONG_TIME_TASK_ENDED) \<rparr> \<rparr>)) 0 c)"
  using assms by (simp add: ReportContinuousTaskEvent_def GetBundleMgr_def GetUserId_def Let_def)

lemma death_goes_unread:
  "snd (ReportContinuousTaskEvent S R info isStart (TaskObserver_OnRemoteDied ob, c)) =
     snd (ReportContinuousTaskEvent S R info isStart (ob, c))"
  by (simp add: ReportContinuousTaskEvent_def GetBundleMgr_def TaskObserver_OnRemoteDied_def Let_def split: prod.splits)

text \<open>A proxy without an object is refused once, kept, and taken from the next task on.\<close>

lemma empty_proxy_taken_later:
  assumes "\<not> to_bundleMgr ob" "br_manager R" "br_object R" "br_cast R" "\<not> br_asObject R"
  shows "\<exists>ob1. GetBundleMgr R ob = (False, ob1) \<and> GetBundleMgr R ob1 = (True, ob1)"
  using assms by (simp add: GetBundleMgr_def)

end
