(* ===== verification/CliText.thy ===== *)
theory CliText
  imports Main
begin

text \<open>The help texts of the command line tool (\<open>tools/ohos-usageStatsQuery/src/main.cpp\<close>): the lines
each help writes to the error stream, with the name of the program filled in and without the mark
\<open>[LOG]\<close> that every line gets.\<close>

definition PROGRAM_NAME :: string where
  "PROGRAM_NAME = ''ohos-usageStatsQuery''"

definition TOOL_DESCRIPTION :: string where
  "TOOL_DESCRIPTION =
    ''Application usage statistics query tool. '' @
    ''Provides query functions for application usage duration, event records, '' @
    ''high-frequency usage periods, etc. Used by developers or system administrators '' @
    ''to analyze application usage. Requires ohos.permission.cli.BUNDLE_ACTIVE_INFO permission.''"

definition ShowQueryStatsIntervalHelp :: "string list" where
  "ShowQueryStatsIntervalHelp =
    [PROGRAM_NAME @ '' query-stats-interval - Query application usage statistics by time interval. '' @
       ''Analyzes application usage duration and startup counts within a specific time range. '' @
       ''Only supports valid time range queries.'',
     '''',
     ''Usage:'',
     ''  '' @ PROGRAM_NAME @ '' query-stats-interval --interval <type> --begin <timestamp> '' @
       ''--end <timestamp> [--user <userId>]'',
     '''',
     ''Parameters:'',
     ''  --interval <integer>   Time interval type (required, range: 0-3, '' @
       ''0=daily, 1=weekly, 2=monthly, 3=yearly)'',
     ''  --begin <number>       Begin timestamp (required, unit: milliseconds)'',
     ''  --end <number>         End timestamp (required, unit: milliseconds)'',
     ''  --user <integer>       User ID (optional, default: -1 for current user)'',
     ''  --help                 Show help information'',
     '''',
     ''Examples:'',
     ''  '' @ PROGRAM_NAME @ '' query-stats-interval --interval 0 --begin 1609459200000 '' @
       ''--end 1609545600000'',
     ''  '' @ PROGRAM_NAME @ '' query-stats-interval --interval 1 --begin 1609459200000 '' @
       ''--end 1610064000000 --user 100'']"

definition ShowQueryEventsHelp :: "string list" where
  "ShowQueryEventsHelp =
    [PROGRAM_NAME @ '' query-events - Query application event records. '' @
       ''Retrieves application usage events within a specific time range '' @
       ''(such as startup, switch, etc.). Only supports valid time range queries.'',
     '''',
     ''Usage:'',
     ''  '' @ PROGRAM_NAME @ '' query-events --begin <timestamp> --end <timestamp> '' @
       ''[--user <userId>] [--max <count>]'',
     '''',
     ''Parameters:'',
     ''  --begin <number>       Begin timestamp (required, unit: milliseconds)'',
     ''  --end <number>         End timestamp (required, unit: milliseconds)'',
     ''  --user <integer>       User ID (optional, default: -1 for current user)'',
     ''  --max <integer>        Max return count (optional, range: 1-1000, default: 1000)'',
     ''  --help                 Show help information'',
     '''',
     ''Examples:'',
     ''  '' @ PROGRAM_NAME @ '' query-events --begin 1609459200000 --end 1609545600000'',
     ''  '' @ PROGRAM_NAME @ '' query-events --begin 1609459200000 --end 1609545600000 '' @
       ''--max 500 --user 100'']"

definition ShowQueryHighFreqBundleHelp :: "string list" where
  "ShowQueryHighFreqBundleHelp =
    [PROGRAM_NAME @ '' query-high-freq-bundle - Query high-frequency usage application list. '' @
       ''Retrieves the most frequently used applications within a recent time period. '' @
       ''Only supports valid query parameters.'',
     '''',
     ''Usage:'',
     ''  '' @ PROGRAM_NAME @ '' query-high-freq-bundle [--user <userId>] [--max <count>] '' @
       ''[--days <range>]'',
     '''',
     ''Parameters:'',
     ''  --user <integer>       User ID (optional, default: -1 for current user)'',
     ''  --max <integer>        Max return count (optional, range: 1-1000, default: 20)'',
     ''  --days <integer>       Query day range (optional, default: 7)'',
     ''  --help                 Show help information'',
     '''',
     ''Examples:'',
     ''  '' @ PROGRAM_NAME @ '' query-high-freq-bundle'',
     ''  '' @ PROGRAM_NAME @ '' query-high-freq-bundle --max 50 --days 14'',
     ''  '' @ PROGRAM_NAME @ '' query-high-freq-bundle --user 100 --max 50 --days 14'']"

definition ShowQueryNotificationStatsHelp :: "string list" where
  "ShowQueryNotificationStatsHelp =
    [PROGRAM_NAME @ '' query-notification-stats - Query notification event statistics. '' @
       ''Retrieves application notification usage within a specific time range. '' @
       ''Only supports valid time range queries.'',
     '''',
     ''Usage:'',
     ''  '' @ PROGRAM_NAME @ '' query-notification-stats --begin <timestamp> --end <timestamp> '' @
       ''[--user <userId>]'',
     '''',
     ''Parameters:'',
     ''  --begin <number>       Begin timestamp (required, unit: milliseconds)'',
     ''  --end <number>         End timestamp (required, unit: milliseconds)'',
     ''  --user <integer>       User ID (optional, default: -1 for current user)'',
     ''  --help                 Show help information'',
     '''',
     ''Examples:'',
     ''  '' @ PROGRAM_NAME @ '' query-notification-stats --begin 1609459200000 '' @ ''--end 1609545600000'',
     ''  '' @ PROGRAM_NAME @ '' query-notification-stats --begin 1609459200000 '' @
       ''--end 1609545600000 --user 100'']"

definition CheckBundleIdleHelp :: "string list" where
  "CheckBundleIdleHelp =
    [PROGRAM_NAME @ '' check-bundle-idle - Check if the specified application is in idle state. '' @
       ''Used to determine whether the application can be optimized by the system. '' @
       ''Only applicable to installed applications.'',
     '''',
     ''Usage:'',
     ''  '' @ PROGRAM_NAME @ '' check-bundle-idle --bundle <bundleName> [--user <userId>]'',
     '''',
     ''Parameters:'',
     ''  --bundle <string>      Bundle name (required, format: com.example.app)'',
     ''  --user <integer>       User ID (optional, default: -1 for current user)'',
     ''  --help                 Show help information'',
     '''',
     ''Examples:'',
     ''  '' @ PROGRAM_NAME @ '' check-bundle-idle --bundle com.example.app'',
     ''  '' @ PROGRAM_NAME @ '' check-bundle-idle --bundle com.example.app --user 100'']"

definition CheckBundlePeriodHelp :: "string list" where
  "CheckBundlePeriodHelp =
    [PROGRAM_NAME @ '' check-bundle-period - Check if application is in usage period (Native Token only). '' @
       ''Used to determine application active status. Not applicable for system application calls.'',
     '''',
     ''Usage:'',
     ''  '' @ PROGRAM_NAME @ '' check-bundle-period --bundle <bundleName> [--user <userId>]'',
     '''',
     ''Parameters:'',
     ''  --bundle <string>      Bundle name (required, format: com.example.app)'',
     ''  --user <integer>       User ID (optional, default: -1 for current user)'',
     ''  --help                 Show help information'',
     '''',
     ''Examples:'',
     ''  '' @ PROGRAM_NAME @ '' check-bundle-period --bundle com.example.app'',
     ''  '' @ PROGRAM_NAME @ '' check-bundle-period --bundle com.example.app --user 100'',
     '''',
     ''Note: This command only supports Native Token calls, system applications cannot use it.'']"

definition QueryAppGroupHelp :: "string list" where
  "QueryAppGroupHelp =
    [PROGRAM_NAME @ '' query-app-group - Query application priority group. '' @
       ''Used to get the priority level of the application in resource scheduling. '' @
       ''Only applicable to installed applications.'',
     '''',
     ''Usage:'',
     ''  '' @ PROGRAM_NAME @ '' query-app-group --bundle <bundleName> [--user <userId>]'',
     '''',
     ''Parameters:'',
     ''  --bundle <string>      Bundle name (required, format: com.example.app)'',
     ''  --user <integer>       User ID (optional, default: -1 for current user)'',
     ''  --help                 Show help information'',
     '''',
     ''Examples:'',
     ''  '' @ PROGRAM_NAME @ '' query-app-group --bundle com.example.app'',
     ''  '' @ PROGRAM_NAME @ '' query-app-group --bundle com.example.app --user 100'']"

definition QueryModuleRecordsHelp :: "string list" where
  "QueryModuleRecordsHelp =
    [PROGRAM_NAME @ '' query-module-records - Query module usage records. '' @
       ''Used to get usage information of application modules (e.g., Ability). '' @
       ''Only supports valid query parameters.'',
     '''',
     ''Usage:'',
     ''  '' @ PROGRAM_NAME @ '' query-module-records [--max <count>] [--user <userId>]'',
     '''',
     ''Parameters:'',
     ''  --max <integer>        Max return count (optional, range: 1-1000, default: 1000)'',
     ''  --user <integer>       User ID (optional, default: -1 for current user)'',
     ''  --help                 Show help information'',
     '''',
     ''Examples:'',
     ''  '' @ PROGRAM_NAME @ '' query-module-records'',
     ''  '' @ PROGRAM_NAME @ '' query-module-records --max 500'',
     ''  '' @ PROGRAM_NAME @ '' query-module-records --max 500 --user 100'']"

definition QueryHighFreqPeriodHelp :: "string list" where
  "QueryHighFreqPeriodHelp =
    [PROGRAM_NAME @ '' query-high-freq-period - Query high-frequency usage periods. '' @
       ''Used to get the hourly distribution of high-frequency application usage. '' @
       ''Only supports valid user queries.'',
     '''',
     ''Usage:'',
     ''  '' @ PROGRAM_NAME @ '' query-high-freq-period [--user <userId>]'',
     '''',
     ''Parameters:'',
     ''  --user <integer>       User ID (optional, default: -1 for current user)'',
     ''  --help                 Show help information'',
     '''',
     ''Examples:'',
     ''  '' @ PROGRAM_NAME @ '' query-high-freq-period'',
     ''  '' @ PROGRAM_NAME @ '' query-high-freq-period --user 100'']"

definition QueryLatestUsedTimeHelp :: "string list" where
  "QueryLatestUsedTimeHelp =
    [PROGRAM_NAME @ '' query-latest-used-time - Query application latest usage time today. '' @
       ''Used to get the timestamp of the last time the application was used today. '' @
       ''Only applicable to installed applications.'',
     '''',
     ''Usage:'',
     ''  '' @ PROGRAM_NAME @ '' query-latest-used-time --bundle <bundleName> [--user <userId>]'',
     '''',
     ''Parameters:'',
     ''  --bundle <string>      Bundle name (required, format: com.example.app)'',
     ''  --user <integer>       User ID (optional, default: -1 for current user)'',
     ''  --help                 Show help information'',
     '''',
     ''Examples:'',
     ''  '' @ PROGRAM_NAME @ '' query-latest-used-time --bundle com.example.app'',
     ''  '' @ PROGRAM_NAME @ '' query-latest-used-time --bundle com.example.app --user 100'']"

definition ShowMainHelp :: "string list" where
  "ShowMainHelp =
    [PROGRAM_NAME @ '' - '' @ TOOL_DESCRIPTION,
     '''',
     ''Usage:'',
     ''  '' @ PROGRAM_NAME @ '' <command> [options]'',
     '''',
     ''Parameters:'',
     ''  --help                 Show help information'',
     '''',
     ''SubCommands:'',
     ''  check-bundle-idle          Check if application is idle'',
     ''  check-bundle-period        Check if application is in usage period (Native Token only)'',
     ''  query-stats-interval       Query usage statistics by time interval'',
     ''  query-events               Query application event records'',
     ''  query-app-group            Query application priority group'',
     ''  query-high-freq-bundle     Query high-frequency usage applications'',
     ''  query-module-records       Query module usage records'',
     ''  query-notification-stats   Query notification event statistics'',
     ''  query-high-freq-period     Query high-frequency usage periods'',
     ''  query-latest-used-time     Query application latest usage time today'',
     '''',
     ''Examples:'',
     ''  '' @ PROGRAM_NAME @ '' --help'',
     ''  '' @ PROGRAM_NAME @ '' check-bundle-idle --help'',
     ''  '' @ PROGRAM_NAME @ '' check-bundle-idle --bundle com.example.app'',
     '''',
     ''Note: All commands require ohos.permission.cli.BUNDLE_ACTIVE_INFO permission'']"

end
