(* ===== verification/Client.thy ===== *)
theory Client
  imports ServiceRights
begin

text \<open>The client library, \<open>bundle_active_client.cpp\<close>. The proxy it calls is generated from
\<open>IBundleActiveService.idl\<close> and is not under src: it is a record of operations on the state \<open>'s\<close> of the
other side, one per method, that answer the error number and the value of the out-parameter. What the
system ability manager answers is a record too. The two switches of the client object, its proxy and its
death recipient, are its state; the recipient holds at most one observer. The lock is not modelled: every
operation holds it from its start to its end, apart from the wait of the recovery, which is cut into its
rounds.\<close>

record 's remote =
  rm_ReportEvent :: "event \<Rightarrow> int \<Rightarrow> 's \<Rightarrow> int \<times> 's"
  rm_IsBundleIdle :: "string \<Rightarrow> int \<Rightarrow> 's \<Rightarrow> (int \<times> bool) \<times> 's"
  rm_IsBundleUsePeriod :: "string \<Rightarrow> int \<Rightarrow> 's \<Rightarrow> (int \<times> bool) \<times> 's"
  rm_QueryBundleStatsInfoByInterval :: "int \<Rightarrow> int \<Rightarrow> int \<Rightarrow> int \<Rightarrow> 's \<Rightarrow> (int \<times> package_stats list) \<times> 's"
  rm_QueryBundleEvents :: "int \<Rightarrow> int \<Rightarrow> int \<Rightarrow> int \<Rightarrow> 's \<Rightarrow> (int \<times> event list) \<times> 's"
  rm_QueryBundleStatsInfos :: "int \<Rightarrow> int \<Rightarrow> int \<Rightarrow> 's \<Rightarrow> (int \<times> package_stats list) \<times> 's"
  rm_QueryHighFrequencyUsageBundleInfos :: "int \<Rightarrow> int \<Rightarrow> int \<Rightarrow> 's \<Rightarrow> (int \<times> package_stats list) \<times> 's"
  rm_QueryCurrentBundleEvents :: "int \<Rightarrow> int \<Rightarrow> int \<Rightarrow> 's \<Rightarrow> (int \<times> event list) \<times> 's"
  rm_QueryAppGroup :: "string \<Rightarrow> int \<Rightarrow> 's \<Rightarrow> (int \<times> int) \<times> 's"
  rm_SetAppGroup :: "string \<Rightarrow> int \<Rightarrow> int \<Rightarrow> 's \<Rightarrow> int \<times> 's"
  rm_QueryModuleUsageRecords :: "int \<Rightarrow> int \<Rightarrow> 's \<Rightarrow> (int \<times> module_record list) \<times> 's"
  rm_RegisterAppGroupCallBack :: "app_callback option \<Rightarrow> 's \<Rightarrow> int \<times> 's"
  rm_UnRegisterAppGroupCallBack :: "app_callback option \<Rightarrow> 's \<Rightarrow> int \<times> 's"
  rm_QueryDeviceEventStats :: "int \<Rightarrow> int \<Rightarrow> int \<Rightarrow> 's \<Rightarrow> (int \<times> event_stats list) \<times> 's"
  rm_QueryNotificationEventStats :: "int \<Rightarrow> int \<Rightarrow> int \<Rightarrow> 's \<Rightarrow> (int \<times> event_stats list) \<times> 's"
  rm_QueryHighFrequencyPeriodBundle :: "int \<Rightarrow> 's \<Rightarrow> (int \<times> high_freq_period list) \<times> 's"
  rm_QueryBundleTodayLatestUsedTime :: "string \<Rightarrow> int \<Rightarrow> 's \<Rightarrow> (int \<times> int) \<times> 's"

record registry =
  rg_manager :: bool
  rg_object :: bool
  rg_cast :: bool
  rg_alloc :: bool

text \<open>\<open>cl_recipient\<close> is \<open>None\<close> for a null recipient and else its observer; \<open>cl_linked\<close> says that the
recipient was added to the object behind the proxy; \<open>cl_posted\<close> counts the recoveries that were submitted
and have not ended.\<close>

record client =
  cl_proxy :: bool
  cl_recipient :: "app_callback option option"
  cl_linked :: bool
  cl_posted :: nat

definition Client_new :: client where
  "Client_new = \<lparr> cl_proxy = False, cl_recipient = None, cl_linked = False, cl_posted = 0 \<rparr>"

definition GetBundleActiveProxy :: "registry \<Rightarrow> client \<Rightarrow> int \<times> client" where
  "GetBundleActiveProxy R cl =
     (if cl_proxy cl then (OK, cl)
      else if \<not> rg_manager R then (errcode_num ERR_GET_SYSTEM_ABILITY_MANAGER_FAILED, cl)
      else if \<not> rg_object R then (errcode_num ERR_GET_SYSTEM_ABILITY_FAILED, cl)
      else if \<not> rg_cast R then (errcode_num ERR_REMOTE_OBJECT_IF_CAST_FAILED, cl)
      else
        let recipient = (if cl_recipient cl = None \<and> rg_alloc R then Some None else cl_recipient cl)
        in (OK, cl \<lparr> cl_proxy := True, cl_recipient := recipient, cl_linked := cl_linked cl \<or> recipient \<noteq> None \<rparr>))"

text \<open>The body every request shares: the proxy first, and its error when there is none.\<close>

definition via_proxy ::
    "registry \<Rightarrow> (int \<Rightarrow> 'r) \<Rightarrow> ('s \<Rightarrow> 'r \<times> 's) \<Rightarrow> client \<times> 's \<Rightarrow> 'r \<times> client \<times> 's" where
  "via_proxy R fail call = (\<lambda>(cl, s).
     let (ret, cl1) = GetBundleActiveProxy R cl
     in if ret \<noteq> OK then (fail ret, cl1, s)
        else let (answer, s1) = call s in (answer, cl1, s1))"

abbreviation (input) MAXNUM_UP_LIMIT :: int where "MAXNUM_UP_LIMIT \<equiv> 1000"

definition Client_ReportEvent ::
    "registry \<Rightarrow> 's remote \<Rightarrow> event \<Rightarrow> int \<Rightarrow> client \<times> 's \<Rightarrow> int \<times> client \<times> 's" where
  "Client_ReportEvent R M event userId = via_proxy R (\<lambda>ret. ret) (rm_ReportEvent M event userId)"

definition Client_IsBundleIdle ::
    "registry \<Rightarrow> 's remote \<Rightarrow> string \<Rightarrow> int \<Rightarrow> client \<times> 's \<Rightarrow> (int \<times> bool) \<times> client \<times> 's" where
  "Client_IsBundleIdle R M bundleName userId = via_proxy R (\<lambda>ret. (ret, False)) (rm_IsBundleIdle M bundleName userId)"

definition Client_IsBundleUsePeriod ::
    "registry \<Rightarrow> 's remote \<Rightarrow> string \<Rightarrow> int \<Rightarrow> client \<times> 's \<Rightarrow> (int \<times> bool) \<times> client \<times> 's" where
  "Client_IsBundleUsePeriod R M bundleName userId =
     via_proxy R (\<lambda>ret. (ret, False)) (rm_IsBundleUsePeriod M bundleName userId)"

definition Client_QueryBundleStatsInfoByInterval ::
    "registry \<Rightarrow> 's remote \<Rightarrow> int \<Rightarrow> int \<Rightarrow> int \<Rightarrow> int \<Rightarrow> client \<times> 's \<Rightarrow> (int \<times> package_stats list) \<times> client \<times> 's" where
  "Client_QueryBundleStatsInfoByInterval R M intervalType beginTime endTime userId =
     via_proxy R (\<lambda>ret. (ret, [])) (rm_QueryBundleStatsInfoByInterval M intervalType beginTime endTime userId)"

definition Client_QueryBundleTodayLatestUsedTime ::
    "registry \<Rightarrow> 's remote \<Rightarrow> string \<Rightarrow> int \<Rightarrow> client \<times> 's \<Rightarrow> (int \<times> int) \<times> client \<times> 's" where
  "Client_QueryBundleTodayLatestUsedTime R M bundleName userId =
     via_proxy R (\<lambda>ret. (ret, 0)) (rm_QueryBundleTodayLatestUsedTime M bundleName userId)"

definition Client_QueryHighFrequencyPeriodBundle ::
    "registry \<Rightarrow> 's remote \<Rightarrow> int \<Rightarrow> client \<times> 's \<Rightarrow> (int \<times> high_freq_period list) \<times> client \<times> 's" where
  "Client_QueryHighFrequencyPeriodBundle R M userId =
     via_proxy R (\<lambda>ret. (ret, [])) (rm_QueryHighFrequencyPeriodBundle M userId)"

definition Client_QueryBundleEvents ::
    "registry \<Rightarrow> 's remote \<Rightarrow> int \<Rightarrow> int \<Rightarrow> int \<Rightarrow> int \<Rightarrow> client \<times> 's \<Rightarrow> (int \<times> event list) \<times> client \<times> 's" where
  "Client_QueryBundleEvents R M beginTime endTime userId maxNum =
     via_proxy R (\<lambda>ret. (ret, [])) (rm_QueryBundleEvents M beginTime endTime userId maxNum)"

definition Client_SetAppGroup ::
    "registry \<Rightarrow> 's remote \<Rightarrow> string \<Rightarrow> int \<Rightarrow> int \<Rightarrow> client \<times> 's \<Rightarrow> int \<times> client \<times> 's" where
  "Client_SetAppGroup R M bundleName newGroup userId = via_proxy R (\<lambda>ret. ret) (rm_SetAppGroup M bundleName newGroup userId)"

definition Client_QueryBundleStatsInfos ::
    "registry \<Rightarrow> 's remote \<Rightarrow> int \<Rightarrow> int \<Rightarrow> int \<Rightarrow> client \<times> 's \<Rightarrow> (int \<times> package_stats list) \<times> client \<times> 's" where
  "Client_QueryBundleStatsInfos R M intervalType beginTime endTime =
     via_proxy R (\<lambda>ret. (ret, [])) (rm_QueryBundleStatsInfos M intervalType beginTime endTime)"

definition Client_QueryHighFrequencyUsageBundleInfos ::
    "registry \<Rightarrow> 's remote \<Rightarrow> int \<Rightarrow> int \<Rightarrow> int \<Rightarrow> client \<times> 's \<Rightarrow> (int \<times> package_stats list) \<times> client \<times> 's" where
  "Client_QueryHighFrequencyUsageBundleInfos R M userId maxNum queryDayRange =
     via_proxy R (\<lambda>ret. (ret, [])) (rm_QueryHighFrequencyUsageBundleInfos M userId maxNum queryDayRange)"

definition Client_QueryCurrentBundleEvents ::
    "registry \<Rightarrow> 's remote \<Rightarrow> int \<Rightarrow> int \<Rightarrow> int \<Rightarrow> client \<times> 's \<Rightarrow> (int \<times> event list) \<times> client \<times> 's" where
  "Client_QueryCurrentBundleEvents R M beginTime endTime maxNum =
     via_proxy R (\<lambda>ret. (ret, [])) (rm_QueryCurrentBundleEvents M beginTime endTime maxNum)"

definition Client_QueryAppGroup ::
    "registry \<Rightarrow> 's remote \<Rightarrow> string \<Rightarrow> int \<Rightarrow> client \<times> 's \<Rightarrow> (int \<times> int) \<times> client \<times> 's" where
  "Client_QueryAppGroup R M bundleName userId = via_proxy R (\<lambda>ret. (ret, 0)) (rm_QueryAppGroup M bundleName userId)"

text \<open>Only this request looks at its arguments before it asks for the proxy.\<close>

definition Client_QueryModuleUsageRecords ::
    "registry \<Rightarrow> 's remote \<Rightarrow> int \<Rightarrow> int \<Rightarrow> client \<times> 's \<Rightarrow> (int \<times> module_record list) \<times> client \<times> 's" where
  "Client_QueryModuleUsageRecords R M maxNum userId = (\<lambda>(cl, s).
     if maxNum \<le> 0 \<or> maxNum > MAXNUM_UP_LIMIT
     then ((param_num ERR_MAX_RECORDS_NUM_BIGER_THEN_ONE_THOUSAND, []), cl, s)
     else via_proxy R (\<lambda>ret. (ret, [])) (rm_QueryModuleUsageRecords M maxNum userId) (cl, s))"

definition Client_QueryDeviceEventStats ::
    "registry \<Rightarrow> 's remote \<Rightarrow> int \<Rightarrow> int \<Rightarrow> int \<Rightarrow> client \<times> 's \<Rightarrow> (int \<times> event_stats list) \<times> client \<times> 's" where
  "Client_QueryDeviceEventStats R M beginTime endTime userId =
     via_proxy R (\<lambda>ret. (ret, [])) (rm_QueryDeviceEventStats M beginTime endTime userId)"

definition Client_QueryNotificationEventStats ::
    "registry \<Rightarrow> 's remote \<Rightarrow> int \<Rightarrow> int \<Rightarrow> int \<Rightarrow> client \<times> 's \<Rightarrow> (int \<times> event_stats list) \<times> client \<times> 's" where
  "Client_QueryNotificationEventStats R M beginTime endTime userId =
     via_proxy R (\<lambda>ret. (ret, [])) (rm_QueryNotificationEventStats M beginTime endTime userId)"

section \<open>The observer and the death of the service\<close>

definition AddObserver :: "app_callback option \<Rightarrow> client \<Rightarrow> client" where
  "AddObserver observer cl =
     (if observer \<noteq> None then cl \<lparr> cl_recipient := Some observer \<rparr> else cl)"

definition RemoveObserver :: "client \<Rightarrow> client" where
  "RemoveObserver cl = cl \<lparr> cl_recipient := Some None \<rparr>"

definition Client_RegisterAppGroupCallBack ::
    "registry \<Rightarrow> 's remote \<Rightarrow> app_callback option \<Rightarrow> client \<times> 's \<Rightarrow> int \<times> client \<times> 's" where
  "Client_RegisterAppGroupCallBack R M observer = (\<lambda>(cl, s).
     let (ret, cl1) = GetBundleActiveProxy R cl
     in if ret \<noteq> OK then (ret, cl1, s)
        else
          let (ret, s1) = rm_RegisterAppGroupCallBack M observer s
          in (ret, if cl_recipient cl1 \<noteq> None \<and> ret = OK then AddObserver observer cl1 else cl1, s1))"

definition Client_UnRegisterAppGroupCallBack ::
    "registry \<Rightarrow> 's remote \<Rightarrow> app_callback option \<Rightarrow> client \<times> 's \<Rightarrow> int \<times> client \<times> 's" where
  "Client_UnRegisterAppGroupCallBack R M observer = (\<lambda>(cl, s).
     let (ret, cl1) = GetBundleActiveProxy R cl
     in if ret \<noteq> OK then (ret, cl1, s)
        else
          let (ret, s1) = rm_UnRegisterAppGroupCallBack M observer s
          in (ret, if cl_recipient cl1 \<noteq> None \<and> ret = OK then RemoveObserver cl1 else cl1, s1))"

definition OnRemoteDied :: "client \<Rightarrow> client" where
  "OnRemoteDied cl = cl \<lparr> cl_proxy := False, cl_linked := False, cl_posted := Suc (cl_posted cl) \<rparr>"

text \<open>One round of the loop of \<open>OnServiceDiedInner\<close>: the condition, and what follows the loop when it
fails. The answer says whether the recovery has ended.\<close>

definition recovery_round ::
    "registry \<Rightarrow> 's remote \<Rightarrow> client \<times> 's \<Rightarrow> bool \<times> client \<times> 's" where
  "recovery_round R M = (\<lambda>(cl, s).
     let (ret, cl1) = GetBundleActiveProxy R cl
     in if ret \<noteq> OK then (False, cl1, s)
        else
          let cl2 = cl1 \<lparr> cl_posted := cl_posted cl1 - 1 \<rparr>
          in (case cl_recipient cl2 of
                Some (Some observer) \<Rightarrow> (True, snd (Client_RegisterAppGroupCallBack R M (Some observer) (cl2, s)))
              | _ \<Rightarrow> (True, cl2, s)))"

text \<open>The whole of \<open>OnServiceDiedInner\<close> when nothing comes between its rounds: \<open>R n\<close> is what the system
ability manager answers in round \<open>n\<close>; the answer carries the number of the rounds that slept.\<close>

partial_function (option) OnServiceDiedInner ::
    "(nat \<Rightarrow> registry) \<Rightarrow> 's remote \<Rightarrow> nat \<Rightarrow> client \<times> 's \<Rightarrow> (nat \<times> client \<times> 's) option" where
  "OnServiceDiedInner R M n st =
     (case recovery_round (R n) M st of (ended, st1) \<Rightarrow>
        if ended then Some (n, st1) else OnServiceDiedInner R M (Suc n) st1)"

section \<open>The service as the other side\<close>

text \<open>The methods of the interface answered by the service for one caller, delivered without loss;
\<open>ReportEvent\<close> is one way, so the client learns only that it was sent. The service is there for the whole of a call, so its own checks for a missing core are not met.\<close>

definition service_remote ::
    "('d, 'w, 'g, 'q) service_env \<Rightarrow> caller \<Rightarrow> ('d, 'w, 'g, 'q) core remote" where
  "service_remote S ca = \<lparr>
     rm_ReportEvent = (\<lambda>event userId c. (OK, snd (Service_ReportEvent S ca event userId c))),
     rm_IsBundleIdle = (\<lambda>bundleName userId c. (Service_IsBundleIdle S ca bundleName userId c, c)),
     rm_IsBundleUsePeriod = Service_IsBundleUsePeriod S ca,
     rm_QueryBundleStatsInfoByInterval = Service_QueryBundleStatsInfoByInterval S ca,
     rm_QueryBundleEvents = Service_QueryBundleEvents S ca,
     rm_QueryBundleStatsInfos = Service_QueryBundleStatsInfos S ca,
     rm_QueryHighFrequencyUsageBundleInfos = Service_QueryHighFrequencyUsageBundleInfos S ca,
     rm_QueryCurrentBundleEvents = Service_QueryCurrentBundleEvents S ca,
     rm_QueryAppGroup = (\<lambda>bundleName userId c. (Service_QueryAppGroup S ca bundleName userId 0 c, c)),
     rm_SetAppGroup = Service_SetAppGroup S ca,
     rm_QueryModuleUsageRecords = Service_QueryModuleUsageRecords S ca,
     rm_RegisterAppGroupCallBack = Service_RegisterAppGroupCallBack ca,
     rm_UnRegisterAppGroupCallBack = (\<lambda>_. Service_UnRegisterAppGroupCallBack ca),
     rm_QueryDeviceEventStats = Service_QueryDeviceEventStats S ca,
     rm_QueryNotificationEventStats = Service_QueryNotificationEventStats S ca,
     rm_QueryHighFrequencyPeriodBundle = Service_QueryHighFrequencyPeriodBundle S ca,
     rm_QueryBundleTodayLatestUsedTime = (\<lambda>bundleName userId. Service_QueryBundleTodayLatestUsedTime S ca bundleName userId 0) \<rparr>"

end
