(* ===== verification/Cli.thy ===== *)
theory Cli
  imports CliText Client
begin

text \<open>The command line tool \<open>ohos-usageStatsQuery\<close> (\<open>tools/ohos-usageStatsQuery/src/main.cpp\<close>) on the
client library. An argument vector is a list of strings, of which one built by the help command holds a
null. A JSON value is the tree that is handed to the JSON library, whose printing, and whose numbers in
floating point, are not modelled. The world is the client and the service behind it, what was written to
the two output streams and the records of the use of the permission (successes and failures).\<close>

datatype jvalue =
    JNumber int
  | JString string
  | JBool bool
  | JArray "jvalue list"
  | JObject "(string \<times> jvalue) list"

record 's cli_world =
  cw_client :: client
  cw_service :: 's
  cw_out :: "jvalue list"
  cw_err :: "string list"
  cw_used :: "(int \<times> int) list"

record 's cli_env =
  ct_registry :: registry
  ct_remote :: "'s remote"
  ct_addUsed :: int

abbreviation (input) MAX_RETURN_COUNT :: int where "MAX_RETURN_COUNT \<equiv> 1000"
abbreviation (input) MIN_RETURN_COUNT :: int where "MIN_RETURN_COUNT \<equiv> 1"
abbreviation (input) DEFAULT_USER :: int where "DEFAULT_USER \<equiv> - 1"
abbreviation (input) DEFAULT_INTERVAL_TYPE :: int where "DEFAULT_INTERVAL_TYPE \<equiv> - 1"
abbreviation (input) MAX_INTERVAL_TYPE :: int where "MAX_INTERVAL_TYPE \<equiv> 3"
abbreviation (input) DEFAULT_DAY_RANGE :: int where "DEFAULT_DAY_RANGE \<equiv> 7"
abbreviation (input) DEFAULT_HIGH_FREQ_COUNT :: int where "DEFAULT_HIGH_FREQ_COUNT \<equiv> 20"

section \<open>Output\<close>

definition CLI_LOG :: "string list \<Rightarrow> 's cli_world \<Rightarrow> 's cli_world" where
  "CLI_LOG ls w = w \<lparr> cw_err := cw_err w @ map (\<lambda>l. ''[LOG] '' @ l) ls \<rparr>"

definition CLI_ERROR :: "string list \<Rightarrow> 's cli_world \<Rightarrow> 's cli_world" where
  "CLI_ERROR ls w = w \<lparr> cw_err := cw_err w @ map (\<lambda>l. ''[ERROR] '' @ l) ls \<rparr>"

definition add_used :: "string \<Rightarrow> 's cli_env \<Rightarrow> int \<times> int \<Rightarrow> 's cli_world \<Rightarrow> 's cli_world" where
  "add_used name T used w =
     (let w1 = w \<lparr> cw_used := cw_used w @ [used] \<rparr>
      in if ct_addUsed T \<noteq> 0
         then CLI_LOG [name @ '' failed to add permission used record: permission='' @
                ''ohos.permission.cli.BUNDLE_ACTIVE_INFO'' @ '', err='' @ int_to_string (ct_addUsed T)] w1
         else w1)"

definition OutputSuccess :: "'s cli_env \<Rightarrow> jvalue \<Rightarrow> 's cli_world \<Rightarrow> int \<times> 's cli_world" where
  "OutputSuccess T data w =
     (0, add_used ''OutputSuccess'' T (1, 0) (w \<lparr> cw_out := cw_out w @
        [JObject [(''type'', JString ''result''), (''status'', JString ''success''), (''data'', data)]] \<rparr>))"

definition OutputError ::
    "'s cli_env \<Rightarrow> string \<Rightarrow> string \<Rightarrow> string \<Rightarrow> 's cli_world \<Rightarrow> int \<times> 's cli_world" where
  "OutputError T code message suggestion w =
     (1, add_used ''OutputError'' T (0, 1) (w \<lparr> cw_out := cw_out w @
        [JObject [(''type'', JString ''result''), (''status'', JString ''failed''), (''data'', JString ''''),
           (''errCode'', JString code), (''errMsg'', JString message), (''suggestion'', JString suggestion)]] \<rparr>))"

section \<open>Arguments\<close>

text \<open>An argument that begins with the key gives the value: what follows its first \<open>=\<close>, or else the next
argument if that does not begin with a dash. A key that is only a beginning of the argument counts too.\<close>

fun find_arg :: "string \<Rightarrow> string option list \<Rightarrow> string option" where
  "find_arg key [] = None"
| "find_arg key (None # argv) = find_arg key argv"
| "find_arg key (Some arg # argv) =
     (if starts_with arg (''--'' @ key) then
        (if CHR ''='' \<in> set arg then Some (tl (dropWhile (\<lambda>c. c \<noteq> CHR ''='') arg))
         else case argv of
           Some following # _ \<Rightarrow>
             if following \<noteq> '''' \<and> hd following = CHR ''-'' then find_arg key argv else Some following
         | _ \<Rightarrow> find_arg key argv)
      else find_arg key argv)"

definition ParseArg :: "string option list \<Rightarrow> string \<Rightarrow> string \<Rightarrow> string" where
  "ParseArg argv key defaultValue = (case find_arg key argv of Some value \<Rightarrow> value | None \<Rightarrow> defaultValue)"

definition before_dot :: "string \<Rightarrow> string" where
  "before_dot value = takeWhile (\<lambda>c. c \<noteq> CHR ''.'') value"

definition ParseArgInt :: "string option list \<Rightarrow> string \<Rightarrow> int \<Rightarrow> int" where
  "ParseArgInt argv key defaultValue =
     (let value = before_dot (ParseArg argv key '''')
      in if value = '''' then defaultValue
         else case strtol value of
           None \<Rightarrow> defaultValue
         | Some (result, rest) \<Rightarrow>
             if out_of_range64 result \<or> rest \<noteq> '''' then defaultValue
             else if result < INT32_MIN \<or> result > INT32_MAX then defaultValue
             else result)"

definition ParseArgLong :: "string option list \<Rightarrow> string \<Rightarrow> int \<Rightarrow> int" where
  "ParseArgLong argv key defaultValue =
     (let value = before_dot (ParseArg argv key '''')
      in if value = '''' then defaultValue
         else case strtol value of
           None \<Rightarrow> defaultValue
         | Some (result, rest) \<Rightarrow>
             if out_of_range64 result \<or> rest \<noteq> '''' then defaultValue
             else if result < INT64_MIN \<or> result > INT64_MAX then defaultValue
             else result)"

definition CheckHelpFlag :: "string option list \<Rightarrow> bool" where
  "CheckHelpFlag argv \<longleftrightarrow> Some ''--help'' \<in> set argv"

section \<open>Answers as JSON\<close>

definition PackageStatsToJson :: "package_stats \<Rightarrow> jvalue" where
  "PackageStatsToJson stats = JObject [
     (''bundleName'', JString (pk_bundleName stats)),
     (''beginTimeStamp'', JNumber (pk_beginTimeStamp stats)),
     (''endTimeStamp'', JNumber (pk_endTimeStamp stats)),
     (''lastTimeUsed'', JNumber (pk_lastTimeUsed stats)),
     (''totalInFrontTime'', JNumber (pk_totalInFrontTime stats)),
     (''lastContiniousTaskUsed'', JNumber (pk_lastContiniousTaskUsed stats)),
     (''totalContiniousTaskUsedTime'', JNumber (pk_totalContiniousTaskUsedTime stats)),
     (''startCount'', JNumber (pk_startCount stats)),
     (''bundleStartedCount'', JNumber (pk_bundleStartedCount stats)),
     (''lastEvent'', JNumber (pk_lastEvent stats)),
     (''userId'', JNumber (pk_userId stats)),
     (''uid'', JNumber (pk_uid stats)),
     (''appIndex'', JNumber (pk_appIndex stats))]"

definition EventToJson :: "event \<Rightarrow> jvalue" where
  "EventToJson event = JObject [
     (''bundleName'', JString (ev_bundleName event)),
     (''timeStamp'', JNumber (ev_timeStamp event)),
     (''eventId'', JNumber (ev_eventId event)),
     (''uid'', JNumber (ev_uid event)),
     (''abilityName'', JString (ev_abilityName event)),
     (''abilityId'', JString (ev_abilityId event)),
     (''moduleName'', JString (ev_moduleName event)),
     (''continuousTaskAbilityName'', JString (ev_continuousTaskAbilityName event))]"

definition EventStatsToJson :: "event_stats \<Rightarrow> jvalue" where
  "EventStatsToJson stats = JObject [
     (''eventId'', JNumber (es_eventId stats)),
     (''beginTimeStamp'', JNumber (es_beginTimeStamp stats)),
     (''endTimeStamp'', JNumber (es_endTimeStamp stats)),
     (''lastEventTime'', JNumber (es_lastEventTime stats)),
     (''totalTime'', JNumber (es_totalTime stats)),
     (''count'', JNumber (es_count stats)),
     (''uid'', JNumber (es_uid stats)),
     (''name'', JString (es_name stats))]"

definition ModuleRecordToJson :: "module_record \<Rightarrow> jvalue" where
  "ModuleRecordToJson record = JObject [
     (''bundleName'', JString (mr_bundleName record)),
     (''moduleName'', JString (mr_moduleName record)),
     (''abilityName'', JString (mr_abilityName record)),
     (''deviceId'', JString (mr_deviceId record)),
     (''launchedCount'', JNumber (mr_launchedCount record)),
     (''lastModuleUsedTime'', JNumber (mr_lastModuleUsedTime record)),
     (''userId'', JNumber (mr_userId record)),
     (''uid'', JNumber (mr_uid record)),
     (''removed'', JBool (mr_removed record)),
     (''installFreeSupported'', JBool (mr_installFreeSupported record)),
     (''isNewAdded'', JBool (mr_isNewAdded record))]"

definition HighFrequencyPeriodToJson :: "high_freq_period \<Rightarrow> jvalue" where
  "HighFrequencyPeriodToJson period = JObject [
     (''bundleName'', JString (hf_bundleName period)),
     (''highFreqHours'', JArray (map JNumber (hf_highFreqHours period)))]"

section \<open>Commands\<close>

text \<open>A request of the client on the world.\<close>

definition ask ::
    "(client \<times> 's \<Rightarrow> (int \<times> 'a) \<times> client \<times> 's) \<Rightarrow> 's cli_world \<Rightarrow> (int \<times> 'a) \<times> 's cli_world" where
  "ask request w =
     (let (answer, cl, s) = request (cw_client w, cw_service w)
      in (answer, w \<lparr> cw_client := cl, cw_service := s \<rparr>))"

abbreviation (input) check_service :: string where
  "check_service \<equiv> ''Please check: 1. Whether BundleActiveService is running normally; ''"

abbreviation (input) check_permission :: string where
  "check_permission \<equiv> ''2. Whether ohos.permission.cli.BUNDLE_ACTIVE_INFO permission is granted''"

abbreviation (input) give_bundle :: string where
  "give_bundle \<equiv> ''Please use --bundle <bundle_name> to provide the bundle name parameter, '' @
     ''e.g., --bundle com.example.app''"

abbreviation (input) give_times :: string where
  "give_times \<equiv> ''Please provide valid --begin and --end timestamp parameters (unit: milliseconds), '' @
     ''e.g., --begin 1609459200000 --end 1609545600000''"

definition CmdCheckBundleIdle ::
    "'s cli_env \<Rightarrow> string option list \<Rightarrow> 's cli_world \<Rightarrow> int \<times> 's cli_world" where
  "CmdCheckBundleIdle T argv w =
     (if CheckHelpFlag argv then (0, CLI_LOG CheckBundleIdleHelp w)
      else
        let bundleName = ParseArg argv ''bundle'' ''''
        in if bundleName = '''' then OutputError T ''ERR_BUNDLENAME_EMPTY'' ''Missing bundleName parameter'' give_bundle w
           else
             let userId = ParseArgInt argv ''user'' DEFAULT_USER;
                 ((ret, isBundleIdle), w1) = ask (Client_IsBundleIdle (ct_registry T) (ct_remote T) bundleName userId) w
             in if ret \<noteq> OK then OutputError T ''ERR_QUERY_FAILED'' ''Failed to query application idle status''
                    (check_service @ check_permission) w1
                else OutputSuccess T (JObject [(''isBundleIdle'', JBool isBundleIdle),
                    (''bundleName'', JString bundleName), (''userId'', JNumber userId)]) w1)"

definition CmdCheckBundlePeriod ::
    "'s cli_env \<Rightarrow> string option list \<Rightarrow> 's cli_world \<Rightarrow> int \<times> 's cli_world" where
  "CmdCheckBundlePeriod T argv w =
     (if CheckHelpFlag argv then (0, CLI_LOG CheckBundlePeriodHelp w)
      else
        let bundleName = ParseArg argv ''bundle'' ''''
        in if bundleName = '''' then OutputError T ''ERR_BUNDLENAME_EMPTY'' ''Missing bundleName parameter'' give_bundle w
           else
             let userId = ParseArgInt argv ''user'' DEFAULT_USER;
                 ((ret, isUsePeriod), w1) =
                   ask (Client_IsBundleUsePeriod (ct_registry T) (ct_remote T) bundleName userId) w
             in if ret \<noteq> OK then OutputError T ''ERR_QUERY_FAILED'' ''Failed to query application usage period''
                    (check_service @ ''2. This command only supports Native Token calls'') w1
                else OutputSuccess T (JObject [(''isUsePeriod'', JBool isUsePeriod),
                    (''bundleName'', JString bundleName), (''userId'', JNumber userId)]) w1)"

definition CmdQueryStatsInterval ::
    "'s cli_env \<Rightarrow> string option list \<Rightarrow> 's cli_world \<Rightarrow> int \<times> 's cli_world" where
  "CmdQueryStatsInterval T argv w =
     (if CheckHelpFlag argv then (0, CLI_LOG ShowQueryStatsIntervalHelp w)
      else
        let intervalType = ParseArgInt argv ''interval'' DEFAULT_INTERVAL_TYPE;
            beginTime = ParseArgLong argv ''begin'' 0;
            endTime = ParseArgLong argv ''end'' 0
        in if intervalType < 0 \<or> intervalType > MAX_INTERVAL_TYPE then
             OutputError T ''ERR_INTERVAL_TYPE'' ''Invalid intervalType parameter''
               (''Please use a valid --interval parameter (0-3), '' @ ''0=daily, 1=weekly, 2=monthly, 3=yearly'') w
           else if beginTime \<le> 0 \<or> endTime \<le> 0 then
             OutputError T ''ERR_TIME_INVALID'' ''Missing or invalid time parameters'' give_times w
           else if endTime \<le> beginTime then
             OutputError T ''ERR_TIME_INTERVAL'' ''Invalid time range''
               ''End time must be greater than begin time, please adjust the time range'' w
           else
             let userId = ParseArgInt argv ''user'' DEFAULT_USER;
                 ((ret, packageStats), w1) = ask (Client_QueryBundleStatsInfoByInterval (ct_registry T) (ct_remote T)
                   intervalType beginTime endTime userId) w
             in if ret \<noteq> OK then OutputError T ''ERR_QUERY_FAILED'' ''Failed to query usage statistics''
                    (check_service @ check_permission) w1
                else OutputSuccess T (JObject [(''intervalType'', JNumber intervalType),
                    (''beginTime'', JNumber beginTime), (''endTime'', JNumber endTime), (''userId'', JNumber userId),
                    (''packageStats'', JArray (map PackageStatsToJson packageStats)),
                    (''count'', JNumber (int (length packageStats)))]) w1)"

definition CmdQueryEvents :: "'s cli_env \<Rightarrow> string option list \<Rightarrow> 's cli_world \<Rightarrow> int \<times> 's cli_world" where
  "CmdQueryEvents T argv w =
     (if CheckHelpFlag argv then (0, CLI_LOG ShowQueryEventsHelp w)
      else
        let beginTime = ParseArgLong argv ''begin'' 0;
            endTime = ParseArgLong argv ''end'' 0;
            userId = ParseArgInt argv ''user'' DEFAULT_USER;
            maxNum = ParseArgInt argv ''max'' MAX_RETURN_COUNT
        in if beginTime \<le> 0 \<or> endTime \<le> 0 then
             OutputError T ''ERR_TIME_INVALID'' ''Missing or invalid time parameters'' give_times w
           else if endTime \<le> beginTime then
             OutputError T ''ERR_TIME_INTERVAL'' ''Invalid time range''
               ''End time must be greater than begin time, please adjust the time range'' w
           else if maxNum < MIN_RETURN_COUNT \<or> maxNum > MAX_RETURN_COUNT then
             OutputError T ''ERR_MAXNUM_INVALID'' ''Invalid maxNum parameter''
               ''Please use a valid --max parameter (range: 1-1000), e.g., --max 500'' w
           else
             let ((ret, events), w1) = ask (Client_QueryBundleEvents (ct_registry T) (ct_remote T)
                   beginTime endTime userId maxNum) w
             in if ret \<noteq> OK then OutputError T ''ERR_QUERY_FAILED'' ''Failed to query application events''
                    (check_service @ check_permission) w1
                else OutputSuccess T (JObject [(''beginTime'', JNumber beginTime), (''endTime'', JNumber endTime),
                    (''userId'', JNumber userId), (''maxNum'', JNumber maxNum),
                    (''events'', JArray (map EventToJson events)), (''count'', JNumber (int (length events)))]) w1)"

definition CmdQueryAppGroup :: "'s cli_env \<Rightarrow> string option list \<Rightarrow> 's cli_world \<Rightarrow> int \<times> 's cli_world" where
  "CmdQueryAppGroup T argv w =
     (if CheckHelpFlag argv then (0, CLI_LOG QueryAppGroupHelp w)
      else
        let bundleName = ParseArg argv ''bundle'' ''''
        in if bundleName = '''' then OutputError T ''ERR_BUNDLENAME_EMPTY'' ''Missing bundleName parameter'' give_bundle w
           else
             let userId = ParseArgInt argv ''user'' DEFAULT_USER;
                 ((ret, appGroup), w1) = ask (Client_QueryAppGroup (ct_registry T) (ct_remote T) bundleName userId) w
             in if ret \<noteq> OK then OutputError T ''ERR_QUERY_FAILED'' ''Failed to query application priority group''
                    (check_service @ check_permission) w1
                else OutputSuccess T (JObject [(''appGroup'', JNumber appGroup),
                    (''bundleName'', JString bundleName), (''userId'', JNumber userId)]) w1)"

definition CmdQueryHighFreqBundle ::
    "'s cli_env \<Rightarrow> string option list \<Rightarrow> 's cli_world \<Rightarrow> int \<times> 's cli_world" where
  "CmdQueryHighFreqBundle T argv w =
     (if CheckHelpFlag argv then (0, CLI_LOG ShowQueryHighFreqBundleHelp w)
      else
        let userId = ParseArgInt argv ''user'' DEFAULT_USER;
            maxNum = ParseArgInt argv ''max'' DEFAULT_HIGH_FREQ_COUNT;
            queryDayRange = ParseArgInt argv ''days'' DEFAULT_DAY_RANGE
        in if maxNum < MIN_RETURN_COUNT \<or> maxNum > MAX_RETURN_COUNT then
             OutputError T ''ERR_MAXNUM_INVALID'' ''Invalid maxNum parameter''
               ''Please use a valid --max parameter (range: 1-1000), e.g., --max 50'' w
           else
             let ((ret, packageStats), w1) = ask (Client_QueryHighFrequencyUsageBundleInfos (ct_registry T) (ct_remote T)
                   userId maxNum queryDayRange) w
             in if ret \<noteq> OK then OutputError T ''ERR_QUERY_FAILED'' ''Failed to query high-frequency usage applications''
                    (check_service @ check_permission) w1
                else OutputSuccess T (JObject [(''userId'', JNumber userId), (''maxNum'', JNumber maxNum),
                    (''queryDayRange'', JNumber queryDayRange),
                    (''packageStats'', JArray (map PackageStatsToJson packageStats)),
                    (''count'', JNumber (int (length packageStats)))]) w1)"

definition CmdQueryModuleRecords ::
    "'s cli_env \<Rightarrow> string option list \<Rightarrow> 's cli_world \<Rightarrow> int \<times> 's cli_world" where
  "CmdQueryModuleRecords T argv w =
     (if CheckHelpFlag argv then (0, CLI_LOG QueryModuleRecordsHelp w)
      else
        let maxNum = ParseArgInt argv ''max'' MAX_RETURN_COUNT;
            userId = ParseArgInt argv ''user'' DEFAULT_USER
        in if maxNum < MIN_RETURN_COUNT \<or> maxNum > MAX_RETURN_COUNT then
             OutputError T ''ERR_MAXNUM_INVALID'' ''Invalid maxNum parameter''
               ''Please use a valid --max parameter (range: 1-1000), e.g., --max 500'' w
           else
             let ((ret, results), w1) = ask (Client_QueryModuleUsageRecords (ct_registry T) (ct_remote T) maxNum userId) w
             in if ret \<noteq> OK then OutputError T ''ERR_QUERY_FAILED'' ''Failed to query module usage records''
                    (check_service @ check_permission) w1
                else OutputSuccess T (JObject [(''maxNum'', JNumber maxNum), (''userId'', JNumber userId),
                    (''moduleRecords'', JArray (map ModuleRecordToJson results)),
                    (''count'', JNumber (int (length results)))]) w1)"

definition CmdQueryNotificationStats ::
    "'s cli_env \<Rightarrow> string option list \<Rightarrow> 's cli_world \<Rightarrow> int \<times> 's cli_world" where
  "CmdQueryNotificationStats T argv w =
     (if CheckHelpFlag argv then (0, CLI_LOG ShowQueryNotificationStatsHelp w)
      else
        let beginTime = ParseArgLong argv ''begin'' 0;
            endTime = ParseArgLong argv ''end'' 0
        in if beginTime \<le> 0 \<or> endTime \<le> 0 then
             OutputError T ''ERR_TIME_INVALID'' ''Missing or invalid time parameters'' give_times w
           else if endTime \<le> beginTime then
             OutputError T ''ERR_TIME_INTERVAL'' ''Invalid time range''
               ''End time must be greater than begin time, please adjust the time range'' w
           else
             let userId = ParseArgInt argv ''user'' DEFAULT_USER;
                 ((ret, eventStats), w1) = ask (Client_QueryNotificationEventStats (ct_registry T) (ct_remote T)
                   beginTime endTime userId) w
             in if ret \<noteq> OK then OutputError T ''ERR_QUERY_FAILED'' ''Failed to query notification event statistics''
                    (check_service @ check_permission) w1
                else OutputSuccess T (JObject [(''beginTime'', JNumber beginTime), (''endTime'', JNumber endTime),
                    (''userId'', JNumber userId), (''eventStats'', JArray (map EventStatsToJson eventStats)),
                    (''count'', JNumber (int (length eventStats)))]) w1)"

definition CmdQueryHighFreqPeriod ::
    "'s cli_env \<Rightarrow> string option list \<Rightarrow> 's cli_world \<Rightarrow> int \<times> 's cli_world" where
  "CmdQueryHighFreqPeriod T argv w =
     (if CheckHelpFlag argv then (0, CLI_LOG QueryHighFreqPeriodHelp w)
      else
        let userId = ParseArgInt argv ''user'' DEFAULT_USER;
            ((ret, appFreqHours), w1) =
              ask (Client_QueryHighFrequencyPeriodBundle (ct_registry T) (ct_remote T) userId) w
        in if ret \<noteq> OK then OutputError T ''ERR_QUERY_FAILED'' ''Failed to query high-frequency usage periods''
               (check_service @ check_permission) w1
           else OutputSuccess T (JObject [(''userId'', JNumber userId),
               (''highFreqPeriods'', JArray (map HighFrequencyPeriodToJson appFreqHours)),
               (''count'', JNumber (int (length appFreqHours)))]) w1)"

definition CmdQueryLatestUsedTime ::
    "'s cli_env \<Rightarrow> string option list \<Rightarrow> 's cli_world \<Rightarrow> int \<times> 's cli_world" where
  "CmdQueryLatestUsedTime T argv w =
     (if CheckHelpFlag argv then (0, CLI_LOG QueryLatestUsedTimeHelp w)
      else
        let bundleName = ParseArg argv ''bundle'' ''''
        in if bundleName = '''' then OutputError T ''ERR_BUNDLENAME_EMPTY'' ''Missing bundleName parameter'' give_bundle w
           else
             let userId = ParseArgInt argv ''user'' DEFAULT_USER;
                 ((ret, latestUsedTime), w1) =
                   ask (Client_QueryBundleTodayLatestUsedTime (ct_registry T) (ct_remote T) bundleName userId) w
             in if ret \<noteq> OK then
                  OutputError T ''ERR_QUERY_FAILED'' ''Failed to query application latest usage time today''
                    (check_service @ check_permission) w1
                else OutputSuccess T (JObject [(''latestUsedTime'', JNumber latestUsedTime),
                    (''bundleName'', JString bundleName), (''userId'', JNumber userId)]) w1)"

section \<open>The table of the commands and the main program\<close>

datatype command = CheckBundleIdle | CheckBundlePeriod | QueryStatsInterval | QueryEvents | QueryAppGroup
  | QueryHighFreqBundle | QueryModuleRecords | QueryNotificationStats | QueryHighFreqPeriod | QueryLatestUsedTime | Help

definition g_commands :: "(string \<times> command) list" where
  "g_commands = [
     (''check-bundle-idle'', CheckBundleIdle), (''check-bundle-period'', CheckBundlePeriod),
     (''query-stats-interval'', QueryStatsInterval), (''query-events'', QueryEvents),
     (''query-app-group'', QueryAppGroup), (''query-high-freq-bundle'', QueryHighFreqBundle),
     (''query-module-records'', QueryModuleRecords), (''query-notification-stats'', QueryNotificationStats),
     (''query-high-freq-period'', QueryHighFreqPeriod), (''query-latest-used-time'', QueryLatestUsedTime),
     (''help'', Help)]"

text \<open>What the help is asked about: the first argument from the second on, the word \<open>help\<close> in the second
place passed over, that does not begin with a dash.\<close>

definition help_target :: "string option list \<Rightarrow> string" where
  "help_target argv =
     (let startIdx = (if length argv > 1 \<and> argv ! 1 = Some ''help'' then 2 else 1)
      in case find (\<lambda>a. a \<noteq> None \<and> (the a = '''' \<or> hd (the a) \<noteq> CHR ''-'')) (drop startIdx argv) of
           Some (Some targetCmd) \<Rightarrow> targetCmd
         | _ \<Rightarrow> '''')"

definition helpArgv :: "string option list" where
  "helpArgv = [Some PROGRAM_NAME, Some ''--help'', None]"

definition query_handler ::
    "'s cli_env \<Rightarrow> command \<Rightarrow> string option list \<Rightarrow> 's cli_world \<Rightarrow> int \<times> 's cli_world" where
  "query_handler T cmd = (case cmd of
     CheckBundleIdle \<Rightarrow> CmdCheckBundleIdle T | CheckBundlePeriod \<Rightarrow> CmdCheckBundlePeriod T
   | QueryStatsInterval \<Rightarrow> CmdQueryStatsInterval T | QueryEvents \<Rightarrow> CmdQueryEvents T
   | QueryAppGroup \<Rightarrow> CmdQueryAppGroup T | QueryHighFreqBundle \<Rightarrow> CmdQueryHighFreqBundle T
   | QueryModuleRecords \<Rightarrow> CmdQueryModuleRecords T | QueryNotificationStats \<Rightarrow> CmdQueryNotificationStats T
   | QueryHighFreqPeriod \<Rightarrow> CmdQueryHighFreqPeriod T | QueryLatestUsedTime \<Rightarrow> CmdQueryLatestUsedTime T
   | Help \<Rightarrow> (\<lambda>_ w. (0, w)))"

lemma help_target_helpArgv [simp]: "help_target helpArgv = ''''"
  by (simp add: help_target_def helpArgv_def)

text \<open>The help runs the handler of the command it is asked about, which may be the help itself.\<close>

function CmdHelp :: "'s cli_env \<Rightarrow> string option list \<Rightarrow> 's cli_world \<Rightarrow> int \<times> 's cli_world" where
  "CmdHelp T argv w =
     (let targetCmd = help_target argv
      in if targetCmd = '''' then (0, CLI_LOG ShowMainHelp w)
         else case map_of g_commands targetCmd of
           None \<Rightarrow> OutputError T ''ERR_INVALID_COMMAND'' (''Unknown command: '' @ targetCmd)
               (''Please run '' @ PROGRAM_NAME @ '' --help to see available commands'') w
         | Some cmd \<Rightarrow> if cmd = Help then CmdHelp T helpArgv w else query_handler T cmd helpArgv w)"
  by pat_completeness auto
termination
  by (relation "measure (\<lambda>(T, argv, w). if help_target argv = '''' then 0 else 1)") auto

declare CmdHelp.simps [simp del]

definition handler :: "'s cli_env \<Rightarrow> command \<Rightarrow> string option list \<Rightarrow> 's cli_world \<Rightarrow> int \<times> 's cli_world" where
  "handler T cmd = (if cmd = Help then CmdHelp T else query_handler T cmd)"

definition PrintUsage :: "string \<Rightarrow> 's cli_world \<Rightarrow> 's cli_world" where
  "PrintUsage prog = CLI_ERROR [''Usage: '' @ prog @ '' <command> [options]'', ''Run '' @ prog @ '' --help for more information'']"

text \<open>\<open>prog\<close> is the first entry of the argument vector and \<open>args\<close> is the rest.\<close>

definition cli_main :: "'s cli_env \<Rightarrow> string \<Rightarrow> string list \<Rightarrow> 's cli_world \<Rightarrow> int \<times> 's cli_world" where
  "cli_main T prog args w =
     (case args of
        [] \<Rightarrow> (1, PrintUsage prog w)
      | cmdName # rest \<Rightarrow>
          if cmdName = ''--help'' then (0, snd (CmdHelp T [Some prog, Some cmdName] w))
          else
            (case map_of g_commands cmdName of
               None \<Rightarrow> OutputError T ''ERR_INVALID_COMMAND'' (''Unknown command: '' @ cmdName)
                 (''Please run '' @ PROGRAM_NAME @ '' --help to see available commands'') w
             | Some cmd \<Rightarrow>
                 if ''--help'' \<in> set rest then handler T cmd (map Some (prog # args)) w
                 else handler T cmd (map Some rest) w))"

end
