(* ===== verification/CliChecks.thy ===== *)
theory CliChecks
  imports Cli
begin

text \<open>What the command line tool guarantees to its two sides: the user gets one answer, and the service gets
only requests within the limits the tool promises.\<close>

section \<open>Arguments\<close>

lemma ParseArgInt_range:
  "ParseArgInt argv key d = d \<or> INT32_MIN \<le> ParseArgInt argv key d \<and> ParseArgInt argv key d \<le> INT32_MAX"
  by (auto simp: ParseArgInt_def Let_def split: option.splits prod.splits)

lemma ParseArgInt_default_range:
  assumes "INT32_MIN \<le> d" "d \<le> INT32_MAX"
  shows "INT32_MIN \<le> ParseArgInt argv key d" "ParseArgInt argv key d \<le> INT32_MAX"
  using ParseArgInt_range [of argv key d] assms by auto

lemma ParseArgLong_range:
  "ParseArgLong argv key d = d \<or> INT64_MIN \<le> ParseArgLong argv key d \<and> ParseArgLong argv key d \<le> INT64_MAX"
  by (auto simp: ParseArgLong_def Let_def split: option.splits prod.splits)

lemma find_arg_skip:
  assumes "\<forall>arg. Some arg \<in> set pre \<longrightarrow> \<not> starts_with arg (''--'' @ key)"
  shows "find_arg key (pre @ argv) = find_arg key argv"
  using assms
proof (induction pre)
  case (Cons a pre)
  then show ?case by (cases a) auto
qed simp

lemma number_text:
  "CHR ''.'' \<notin> set (int_to_string i)" "CHR ''='' \<notin> set (int_to_string i)" "int_to_string i \<noteq> ''''"
  "0 \<le> i \<Longrightarrow> hd (int_to_string i) \<noteq> CHR ''-''" "i < 0 \<Longrightarrow> hd (int_to_string i) = CHR ''-''"
proof -
  have dot: "\<not> is_digit (CHR ''.'')" "\<not> is_digit (CHR ''='')" "\<not> is_digit (CHR ''-'')"
    by (simp_all add: is_digit_def)
  have d: "\<And>c n. c \<in> set (nat_to_string n) \<Longrightarrow> is_digit c" "\<And>n. nat_to_string n \<noteq> ''''"
    using nat_to_string_digits by auto
  show "CHR ''.'' \<notin> set (int_to_string i)" "CHR ''='' \<notin> set (int_to_string i)" "int_to_string i \<noteq> ''''"
    using d dot by (auto simp: int_to_string_def)
  show "0 \<le> i \<Longrightarrow> hd (int_to_string i) \<noteq> CHR ''-''"
    using d(1) [of "hd (nat_to_string (nat i))" "nat i"] d(2) [of "nat i"] dot(3) by (auto simp: int_to_string_def)
  show "i < 0 \<Longrightarrow> hd (int_to_string i) = CHR ''-''"
    by (simp add: int_to_string_def)
qed

lemma before_dot_number [simp]: "before_dot (int_to_string i) = int_to_string i"
  using number_text(1) [of i] by (auto simp: before_dot_def takeWhile_eq_all_conv)

lemma ParseArgInt_value:
  assumes "find_arg key argv = Some (int_to_string i)"
  shows "ParseArgInt argv key d = (if INT32_MIN \<le> i \<and> i \<le> INT32_MAX then i else d)"
  using assms number_text(3) [of i]
  by (auto simp: ParseArgInt_def ParseArg_def strtol_int_to_string out_of_range64_def INT32_MIN_def INT32_MAX_def
      INT64_MIN_def INT64_MAX_def)

lemma after_equals: "CHR ''='' \<notin> set key \<Longrightarrow> tl (dropWhile (\<lambda>c. c \<noteq> CHR ''='') (''--'' @ key @ ''='' @ v)) = v"
  by (subst append.simps, subst append.simps, subst dropWhile.simps, simp, subst dropWhile_append2) auto

lemma find_arg_equals:
  assumes "CHR ''='' \<notin> set key"
  shows "find_arg key (Some (''--'' @ key @ ''='' @ v) # argv) = Some v"
proof -
  have "starts_with (''--'' @ key @ ''='' @ v) (''--'' @ key)"
    using starts_with_append [of "''--'' @ key" "''='' @ v"] by simp
  then show ?thesis
    using after_equals [OF assms, of v] by simp
qed

lemma find_arg_next:
  assumes "CHR ''='' \<notin> set key"
  shows "find_arg key (Some (''--'' @ key) # Some v # argv) =
    (if v \<noteq> '''' \<and> hd v = CHR ''-'' then find_arg key (Some v # argv) else Some v)"
proof -
  have "starts_with (''--'' @ key) (''--'' @ key)"
    using starts_with_append [of "''--'' @ key" "[]"] by simp
  then show ?thesis
    using assms by simp
qed

text \<open>A number written after the key and an equality sign is read back, whatever stands around it and as
long as no earlier argument begins with the key; it is read back from the next argument only when it is not
negative, and a negative one there is ignored like one that is out of range.\<close>

theorem int_argument_roundtrip:
  assumes "\<forall>arg. Some arg \<in> set pre \<longrightarrow> \<not> starts_with arg (''--'' @ key)" "CHR ''='' \<notin> set key"
  shows "ParseArgInt (pre @ Some (''--'' @ key @ ''='' @ int_to_string i) # post) key d =
      (if INT32_MIN \<le> i \<and> i \<le> INT32_MAX then i else d) \<and>
    ParseArgInt (pre @ [Some (''--'' @ key), Some (int_to_string i)]) key d =
      (if 0 \<le> i \<and> i \<le> INT32_MAX then i else d)"
proof
  show "ParseArgInt (pre @ Some (''--'' @ key @ ''='' @ int_to_string i) # post) key d =
      (if INT32_MIN \<le> i \<and> i \<le> INT32_MAX then i else d)"
    using find_arg_skip [OF assms(1)] find_arg_equals [OF assms(2)] by (intro ParseArgInt_value) simp
  have no: "\<not> starts_with (int_to_string i) (''--'' @ key)"
  proof
    assume "starts_with (int_to_string i) (''--'' @ key)"
    then obtain u where u: "int_to_string i = CHR ''-'' # CHR ''-'' # key @ u"
      by (auto simp: starts_with_iff)
    then have "i < 0"
      using number_text(4) [of i] by force
    then have "nat_to_string (nat (- i)) = CHR ''-'' # key @ u"
      using u by (simp add: int_to_string_def)
    then have "is_digit (CHR ''-'')"
      using nat_to_string_digits [of "nat (- i)"] by simp
    then show False by (simp add: is_digit_def)
  qed
  show "ParseArgInt (pre @ [Some (''--'' @ key), Some (int_to_string i)]) key d =
      (if 0 \<le> i \<and> i \<le> INT32_MAX then i else d)"
  proof (cases "0 \<le> i")
    case True
    then have "find_arg key (pre @ [Some (''--'' @ key), Some (int_to_string i)]) = Some (int_to_string i)"
      using find_arg_skip [OF assms(1)] find_arg_next [OF assms(2), of "int_to_string i" "[]"] number_text(4) [of i] by simp
    from ParseArgInt_value [OF this] show ?thesis
      using True no by (simp add: INT32_MIN_def)
  next
    case False
    then have "find_arg key (pre @ [Some (''--'' @ key), Some (int_to_string i)]) = None"
      using find_arg_skip [OF assms(1)] find_arg_next [OF assms(2), of "int_to_string i" "[]"] number_text(3,5) [of i] no
      by simp
    then show ?thesis
      using False no by (simp add: ParseArgInt_def ParseArg_def before_dot_def)
  qed
qed

theorem int_argument_roundtrip_witness:
  "ParseArgInt [None, Some ''--max=9'', Some ''--user=-7'', Some ''x''] ''user'' 3 = - 7 \<and>
   ParseArgInt [Some ''--max=9'', Some ''--user'', Some ''-7''] ''user'' 3 = 3"
proof -
  have n: "int_to_string (- 7) = ''-7''" by code_simp
  show ?thesis
    using int_argument_roundtrip [of "[None, Some ''--max=9'']" "''user''" "- 7" "[Some ''x'']" 3]
      int_argument_roundtrip [of "[Some ''--max=9'']" "''user''" "- 7" "[]" 3]
    by (simp add: n INT32_MIN_def INT32_MAX_def)
qed

section \<open>One answer\<close>

text \<open>How a run of the tool ends: with a help and nothing else, with the usage, or with one JSON object and one
record of the use of the permission, a success or a failure as the exit code says.\<close>

definition answered_with :: "bool \<Rightarrow> 's cli_world \<Rightarrow> 's cli_world \<Rightarrow> bool" where
  "answered_with ok w w' \<longleftrightarrow> (\<exists>rest. cw_out w' = cw_out w @
      [JObject ((''type'', JString ''result'') # (''status'', JString (if ok then ''success'' else ''failed'')) # rest)]) \<and>
    cw_used w' = cw_used w @ [if ok then (1, 0) else (0, 1)]"

definition helped :: "'s cli_world \<Rightarrow> 's cli_world \<Rightarrow> bool" where
  "helped w w' \<longleftrightarrow> cw_out w' = cw_out w \<and> cw_used w' = cw_used w \<and> cw_client w' = cw_client w \<and>
     cw_service w' = cw_service w \<and> (\<exists>ls. ls \<noteq> [] \<and> cw_err w' = cw_err w @ ls)"

definition one_answer :: "'s cli_world \<Rightarrow> int \<times> 's cli_world \<Rightarrow> bool" where
  "one_answer w r \<longleftrightarrow> fst r = 0 \<and> helped w (snd r) \<or> fst r = 0 \<and> answered_with True w (snd r) \<or>
     fst r = 1 \<and> answered_with False w (snd r)"

lemma add_used_fields [simp]:
  "cw_out (add_used n T u w) = cw_out w" "cw_used (add_used n T u w) = cw_used w @ [u]"
  "cw_client (add_used n T u w) = cw_client w" "cw_service (add_used n T u w) = cw_service w"
  by (simp_all add: add_used_def CLI_LOG_def Let_def)

lemma ask_streams:
  "ask q w = (r, w1) \<Longrightarrow> cw_out w1 = cw_out w \<and> cw_used w1 = cw_used w \<and> cw_err w1 = cw_err w"
  by (auto simp: ask_def Let_def case_prod_beta)

lemma one_answer_output:
  "cw_out w1 = cw_out w \<Longrightarrow> cw_used w1 = cw_used w \<Longrightarrow> one_answer w (OutputSuccess T data w1)"
  "cw_out w1 = cw_out w \<Longrightarrow> cw_used w1 = cw_used w \<Longrightarrow> one_answer w (OutputError T code message suggestion w1)"
  by (simp_all add: one_answer_def answered_with_def OutputSuccess_def OutputError_def)

lemma one_answer_help: "ls \<noteq> [] \<Longrightarrow> one_answer w (0, CLI_LOG ls w)"
  by (simp add: one_answer_def helped_def CLI_LOG_def)

lemma help_texts:
  "CheckBundleIdleHelp \<noteq> []" "CheckBundlePeriodHelp \<noteq> []" "ShowQueryStatsIntervalHelp \<noteq> []" "ShowQueryEventsHelp \<noteq> []"
  "QueryAppGroupHelp \<noteq> []" "ShowQueryHighFreqBundleHelp \<noteq> []" "QueryModuleRecordsHelp \<noteq> []"
  "ShowQueryNotificationStatsHelp \<noteq> []" "QueryHighFreqPeriodHelp \<noteq> []" "QueryLatestUsedTimeHelp \<noteq> []"
  "ShowMainHelp \<noteq> []"
  by (simp_all add: CheckBundleIdleHelp_def CheckBundlePeriodHelp_def ShowQueryStatsIntervalHelp_def
      ShowQueryEventsHelp_def QueryAppGroupHelp_def ShowQueryHighFreqBundleHelp_def QueryModuleRecordsHelp_def
      ShowQueryNotificationStatsHelp_def QueryHighFreqPeriodHelp_def QueryLatestUsedTimeHelp_def ShowMainHelp_def)

lemmas commands_defs = CmdCheckBundleIdle_def CmdCheckBundlePeriod_def CmdQueryStatsInterval_def CmdQueryEvents_def
  CmdQueryAppGroup_def CmdQueryHighFreqBundle_def CmdQueryModuleRecords_def CmdQueryNotificationStats_def
  CmdQueryHighFreqPeriod_def CmdQueryLatestUsedTime_def

lemma query_one_answer:
  assumes "cmd \<noteq> Help"
  shows "one_answer w (query_handler T cmd argv w)"
  using assms
  by (cases cmd) (auto simp: query_handler_def commands_defs Let_def help_texts
      intro!: one_answer_help one_answer_output dest!: ask_streams split: prod.splits)

lemma CmdHelp_one_answer: "one_answer w (CmdHelp T argv w)"
proof (induction T argv w rule: CmdHelp.induct)
  case (1 T argv w)
  then show ?case
    by (subst CmdHelp.simps) (auto simp: Let_def one_answer_help help_texts one_answer_output query_one_answer
        split: option.split)
qed

lemma handler_one_answer: "one_answer w (handler T cmd argv w)"
  by (simp add: handler_def CmdHelp_one_answer query_one_answer)

text \<open>C40: A run of the tool gives one answer. Without a command it prints the usage and exits with 1; else it
prints a help and has asked for nothing, or it prints exactly one JSON object, of status success with exit
code 0 or of status failed with exit code 1, and records one use of the permission of the same kind.\<close>

theorem tool_answers_once:
  "if args = [] then fst (cli_main T prog args w) = 1 \<and> cw_out (snd (cli_main T prog args w)) = cw_out w \<and>
     cw_used (snd (cli_main T prog args w)) = cw_used w
   else one_answer w (cli_main T prog args w)"
proof (cases args)
  case Nil
  then show ?thesis by (simp add: cli_main_def PrintUsage_def CLI_ERROR_def)
next
  case (Cons cmdName rest)
  have "help_target [Some prog, Some ''--help''] = ''''"
    by (simp add: help_target_def)
  then have "CmdHelp T [Some prog, Some ''--help''] w = (0, CLI_LOG ShowMainHelp w)"
    by (subst CmdHelp.simps) simp
  then show ?thesis
    using Cons by (auto simp: cli_main_def handler_one_answer one_answer_output one_answer_help help_texts split: option.split)
qed

section \<open>Valid requests\<close>

abbreviation (input) int32 :: "int \<Rightarrow> bool" where "int32 i \<equiv> INT32_MIN \<le> i \<and> i \<le> INT32_MAX"

abbreviation (input) span :: "int \<Rightarrow> int \<Rightarrow> bool" where "span b e \<equiv> 0 < b \<and> b < e \<and> e \<le> INT64_MAX"

text \<open>Two services that answer the same to the requests within the limits. Nothing is said of the others, nor
of the methods that report, set or register.\<close>

definition agree_on_valid :: "'s remote \<Rightarrow> 's remote \<Rightarrow> bool" where
  "agree_on_valid M M' \<longleftrightarrow>
     (\<forall>b u. b \<noteq> '''' \<and> int32 u \<longrightarrow> rm_IsBundleIdle M b u = rm_IsBundleIdle M' b u \<and>
        rm_IsBundleUsePeriod M b u = rm_IsBundleUsePeriod M' b u \<and> rm_QueryAppGroup M b u = rm_QueryAppGroup M' b u \<and>
        rm_QueryBundleTodayLatestUsedTime M b u = rm_QueryBundleTodayLatestUsedTime M' b u) \<and>
     (\<forall>i b e u. 0 \<le> i \<and> i \<le> 3 \<and> span b e \<and> int32 u \<longrightarrow>
        rm_QueryBundleStatsInfoByInterval M i b e u = rm_QueryBundleStatsInfoByInterval M' i b e u) \<and>
     (\<forall>b e u n. span b e \<and> int32 u \<and> 1 \<le> n \<and> n \<le> 1000 \<longrightarrow>
        rm_QueryBundleEvents M b e u n = rm_QueryBundleEvents M' b e u n) \<and>
     (\<forall>u n d. int32 u \<and> 1 \<le> n \<and> n \<le> 1000 \<and> int32 d \<longrightarrow>
        rm_QueryHighFrequencyUsageBundleInfos M u n d = rm_QueryHighFrequencyUsageBundleInfos M' u n d) \<and>
     (\<forall>n u. int32 u \<and> 1 \<le> n \<and> n \<le> 1000 \<longrightarrow> rm_QueryModuleUsageRecords M n u = rm_QueryModuleUsageRecords M' n u) \<and>
     (\<forall>b e u. span b e \<and> int32 u \<longrightarrow> rm_QueryNotificationEventStats M b e u = rm_QueryNotificationEventStats M' b e u) \<and>
     (\<forall>u. int32 u \<longrightarrow> rm_QueryHighFrequencyPeriodBundle M u = rm_QueryHighFrequencyPeriodBundle M' u)"

lemma user_range: "INT32_MIN \<le> ParseArgInt argv ''user'' (- 1)" "ParseArgInt argv ''user'' (- 1) \<le> INT32_MAX"
  "INT32_MIN \<le> ParseArgInt argv ''days'' 7" "ParseArgInt argv ''days'' 7 \<le> INT32_MAX"
  by (rule ParseArgInt_default_range; simp add: INT32_MIN_def INT32_MAX_def)+

lemma end_range: "ParseArgLong argv ''end'' 0 \<le> INT64_MAX"
  using ParseArgLong_range [of argv "''end''" 0] by (auto simp: INT64_MAX_def)

lemma add_used_remote [simp]: "add_used n (T \<lparr> ct_remote := M \<rparr>) = add_used n T"
  by (simp add: fun_eq_iff add_used_def Let_def)

lemma output_remote [simp]:
  "OutputSuccess (T \<lparr> ct_remote := M \<rparr>) = OutputSuccess T" "OutputError (T \<lparr> ct_remote := M \<rparr>) = OutputError T"
  by (simp_all add: fun_eq_iff OutputSuccess_def OutputError_def)

lemma query_agrees:
  assumes "agree_on_valid M M'"
  shows "query_handler (T \<lparr> ct_remote := M \<rparr>) cmd argv w = query_handler (T \<lparr> ct_remote := M' \<rparr>) cmd argv w"
proof -
  note agree = assms [unfolded agree_on_valid_def] and range = user_range [of argv] end_range [of argv]
  note single = agree [THEN conjunct1, rule_format] and rest = agree [THEN conjunct2]
  note interval = rest [THEN conjunct1, rule_format] and rest1 = rest [THEN conjunct2]
  note events = rest1 [THEN conjunct1, rule_format] and rest2 = rest1 [THEN conjunct2]
  note bundles = rest2 [THEN conjunct1, rule_format] and rest3 = rest2 [THEN conjunct2]
  note modules = rest3 [THEN conjunct1, rule_format] and rest4 = rest3 [THEN conjunct2]
  note notifications = rest4 [THEN conjunct1, rule_format] and periods = rest4 [THEN conjunct2, rule_format]
  show ?thesis
  proof (cases cmd)
    case CheckBundleIdle
    show ?thesis
      unfolding Client_IsBundleIdle_def CmdCheckBundleIdle_def CheckBundleIdle query_handler_def command.case Let_def output_remote using single range by simp
  next
    case CheckBundlePeriod
    show ?thesis
      unfolding Client_IsBundleUsePeriod_def CmdCheckBundlePeriod_def CheckBundlePeriod query_handler_def command.case Let_def output_remote using single range by simp
  next
    case QueryStatsInterval
    show ?thesis
      unfolding Client_QueryBundleStatsInfoByInterval_def CmdQueryStatsInterval_def QueryStatsInterval query_handler_def command.case Let_def output_remote using interval range by simp
  next
    case QueryEvents
    show ?thesis
      unfolding Client_QueryBundleEvents_def CmdQueryEvents_def QueryEvents query_handler_def command.case Let_def output_remote using events range by simp
  next
    case QueryAppGroup
    show ?thesis
      unfolding Client_QueryAppGroup_def CmdQueryAppGroup_def QueryAppGroup query_handler_def command.case Let_def output_remote using single range by simp
  next
    case QueryHighFreqBundle
    show ?thesis
      unfolding Client_QueryHighFrequencyUsageBundleInfos_def CmdQueryHighFreqBundle_def QueryHighFreqBundle query_handler_def command.case Let_def output_remote using bundles range by simp
  next
    case QueryModuleRecords
    show ?thesis
      unfolding Client_QueryModuleUsageRecords_def CmdQueryModuleRecords_def QueryModuleRecords query_handler_def command.case Let_def output_remote using modules range by simp
  next
    case QueryNotificationStats
    show ?thesis
      unfolding Client_QueryNotificationEventStats_def CmdQueryNotificationStats_def QueryNotificationStats query_handler_def command.case Let_def output_remote using notifications range by simp
  next
    case QueryHighFreqPeriod
    show ?thesis
      unfolding Client_QueryHighFrequencyPeriodBundle_def CmdQueryHighFreqPeriod_def QueryHighFreqPeriod query_handler_def command.case Let_def output_remote using periods range by simp
  next
    case QueryLatestUsedTime
    show ?thesis
      unfolding Client_QueryBundleTodayLatestUsedTime_def CmdQueryLatestUsedTime_def QueryLatestUsedTime query_handler_def command.case Let_def output_remote using single range by simp
  qed (simp add: query_handler_def)
qed

lemma CmdHelp_agrees:
  assumes "agree_on_valid M M'"
  shows "CmdHelp (T \<lparr> ct_remote := M \<rparr>) argv w = CmdHelp (T \<lparr> ct_remote := M' \<rparr>) argv w"
proof -
  have "CmdHelp (T \<lparr> ct_remote := M \<rparr>) helpArgv w = CmdHelp (T \<lparr> ct_remote := M' \<rparr>) helpArgv w"
    by (simp add: CmdHelp.simps)
  then show ?thesis
    by (subst (1 2) CmdHelp.simps) (simp add: Let_def query_agrees [OF assms] split: option.split)
qed


definition demo_world :: "'s \<Rightarrow> 's cli_world" where
  "demo_world s = \<lparr> cw_client = Client_new, cw_service = s, cw_out = [], cw_err = [], cw_used = [] \<rparr>"

definition demo_tool :: "'s remote \<Rightarrow> 's cli_env" where
  "demo_tool M = \<lparr> ct_registry = \<lparr> rg_manager = True, rg_object = True, rg_cast = True, rg_alloc = True \<rparr>,
     ct_remote = M, ct_addUsed = 0 \<rparr>"


section \<open>Where the tool differs from its help\<close>

text \<open>The help of one command is asked for with the name of the command, and shows the main help.\<close>

lemma help_shows_main: "cli_main T prog [''help'', cmdName] w = (0, CLI_LOG ShowMainHelp w)"
proof (cases "cmdName = ''--help''")
  case True
  have "help_target [Some prog, Some ''help'', Some ''--help''] = ''''"
    by (simp add: help_target_def)
  then show ?thesis
    using True by (simp add: cli_main_def g_commands_def handler_def CmdHelp.simps)
next
  case False
  have "help_target [Some cmdName] = ''''"
    by (simp add: help_target_def)
  then show ?thesis
    using False by (simp add: cli_main_def g_commands_def handler_def CmdHelp.simps)
qed

text \<open>The intervals 0 to 3 of the tool, by its help daily to yearly, are those of the service, where 0 asks for
the best fit and 1 to 3 for daily to monthly.\<close>

lemma intervals_shifted:
  "map ConvertIntervalType [0, 1, 2, 3] = [4, PERIOD_DAILY, PERIOD_WEEKLY, PERIOD_MONTHLY]"
  by (simp add: ConvertIntervalType_def)

text \<open>The examples of the help ask for fourteen days, which the service refuses.\<close>

lemma fourteen_days_refused:
  assumes "rg_manager (ct_registry T)" "rg_object (ct_registry T)" "rg_cast (ct_registry T)"
    "ct_remote T = service_remote S ca"
  shows "fst (cli_main T prog [''query-high-freq-bundle'', ''--max'', ''50'', ''--days'', ''14''] w) = 1"
proof -
  let ?argv = "[Some ''--max'', Some ''50'', Some ''--days'', Some ''14'']"
  have n: "ParseArgInt ?argv ''max'' 20 = 50" "ParseArgInt ?argv ''days'' 7 = 14" "\<not> CheckHelpFlag ?argv"
    by code_simp+
  have "fst (CmdQueryHighFreqBundle T ?argv w) = 1"
    unfolding CmdQueryHighFreqBundle_def Let_def n
    by (simp add: n(3) Client_QueryHighFrequencyUsageBundleInfos_def ask_def via_proxy_def GetBundleActiveProxy_def assms
        service_remote_def Service_QueryHighFrequencyUsageBundleInfos_def Let_def OutputError_def)
  then show ?thesis
    by (simp add: cli_main_def g_commands_def handler_def query_handler_def)
qed

end
