(* ===== verification/AppAnswers.thy ===== *)
theory AppAnswers
  imports Client
begin

text \<open>What the bindings for JavaScript (\<open>frameworks/src/bundle_state_common.cpp\<close>) and for Taihe
(\<open>bundle_state_idl_common.cpp\<close>) make of the records the client answers: one record per bundle, or one per
bundle and clone (\<open>appIndex\<close>). Both were written from one text; where they differ is the last section.\<close>

section \<open>Collecting values in an ordered map\<close>

definition upsert ::
    "('a \<Rightarrow> 'k::linorder) \<Rightarrow> ('a \<Rightarrow> 'v \<Rightarrow> 'v) \<Rightarrow> ('a \<Rightarrow> 'v) \<Rightarrow> 'a \<Rightarrow> ('k, 'v) omap \<Rightarrow> ('k, 'v) omap" where
  "upsert key found new x m =
     (case om_find m (key x) of
        Some v \<Rightarrow> om_insert (key x) (found x v) m
      | None \<Rightarrow> om_insert (key x) (new x) m)"

lemma upsert_find:
  "om_find (upsert key found new x m) k =
     (if key x = k then Some (case om_find m k of Some v \<Rightarrow> found x v | None \<Rightarrow> new x) else om_find m k)"
  by (auto simp: upsert_def split: option.splits)

lemma upsert_fold_find:
  "om_find (fold (upsert key found new) xs m) k =
     (case om_find m k of
        Some v \<Rightarrow> Some (fold found (filter (\<lambda>x. key x = k) xs) v)
      | None \<Rightarrow> (case filter (\<lambda>x. key x = k) xs of [] \<Rightarrow> None | y # ys \<Rightarrow> Some (fold found ys (new y))))"
proof (induction xs arbitrary: m)
  case (Cons x xs)
  then show ?case by (simp add: upsert_find split: option.split)
qed (simp split: option.split)

lemma upsert_fold_wf: "om_wf m \<Longrightarrow> om_wf (fold (upsert key found new) xs m)"
  by (induction xs arbitrary: m) (simp_all add: upsert_def split: option.split)

lemma upsert_fold_keys: "fst ` set (fold (upsert key found new) xs []) = key ` set xs"
proof -
  have "k \<in> fst ` set (fold (upsert key found new) xs []) \<longleftrightarrow> k \<in> key ` set xs" for k
  proof -
    have "k \<in> fst ` set (fold (upsert key found new) xs []) \<longleftrightarrow> om_find (fold (upsert key found new) xs []) k \<noteq> None"
      by (simp add: map_of_eq_None_iff)
    also have "\<dots> \<longleftrightarrow> filter (\<lambda>x. key x = k) xs \<noteq> []"
      by (simp add: upsert_fold_find split: list.split)
    also have "\<dots> \<longleftrightarrow> k \<in> key ` set xs"
      by (auto simp: filter_empty_conv)
    finally show ?thesis .
  qed
  then show ?thesis by blast
qed

section \<open>Taihe\<close>

definition Idl_MergePackageStats :: "package_stats \<Rightarrow> package_stats \<Rightarrow> package_stats" where
  "Idl_MergePackageStats left right =
     (if pk_bundleName left \<noteq> pk_bundleName right then left
      else left \<lparr>
        pk_lastTimeUsed := max (pk_lastTimeUsed left) (pk_lastTimeUsed right),
        pk_lastContiniousTaskUsed := max (pk_lastContiniousTaskUsed left) (pk_lastContiniousTaskUsed right),
        pk_totalInFrontTime := pk_totalInFrontTime left + pk_totalInFrontTime right,
        pk_totalContiniousTaskUsedTime := pk_totalContiniousTaskUsedTime left + pk_totalContiniousTaskUsedTime right,
        pk_bundleStartedCount := pk_bundleStartedCount left + pk_bundleStartedCount right,
        pk_startCount := pk_startCount left + pk_startCount right \<rparr>)"

definition Idl_QueryBundleStatsInfos ::
    "registry \<Rightarrow> 's remote \<Rightarrow> int \<Rightarrow> int \<Rightarrow> client \<times> 's \<Rightarrow> (int \<times> (string, package_stats) omap option) \<times> client \<times> 's" where
  "Idl_QueryBundleStatsInfos R M beginTime endTime st =
     (case Client_QueryBundleStatsInfoByInterval R M 0 beginTime endTime (- 1) st of
        ((errCode, packageStats), st1) \<Rightarrow>
          ((errCode,
            if packageStats = [] then None
            else Some (fold (upsert pk_bundleName (\<lambda>packageStat old. Idl_MergePackageStats old packageStat)
                               (\<lambda>packageStat. packageStat)) packageStats [])), st1))"

definition Idl_join :: "package_stats \<Rightarrow> package_stats list \<Rightarrow> package_stats list" where
  "Idl_join packageStat stats =
     (let merged = map (\<lambda>packageMerge.
            if pk_appIndex packageMerge = pk_appIndex packageStat then Idl_MergePackageStats packageMerge packageStat
            else packageMerge) stats;
          sign = (\<exists>packageMerge \<in> set stats. pk_appIndex packageMerge = pk_appIndex packageStat)
      in if \<not> sign then merged @ [packageStat] else merged)"

definition Idl_MergeAppStatsInfos ::
    "package_stats list \<Rightarrow> (string, package_stats list) omap \<Rightarrow> (string, package_stats list) omap" where
  "Idl_MergeAppStatsInfos packageStats merged =
     fold (upsert pk_bundleName Idl_join (\<lambda>packageStat. [packageStat])) packageStats merged"

abbreviation (input) INTERVAL_TIME :: int where "INTERVAL_TIME \<equiv> 30 * 24 * 60 * 60 * 1000"
abbreviation (input) MAX_TIME :: int where "MAX_TIME \<equiv> 20000000000000"

definition Idl_QueryAppStatsInfos ::
    "registry \<Rightarrow> 's remote \<Rightarrow> int \<Rightarrow> int \<Rightarrow> client \<times> 's \<Rightarrow> (int \<times> (string, package_stats list) omap option) \<times> client \<times> 's" where
  "Idl_QueryAppStatsInfos R M beginTime endTime st =
     (case Client_QueryBundleStatsInfoByInterval R M (if endTime - beginTime \<le> INTERVAL_TIME then 1 else 0)
             beginTime endTime (- 1) st of
        ((errCode, packageStats), st1) \<Rightarrow>
          ((errCode, if packageStats = [] then None else Some (Idl_MergeAppStatsInfos packageStats [])), st1))"

text \<open>A question for clones names each by the bundle name followed by its printed index.\<close>

definition clone_key :: "package_stats \<Rightarrow> string" where
  "clone_key packageStat = pk_bundleName packageStat @ int_to_string (pk_appIndex packageStat)"

definition asked_keys :: "(string, int list) omap \<Rightarrow> string list" where
  "asked_keys queryInfos =
     concat (map (\<lambda>queryInfo. map (\<lambda>i. fst queryInfo @ int_to_string i) (snd queryInfo)) queryInfos)"

definition select_asked :: "(string, int list) omap \<Rightarrow> package_stats list \<Rightarrow> package_stats list" where
  "select_asked queryInfos packageStats =
     concat (map (\<lambda>tempQueryInfo. filter (\<lambda>packageStat. tempQueryInfo = clone_key packageStat) packageStats)
       (asked_keys queryInfos))"

definition Idl_QueryLastUseTime ::
    "registry \<Rightarrow> 's remote \<Rightarrow> (string, int list) omap \<Rightarrow> client \<times> 's \<Rightarrow>
      (int \<times> (string, package_stats list) omap option) \<times> client \<times> 's" where
  "Idl_QueryLastUseTime R M queryInfos st =
     (case Client_QueryBundleStatsInfoByInterval R M 4 0 MAX_TIME (- 1) st of
        ((errCode, packageStats), st1) \<Rightarrow>
          ((errCode,
            if packageStats = [] then None
            else Some (Idl_MergeAppStatsInfos (select_asked queryInfos packageStats) [])), st1))"

section \<open>JavaScript\<close>

definition Js_MergePackageStats :: "package_stats \<Rightarrow> package_stats \<Rightarrow> package_stats" where
  "Js_MergePackageStats left right =
     (if pk_bundleName left \<noteq> pk_bundleName right then left
      else left \<lparr>
        pk_lastTimeUsed := max (pk_lastTimeUsed left) (pk_lastTimeUsed right),
        pk_lastContiniousTaskUsed := max (pk_lastContiniousTaskUsed left) (pk_lastContiniousTaskUsed right),
        pk_totalInFrontTime := pk_totalInFrontTime left + pk_totalInFrontTime right,
        pk_totalContiniousTaskUsedTime := pk_totalContiniousTaskUsedTime left + pk_totalContiniousTaskUsedTime right,
        pk_bundleStartedCount := pk_bundleStartedCount left + pk_bundleStartedCount right,
        pk_startCount := pk_startCount left + pk_startCount right \<rparr>)"

definition Js_QueryBundleStatsInfos ::
    "registry \<Rightarrow> 's remote \<Rightarrow> int \<Rightarrow> int \<Rightarrow> client \<times> 's \<Rightarrow> (int \<times> (string, package_stats) omap option) \<times> client \<times> 's" where
  "Js_QueryBundleStatsInfos R M beginTime endTime st =
     (case Client_QueryBundleStatsInfoByInterval R M 0 beginTime endTime (- 1) st of
        ((errCode, packageStats), st1) \<Rightarrow>
          ((errCode,
            if packageStats = [] then None
            else Some (fold (upsert pk_bundleName (\<lambda>packageStat old. Js_MergePackageStats old packageStat)
                               (\<lambda>packageStat. packageStat)) packageStats [])), st1))"

text \<open>The loop over the clones of a bundle runs over copies: what is merged into a copy is dropped with it, and
the list stays as it is.\<close>

definition Js_join :: "package_stats \<Rightarrow> package_stats list \<Rightarrow> package_stats list" where
  "Js_join packageStat stats =
     (if \<not> (\<exists>packageMerge \<in> set stats. pk_appIndex packageMerge = pk_appIndex packageStat)
      then stats @ [packageStat] else stats)"

definition Js_MergeAppStatsInfos ::
    "package_stats list \<Rightarrow> (string, package_stats list) omap \<Rightarrow> (string, package_stats list) omap" where
  "Js_MergeAppStatsInfos packageStats merged =
     fold (upsert pk_bundleName Js_join (\<lambda>packageStat. [packageStat])) packageStats merged"

definition Js_QueryAppStatsInfos ::
    "registry \<Rightarrow> 's remote \<Rightarrow> int \<Rightarrow> int \<Rightarrow> client \<times> 's \<Rightarrow> (int \<times> (string, package_stats list) omap option) \<times> client \<times> 's" where
  "Js_QueryAppStatsInfos R M beginTime endTime st =
     (case Client_QueryBundleStatsInfoByInterval R M (if endTime - beginTime \<le> INTERVAL_TIME then 3 else 0)
             beginTime endTime (- 1) st of
        ((errCode, packageStats), st1) \<Rightarrow>
          ((errCode, if packageStats = [] then None else Some (Js_MergeAppStatsInfos packageStats [])), st1))"

definition Js_QueryLastUseTime ::
    "registry \<Rightarrow> 's remote \<Rightarrow> (string, int list) omap \<Rightarrow> client \<times> 's \<Rightarrow>
      (int \<times> (string, package_stats list) omap option) \<times> client \<times> 's" where
  "Js_QueryLastUseTime R M queryInfos st =
     (case Client_QueryBundleStatsInfoByInterval R M 3 0 MAX_TIME (- 1) st of
        ((errCode, packageStats), st1) \<Rightarrow>
          ((errCode,
            if packageStats = [] then None
            else Some (Js_MergeAppStatsInfos (select_asked queryInfos packageStats) [])), st1))"


section \<open>Joining the clones of a bundle\<close>

lemma MergePackageStats_same:
  "Idl_MergePackageStats = MergeSamePackageStats" "Js_MergePackageStats = MergeSamePackageStats"
  by (simp_all add: fun_eq_iff Idl_MergePackageStats_def Js_MergePackageStats_def MergeSamePackageStats_def)

text \<open>The two ways of joining differ in what becomes of the record that is there already.\<close>

locale clone_join =
  fixes merge :: "package_stats \<Rightarrow> package_stats \<Rightarrow> package_stats"
    and join :: "package_stats \<Rightarrow> package_stats list \<Rightarrow> package_stats list"
  assumes index: "pk_appIndex (merge p s) = pk_appIndex p"
    and join: "join s v =
      (if pk_appIndex s \<in> pk_appIndex ` set v
       then map (\<lambda>p. if pk_appIndex p = pk_appIndex s then merge p s else p) v else v @ [s])"
begin

abbreviation by_index :: "package_stats list \<Rightarrow> (int \<times> package_stats) list" where
  "by_index v \<equiv> map (\<lambda>p. (pk_appIndex p, p)) v"

lemma join_indices: "map pk_appIndex (join s v) =
    (if pk_appIndex s \<in> pk_appIndex ` set v then map pk_appIndex v else map pk_appIndex v @ [pk_appIndex s])"
  by (simp add: join index)

lemma join_distinct: "distinct (map pk_appIndex v) \<Longrightarrow> distinct (map pk_appIndex (join s v))"
  by (simp only: join_indices) auto

lemma join_find:
  "map_of (by_index (join s v)) i =
    (if pk_appIndex s = i then Some (case map_of (by_index v) i of Some p \<Rightarrow> merge p s | None \<Rightarrow> s)
     else map_of (by_index v) i)"
proof (cases "pk_appIndex s \<in> pk_appIndex ` set v")
  case True
  have "map_of (by_index (map (\<lambda>p. if pk_appIndex p = pk_appIndex s then merge p s else p) v)) i =
      (if pk_appIndex s = i then map_option (\<lambda>p. merge p s) (map_of (by_index v) i) else map_of (by_index v) i)"
    by (induction v) (auto simp: index)
  moreover have "map_of (by_index v) (pk_appIndex s) \<noteq> None"
    using True by (simp add: map_of_eq_None_iff image_image)
  ultimately show ?thesis
    using True by (auto simp: join)
next
  case False
  then have "map_of (by_index v) (pk_appIndex s) = None"
    by (simp add: map_of_eq_None_iff image_image)
  with False show ?thesis
    by (auto simp: join map_add_def split: option.split)
qed

lemma fold_join_distinct: "distinct (map pk_appIndex v) \<Longrightarrow> distinct (map pk_appIndex (fold join ys v))"
  by (induction ys arbitrary: v) (simp_all only: fold_simps join_distinct)

lemma fold_join_find:
  "map_of (by_index (fold join ys v)) i =
    (case map_of (by_index v) i of
       Some p \<Rightarrow> Some (foldl merge p (filter (\<lambda>s. pk_appIndex s = i) ys))
     | None \<Rightarrow> (case filter (\<lambda>s. pk_appIndex s = i) ys of [] \<Rightarrow> None | y # rs \<Rightarrow> Some (foldl merge y rs)))"
proof (induction ys arbitrary: v)
  case (Cons y ys)
  show ?case
    by (simp only: fold_simps Cons.IH join_find) (simp split: option.split)
qed (simp split: option.split)

text \<open>The records of one bundle, joined from the first on.\<close>

lemma joined:
  assumes "v = fold join ys [y]"
  shows "distinct (map pk_appIndex v)"
    "r \<in> set v \<longleftrightarrow> (\<exists>q rs. filter (\<lambda>s. pk_appIndex s = pk_appIndex r) (y # ys) = q # rs \<and> r = foldl merge q rs)"
proof -
  show d: "distinct (map pk_appIndex v)"
    unfolding assms by (rule fold_join_distinct) simp
  have "r \<in> set v \<longleftrightarrow> map_of (by_index v) (pk_appIndex r) = Some r"
  proof -
    have "distinct (map fst (by_index v))"
      using d by (simp add: comp_def)
    then have "map_of (by_index v) (pk_appIndex r) = Some r \<longleftrightarrow> (pk_appIndex r, r) \<in> set (by_index v)"
      by (rule map_of_eq_Some_iff)
    then show ?thesis by auto
  qed
  also have "\<dots> \<longleftrightarrow> (\<exists>q rs. filter (\<lambda>s. pk_appIndex s = pk_appIndex r) (y # ys) = q # rs \<and> r = foldl merge q rs)"
    unfolding assms fold_join_find by (auto split: list.splits)
  finally show "r \<in> set v \<longleftrightarrow>
      (\<exists>q rs. filter (\<lambda>s. pk_appIndex s = pk_appIndex r) (y # ys) = q # rs \<and> r = foldl merge q rs)" .
qed

lemma foldl_merge_index: "pk_appIndex (foldl merge q rs) = pk_appIndex q"
  by (induction rs arbitrary: q) (simp_all add: index)

lemma joined_indices:
  assumes "v = fold join ys [y]"
  shows "pk_appIndex ` set v = pk_appIndex ` set (y # ys)"
proof -
  have "i \<in> pk_appIndex ` set v \<longleftrightarrow> i \<in> pk_appIndex ` set (y # ys)" for i
  proof -
    have "i \<in> pk_appIndex ` set v \<longleftrightarrow> map_of (by_index v) i \<noteq> None"
      by (simp add: map_of_eq_None_iff image_image)
    also have "\<dots> \<longleftrightarrow> filter (\<lambda>s. pk_appIndex s = i) (y # ys) \<noteq> []"
      unfolding assms fold_join_find by (auto split: list.splits)
    also have "\<dots> \<longleftrightarrow> i \<in> pk_appIndex ` set (y # ys)"
      by (auto simp: filter_empty_conv)
    finally show ?thesis .
  qed
  then show ?thesis by blast
qed

lemma app_find:
  "om_find (fold (upsert pk_bundleName join (\<lambda>s. [s])) xs []) n = Some v \<longleftrightarrow>
    (\<exists>y ys. filter (\<lambda>s. pk_bundleName s = n) xs = y # ys \<and> v = fold join ys [y])"
  by (auto simp: upsert_fold_find split: list.splits)

end

lemma has_index: "(\<exists>p \<in> set v. pk_appIndex p = i) \<longleftrightarrow> i \<in> pk_appIndex ` set v"
  by force

interpretation idl: clone_join Idl_MergePackageStats Idl_join
proof
  show "pk_appIndex (Idl_MergePackageStats p s) = pk_appIndex p" for p s
    by (simp add: Idl_MergePackageStats_def)
  show "Idl_join s v = (if pk_appIndex s \<in> pk_appIndex ` set v
      then map (\<lambda>p. if pk_appIndex p = pk_appIndex s then Idl_MergePackageStats p s else p) v else v @ [s])" for s v
  proof (cases "pk_appIndex s \<in> pk_appIndex ` set v")
    case False
    then have "map (\<lambda>p. if pk_appIndex p = pk_appIndex s then Idl_MergePackageStats p s else p) v = v"
      by (intro map_idI) (metis image_eqI)
    with False show ?thesis by (simp add: Idl_join_def Let_def has_index)
  qed (simp add: Idl_join_def Let_def has_index)
qed

interpretation js: clone_join "\<lambda>p s. p" Js_join
  by unfold_locales (simp_all add: Js_join_def has_index)

section \<open>What is answered\<close>

definition app_records :: "string \<Rightarrow> int \<Rightarrow> package_stats list \<Rightarrow> package_stats list" where
  "app_records n i xs = filter (\<lambda>s. pk_bundleName s = n \<and> pk_appIndex s = i) xs"

lemma app_records_filter: "filter (\<lambda>s. pk_appIndex s = i) (filter (\<lambda>s. pk_bundleName s = n) xs) = app_records n i xs"
  by (auto simp: app_records_def intro!: filter_cong)

text \<open>\<open>app_summary rec xs m\<close>: the map \<open>m\<close> has the bundles of \<open>xs\<close>, each with its clones, and for each clone
one record, which \<open>rec\<close> accepts as standing for the records of that clone.\<close>

definition app_summary ::
    "(package_stats list \<Rightarrow> package_stats \<Rightarrow> bool) \<Rightarrow> package_stats list \<Rightarrow> (string, package_stats list) omap \<Rightarrow> bool" where
  "app_summary stands xs m \<longleftrightarrow> om_wf m \<and> fst ` set m = pk_bundleName ` set xs \<and>
     (\<forall>n v. om_find m n = Some v \<longrightarrow> distinct (map pk_appIndex v) \<and>
        pk_appIndex ` set v = pk_appIndex ` {s \<in> set xs. pk_bundleName s = n} \<and>
        (\<forall>r \<in> set v. pk_bundleName r = n \<and> stands (app_records n (pk_appIndex r) xs) r))"

lemma clone_summary:
  assumes "clone_join merge join"
    "\<And>n i q rs. app_records n i xs = q # rs \<Longrightarrow> pk_bundleName (foldl merge q rs) = n \<and> stands (q # rs) (foldl merge q rs)"
  shows "app_summary stands xs (fold (upsert pk_bundleName join (\<lambda>s. [s])) xs [])"
proof -
  let ?m = "fold (upsert pk_bundleName join (\<lambda>s. [s])) xs []"
  have "distinct (map pk_appIndex v) \<and> pk_appIndex ` set v = pk_appIndex ` {s \<in> set xs. pk_bundleName s = n} \<and>
      (\<forall>r \<in> set v. pk_bundleName r = n \<and> stands (app_records n (pk_appIndex r) xs) r)"
    if found: "om_find ?m n = Some v" for n v
  proof -
    obtain y ys where y: "filter (\<lambda>s. pk_bundleName s = n) xs = y # ys" "v = fold join ys [y]"
      using found unfolding clone_join.app_find [OF assms(1)] by blast
    have "set (y # ys) = {s \<in> set xs. pk_bundleName s = n}"
      by (simp flip: y(1))
    moreover have "pk_bundleName r = n \<and> stands (app_records n (pk_appIndex r) xs) r" if "r \<in> set v" for r
      using that clone_join.joined(2) [OF assms(1) y(2), of r] assms(2)
      by (metis app_records_filter y(1))
    ultimately show ?thesis
      using clone_join.joined(1) [OF assms(1) y(2)] clone_join.joined_indices [OF assms(1) y(2)] by simp
  qed
  then show ?thesis
    by (simp add: app_summary_def upsert_fold_wf upsert_fold_keys)
qed


lemma Idl_summary: "app_summary summed xs (Idl_MergeAppStatsInfos xs [])"
  unfolding Idl_MergeAppStatsInfos_def
proof (rule clone_summary)
  show "clone_join Idl_MergePackageStats Idl_join" ..
  fix n i q rs
  assume "app_records n i xs = q # rs"
  then have "set (q # rs) = set (app_records n i xs)" by simp
  then have "s \<in> set (q # rs) \<Longrightarrow> pk_bundleName s = n" for s
    by (simp only:) (simp add: app_records_def)
  then have n: "pk_bundleName q = n" "\<forall>s \<in> set rs. pk_bundleName s = pk_bundleName q"
    by simp_all
  show "pk_bundleName (foldl Idl_MergePackageStats q rs) = n \<and> summed (q # rs) (foldl Idl_MergePackageStats q rs)"
    unfolding MergePackageStats_same summed_def using foldl_merge [OF n(2)] n(1) by simp
qed

lemma foldl_first: "foldl (\<lambda>p s. p) q rs = q"
  by (induction rs) simp_all

lemma Js_summary: "app_summary (\<lambda>ys r. r = hd ys) xs (Js_MergeAppStatsInfos xs [])"
  unfolding Js_MergeAppStatsInfos_def
proof (rule clone_summary)
  show "clone_join (\<lambda>p s. p) Js_join" ..
  fix n i q rs
  assume "app_records n i xs = q # rs"
  then have "pk_bundleName q = n"
    unfolding app_records_def by (auto simp: filter_eq_Cons_iff)
  then show "pk_bundleName (foldl (\<lambda>p s. p) q rs) = n \<and> foldl (\<lambda>p s. p) q rs = hd (q # rs)"
    by (simp add: foldl_first)
qed

text \<open>Which records are asked for is a matter of their printed keys; their order does not matter to the sums.\<close>

lemma mset_filter_insert:
  "k \<notin> A \<Longrightarrow> mset (filter (\<lambda>x. f x \<in> insert k A) xs) = mset (filter (\<lambda>x. k = f x) xs) + mset (filter (\<lambda>x. f x \<in> A) xs)"
  by (induction xs) auto

lemma mset_select: "distinct ks \<Longrightarrow> mset (concat (map (\<lambda>k. filter (\<lambda>x. k = f x) xs) ks)) = mset (filter (\<lambda>x. f x \<in> set ks) xs)"
proof (induction ks)
  case (Cons k ks)
  then have "k \<notin> set ks" and
    IH: "mset (concat (map (\<lambda>k. filter (\<lambda>x. k = f x) xs) ks)) = mset (filter (\<lambda>x. f x \<in> set ks) xs)"
    by simp_all
  then show ?case
    using mset_filter_insert [of k "set ks" f xs] by (simp del: mset_filter)
qed simp

lemma summed_mset:
  assumes "mset xs = mset ys"
  shows "summed xs r = summed ys r"
proof -
  have "sum_list (map f xs) = sum_list (map f ys)" for f :: "package_stats \<Rightarrow> int"
    using assms by (metis mset_map sum_mset_sum_list)
  moreover have "set xs = set ys"
    using assms by (rule mset_eq_setD)
  ultimately show ?thesis by (simp add: summed_def)
qed

lemma app_summary_mset:
  assumes "app_summary summed xs m" "mset xs = mset ys"
  shows "app_summary summed ys m"
proof -
  have "set xs = set ys"
    using assms(2) by (rule mset_eq_setD)
  moreover have "mset (app_records n i xs) = mset (app_records n i ys)" for n i
    using assms(2) by (simp add: app_records_def mset_filter)
  then have "summed (app_records n i xs) r = summed (app_records n i ys) r" for n i r
    by (rule summed_mset)
  ultimately show ?thesis
    using assms(1) unfolding app_summary_def by simp
qed


definition bundle_summary :: "package_stats list \<Rightarrow> (string, package_stats) omap \<Rightarrow> bool" where
  "bundle_summary xs m \<longleftrightarrow> om_wf m \<and> fst ` set m = pk_bundleName ` set xs \<and>
     (\<forall>n r. om_find m n = Some r \<longrightarrow> pk_bundleName r = n \<and> summed (filter (\<lambda>s. pk_bundleName s = n) xs) r)"

lemma Idl_bundle_summary:
  "bundle_summary xs (fold (upsert pk_bundleName (\<lambda>s old. Idl_MergePackageStats old s) (\<lambda>s. s)) xs [])"
proof -
  let ?m = "fold (upsert pk_bundleName (\<lambda>s old. Idl_MergePackageStats old s) (\<lambda>s. s)) xs []"
  have "pk_bundleName r = n \<and> summed (filter (\<lambda>s. pk_bundleName s = n) xs) r"
    if found: "om_find ?m n = Some r" for n r
  proof -
    obtain y ys where y: "filter (\<lambda>s. pk_bundleName s = n) xs = y # ys"
        "r = fold (\<lambda>s old. MergeSamePackageStats old s) ys y"
      using found by (auto simp: upsert_fold_find MergePackageStats_same split: list.splits)
    then have r: "r = foldl MergeSamePackageStats y ys"
      by (simp add: foldl_conv_fold)
    have "set (y # ys) = {s \<in> set xs. pk_bundleName s = n}"
      by (simp flip: y(1))
    then have "pk_bundleName s = n" if "s \<in> set (y # ys)" for s
      using that by blast
    then have n: "pk_bundleName y = n" "\<forall>s \<in> set ys. pk_bundleName s = pk_bundleName y"
      by simp_all
    show ?thesis
      unfolding y(1) r summed_def using foldl_merge [OF n(2)] n(1) by simp
  qed
  then show ?thesis
    by (simp add: bundle_summary_def upsert_fold_wf upsert_fold_keys)
qed


text \<open>A service that knows the records of one bundle, kept for two days, and nothing else.\<close>

definition demo_answers :: "package_stats list \<Rightarrow> 's remote" where
  "demo_answers xs = \<lparr>
     rm_ReportEvent = (\<lambda>_ _ s. (OK, s)), rm_IsBundleIdle = (\<lambda>_ _ s. ((OK, False), s)),
     rm_IsBundleUsePeriod = (\<lambda>_ _ s. ((OK, False), s)),
     rm_QueryBundleStatsInfoByInterval = (\<lambda>_ _ _ _ s. ((OK, xs), s)),
     rm_QueryBundleEvents = (\<lambda>_ _ _ _ s. ((OK, []), s)), rm_QueryBundleStatsInfos = (\<lambda>_ _ _ s. ((OK, []), s)),
     rm_QueryHighFrequencyUsageBundleInfos = (\<lambda>_ _ _ s. ((OK, []), s)),
     rm_QueryCurrentBundleEvents = (\<lambda>_ _ _ s. ((OK, []), s)), rm_QueryAppGroup = (\<lambda>_ _ s. ((OK, 10), s)),
     rm_SetAppGroup = (\<lambda>_ _ _ s. (OK, s)), rm_QueryModuleUsageRecords = (\<lambda>_ _ s. ((OK, []), s)),
     rm_RegisterAppGroupCallBack = (\<lambda>_ s. (OK, s)), rm_UnRegisterAppGroupCallBack = (\<lambda>_ s. (OK, s)),
     rm_QueryDeviceEventStats = (\<lambda>_ _ _ s. ((OK, []), s)), rm_QueryNotificationEventStats = (\<lambda>_ _ _ s. ((OK, []), s)),
     rm_QueryHighFrequencyPeriodBundle = (\<lambda>_ s. ((OK, []), s)),
     rm_QueryBundleTodayLatestUsedTime = (\<lambda>_ _ s. ((OK, 0), s)) \<rparr>"

definition connected :: client where
  "connected = Client_new \<lparr> cl_proxy := True \<rparr>"

lemma connected_proxy [simp]: "GetBundleActiveProxy R connected = (OK, connected)"
  by (simp add: GetBundleActiveProxy_def connected_def Client_new_def)


section \<open>What the code does wrong\<close>

text \<open>For JavaScript the record of a clone is the first of its records: the others are lost.\<close>

lemma js_clones_not_merged:
  assumes "Client_QueryBundleStatsInfoByInterval R M (if e - b \<le> INTERVAL_TIME then 3 else 0) b e (- 1) st = ((ret, xs), st1)"
    "xs \<noteq> []"
  shows "\<exists>m. Js_QueryAppStatsInfos R M b e st = ((ret, Some m), st1) \<and> app_summary (\<lambda>ys r. r = hd ys) xs m"
  using assms Js_summary [of xs] by (simp add: Js_QueryAppStatsInfos_def)

text \<open>For one bundle at a time both bindings are right; for clones they do not ask the service for the same
period, and the last use is looked for in what the service takes for the months, not the years.\<close>

lemma js_bundles_merged: "Js_QueryBundleStatsInfos R M b e st = Idl_QueryBundleStatsInfos R M b e st"
  unfolding Js_QueryBundleStatsInfos_def Idl_QueryBundleStatsInfos_def MergePackageStats_same ..

lemma periods_asked: "ConvertIntervalType 1 = 0" "ConvertIntervalType 3 = 2" "ConvertIntervalType 4 = 3"
  by (simp_all add: ConvertIntervalType_def)

text \<open>A printed key does not tell the name from the index: who asks for clone 2 of \<open>a1\<close> is answered clone 12 of
\<open>a\<close>. And who asks for a clone twice is answered twice its usage.\<close>

lemma clone_mistaken:
  "select_asked [(''a1'', [2])] [PackageStats_default \<lparr> pk_bundleName := ''a'', pk_appIndex := 12 \<rparr>] =
     [PackageStats_default \<lparr> pk_bundleName := ''a'', pk_appIndex := 12 \<rparr>]"
proof -
  have "int_to_string 12 = ''12''" "int_to_string 2 = ''2''"
    by code_simp+
  then show ?thesis
    by (simp add: select_asked_def asked_keys_def clone_key_def)
qed

lemma clone_asked_twice:
  "Idl_MergeAppStatsInfos (select_asked [(pk_bundleName s, [pk_appIndex s, pk_appIndex s])] [s]) [] =
     [(pk_bundleName s, [Idl_MergePackageStats s s])]"
  by (simp add: select_asked_def asked_keys_def clone_key_def Idl_MergeAppStatsInfos_def upsert_def Idl_join_def)

end
