(* ===== verification/AppErrors.thy ===== *)
theory AppErrors
  imports Prelude Errors
begin

text \<open>How an error number is told to an application: the tables of \<open>bundle_state_inner_errors.h\<close>, and the
functions over them of \<open>frameworks/src/bundle_state_common.cpp\<close> (for JavaScript) and of
\<open>bundle_state_idl_err_code.cpp\<close> (for Taihe), which differ in the words they begin with.\<close>

definition saErrCodeMsgMap :: "(int \<times> string) list" where
  "saErrCodeMsgMap = [
     (errcode_num ERR_PERMISSION_DENIED, ''Permission denied.''),
     (errcode_num ERR_NOT_SYSTEM_APP, ''Not system app.''),
     (errcode_num ERR_MEMORY_OPERATION_FAILED, ''Memory operation failed. create object failed.''),
     (errcode_num ERR_PARCEL_WRITE_FALIED, ''Parcel operation failed. Failed to write data into parcel.'' @
        ''Possible reasons: 1. Invalid parameters; 2. Failed to apply for memory.''),
     (errcode_num ERR_GET_SYSTEM_ABILITY_MANAGER_FAILED,
        ''System service operation failed. Failed to get system ability manager.''),
     (errcode_num ERR_GET_SYSTEM_ABILITY_FAILED,
        ''System service operation failed. Failed to get system ability manager.''),
     (errcode_num ERR_CHECK_SYSTEM_ABILITY_FAILED, ''System service operation failed. Failed to get system ability.''),
     (errcode_num ERR_SYSTEM_SERVICES_NOT_READY, ''System service operation failed. The service is not ready.''),
     (errcode_num ERR_REMOTE_OBJECT_IF_CAST_FAILED,
        ''System service operation failed. The remote object if cast failed.''),
     (errcode_num ERR_SYSTEM_ABILITY_SUPPORT_FAILED, ''System service operation failed. System ability support failed.''),
     (errcode_num ERR_IPC_COMMUNICATION_FAILED, ''IPC failed. Failed to access the device usage service.''),
     (errcode_num ERR_APPLICATION_IS_NOT_INSTALLED,
        ''The application is not installed. Failed to operation the application.''),
     (errcode_num ERR_FIND_APP_USAGE_RECORDS_FAILED,
        ''Failed to get the application information. Cannot find app usage records.''),
     (errcode_num ERR_NO_RECORDS_INFO_BY_INTERVAL, ''Failed to get the application information.'' @
        ''According to inetrvalType. no information is recorded in the related table.''),
     (errcode_num ERR_QUERY_TIME_OUT_OF_RANGE,
        ''Failed to get the application information. According to beginTime and endTime. no information is recorded''),
     (errcode_num ERR_QUERY_RESULT_TOO_LARGE,
        ''Query events max size is 100000, Query package stats max result size is 1000.'' @
        ''Query result is too large, please narrow query time span.''),
     (errcode_num ERR_GET_BUNDLE_USED_HISTORY_FAILED,
        ''Failed to get the application information. According to userId'' @ [CHR 0xE3, CHR 0x80, CHR 0x81] @
        ''bundleName, no information is recorded''),
     (errcode_num ERR_TIME_OPERATION_FAILED, ''Get system or actual time operation failed.''),
     (errcode_num ERR_REPEAT_REGISTER_OR_DEREGISTER_GROUP_CALLBACK, ''Repeated operation on the application group.'' @
        ''Repeat to register or deregister, an interception application group''),
     (errcode_num ERR_REPEAT_SET_APP_GROUP, ''Repeated operation on the application group.'' @
        ''The application group are the the same and do not need te be updated.''),
     (errcode_num ERR_NO_APP_GROUP_INFO_IN_DATABASE,
        ''Failed to get the application group information. The application group infomation cannot be found.'')]"

definition paramErrCodeMsgMap :: "(int \<times> string) list" where
  "paramErrCodeMsgMap = [
     (param_num ERR_PARAMETERS_NUMBER, '' api interface parameters count is error.''),
     (param_num ERR_PARAMETERS_EMPTY, '' cannot be empty.''),
     (param_num ERR_CALL_BACK_TYPE, '' Callback type must be function.''),
     (param_num ERR_BUNDLE_NAME_TYPE, ''The type of bundleName must be string.''),
     (param_num ERR_BEGIN_TIME_TYPE, ''The type of beginTime must be int64.''),
     (param_num ERR_BEGIN_TIME_LESS_THEN_ZERO, ''The beginTime value must be greater than or equal to 0.''),
     (param_num ERR_END_TIME_TYPE, ''The type of endTime must be int64.''),
     (param_num ERR_END_TIME_LESS_THEN_BEGIN_TIME, ''The endTime value must be greater than beginTime.''),
     (param_num ERR_INTERVAL_TYPE, ''The type of byInterval must be int32.''),
     (param_num ERR_INTERVAL_OUT_OF_RANGE, ''The value of byInterval must range from BY_OPTIMIZED to BY_ANNUALLY.''),
     (param_num ERR_NEW_GROUP_TYPE, ''The type of newGroup must be int32.''),
     (param_num ERR_NEW_GROUP_OUT_OF_RANGE, ''The type of newGroup must be {10,20,30,40,50,60}.''),
     (param_num ERR_MAX_RECORDS_NUM_TYPE, ''The type of maxNum must be int32.''),
     (param_num ERR_MAX_RECORDS_NUM_BIGER_THEN_ONE_THOUSAND, ''The maxNum cannot exceed 1000 or less then 1.''),
     (param_num ERR_APP_GROUP_OBSERVER_CALLBACK_TYPE, ''The type of callback must be Callback<AppGroupCallbackInfo>.''),
     (param_num ERR_REPEAT_REGISTER_APP_GROUP_OBSERVER,
        ''Repeat register app group observer, one process only hava one observer''),
     (param_num ERR_APP_GROUP_OBSERVER_IS_NULLPTR, ''App observer is nullptr, please register before unRegister.''),
     (param_num ERR_ASYNC_CALLBACK_NULLPTR, ''Create async callback info object failed.''),
     (param_num ERR_ASYNC_CALLBACK_INIT_FAILED, ''Init async callback info object failed.'')]"

section \<open>JavaScript\<close>

definition GetSaErrCodeMsg :: "int \<Rightarrow> int \<Rightarrow> string" where
  "GetSaErrCodeMsg errCode reflectCode =
     (case map_of saErrCodeMsgMap errCode of
        Some msg \<Rightarrow> ''BusinessError '' @ int_to_string reflectCode @ '':'' @ msg
      | None \<Rightarrow> '''')"

definition GetReflectErrCode :: "int \<Rightarrow> int" where
  "GetReflectErrCode errCode =
     (if errCode < errcode_num ERR_GET_SYSTEM_ABILITY_MANAGER_FAILED then errCode else cdiv errCode 100)"

section \<open>Taihe\<close>

definition Idl_GetSaErrCodeMsg :: "int \<Rightarrow> int \<Rightarrow> string" where
  "Idl_GetSaErrCodeMsg errCode reflectCode =
     (case map_of saErrCodeMsgMap errCode of
        Some msg \<Rightarrow> ''BussinessError '' @ int_to_string reflectCode @ '':'' @ msg
      | None \<Rightarrow> '''')"

definition Idl_GetReflectErrCode :: "int \<Rightarrow> int" where
  "Idl_GetReflectErrCode errCode =
     (if errCode < errcode_num ERR_GET_SYSTEM_ABILITY_MANAGER_FAILED then errCode else cdiv errCode 100)"

definition Idl_GetErrorCode :: "int \<Rightarrow> string" where
  "Idl_GetErrorCode errCode =
     (if errCode = errcode_num ERR_OK then ''''
      else let reflectCode = Idl_GetReflectErrCode errCode in Idl_GetSaErrCodeMsg errCode reflectCode)"

definition Idl_HandleParamErr :: "int \<Rightarrow> string \<Rightarrow> string" where
  "Idl_HandleParamErr errCode operation =
     (if errCode = errcode_num ERR_OK then ''''
      else ''BussinessError 401: Parameter error. '' @
        (case map_of paramErrCodeMsgMap errCode of Some msg \<Rightarrow> operation @ msg | None \<Rightarrow> ''''))"

definition Idl_HandleNewParamErr :: "int \<Rightarrow> string \<Rightarrow> string" where
  "Idl_HandleNewParamErr errCode operation =
     (if errCode = errcode_num ERR_OK then ''''
      else ''BussinessError 10000008: Parameter error. '' @
        (case map_of paramErrCodeMsgMap errCode of Some msg \<Rightarrow> operation @ msg | None \<Rightarrow> ''''))"

section \<open>The codes an application sees\<close>

text \<open>The codes of the documented interface are those below the first service error; a service error is told by
the documented code it is a case of.\<close>

lemma reflected_code:
  "Idl_GetReflectErrCode = GetReflectErrCode" "Idl_GetSaErrCodeMsg e r = (case map_of saErrCodeMsgMap e of
      Some _ \<Rightarrow> ''Buss'' @ drop 3 (GetSaErrCodeMsg e r) | None \<Rightarrow> '''')"
  by (simp_all add: fun_eq_iff Idl_GetReflectErrCode_def GetReflectErrCode_def Idl_GetSaErrCodeMsg_def
      GetSaErrCodeMsg_def split: option.split)

definition documented_codes :: "int list" where
  "documented_codes = [errcode_num ERR_OK, errcode_num ERR_PERMISSION_DENIED, errcode_num ERR_NOT_SYSTEM_APP,
     errcode_num ERR_PARAM_ERROR, errcode_num ERR_MEMORY_OPERATION_FAILED, errcode_num ERR_PARCEL_WRITE_FALIED,
     errcode_num ERR_SYSTEM_SERVICE_OPERATION_FAILED, errcode_num ERR_IPC_COMMUNICATION_FAILED,
     errcode_num ERR_APPLICATION_IS_NOT_INSTALLED, errcode_num ERR_GET_APPLICATION_INFO_FAILED,
     errcode_num ERR_TIME_OPERATION_FAILED, errcode_num ERR_NEW_PARAM_ERROR,
     errcode_num ERR_APPLICATION_GROUP_OPERATION_REPEATED, errcode_num ERR_NO_APP_GROUP_INFO_IN_DATABASE]"

lemma reflected_documented:
  assumes "e \<notin> {ERR_USAGE_STATS_INTERVAL_NUMBER, ERR_USAGE_STATS_METHOD_CALLED_FAILED, ERR_USAGE_STATS_INVALID_PARAM}"
  shows "GetReflectErrCode (errcode_num e) \<in> set documented_codes"
  using assms by (cases e) (simp_all add: GetReflectErrCode_def documented_codes_def)

lemma param_errors_worded:
  "\<exists>msg. map_of paramErrCodeMsgMap (param_num e) = Some msg \<and> msg \<noteq> ''''"
  by (cases e) (simp_all add: paramErrCodeMsgMap_def)

text \<open>The codes that only the first interface for JavaScript uses have no entry: their message is empty.\<close>

lemma usage_errors_unworded:
  "GetSaErrCodeMsg (usage_num e) (GetReflectErrCode (usage_num e)) = '''' \<and> GetReflectErrCode (usage_num e) = usage_num e"
  by (cases e) (simp_all add: GetSaErrCodeMsg_def GetReflectErrCode_def saErrCodeMsgMap_def)

end
