(* ===== verification/Taihe.thy ===== *)
theory Taihe
  imports AppAnswers AppErrors
begin

text \<open>The binding for Taihe: \<open>ohos.resourceschedule.usageStatistics.impl.cpp\<close> with the conversions of
\<open>bundle_state_idl_common.cpp\<close>, over the client library. An operation answers its value with the error
that it set, if it set one, and goes on from the client and the service behind it. Fields of the answers that
are never set are left out.\<close>

type_synonym business_error = "(int \<times> string) option"

type_synonym ('r, 's) taihe = "client \<times> 's \<Rightarrow> ('r \<times> business_error) \<times> client \<times> 's"

record bundle_stats_info =
  bi_id :: int
  bi_bundleName :: "string option"
  bi_abilityPrevAccessTime :: "int option"
  bi_abilityInFgTotalTime :: "int option"
  bi_appIndex :: "int option"

record bundle_events =
  be_bundleName :: "string option"
  be_eventId :: "int option"
  be_eventOccurredTime :: "int option"

record device_event_stats =
  de_name :: string
  de_eventId :: int
  de_count :: int

record hap_form_info =
  hf_formName :: string
  hf_formDimension :: int
  hf_formId :: int
  hf_formLastUsedTime :: int
  hf_count :: int

record taihe_module_info =
  hm_bundleName :: string
  hm_moduleName :: string
  hm_launchedCount :: int
  hm_lastModuleUsedTime :: int
  hm_formRecords :: "hap_form_info list"

definition ParseBundleStatsInfo :: "package_stats \<Rightarrow> bundle_stats_info" where
  "ParseBundleStatsInfo s = \<lparr> bi_id = pk_userId s, bi_bundleName = Some (pk_bundleName s),
     bi_abilityPrevAccessTime = Some (pk_lastTimeUsed s), bi_abilityInFgTotalTime = Some (pk_totalInFrontTime s),
     bi_appIndex = Some (pk_appIndex s) \<rparr>"

definition ParseBundleEvents :: "event \<Rightarrow> bundle_events" where
  "ParseBundleEvents ev = \<lparr> be_bundleName = Some (ev_bundleName ev), be_eventId = Some (ev_eventId ev),
     be_eventOccurredTime = Some (ev_timeStamp ev) \<rparr>"

definition ParseDeviceEventStats :: "event_stats \<Rightarrow> device_event_stats" where
  "ParseDeviceEventStats s = \<lparr> de_name = es_name s, de_eventId = es_eventId s, de_count = es_count s \<rparr>"

definition ParseformRecords :: "form_record list \<Rightarrow> hap_form_info list" where
  "ParseformRecords formRecords = map (\<lambda>f. \<lparr> hf_formName = fr_formName f, hf_formDimension = fr_formDimension f,
     hf_formId = fr_formId f, hf_formLastUsedTime = fr_formLastUsedTime f, hf_count = fr_count f \<rparr>) formRecords"

definition ParseHapModuleInfo :: "module_record \<Rightarrow> taihe_module_info" where
  "ParseHapModuleInfo m = \<lparr> hm_bundleName = mr_bundleName m, hm_moduleName = mr_moduleName m,
     hm_launchedCount = mr_launchedCount m, hm_lastModuleUsedTime = mr_lastModuleUsedTime m,
     hm_formRecords = ParseformRecords (mr_formRecords m) \<rparr>"

text \<open>The argument of \<open>queryLastUseTime\<close> is a map already; its pairs come in some order and are put into an
ordered map, where the first of two pairs with the same name stays.\<close>

definition ParseQueryInfosMap :: "(string \<times> int list) list \<Rightarrow> (string, int list) omap" where
  "ParseQueryInfosMap appInfos =
     fold (\<lambda>(n, is) m. if om_find m (c_str n) = None then om_insert (c_str n) is m else m) appInfos []"

section \<open>Checks\<close>

definition CheckBeginTimeAndEndTime :: "int \<Rightarrow> int \<Rightarrow> bool \<Rightarrow> bool \<times> business_error" where
  "CheckBeginTimeAndEndTime beginTime endTime newParamCode =
     (if beginTime < 0 then
        let errCode = param_num ERR_BEGIN_TIME_LESS_THEN_ZERO
        in (False, Some (if newParamCode then (errcode_num ERR_NEW_PARAM_ERROR, Idl_HandleNewParamErr errCode '''')
                         else (errcode_num ERR_PARAM_ERROR, Idl_HandleParamErr errCode '''')))
      else if endTime \<le> beginTime then
        let errCode = param_num ERR_END_TIME_LESS_THEN_BEGIN_TIME
        in (False, Some (if newParamCode then (errcode_num ERR_NEW_PARAM_ERROR, Idl_HandleNewParamErr errCode '''')
                         else (errcode_num ERR_PARAM_ERROR, Idl_HandleParamErr errCode '''')))
      else (True, None))"

definition CheckInterval :: "int \<Rightarrow> bool \<times> business_error" where
  "CheckInterval interval =
     (if interval < 0 \<or> interval > 4 then
        let errCode = param_num ERR_INTERVAL_OUT_OF_RANGE in (False, Some (errCode, Idl_HandleParamErr errCode ''''))
      else (True, None))"

definition CheckMaxNum :: "int \<Rightarrow> bool \<times> business_error" where
  "CheckMaxNum maxNum =
     (if maxNum > 1000 \<or> maxNum \<le> 0 then
        let errCode = param_num ERR_MAX_RECORDS_NUM_BIGER_THEN_ONE_THOUSAND
        in (False, Some (errCode, Idl_HandleParamErr errCode ''''))
      else (True, None))"

definition CheckEventMaxNum :: "int \<Rightarrow> bool \<times> business_error" where
  "CheckEventMaxNum maxNum =
     (if maxNum > 1000 \<or> maxNum \<le> 0 then
        let errCode = param_num ERR_MAX_RECORDS_NUM_BIGER_THEN_ONE_THOUSAND
        in (False, Some (errcode_num ERR_NEW_PARAM_ERROR, Idl_HandleNewParamErr errCode ''''))
      else (True, None))"

definition CheckNewGroupType :: "int \<Rightarrow> bool \<times> business_error" where
  "CheckNewGroupType newGroupType =
     (if newGroupType \<in> set [10, 20, 30, 40, 50, 60] then (True, None)
      else let errCode = param_num ERR_NEW_GROUP_OUT_OF_RANGE
        in (False, Some (errCode, Idl_HandleParamErr errCode '''')))"

text \<open>Every operation begins with its checks and ends where one of them has failed.\<close>

definition guarded :: "'r \<Rightarrow> (bool \<times> business_error) list \<Rightarrow> ('r, 's) taihe \<Rightarrow> ('r, 's) taihe" where
  "guarded none checks go st =
     (case find (\<lambda>c. \<not> fst c) checks of Some (_, err) \<Rightarrow> ((none, err), st) | None \<Rightarrow> go st)"

text \<open>What every operation does with the answer of the client: the error, under its own number, or the value.\<close>

definition answered :: "'r \<Rightarrow> ('a \<Rightarrow> 'r) \<Rightarrow> (int \<times> 'a) \<times> client \<times> 's \<Rightarrow> ('r \<times> business_error) \<times> client \<times> 's" where
  "answered none convert = (\<lambda>((errCode, value), st).
     if errCode \<noteq> OK then ((none, Some (errCode, Idl_GetErrorCode errCode)), st) else ((convert value, None), st))"

text \<open>A missing map is told as an error of its own.\<close>

definition answered_map ::
    "('v \<Rightarrow> 'w) \<Rightarrow> (int \<times> (string, 'v) omap option) \<times> client \<times> 's \<Rightarrow> ((string, 'w) omap \<times> business_error) \<times> client \<times> 's" where
  "answered_map convert = (\<lambda>((errCode, value), st).
     if errCode \<noteq> OK then (([], Some (errCode, Idl_GetErrorCode errCode)), st)
     else case value of
       None \<Rightarrow> let errCode = errcode_num ERR_SYSTEM_ABILITY_SUPPORT_FAILED
               in (([], Some (errCode, Idl_GetErrorCode errCode)), st)
     | Some m \<Rightarrow> ((map (\<lambda>(n, v). (n, convert v)) m, None), st))"

section \<open>Operations\<close>

definition Taihe_IsIdleStateSync :: "registry \<Rightarrow> 's remote \<Rightarrow> string \<Rightarrow> (bool, 's) taihe" where
  "Taihe_IsIdleStateSync R M bundleName st = answered False (\<lambda>b. b) (Client_IsBundleIdle R M (c_str bundleName) (- 1) st)"

definition Taihe_QueryAppGroupSyncByBundleName :: "registry \<Rightarrow> 's remote \<Rightarrow> string \<Rightarrow> (int, 's) taihe" where
  "Taihe_QueryAppGroupSyncByBundleName R M bundleName st =
     answered 60 (\<lambda>appGroup. appGroup) (Client_QueryAppGroup R M (c_str bundleName) (- 1) st)"

definition Taihe_QueryAppGroupSync :: "registry \<Rightarrow> 's remote \<Rightarrow> (int, 's) taihe" where
  "Taihe_QueryAppGroupSync R M st = answered 60 (\<lambda>appGroup. appGroup) (Client_QueryAppGroup R M '''' (- 1) st)"

definition Taihe_SetAppGroupSync :: "registry \<Rightarrow> 's remote \<Rightarrow> string \<Rightarrow> int \<Rightarrow> (unit, 's) taihe" where
  "Taihe_SetAppGroupSync R M bundleName newGroup = guarded () [CheckNewGroupType newGroup] (\<lambda>st.
     case Client_SetAppGroup R M (c_str bundleName) newGroup (- 1) st of (errCode, st1) \<Rightarrow> answered () (\<lambda>u. u) ((errCode, ()), st1))"

definition Taihe_QueryBundleStatsInfosAsync ::
    "registry \<Rightarrow> 's remote \<Rightarrow> int \<Rightarrow> int \<Rightarrow> ((string, bundle_stats_info) omap, 's) taihe" where
  "Taihe_QueryBundleStatsInfosAsync R M beginTime endTime =
     guarded [] [CheckBeginTimeAndEndTime beginTime endTime False] (\<lambda>st.
       answered_map ParseBundleStatsInfo (Idl_QueryBundleStatsInfos R M beginTime endTime st))"

definition Taihe_QueryAppStatsInfosAsync ::
    "registry \<Rightarrow> 's remote \<Rightarrow> int \<Rightarrow> int \<Rightarrow> ((string, bundle_stats_info list) omap, 's) taihe" where
  "Taihe_QueryAppStatsInfosAsync R M beginTime endTime =
     guarded [] [CheckBeginTimeAndEndTime beginTime endTime False] (\<lambda>st.
       answered_map (map ParseBundleStatsInfo) (Idl_QueryAppStatsInfos R M beginTime endTime st))"

definition Taihe_QueryLastUseTimeAsync ::
    "registry \<Rightarrow> 's remote \<Rightarrow> (string \<times> int list) list \<Rightarrow> ((string, bundle_stats_info list) omap, 's) taihe" where
  "Taihe_QueryLastUseTimeAsync R M appInfos st =
     answered_map (map ParseBundleStatsInfo) (Idl_QueryLastUseTime R M (ParseQueryInfosMap appInfos) st)"

definition Taihe_QueryBundleStatsInfoByIntervalAsync ::
    "registry \<Rightarrow> 's remote \<Rightarrow> int \<Rightarrow> int \<Rightarrow> int \<Rightarrow> (bundle_stats_info list, 's) taihe" where
  "Taihe_QueryBundleStatsInfoByIntervalAsync R M byInterval beginTime endTime =
     guarded [] [CheckBeginTimeAndEndTime beginTime endTime False, CheckInterval byInterval] (\<lambda>st.
       answered [] (map ParseBundleStatsInfo)
         (Client_QueryBundleStatsInfoByInterval R M byInterval beginTime endTime (- 1) st))"

definition Taihe_QueryBundleEventsAsyncByLimit ::
    "registry \<Rightarrow> 's remote \<Rightarrow> int \<Rightarrow> int \<Rightarrow> int \<Rightarrow> (bundle_events list, 's) taihe" where
  "Taihe_QueryBundleEventsAsyncByLimit R M beginTime endTime maxNum =
     guarded [] [CheckBeginTimeAndEndTime beginTime endTime True, CheckEventMaxNum maxNum] (\<lambda>st.
       answered [] (map ParseBundleEvents) (Client_QueryBundleEvents R M beginTime endTime (- 1) maxNum st))"

definition Taihe_QueryBundleEventsAsync ::
    "registry \<Rightarrow> 's remote \<Rightarrow> int \<Rightarrow> int \<Rightarrow> (bundle_events list, 's) taihe" where
  "Taihe_QueryBundleEventsAsync R M beginTime endTime = Taihe_QueryBundleEventsAsyncByLimit R M beginTime endTime 1000"

definition Taihe_QueryCurrentBundleEventsAsyncByLimit ::
    "registry \<Rightarrow> 's remote \<Rightarrow> int \<Rightarrow> int \<Rightarrow> int \<Rightarrow> (bundle_events list, 's) taihe" where
  "Taihe_QueryCurrentBundleEventsAsyncByLimit R M beginTime endTime maxNum =
     guarded [] [CheckBeginTimeAndEndTime beginTime endTime True, CheckEventMaxNum maxNum] (\<lambda>st.
       answered [] (map ParseBundleEvents) (Client_QueryCurrentBundleEvents R M beginTime endTime maxNum st))"

definition Taihe_QueryCurrentBundleEventsAsync ::
    "registry \<Rightarrow> 's remote \<Rightarrow> int \<Rightarrow> int \<Rightarrow> (bundle_events list, 's) taihe" where
  "Taihe_QueryCurrentBundleEventsAsync R M beginTime endTime =
     Taihe_QueryCurrentBundleEventsAsyncByLimit R M beginTime endTime 1000"

definition Taihe_QueryDeviceEventStatsAsync ::
    "registry \<Rightarrow> 's remote \<Rightarrow> int \<Rightarrow> int \<Rightarrow> (device_event_stats list, 's) taihe" where
  "Taihe_QueryDeviceEventStatsAsync R M beginTime endTime =
     guarded [] [CheckBeginTimeAndEndTime beginTime endTime False] (\<lambda>st.
       answered [] (map ParseDeviceEventStats) (Client_QueryDeviceEventStats R M beginTime endTime (- 1) st))"

definition Taihe_QueryNotificationEventStatsAsync ::
    "registry \<Rightarrow> 's remote \<Rightarrow> int \<Rightarrow> int \<Rightarrow> (device_event_stats list, 's) taihe" where
  "Taihe_QueryNotificationEventStatsAsync R M beginTime endTime =
     guarded [] [CheckBeginTimeAndEndTime beginTime endTime False] (\<lambda>st.
       answered [] (map ParseDeviceEventStats) (Client_QueryNotificationEventStats R M beginTime endTime (- 1) st))"

definition Taihe_QueryModuleUsageRecordsAsync :: "registry \<Rightarrow> 's remote \<Rightarrow> (taihe_module_info list, 's) taihe" where
  "Taihe_QueryModuleUsageRecordsAsync R M st =
     answered [] (map ParseHapModuleInfo) (Client_QueryModuleUsageRecords R M 1000 (- 1) st)"

definition Taihe_QueryModuleUsageRecordsAsyncByMaxNum ::
    "registry \<Rightarrow> 's remote \<Rightarrow> int \<Rightarrow> (taihe_module_info list, 's) taihe" where
  "Taihe_QueryModuleUsageRecordsAsyncByMaxNum R M maxNum = guarded [] [CheckMaxNum maxNum] (\<lambda>st.
     answered [] (map ParseHapModuleInfo) (Client_QueryModuleUsageRecords R M maxNum (- 1) st))"

section \<open>The observer of the process\<close>

text \<open>The global \<open>groupChangeObserver_\<close>: the observer that was handed to the client, and the callback of the
application in it. A new observer comes from the allocation (\<open>None\<close> when there is no memory).\<close>

type_synonym taihe_observer = "(app_callback \<times> nat) option"

record taihe_group_info =
  tg_appOldGroup :: int
  tg_appNewGroup :: int
  tg_userId :: int
  tg_changeReason :: int
  tg_bundleName :: string

definition Taihe_OnAppGroupChanged :: "nat option \<Rightarrow> callback_info \<Rightarrow> int \<times> (nat \<times> taihe_group_info) option" where
  "Taihe_OnAppGroupChanged innerCallback info =
     (let innerGroupInfo = \<lparr> tg_appOldGroup = cb_oldGroup info, tg_appNewGroup = cb_newGroup info,
            tg_userId = cb_userId info, tg_changeReason = uint (cb_changeReason info), tg_bundleName = cb_bundleName info \<rparr>
      in (OK, case innerCallback of None \<Rightarrow> None | Some callback \<Rightarrow> Some (callback, innerGroupInfo)))"

definition Taihe_RegisterAppGroupCallBackAsync ::
    "registry \<Rightarrow> 's remote \<Rightarrow> app_callback option \<Rightarrow> nat \<Rightarrow> taihe_observer \<times> client \<times> 's \<Rightarrow>
      business_error \<times> taihe_observer \<times> client \<times> 's" where
  "Taihe_RegisterAppGroupCallBackAsync R M allocated callback = (\<lambda>(groupChangeObserver, st).
     if groupChangeObserver \<noteq> None then
       let errCode = param_num ERR_REPEAT_REGISTER_APP_GROUP_OBSERVER
       in (Some (errCode, Idl_HandleParamErr errCode ''''), groupChangeObserver, st)
     else case allocated of
       None \<Rightarrow>
         let errCode = param_num ERR_ASYNC_CALLBACK_NULLPTR
         in (Some (errCode, Idl_GetErrorCode errCode), None, st)
     | Some observer \<Rightarrow>
         let (errCode, st1) = Client_RegisterAppGroupCallBack R M (Some observer) st
         in if errCode \<noteq> OK then
              let st2 = snd (Client_UnRegisterAppGroupCallBack R M (Some observer) st1)
              in (Some (errCode, Idl_GetErrorCode errCode), None, st2)
            else (None, Some (observer, callback), st1))"

definition Taihe_UnregisterAppGroupCallBackAsync ::
    "registry \<Rightarrow> 's remote \<Rightarrow> taihe_observer \<times> client \<times> 's \<Rightarrow> business_error \<times> taihe_observer \<times> client \<times> 's" where
  "Taihe_UnregisterAppGroupCallBackAsync R M = (\<lambda>(groupChangeObserver, st).
     case groupChangeObserver of
       None \<Rightarrow>
         let errCode = param_num ERR_APP_GROUP_OBSERVER_IS_NULLPTR
         in (Some (errCode, Idl_HandleParamErr errCode ''''), None, st)
     | Some (observer, callback) \<Rightarrow>
         let (errCode, st1) = Client_UnRegisterAppGroupCallBack R M (Some observer) st
         in (if errCode \<noteq> OK then Some (errCode, Idl_GetErrorCode errCode) else None, None, st1))"

text \<open>Registering and unregistering again leaves no observer with the binding, whatever the service answers.\<close>

lemma taihe_unregistered: "fst (snd (Taihe_UnregisterAppGroupCallBackAsync R M w)) = None"
  by (simp add: Taihe_UnregisterAppGroupCallBackAsync_def Let_def case_prod_beta split: option.split)

text \<open>The service knows one observer per caller and removes it without looking which. A registration that it
refuses because the caller has one already, made through another library of the process, is followed by an
unregistration, which takes that other observer away.\<close>

lemma refused_registration_cancels:
  assumes "CheckSystemAppOrNativePermission ca = OK" "om_find (co_groupChangeObservers c) (ca_tokenId ca) = Some other"
    "GetBundleActiveProxy R cl = (OK, cl)"
    "Taihe_RegisterAppGroupCallBackAsync R (service_remote S ca) (Some ob) callback (None, cl, c) = (err, g, cl', c')"
  shows "g = None \<and> om_find (co_groupChangeObservers c') (ca_tokenId ca) = None"
proof -
  have observers: "co_groupChangeObservers (RemoveObserverDeathRecipient ob c) = co_groupChangeObservers c" for ob
    by (simp add: RemoveObserverDeathRecipient_def split: option.split)
  have "rm_RegisterAppGroupCallBack (service_remote S ca) (Some ob) c =
      (errcode_num ERR_REPEAT_REGISTER_OR_DEREGISTER_GROUP_CALLBACK, c)"
    using assms(1,2) by (simp add: service_remote_def Service_RegisterAppGroupCallBack_def Core_RegisterAppGroupCallBack_def)
  then have "Client_RegisterAppGroupCallBack R (service_remote S ca) (Some ob) (cl, c) =
      (errcode_num ERR_REPEAT_REGISTER_OR_DEREGISTER_GROUP_CALLBACK, cl, c)"
    by (simp add: Client_RegisterAppGroupCallBack_def assms(3))
  moreover have "om_find (co_groupChangeObservers (snd (snd (Client_UnRegisterAppGroupCallBack R (service_remote S ca)
      (Some ob) (cl, c))))) (ca_tokenId ca) = None"
    using assms(1,2) by (simp add: Client_UnRegisterAppGroupCallBack_def assms(3) service_remote_def
        Service_UnRegisterAppGroupCallBack_def Core_UnRegisterAppGroupCallBack_def Let_def observers case_prod_beta)
  ultimately show ?thesis
    using assms(4) by (auto simp: Taihe_RegisterAppGroupCallBackAsync_def Let_def)
qed

text \<open>A day without any use is told as a failure of the system, not as an empty map.\<close>

lemma empty_answer_is_an_error:
  assumes "0 \<le> b" "b < e" "Client_QueryBundleStatsInfoByInterval R M 0 b e (- 1) st = ((OK, []), st1)"
  shows "Taihe_QueryBundleStatsInfosAsync R M b e st = (([], Some (errcode_num ERR_SYSTEM_ABILITY_SUPPORT_FAILED,
    Idl_GetErrorCode (errcode_num ERR_SYSTEM_ABILITY_SUPPORT_FAILED))), st1)"
  using assms by (simp add: Taihe_QueryBundleStatsInfosAsync_def guarded_def CheckBeginTimeAndEndTime_def
      Idl_QueryBundleStatsInfos_def answered_map_def)

text \<open>Wrong times are told by the documented codes; a wrong interval, number of records or group by a number of
the library's own, and the errors of the service by theirs, in place of the documented codes that the message
names.\<close>

lemma undocumented_codes:
  "\<not> fst (CheckInterval 7) \<and> snd (CheckInterval 7) = Some (401010, Idl_HandleParamErr 401010 '''')"
  "snd (answered none f ((errcode_num ERR_QUERY_TIME_OUT_OF_RANGE, v), st)) = st"
  "snd (fst (answered none f ((errcode_num ERR_QUERY_TIME_OUT_OF_RANGE, v), st))) =
     Some (1000000603, Idl_GetErrorCode 1000000603)"
  "Idl_GetReflectErrCode 1000000603 = errcode_num ERR_GET_APPLICATION_INFO_FAILED"
  by (simp_all add: CheckInterval_def answered_def Idl_GetReflectErrCode_def)

end
