(* ===== verification/JsArgs.thy ===== *)
theory JsArgs
  imports Taihe
begin

text \<open>The binding for JavaScript, part one: how the arguments of a call are read
(\<open>bundle_state_query_napi.cpp\<close>, \<open>bundle_active_app_group_napi.cpp\<close>, with the conversions of
\<open>bundle_state_common.cpp\<close> and the structures of \<open>bundle_state_data.h\<close>). The engine behind \<open>napi\<close> is not under
src: a record of its operations on values of a type \<open>'v\<close>. \<open>None\<close> is a call that does not return
\<open>napi_ok\<close>; its out-parameter then keeps what it had. The arguments and their types can always be had. An integer that was never set is \<open>nv_uninit\<close>. \<open>nv_alloc\<close>
and \<open>nv_memset\<close> say whether there is memory for the work of a call and whether it can be cleared.\<close>

datatype valuetype =
    napi_undefined | napi_null | napi_boolean | napi_number | napi_string | napi_symbol
  | napi_object | napi_function | napi_external | napi_bigint

record 'v napi =
  nv_typeof :: "'v \<Rightarrow> valuetype"
  nv_string :: "'v \<Rightarrow> string option"
  nv_int32 :: "'v \<Rightarrow> int option"
  nv_int64 :: "'v \<Rightarrow> int option"
  nv_property_names :: "'v \<Rightarrow> string list"
  nv_named_property :: "'v \<Rightarrow> string \<Rightarrow> 'v option"
  nv_elements :: "'v \<Rightarrow> 'v list"
  nv_undefined :: 'v
  nv_uninit :: int
  nv_alloc :: bool
  nv_memset :: bool

text \<open>The structures into which arguments are read share the callback and the error. \<open>pa_thrown\<close> is the
exception left pending by \<open>napi_throw_error\<close>, its code and message; \<open>pa_info\<close> says that the work of the call
was allocated.\<close>

record 'v ParamsInfo =
  pa_callback :: "'v option"
  pa_errorCode :: int
  pa_thrown :: "(string \<times> string) option"
  pa_info :: bool

record 'v IsIdleStateParamsInfo = "'v ParamsInfo" +
  ii_bundleName :: string

record 'v QueryAppGroupParamsInfo = "'v ParamsInfo" +
  qg_bundleName :: string

record 'v StatesParamsInfo = "'v ParamsInfo" +
  si_beginTime :: int
  si_endTime :: int
  si_maxNum :: int

record 'v AppUsageParamsByIntervalInfo = "'v ParamsInfo" +
  ai_intervalType :: int
  ai_beginTime :: int
  ai_endTime :: int

record 'v QueryBundleStatsParamsInfo = "'v ParamsInfo" +
  qs_beginTime :: int
  qs_endTime :: int

record 'v QueryLastUseTimeParamsInfo = "'v ParamsInfo" +
  ql_queryInfos :: "(string, int list) omap"

record 'v ModuleRecordParamsInfo = "'v ParamsInfo" +
  mi_maxNum :: int

record 'v ParamsBundleGroupInfo = "'v ParamsInfo" +
  bg_bundleName :: string
  bg_newGroup :: int

record 'v EventStatesParamsInfo = "'v ParamsInfo" +
  ei_beginTime :: int
  ei_endTime :: int

section \<open>Errors and work\<close>

definition throw :: "string \<times> string \<Rightarrow> ('v, 'z) ParamsInfo_scheme \<Rightarrow> ('v, 'z) ParamsInfo_scheme" where
  "throw e p = (if pa_thrown p = None then p \<lparr> pa_thrown := Some e \<rparr> else p)"

definition HandleParamErr ::
    "int \<Rightarrow> string \<Rightarrow> bool \<Rightarrow> ('v, 'z) ParamsInfo_scheme \<Rightarrow> ('v, 'z) ParamsInfo_scheme" where
  "HandleParamErr errCode operation newParamErr p =
     (if errCode = errcode_num ERR_OK then p
      else case map_of paramErrCodeMsgMap errCode of
        None \<Rightarrow> p
      | Some msg \<Rightarrow>
          let errMessage = ''Parameter error. '' @ operation @ msg
          in throw (int_to_string (if newParamErr then errcode_num ERR_NEW_PARAM_ERROR else errcode_num ERR_PARAM_ERROR),
               errMessage) p)"

text \<open>\<open>refuse c e op new p\<close>: the error code is \<open>c\<close>, the message that of \<open>e\<close>. (They are not always the same.)\<close>

definition refuse ::
    "param_error \<Rightarrow> param_error \<Rightarrow> string \<Rightarrow> bool \<Rightarrow> ('v, 'z) ParamsInfo_scheme \<Rightarrow> ('v, 'z) ParamsInfo_scheme" where
  "refuse c e operation newParamErr p =
     HandleParamErr (param_num e) operation newParamErr (p \<lparr> pa_errorCode := param_num c \<rparr>)"

definition AsyncInit :: "'v napi \<Rightarrow> ('v, 'z) ParamsInfo_scheme \<Rightarrow> ('v, 'z) ParamsInfo_scheme" where
  "AsyncInit N p =
     (if pa_errorCode p \<noteq> OK then p
      else if \<not> nv_alloc N then refuse ERR_ASYNC_CALLBACK_NULLPTR ERR_ASYNC_CALLBACK_NULLPTR '''' False p
      else if \<not> nv_memset N then
        refuse ERR_ASYNC_CALLBACK_INIT_FAILED ERR_ASYNC_CALLBACK_INIT_FAILED '''' False p
      else p \<lparr> pa_info := True \<rparr>)"

text \<open>The macro \<open>NAPI_ASSERT\<close> throws an error without a code and returns from the function; the error code of
the parameters stays as it is.\<close>

definition napi_assert_failed :: "string \<Rightarrow> ('v, 'z) ParamsInfo_scheme \<Rightarrow> ('v, 'z) ParamsInfo_scheme" where
  "napi_assert_failed message p = throw ('''', message) p"

section \<open>Values\<close>

text \<open>An argument that was not given is undefined. The number of arguments is the true one, also where it is
more than there is room for.\<close>

definition argv :: "'v napi \<Rightarrow> 'v list \<Rightarrow> nat \<Rightarrow> 'v" where
  "argv N args i = (if i < length args then args ! i else nv_undefined N)"

definition GetTypeStringValue :: "'v napi \<Rightarrow> 'v \<Rightarrow> string \<Rightarrow> string" where
  "GetTypeStringValue N param result =
     (case nv_string N param of
        None \<Rightarrow> result
      | Some s \<Rightarrow> if length s = 0 then result else if \<not> nv_alloc N then '''' else c_str s)"

text \<open>Answers whether the value is a number (the code answers a null pointer when it is not), and the number.\<close>

definition GetInt64NumberValue :: "'v napi \<Rightarrow> 'v \<Rightarrow> int \<Rightarrow> bool \<times> int" where
  "GetInt64NumberValue N value result =
     (if nv_typeof N value \<noteq> napi_number then (False, result)
      else (True, case nv_int64 N value of Some i \<Rightarrow> i | None \<Rightarrow> result))"

definition GetInt32NumberValue :: "'v napi \<Rightarrow> 'v \<Rightarrow> int \<Rightarrow> bool \<times> int" where
  "GetInt32NumberValue N value result =
     (if nv_typeof N value \<noteq> napi_number then (False, result)
      else (True, case nv_int32 N value of Some i \<Rightarrow> i | None \<Rightarrow> result))"

text \<open>An element that is not a number leaves the local variable as it was: never set.\<close>

definition ConvertInt64ArrayFromJs :: "'v napi \<Rightarrow> 'v \<Rightarrow> int list" where
  "ConvertInt64ArrayFromJs N jsObject =
     map (\<lambda>e. case nv_int64 N e of Some i \<Rightarrow> i | None \<Rightarrow> nv_uninit N) (nv_elements N jsObject)"

definition ConvertMapFromJs :: "'v napi \<Rightarrow> 'v \<Rightarrow> bool \<times> (string, int list) omap" where
  "ConvertMapFromJs N value =
     (if nv_typeof N value \<noteq> napi_object then (False, [])
      else (True, fold (\<lambda>propName m.
        case nv_named_property N value propName of
          None \<Rightarrow> m
        | Some prop \<Rightarrow> if om_find m propName = None then om_insert propName (ConvertInt64ArrayFromJs N prop) m else m)
        (map c_str (nv_property_names N value)) []))"

text \<open>The optional callback at the end of the arguments.\<close>

definition read_callback :: "'v napi \<Rightarrow> 'v \<Rightarrow> ('v, 'z) ParamsInfo_scheme \<Rightarrow> ('v, 'z) ParamsInfo_scheme" where
  "read_callback N v p =
     (if nv_typeof N v \<noteq> napi_function then refuse ERR_CALL_BACK_TYPE ERR_CALL_BACK_TYPE '''' False p
      else p \<lparr> pa_callback := Some v \<rparr>)"

text \<open>The work is allocated when nothing has gone wrong before.\<close>

definition finish ::
    "'v napi \<Rightarrow> bool \<Rightarrow> 'v \<Rightarrow> ('v, 'z) ParamsInfo_scheme \<Rightarrow> ('v, 'z) ParamsInfo_scheme" where
  "finish N has_callback v p =
     (let p1 = (if has_callback then read_callback N v p else p)
      in if pa_errorCode p1 \<noteq> OK then p1 else AsyncInit N p1)"

text \<open>A span of time from two arguments: the error code with the error whose message is told, or the times. The
functions differ in the message for an end that is not after the beginning.\<close>

definition read_times :: "'v napi \<Rightarrow> 'v \<Rightarrow> 'v \<Rightarrow> param_error \<Rightarrow> param_error \<times> param_error + int \<times> int" where
  "read_times N beginValue endValue endMessage =
     (case GetInt64NumberValue N beginValue (- 1) of (ok, beginTime) \<Rightarrow>
        if \<not> ok then Inl (ERR_BEGIN_TIME_TYPE, ERR_BEGIN_TIME_TYPE)
        else if beginTime < 0 then Inl (ERR_BEGIN_TIME_LESS_THEN_ZERO, ERR_BEGIN_TIME_LESS_THEN_ZERO)
        else case GetInt64NumberValue N endValue (- 1) of (ok, endTime) \<Rightarrow>
          if \<not> ok then Inl (ERR_END_TIME_TYPE, ERR_END_TIME_TYPE)
          else if endTime \<le> beginTime then Inl (ERR_END_TIME_LESS_THEN_BEGIN_TIME, endMessage)
          else Inr (beginTime, endTime))"

section \<open>The arguments of each call\<close>

definition no_params :: "'v ParamsInfo" where
  "no_params = \<lparr> pa_callback = None, pa_errorCode = OK, pa_thrown = None, pa_info = False \<rparr>"

definition ParseQueryModuleUsageRecords :: "'v napi \<Rightarrow> 'v list \<Rightarrow> 'v ModuleRecordParamsInfo" where
  "ParseQueryModuleUsageRecords N args =
     (let params = ParamsInfo.extend no_params (ModuleRecordParamsInfo.fields (- 1)); a = argv N args
      in if length args = 0 then AsyncInit N (params \<lparr> mi_maxNum := 1000 \<rparr>)
         else if length args = 1 then
           (case GetInt32NumberValue N (a 0) (- 1) of (ok, maxNum) \<Rightarrow>
              if \<not> ok then
                let p1 = read_callback N (a 0) params
                in if pa_errorCode p1 \<noteq> OK then p1 else AsyncInit N (p1 \<lparr> mi_maxNum := 1000 \<rparr>)
              else if maxNum > 1000 \<or> maxNum \<le> 0
              then refuse ERR_MAX_RECORDS_NUM_BIGER_THEN_ONE_THOUSAND ERR_MAX_RECORDS_NUM_BIGER_THEN_ONE_THOUSAND '''' False params
              else AsyncInit N (params \<lparr> mi_maxNum := maxNum \<rparr>))
         else if length args = 2 then
           (case GetInt32NumberValue N (a 0) (- 1) of (ok, maxNum) \<Rightarrow>
              if \<not> ok then refuse ERR_MAX_RECORDS_NUM_TYPE ERR_MAX_RECORDS_NUM_TYPE '''' False params
              else if maxNum > 1000 \<or> maxNum \<le> 0
              then refuse ERR_MAX_RECORDS_NUM_BIGER_THEN_ONE_THOUSAND ERR_MAX_RECORDS_NUM_BIGER_THEN_ONE_THOUSAND '''' False params
              else finish N True (a 1) (params \<lparr> mi_maxNum := maxNum \<rparr>))
         else refuse ERR_PARAMETERS_NUMBER ERR_PARAMETERS_NUMBER '''' False params)"

definition ParseIsIdleStateParameters :: "'v napi \<Rightarrow> 'v list \<Rightarrow> 'v IsIdleStateParamsInfo" where
  "ParseIsIdleStateParameters N args =
     (let params = ParamsInfo.extend no_params (IsIdleStateParamsInfo.fields ''''); a = argv N args
      in if \<not> (length args = 1 \<or> length args = 2) then napi_assert_failed ''Invalid number of parameters'' params
         else if nv_typeof N (a 0) \<noteq> napi_string
         then refuse ERR_BUNDLE_NAME_TYPE ERR_PARAMETERS_NUMBER '''' False params
         else
           let bundleName = GetTypeStringValue N (a 0) ''''
           in if bundleName = '''' then refuse ERR_PARAMETERS_EMPTY ERR_PARAMETERS_NUMBER ''bundleName'' False params
              else finish N (length args = 2) (a 1) (params \<lparr> ii_bundleName := bundleName \<rparr>))"

definition ParseIsIdleStateSyncParameters :: "'v napi \<Rightarrow> 'v list \<Rightarrow> 'v IsIdleStateParamsInfo" where
  "ParseIsIdleStateSyncParameters N args =
     (let params = ParamsInfo.extend no_params (IsIdleStateParamsInfo.fields ''''); a = argv N args
      in if length args \<noteq> 1 then napi_assert_failed ''Invalid number of parameters'' params
         else if nv_typeof N (a 0) \<noteq> napi_string
         then refuse ERR_BUNDLE_NAME_TYPE ERR_BUNDLE_NAME_TYPE '''' False params
         else
           let bundleName = GetTypeStringValue N (a 0) ''''; p1 = params \<lparr> ii_bundleName := bundleName \<rparr>
           in if bundleName = '''' then refuse ERR_PARAMETERS_EMPTY ERR_PARAMETERS_EMPTY ''bundleName'' False p1
              else p1)"

definition ParseQueryCurrentBundleEventsParameters :: "'v napi \<Rightarrow> 'v list \<Rightarrow> 'v StatesParamsInfo" where
  "ParseQueryCurrentBundleEventsParameters N args =
     (let params = ParamsInfo.extend no_params (StatesParamsInfo.fields (- 1) (- 1) 1000); a = argv N args;
          read_span = (\<lambda>hasMaxNumParam p.
            case read_times N (a 0) (a 1) ERR_END_TIME_LESS_THEN_BEGIN_TIME of
              Inl (c, e) \<Rightarrow> refuse c e '''' hasMaxNumParam p
            | Inr (beginTime, endTime) \<Rightarrow> AsyncInit N (p \<lparr> si_beginTime := beginTime, si_endTime := endTime \<rparr>))
      in if length args \<noteq> 2 \<and> length args \<noteq> 3 then refuse ERR_PARAMETERS_NUMBER ERR_PARAMETERS_NUMBER '''' False params
         else if length args = 3 then
           if nv_typeof N (a 2) = napi_function then read_span False (params \<lparr> pa_callback := Some (a 2) \<rparr>)
           else if nv_typeof N (a 2) = napi_number then
             let p1 = params \<lparr> si_maxNum := (case nv_int32 N (a 2) of Some i \<Rightarrow> i | None \<Rightarrow> si_maxNum params) \<rparr>
             in if si_maxNum p1 > 1000 \<or> si_maxNum p1 \<le> 0
                then refuse ERR_MAX_RECORDS_NUM_BIGER_THEN_ONE_THOUSAND ERR_MAX_RECORDS_NUM_BIGER_THEN_ONE_THOUSAND '''' True p1
                else read_span True p1
           else refuse ERR_CALL_BACK_TYPE ERR_CALL_BACK_TYPE '''' False params
         else read_span False params)"

definition ParseQueryBundleStatsInfoByInterval :: "'v napi \<Rightarrow> 'v list \<Rightarrow> 'v AppUsageParamsByIntervalInfo" where
  "ParseQueryBundleStatsInfoByInterval N args =
     (let params = ParamsInfo.extend no_params (AppUsageParamsByIntervalInfo.fields (- 1) (- 1) (- 1)); a = argv N args
      in if length args \<noteq> 3 \<and> length args \<noteq> 4 then refuse ERR_PARAMETERS_NUMBER ERR_PARAMETERS_NUMBER '''' False params
         else case GetInt32NumberValue N (a 0) (- 1) of (ok, intervalType) \<Rightarrow>
           if \<not> ok then refuse ERR_INTERVAL_TYPE ERR_INTERVAL_TYPE '''' False params
           else if intervalType < 0 \<or> intervalType > 4
           then refuse ERR_INTERVAL_OUT_OF_RANGE ERR_INTERVAL_OUT_OF_RANGE '''' False params
           else case read_times N (a 1) (a 2) ERR_END_TIME_LESS_THEN_BEGIN_TIME of
             Inl (c, e) \<Rightarrow> refuse c e '''' False params
           | Inr (beginTime, endTime) \<Rightarrow> finish N (length args = 4) (a 3)
               (params \<lparr> ai_intervalType := intervalType, ai_beginTime := beginTime, ai_endTime := endTime \<rparr>))"

definition ParseQueryBundleStatsInfos :: "'v napi \<Rightarrow> 'v list \<Rightarrow> 'v QueryBundleStatsParamsInfo" where
  "ParseQueryBundleStatsInfos N args =
     (let params = ParamsInfo.extend no_params (QueryBundleStatsParamsInfo.fields (- 1) (- 1)); a = argv N args
      in if length args \<noteq> 2 \<and> length args \<noteq> 3 then refuse ERR_PARAMETERS_NUMBER ERR_PARAMETERS_NUMBER '''' False params
         else case read_times N (a 0) (a 1) ERR_BEGIN_TIME_LESS_THEN_ZERO of
           Inl (c, e) \<Rightarrow> refuse c e '''' False params
         | Inr (beginTime, endTime) \<Rightarrow>
             finish N (length args = 3) (a 2) (params \<lparr> qs_beginTime := beginTime, qs_endTime := endTime \<rparr>))"

definition ParseAppStatsInfos :: "'v napi \<Rightarrow> 'v list \<Rightarrow> 'v QueryBundleStatsParamsInfo" where
  "ParseAppStatsInfos N args =
     (let params = ParamsInfo.extend no_params (QueryBundleStatsParamsInfo.fields (- 1) (- 1)); a = argv N args
      in if length args \<noteq> 2 \<and> length args \<noteq> 3 then refuse ERR_PARAMETERS_NUMBER ERR_PARAMETERS_NUMBER '''' False params
         else case read_times N (a 0) (a 1) ERR_BEGIN_TIME_LESS_THEN_ZERO of
           Inl (c, e) \<Rightarrow> refuse c e '''' False params
         | Inr (beginTime, endTime) \<Rightarrow>
             finish N (length args = 3) (a 2) (params \<lparr> qs_beginTime := beginTime, qs_endTime := endTime \<rparr>))"

text \<open>More than one argument is refused, so the callback that the code goes on to look for is never there. The
work is not cleared.\<close>

definition ParseLastUseTime :: "'v napi \<Rightarrow> 'v list \<Rightarrow> 'v QueryLastUseTimeParamsInfo" where
  "ParseLastUseTime N args =
     (let params = ParamsInfo.extend no_params (QueryLastUseTimeParamsInfo.fields []); a = argv N args
      in if length args \<noteq> 1 then refuse ERR_PARAMETERS_NUMBER ERR_PARAMETERS_NUMBER '''' False params
         else case ConvertMapFromJs N (a 0) of (ok, queryInfos) \<Rightarrow>
           if \<not> ok then refuse ERR_BEGIN_TIME_TYPE ERR_BEGIN_TIME_TYPE '''' False params
           else if \<not> nv_alloc N then refuse ERR_ASYNC_CALLBACK_NULLPTR ERR_ASYNC_CALLBACK_NULLPTR '''' False params
           else params \<lparr> ql_queryInfos := queryInfos, pa_info := True \<rparr>)"

text \<open>The two queries of events of the device allocate their work after the arguments.\<close>

definition ParseDeviceEventStates :: "'v napi \<Rightarrow> 'v list \<Rightarrow> 'v EventStatesParamsInfo" where
  "ParseDeviceEventStates N args =
     (let params = ParamsInfo.extend no_params (EventStatesParamsInfo.fields (- 1) (- 1)); a = argv N args
      in if length args \<noteq> 2 \<and> length args \<noteq> 3 then refuse ERR_PARAMETERS_NUMBER ERR_PARAMETERS_NUMBER '''' False params
         else case read_times N (a 0) (a 1) ERR_END_TIME_LESS_THEN_BEGIN_TIME of
           Inl (c, e) \<Rightarrow> refuse c e '''' False params
         | Inr (beginTime, endTime) \<Rightarrow>
             let p1 = params \<lparr> ei_beginTime := beginTime, ei_endTime := endTime \<rparr>
             in if length args = 3 then read_callback N (a 2) p1 else p1)"

definition HandleEventStatsInfo :: "'v napi \<Rightarrow> 'v EventStatesParamsInfo \<Rightarrow> 'v EventStatesParamsInfo" where
  "HandleEventStatsInfo N params =
     (if \<not> nv_alloc N then refuse ERR_ASYNC_CALLBACK_NULLPTR ERR_ASYNC_CALLBACK_NULLPTR '''' False params
      else if \<not> nv_memset N then refuse ERR_ASYNC_CALLBACK_INIT_FAILED ERR_ASYNC_CALLBACK_INIT_FAILED '''' False params
      else params \<lparr> pa_info := True \<rparr>)"

section \<open>Groups\<close>

definition GetQueryAppGroupBundleName :: "'v napi \<Rightarrow> 'v \<Rightarrow> 'v QueryAppGroupParamsInfo \<Rightarrow> 'v QueryAppGroupParamsInfo" where
  "GetQueryAppGroupBundleName N v params =
     (if nv_typeof N v \<noteq> napi_string then refuse ERR_BUNDLE_NAME_TYPE ERR_BUNDLE_NAME_TYPE '''' False params
      else
        let bundleName = GetTypeStringValue N v ''''; p1 = params \<lparr> qg_bundleName := bundleName \<rparr>
        in if bundleName = '''' then refuse ERR_PARAMETERS_EMPTY ERR_PARAMETERS_EMPTY ''bundleName'' False p1 else p1)"

definition ParseQueryAppGroupParameters :: "'v napi \<Rightarrow> 'v list \<Rightarrow> 'v QueryAppGroupParamsInfo" where
  "ParseQueryAppGroupParameters N args =
     (let params = ParamsInfo.extend no_params (QueryAppGroupParamsInfo.fields ''''); a = argv N args
      in if length args > 2 then refuse ERR_PARAMETERS_NUMBER ERR_PARAMETERS_NUMBER '''' False params
         else if length args = 1 then
           if nv_typeof N (a 0) = napi_function then AsyncInit N (params \<lparr> pa_callback := Some (a 0) \<rparr>)
           else
             let p1 = GetQueryAppGroupBundleName N (a 0) params
             in if pa_errorCode p1 \<noteq> OK then p1 else AsyncInit N p1
         else if length args = 2 then
           let p1 = GetQueryAppGroupBundleName N (a 0) params
           in if pa_errorCode p1 \<noteq> OK then p1 else finish N True (a 1) p1
         else AsyncInit N params)"

definition ParseQueryAppGroupSyncParameters :: "'v napi \<Rightarrow> 'v list \<Rightarrow> 'v QueryAppGroupParamsInfo" where
  "ParseQueryAppGroupSyncParameters N args =
     (let params = ParamsInfo.extend no_params (QueryAppGroupParamsInfo.fields ''''); a = argv N args
      in if length args > 1 then refuse ERR_PARAMETERS_NUMBER ERR_PARAMETERS_NUMBER '''' False params
         else if length args = 1 then
           let bundleName = GetTypeStringValue N (a 0) ''''; p1 = params \<lparr> qg_bundleName := bundleName \<rparr>
           in if bundleName = '''' then refuse ERR_PARAMETERS_EMPTY ERR_PARAMETERS_EMPTY ''bundleName'' False p1 else p1
         else params)"

definition GetSetAppGroupBundleName :: "'v napi \<Rightarrow> 'v \<Rightarrow> 'v ParamsBundleGroupInfo \<Rightarrow> 'v ParamsBundleGroupInfo" where
  "GetSetAppGroupBundleName N v params =
     (if nv_typeof N v \<noteq> napi_string then refuse ERR_BUNDLE_NAME_TYPE ERR_BUNDLE_NAME_TYPE '''' False params
      else
        let bundleName = GetTypeStringValue N v ''''; p1 = params \<lparr> bg_bundleName := bundleName \<rparr>
        in if bundleName = '''' then refuse ERR_PARAMETERS_EMPTY ERR_PARAMETERS_EMPTY ''bundleName'' False p1 else p1)"

definition GetAppGroupParameters :: "'v napi \<Rightarrow> 'v \<Rightarrow> 'v ParamsBundleGroupInfo \<Rightarrow> 'v ParamsBundleGroupInfo" where
  "GetAppGroupParameters N v params =
     (case GetInt32NumberValue N v (- 1) of (ok, newGroup) \<Rightarrow>
        if \<not> ok then refuse ERR_NEW_GROUP_TYPE ERR_NEW_GROUP_TYPE '''' False params
        else if newGroup \<notin> set [10, 20, 30, 40, 50, 60]
        then refuse ERR_NEW_GROUP_OUT_OF_RANGE ERR_NEW_GROUP_OUT_OF_RANGE '''' False params
        else params \<lparr> bg_newGroup := newGroup \<rparr>)"

definition ParseSetAppGroupParameters :: "'v napi \<Rightarrow> 'v list \<Rightarrow> 'v ParamsBundleGroupInfo" where
  "ParseSetAppGroupParameters N args =
     (let params = ParamsInfo.extend no_params (ParamsBundleGroupInfo.fields '''' (- 1)); a = argv N args
      in if length args \<noteq> 2 \<and> length args \<noteq> 3 then refuse ERR_PARAMETERS_NUMBER ERR_PARAMETERS_NUMBER '''' False params
         else
           let p1 = GetSetAppGroupBundleName N (a 0) params
           in if pa_errorCode p1 \<noteq> OK then p1
              else
                let p2 = GetAppGroupParameters N (a 1) p1
                in if pa_errorCode p2 \<noteq> OK then p2 else finish N (length args = 3) (a 2) p2)"

section \<open>The observer of group changes\<close>

text \<open>The global \<open>registerObserver\<close> is the observer with the callback of the application that it keeps; a new one
comes from the allocation. It is set while the arguments are read.\<close>

type_synonym 'v js_observer = "(app_callback \<times> 'v) option"

definition ParseRegisterAppGroupCallBackParameters ::
    "'v napi \<Rightarrow> app_callback option \<Rightarrow> 'v list \<Rightarrow> 'v js_observer \<Rightarrow> 'v ParamsInfo \<times> 'v js_observer" where
  "ParseRegisterAppGroupCallBackParameters N allocated args registerObserver =
     (let params = no_params; a = argv N args
      in if length args \<noteq> 1 \<and> length args \<noteq> 2
         then (refuse ERR_PARAMETERS_NUMBER ERR_PARAMETERS_NUMBER '''' False params, registerObserver)
         else if registerObserver \<noteq> None
         then (refuse ERR_REPEAT_REGISTER_APP_GROUP_OBSERVER ERR_REPEAT_REGISTER_APP_GROUP_OBSERVER '''' False params, registerObserver)
         else if nv_typeof N (a 0) \<noteq> napi_function
         then (refuse ERR_APP_GROUP_OBSERVER_CALLBACK_TYPE ERR_APP_GROUP_OBSERVER_CALLBACK_TYPE '''' False params, registerObserver)
         else case allocated of
           None \<Rightarrow> (refuse ERR_APP_GROUP_OBSERVER_CALLBACK_TYPE ERR_APP_GROUP_OBSERVER_CALLBACK_TYPE '''' False params, None)
         | Some observer \<Rightarrow> (finish N (length args = 2) (a 1) params, Some (observer, a 0)))"

definition ParseUnRegisterAppGroupCallBackParameters ::
    "'v napi \<Rightarrow> 'v list \<Rightarrow> 'v js_observer \<Rightarrow> 'v ParamsInfo" where
  "ParseUnRegisterAppGroupCallBackParameters N args registerObserver =
     (let params = no_params; a = argv N args
      in if length args > 1 then refuse ERR_PARAMETERS_NUMBER ERR_PARAMETERS_NUMBER '''' False params
         else
           let p1 = (if length args = 1 then read_callback N (a 0) params else params)
           in if pa_errorCode p1 \<noteq> OK then p1
              else if registerObserver = None
              then refuse ERR_APP_GROUP_OBSERVER_IS_NULLPTR ERR_APP_GROUP_OBSERVER_IS_NULLPTR '''' False p1
              else AsyncInit N p1)"

end
