(* ===== verification/JsBinding.thy ===== *)
theory JsBinding
  imports JsArgs
begin

text \<open>The binding for JavaScript, part two: the calls (\<open>bundle_state_query_napi.cpp\<close>,
\<open>bundle_active_app_group_napi.cpp\<close>, \<open>app_group_observer_napi.cpp\<close>), the values they answer with
(\<open>bundle_state_common.cpp\<close>) and the table of the module (\<open>usage_statistics_init.cpp\<close>). A call reads its
arguments and queues a work; the runtime executes the work on another thread, and completes it on the thread
of the engine. Making promises, values and works succeeds; a value that is made is a tree.\<close>

datatype jsval =
    JsNull
  | JsBoolean bool
  | JsNumber int
  | JsString string
  | JsArray "jsval list"
  | JsObject "(string \<times> jsval) list"

section \<open>Answers\<close>

definition js_string :: "string \<Rightarrow> jsval" where
  "js_string s = JsString (c_str s)"

definition GetErrorValue :: "int \<Rightarrow> jsval" where
  "GetErrorValue errCode =
     (if errCode = errcode_num ERR_OK then JsNull
      else
        let reflectCode = GetReflectErrCode errCode; errMsg = GetSaErrCodeMsg errCode reflectCode
        in JsObject [(''code'', JsNumber reflectCode), (''message'', JsString errMsg)])"

definition GetBundleActiveEventForResult :: "event list \<Rightarrow> bool \<Rightarrow> jsval" where
  "GetBundleActiveEventForResult bundleActiveStates isNewVersion =
     JsArray (map (\<lambda>item. JsObject [
       (''bundleName'', js_string (ev_bundleName item)),
       (if isNewVersion then ''eventId'' else ''stateType'', JsNumber (ev_eventId item)),
       (if isNewVersion then ''eventOccurredTime'' else ''stateOccurredTime'', JsNumber (ev_timeStamp item))])
     bundleActiveStates)"

definition package_object :: "package_stats \<Rightarrow> (string \<times> jsval) list" where
  "package_object item = [
     (''bundleName'', js_string (pk_bundleName item)),
     (''abilityPrevAccessTime'', JsNumber (pk_lastTimeUsed item)),
     (''abilityInFgTotalTime'', JsNumber (pk_totalInFrontTime item)),
     (''id'', JsNumber (pk_userId item))]"

definition GetBundleStateInfoByIntervalForResult :: "package_stats list \<Rightarrow> jsval" where
  "GetBundleStateInfoByIntervalForResult packageStats = JsArray (map (\<lambda>item. JsObject (package_object item)) packageStats)"

definition GetBundleActiveEventStatsForResult :: "event_stats list \<Rightarrow> jsval" where
  "GetBundleActiveEventStatsForResult eventStats =
     JsArray (map (\<lambda>item. JsObject [(''name'', js_string (es_name item)), (''eventId'', JsNumber (es_eventId item)),
       (''count'', JsNumber (es_count item))]) eventStats)"

definition GetBundleActiveNotificationNumberForResult :: "event_stats list \<Rightarrow> jsval" where
  "GetBundleActiveNotificationNumberForResult eventStats =
     JsArray (map (\<lambda>item. JsObject [(''name'', js_string (es_name item)), (''eventId'', JsNumber (es_eventId item)),
       (''count'', JsNumber (es_count item))]) eventStats)"

definition GetBundleStateInfoForResult :: "(string, package_stats) omap option \<Rightarrow> jsval" where
  "GetBundleStateInfoForResult packageStats =
     (case packageStats of
        None \<Rightarrow> JsObject []
      | Some m \<Rightarrow> JsObject (map (\<lambda>(n, item). (c_str n, JsObject (package_object item))) m))"

definition GetAppStatsInfosForResult :: "(string, package_stats list) omap option \<Rightarrow> jsval" where
  "GetAppStatsInfosForResult packageStats =
     (case packageStats of
        None \<Rightarrow> JsObject []
      | Some m \<Rightarrow> JsObject (map (\<lambda>(n, items). (c_str n, JsArray (map (\<lambda>item.
          JsObject (package_object item @ [(''appIndex'', JsNumber (pk_appIndex item))])) items))) m))"

definition GetModuleRecordBasicForResult :: "module_record \<Rightarrow> (string \<times> jsval) list" where
  "GetModuleRecordBasicForResult m = [
     (''bundleName'', js_string (mr_bundleName m)), (''appLabelId'', JsNumber (int (mr_appLabelId m))),
     (''moduleName'', js_string (mr_moduleName m)), (''labelId'', JsNumber (int (mr_labelId m))),
     (''descriptionId'', JsNumber (int (mr_descriptionId m))), (''abilityName'', js_string (mr_abilityName m)),
     (''abilityLableId'', JsNumber (int (mr_abilityLableId m))),
     (''abilityDescriptionId'', JsNumber (int (mr_abilityDescriptionId m))),
     (''abilityIconId'', JsNumber (int (mr_abilityIconId m))), (''launchedCount'', JsNumber (mr_launchedCount m)),
     (''lastModuleUsedTime'', JsNumber (mr_lastModuleUsedTime m))]"

definition GetModuleRecordForResult :: "module_record list \<Rightarrow> jsval" where
  "GetModuleRecordForResult moduleRecords =
     JsArray (map (\<lambda>item. JsObject (GetModuleRecordBasicForResult item @ [(''formRecords'',
       JsArray (map (\<lambda>f. JsObject [(''formName'', js_string (fr_formName f)),
         (''formDimension'', JsNumber (fr_formDimension f)), (''formId'', JsNumber (fr_formId f)),
         (''formLastUsedTime'', JsNumber (fr_formLastUsedTime f)), (''count'', JsNumber (fr_count f))])
         (mr_formRecords item)))])) moduleRecords)"

text \<open>The answer of a work goes to the callback of the call, with the error first, or settles its promise.\<close>

datatype 'v delivery = Called 'v jsval jsval | Resolved jsval | Rejected jsval

definition SetCallbackInfo :: "'v \<Rightarrow> int \<Rightarrow> jsval \<Rightarrow> 'v delivery" where
  "SetCallbackInfo callback errorCode result = Called callback (GetErrorValue errorCode) result"

definition SetPromiseInfo :: "jsval \<Rightarrow> int \<Rightarrow> 'v delivery" where
  "SetPromiseInfo result errorCode = (if errorCode = errcode_num ERR_OK then Resolved result else Rejected (GetErrorValue errorCode))"

definition GetCallbackPromiseResult :: "'v option \<Rightarrow> int \<Rightarrow> jsval \<Rightarrow> 'v delivery" where
  "GetCallbackPromiseResult callback errorCode result =
     (case callback of Some f \<Rightarrow> SetCallbackInfo f errorCode result | None \<Rightarrow> SetPromiseInfo result errorCode)"

section \<open>Calls\<close>

text \<open>A work with the arguments that were copied into it.\<close>

datatype js_work =
    WModuleRecords int
  | WIsBundleIdle string
  | WCurrentBundleEvents int int int
  | WBundleEvents int int int
  | WBundleStatsInfoByInterval int int int
  | WBundleStatsInfos int int
  | WAppStatsInfos int int
  | WLastUseTime "(string, int list) omap"
  | WDeviceEventStats int int
  | WNotificationEventStats int int
  | WAppGroup string
  | WSetAppGroup string int

text \<open>What becomes of a call: an exception or nothing at all, and no work; the access to a work that was not
allocated; a work with its callback, if it has one.\<close>

datatype ('v, 'w) outcome = Refused "(string \<times> string) option" | NullDereference | Queued 'w "'v option"

definition queue_work :: "('v, 'z) ParamsInfo_scheme \<Rightarrow> 'w \<Rightarrow> ('v, 'w) outcome" where
  "queue_work params work =
     (if pa_errorCode params \<noteq> OK \<and> \<not> pa_info params then Refused (pa_thrown params)
      else if \<not> pa_info params then NullDereference
      else Queued work (pa_callback params))"

definition Js_QueryModuleUsageRecords :: "'v napi \<Rightarrow> 'v list \<Rightarrow> ('v, js_work) outcome" where
  "Js_QueryModuleUsageRecords N args =
     (let params = ParseQueryModuleUsageRecords N args
      in if pa_errorCode params \<noteq> OK then Refused (pa_thrown params)
         else if \<not> pa_info params then NullDereference
         else Queued (WModuleRecords (mi_maxNum params)) (pa_callback params))"

definition Js_IsIdleState :: "'v napi \<Rightarrow> 'v list \<Rightarrow> ('v, js_work) outcome" where
  "Js_IsIdleState N args =
     (let params = ParseIsIdleStateParameters N args in queue_work params (WIsBundleIdle (ii_bundleName params)))"

definition Js_QueryCurrentBundleEvents :: "'v napi \<Rightarrow> 'v list \<Rightarrow> ('v, js_work) outcome" where
  "Js_QueryCurrentBundleEvents N args =
     (let params = ParseQueryCurrentBundleEventsParameters N args
      in queue_work params (WCurrentBundleEvents (si_beginTime params) (si_endTime params) (si_maxNum params)))"

definition Js_QueryBundleEvents :: "'v napi \<Rightarrow> 'v list \<Rightarrow> ('v, js_work) outcome" where
  "Js_QueryBundleEvents N args =
     (let params = ParseQueryCurrentBundleEventsParameters N args
      in queue_work params (WBundleEvents (si_beginTime params) (si_endTime params) (si_maxNum params)))"

definition Js_QueryBundleStatsInfoByInterval :: "'v napi \<Rightarrow> 'v list \<Rightarrow> ('v, js_work) outcome" where
  "Js_QueryBundleStatsInfoByInterval N args =
     (let params = ParseQueryBundleStatsInfoByInterval N args
      in queue_work params (WBundleStatsInfoByInterval (ai_intervalType params) (ai_beginTime params) (ai_endTime params)))"

definition Js_CallQueryBundleStatsInfos :: "'v napi \<Rightarrow> 'v list \<Rightarrow> ('v, js_work) outcome" where
  "Js_CallQueryBundleStatsInfos N args =
     (let params = ParseQueryBundleStatsInfos N args
      in queue_work params (WBundleStatsInfos (qs_beginTime params) (qs_endTime params)))"

definition Js_CallQueryAppStatsInfos :: "'v napi \<Rightarrow> 'v list \<Rightarrow> ('v, js_work) outcome" where
  "Js_CallQueryAppStatsInfos N args =
     (let params = ParseAppStatsInfos N args
      in if \<not> pa_info params then Refused (pa_thrown params)
         else Queued (WAppStatsInfos (qs_beginTime params) (qs_endTime params)) (pa_callback params))"

definition Js_CallQueryLastUseTime :: "'v napi \<Rightarrow> 'v list \<Rightarrow> ('v, js_work) outcome" where
  "Js_CallQueryLastUseTime N args =
     (let params = ParseLastUseTime N args
      in if \<not> pa_info params then Refused (pa_thrown params)
         else Queued (WLastUseTime (ql_queryInfos params)) (pa_callback params))"

definition Js_QueryDeviceEventStats :: "'v napi \<Rightarrow> 'v list \<Rightarrow> ('v, js_work) outcome" where
  "Js_QueryDeviceEventStats N args =
     (let params = ParseDeviceEventStates N args
      in if pa_errorCode params \<noteq> OK then Refused (pa_thrown params)
         else
           let params = HandleEventStatsInfo N params
           in if \<not> pa_info params then Refused (pa_thrown params)
              else Queued (WDeviceEventStats (ei_beginTime params) (ei_endTime params)) (pa_callback params))"

definition Js_QueryNotificationEventStats :: "'v napi \<Rightarrow> 'v list \<Rightarrow> ('v, js_work) outcome" where
  "Js_QueryNotificationEventStats N args =
     (let params = ParseDeviceEventStates N args
      in if pa_errorCode params \<noteq> OK then Refused (pa_thrown params)
         else
           let params = HandleEventStatsInfo N params
           in if \<not> pa_info params then Refused (pa_thrown params)
              else Queued (WNotificationEventStats (ei_beginTime params) (ei_endTime params)) (pa_callback params))"

definition Js_QueryAppGroup :: "'v napi \<Rightarrow> 'v list \<Rightarrow> ('v, js_work) outcome" where
  "Js_QueryAppGroup N args =
     (let params = ParseQueryAppGroupParameters N args in queue_work params (WAppGroup (qg_bundleName params)))"

definition Js_SetAppGroup :: "'v napi \<Rightarrow> 'v list \<Rightarrow> ('v, js_work) outcome" where
  "Js_SetAppGroup N args =
     (let params = ParseSetAppGroupParameters N args
      in queue_work params (WSetAppGroup (bg_bundleName params) (bg_newGroup params)))"

text \<open>The functions that the module exports and that queue a work.\<close>

definition UsageStatisticsInit :: "(string \<times> ('v napi \<Rightarrow> 'v list \<Rightarrow> ('v, js_work) outcome)) list" where
  "UsageStatisticsInit = [
     (''isIdleState'', Js_IsIdleState), (''queryAppGroup'', Js_QueryAppGroup),
     (''queryCurrentBundleEvents'', Js_QueryCurrentBundleEvents), (''queryBundleEvents'', Js_QueryBundleEvents),
     (''queryBundleStatsInfoByInterval'', Js_QueryBundleStatsInfoByInterval),
     (''queryBundleStatsInfos'', Js_CallQueryBundleStatsInfos),
     (''queryModuleUsageRecords'', Js_QueryModuleUsageRecords), (''setAppGroup'', Js_SetAppGroup),
     (''queryDeviceEventStats'', Js_QueryDeviceEventStats),
     (''queryNotificationEventStats'', Js_QueryNotificationEventStats),
     (''queryAppStatsInfos'', Js_CallQueryAppStatsInfos), (''queryLastUseTime'', Js_CallQueryLastUseTime)]"

text \<open>The constants that the module exports, as unsigned 32-bit numbers.\<close>

definition InitIntervalType :: "(string \<times> int) list" where
  "InitIntervalType = [(''BY_OPTIMIZED'', 0), (''BY_DAILY'', 1), (''BY_WEEKLY'', 2), (''BY_MONTHLY'', 3), (''BY_ANNUALLY'', 4)]"

definition InitAppGroupType :: "(string \<times> int) list" where
  "InitAppGroupType = [(''ALIVE_GROUP'', 10), (''DAILY_GROUP'', 20), (''FIXED_GROUP'', 30), (''RARE_GROUP'', 40),
     (''LIMITED_GROUP'', 50), (''NEVER_GROUP'', 60)]"

section \<open>Works\<close>

text \<open>The execution of a work and its completion up to the delivery: the error number and the value that is made
of the answer. (The map of a failed query is missing, and its value an empty object.)\<close>

definition js_answer :: "('a \<Rightarrow> jsval) \<Rightarrow> (int \<times> 'a) \<times> client \<times> 's \<Rightarrow> (int \<times> jsval) \<times> client \<times> 's" where
  "js_answer build = (\<lambda>((errorCode, value), st). ((errorCode, build value), st))"

type_synonym 's js_executed = "client \<times> 's \<Rightarrow> (int \<times> jsval) \<times> client \<times> 's"

definition Js_QueryModuleUsageRecordsAsync :: "registry \<Rightarrow> 's remote \<Rightarrow> int \<Rightarrow> 's js_executed" where
  "Js_QueryModuleUsageRecordsAsync R M maxNum st =
     js_answer GetModuleRecordForResult (Client_QueryModuleUsageRecords R M maxNum (- 1) st)"

definition Js_IsBundleIdleAsync :: "registry \<Rightarrow> 's remote \<Rightarrow> string \<Rightarrow> 's js_executed" where
  "Js_IsBundleIdleAsync R M bundleName st =
     js_answer JsBoolean (Client_IsBundleIdle R M bundleName (- 1) st)"

definition Js_QueryCurrentBundleEventsAsync :: "registry \<Rightarrow> 's remote \<Rightarrow> int \<Rightarrow> int \<Rightarrow> int \<Rightarrow> 's js_executed" where
  "Js_QueryCurrentBundleEventsAsync R M beginTime endTime maxNum st =
     js_answer (\<lambda>evs. GetBundleActiveEventForResult evs True)
       (Client_QueryCurrentBundleEvents R M beginTime endTime maxNum st)"

definition Js_QueryBundleEventsAsync :: "registry \<Rightarrow> 's remote \<Rightarrow> int \<Rightarrow> int \<Rightarrow> int \<Rightarrow> 's js_executed" where
  "Js_QueryBundleEventsAsync R M beginTime endTime maxNum st =
     js_answer (\<lambda>evs. GetBundleActiveEventForResult evs True)
       (Client_QueryBundleEvents R M beginTime endTime (- 1) maxNum st)"

definition Js_QueryBundleStatsInfoByIntervalAsync :: "registry \<Rightarrow> 's remote \<Rightarrow> int \<Rightarrow> int \<Rightarrow> int \<Rightarrow> 's js_executed" where
  "Js_QueryBundleStatsInfoByIntervalAsync R M intervalType beginTime endTime st =
     js_answer GetBundleStateInfoByIntervalForResult
       (Client_QueryBundleStatsInfoByInterval R M intervalType beginTime endTime (- 1) st)"

definition Js_QueryBundleStatsInfosAsync :: "registry \<Rightarrow> 's remote \<Rightarrow> int \<Rightarrow> int \<Rightarrow> 's js_executed" where
  "Js_QueryBundleStatsInfosAsync R M beginTime endTime st =
     js_answer GetBundleStateInfoForResult (Js_QueryBundleStatsInfos R M beginTime endTime st)"

definition Js_QueryAppStatsInfosAsync :: "registry \<Rightarrow> 's remote \<Rightarrow> int \<Rightarrow> int \<Rightarrow> 's js_executed" where
  "Js_QueryAppStatsInfosAsync R M beginTime endTime st =
     js_answer GetAppStatsInfosForResult (Js_QueryAppStatsInfos R M beginTime endTime st)"

definition Js_QueryLastUseTimeAsync :: "registry \<Rightarrow> 's remote \<Rightarrow> (string, int list) omap \<Rightarrow> 's js_executed" where
  "Js_QueryLastUseTimeAsync R M queryInfos st =
     js_answer GetAppStatsInfosForResult (Js_QueryLastUseTime R M queryInfos st)"

definition Js_QueryDeviceEventStatsAsync :: "registry \<Rightarrow> 's remote \<Rightarrow> int \<Rightarrow> int \<Rightarrow> 's js_executed" where
  "Js_QueryDeviceEventStatsAsync R M beginTime endTime st =
     js_answer GetBundleActiveEventStatsForResult
       (Client_QueryDeviceEventStats R M beginTime endTime (- 1) st)"

definition Js_QueryNotificationEventStatsAsync :: "registry \<Rightarrow> 's remote \<Rightarrow> int \<Rightarrow> int \<Rightarrow> 's js_executed" where
  "Js_QueryNotificationEventStatsAsync R M beginTime endTime st =
     js_answer GetBundleActiveNotificationNumberForResult
       (Client_QueryNotificationEventStats R M beginTime endTime (- 1) st)"

definition Js_QueryAppGroupAsync :: "registry \<Rightarrow> 's remote \<Rightarrow> string \<Rightarrow> 's js_executed" where
  "Js_QueryAppGroupAsync R M bundleName st =
     js_answer JsNumber (Client_QueryAppGroup R M bundleName (- 1) st)"

definition Js_SetAppGroupAsync :: "registry \<Rightarrow> 's remote \<Rightarrow> string \<Rightarrow> int \<Rightarrow> 's js_executed" where
  "Js_SetAppGroupAsync R M bundleName newGroup st =
     (case Client_SetAppGroup R M bundleName newGroup (- 1) st of (errorCode, st1) \<Rightarrow> ((errorCode, JsNull), st1))"

fun js_execute :: "registry \<Rightarrow> 's remote \<Rightarrow> js_work \<Rightarrow> 's js_executed" where
  "js_execute R M (WModuleRecords maxNum) = Js_QueryModuleUsageRecordsAsync R M maxNum"
| "js_execute R M (WIsBundleIdle bundleName) = Js_IsBundleIdleAsync R M bundleName"
| "js_execute R M (WCurrentBundleEvents beginTime endTime maxNum) = Js_QueryCurrentBundleEventsAsync R M beginTime endTime maxNum"
| "js_execute R M (WBundleEvents beginTime endTime maxNum) = Js_QueryBundleEventsAsync R M beginTime endTime maxNum"
| "js_execute R M (WBundleStatsInfoByInterval intervalType beginTime endTime) = Js_QueryBundleStatsInfoByIntervalAsync R M intervalType beginTime endTime"
| "js_execute R M (WBundleStatsInfos beginTime endTime) = Js_QueryBundleStatsInfosAsync R M beginTime endTime"
| "js_execute R M (WAppStatsInfos beginTime endTime) = Js_QueryAppStatsInfosAsync R M beginTime endTime"
| "js_execute R M (WLastUseTime queryInfos) = Js_QueryLastUseTimeAsync R M queryInfos"
| "js_execute R M (WDeviceEventStats beginTime endTime) = Js_QueryDeviceEventStatsAsync R M beginTime endTime"
| "js_execute R M (WNotificationEventStats beginTime endTime) = Js_QueryNotificationEventStatsAsync R M beginTime endTime"
| "js_execute R M (WAppGroup bundleName) = Js_QueryAppGroupAsync R M bundleName"
| "js_execute R M (WSetAppGroup bundleName newGroup) = Js_SetAppGroupAsync R M bundleName newGroup"

text \<open>The two calls that answer at once. What was wrong with the arguments is thrown, but the service is asked all
the same.\<close>

definition Js_IsIdleStateSync ::
    "'v napi \<Rightarrow> registry \<Rightarrow> 's remote \<Rightarrow> 'v list \<Rightarrow> client \<times> 's \<Rightarrow> ((string \<times> string) option \<times> jsval) \<times> client \<times> 's" where
  "Js_IsIdleStateSync N R M args st =
     (let params = ParseIsIdleStateSyncParameters N args
      in case Client_IsBundleIdle R M (ii_bundleName params) (- 1) st of ((errorCode, isIdleState), st1) \<Rightarrow>
           ((pa_thrown params, if errorCode = OK then JsBoolean isIdleState else GetErrorValue errorCode), st1))"

definition Js_QueryAppGroupSync ::
    "'v napi \<Rightarrow> registry \<Rightarrow> 's remote \<Rightarrow> 'v list \<Rightarrow> client \<times> 's \<Rightarrow> ((string \<times> string) option \<times> jsval) \<times> client \<times> 's" where
  "Js_QueryAppGroupSync N R M args st =
     (let params = ParseQueryAppGroupSyncParameters N args
      in case Client_QueryAppGroup R M (qg_bundleName params) (- 1) st of ((errorCode, priorityGroup), st1) \<Rightarrow>
           ((pa_thrown params, if errorCode = OK then JsNumber priorityGroup else GetErrorValue errorCode), st1))"

end
