(* ===== verification/JsChecks.thy ===== *)
theory JsChecks
  imports JsBinding
begin

text \<open>What the binding for JavaScript promises of a call: it queues a work whose arguments are within the limits,
or throws the documented error and queues nothing.\<close>

section \<open>Refusals\<close>

lemma param_num_nonzero [simp]: "param_num e \<noteq> 0"
  by (cases e) simp_all

definition param_told :: "(string \<times> string) option \<Rightarrow> bool" where
  "param_told thrown \<longleftrightarrow> (\<exists>code msg. thrown = Some (code, msg) \<and>
     (code = int_to_string (errcode_num ERR_PARAM_ERROR) \<or> code = int_to_string (errcode_num ERR_NEW_PARAM_ERROR)))"

text \<open>The structure before anything went wrong, and after the arguments were read.\<close>

definition fresh :: "('v, 'z) ParamsInfo_scheme \<Rightarrow> bool" where
  "fresh p \<longleftrightarrow> pa_errorCode p = OK \<and> pa_thrown p = None \<and> \<not> pa_info p"

definition parsed ::
    "'v napi \<Rightarrow> 'v list \<Rightarrow> (('v, 'z) ParamsInfo_scheme \<Rightarrow> bool) \<Rightarrow> ('v, 'z) ParamsInfo_scheme \<Rightarrow> bool" where
  "parsed N args Q p \<longleftrightarrow>
     (if pa_errorCode p = OK
      then pa_info p \<and> Q p \<and> (\<forall>f. pa_callback p = Some f \<longrightarrow> f \<in> set args \<and> nv_typeof N f = napi_function)
      else \<not> pa_info p \<and> param_told (pa_thrown p))"

lemma refuse_refused:
  assumes "fresh p"
  shows "pa_errorCode (refuse c e operation new p) = param_num c" "\<not> pa_info (refuse c e operation new p)"
    "param_told (pa_thrown (refuse c e operation new p))"
proof -
  obtain msg where "map_of paramErrCodeMsgMap (param_num e) = Some msg"
    using param_errors_worded by blast
  then have "refuse c e operation new p = p \<lparr> pa_errorCode := param_num c, pa_thrown := Some
      (int_to_string (if new then errcode_num ERR_NEW_PARAM_ERROR else errcode_num ERR_PARAM_ERROR),
       ''Parameter error. '' @ operation @ msg) \<rparr>"
    using assms by (simp add: refuse_def HandleParamErr_def throw_def fresh_def Let_def)
  then show "pa_errorCode (refuse c e operation new p) = param_num c" "\<not> pa_info (refuse c e operation new p)"
    "param_told (pa_thrown (refuse c e operation new p))"
    using assms by (auto simp: fresh_def param_told_def)
qed

lemma parsed_refuse [intro]: "fresh p \<Longrightarrow> parsed N args Q (refuse c e operation new p)"
  by (simp add: parsed_def refuse_refused)

lemma parsed_AsyncInit [intro]:
  assumes "fresh p" "Q (p \<lparr> pa_info := True \<rparr>)"
    "\<And>f. pa_callback p = Some f \<Longrightarrow> f \<in> set args \<and> nv_typeof N f = napi_function"
  shows "parsed N args Q (AsyncInit N p)"
proof -
  have "pa_errorCode p = OK"
    using assms(1) by (simp add: fresh_def)
  then show ?thesis
    using assms by (auto simp: AsyncInit_def) (simp add: parsed_def)
qed

lemma parsed_finish [intro]:
  assumes "fresh p" "pa_callback p = None" "Q (p \<lparr> pa_info := True \<rparr>)" "has_callback \<Longrightarrow> v \<in> set args"
    "Q (p \<lparr> pa_callback := Some v, pa_info := True \<rparr>)"
  shows "parsed N args Q (finish N has_callback v p)"
proof -
  have e: "pa_errorCode p = OK"
    using assms(1) by (simp add: fresh_def)
  show ?thesis
  proof (cases "has_callback \<and> nv_typeof N v \<noteq> napi_function")
    case True
    then show ?thesis
      using assms(1) by (simp add: finish_def read_callback_def Let_def refuse_refused(1) parsed_refuse)
  next
    case False
    let ?p = "if has_callback then p \<lparr> pa_callback := Some v \<rparr> else p"
    have "finish N has_callback v p = AsyncInit N ?p"
      using False e by (auto simp: finish_def read_callback_def Let_def)
    moreover have "fresh ?p"
      using assms(1) by (simp add: fresh_def)
    ultimately show ?thesis
      using assms False by (auto intro!: parsed_AsyncInit split: if_splits)
  qed
qed

lemma read_times_bounds: "read_times N b e m = Inr (beginTime, endTime) \<Longrightarrow> 0 \<le> beginTime \<and> beginTime < endTime"
  by (auto simp: read_times_def split: prod.splits if_splits)

lemma argv_mem [simp]: "i < length args \<Longrightarrow> argv N args i \<in> set args"
  by (simp add: argv_def)

lemma fresh_new [simp]: "fresh (ParamsInfo.extend no_params r)" "fresh no_params"
  "pa_callback (ParamsInfo.extend no_params r) = None" "pa_callback no_params = None"
  by (simp_all add: fresh_def no_params_def ParamsInfo.extend_def)

lemma no_params_fields [simp]: "pa_errorCode no_params = 0" "\<not> pa_info no_params"
  by (simp_all add: no_params_def)

section \<open>Each call\<close>

text \<open>A field that is set leaves a structure fresh.\<close>

lemma fresh_fields [simp]:
  "fresh (p_ii \<lparr> ii_bundleName := x_ii_bundleName \<rparr>) = fresh p_ii"
  "fresh (p_qg \<lparr> qg_bundleName := x_qg_bundleName \<rparr>) = fresh p_qg"
  "fresh (p_si \<lparr> si_beginTime := x_si_beginTime \<rparr>) = fresh p_si"
  "fresh (p_si \<lparr> si_endTime := x_si_endTime \<rparr>) = fresh p_si"
  "fresh (p_si \<lparr> si_maxNum := x_si_maxNum \<rparr>) = fresh p_si"
  "fresh (p_ai \<lparr> ai_intervalType := x_ai_intervalType \<rparr>) = fresh p_ai"
  "fresh (p_ai \<lparr> ai_beginTime := x_ai_beginTime \<rparr>) = fresh p_ai"
  "fresh (p_ai \<lparr> ai_endTime := x_ai_endTime \<rparr>) = fresh p_ai"
  "fresh (p_qs \<lparr> qs_beginTime := x_qs_beginTime \<rparr>) = fresh p_qs"
  "fresh (p_qs \<lparr> qs_endTime := x_qs_endTime \<rparr>) = fresh p_qs"
  "fresh (p_ql \<lparr> ql_queryInfos := x_ql_queryInfos \<rparr>) = fresh p_ql"
  "fresh (p_mi \<lparr> mi_maxNum := x_mi_maxNum \<rparr>) = fresh p_mi"
  "fresh (p_bg \<lparr> bg_bundleName := x_bg_bundleName \<rparr>) = fresh p_bg"
  "fresh (p_bg \<lparr> bg_newGroup := x_bg_newGroup \<rparr>) = fresh p_bg"
  "fresh (p_ei \<lparr> ei_beginTime := x_ei_beginTime \<rparr>) = fresh p_ei"
  "fresh (p_ei \<lparr> ei_endTime := x_ei_endTime \<rparr>) = fresh p_ei"
  "fresh (p \<lparr> pa_callback := f \<rparr>) = fresh p"
  by (simp_all add: fresh_def)

lemma extend_fields [simp]:
  "si_maxNum (ParamsInfo.extend no_params (StatesParamsInfo.fields b e n)) = n"
  "pa_errorCode (ParamsInfo.extend no_params r) = OK"
  by (simp_all add: no_params_def ParamsInfo.defs StatesParamsInfo.defs)

lemma ParseQueryModuleUsageRecords_parsed:
  "parsed N args (\<lambda>p. 1 \<le> mi_maxNum p \<and> mi_maxNum p \<le> 1000) (ParseQueryModuleUsageRecords N args)"
  unfolding ParseQueryModuleUsageRecords_def Let_def read_callback_def
  by (auto simp: refuse_refused(1) dest: read_times_bounds intro!: parsed_refuse parsed_AsyncInit parsed_finish
      split: prod.split sum.split option.split)

lemma ParseIsIdleStateParameters_parsed:
  assumes "length args \<in> {1, 2}"
  shows "parsed N args (\<lambda>p. ii_bundleName p \<noteq> '''') (ParseIsIdleStateParameters N args)"
  using assms unfolding ParseIsIdleStateParameters_def Let_def
  by (auto simp: refuse_refused(1) dest: read_times_bounds intro!: parsed_refuse parsed_AsyncInit parsed_finish
      split: prod.split sum.split option.split)

lemma ParseQueryCurrentBundleEventsParameters_parsed:
  "parsed N args (\<lambda>p. 0 \<le> si_beginTime p \<and> si_beginTime p < si_endTime p \<and> 1 \<le> si_maxNum p \<and> si_maxNum p \<le> 1000) (ParseQueryCurrentBundleEventsParameters N args)"
  unfolding ParseQueryCurrentBundleEventsParameters_def Let_def
  by (auto simp: refuse_refused(1) dest: read_times_bounds intro!: parsed_refuse parsed_AsyncInit parsed_finish
      split: prod.split sum.split option.split)

lemma ParseQueryBundleStatsInfoByInterval_parsed:
  "parsed N args (\<lambda>p. 0 \<le> ai_intervalType p \<and> ai_intervalType p \<le> 4 \<and> 0 \<le> ai_beginTime p \<and> ai_beginTime p < ai_endTime p) (ParseQueryBundleStatsInfoByInterval N args)"
  unfolding ParseQueryBundleStatsInfoByInterval_def Let_def
  by (auto simp: refuse_refused(1) dest: read_times_bounds intro!: parsed_refuse parsed_AsyncInit parsed_finish
      split: prod.split sum.split option.split)

lemma ParseQueryBundleStatsInfos_parsed:
  "parsed N args (\<lambda>p. 0 \<le> qs_beginTime p \<and> qs_beginTime p < qs_endTime p) (ParseQueryBundleStatsInfos N args)"
  unfolding ParseQueryBundleStatsInfos_def Let_def
  by (auto simp: refuse_refused(1) dest: read_times_bounds intro!: parsed_refuse parsed_AsyncInit parsed_finish
      split: prod.split sum.split option.split)

lemma ParseAppStatsInfos_parsed:
  "parsed N args (\<lambda>p. 0 \<le> qs_beginTime p \<and> qs_beginTime p < qs_endTime p) (ParseAppStatsInfos N args)"
  unfolding ParseAppStatsInfos_def Let_def
  by (auto simp: refuse_refused(1) dest: read_times_bounds intro!: parsed_refuse parsed_AsyncInit parsed_finish
      split: prod.split sum.split option.split)

lemma ParseLastUseTime_parsed: "parsed N args (\<lambda>_. True) (ParseLastUseTime N args)"
  unfolding ParseLastUseTime_def Let_def
  by (auto intro!: parsed_refuse split: prod.split) (simp add: parsed_def)

lemma ParseDeviceEventStates_parsed:
  assumes "pa_errorCode (ParseDeviceEventStates N args) = OK"
  shows "parsed N args (\<lambda>p. 0 \<le> ei_beginTime p \<and> ei_beginTime p < ei_endTime p)
    (HandleEventStatsInfo N (ParseDeviceEventStates N args))"
proof -
  obtain beginTime endTime where t: "read_times N (argv N args 0) (argv N args 1) ERR_END_TIME_LESS_THEN_BEGIN_TIME = Inr (beginTime, endTime)"
    "length args = 2 \<or> length args = 3 \<and> nv_typeof N (argv N args 2) = napi_function"
    using assms unfolding ParseDeviceEventStates_def Let_def read_callback_def
    by (auto simp: refuse_refused(1) split: if_splits sum.splits prod.splits)
  let ?p = "ParamsInfo.extend no_params (EventStatesParamsInfo.fields (- 1) (- 1)) \<lparr> ei_beginTime := beginTime, ei_endTime := endTime \<rparr>"
  have "ParseDeviceEventStates N args = (if length args = 3 then ?p \<lparr> pa_callback := Some (argv N args 2) \<rparr> else ?p)"
    using t unfolding ParseDeviceEventStates_def Let_def read_callback_def by auto
  then show ?thesis
    using t(2) read_times_bounds [OF t(1)] unfolding HandleEventStatsInfo_def
    by (auto intro!: parsed_refuse) (simp_all add: parsed_def)
qed

lemma ParseDeviceEventStates_refused:
  "pa_errorCode (ParseDeviceEventStates N args) \<noteq> OK \<Longrightarrow> param_told (pa_thrown (ParseDeviceEventStates N args))"
  unfolding ParseDeviceEventStates_def Let_def read_callback_def
  by (auto simp: refuse_refused split: if_splits sum.splits prod.splits)

lemma ParseQueryAppGroupParameters_parsed: "parsed N args (\<lambda>_. True) (ParseQueryAppGroupParameters N args)"
  unfolding ParseQueryAppGroupParameters_def GetQueryAppGroupBundleName_def Let_def
  by (auto simp: refuse_refused(1) intro!: parsed_refuse parsed_AsyncInit parsed_finish split: prod.split)

lemma ParseSetAppGroupParameters_parsed:
  "parsed N args (\<lambda>p. bg_bundleName p \<noteq> '''' \<and> bg_newGroup p \<in> set [10, 20, 30, 40, 50, 60]) (ParseSetAppGroupParameters N args)"
  unfolding ParseSetAppGroupParameters_def GetSetAppGroupBundleName_def GetAppGroupParameters_def Let_def
  by (auto simp: refuse_refused(1) intro!: parsed_refuse parsed_finish split: prod.splits)

section \<open>What is queued\<close>

fun valid_work :: "js_work \<Rightarrow> bool" where
  "valid_work (WModuleRecords maxNum) = (1 \<le> maxNum \<and> maxNum \<le> 1000)"
| "valid_work (WIsBundleIdle bundleName) = (bundleName \<noteq> '''')"
| "valid_work (WCurrentBundleEvents beginTime endTime maxNum) =
     (0 \<le> beginTime \<and> beginTime < endTime \<and> 1 \<le> maxNum \<and> maxNum \<le> 1000)"
| "valid_work (WBundleEvents beginTime endTime maxNum) =
     (0 \<le> beginTime \<and> beginTime < endTime \<and> 1 \<le> maxNum \<and> maxNum \<le> 1000)"
| "valid_work (WBundleStatsInfoByInterval intervalType beginTime endTime) =
     (0 \<le> intervalType \<and> intervalType \<le> 4 \<and> 0 \<le> beginTime \<and> beginTime < endTime)"
| "valid_work (WBundleStatsInfos beginTime endTime) = (0 \<le> beginTime \<and> beginTime < endTime)"
| "valid_work (WAppStatsInfos beginTime endTime) = (0 \<le> beginTime \<and> beginTime < endTime)"
| "valid_work (WLastUseTime queryInfos) = True"
| "valid_work (WDeviceEventStats beginTime endTime) = (0 \<le> beginTime \<and> beginTime < endTime)"
| "valid_work (WNotificationEventStats beginTime endTime) = (0 \<le> beginTime \<and> beginTime < endTime)"
| "valid_work (WAppGroup bundleName) = True"
| "valid_work (WSetAppGroup bundleName newGroup) = (bundleName \<noteq> '''' \<and> newGroup \<in> set [10, 20, 30, 40, 50, 60])"

definition well_called :: "'v napi \<Rightarrow> 'v list \<Rightarrow> ('v, js_work) outcome \<Rightarrow> bool" where
  "well_called N args r \<longleftrightarrow> (case r of
     Refused thrown \<Rightarrow> param_told thrown
   | NullDereference \<Rightarrow> False
   | Queued work callback \<Rightarrow> valid_work work \<and>
       (\<forall>f. callback = Some f \<longrightarrow> f \<in> set args \<and> nv_typeof N f = napi_function))"

lemma parsed_well_called:
  assumes "parsed N args Q p" "Q p \<Longrightarrow> valid_work work"
  shows "well_called N args (queue_work p work)"
    "well_called N args (if \<not> pa_info p then Refused (pa_thrown p) else Queued work (pa_callback p))"
    "well_called N args (if pa_errorCode p \<noteq> OK then Refused (pa_thrown p) else if \<not> pa_info p then NullDereference
       else Queued work (pa_callback p))"
  using assms by (auto simp: parsed_def well_called_def queue_work_def split: if_splits)

lemma device_well_called:
  assumes "pa_errorCode (ParseDeviceEventStates N args) = OK"
    "\<And>b e. 0 \<le> b \<Longrightarrow> b < e \<Longrightarrow> valid_work (work b e)"
  shows "well_called N args (let params = HandleEventStatsInfo N (ParseDeviceEventStates N args)
    in if \<not> pa_info params then Refused (pa_thrown params)
       else Queued (work (ei_beginTime params) (ei_endTime params)) (pa_callback params))"
  unfolding Let_def by (rule parsed_well_called(2) [OF ParseDeviceEventStates_parsed [OF assms(1)]]) (simp add: assms(2))

lemmas call_defs = Js_QueryModuleUsageRecords_def Js_QueryCurrentBundleEvents_def Js_QueryBundleEvents_def
  Js_QueryBundleStatsInfoByInterval_def Js_CallQueryBundleStatsInfos_def Js_CallQueryAppStatsInfos_def
  Js_CallQueryLastUseTime_def Js_QueryAppGroup_def Js_SetAppGroup_def

lemma calls_well_called:
  "well_called N args (Js_QueryModuleUsageRecords N args)"
  "well_called N args (Js_QueryCurrentBundleEvents N args)"
  "well_called N args (Js_QueryBundleEvents N args)"
  "well_called N args (Js_QueryBundleStatsInfoByInterval N args)"
  "well_called N args (Js_CallQueryBundleStatsInfos N args)"
  "well_called N args (Js_CallQueryAppStatsInfos N args)"
  "well_called N args (Js_CallQueryLastUseTime N args)"
  "well_called N args (Js_QueryAppGroup N args)"
  "well_called N args (Js_SetAppGroup N args)"
  unfolding call_defs Let_def
  by (rule parsed_well_called [OF ParseQueryModuleUsageRecords_parsed]
      parsed_well_called [OF ParseQueryCurrentBundleEventsParameters_parsed]
      parsed_well_called [OF ParseQueryBundleStatsInfoByInterval_parsed] parsed_well_called [OF ParseQueryBundleStatsInfos_parsed]
      parsed_well_called [OF ParseAppStatsInfos_parsed] parsed_well_called [OF ParseLastUseTime_parsed]
      parsed_well_called [OF ParseQueryAppGroupParameters_parsed] parsed_well_called [OF ParseSetAppGroupParameters_parsed];
      simp)+

lemma device_calls_well_called:
  "well_called N args (Js_QueryDeviceEventStats N args)" "well_called N args (Js_QueryNotificationEventStats N args)"
proof -
  have "well_called N args (Js_QueryDeviceEventStats N args) \<and> well_called N args (Js_QueryNotificationEventStats N args)"
  proof (cases "pa_errorCode (ParseDeviceEventStates N args) = OK")
    case True
    show ?thesis
      using device_well_called [OF True, of WDeviceEventStats] device_well_called [OF True, of WNotificationEventStats] True
      by (simp add: Js_QueryDeviceEventStats_def Js_QueryNotificationEventStats_def Let_def)
  next
    case False
    then show ?thesis
      using ParseDeviceEventStates_refused [OF False]
      by (simp add: Js_QueryDeviceEventStats_def Js_QueryNotificationEventStats_def Let_def well_called_def)
  qed
  then show "well_called N args (Js_QueryDeviceEventStats N args)" "well_called N args (Js_QueryNotificationEventStats N args)"
    by blast+
qed

lemma idle_well_called:
  "length args \<in> {1, 2} \<Longrightarrow> well_called N args (Js_IsIdleState N args)"
  "length args \<notin> {1, 2} \<Longrightarrow> Js_IsIdleState N args = NullDereference"
proof -
  show "well_called N args (Js_IsIdleState N args)" if "length args \<in> {1, 2}"
    unfolding Js_IsIdleState_def Let_def
    by (rule parsed_well_called(1) [OF ParseIsIdleStateParameters_parsed [OF that]]) simp
  show "Js_IsIdleState N args = NullDereference" if "length args \<notin> {1, 2}"
    using that by (auto simp: Js_IsIdleState_def ParseIsIdleStateParameters_def Let_def napi_assert_failed_def throw_def
        queue_work_def no_params_def ParamsInfo.extend_def)
qed


text \<open>An engine whose values are numbers, strings and one function.\<close>

datatype demo_value = DUndefined | DNumber int | DString string | DFunction

definition demo_napi :: "demo_value napi" where
  "demo_napi = \<lparr>
     nv_typeof = (\<lambda>v. case v of DUndefined \<Rightarrow> napi_undefined | DNumber _ \<Rightarrow> napi_number | DString _ \<Rightarrow> napi_string
       | DFunction \<Rightarrow> napi_function),
     nv_string = (\<lambda>v. case v of DString s \<Rightarrow> Some s | _ \<Rightarrow> None),
     nv_int32 = (\<lambda>v. case v of DNumber i \<Rightarrow> Some i | _ \<Rightarrow> None),
     nv_int64 = (\<lambda>v. case v of DNumber i \<Rightarrow> Some i | _ \<Rightarrow> None),
     nv_property_names = (\<lambda>_. []), nv_named_property = (\<lambda>_ _. None), nv_elements = (\<lambda>_. []),
     nv_undefined = DUndefined, nv_uninit = 0, nv_alloc = True, nv_memset = True \<rparr>"

lemma demo_set_group:
  "Js_SetAppGroup demo_napi [DString ''app'', DNumber 20, DFunction] = Queued (WSetAppGroup ''app'' 20) (Some DFunction)"
  by (simp add: Js_SetAppGroup_def ParseSetAppGroupParameters_def GetSetAppGroupBundleName_def GetAppGroupParameters_def
      argv_def demo_napi_def GetTypeStringValue_def GetInt32NumberValue_def c_str_def finish_def read_callback_def
      AsyncInit_def queue_work_def no_params_def ParamsInfo.defs ParamsBundleGroupInfo.defs Let_def)


section \<open>What the code does wrong\<close>

text \<open>The calls that answer at once ask the service also with arguments that they have refused: for the empty
name, which in \<open>queryAppGroupSync\<close> stands for the caller itself.\<close>

lemma sync_asks_anyway:
  assumes "length args > 1"
  shows "snd (Js_QueryAppGroupSync N R M args st) = snd (Client_QueryAppGroup R M '''' (- 1) st)"
    "param_told (fst (fst (Js_QueryAppGroupSync N R M args st)))"
proof -
  have p: "ParseQueryAppGroupSyncParameters N args =
      refuse ERR_PARAMETERS_NUMBER ERR_PARAMETERS_NUMBER '''' False (ParamsInfo.extend no_params (QueryAppGroupParamsInfo.fields ''''))"
    using assms by (simp add: ParseQueryAppGroupSyncParameters_def Let_def)
  have "qg_bundleName (ParseQueryAppGroupSyncParameters N args) = ''''"
    by (simp add: p refuse_def HandleParamErr_def throw_def Let_def no_params_def ParamsInfo.defs QueryAppGroupParamsInfo.defs
        split: option.split)
  then show "snd (Js_QueryAppGroupSync N R M args st) = snd (Client_QueryAppGroup R M '''' (- 1) st)"
    by (simp add: Js_QueryAppGroupSync_def Let_def case_prod_beta)
  show "param_told (fst (fst (Js_QueryAppGroupSync N R M args st)))"
    using refuse_refused(3) [OF fresh_new(1) [of "QueryAppGroupParamsInfo.fields ''''"]]
    by (simp add: Js_QueryAppGroupSync_def Let_def case_prod_beta p)
qed

text \<open>An end that is not after the beginning is told, by two functions, as a beginning before 0; a name that is not
a string as a wrong number of arguments.\<close>

lemma wrong_messages:
  "ParseQueryBundleStatsInfos demo_napi [DNumber 5, DNumber 5] =
     refuse ERR_END_TIME_LESS_THEN_BEGIN_TIME ERR_BEGIN_TIME_LESS_THEN_ZERO '''' False
       (ParamsInfo.extend no_params (QueryBundleStatsParamsInfo.fields (- 1) (- 1)))"
  "ParseIsIdleStateParameters demo_napi [DNumber 5] =
     refuse ERR_BUNDLE_NAME_TYPE ERR_PARAMETERS_NUMBER '''' False
       (ParamsInfo.extend no_params (IsIdleStateParamsInfo.fields ''''))"
  by (simp_all add: ParseQueryBundleStatsInfos_def ParseIsIdleStateParameters_def read_times_def GetInt64NumberValue_def
      argv_def demo_napi_def)

end
