(* ===== verification/ClientRecovery.thy ===== *)
theory ClientRecovery
  imports Client CoreSteps
begin

text \<open>The client as a state machine beside a service that may die and come back: the observer a client has
registered stays registered, or a recovery that registers it again is on its way.\<close>

section \<open>Requests\<close>

datatype request =
    AskReport event int
  | AskIdle string int
  | AskUsePeriod string int
  | AskStatsByInterval int int int int
  | AskEvents int int int int
  | AskStats int int int
  | AskFrequentBundles int int int
  | AskCurrentEvents int int int
  | AskGroup string int
  | AskSetGroup string int int
  | AskModules int int
  | AskDevice int int int
  | AskNotification int int int
  | AskFrequentPeriods int
  | AskLatest string int

text \<open>What a request does to the two sides, its answer left aside.\<close>

fun client_request :: "registry \<Rightarrow> 's remote \<Rightarrow> request \<Rightarrow> client \<times> 's \<Rightarrow> client \<times> 's" where
  "client_request R M (AskReport ev u) st = snd (Client_ReportEvent R M ev u st)"
| "client_request R M (AskIdle b u) st = snd (Client_IsBundleIdle R M b u st)"
| "client_request R M (AskUsePeriod b u) st = snd (Client_IsBundleUsePeriod R M b u st)"
| "client_request R M (AskStatsByInterval i b e u) st = snd (Client_QueryBundleStatsInfoByInterval R M i b e u st)"
| "client_request R M (AskEvents b e u n) st = snd (Client_QueryBundleEvents R M b e u n st)"
| "client_request R M (AskStats i b e) st = snd (Client_QueryBundleStatsInfos R M i b e st)"
| "client_request R M (AskFrequentBundles u n d) st = snd (Client_QueryHighFrequencyUsageBundleInfos R M u n d st)"
| "client_request R M (AskCurrentEvents b e n) st = snd (Client_QueryCurrentBundleEvents R M b e n st)"
| "client_request R M (AskGroup b u) st = snd (Client_QueryAppGroup R M b u st)"
| "client_request R M (AskSetGroup b g u) st = snd (Client_SetAppGroup R M b g u st)"
| "client_request R M (AskModules n u) st = snd (Client_QueryModuleUsageRecords R M n u st)"
| "client_request R M (AskDevice b e u) st = snd (Client_QueryDeviceEventStats R M b e u st)"
| "client_request R M (AskNotification b e u) st = snd (Client_QueryNotificationEventStats R M b e u st)"
| "client_request R M (AskFrequentPeriods u) st = snd (Client_QueryHighFrequencyPeriodBundle R M u st)"
| "client_request R M (AskLatest b u) st = snd (Client_QueryBundleTodayLatestUsedTime R M b u st)"

fun remote_request :: "'s remote \<Rightarrow> request \<Rightarrow> 's \<Rightarrow> 's" where
  "remote_request M (AskReport ev u) s = snd (rm_ReportEvent M ev u s)"
| "remote_request M (AskIdle b u) s = snd (rm_IsBundleIdle M b u s)"
| "remote_request M (AskUsePeriod b u) s = snd (rm_IsBundleUsePeriod M b u s)"
| "remote_request M (AskStatsByInterval i b e u) s = snd (rm_QueryBundleStatsInfoByInterval M i b e u s)"
| "remote_request M (AskEvents b e u n) s = snd (rm_QueryBundleEvents M b e u n s)"
| "remote_request M (AskStats i b e) s = snd (rm_QueryBundleStatsInfos M i b e s)"
| "remote_request M (AskFrequentBundles u n d) s = snd (rm_QueryHighFrequencyUsageBundleInfos M u n d s)"
| "remote_request M (AskCurrentEvents b e n) s = snd (rm_QueryCurrentBundleEvents M b e n s)"
| "remote_request M (AskGroup b u) s = snd (rm_QueryAppGroup M b u s)"
| "remote_request M (AskSetGroup b g u) s = snd (rm_SetAppGroup M b g u s)"
| "remote_request M (AskModules n u) s = snd (rm_QueryModuleUsageRecords M n u s)"
| "remote_request M (AskDevice b e u) s = snd (rm_QueryDeviceEventStats M b e u s)"
| "remote_request M (AskNotification b e u) s = snd (rm_QueryNotificationEventStats M b e u s)"
| "remote_request M (AskFrequentPeriods u) s = snd (rm_QueryHighFrequencyPeriodBundle M u s)"
| "remote_request M (AskLatest b u) s = snd (rm_QueryBundleTodayLatestUsedTime M b u s)"

lemma via_proxy_effect:
  "snd (via_proxy R fail call (cl, s)) =
    (let (ret, cl1) = GetBundleActiveProxy R cl in (cl1, if ret = OK then snd (call s) else s))"
  by (simp add: via_proxy_def Let_def case_prod_beta)

text \<open>A request leaves both sides alone, or connects and passes on what it asks, or only fails to connect.\<close>

lemma client_request_effect:
  "client_request R M q (cl, s) = (cl, s) \<or>
   client_request R M q (cl, s) =
     (let (ret, cl1) = GetBundleActiveProxy R cl in (cl1, if ret = OK then remote_request M q s else s))"
  by (induction q) (simp_all add: via_proxy_effect Client_ReportEvent_def Client_IsBundleIdle_def Client_IsBundleUsePeriod_def
      Client_QueryBundleStatsInfoByInterval_def Client_QueryBundleEvents_def Client_QueryBundleStatsInfos_def
      Client_QueryHighFrequencyUsageBundleInfos_def Client_QueryCurrentBundleEvents_def Client_QueryAppGroup_def
      Client_SetAppGroup_def Client_QueryModuleUsageRecords_def Client_QueryDeviceEventStats_def
      Client_QueryNotificationEventStats_def Client_QueryHighFrequencyPeriodBundle_def
      Client_QueryBundleTodayLatestUsedTime_def split: prod.split)

section \<open>Steps\<close>

text \<open>A step is a request, the (un)registration of an observer, the death of the service, after which a new
one, in any state, takes its place, or a round of a recovery. What the system ability manager answers may
differ from step to step. A client is told of the death when its recipient is linked; one without a proxy
does not meet it. (A proxy whose recipient could not be allocated is never told and is left out.)\<close>

inductive client_step :: "'s remote \<Rightarrow> client \<times> 's \<Rightarrow> client \<times> 's \<Rightarrow> bool" for M where
  request: "client_step M st (client_request R M q st)"
| register: "client_step M st (snd (Client_RegisterAppGroupCallBack R M ob st))"
| unregister: "client_step M st (snd (Client_UnRegisterAppGroupCallBack R M ob st))"
| died: "cl_linked cl \<Longrightarrow> client_step M (cl, s) (OnRemoteDied cl, s')"
| replaced: "\<not> cl_proxy cl \<Longrightarrow> client_step M (cl, s) (cl, s')"
| recovery: "0 < cl_posted cl \<Longrightarrow> client_step M (cl, s) (snd (recovery_round R M (cl, s)))"

definition holds :: "client \<Rightarrow> bool" where
  "holds cl \<longleftrightarrow> (\<exists>ob. cl_recipient cl = Some (Some ob))"

definition client_inv :: "('s \<Rightarrow> bool) \<Rightarrow> client \<times> 's \<Rightarrow> bool" where
  "client_inv registered st \<longleftrightarrow> (case st of (cl, s) \<Rightarrow>
     (cl_proxy cl \<longrightarrow> cl_recipient cl = None \<or> cl_linked cl) \<and> (cl_linked cl \<longrightarrow> cl_proxy cl) \<and>
     (holds cl \<longrightarrow> cl_proxy cl \<and> registered s \<or> 0 < cl_posted cl))"

lemma GetBundleActiveProxy_effect:
  assumes "GetBundleActiveProxy R cl = (ret, cl1)"
  shows "holds cl1 = holds cl" "cl_posted cl1 = cl_posted cl" "ret = OK \<Longrightarrow> cl_proxy cl1" "ret \<noteq> OK \<Longrightarrow> cl1 = cl"
    "client_inv P (cl, s) \<Longrightarrow> client_inv P (cl1, s)" "cl_recipient cl = Some r \<Longrightarrow> cl_recipient cl1 = Some r"
  using assms by (auto simp: GetBundleActiveProxy_def holds_def client_inv_def Let_def split: if_splits)

definition up :: "registry \<Rightarrow> bool" where
  "up R \<longleftrightarrow> rg_manager R \<and> rg_object R \<and> rg_cast R"

lemma up_connects: "up R \<Longrightarrow> \<exists>cl1. GetBundleActiveProxy R cl = (OK, cl1)"
  by (simp add: up_def GetBundleActiveProxy_def Let_def)

text \<open>What the client relies on: no other request touches the registration; whoever asks to be registered is
then registered; a failed unregistration changes nothing.\<close>

locale observer_service =
  fixes M :: "'s remote" and registered :: "'s \<Rightarrow> bool"
  assumes request_keeps: "registered (remote_request M q s) = registered s"
    and register: "registered (snd (rm_RegisterAppGroupCallBack M (Some ob) s))"
    and register_keeps: "registered s \<Longrightarrow> registered (snd (rm_RegisterAppGroupCallBack M ob' s))"
    and unregister_fails: "fst (rm_UnRegisterAppGroupCallBack M ob' s) \<noteq> OK \<Longrightarrow>
      registered s \<Longrightarrow> registered (snd (rm_UnRegisterAppGroupCallBack M ob' s))"
begin

lemma inv_registered: "client_inv registered (cl, s) \<Longrightarrow> (registered s \<longrightarrow> registered s') \<Longrightarrow> client_inv registered (cl, s')"
  by (auto simp: client_inv_def)

lemma request_inv:
  assumes "client_inv registered (cl, s)"
  shows "client_inv registered (client_request R M q (cl, s))"
proof -
  obtain ret cl1 where g: "GetBundleActiveProxy R cl = (ret, cl1)" by (metis prod.collapse)
  have i: "client_inv registered (cl1, s)"
    using GetBundleActiveProxy_effect(5) [OF g assms] .
  then have "client_inv registered (cl1, remote_request M q s)"
    by (rule inv_registered) (simp add: request_keeps)
  then show ?thesis
    using client_request_effect [of R M q cl s] g i assms by auto
qed

lemma register_inv:
  assumes "client_inv registered (cl, s)"
  shows "client_inv registered (snd (Client_RegisterAppGroupCallBack R M ob (cl, s)))"
proof -
  obtain ret cl1 where g: "GetBundleActiveProxy R cl = (ret, cl1)" by (metis prod.collapse)
  obtain ret' s1 where r: "rm_RegisterAppGroupCallBack M ob s = (ret', s1)" by (metis prod.collapse)
  have i: "client_inv registered (cl1, s)"
    using GetBundleActiveProxy_effect(5) [OF g assms] .
  then have j: "client_inv registered (cl1, s1)"
    by (rule inv_registered) (use register_keeps [of s ob] r in simp)
  have "registered s1" if "ob \<noteq> None"
    using register [of _ s] r that by (cases ob) (metis snd_conv)+
  with i j show ?thesis
    using GetBundleActiveProxy_effect(3) [OF g]
    by (auto simp: Client_RegisterAppGroupCallBack_def g r client_inv_def AddObserver_def holds_def)
qed

lemma unregister_inv:
  assumes "client_inv registered (cl, s)"
  shows "client_inv registered (snd (Client_UnRegisterAppGroupCallBack R M ob (cl, s)))"
proof -
  obtain ret cl1 where g: "GetBundleActiveProxy R cl = (ret, cl1)" by (metis prod.collapse)
  obtain ret' s1 where r: "rm_UnRegisterAppGroupCallBack M ob s = (ret', s1)" by (metis prod.collapse)
  have i: "client_inv registered (cl1, s)"
    using GetBundleActiveProxy_effect(5) [OF g assms] .
  moreover have "client_inv registered (cl1, s1)" if "ret' \<noteq> OK"
    by (rule inv_registered [OF i]) (use unregister_fails [of ob s] r that in simp)
  ultimately show ?thesis
    by (auto simp: Client_UnRegisterAppGroupCallBack_def g r client_inv_def RemoveObserver_def holds_def)
qed

lemma recovery_registers:
  assumes "GetBundleActiveProxy R cl = (OK, cl1)"
  shows "\<exists>s'. recovery_round R M (cl, s) = (True, cl1 \<lparr> cl_posted := cl_posted cl - 1 \<rparr>, s') \<and> (holds cl \<longrightarrow> registered s')"
proof (cases "holds cl1")
  case True
  then obtain ob where ob: "cl_recipient cl1 = Some (Some ob)"
    by (auto simp: holds_def)
  obtain ret' s1 where r: "rm_RegisterAppGroupCallBack M (Some ob) s = (ret', s1)" by (metis prod.collapse)
  have "registered s1"
    using register [of ob s] r by simp
  moreover have "GetBundleActiveProxy R (cl1 \<lparr> cl_posted := n \<rparr>) = (OK, cl1 \<lparr> cl_posted := n \<rparr>)" for n
    using GetBundleActiveProxy_effect(3) [OF assms] by (simp add: GetBundleActiveProxy_def)
  moreover have "AddObserver (Some ob) (cl1 \<lparr> cl_posted := n \<rparr>) = cl1 \<lparr> cl_posted := n \<rparr>" for n
    using ob by (simp add: AddObserver_def)
  ultimately show ?thesis
    using GetBundleActiveProxy_effect(2) [OF assms]
    by (simp add: recovery_round_def assms ob Client_RegisterAppGroupCallBack_def r Let_def)
next
  case False
  then have "recovery_round R M (cl, s) = (True, cl1 \<lparr> cl_posted := cl_posted cl1 - 1 \<rparr>, s)"
    by (auto simp: recovery_round_def assms holds_def Let_def split: option.splits)
  then show ?thesis
    using False GetBundleActiveProxy_effect(1,2) [OF assms] by auto
qed

lemma recovery_ends:
  assumes "GetBundleActiveProxy (R n) cl = (OK, cl1)"
  shows "\<exists>cl' s'. OnServiceDiedInner R M n (cl, s) = Some (n, cl', s') \<and>
    (holds cl \<longrightarrow> cl_recipient cl' = cl_recipient cl \<and> registered s')"
proof -
  from recovery_registers [OF assms] obtain s' where
    r: "recovery_round (R n) M (cl, s) = (True, cl1 \<lparr> cl_posted := cl_posted cl - 1 \<rparr>, s')" "holds cl \<longrightarrow> registered s'"
    by blast
  have "cl_recipient cl1 = cl_recipient cl" if "holds cl"
    using that GetBundleActiveProxy_effect(6) [OF assms] by (auto simp: holds_def)
  with r show ?thesis
    by (subst OnServiceDiedInner.simps) simp
qed

lemma recovery_inv:
  assumes "client_inv registered (cl, s)"
  shows "client_inv registered (snd (recovery_round R M (cl, s)))"
proof -
  obtain ret cl1 where g: "GetBundleActiveProxy R cl = (ret, cl1)" by (metis prod.collapse)
  have i: "client_inv registered (cl1, s)"
    using GetBundleActiveProxy_effect(5) [OF g assms] .
  show ?thesis
  proof (cases "ret = OK")
    case True
    with g obtain s' where "recovery_round R M (cl, s) = (True, cl1 \<lparr> cl_posted := cl_posted cl - 1 \<rparr>, s')"
      "holds cl \<longrightarrow> registered s'"
      using recovery_registers [of R cl cl1 s] by blast
    then show ?thesis
      using i True GetBundleActiveProxy_effect(1,3) [OF g] by (simp add: client_inv_def holds_def)
  next
    case False
    then show ?thesis
      using g i by (simp add: recovery_round_def)
  qed
qed

lemma step_inv:
  assumes "client_step M st st'" "client_inv registered st"
  shows "client_inv registered st'"
  using assms
proof cases
  case (request R q)
  then show ?thesis using assms(2) request_inv by (cases st) simp
next
  case (register R ob)
  then show ?thesis using assms(2) register_inv by (cases st) simp
next
  case (unregister R ob)
  then show ?thesis using assms(2) unregister_inv by (cases st) simp
next
  case (died cl s s')
  then show ?thesis using assms(2) by (auto simp: client_inv_def OnRemoteDied_def holds_def)
next
  case (replaced cl s s')
  then show ?thesis using assms(2) by (auto simp: client_inv_def)
next
  case (recovery cl R s)
  then show ?thesis using assms(2) recovery_inv by simp
qed

lemma reachable_inv:
  "(client_step M)\<^sup>*\<^sup>* (Client_new, s0) st \<Longrightarrow> client_inv registered st"
proof (induction rule: rtranclp_induct)
  case base
  show ?case by (simp add: client_inv_def Client_new_def holds_def)
qed (rule step_inv)

lemma recovery_returns:
  assumes "up (R (n + d))"
  shows "\<exists>m cl' s'. OnServiceDiedInner R M n (cl, s) = Some (m, cl', s') \<and> m \<le> n + d \<and>
    (holds cl \<longrightarrow> cl_recipient cl' = cl_recipient cl \<and> registered s')"
  using assms
proof (induction d arbitrary: n)
  case (Suc d)
  obtain ret cl1 where g: "GetBundleActiveProxy (R n) cl = (ret, cl1)" by (metis prod.collapse)
  show ?case
  proof (cases "ret = OK")
    case True
    with g recovery_ends [of R n cl cl1 s] show ?thesis by fastforce
  next
    case False
    then have "OnServiceDiedInner R M n (cl, s) = OnServiceDiedInner R M (Suc n) (cl, s)"
      using g GetBundleActiveProxy_effect(4) [OF g False]
      by (subst OnServiceDiedInner.simps) (simp add: recovery_round_def)
    then show ?thesis
      using Suc.IH [of "Suc n"] Suc.prems by simp
  qed
next
  case 0
  then obtain cl1 where "GetBundleActiveProxy (R n) cl = (OK, cl1)"
    using up_connects by auto
  from recovery_ends [of R n, OF this, of s] show ?case by fastforce
qed

end

section \<open>The service keeps the registration\<close>

lemma observers_parts [simp]:
  "co_groupChangeObservers (on_service E u f c) = co_groupChangeObservers c"
  "co_groupChangeObservers (on_groups E k c) = co_groupChangeObservers c"
  "co_groupChangeObservers (snd (with_groups E l c)) = co_groupChangeObservers c"
  "co_groupChangeObservers (snd (with_service E u m c)) = co_groupChangeObservers c"
  "co_groupChangeObservers (ReportHandler_SendEvent E i ob d c) = co_groupChangeObservers c"
  "co_groupChangeObservers (ReportHandler_RemoveEvent E i c) = co_groupChangeObservers c"
  by (rule core_restD(9), simp)+

lemma CheckTime_observers [simp]:
  "co_groupChangeObservers (snd (CheckTimeChangeAndGetWallTime E u c)) = co_groupChangeObservers c"
  by (simp add: CheckTimeChangeAndGetWallTime_def Let_def split: option.splits)

lemma GetUserData_observers [simp]:
  "co_groupChangeObservers (GetUserDataAndInitializeIfNeeded E u t b c) = co_groupChangeObservers c"
  by (simp add: GetUserDataAndInitializeIfNeeded_def Let_def split: option.splits)

lemma with_query_observers [simp]:
  "co_groupChangeObservers (snd (with_query E u refuse f c)) = co_groupChangeObservers c"
proof -
  have "co_groupChangeObservers (snd (case p of (None, c2) \<Rightarrow> (Inl e, c2) | (Some r, c2) \<Rightarrow> (r, c2))) =
      co_groupChangeObservers (snd p)" for p :: "(errcode + 'a) option \<times> ('d, 'w, 'g, 'q) core" and e
    by (cases p; cases "fst p") simp_all
  then show ?thesis
    by (simp add: with_query_def Let_def case_prod_beta split: option.splits)
qed

lemma queries_observers [simp]:
  "co_groupChangeObservers (snd (Core_QueryBundleStatsInfos E u i b e n c)) = co_groupChangeObservers c"
  "co_groupChangeObservers (snd (Core_QueryBundleEvents E u b e n c)) = co_groupChangeObservers c"
  "co_groupChangeObservers (snd (Core_QueryModuleUsageRecords E k u c)) = co_groupChangeObservers c"
  "co_groupChangeObservers (snd (Core_QueryDeviceEventStats E b e u c)) = co_groupChangeObservers c"
  "co_groupChangeObservers (snd (Core_QueryNotificationEventStats E b e u c)) = co_groupChangeObservers c"
  "co_groupChangeObservers (snd (Core_SetAppGroup E n g u f c)) = co_groupChangeObservers c"
  by (simp_all add: Core_QueryBundleStatsInfos_def Core_QueryBundleEvents_def Core_QueryModuleUsageRecords_def
      Core_QueryDeviceEventStats_def Core_QueryNotificationEventStats_def Core_SetAppGroup_def)

lemma more_queries_observers [simp]:
  "co_groupChangeObservers (snd (Core_QueryHighFrequencyPeriodBundle E u c)) = co_groupChangeObservers c"
  "co_groupChangeObservers (snd (Core_IsBundleUsePeriod E n u c)) = co_groupChangeObservers c"
  using with_query_observers [of E u "\<lambda>_. None" "UserService_QueryBundleEvents (ce_usage E)
      (ce_systemTime E - ONE_WEEK_TIME) (ce_systemTime E) u []" c]
  by (auto simp: Core_QueryHighFrequencyPeriodBundle_def Core_IsBundleUsePeriod_def Let_def case_prod_beta
      split: prod.splits sum.splits)

lemma with_user_keeps:
  assumes "\<And>ret. P (snd (fail ret)) = P c" "\<And>u. P (snd (f u)) = P c"
  shows "P (snd (with_user S ca userId fail f)) = P c"
  using assms by (simp add: with_user_def split: prod.split)

lemma request_observers:
  "co_groupChangeObservers (remote_request (service_remote S ca) q c) = co_groupChangeObservers c"
proof (induction q)
  case (AskReport ev u)
  then show ?case by (simp add: service_remote_def Service_ReportEvent_def Let_def)
next
  case (AskUsePeriod b u)
  then show ?case
    by (simp add: service_remote_def Service_IsBundleUsePeriod_def Let_def case_prod_beta with_user_keeps)
next
  case (AskLatest b u)
  then show ?case
    by (simp add: service_remote_def Service_QueryBundleTodayLatestUsedTime_def, intro with_user_keeps)
      (simp_all add: Let_def case_prod_beta split: sum.split list.split)
qed (simp_all add: service_remote_def Service_QueryBundleStatsInfoByInterval_def Service_QueryBundleEvents_def
    Service_QueryBundleStatsInfos_def Service_QueryHighFrequencyUsageBundleInfos_def Service_QueryCurrentBundleEvents_def
    Service_SetAppGroup_def Service_QueryModuleUsageRecords_def Service_QueryDeviceEventStats_def
    Service_QueryNotificationEventStats_def Service_QueryHighFrequencyPeriodBundle_def
    Let_def case_prod_beta with_user_keeps)

text \<open>The caller is served when it has no right to be, or its observer is registered under its token.\<close>

definition served :: "caller \<Rightarrow> ('d, 'w, 'g, 'q) core \<Rightarrow> bool" where
  "served ca c \<longleftrightarrow> CheckSystemAppOrNativePermission ca = OK \<longrightarrow> om_find (co_groupChangeObservers c) (ca_tokenId ca) \<noteq> None"

lemma AddObserverDeathRecipient_observers [simp]:
  "co_groupChangeObservers (AddObserverDeathRecipient ob c) = co_groupChangeObservers c"
  "co_groupChangeObservers (RemoveObserverDeathRecipient ob c) = co_groupChangeObservers c"
  by (simp_all add: AddObserverDeathRecipient_def RemoveObserverDeathRecipient_def split: option.split)

interpretation service_side: observer_service "service_remote S ca" "served ca" for S ca
proof
  fix q c ob ob'
  show "served ca (remote_request (service_remote S ca) q c) = served ca c"
    by (simp add: served_def request_observers)
  show "served ca (snd (rm_RegisterAppGroupCallBack (service_remote S ca) (Some ob) c))"
    by (auto simp: served_def service_remote_def Service_RegisterAppGroupCallBack_def Let_def
        Core_RegisterAppGroupCallBack_def)
  show "served ca c \<Longrightarrow> served ca (snd (rm_RegisterAppGroupCallBack (service_remote S ca) ob' c))"
    by (auto simp: served_def service_remote_def Service_RegisterAppGroupCallBack_def Let_def
        Core_RegisterAppGroupCallBack_def split: option.split)
  show "fst (rm_UnRegisterAppGroupCallBack (service_remote S ca) ob' c) \<noteq> OK \<Longrightarrow> served ca c \<Longrightarrow>
      served ca (snd (rm_UnRegisterAppGroupCallBack (service_remote S ca) ob' c))"
    by (auto simp: served_def service_remote_def Service_UnRegisterAppGroupCallBack_def Let_def
        Core_UnRegisterAppGroupCallBack_def split: option.splits if_splits)
qed

section \<open>The observer survives the service\<close>

text \<open>C17: Whatever requests, registrations, deaths of the service and recoveries have come before: while the
client holds an observer, either the client is connected and the service has the observer under its token, or a
recovery is pending. And such a recovery ends as soon as the system ability manager knows the service, with the
observer registered again and still held.\<close>

theorem observer_survives:
  assumes "(client_step (service_remote S ca))\<^sup>*\<^sup>* (Client_new, c0) (cl, c)"
    "cl_recipient cl = Some (Some ob)" "CheckSystemAppOrNativePermission ca = OK" "up (R k)"
  shows "cl_proxy cl \<and> om_find (co_groupChangeObservers c) (ca_tokenId ca) \<noteq> None \<or>
    0 < cl_posted cl \<and> (\<exists>n cl' c'. OnServiceDiedInner R (service_remote S ca) 0 (cl, c) = Some (n, cl', c') \<and> n \<le> k \<and>
      cl_recipient cl' = Some (Some ob) \<and> om_find (co_groupChangeObservers c') (ca_tokenId ca) \<noteq> None)"
proof -
  have "client_inv (served ca) (cl, c)"
    using service_side.reachable_inv [OF assms(1)] .
  moreover have "holds cl"
    using assms(2) by (simp add: holds_def)
  moreover have "\<exists>n cl' c'. OnServiceDiedInner R (service_remote S ca) 0 (cl, c) = Some (n, cl', c') \<and> n \<le> k \<and>
      cl_recipient cl' = Some (Some ob) \<and> served ca c'"
    using service_side.recovery_returns [of R 0 k S ca cl c] assms(2,4) \<open>holds cl\<close> by auto
  ultimately show ?thesis
    using assms(3) by (auto simp: client_inv_def served_def)
qed

definition up_registry :: registry where
  "up_registry = \<lparr> rg_manager = True, rg_object = True, rg_cast = True, rg_alloc = True \<rparr>"

definition orphaned :: client where
  "orphaned = \<lparr> cl_proxy = False, cl_recipient = Some (Some \<lparr> ac_proxy = 5, ac_object = Some 9 \<rparr>), cl_linked = False,
     cl_posted = 1 \<rparr>"

lemma orphaned_reachable:
  "(client_step (service_remote demo_service_env demo_caller))\<^sup>*\<^sup>* (Client_new, demo_core) (orphaned, demo_core)"
proof -
  let ?M = "service_remote demo_service_env demo_caller" and ?ob = "Some \<lparr> ac_proxy = 5, ac_object = Some 9 \<rparr>"
  let ?st = "snd (Client_RegisterAppGroupCallBack up_registry ?M ?ob (Client_new, demo_core))"
  have "CheckSystemAppOrNativePermission demo_caller = OK" "om_find (co_groupChangeObservers demo_core) 1 = None"
    by (simp_all add: demo_caller_def CheckSystemAppOrNativePermission_def CheckBundleIsSystemAppAndHasPermission_def
        demo_core_def Core_new_def ReportController_Init_def)
  then have st: "fst ?st = \<lparr> cl_proxy = True, cl_recipient = Some ?ob, cl_linked = True, cl_posted = 0 \<rparr>"
    by (simp add: Client_RegisterAppGroupCallBack_def Client_new_def GetBundleActiveProxy_def up_registry_def
        service_remote_def Service_RegisterAppGroupCallBack_def Core_RegisterAppGroupCallBack_def AddObserver_def
        demo_caller_def Let_def)
  have connected: "client_step ?M (Client_new, demo_core) ?st"
    by (rule client_step.register)
  have "client_step ?M (fst ?st, snd ?st) (OnRemoteDied (fst ?st), demo_core)"
    by (rule client_step.died) (simp add: st)
  moreover have "OnRemoteDied (fst ?st) = orphaned"
    by (simp add: st OnRemoteDied_def orphaned_def)
  ultimately have "client_step ?M ?st (orphaned, demo_core)"
    by (simp only: prod.collapse)
  then have "(client_step ?M)\<^sup>*\<^sup>* ?st (orphaned, demo_core)"
    by (rule r_into_rtranclp)
  with connected show ?thesis
    by (rule converse_rtranclp_into_rtranclp)
qed

theorem observer_survives_witness:
  "\<exists>n cl' c'. OnServiceDiedInner (\<lambda>n. if n < 3 then up_registry \<lparr> rg_object := False \<rparr> else up_registry)
      (service_remote demo_service_env demo_caller) 0 (orphaned, demo_core) = Some (n, cl', c') \<and> n \<le> 3 \<and>
     om_find (co_groupChangeObservers c') 1 \<noteq> None"
proof -
  have "cl_recipient orphaned = Some (Some \<lparr> ac_proxy = 5, ac_object = Some 9 \<rparr>)" "\<not> cl_proxy orphaned"
    "CheckSystemAppOrNativePermission demo_caller = OK" "ca_tokenId demo_caller = 1"
    "up (if (3::nat) < 3 then up_registry \<lparr> rg_object := False \<rparr> else up_registry)"
    by (simp_all add: orphaned_def demo_caller_def CheckSystemAppOrNativePermission_def up_def up_registry_def
        CheckBundleIsSystemAppAndHasPermission_def)
  then show ?thesis
    using observer_survives [OF orphaned_reachable, of _ "\<lambda>n. if n < 3 then up_registry \<lparr> rg_object := False \<rparr> else up_registry" 3]
    by auto
qed

text \<open>An unregistration between the death and the recovery is refused by the new service, which knows no
observer, and is undone: the recovery registers the observer the client wanted to be rid of.\<close>

lemma unregister_before_recovery:
  assumes "CheckSystemAppOrNativePermission ca = OK" "om_find (co_groupChangeObservers c) (ca_tokenId ca) = None"
    "holds cl" "Client_UnRegisterAppGroupCallBack R (service_remote S ca) ob (cl, c) = (ret, cl1, c1)" "up R"
  shows "ret = errcode_num ERR_REPEAT_REGISTER_OR_DEREGISTER_GROUP_CALLBACK \<and>
    (\<exists>n cl2 c2. OnServiceDiedInner (\<lambda>_. R) (service_remote S ca) 0 (cl1, c1) = Some (n, cl2, c2) \<and>
      om_find (co_groupChangeObservers c2) (ca_tokenId ca) \<noteq> None)"
proof -
  obtain cl0 where g: "GetBundleActiveProxy R cl = (OK, cl0)"
    using up_connects [OF assms(5)] by blast
  have u: "ret = errcode_num ERR_REPEAT_REGISTER_OR_DEREGISTER_GROUP_CALLBACK" "cl1 = cl0"
    using assms(1,2,4) by (auto simp: Client_UnRegisterAppGroupCallBack_def g service_remote_def
        Service_UnRegisterAppGroupCallBack_def Core_UnRegisterAppGroupCallBack_def)
  have "holds cl1"
    using GetBundleActiveProxy_effect(1) [OF g] u(2) assms(3) by simp
  then have "\<exists>n cl2 c2. OnServiceDiedInner (\<lambda>_. R) (service_remote S ca) 0 (cl1, c1) = Some (n, cl2, c2) \<and> served ca c2"
    using service_side.recovery_returns [of "\<lambda>_. R" 0 0 S ca cl1 c1] assms(5) by auto
  then show ?thesis
    using u(1) assms(1) by (auto simp: served_def)
qed

end
