(* ===== verification/JsObserver.thy ===== *)
theory JsObserver
  imports JsChecks ClientRecovery
begin

text \<open>The observer of group changes in the binding for JavaScript (\<open>bundle_active_app_group_napi.cpp\<close>,
\<open>app_group_observer_napi.cpp\<close>): a global that is set while the arguments of a registration are read, and
cleared when a registration has failed or an unregistration has succeeded. In between the works are executed
and completed by the runtime, in any order.\<close>

section \<open>Calls, works and their completion\<close>

datatype observer_work = WRegister "app_callback option" | WUnregister "app_callback option"

text \<open>The works that wait for a thread, and those that were executed, with their error, and wait for their
completion. The last field is the client and the service.\<close>

record ('v, 's) observer_world =
  ow_observer :: "'v js_observer"
  ow_works :: "(observer_work \<times> 'v option) list"
  ow_done :: "((observer_work \<times> 'v option) \<times> int) list"
  ow_side :: "client \<times> 's"

definition Js_RegisterAppGroupCallBack ::
    "'v napi \<Rightarrow> app_callback option \<Rightarrow> 'v list \<Rightarrow> ('v, 's) observer_world \<Rightarrow>
      ('v, observer_work) outcome \<times> ('v, 's) observer_world" where
  "Js_RegisterAppGroupCallBack N allocated args w =
     (case ParseRegisterAppGroupCallBackParameters N allocated args (ow_observer w) of (params, registerObserver) \<Rightarrow>
        let r = queue_work params (WRegister (map_option fst registerObserver));
            w1 = w \<lparr> ow_observer := registerObserver \<rparr>
        in (r, case r of Queued work callback \<Rightarrow> w1 \<lparr> ow_works := ow_works w1 @ [(work, callback)] \<rparr> | _ \<Rightarrow> w1))"

definition Js_UnRegisterAppGroupCallBack ::
    "'v napi \<Rightarrow> 'v list \<Rightarrow> ('v, 's) observer_world \<Rightarrow> ('v, observer_work) outcome \<times> ('v, 's) observer_world" where
  "Js_UnRegisterAppGroupCallBack N args w =
     (let params = ParseUnRegisterAppGroupCallBackParameters N args (ow_observer w);
          r = queue_work params (WUnregister (map_option fst (ow_observer w)))
      in (r, case r of Queued work callback \<Rightarrow> w \<lparr> ow_works := ow_works w @ [(work, callback)] \<rparr> | _ \<Rightarrow> w))"

definition Js_RegisterAppGroupCallBackAsync ::
    "registry \<Rightarrow> 's remote \<Rightarrow> app_callback option \<Rightarrow> client \<times> 's \<Rightarrow> int \<times> client \<times> 's" where
  "Js_RegisterAppGroupCallBackAsync R M observer st = Client_RegisterAppGroupCallBack R M observer st"

definition Js_UnRegisterAppGroupCallBackAsync ::
    "registry \<Rightarrow> 's remote \<Rightarrow> app_callback option \<Rightarrow> client \<times> 's \<Rightarrow> int \<times> client \<times> 's" where
  "Js_UnRegisterAppGroupCallBackAsync R M observer st = Client_UnRegisterAppGroupCallBack R M observer st"

fun execute_observer_work :: "registry \<Rightarrow> 's remote \<Rightarrow> observer_work \<Rightarrow> client \<times> 's \<Rightarrow> int \<times> client \<times> 's" where
  "execute_observer_work R M (WRegister observer) st = Js_RegisterAppGroupCallBackAsync R M observer st"
| "execute_observer_work R M (WUnregister observer) st = Js_UnRegisterAppGroupCallBackAsync R M observer st"

definition Js_RegisterAppGroupCallBackAsyncCB :: "int \<Rightarrow> 'v js_observer \<Rightarrow> 'v js_observer" where
  "Js_RegisterAppGroupCallBackAsyncCB errorCode registerObserver = (if errorCode \<noteq> OK then None else registerObserver)"

definition Js_UnRegisterAppGroupCallBackAsyncCB :: "int \<Rightarrow> 'v js_observer \<Rightarrow> 'v js_observer" where
  "Js_UnRegisterAppGroupCallBackAsyncCB errorCode registerObserver = (if errorCode = OK then None else registerObserver)"

fun complete_observer_work :: "observer_work \<Rightarrow> 'v option \<Rightarrow> int \<Rightarrow> 'v js_observer \<Rightarrow> 'v delivery \<times> 'v js_observer" where
  "complete_observer_work (WRegister _) callback errorCode registerObserver =
     (GetCallbackPromiseResult callback errorCode JsNull, Js_RegisterAppGroupCallBackAsyncCB errorCode registerObserver)"
| "complete_observer_work (WUnregister _) callback errorCode registerObserver =
     (GetCallbackPromiseResult callback errorCode JsNull, Js_UnRegisterAppGroupCallBackAsyncCB errorCode registerObserver)"

section \<open>The notice of a change\<close>

text \<open>What the service tells is sent as an event to the engine, where the callback is called with an object. The
round trip through a parcel gives the notice again. \<open>None\<close> where the loop of the engine, the memory or the queue
is missing; the service is answered success in any case.\<close>

definition SetBundleGroupChangedData :: "callback_info \<Rightarrow> jsval" where
  "SetBundleGroupChangedData data = JsObject [
     (''appOldGroup'', JsNumber (cb_oldGroup data)), (''appNewGroup'', JsNumber (cb_newGroup data)),
     (''userId'', JsNumber (cb_userId data)), (''changeReason'', JsNumber (uint (cb_changeReason data))),
     (''bundleName'', js_string (cb_bundleName data))]"

definition Js_OnAppGroupChanged :: "bool \<Rightarrow> bool \<Rightarrow> bool \<Rightarrow> 'v \<Rightarrow> callback_info \<Rightarrow> int \<times> ('v \<times> callback_info) option" where
  "Js_OnAppGroupChanged loop alloc sent callback info =
     (OK, if \<not> loop then None else if \<not> alloc then None else if \<not> sent then None else Some (callback, info))"

definition UvQueueWorkOnAppGroupChanged :: "'v option \<times> callback_info \<Rightarrow> ('v \<times> jsval) option" where
  "UvQueueWorkOnAppGroupChanged = (\<lambda>(ref, info).
     case ref of None \<Rightarrow> None | Some callback \<Rightarrow> Some (callback, SetBundleGroupChangedData info))"

section \<open>Steps\<close>

text \<open>\<open>tidy\<close> leaves out the registrations that are refused after the observer was set: those whose second argument
is not a function and those for which there is no memory.\<close>

inductive observer_step ::
    "bool \<Rightarrow> 's remote \<Rightarrow> ('v, 's) observer_world \<Rightarrow> ('v, 's) observer_world \<Rightarrow> bool" for tidy M where
  call_register: "Js_RegisterAppGroupCallBack N allocated args w = (r, w') \<Longrightarrow>
     (tidy \<Longrightarrow> r = Queued work callback \<or> ow_observer w' = ow_observer w) \<Longrightarrow> observer_step tidy M w w'"
| call_unregister: "Js_UnRegisterAppGroupCallBack N args w = (r, w') \<Longrightarrow> observer_step tidy M w w'"
| executed: "ow_works w = pre @ (work, callback) # post \<Longrightarrow> execute_observer_work R M work (ow_side w) = (err, side) \<Longrightarrow>
     observer_step tidy M w
       (w \<lparr> ow_works := pre @ post, ow_done := ow_done w @ [((work, callback), err)], ow_side := side \<rparr>)"
| completed: "ow_done w = pre @ ((work, callback), err) # post \<Longrightarrow>
     observer_step tidy M w
       (w \<lparr> ow_done := pre @ post, ow_observer := snd (complete_observer_work work callback err (ow_observer w)) \<rparr>)"

text \<open>What the binding relies on of the other side: a registration that succeeds had found no observer and leaves
this one; an unregistration that succeeds had found one and leaves none; one that fails changes nothing.\<close>

locale group_service =
  fixes M :: "'s remote" and registered :: "'s \<Rightarrow> app_callback option"
  assumes register: "rm_RegisterAppGroupCallBack M (Some ob) s = (err, s') \<Longrightarrow>
      (if err = OK then registered s = None \<and> registered s' = Some ob else registered s' = registered s)"
    and unregister: "rm_UnRegisterAppGroupCallBack M ob' s = (err, s') \<Longrightarrow>
      (if err = OK then registered s \<noteq> None \<and> registered s' = None else registered s' = registered s)"
begin

lemma client_register:
  assumes "Client_RegisterAppGroupCallBack R M (Some ob) st = (err, st')"
  shows "if err = OK then registered (snd st) = None \<and> registered (snd st') = Some ob
    else registered (snd st') = registered (snd st)"
proof -
  obtain cl s where st: "st = (cl, s)" by (cases st)
  obtain e s' where e: "rm_RegisterAppGroupCallBack M (Some ob) s = (e, s')" by (metis prod.collapse)
  show ?thesis
    using assms register [OF e] by (auto simp: st e Client_RegisterAppGroupCallBack_def Let_def split: prod.splits if_splits)
qed

lemma client_unregister:
  assumes "Client_UnRegisterAppGroupCallBack R M ob st = (err, st')"
  shows "if err = OK then registered (snd st) \<noteq> None \<and> registered (snd st') = None
    else registered (snd st') = registered (snd st)"
proof -
  obtain cl s where st: "st = (cl, s)" by (cases st)
  obtain e s' where e: "rm_UnRegisterAppGroupCallBack M ob s = (e, s')" by (metis prod.collapse)
  show ?thesis
    using assms unregister [OF e] by (auto simp: st e Client_UnRegisterAppGroupCallBack_def Let_def split: prod.splits if_splits)
qed

end

interpretation token_service: group_service "service_remote S ca" "\<lambda>c. om_find (co_groupChangeObservers c) (ca_tokenId ca)" for S ca
proof
  fix ob c err c' ob'
  show "rm_RegisterAppGroupCallBack (service_remote S ca) (Some ob) c = (err, c') \<Longrightarrow>
      if err = OK then om_find (co_groupChangeObservers c) (ca_tokenId ca) = None \<and>
        om_find (co_groupChangeObservers c') (ca_tokenId ca) = Some ob
      else om_find (co_groupChangeObservers c') (ca_tokenId ca) = om_find (co_groupChangeObservers c) (ca_tokenId ca)"
    by (auto simp: service_remote_def Service_RegisterAppGroupCallBack_def Let_def Core_RegisterAppGroupCallBack_def
        split: if_splits option.splits)
  show "rm_UnRegisterAppGroupCallBack (service_remote S ca) ob' c = (err, c') \<Longrightarrow>
      if err = OK then om_find (co_groupChangeObservers c) (ca_tokenId ca) \<noteq> None \<and>
        om_find (co_groupChangeObservers c') (ca_tokenId ca) = None
      else om_find (co_groupChangeObservers c') (ca_tokenId ca) = om_find (co_groupChangeObservers c) (ca_tokenId ca)"
    by (auto simp: service_remote_def Service_UnRegisterAppGroupCallBack_def Let_def Core_UnRegisterAppGroupCallBack_def
        split: if_splits option.splits)
qed

section \<open>The effect of a call\<close>

lemma register_effect:
  assumes "Js_RegisterAppGroupCallBack N allocated args w = (r, w')"
  shows "w' = w \<and> (\<forall>work f. r \<noteq> Queued work f) \<or>
    (\<exists>ob v callback. ow_observer w = None \<and> r = Queued (WRegister (Some ob)) callback \<and>
      w' = w \<lparr> ow_observer := Some (ob, v), ow_works := ow_works w @ [(WRegister (Some ob), callback)] \<rparr>) \<or>
    (\<exists>ob v. ow_observer w = None \<and> (\<forall>work f. r \<noteq> Queued work f) \<and> w' = w \<lparr> ow_observer := Some (ob, v) \<rparr>)"
proof -
  obtain p obs where p: "ParseRegisterAppGroupCallBackParameters N allocated args (ow_observer w) = (p, obs)"
    by (metis prod.collapse)
  have same: "w \<lparr> ow_observer := ow_observer w \<rparr> = w" by simp
  have refuse: "queue_work (refuse c e op b no_params) k \<noteq> Queued work f" for c e op b and k work :: observer_work and f :: "'a option"
    using refuse_refused [of "no_params :: 'a ParamsInfo" c e op b] by (simp add: queue_work_def)
  have "obs = ow_observer w \<and> (\<forall>k work f. queue_work p (k :: observer_work) \<noteq> Queued work f) \<or>
      (\<exists>ob v. ow_observer w = None \<and> obs = Some (ob, v))"
    using p refuse unfolding ParseRegisterAppGroupCallBackParameters_def Let_def
    by (cases "ow_observer w") (auto split: if_splits option.splits)
  then show ?thesis
  proof (elim disjE exE conjE)
    assume "obs = ow_observer w" "\<forall>k work f. queue_work p (k :: observer_work) \<noteq> Queued work f"
    then show ?thesis
      using assms by (auto simp: Js_RegisterAppGroupCallBack_def p Let_def split: outcome.splits)
  next
    fix ob v
    assume o: "ow_observer w = None" "obs = Some (ob, v)"
    have "Js_RegisterAppGroupCallBack N allocated args w = (queue_work p (WRegister (Some ob)),
        case queue_work p (WRegister (Some ob)) of
          Queued work callback \<Rightarrow> w \<lparr> ow_observer := Some (ob, v), ow_works := ow_works w @ [(work, callback)] \<rparr>
        | _ \<Rightarrow> w \<lparr> ow_observer := Some (ob, v) \<rparr>)"
      unfolding Js_RegisterAppGroupCallBack_def p o(2) by (simp add: Let_def split: outcome.split)
    moreover have "queue_work p k = Queued work f \<Longrightarrow> work = k" for k work :: observer_work and f
      by (auto simp: queue_work_def split: if_splits)
    ultimately show ?thesis
      using assms o(1) by (cases "queue_work p (WRegister (Some ob))") fastforce+
  qed
qed

lemma unregister_effect:
  assumes "Js_UnRegisterAppGroupCallBack N args w = (r, w')"
  shows "w' = w \<or> (\<exists>ob callback. ow_observer w \<noteq> None \<and> w' = w \<lparr> ow_works := ow_works w @ [(WUnregister ob, callback)] \<rparr>)"
proof (cases "ow_observer w")
  case None
  have "queue_work (ParseUnRegisterAppGroupCallBackParameters N args None) k \<noteq> Queued work f" for k work :: observer_work and f
    unfolding ParseUnRegisterAppGroupCallBackParameters_def Let_def read_callback_def queue_work_def
    by (auto simp: refuse_refused split: if_splits)
  with None assms show ?thesis
    by (auto simp: Js_UnRegisterAppGroupCallBack_def Let_def split: outcome.splits)
next
  case (Some o')
  with assms show ?thesis
    by (auto simp: Js_UnRegisterAppGroupCallBack_def Let_def queue_work_def split: if_splits)
qed

section \<open>Binding and service in step\<close>

text \<open>What will still bring the binding and the service together: a registration that waits, a registration that
has failed, an unregistration that has succeeded.\<close>

fun work_load :: "observer_work \<times> 'v option \<Rightarrow> nat" where
  "work_load (WRegister _, _) = 1"
| "work_load (WUnregister _, _) = 0"

fun done_load :: "(observer_work \<times> 'v option) \<times> int \<Rightarrow> nat" where
  "done_load ((WRegister _, _), err) = (if err \<noteq> OK then 1 else 0)"
| "done_load ((WUnregister _, _), err) = (if err = OK then 1 else 0)"

definition load :: "('v, 's) observer_world \<Rightarrow> nat" where
  "load w = sum_list (map work_load (ow_works w)) + sum_list (map done_load (ow_done w))"

definition observer_inv :: "('s \<Rightarrow> app_callback option) \<Rightarrow> ('v, 's) observer_world \<Rightarrow> bool" where
  "observer_inv registered w \<longleftrightarrow>
     load w + (if registered (snd (ow_side w)) = None then 0 else 1) = (if ow_observer w = None then 0 else 1) \<and>
     (\<forall>ob. registered (snd (ow_side w)) = Some ob \<longrightarrow> map_option fst (ow_observer w) = Some ob) \<and>
     (\<forall>ob f. (WRegister ob, f) \<in> set (ow_works w) \<longrightarrow> ob \<noteq> None \<and> ob = map_option fst (ow_observer w))"

text \<open>The binding holds an observer that nobody else knows of and nothing will clear.\<close>

definition wedged :: "('s \<Rightarrow> app_callback option) \<Rightarrow> ('v, 's) observer_world \<Rightarrow> bool" where
  "wedged registered w \<longleftrightarrow> ow_observer w \<noteq> None \<and> load w = 0 \<and> registered (snd (ow_side w)) = None"

lemma load_update [simp]:
  "load (w \<lparr> ow_observer := x \<rparr>) = load w"
  "load (w \<lparr> ow_works := ow_works w @ [k] \<rparr>) = load w + work_load k"
  "load (w \<lparr> ow_observer := x, ow_works := ow_works w @ [k] \<rparr>) = load w + work_load k"
  by (simp_all add: load_def)

lemma load_executed:
  assumes "ow_works w = pre @ k # post"
  shows "load w = load (w \<lparr> ow_works := pre @ post \<rparr>) + work_load k"
    "load (w \<lparr> ow_works := pre @ post, ow_done := ow_done w @ [(k, err)], ow_side := side \<rparr>) =
       load (w \<lparr> ow_works := pre @ post \<rparr>) + done_load (k, err)"
  using assms by (simp_all add: load_def)

lemma load_completed:
  assumes "ow_done w = pre @ d # post"
  shows "load w = load (w \<lparr> ow_done := pre @ post, ow_observer := x \<rparr>) + done_load d"
  using assms by (simp add: load_def)

lemma load_zero_registers: "load w = 0 \<Longrightarrow> (WRegister ob, f) \<notin> set (ow_works w)"
  by (auto simp: load_def)

context group_service
begin

lemma execute_effect:
  assumes "execute_observer_work R M work side = (err, side')" "\<And>ob. work = WRegister ob \<Longrightarrow> ob \<noteq> None"
  shows "registered (snd side') = (if err \<noteq> OK then registered (snd side)
      else case work of WRegister ob \<Rightarrow> ob | WUnregister _ \<Rightarrow> None)"
    "err = OK \<Longrightarrow> (case work of WRegister _ \<Rightarrow> registered (snd side) = None | WUnregister _ \<Rightarrow> registered (snd side) \<noteq> None)"
proof -
  have "registered (snd side') = (if err \<noteq> OK then registered (snd side) else case work of WRegister ob \<Rightarrow> ob | WUnregister _ \<Rightarrow> None) \<and>
      (err = OK \<longrightarrow> (case work of WRegister _ \<Rightarrow> registered (snd side) = None | WUnregister _ \<Rightarrow> registered (snd side) \<noteq> None))"
  proof (cases work)
    case (WRegister ob)
    then obtain o' where "ob = Some o'" using assms(2) by blast
    then show ?thesis
      using assms(1) client_register [of _ o' side err side'] WRegister
      by (auto simp: Js_RegisterAppGroupCallBackAsync_def split: if_splits)
  next
    case (WUnregister ob)
    then show ?thesis
      using assms(1) client_unregister [of _ ob side err side']
      by (auto simp: Js_UnRegisterAppGroupCallBackAsync_def split: if_splits)
  qed
  then show "registered (snd side') = (if err \<noteq> OK then registered (snd side)
      else case work of WRegister ob \<Rightarrow> ob | WUnregister _ \<Rightarrow> None)"
    "err = OK \<Longrightarrow> (case work of WRegister _ \<Rightarrow> registered (snd side) = None | WUnregister _ \<Rightarrow> registered (snd side) \<noteq> None)"
    by blast+
qed

lemma executed_inv:
  assumes "observer_inv registered w" "ow_works w = pre @ (work, callback) # post"
    "execute_observer_work R M work (ow_side w) = (err, side)"
  shows "observer_inv registered
    (w \<lparr> ow_works := pre @ post, ow_done := ow_done w @ [((work, callback), err)], ow_side := side \<rparr>)"
proof -
  have mem: "(work, callback) \<in> set (ow_works w)" "set (pre @ post) \<subseteq> set (ow_works w)"
    using assms(2) by auto
  have ob: "ob \<noteq> None \<and> ob = map_option fst (ow_observer w)" if "work = WRegister ob" for ob
    using assms(1) mem(1) that unfolding observer_inv_def by blast
  have regs: "ob \<noteq> None \<and> ob = map_option fst (ow_observer w)" if "(WRegister ob, f) \<in> set (pre @ post)" for ob f
    using assms(1) mem(2) that unfolding observer_inv_def by blast
  note l = load_executed [OF assms(2)]
  show ?thesis
  proof (cases work)
    case (WRegister o1)
    then have "\<And>ob. work = WRegister ob \<Longrightarrow> ob \<noteq> None" using ob by blast
    note e = execute_effect [OF assms(3) this]
    show ?thesis
      using WRegister assms(1) e ob l(1) l(2) [where err = err and side = side] regs unfolding observer_inv_def by (auto split: if_splits)
  next
    case (WUnregister o1)
    then have "\<And>ob. work = WRegister ob \<Longrightarrow> ob \<noteq> None" by simp
    note e = execute_effect [OF assms(3) this]
    show ?thesis
      using WUnregister assms(1) e l(1) l(2) [where err = err and side = side] regs unfolding observer_inv_def by (auto split: if_splits)
  qed
qed

lemma completed_inv:
  assumes "observer_inv registered w" "ow_done w = pre @ ((work, callback), err) # post"
  shows "observer_inv registered
    (w \<lparr> ow_done := pre @ post, ow_observer := snd (complete_observer_work work callback err (ow_observer w)) \<rparr>)"
proof -
  let ?obs = "snd (complete_observer_work work callback err (ow_observer w))"
  have l: "load w = load (w \<lparr> ow_done := pre @ post, ow_observer := ?obs \<rparr>) + done_load ((work, callback), err)"
    by (rule load_completed [OF assms(2)])
  show ?thesis
  proof (cases "?obs = ow_observer w")
    case True
    have "done_load ((work, callback), err) = 0 \<or> ow_observer w = None"
      using True by (cases work) (auto simp: Js_RegisterAppGroupCallBackAsyncCB_def Js_UnRegisterAppGroupCallBackAsyncCB_def
          split: if_splits)
    then show ?thesis
      using assms(1) l True unfolding observer_inv_def by (auto split: if_splits)
  next
    case False
    then have o: "?obs = None" and d: "done_load ((work, callback), err) = 1"
      by (cases work; simp add: Js_RegisterAppGroupCallBackAsyncCB_def Js_UnRegisterAppGroupCallBackAsyncCB_def split: if_splits)+
    have "load w \<le> 1"
      using assms(1) unfolding observer_inv_def by (auto split: if_splits)
    then have "load (w \<lparr> ow_done := pre @ post, ow_observer := ?obs \<rparr>) = 0" "load w = 1"
      using l d by simp_all
    moreover have "registered (snd (ow_side w)) = None"
      using assms(1) \<open>load w = 1\<close> unfolding observer_inv_def by (auto split: if_splits)
    ultimately show ?thesis
      using o load_zero_registers [of "w \<lparr> ow_done := pre @ post, ow_observer := ?obs \<rparr>"] unfolding observer_inv_def by auto
  qed
qed

lemma observer_step_inv:
  assumes "observer_step True M w w'" "observer_inv registered w"
  shows "observer_inv registered w'"
  using assms
proof cases
  case (call_register N allocated args r work callback)
  show ?thesis
    using register_effect [OF call_register(1)] call_register(2) assms(2) unfolding observer_inv_def
    by (auto split: if_splits simp: load_zero_registers)
next
  case (call_unregister N args r)
  show ?thesis
  proof (rule disjE [OF unregister_effect [OF call_unregister]])
    assume "\<exists>ob callback. ow_observer w \<noteq> None \<and> w' = w \<lparr> ow_works := ow_works w @ [(WUnregister ob, callback)] \<rparr>"
    then obtain ob callback where w': "w' = w \<lparr> ow_works := ow_works w @ [(WUnregister ob, callback)] \<rparr>" by blast
    have "\<forall>ob f. (WRegister ob, f) \<in> set (ow_works w) \<longrightarrow> ob \<noteq> None \<and> ob = map_option fst (ow_observer w)"
      using assms(2) unfolding observer_inv_def by blast
    then have "\<forall>ob f. (WRegister ob, f) \<in> set (ow_works w') \<longrightarrow> ob \<noteq> None \<and> ob = map_option fst (ow_observer w')"
      by (simp add: w')
    then show ?thesis
      using assms(2) unfolding observer_inv_def by (simp add: w')
  qed (simp add: assms(2))
qed (auto intro: executed_inv completed_inv)

lemma observer_reachable_inv:
  assumes "(observer_step True M)\<^sup>*\<^sup>* w w'" "observer_inv registered w"
  shows "observer_inv registered w'"
  using assms by (induction rule: rtranclp_induct) (auto intro: observer_step_inv)

lemma step_wedged:
  assumes "observer_step tidy M w w'" "wedged registered w"
  shows "wedged registered w' \<and> ow_observer w' = ow_observer w"
  using assms
proof cases
  case (call_register N allocated args r work callback)
  show ?thesis
    using register_effect [OF call_register(1)] assms(2) by (auto simp: wedged_def)
next
  case (call_unregister N args r)
  show ?thesis
    using unregister_effect [OF call_unregister] assms(2) by (auto simp: wedged_def)
next
  case (executed pre work callback post R err side)
  have z: "load (w \<lparr> ow_works := pre @ post \<rparr>) = 0" "work_load (work, callback) = 0"
    using load_executed(1) [OF executed(2)] assms(2) by (auto simp: wedged_def)
  then obtain ob where u: "work = WUnregister ob" by (cases work) auto
  then have "err \<noteq> OK" "registered (snd side) = None"
    using execute_effect [OF executed(3)] assms(2) by (auto simp: wedged_def split: if_splits)
  then show ?thesis
    using load_executed(2) [OF executed(2), where err = err and side = side] z(1) assms(2) u executed(1)
    by (simp add: wedged_def)
next
  case (completed pre work callback err post)
  have z: "done_load ((work, callback), err) = 0" "load w' = 0"
    using load_completed [OF completed(2)] assms(2) completed(1) by (auto simp: wedged_def)
  then have "snd (complete_observer_work work callback err (ow_observer w)) = ow_observer w"
    by (cases work) (auto simp: Js_RegisterAppGroupCallBackAsyncCB_def Js_UnRegisterAppGroupCallBackAsyncCB_def split: if_splits)
  then show ?thesis
    using assms(2) completed(1) z(2) by (simp add: wedged_def)
qed

lemma stays_wedged:
  assumes "(observer_step tidy M)\<^sup>*\<^sup>* w w'" "wedged registered w"
  shows "wedged registered w' \<and> ow_observer w' = ow_observer w"
  using assms by (induction rule: rtranclp_induct) (auto dest: step_wedged)

end

definition quiet :: "('v, 's) observer_world \<Rightarrow> bool" where
  "quiet w \<longleftrightarrow> ow_works w = [] \<and> ow_done w = []"


definition demo_binding ::
    "(demo_value, (unit, unit, nat \<times> (nat \<times> group_task \<times> int) list, nat \<times> (nat \<times> core_task \<times> int) list) core) observer_world" where
  "demo_binding = \<lparr> ow_observer = None, ow_works = [], ow_done = [], ow_side = (connected, demo_core) \<rparr>"

lemma demo_register:
  "fst (execute_observer_work R (service_remote demo_service_env demo_caller) (WRegister (Some ob)) (connected, demo_core)) = OK"
proof -
  have "CheckSystemAppOrNativePermission demo_caller = OK" "om_find (co_groupChangeObservers demo_core) 1 = None"
    by (simp_all add: demo_caller_def CheckSystemAppOrNativePermission_def CheckBundleIsSystemAppAndHasPermission_def
        demo_core_def Core_new_def ReportController_Init_def)
  then show ?thesis
    by (simp add: Js_RegisterAppGroupCallBackAsync_def Client_RegisterAppGroupCallBack_def service_remote_def
        Service_RegisterAppGroupCallBack_def Core_RegisterAppGroupCallBack_def demo_caller_def Let_def)
qed


section \<open>What the code does wrong\<close>

text \<open>A registration whose second argument is not a function is refused after the observer was set. From then on,
whatever is called and in whatever order works are done, the binding holds an observer that the service does not
know: every registration is refused as a repetition, and no unregistration clears it.\<close>

lemma bad_registration_wedges:
  assumes "quiet w0" "ow_observer w0 = None" "om_find (co_groupChangeObservers (snd (ow_side w0))) (ca_tokenId ca) = None"
    "nv_typeof N f = napi_function" "nv_typeof N x \<noteq> napi_function"
    "Js_RegisterAppGroupCallBack N (Some ob) [f, x] w0 = (r, w1)"
    "(observer_step False (service_remote S ca))\<^sup>*\<^sup>* w1 w"
    "Js_RegisterAppGroupCallBack N' allocated args w = (r', w')"
  shows "ow_observer w = Some (ob, f)" "w' = w" "r' \<noteq> Queued work callback"
    "om_find (co_groupChangeObservers (snd (ow_side w))) (ca_tokenId ca) = None"
proof -
  let ?reg = "\<lambda>c. om_find (co_groupChangeObservers c) (ca_tokenId ca)"
  have r: "pa_errorCode (refuse c e op b (no_params :: 'a ParamsInfo)) \<noteq> OK"
    "\<not> pa_info (refuse c e op b (no_params :: 'a ParamsInfo))" for c e op b
    by (simp_all add: refuse_refused)
  have "w1 = w0 \<lparr> ow_observer := Some (ob, f) \<rparr>"
    using assms(2,4-6) r by (auto simp: Js_RegisterAppGroupCallBack_def ParseRegisterAppGroupCallBackParameters_def argv_def
        finish_def read_callback_def queue_work_def Let_def)
  then have "wedged ?reg w1" "ow_observer w1 = Some (ob, f)"
    using assms(1,3) by (simp_all add: wedged_def quiet_def load_def)
  then have w: "wedged ?reg w \<and> ow_observer w = Some (ob, f)"
    using token_service.stays_wedged [OF assms(7)] by simp
  then show "ow_observer w = Some (ob, f)" "?reg (snd (ow_side w)) = None"
    by (simp_all add: wedged_def)
  show "w' = w" "r' \<noteq> Queued work callback"
    using register_effect [OF assms(8)] w by auto
qed

end
