(* ===== verification/JsFirst.thy ===== *)
theory JsFirst
  imports JsChecks
begin

text \<open>The first interface for JavaScript, which is still built beside the other (\<open>bundle_state_query.cpp\<close>, with the
table of \<open>bundle_state_init.cpp\<close>). It tells errors through the callback or the promise and checks the number of
arguments and the callback by \<open>NAPI_ASSERT\<close>, which throws but leaves the call to go on. Works that are made
while an exception is pending are taken to be made.\<close>

section \<open>Arguments\<close>

definition fail_usage :: "int \<Rightarrow> ('v, 'z) ParamsInfo_scheme \<Rightarrow> ('v, 'z) ParamsInfo_scheme" where
  "fail_usage code p = p \<lparr> pa_errorCode := code \<rparr>"

text \<open>The callback is the last thing that is read, whatever went wrong before.\<close>

definition first_callback :: "'v napi \<Rightarrow> bool \<Rightarrow> 'v \<Rightarrow> string \<Rightarrow> ('v, 'z) ParamsInfo_scheme \<Rightarrow> ('v, 'z) ParamsInfo_scheme" where
  "first_callback N has_callback v message p =
     (if \<not> has_callback then p
      else if nv_typeof N v \<noteq> napi_function then napi_assert_failed message p
      else p \<lparr> pa_callback := Some v \<rparr>)"

definition first_times :: "'v napi \<Rightarrow> 'v \<Rightarrow> 'v \<Rightarrow> usage_error + int \<times> int" where
  "first_times N beginValue endValue =
     (case GetInt64NumberValue N beginValue (- 1) of (ok, beginTime) \<Rightarrow>
        if \<not> ok then Inl ERR_USAGE_STATS_BEGIN_TIME_INVALID
        else if beginTime < 0 then Inl ERR_USAGE_STATS_BEGIN_TIME_INVALID
        else case GetInt64NumberValue N endValue (- 1) of (ok, endTime) \<Rightarrow>
          if \<not> ok then Inl ERR_USAGE_STATS_END_TIME_INVALID
          else if endTime < 0 then Inl ERR_USAGE_STATS_END_TIME_INVALID
          else if endTime \<le> beginTime then Inl ERR_USAGE_STATS_TIME_INTERVAL
          else Inr (beginTime, endTime))"

definition First_ParseIsIdleStateParameters :: "'v napi \<Rightarrow> 'v list \<Rightarrow> 'v IsIdleStateParamsInfo" where
  "First_ParseIsIdleStateParameters N args =
     (let params = ParamsInfo.extend no_params (IsIdleStateParamsInfo.fields ''''); a = argv N args
      in if \<not> (length args = 1 \<or> length args = 2) then napi_assert_failed ''Invalid number of parameters'' params
         else
           let p1 = params \<lparr> ii_bundleName := GetTypeStringValue N (a 0) '''' \<rparr>;
               p2 = (if ii_bundleName p1 = '''' then fail_usage (usage_num ERR_USAGE_STATS_BUNDLENAME_EMPTY) p1 else p1);
               p3 = (if nv_typeof N (a 0) \<noteq> napi_string \<and> pa_errorCode p2 = OK
                     then fail_usage (usage_num ERR_USAGE_STATS_BUNDLENAME_TYPE) p2 else p2)
           in first_callback N (length args = 2) (a 1)
                ''ParseIsIdleStateParameters invalid parameter type, function expected.'' p3)"

definition ParsePriorityGroupParameters :: "'v napi \<Rightarrow> 'v list \<Rightarrow> 'v QueryAppGroupParamsInfo" where
  "ParsePriorityGroupParameters N args =
     (let params = ParamsInfo.extend no_params (QueryAppGroupParamsInfo.fields ''''); a = argv N args;
          read_name = (\<lambda>p.
            let p1 = p \<lparr> qg_bundleName := GetTypeStringValue N (a 0) '''' \<rparr>
            in if qg_bundleName p1 = '''' then fail_usage (usage_num ERR_USAGE_STATS_BUNDLENAME_EMPTY) p1 else p1)
      in if \<not> (length args = 0 \<or> length args = 1 \<or> length args = 2)
         then napi_assert_failed ''Invalid number of parameters'' params
         else if length args = 1 then
           AsyncInit N (if nv_typeof N (a 0) = napi_function then params \<lparr> pa_callback := Some (a 0) \<rparr> else read_name params)
         else if length args = 2 then
           let p1 = read_name params
           in if nv_typeof N (a 1) \<noteq> napi_function
              then napi_assert_failed ''ParsePriorityGroupParameters invalid parameter type. Function expected.'' p1
              else AsyncInit N (p1 \<lparr> pa_callback := Some (a 1) \<rparr>)
         else AsyncInit N params)"

definition ParseStatesParameters :: "'v napi \<Rightarrow> 'v list \<Rightarrow> 'v StatesParamsInfo" where
  "ParseStatesParameters N args =
     (let params = ParamsInfo.extend no_params (StatesParamsInfo.fields (- 1) (- 1) 1000); a = argv N args
      in if \<not> (length args = 2 \<or> length args = 3) then napi_assert_failed ''Invalid number of parameters'' params
         else first_callback N (length args = 3) (a 2) ''ParseStatesParameters invalid parameter type. Function expected.''
           (case first_times N (a 0) (a 1) of
              Inl e \<Rightarrow> fail_usage (usage_num e) params
            | Inr (beginTime, endTime) \<Rightarrow> params \<lparr> si_beginTime := beginTime, si_endTime := endTime \<rparr>))"

definition ParseAppUsageParametersByInterval :: "'v napi \<Rightarrow> 'v list \<Rightarrow> 'v AppUsageParamsByIntervalInfo" where
  "ParseAppUsageParametersByInterval N args =
     (let params = ParamsInfo.extend no_params (AppUsageParamsByIntervalInfo.fields (- 1) (- 1) (- 1)); a = argv N args
      in if \<not> (length args = 3 \<or> length args = 4) then napi_assert_failed ''Invalid number of parameters'' params
         else first_callback N (length args = 4) (a 3)
           ''ParseAppUsageParametersByInterval invalid parameter type. Function expected.''
           (case GetInt32NumberValue N (a 0) (- 1) of (ok, intervalType) \<Rightarrow>
              if \<not> ok then fail_usage (usage_num ERR_USAGE_STATS_INTERVAL_TYPE) params
              else if intervalType < 0 \<or> intervalType > 4 then fail_usage (errcode_num ERR_USAGE_STATS_INTERVAL_NUMBER) params
              else case first_times N (a 1) (a 2) of
                Inl e \<Rightarrow> fail_usage (usage_num e) params
              | Inr (beginTime, endTime) \<Rightarrow> params \<lparr> ai_intervalType := intervalType, ai_beginTime := beginTime, ai_endTime := endTime \<rparr>))"

definition ParseAppUsageParameters :: "'v napi \<Rightarrow> 'v list \<Rightarrow> 'v QueryBundleStatsParamsInfo" where
  "ParseAppUsageParameters N args =
     (let params = ParamsInfo.extend no_params (QueryBundleStatsParamsInfo.fields (- 1) (- 1)); a = argv N args
      in if \<not> (length args = 2 \<or> length args = 3) then napi_assert_failed ''Invalid number of parameters'' params
         else first_callback N (length args = 3) (a 2) ''ParseAppUsageParameters invalid parameter type. Function expected.''
           (case first_times N (a 0) (a 1) of
              Inl e \<Rightarrow> fail_usage (usage_num e) params
            | Inr (beginTime, endTime) \<Rightarrow> params \<lparr> qs_beginTime := beginTime, qs_endTime := endTime \<rparr>))"

section \<open>Calls\<close>

definition JSParaError :: "'v option \<Rightarrow> int \<Rightarrow> 'v delivery" where
  "JSParaError callback errorCode =
     (case callback of
        Some f \<Rightarrow> SetCallbackInfo f errorCode (JsArray [])
      | None \<Rightarrow> Rejected (GetErrorValue errorCode))"

text \<open>A call leaves the exception that is pending and tells an error, accesses a work that was not allocated, or
queues a work.\<close>

datatype 'v first_outcome = Told "'v delivery" | Crashed | Asked js_work "'v option"

type_synonym 'v first_called = "(string \<times> string) option \<times> 'v first_outcome"

definition first_call :: "'v napi \<Rightarrow> ('v, 'z) ParamsInfo_scheme \<Rightarrow> js_work \<Rightarrow> 'v first_called" where
  "first_call N params work =
     (pa_thrown params,
      if pa_errorCode params \<noteq> OK then Told (JSParaError (pa_callback params) (pa_errorCode params))
      else if \<not> nv_alloc N then Told (JSParaError (pa_callback params) (usage_num ERR_USAGE_STATS_ASYNC_CALLBACK_NULLPTR))
      else if \<not> nv_memset N then Told (JSParaError (pa_callback params) (usage_num ERR_USAGE_STATS_ASYNC_CALLBACK_INIT_FAILED))
      else Asked work (pa_callback params))"

definition First_IsIdleState :: "'v napi \<Rightarrow> 'v list \<Rightarrow> 'v first_called" where
  "First_IsIdleState N args =
     (let params = First_ParseIsIdleStateParameters N args in first_call N params (WIsBundleIdle (ii_bundleName params)))"

definition QueryAppUsagePriorityGroup :: "'v napi \<Rightarrow> 'v list \<Rightarrow> 'v first_called" where
  "QueryAppUsagePriorityGroup N args =
     (let params = ParsePriorityGroupParameters N args
      in (pa_thrown params,
          if pa_errorCode params \<noteq> OK \<and> \<not> pa_info params then Told (JSParaError (pa_callback params) (pa_errorCode params))
          else if \<not> pa_info params then Crashed
          else Asked (WAppGroup (qg_bundleName params)) (pa_callback params)))"

definition QueryCurrentBundleActiveStates :: "'v napi \<Rightarrow> 'v list \<Rightarrow> 'v first_called" where
  "QueryCurrentBundleActiveStates N args =
     (let params = ParseStatesParameters N args
      in first_call N params (WCurrentBundleEvents (si_beginTime params) (si_endTime params) 1000))"

definition QueryBundleActiveStates :: "'v napi \<Rightarrow> 'v list \<Rightarrow> 'v first_called" where
  "QueryBundleActiveStates N args =
     (let params = ParseStatesParameters N args
      in first_call N params (WBundleEvents (si_beginTime params) (si_endTime params) 1000))"

definition QueryBundleStateInfoByInterval :: "'v napi \<Rightarrow> 'v list \<Rightarrow> 'v first_called" where
  "QueryBundleStateInfoByInterval N args =
     (let params = ParseAppUsageParametersByInterval N args
      in first_call N params (WBundleStatsInfoByInterval (ai_intervalType params) (ai_beginTime params) (ai_endTime params)))"

definition QueryBundleStateInfos :: "'v napi \<Rightarrow> 'v list \<Rightarrow> 'v first_called" where
  "QueryBundleStateInfos N args =
     (let params = ParseAppUsageParameters N args
      in first_call N params (WBundleStatsInfos (qs_beginTime params) (qs_endTime params)))"

text \<open>The module with the fewest and the most arguments of its functions.\<close>

definition BundleStateInit :: "(string \<times> nat \<times> nat \<times> ('v napi \<Rightarrow> 'v list \<Rightarrow> 'v first_called)) list" where
  "BundleStateInit = [
     (''isIdleState'', 1, 2, First_IsIdleState), (''queryAppUsagePriorityGroup'', 0, 2, QueryAppUsagePriorityGroup),
     (''queryCurrentBundleActiveStates'', 2, 3, QueryCurrentBundleActiveStates),
     (''queryBundleActiveStates'', 2, 3, QueryBundleActiveStates),
     (''queryBundleStateInfoByInterval'', 3, 4, QueryBundleStateInfoByInterval),
     (''queryBundleStateInfos'', 2, 3, QueryBundleStateInfos)]"

section \<open>Works\<close>

text \<open>The two kinds of events have their old names, and the group \<open>- 1\<close> is an error of its own. The query of
events passes its error number, which is still 0, where the user is expected.\<close>

definition First_QueryCurrentBundleEventsAsync :: "registry \<Rightarrow> 's remote \<Rightarrow> int \<Rightarrow> int \<Rightarrow> 's js_executed" where
  "First_QueryCurrentBundleEventsAsync R M beginTime endTime st =
     js_answer (\<lambda>evs. GetBundleActiveEventForResult evs False)
       (Client_QueryCurrentBundleEvents R M beginTime endTime 1000 st)"

definition First_QueryBundleEventsAsync :: "registry \<Rightarrow> 's remote \<Rightarrow> int \<Rightarrow> int \<Rightarrow> 's js_executed" where
  "First_QueryBundleEventsAsync R M beginTime endTime st =
     (let errorCode = 0
      in js_answer (\<lambda>evs. GetBundleActiveEventForResult evs False)
           (Client_QueryBundleEvents R M beginTime endTime errorCode 1000 st))"

definition First_QueryAppGroupAsync :: "registry \<Rightarrow> 's remote \<Rightarrow> string \<Rightarrow> 's js_executed" where
  "First_QueryAppGroupAsync R M bundleName st =
     (case Client_QueryAppGroup R M bundleName (- 1) st of ((errorCode, priorityGroup), st1) \<Rightarrow>
        ((if priorityGroup = - 1 then usage_num ERR_SERVICE_FAILED else errorCode, JsNumber priorityGroup), st1))"

definition First_IsBundleIdleAsync :: "registry \<Rightarrow> 's remote \<Rightarrow> string \<Rightarrow> 's js_executed" where
  "First_IsBundleIdleAsync R M bundleName st = js_answer JsBoolean (Client_IsBundleIdle R M bundleName (- 1) st)"

definition First_QueryBundleStatsInfoByIntervalAsync :: "registry \<Rightarrow> 's remote \<Rightarrow> int \<Rightarrow> int \<Rightarrow> int \<Rightarrow> 's js_executed" where
  "First_QueryBundleStatsInfoByIntervalAsync R M intervalType beginTime endTime st =
     js_answer GetBundleStateInfoByIntervalForResult
       (Client_QueryBundleStatsInfoByInterval R M intervalType beginTime endTime (- 1) st)"

definition First_QueryBundleStatsInfosAsync :: "registry \<Rightarrow> 's remote \<Rightarrow> int \<Rightarrow> int \<Rightarrow> 's js_executed" where
  "First_QueryBundleStatsInfosAsync R M beginTime endTime st =
     js_answer GetBundleStateInfoForResult (Js_QueryBundleStatsInfos R M beginTime endTime st)"

text \<open>No call of this interface queues another kind of work.\<close>

fun first_execute :: "registry \<Rightarrow> 's remote \<Rightarrow> js_work \<Rightarrow> 's js_executed" where
  "first_execute R M (WCurrentBundleEvents beginTime endTime _) = First_QueryCurrentBundleEventsAsync R M beginTime endTime"
| "first_execute R M (WBundleEvents beginTime endTime _) = First_QueryBundleEventsAsync R M beginTime endTime"
| "first_execute R M (WAppGroup bundleName) = First_QueryAppGroupAsync R M bundleName"
| "first_execute R M (WIsBundleIdle bundleName) = First_IsBundleIdleAsync R M bundleName"
| "first_execute R M (WBundleStatsInfoByInterval intervalType beginTime endTime) =
     First_QueryBundleStatsInfoByIntervalAsync R M intervalType beginTime endTime"
| "first_execute R M (WBundleStatsInfos beginTime endTime) = First_QueryBundleStatsInfosAsync R M beginTime endTime"
| "first_execute R M work = (\<lambda>st. ((OK, JsNull), st))"

section \<open>Constants\<close>

text \<open>A call that is given a constant of its module is within the limits, and there is a constant for every value
within them.\<close>

lemma constants_in_limits:
  "snd ` set InitIntervalType = {i. valid_work (WBundleStatsInfoByInterval i 0 1)}"
  "bundleName \<noteq> '''' \<Longrightarrow> snd ` set InitAppGroupType = {g. valid_work (WSetAppGroup bundleName g)}"
proof -
  have "{i :: int. 0 \<le> i \<and> i \<le> 4} = {0, 1, 2, 3, 4}"
    by auto
  then show "snd ` set InitIntervalType = {i. valid_work (WBundleStatsInfoByInterval i 0 1)}"
    by (simp add: InitIntervalType_def)
  show "snd ` set InitAppGroupType = {g. valid_work (WSetAppGroup bundleName g)}" if "bundleName \<noteq> ''''"
    using that by (auto simp: InitAppGroupType_def)
qed

section \<open>What a call promises\<close>

text \<open>The arguments are as many as the function takes, and the last is a function where it is the callback.\<close>

definition accepted :: "nat \<Rightarrow> nat \<Rightarrow> 'v napi \<Rightarrow> 'v list \<Rightarrow> bool" where
  "accepted least most N args \<longleftrightarrow> least \<le> length args \<and> length args \<le> most \<and>
     (length args = most \<longrightarrow> nv_typeof N (last args) = napi_function)"

text \<open>An error goes to the callback of the call, if it has one, under a number of its own.\<close>

definition first_told :: "'v list \<Rightarrow> 'v delivery \<Rightarrow> bool" where
  "first_told args d \<longleftrightarrow> (\<exists>code callback. code \<noteq> OK \<and> d = JSParaError callback code \<and>
     (callback = None \<or> (\<exists>f. callback = Some f \<and> f \<in> set args)))"

definition first_well_called :: "'v napi \<Rightarrow> 'v list \<Rightarrow> 'v first_outcome \<Rightarrow> bool" where
  "first_well_called N args r \<longleftrightarrow> (case r of
     Told d \<Rightarrow> first_told args d
   | Crashed \<Rightarrow> False
   | Asked work callback \<Rightarrow> valid_work work \<and>
       (\<forall>f. callback = Some f \<longrightarrow> f \<in> set args \<and> nv_typeof N f = napi_function))"

text \<open>The structure after the arguments were read: nothing is allocated, and the callback is a function.\<close>

definition first_parsed ::
    "'v napi \<Rightarrow> 'v list \<Rightarrow> (('v, 'z) ParamsInfo_scheme \<Rightarrow> bool) \<Rightarrow> ('v, 'z) ParamsInfo_scheme \<Rightarrow> bool" where
  "first_parsed N args Q p \<longleftrightarrow> (pa_errorCode p = OK \<longrightarrow> Q p) \<and>
     (\<forall>f. pa_callback p = Some f \<longrightarrow> f \<in> set args \<and> nv_typeof N f = napi_function)"

lemma usage_num_nonzero [simp]: "usage_num e \<noteq> 0"
  by (cases e) simp_all

lemma first_times_bounds: "first_times N b e = Inr (beginTime, endTime) \<Longrightarrow> 0 \<le> beginTime \<and> beginTime < endTime"
  by (auto simp: first_times_def split: prod.splits if_splits)

lemma first_told_JSParaError:
  "first_parsed N args Q p \<Longrightarrow> code \<noteq> OK \<Longrightarrow> first_told args (JSParaError (pa_callback p) code)"
  unfolding first_told_def first_parsed_def by (cases "pa_callback p") auto

lemma first_call_checked:
  assumes "first_parsed N args Q p" "Q p \<Longrightarrow> valid_work work"
  shows "first_well_called N args (snd (first_call N p work))"
  using assms(2) first_told_JSParaError [OF assms(1)] assms(1)
  unfolding first_call_def first_well_called_def first_parsed_def by simp

lemma first_callback_parsed:
  assumes "pa_callback p = None" "has_callback \<Longrightarrow> v \<in> set args \<and> nv_typeof N v = napi_function"
    "pa_errorCode p = OK \<Longrightarrow> Q p" "pa_errorCode p = OK \<Longrightarrow> Q (p \<lparr> pa_callback := Some v \<rparr>)"
  shows "first_parsed N args Q (first_callback N has_callback v message p)"
  using assms unfolding first_parsed_def first_callback_def by auto

lemma accepted_last:
  "accepted least most N args \<Longrightarrow> least < most \<Longrightarrow> length args = most \<Longrightarrow>
    argv N args (most - 1) \<in> set args \<and> nv_typeof N (argv N args (most - 1)) = napi_function"
  using last_conv_nth [of args] unfolding accepted_def argv_def by (cases "args = []") auto

lemma First_ParseIsIdleStateParameters_parsed:
  assumes "accepted 1 2 N args"
  shows "first_parsed N args (\<lambda>p. ii_bundleName p \<noteq> '''') (First_ParseIsIdleStateParameters N args)"
proof -
  have "length args = 1 \<or> length args = 2"
    using assms unfolding accepted_def by linarith
  then show ?thesis
    using accepted_last [OF assms] unfolding First_ParseIsIdleStateParameters_def Let_def
    by (auto simp: fail_usage_def intro!: first_callback_parsed)
qed

lemma ParseStatesParameters_parsed:
  assumes "accepted 2 3 N args"
  shows "first_parsed N args (\<lambda>p. 0 \<le> si_beginTime p \<and> si_beginTime p < si_endTime p) (ParseStatesParameters N args)"
proof -
  have "length args = 2 \<or> length args = 3"
    using assms unfolding accepted_def by linarith
  then show ?thesis
    using accepted_last [OF assms] unfolding ParseStatesParameters_def Let_def
    by (auto simp: fail_usage_def dest: first_times_bounds intro!: first_callback_parsed split: sum.splits)
qed

lemma ParseAppUsageParametersByInterval_parsed:
  assumes "accepted 3 4 N args"
  shows "first_parsed N args (\<lambda>p. 0 \<le> ai_intervalType p \<and> ai_intervalType p \<le> 4 \<and> 0 \<le> ai_beginTime p \<and>
    ai_beginTime p < ai_endTime p) (ParseAppUsageParametersByInterval N args)"
proof -
  have "length args = 3 \<or> length args = 4"
    using assms unfolding accepted_def by linarith
  then show ?thesis
    using accepted_last [OF assms] unfolding ParseAppUsageParametersByInterval_def Let_def
    by (auto simp: fail_usage_def dest: first_times_bounds intro!: first_callback_parsed split: sum.splits prod.splits if_splits)
qed

lemma ParseAppUsageParameters_parsed:
  assumes "accepted 2 3 N args"
  shows "first_parsed N args (\<lambda>p. 0 \<le> qs_beginTime p \<and> qs_beginTime p < qs_endTime p) (ParseAppUsageParameters N args)"
proof -
  have "length args = 2 \<or> length args = 3"
    using assms unfolding accepted_def by linarith
  then show ?thesis
    using accepted_last [OF assms] unfolding ParseAppUsageParameters_def Let_def
    by (auto simp: fail_usage_def dest: first_times_bounds intro!: first_callback_parsed split: sum.splits)
qed

lemma first_calls:
  "accepted 1 2 N args \<Longrightarrow> first_well_called N args (snd (First_IsIdleState N args))"
  "accepted 2 3 N args \<Longrightarrow> first_well_called N args (snd (QueryCurrentBundleActiveStates N args))"
  "accepted 2 3 N args \<Longrightarrow> first_well_called N args (snd (QueryBundleActiveStates N args))"
  "accepted 3 4 N args \<Longrightarrow> first_well_called N args (snd (QueryBundleStateInfoByInterval N args))"
  "accepted 2 3 N args \<Longrightarrow> first_well_called N args (snd (QueryBundleStateInfos N args))"
  unfolding First_IsIdleState_def QueryCurrentBundleActiveStates_def QueryBundleActiveStates_def
    QueryBundleStateInfoByInterval_def QueryBundleStateInfos_def Let_def
  by (erule first_call_checked [OF First_ParseIsIdleStateParameters_parsed]
      first_call_checked [OF ParseStatesParameters_parsed] first_call_checked [OF ParseAppUsageParametersByInterval_parsed]
      first_call_checked [OF ParseAppUsageParameters_parsed]; simp)+

text \<open>The query of the group allocates its work while it reads its arguments.\<close>

lemma AsyncInit_settled:
  "pa_errorCode (AsyncInit N p) = OK \<Longrightarrow> pa_info (AsyncInit N p)" "pa_callback (AsyncInit N p) = pa_callback p"
  by (auto simp: AsyncInit_def refuse_def HandleParamErr_def throw_def Let_def split: option.splits if_splits)

lemma group_well_called:
  assumes "accepted 0 2 N args"
  shows "first_well_called N args (snd (QueryAppUsagePriorityGroup N args))"
proof -
  have "length args = 0 \<or> length args = 1 \<or> length args = 2"
    using assms unfolding accepted_def by linarith
  then obtain p where p: "ParsePriorityGroupParameters N args = AsyncInit N p"
      "first_parsed N args (\<lambda>_. True) p"
    using accepted_last [OF assms] unfolding ParsePriorityGroupParameters_def first_parsed_def Let_def
    by (auto simp: fail_usage_def)
  then have "first_parsed N args (\<lambda>_. True) (AsyncInit N p)"
    by (simp add: first_parsed_def AsyncInit_settled)
  then show ?thesis
    using first_told_JSParaError [of N args _ "AsyncInit N p"] AsyncInit_settled(1) [of N p]
    unfolding QueryAppUsagePriorityGroup_def p(1) first_well_called_def Let_def by (auto simp: first_parsed_def)
qed

lemma unaccepted:
  "\<not> accepted least most N args \<Longrightarrow> least < most \<Longrightarrow>
    length args < least \<or> length args > most \<or> length args = most \<and> nv_typeof N (argv N args (most - 1)) \<noteq> napi_function"
  using last_conv_nth [of args] unfolding accepted_def argv_def by (cases "args = []") auto

lemma assert_thrown:
  "pa_thrown p = None \<Longrightarrow> pa_thrown (napi_assert_failed message p) = Some ('''', message)"
  by (simp add: napi_assert_failed_def throw_def)

lemma new_unthrown [simp]: "pa_thrown (ParamsInfo.extend no_params r) = None" "pa_thrown (fail_usage c p) = pa_thrown p"
  by (simp_all add: no_params_def ParamsInfo.extend_def fail_usage_def)

lemma first_calls_thrown:
  "\<not> accepted 1 2 N args \<Longrightarrow> \<exists>message. fst (First_IsIdleState N args) = Some ('''', message)"
  "\<not> accepted 0 2 N args \<Longrightarrow> \<exists>message. fst (QueryAppUsagePriorityGroup N args) = Some ('''', message)"
  "\<not> accepted 2 3 N args \<Longrightarrow> \<exists>message. fst (QueryCurrentBundleActiveStates N args) = Some ('''', message)"
  "\<not> accepted 2 3 N args \<Longrightarrow> \<exists>message. fst (QueryBundleActiveStates N args) = Some ('''', message)"
  "\<not> accepted 3 4 N args \<Longrightarrow> \<exists>message. fst (QueryBundleStateInfoByInterval N args) = Some ('''', message)"
  "\<not> accepted 2 3 N args \<Longrightarrow> \<exists>message. fst (QueryBundleStateInfos N args) = Some ('''', message)"
  unfolding First_IsIdleState_def QueryCurrentBundleActiveStates_def QueryBundleActiveStates_def QueryAppUsagePriorityGroup_def
    QueryBundleStateInfoByInterval_def QueryBundleStateInfos_def first_call_def Let_def
    First_ParseIsIdleStateParameters_def ParseStatesParameters_def ParseAppUsageParametersByInterval_def
    ParseAppUsageParameters_def ParsePriorityGroupParameters_def first_callback_def
  by (drule unaccepted; force simp: assert_thrown split: sum.split prod.split)+

text \<open>The first interface for JavaScript, called with as many arguments as a function takes and with a function
where it takes its callback: it queues a work whose arguments are within the limits, or it tells an error, under a
number other than 0, to the callback of the call or by its promise. Called in any other way it leaves an exception
pending, without a code.\<close>

theorem first_calls_checked:
  assumes "(name, least, most, call) \<in> set BundleStateInit"
  shows "if accepted least most N args then first_well_called N args (snd (call N args))
    else \<exists>message. fst (call N args) = Some ('''', message)"
  using assms first_calls [of N args] group_well_called [of N args] first_calls_thrown [of N args]
  by (auto simp: BundleStateInit_def)

theorem first_calls_checked_witness:
  "first_well_called demo_napi [DNumber 5, DNumber 5, DFunction] (snd (QueryBundleStateInfos demo_napi [DNumber 5, DNumber 5, DFunction])) \<and>
   (\<exists>message. fst (QueryBundleStateInfos demo_napi [DNumber 5]) = Some ('''', message))"
proof -
  have "(''queryBundleStateInfos'', 2, 3, QueryBundleStateInfos) \<in> set BundleStateInit"
    by (simp add: BundleStateInit_def)
  note checked = first_calls_checked [OF this, of demo_napi]
  have "accepted 2 3 demo_napi [DNumber 5, DNumber 5, DFunction]" "\<not> accepted 2 3 demo_napi [DNumber 5]"
    by (simp_all add: accepted_def demo_napi_def)
  then show ?thesis
    using checked [of "[DNumber 5, DNumber 5, DFunction]"] checked [of "[DNumber 5]"] by simp
qed

section \<open>What the code does wrong\<close>

text \<open>A call that has thrown goes on: with arguments that were never read, or with a work that was never made.\<close>

lemma first_goes_on:
  "First_IsIdleState demo_napi [] = (Some ('''', ''Invalid number of parameters''), Asked (WIsBundleIdle '''') None)"
  "QueryBundleStateInfos demo_napi [] = (Some ('''', ''Invalid number of parameters''), Asked (WBundleStatsInfos (- 1) (- 1)) None)"
  "QueryAppUsagePriorityGroup demo_napi [DString ''a'', DNumber 1, DFunction] = (Some ('''', ''Invalid number of parameters''), Crashed)"
  by (simp_all add: First_IsIdleState_def QueryBundleStateInfos_def QueryAppUsagePriorityGroup_def first_call_def
      First_ParseIsIdleStateParameters_def ParseAppUsageParameters_def ParsePriorityGroupParameters_def
      napi_assert_failed_def throw_def no_params_def ParamsInfo.extend_def demo_napi_def Let_def
      IsIdleStateParamsInfo.fields_def QueryBundleStatsParamsInfo.fields_def QueryAppGroupParamsInfo.fields_def)

text \<open>The error of a name that is not a string is never told: the name was found empty before.\<close>

lemma name_type_never_told:
  assumes "nv_typeof N (argv N args 0) \<noteq> napi_string \<Longrightarrow> nv_string N (argv N args 0) = None"
  shows "pa_errorCode (First_ParseIsIdleStateParameters N args) \<noteq> usage_num ERR_USAGE_STATS_BUNDLENAME_TYPE"
  using assms unfolding First_ParseIsIdleStateParameters_def GetTypeStringValue_def Let_def
  by (auto simp: first_callback_def napi_assert_failed_def throw_def fail_usage_def)

text \<open>The events are asked for the user 0, whoever calls.\<close>

lemma events_of_user_zero:
  "first_execute R M (WBundleEvents beginTime endTime 1000) st =
     js_answer (\<lambda>evs. GetBundleActiveEventForResult evs False) (Client_QueryBundleEvents R M beginTime endTime 0 1000 st)"
  by (simp add: First_QueryBundleEventsAsync_def)

end
