(* ===== verification/AppRequests.thy ===== *)
theory AppRequests
  imports JsChecks
begin

text \<open>What an application can make the two bindings ask the service: only for itself, and only within the limits.\<close>

section \<open>The operations of Taihe\<close>

datatype taihe_call =
    TIsIdleState string
  | TQueryAppGroup
  | TQueryAppGroupByBundleName string
  | TSetAppGroup string int
  | TQueryBundleStatsInfos int int
  | TQueryAppStatsInfos int int
  | TQueryLastUseTime "(string \<times> int list) list"
  | TQueryBundleStatsInfoByInterval int int int
  | TQueryBundleEvents int int
  | TQueryBundleEventsByLimit int int int
  | TQueryCurrentBundleEvents int int
  | TQueryCurrentBundleEventsByLimit int int int
  | TQueryDeviceEventStats int int
  | TQueryNotificationEventStats int int
  | TQueryModuleUsageRecords
  | TQueryModuleUsageRecordsByMaxNum int

text \<open>The error of a call and what it leaves, its value left aside.\<close>

definition effect :: "('r \<times> business_error) \<times> client \<times> 's \<Rightarrow> business_error \<times> client \<times> 's" where
  "effect r = (snd (fst r), snd r)"

fun taihe_run :: "registry \<Rightarrow> 's remote \<Rightarrow> taihe_call \<Rightarrow> client \<times> 's \<Rightarrow> business_error \<times> client \<times> 's" where
  "taihe_run R M (TIsIdleState n) st = effect (Taihe_IsIdleStateSync R M n st)"
| "taihe_run R M TQueryAppGroup st = effect (Taihe_QueryAppGroupSync R M st)"
| "taihe_run R M (TQueryAppGroupByBundleName n) st = effect (Taihe_QueryAppGroupSyncByBundleName R M n st)"
| "taihe_run R M (TSetAppGroup n g) st = effect (Taihe_SetAppGroupSync R M n g st)"
| "taihe_run R M (TQueryBundleStatsInfos b e) st = effect (Taihe_QueryBundleStatsInfosAsync R M b e st)"
| "taihe_run R M (TQueryAppStatsInfos b e) st = effect (Taihe_QueryAppStatsInfosAsync R M b e st)"
| "taihe_run R M (TQueryLastUseTime q) st = effect (Taihe_QueryLastUseTimeAsync R M q st)"
| "taihe_run R M (TQueryBundleStatsInfoByInterval i b e) st = effect (Taihe_QueryBundleStatsInfoByIntervalAsync R M i b e st)"
| "taihe_run R M (TQueryBundleEvents b e) st = effect (Taihe_QueryBundleEventsAsync R M b e st)"
| "taihe_run R M (TQueryBundleEventsByLimit b e n) st = effect (Taihe_QueryBundleEventsAsyncByLimit R M b e n st)"
| "taihe_run R M (TQueryCurrentBundleEvents b e) st = effect (Taihe_QueryCurrentBundleEventsAsync R M b e st)"
| "taihe_run R M (TQueryCurrentBundleEventsByLimit b e n) st = effect (Taihe_QueryCurrentBundleEventsAsyncByLimit R M b e n st)"
| "taihe_run R M (TQueryDeviceEventStats b e) st = effect (Taihe_QueryDeviceEventStatsAsync R M b e st)"
| "taihe_run R M (TQueryNotificationEventStats b e) st = effect (Taihe_QueryNotificationEventStatsAsync R M b e st)"
| "taihe_run R M TQueryModuleUsageRecords st = effect (Taihe_QueryModuleUsageRecordsAsync R M st)"
| "taihe_run R M (TQueryModuleUsageRecordsByMaxNum n) st = effect (Taihe_QueryModuleUsageRecordsAsyncByMaxNum R M n st)"

section \<open>Agreement on valid requests\<close>

text \<open>Two services that answer the same to requests for the user of the caller (\<open>- 1\<close>) with a span that begins
at 0 or later and before its end, an interval from 0 to 4, 1 to 1000 records and one of the six groups. Nothing is
said of the requests for other users, of other arguments, or of the methods that report, ask for frequent use, or
register.\<close>

definition settable_groups :: "int set" where
  "settable_groups = {10, 20, 30, 40, 50, 60}"

definition agree_for_apps :: "'s remote \<Rightarrow> 's remote \<Rightarrow> bool" where
  "agree_for_apps M M' \<longleftrightarrow>
     (\<forall>b. rm_IsBundleIdle M b (- 1) = rm_IsBundleIdle M' b (- 1) \<and> rm_QueryAppGroup M b (- 1) = rm_QueryAppGroup M' b (- 1)) \<and>
     (\<forall>b g. g \<in> settable_groups \<longrightarrow> rm_SetAppGroup M b g (- 1) = rm_SetAppGroup M' b g (- 1)) \<and>
     (\<forall>i b e. 0 \<le> i \<and> i \<le> 4 \<and> 0 \<le> b \<and> b < e \<longrightarrow>
        rm_QueryBundleStatsInfoByInterval M i b e (- 1) = rm_QueryBundleStatsInfoByInterval M' i b e (- 1)) \<and>
     (\<forall>b e n. 0 \<le> b \<and> b < e \<and> 1 \<le> n \<and> n \<le> 1000 \<longrightarrow>
        rm_QueryBundleEvents M b e (- 1) n = rm_QueryBundleEvents M' b e (- 1) n \<and>
        rm_QueryCurrentBundleEvents M b e n = rm_QueryCurrentBundleEvents M' b e n) \<and>
     (\<forall>b e. 0 \<le> b \<and> b < e \<longrightarrow> rm_QueryDeviceEventStats M b e (- 1) = rm_QueryDeviceEventStats M' b e (- 1) \<and>
        rm_QueryNotificationEventStats M b e (- 1) = rm_QueryNotificationEventStats M' b e (- 1)) \<and>
     (\<forall>n. 1 \<le> n \<and> n \<le> 1000 \<longrightarrow> rm_QueryModuleUsageRecords M n (- 1) = rm_QueryModuleUsageRecords M' n (- 1))"

lemma client_agrees:
  assumes "agree_for_apps M M'"
  shows "Client_IsBundleIdle R M n (- 1) = Client_IsBundleIdle R M' n (- 1)"
    "Client_QueryAppGroup R M n (- 1) = Client_QueryAppGroup R M' n (- 1)"
    "g \<in> settable_groups \<Longrightarrow> Client_SetAppGroup R M n g (- 1) = Client_SetAppGroup R M' n g (- 1)"
    "0 \<le> i \<Longrightarrow> i \<le> 4 \<Longrightarrow> 0 \<le> b \<Longrightarrow> b < e \<Longrightarrow>
      Client_QueryBundleStatsInfoByInterval R M i b e (- 1) = Client_QueryBundleStatsInfoByInterval R M' i b e (- 1)"
    "0 \<le> b \<Longrightarrow> b < e \<Longrightarrow> 1 \<le> k \<Longrightarrow> k \<le> 1000 \<Longrightarrow> Client_QueryBundleEvents R M b e (- 1) k = Client_QueryBundleEvents R M' b e (- 1) k"
    "0 \<le> b \<Longrightarrow> b < e \<Longrightarrow> 1 \<le> k \<Longrightarrow> k \<le> 1000 \<Longrightarrow> Client_QueryCurrentBundleEvents R M b e k = Client_QueryCurrentBundleEvents R M' b e k"
    "0 \<le> b \<Longrightarrow> b < e \<Longrightarrow> Client_QueryDeviceEventStats R M b e (- 1) = Client_QueryDeviceEventStats R M' b e (- 1)"
    "0 \<le> b \<Longrightarrow> b < e \<Longrightarrow> Client_QueryNotificationEventStats R M b e (- 1) = Client_QueryNotificationEventStats R M' b e (- 1)"
    "1 \<le> k \<Longrightarrow> k \<le> 1000 \<Longrightarrow> Client_QueryModuleUsageRecords R M k (- 1) = Client_QueryModuleUsageRecords R M' k (- 1)"
proof -
  note agree = assms [unfolded agree_for_apps_def]
  have idle: "rm_IsBundleIdle M b (- 1) = rm_IsBundleIdle M' b (- 1)" "rm_QueryAppGroup M b (- 1) = rm_QueryAppGroup M' b (- 1)" for b
    using agree [THEN conjunct1] by simp_all
  note agree = agree [THEN conjunct2]
  have group: "g \<in> settable_groups \<Longrightarrow> rm_SetAppGroup M b g (- 1) = rm_SetAppGroup M' b g (- 1)" for b g
    using agree [THEN conjunct1] by simp
  note agree = agree [THEN conjunct2]
  have stats: "0 \<le> i \<Longrightarrow> i \<le> 4 \<Longrightarrow> 0 \<le> b \<Longrightarrow> b < e \<Longrightarrow>
      rm_QueryBundleStatsInfoByInterval M i b e (- 1) = rm_QueryBundleStatsInfoByInterval M' i b e (- 1)" for i b e
    using agree [THEN conjunct1] by simp
  note agree = agree [THEN conjunct2]
  have events: "0 \<le> b \<Longrightarrow> b < e \<Longrightarrow> 1 \<le> k \<Longrightarrow> k \<le> 1000 \<Longrightarrow> rm_QueryBundleEvents M b e (- 1) k = rm_QueryBundleEvents M' b e (- 1) k"
    "0 \<le> b \<Longrightarrow> b < e \<Longrightarrow> 1 \<le> k \<Longrightarrow> k \<le> 1000 \<Longrightarrow> rm_QueryCurrentBundleEvents M b e k = rm_QueryCurrentBundleEvents M' b e k"
    for b e k
    using agree [THEN conjunct1] by simp_all
  note agree = agree [THEN conjunct2]
  have device: "0 \<le> b \<Longrightarrow> b < e \<Longrightarrow> rm_QueryDeviceEventStats M b e (- 1) = rm_QueryDeviceEventStats M' b e (- 1)"
    "0 \<le> b \<Longrightarrow> b < e \<Longrightarrow> rm_QueryNotificationEventStats M b e (- 1) = rm_QueryNotificationEventStats M' b e (- 1)" for b e
    using agree [THEN conjunct1] by simp_all
  have modules: "1 \<le> k \<Longrightarrow> k \<le> 1000 \<Longrightarrow> rm_QueryModuleUsageRecords M k (- 1) = rm_QueryModuleUsageRecords M' k (- 1)" for k
    using agree [THEN conjunct2] by simp
  show "Client_IsBundleIdle R M n (- 1) = Client_IsBundleIdle R M' n (- 1)"
    "Client_QueryAppGroup R M n (- 1) = Client_QueryAppGroup R M' n (- 1)"
    by (simp_all add: Client_IsBundleIdle_def Client_QueryAppGroup_def idle)
  show "g \<in> settable_groups \<Longrightarrow> Client_SetAppGroup R M n g (- 1) = Client_SetAppGroup R M' n g (- 1)"
    by (simp add: Client_SetAppGroup_def group)
  show "0 \<le> i \<Longrightarrow> i \<le> 4 \<Longrightarrow> 0 \<le> b \<Longrightarrow> b < e \<Longrightarrow>
      Client_QueryBundleStatsInfoByInterval R M i b e (- 1) = Client_QueryBundleStatsInfoByInterval R M' i b e (- 1)"
    by (simp add: Client_QueryBundleStatsInfoByInterval_def stats)
  show "0 \<le> b \<Longrightarrow> b < e \<Longrightarrow> 1 \<le> k \<Longrightarrow> k \<le> 1000 \<Longrightarrow> Client_QueryBundleEvents R M b e (- 1) k = Client_QueryBundleEvents R M' b e (- 1) k"
    by (simp add: Client_QueryBundleEvents_def events)
  show "0 \<le> b \<Longrightarrow> b < e \<Longrightarrow> 1 \<le> k \<Longrightarrow> k \<le> 1000 \<Longrightarrow> Client_QueryCurrentBundleEvents R M b e k = Client_QueryCurrentBundleEvents R M' b e k"
    by (simp add: Client_QueryCurrentBundleEvents_def events)
  show "0 \<le> b \<Longrightarrow> b < e \<Longrightarrow> Client_QueryDeviceEventStats R M b e (- 1) = Client_QueryDeviceEventStats R M' b e (- 1)"
    by (simp add: Client_QueryDeviceEventStats_def device)
  show "0 \<le> b \<Longrightarrow> b < e \<Longrightarrow> Client_QueryNotificationEventStats R M b e (- 1) = Client_QueryNotificationEventStats R M' b e (- 1)"
    by (simp add: Client_QueryNotificationEventStats_def device)
  show "1 \<le> k \<Longrightarrow> k \<le> 1000 \<Longrightarrow> Client_QueryModuleUsageRecords R M k (- 1) = Client_QueryModuleUsageRecords R M' k (- 1)"
    by (simp add: Client_QueryModuleUsageRecords_def modules)
qed

lemma guarded_cong:
  assumes "\<forall>c \<in> set checks. fst c \<Longrightarrow> go = go'"
  shows "guarded none checks go = guarded none checks go'"
proof (cases "find (\<lambda>c. \<not> fst c) checks")
  case None
  then have "\<forall>c \<in> set checks. fst c"
    by (auto simp: find_None_iff)
  then show ?thesis
    by (simp only: assms)
next
  case (Some c)
  then show ?thesis
    by (simp add: guarded_def fun_eq_iff split: prod.split)
qed

lemma check_holds:
  "fst (CheckBeginTimeAndEndTime b e new) \<longleftrightarrow> 0 \<le> b \<and> b < e" "fst (CheckInterval i) \<longleftrightarrow> 0 \<le> i \<and> i \<le> 4"
  "fst (CheckMaxNum n) \<longleftrightarrow> 1 \<le> n \<and> n \<le> 1000" "fst (CheckEventMaxNum n) \<longleftrightarrow> 1 \<le> n \<and> n \<le> 1000"
  "fst (CheckNewGroupType g) \<longleftrightarrow> g \<in> settable_groups"
  by (auto simp: settable_groups_def CheckBeginTimeAndEndTime_def CheckInterval_def CheckMaxNum_def CheckEventMaxNum_def CheckNewGroupType_def Let_def)

lemma queries_agree:
  assumes "agree_for_apps M M'" "0 \<le> b" "b < e"
  shows "Idl_QueryBundleStatsInfos R M b e st = Idl_QueryBundleStatsInfos R M' b e st"
    "Idl_QueryAppStatsInfos R M b e st = Idl_QueryAppStatsInfos R M' b e st"
    "Js_QueryBundleStatsInfos R M b e st = Js_QueryBundleStatsInfos R M' b e st"
    "Js_QueryAppStatsInfos R M b e st = Js_QueryAppStatsInfos R M' b e st"
  using client_agrees(4) [OF assms(1) _ _ assms(2,3)]
  by (simp_all add: Idl_QueryBundleStatsInfos_def Idl_QueryAppStatsInfos_def Js_QueryBundleStatsInfos_def Js_QueryAppStatsInfos_def)

lemma last_use_agrees:
  assumes "agree_for_apps M M'"
  shows "Idl_QueryLastUseTime R M q st = Idl_QueryLastUseTime R M' q st" "Js_QueryLastUseTime R M q st = Js_QueryLastUseTime R M' q st"
  using client_agrees(4) [OF assms]
  by (simp_all add: Idl_QueryLastUseTime_def Js_QueryLastUseTime_def)

lemma taihe_agrees:
  assumes "agree_for_apps M M'"
  shows "taihe_run R M call st = taihe_run R M' call st"
proof -
  note c = client_agrees [OF assms] and q = queries_agree [OF assms] and l = last_use_agrees [OF assms]
  have limits: "Taihe_QueryBundleEventsAsyncByLimit R M b e n = Taihe_QueryBundleEventsAsyncByLimit R M' b e n"
    "Taihe_QueryCurrentBundleEventsAsyncByLimit R M b e n = Taihe_QueryCurrentBundleEventsAsyncByLimit R M' b e n" for b e n
    unfolding Taihe_QueryBundleEventsAsyncByLimit_def Taihe_QueryCurrentBundleEventsAsyncByLimit_def
    by (rule guarded_cong; simp add: check_holds c)+
  have guards: "Taihe_SetAppGroupSync R M n g = Taihe_SetAppGroupSync R M' n g"
    "Taihe_QueryBundleStatsInfosAsync R M b e = Taihe_QueryBundleStatsInfosAsync R M' b e"
    "Taihe_QueryAppStatsInfosAsync R M b e = Taihe_QueryAppStatsInfosAsync R M' b e"
    "Taihe_QueryBundleStatsInfoByIntervalAsync R M i b e = Taihe_QueryBundleStatsInfoByIntervalAsync R M' i b e"
    "Taihe_QueryDeviceEventStatsAsync R M b e = Taihe_QueryDeviceEventStatsAsync R M' b e"
    "Taihe_QueryNotificationEventStatsAsync R M b e = Taihe_QueryNotificationEventStatsAsync R M' b e"
    "Taihe_QueryModuleUsageRecordsAsyncByMaxNum R M k = Taihe_QueryModuleUsageRecordsAsyncByMaxNum R M' k" for n g b e i k
    unfolding Taihe_SetAppGroupSync_def Taihe_QueryBundleStatsInfosAsync_def Taihe_QueryAppStatsInfosAsync_def
      Taihe_QueryBundleStatsInfoByIntervalAsync_def Taihe_QueryDeviceEventStatsAsync_def
      Taihe_QueryNotificationEventStatsAsync_def Taihe_QueryModuleUsageRecordsAsyncByMaxNum_def
    by (rule guarded_cong; simp add: check_holds c q)+
  show ?thesis
    by (cases call) (simp_all add: limits guards Taihe_IsIdleStateSync_def Taihe_QueryAppGroupSync_def
        Taihe_QueryAppGroupSyncByBundleName_def Taihe_QueryLastUseTimeAsync_def Taihe_QueryBundleEventsAsync_def
        Taihe_QueryCurrentBundleEventsAsync_def Taihe_QueryModuleUsageRecordsAsync_def c l)
qed

lemma js_agrees:
  assumes "agree_for_apps M M'" "valid_work work"
  shows "js_execute R M work st = js_execute R M' work st"
proof -
  note c = client_agrees [OF assms(1)] and q = queries_agree [OF assms(1)] and l = last_use_agrees [OF assms(1)]
  show ?thesis
    using assms(2) by (cases work) (simp_all add: c q l Js_QueryModuleUsageRecordsAsync_def Js_IsBundleIdleAsync_def
        Js_QueryCurrentBundleEventsAsync_def Js_QueryBundleEventsAsync_def Js_QueryBundleStatsInfoByIntervalAsync_def
        Js_QueryBundleStatsInfosAsync_def Js_QueryAppStatsInfosAsync_def Js_QueryLastUseTimeAsync_def
        Js_QueryDeviceEventStatsAsync_def Js_QueryNotificationEventStatsAsync_def Js_QueryAppGroupAsync_def Js_SetAppGroupAsync_def
        settable_groups_def)
qed

lemma sync_agrees:
  assumes "agree_for_apps M M'"
  shows "Js_IsIdleStateSync N R M given st = Js_IsIdleStateSync N R M' given st"
    "Js_QueryAppGroupSync N R M given st = Js_QueryAppGroupSync N R M' given st"
  by (simp_all add: Js_IsIdleStateSync_def Js_QueryAppGroupSync_def client_agrees [OF assms])

text \<open>C39: The bindings ask the service only for the user of the caller and only within the limits: two services
that agree on such requests cannot be told apart by any operation of Taihe, nor by any work that a call from
JavaScript queues, nor by the two calls that answer at once, whatever the arguments.\<close>

theorem apps_ask_for_themselves:
  assumes "agree_for_apps M M'" "(name, function) \<in> set UsageStatisticsInit" "function N args = Queued work callback"
  shows "taihe_run R M call st = taihe_run R M' call st \<and> js_execute R M work st = js_execute R M' work st \<and>
    Js_IsIdleStateSync N R M given st = Js_IsIdleStateSync N R M' given st \<and>
    Js_QueryAppGroupSync N R M given st = Js_QueryAppGroupSync N R M' given st"
proof -
  have "well_called N args (Queued work callback)"
    using calls_well_called [of N args] device_calls_well_called [of N args] idle_well_called [of args N] assms(2,3)
    by (cases "length args \<in> {1, 2}") (auto simp: UsageStatisticsInit_def)
  then have "valid_work work"
    by (simp add: well_called_def)
  then show ?thesis
    using taihe_agrees [OF assms(1)] js_agrees [OF assms(1)] sync_agrees [OF assms(1)] by blast
qed

text \<open>A service that sets the group for the user of the caller alone, against one that sets it for everyone.\<close>

definition own_user_only :: "unit remote" where
  "own_user_only = (demo_answers []) \<lparr> rm_SetAppGroup := (\<lambda>_ _ userId s. (if userId = - 1 then OK else 201, s)) \<rparr>"

theorem apps_ask_for_themselves_witness:
  "taihe_run \<lparr> rg_manager = True, rg_object = True, rg_cast = True, rg_alloc = True \<rparr> (demo_answers [])
     (TSetAppGroup ''app'' 20) (connected, ()) =
   taihe_run \<lparr> rg_manager = True, rg_object = True, rg_cast = True, rg_alloc = True \<rparr> own_user_only
     (TSetAppGroup ''app'' 20) (connected, ()) \<and>
   rm_SetAppGroup (demo_answers []) ''app'' 20 100 () \<noteq> rm_SetAppGroup own_user_only ''app'' 20 100 ()"
proof -
  have "agree_for_apps (demo_answers []) own_user_only"
    unfolding agree_for_apps_def own_user_only_def by (simp add: demo_answers_def)
  moreover have "(''setAppGroup'', Js_SetAppGroup) \<in> set UsageStatisticsInit"
    by (simp add: UsageStatisticsInit_def)
  moreover have "rm_SetAppGroup (demo_answers []) ''app'' 20 100 () \<noteq> rm_SetAppGroup own_user_only ''app'' 20 100 ()"
    by (simp add: own_user_only_def demo_answers_def)
  ultimately show ?thesis
    using apps_ask_for_themselves [of "demo_answers []" own_user_only "''setAppGroup''" Js_SetAppGroup demo_napi
        "[DString ''app'', DNumber 20, DFunction]"] demo_set_group by blast
qed

end
