(* ===== verification/EventStory.thy ===== *)
theory EventStory
  imports AppRequests
begin

text \<open>From a report to an answer: what becomes of one event on its way from the report queue through the core,
the user service and the log of the day, and back through a query, the service, the client library and a binding.\<close>

section \<open>Into the log\<close>

lemma GetOrCreate_keeps:
  assumes "GetOrCreateUsageStats bn uid pu = (st, p, um)"
  shows "pd_events p = pd_events (fst pu) \<and> pd_beginTime p = pd_beginTime (fst pu) \<and> pd_endTime p = pd_endTime (fst pu)"
  using assms by (auto simp: GetOrCreateUsageStats_def Let_def case_prod_beta split: option.splits)

lemma PeriodStats_Update_keeps:
  "pd_events (fst (PeriodStats_Update bn tn t i a uid pu)) = pd_events (fst pu)"
  "pd_beginTime (fst (PeriodStats_Update bn tn t i a uid pu)) = pd_beginTime (fst pu)"
  "pd_endTime (fst (PeriodStats_Update bn tn t i a uid pu)) = max (pd_endTime (fst pu)) t"
  by (auto simp: PeriodStats_Update_def Let_def dest: GetOrCreate_keeps split: prod.splits)

lemma update_period_keeps:
  "pd_events (fst (update_period_stats ev b pu)) = pd_events (fst pu)"
  "pd_beginTime (fst (update_period_stats ev b pu)) = pd_beginTime (fst pu)"
  "pd_endTime (fst pu) \<le> pd_endTime (fst (update_period_stats ev b pu))"
  using PeriodStats_Update_keeps
  by (auto simp: update_period_stats_def UpdateScreenInteractive_def UpdateScreenNonInteractive_def
      UpdateKeyguardShown_def UpdateKeyguardHidden_def Let_def case_prod_beta split: option.splits)

lemma AddEvent_keeps:
  "pd_events (PeriodStats_AddEvent e p) = EventList_Insert e (pd_events p)"
  "pd_beginTime (PeriodStats_AddEvent e p) = pd_beginTime p"
  "pd_endTime (PeriodStats_AddEvent e p) = max (pd_endTime p) (ev_timeStamp e)"
  using PeriodStats_AddEvent_effect [of e p] by auto

lemma ReportModuleEvent_keeps:
  "us_period (ReportModuleEvent ev s) i = us_period s i" "us_dailyExpiryDate (ReportModuleEvent ev s) = us_dailyExpiryDate s"
  by (simp_all add: ReportModuleEvent_def GetOrCreateModuleRecord_def Let_def us_period_def NotifyStatsChanged_def
      split: option.splits)

lemma attached_period [simp]: "us_period (s \<lparr> us_uids := um \<rparr>) i = us_period s i"
  by (simp add: us_period_def)

text \<open>Before the end of the day an event is put in its place of the log of the day, and the day covers its time.\<close>

lemma report_logs:
  assumes "ev_timeStamp ev < GetMilliseconds (us_dailyExpiryDate s)" "us_period s 0 = Some p"
    "ev_eventId ev \<notin> {SYSTEM_INTERACTIVE, FLUSH}"
  shows "\<exists>p'. us_period (UserService_ReportEvent D z ev s) 0 = Some p' \<and>
    pd_events p' = EventList_Insert ev (pd_events p) \<and> pd_beginTime p' = pd_beginTime p \<and> ev_timeStamp ev \<le> pd_endTime p'"
proof -
  let ?s2 = "on_period 0 (\<lambda>(p, um). (PeriodStats_AddEvent ev p, um)) s"
  let ?launch = "ev_eventId ev = ABILITY_FOREGROUND \<and> ev_bundleName ev \<noteq> '''' \<and> ev_bundleName ev \<noteq> us_lastForegroundBundle s"
  let ?s3 = "if ?launch then ?s2 \<lparr> us_lastForegroundBundle := ev_bundleName ev \<rparr> else ?s2"
  have r: "UserService_ReportEvent D z ev s = NotifyStatsChanged (each_period (update_period_stats ev ?launch) ?s3)"
    using assms by (simp add: UserService_ReportEvent_def UpdatePeriodStats_def Let_def not_le [symmetric])
  have "us_period ?s3 0 = us_period ?s2 0"
    by simp
  then have p3: "us_period ?s3 0 = Some (PeriodStats_AddEvent ev p)"
    using assms(2) by (simp only: on_period_at) simp
  obtain um where "us_period (each_period (update_period_stats ev ?launch) ?s3) 0 =
      map_option (\<lambda>p. fst (update_period_stats ev ?launch (p, um))) (us_period ?s3 0)"
    using each_period_at by blast
  then have "us_period (UserService_ReportEvent D z ev s) 0 =
      Some (fst (update_period_stats ev ?launch (PeriodStats_AddEvent ev p, um)))"
    by (simp only: r p3 NotifyStatsChanged_fields option.map)
  moreover have "ev_timeStamp ev \<le> pd_endTime (fst (update_period_stats ev ?launch (PeriodStats_AddEvent ev p, um)))"
    using update_period_keeps(3) [of "(PeriodStats_AddEvent ev p, um)" ev ?launch] by (simp add: AddEvent_keeps)
  ultimately show ?thesis
    by (simp add: update_period_keeps AddEvent_keeps)
qed

section \<open>Through the core\<close>

lemma on_service_own:
  assumes "om_find (co_userStatServices c) u = Some s"
  shows "om_find (co_userStatServices (on_service E u f c)) u =
    Some (f (s \<lparr> us_uids := co_uids c, us_database := ce_attach E (co_world c) (us_database s) \<rparr>) \<lparr> us_notices := [] \<rparr>)"
  using assms by (simp add: on_service_def with_service_def Let_def answer_notices_services)

lemma report_reaches_log:
  assumes "om_find (co_userStatServices c) u = Some s" "us_period s 0 = Some p" "u \<noteq> 0" "u \<noteq> - 1"
    and "\<not> fst (IsLauncherApp (ce_bundleMgr E) (ev_bundleName ev) u (co_launchers c))"
    and "ce_systemTime E \<noteq> - 1" "ce_bootTime E \<noteq> - 1" "\<not> time_failed (ce_systemTime E)"
      "clock_drift E c < TIME_CHANGE_THRESHOLD_MILLIS"
    and "ev_eventId ev \<notin> {SYSTEM_INTERACTIVE, FLUSH, FORM_IS_CLICKED, FORM_IS_REMOVED,
      SYSTEM_LOCK, SYSTEM_UNLOCK, SYSTEM_SLEEP, SYSTEM_WAKEUP}"
    and "ev_timeStamp (logged_event E c u ev) < GetMilliseconds (us_dailyExpiryDate s)"
  shows "\<exists>s' p'. om_find (co_userStatServices (snd (Core_ReportEvent E ev u c))) u = Some s' \<and> us_period s' 0 = Some p' \<and>
    pd_events p' = EventList_Insert (logged_event E c u ev) (pd_events p) \<and> pd_beginTime p' = pd_beginTime p \<and>
    ev_timeStamp (logged_event E c u ev) \<le> pd_endTime p'"
proof -
  define ev1 where "ev1 = logged_event E c u ev"
  have sys: "ObtainSystemEventName ev = ev"
    using assms(10) by (simp add: ObtainSystemEventName_def)
  have id: "ev_eventId ev1 = ev_eventId ev"
    by (simp add: ev1_def)
  let ?f = "\<lambda>s. UserService_ReportEvent (ce_usage E) (ce_zone E) ev1 (ReportModuleEvent ev1 s)"
  obtain c2 where "snd (Core_ReportEvent E ev u c) =
      on_groups E (GroupController_ReportEvent (ce_group E) ev1 (ce_bootTime E) u) (on_service E u ?f c2)"
    and t: "co_userStatServices c2 = co_userStatServices c"
    using report_runs [of c u s E ev, OF assms(1,3,4) _ assms(6-9)] assms(5,10) sys by (auto simp: ev1_def)
  then have own: "om_find (co_userStatServices (snd (Core_ReportEvent E ev u c))) u =
      Some (?f (s \<lparr> us_uids := co_uids c2, us_database := ce_attach E (co_world c2) (us_database s) \<rparr>) \<lparr> us_notices := [] \<rparr>)"
    using on_service_own [of c2 u s E ?f] assms(1) t by simp
  let ?s = "ReportModuleEvent ev1 (s \<lparr> us_uids := co_uids c2, us_database := ce_attach E (co_world c2) (us_database s) \<rparr>)"
  have "us_period ?s 0 = Some p" "us_dailyExpiryDate ?s = us_dailyExpiryDate s"
    using assms(2) by (simp_all add: ReportModuleEvent_keeps)
  then obtain p' where "us_period (UserService_ReportEvent (ce_usage E) (ce_zone E) ev1 ?s) 0 = Some p'"
    "pd_events p' = EventList_Insert ev1 (pd_events p)" "pd_beginTime p' = pd_beginTime p" "ev_timeStamp ev1 \<le> pd_endTime p'"
    using report_logs [of ev1 ?s p] assms(10,11) id by (auto simp: ev1_def)
  then show ?thesis
    unfolding own by (simp add: ev1_def)
qed

lemma shots_stay [simp]:
  "co_systemTimeShot (on_service E u f c) = co_systemTimeShot c" "co_realTimeShot (on_service E u f c) = co_realTimeShot c"
  "co_systemTimeShot (on_groups E k c) = co_systemTimeShot c" "co_realTimeShot (on_groups E k c) = co_realTimeShot c"
  "co_systemTimeShot (on_report j c) = co_systemTimeShot c" "co_realTimeShot (on_report j c) = co_realTimeShot c"
  by (rule core_restD(1,2) [OF on_service_rest] core_restD(1,2) [OF on_groups_rest(1)] core_restD(1,2) [OF on_report_rest])+

lemma report_keeps_shots:
  assumes "ce_systemTime E \<noteq> - 1" "ce_bootTime E \<noteq> - 1" "clock_drift E c \<le> TWO_SECONDS"
  shows "co_systemTimeShot (snd (Core_ReportEvent E ev u c)) = co_systemTimeShot c \<and>
    co_realTimeShot (snd (Core_ReportEvent E ev u c)) = co_realTimeShot c"
proof -
  have "CheckTimeChangeAndGetWallTime E u c' = (ce_systemTime E, c')"
    if "co_systemTimeShot c' = co_systemTimeShot c" "co_realTimeShot c' = co_realTimeShot c" for c'
    using CheckTime_quiet [OF assms(1,2), of c' u] assms(3) that by (simp add: clock_drift_def)
  then show ?thesis
    by (simp add: Core_ReportEvent_def Let_def case_prod_beta GetUserDataAndInitializeIfNeeded_def split: option.splits)
qed

section \<open>Back through a query\<close>

lemma query_ends_with:
  assumes "us_period s 0 = Some p" "pd_events p = l @ [ev]" "ev_sorted (pd_events p)" "ev_timeStamp ev \<le> pd_endTime p"
    "pd_beginTime p < e" "0 \<le> b" "b < ev_timeStamp ev" "ev_timeStamp ev \<le> e" "ev_bundleName ev = bn"
  shows "\<exists>es. fst (UserService_QueryBundleEvents D b e u bn s) = Inr (es @ [ev])"
  using assms drop_first_at_filter [OF assms(3), of b]
  by (auto simp: UserService_QueryBundleEvents_def Let_def case_prod_beta map_idI)

lemma DeleteOutOfLimit_last:
  assumes "0 < n"
  shows "\<exists>es'. DeleteOutOfLimitEvents (es @ [x]) n = es' @ [x]"
  using assms by (auto simp: DeleteOutOfLimitEvents_def)

lemma current_events_end_with:
  assumes "om_find (co_userStatServices c) u = Some s" "us_period s 0 = Some p" "pd_events p = l @ [ev]"
    "ev_sorted (pd_events p)" "ev_timeStamp ev \<le> pd_endTime p" "pd_beginTime p < e" "0 \<le> b" "b < ev_timeStamp ev"
    "ev_timeStamp ev \<le> e" "b \<le> ce_systemTime (se_core S)"
    and "ce_systemTime (se_core S) \<noteq> - 1" "ce_bootTime (se_core S) \<noteq> - 1" "\<not> time_failed (ce_systemTime (se_core S))"
      "clock_drift (se_core S) c < TIME_CHANGE_THRESHOLD_MILLIS"
    and "se_account S (ca_uid ca) = (OK, u)" "u \<noteq> - 1" "se_name S (ca_uid ca) = ev_bundleName ev" "ev_bundleName ev \<noteq> ''''"
      "ca_systemApp ca" "1 \<le> n" "n \<le> 1000"
  shows "\<exists>es c'. Service_QueryCurrentBundleEvents S ca b e n c = ((OK, es @ [ev]), c')"
proof -
  obtain c1 where t: "CheckTimeChangeAndGetWallTime (se_core S) u c = (ce_systemTime (se_core S), c1)"
    "co_userStatServices c1 = co_userStatServices c"
    using CheckTime_quiet [OF assms(11,12,14), of u] by simp
  let ?s = "s \<lparr> us_uids := co_uids c1, us_database := ce_attach (se_core S) (co_world c1) (us_database s) \<rparr>"
  have "us_period ?s 0 = Some p"
    using assms(2) by simp
  then obtain es where "fst (UserService_QueryBundleEvents (ce_usage (se_core S)) b e u (ev_bundleName ev) ?s) = Inr (es @ [ev])"
    using query_ends_with [OF _ assms(3-9) refl] by blast
  then have "fst (Core_QueryBundleEvents (se_core S) u b e (ev_bundleName ev) c) = Inr (es @ [ev])"
    unfolding Core_QueryBundleEvents_def using assms(1,8-10,13) t
    by (subst with_query_present [OF t(1)]) (auto simp: refuse_span_def)
  then obtain c' where q: "Core_QueryBundleEvents (se_core S) u b e (ev_bundleName ev) c = (Inr (es @ [ev]), c')"
    by (metis prod.collapse)
  obtain es' where "DeleteOutOfLimitEvents (es @ [ev]) (nat n) = es' @ [ev]"
    using DeleteOutOfLimit_last [of "nat n" es ev] assms(20) by auto
  then show ?thesis
    using assms(15-21) q by (simp add: Service_QueryCurrentBundleEvents_def with_user_def GetUserId_def core_answer_def)
qed

section \<open>Properties\<close>

text \<open>The clocks answer, and they have not been set since the time shots were taken.\<close>

definition clock_unset :: "('d, 'w, 'g, 'q) core_env \<Rightarrow> ('d, 'w, 'g, 'q) core \<Rightarrow> bool" where
  "clock_unset E c \<longleftrightarrow> ce_systemTime E \<noteq> - 1 \<and> ce_bootTime E \<noteq> - 1 \<and> \<not> time_failed (ce_systemTime E) \<and>
     clock_drift E c < TIME_CHANGE_THRESHOLD_MILLIS"

text \<open>C2: What an application does can be read back by it. The task that handles the report of an event of an
application, which is neither a launcher nor being uninstalled, is run before the end of the day, and the event is
not older than those logged. Then the application, a system application, asks through the binding for at most \<open>n\<close> of
its own events in a span that holds the time of the event, at a moment when the clock has not been set in between.
It is answered without an error, and the last event of the answer is the one reported, under the time of the wall
clock. No assumption is made on the database, on the uids, on the groups or on the other users.\<close>

theorem reported_event_is_answered:
  assumes "handler_ready c" "om_find (co_userStatServices c) u = Some s" "us_period s 0 = Some p" "ev_sorted (pd_events p)"
      "pd_events p = [] \<or> ev_timeStamp (last (pd_events p)) \<le> t"
    and "ro_event obj = ev" "ro_userId obj = u" "u \<noteq> 0" "u \<noteq> - 1" "\<not> isUninstalledApp (ev_uid ev) c"
      "\<not> fst (IsLauncherApp (ce_bundleMgr E) (ev_bundleName ev) u (co_launchers c))"
      "ev_eventId ev \<notin> {SYSTEM_INTERACTIVE, FLUSH, FORM_IS_CLICKED, FORM_IS_REMOVED,
        SYSTEM_LOCK, SYSTEM_UNLOCK, SYSTEM_SLEEP, SYSTEM_WAKEUP}"
    and "clock_unset E c" "t = ev_timeStamp (logged_event E c u ev)" "t < GetMilliseconds (us_dailyExpiryDate s)"
    and "c' = run_core_task E (ReportTask MSG_REPORT_EVENT (Some obj)) c"
    and "clock_unset (se_core S) c'" "se_account S (ca_uid ca) = (OK, u)" "se_name S (ca_uid ca) = ev_bundleName ev" "ev_bundleName ev \<noteq> ''''"
      "ca_systemApp ca" "cl_proxy cl"
    and "0 \<le> b" "b < t" "t \<le> e" "pd_beginTime p < e" "b \<le> ce_systemTime (se_core S)" "1 \<le> n" "n \<le> 1000"
  shows "\<exists>es st. Taihe_QueryCurrentBundleEventsAsyncByLimit R (service_remote S ca) b e n (cl, c') = ((es, None), st) \<and>
    es \<noteq> [] \<and> last es = ParseBundleEvents (ev \<lparr> ev_timeStamp := t \<rparr>)"
proof -
  let ?ev = "logged_event E c u ev"
  obtain h where h: "GetBundleReportHandler c = Some h" "th_isInited h"
    using assms(1) by (auto simp: handler_ready_def)
  then have "c' = on_report (Handler_finish MSG_REPORT_EVENT) (snd (Core_ReportEvent E ev u c))"
    using assms(6,7,10,16)
    by (auto simp: ReportHandler_ProcessEvent_def ProcessReportEvent_def ReportObj_copy_def GetBundleReportHandler_def
        Let_def split: if_splits option.splits)
  then obtain s' p' where s': "om_find (co_userStatServices c') u = Some s'" "us_period s' 0 = Some p'"
    "pd_events p' = EventList_Insert ?ev (pd_events p)" "pd_beginTime p' = pd_beginTime p" "ev_timeStamp ?ev \<le> pd_endTime p'"
    using report_reaches_log [OF assms(2,3,8,9,11) _ _ _ _ assms(12) assms(15) [unfolded assms(14)]] assms(13)
    by (auto simp: clock_unset_def)
  have l: "pd_events p' = pd_events p @ [?ev]"
    using assms(4,5,14) s'(3) EventList_Insert_position by simp
  have sorted: "ev_sorted (pd_events p')"
    using assms(4) s'(3) by simp
  have "\<exists>es c2. Service_QueryCurrentBundleEvents S ca b e n c' = ((OK, es @ [?ev]), c2)"
    by (rule current_events_end_with [OF s'(1,2) l sorted s'(5)]) (use assms(9,14,17-29) s'(4) in \<open>simp_all add: clock_unset_def\<close>)
  then obtain es c2 where "Service_QueryCurrentBundleEvents S ca b e n c' = ((OK, es @ [?ev]), c2)"
    by blast
  moreover have "ParseBundleEvents ?ev = ParseBundleEvents (ev \<lparr> ev_timeStamp := t \<rparr>)"
    using assms(14) by (simp add: ParseBundleEvents_def)
  ultimately show ?thesis
    using assms(22-25,28,29)
    by (simp add: Taihe_QueryCurrentBundleEventsAsyncByLimit_def guarded_def CheckBeginTimeAndEndTime_def CheckEventMaxNum_def
        answered_def Client_QueryCurrentBundleEvents_def via_proxy_def GetBundleActiveProxy_def service_remote_def)
qed

definition story_core :: "(unit, unit, nat \<times> (nat \<times> group_task \<times> int) list, nat \<times> (nat \<times> core_task \<times> int) list) core" where
  "story_core = flush_demo \<lparr> co_userStatServices := [(100, idle_service \<lparr> us_dailyExpiryDate := Calendar_new 9000000 \<rparr>)] \<rparr>"

definition story_report :: report_obj where
  "story_report = ReportObj_new 100 '''' \<lparr> ro_event := Event_bundle ABILITY_FOREGROUND ''app'' 7 \<rparr>"

definition story_registry :: registry where
  "story_registry = \<lparr> rg_manager = True, rg_object = True, rg_cast = True, rg_alloc = True \<rparr>"

theorem reported_event_is_answered_witness:
  "\<exists>es st. Taihe_QueryCurrentBundleEventsAsyncByLimit story_registry (service_remote demo_service_env demo_caller) 0 5000000 5
      (Client_new \<lparr> cl_proxy := True \<rparr>, run_core_task demo_env (ReportTask MSG_REPORT_EVENT (Some story_report)) story_core) =
      ((es, None), st) \<and>
    last es = \<lparr> be_bundleName = Some ''app'', be_eventId = Some ABILITY_FOREGROUND, be_eventOccurredTime = Some 4999200 \<rparr>"
proof -
  let ?ev = "Event_bundle ABILITY_FOREGROUND ''app'' 7" and ?s = "idle_service \<lparr> us_dailyExpiryDate := Calendar_new 9000000 \<rparr>"
  let ?c' = "run_core_task demo_env (ReportTask MSG_REPORT_EVENT (Some story_report)) story_core"
  have shots: "co_systemTimeShot story_core = 4999200" "co_realTimeShot story_core = 100"
    by (simp_all add: story_core_def flush_demo_def demo_core_def ReportController_Init_def Core_new_def)
  have ready: "handler_ready story_core"
    by (simp add: handler_ready_def story_core_def flush_demo_def demo_core_def ReportController_Init_def Core_new_def
        ReportHandler_Init_def ReportHandler_new_def GetBundleReportHandler_def)
  have drift: "clock_drift demo_env story_core = 0"
    by (simp add: clock_drift_def shots demo_core_facts)
  have t: "ev_timeStamp (logged_event demo_env story_core 100 ?ev) = 4999200"
    using CheckTime_quiet [of demo_env story_core 100] drift
    by (simp add: logged_event_def ConvertToSystemTimeLocked_def demo_core_facts shots Event_bundle_def)
  have "co_systemTimeShot ?c' = 4999200 \<and> co_realTimeShot ?c' = 100"
    using report_keeps_shots [of demo_env story_core ?ev 100] drift shots
    by (auto simp: ReportHandler_ProcessEvent_def ProcessReportEvent_def ReportObj_copy_def story_report_def ReportObj_new_def
        demo_core_facts Let_def split: option.splits)
  then have drift': "clock_drift demo_env ?c' = 0"
    by (simp add: clock_drift_def demo_core_facts del: run_core_task.simps)
  have launcher: "\<not> fst (IsLauncherApp (ce_bundleMgr demo_env) (ev_bundleName ?ev) 100 (co_launchers story_core))"
    by (simp add: demo_env_def story_core_def flush_demo_def demo_core_def ReportController_Init_def Core_new_def IsLauncherApp_def
        InitLauncherAppMap_def InitSystemEvent_def Event_bundle_def OPERATION_SYSTEM_LOCK_def
        OPERATION_SYSTEM_UNLOCK_def OPERATION_SYSTEM_SLEEP_def OPERATION_SYSTEM_WAKEUP_def)
  have s: "om_find (co_userStatServices story_core) 100 = Some ?s" "us_period ?s 0 = Some PeriodStats_default"
    by (simp_all add: story_core_def us_period_def idle_service_def UserService_new_def)
  have rest: "ro_event story_report = ?ev" "ro_userId story_report = 100" "\<not> isUninstalledApp (ev_uid ?ev) story_core"
    by (simp_all add: story_report_def ReportObj_new_def isUninstalledApp_def story_core_def flush_demo_def demo_core_def
        ReportController_Init_def Core_new_def)
  have ev: "ev_bundleName ?ev = ''app''" "ev_eventId ?ev = ABILITY_FOREGROUND"
    by (simp_all add: Event_bundle_def)
  have S: "se_core demo_service_env = demo_env" "se_account demo_service_env (ca_uid demo_caller) = (OK, 100)"
    "se_name demo_service_env (ca_uid demo_caller) = ev_bundleName ?ev" "ca_systemApp demo_caller"
    by (simp_all add: demo_service_env_def demo_caller_def Event_bundle_def)
  have "\<exists>es st. Taihe_QueryCurrentBundleEventsAsyncByLimit story_registry (service_remote demo_service_env demo_caller) 0 5000000 5
      (Client_new \<lparr> cl_proxy := True \<rparr>, ?c') = ((es, None), st) \<and> es \<noteq> [] \<and> last es = ParseBundleEvents (?ev \<lparr> ev_timeStamp := 4999200 \<rparr>)"
    by (rule reported_event_is_answered [OF ready s _ _ rest(1,2) _ _ rest(3) launcher])
      (simp_all add: S clock_unset_def drift drift' t ev demo_core_facts time_failed_def PeriodStats_default_def
        GetMilliseconds_def Calendar_new_def del: run_core_task.simps)
  then show ?thesis
    by (auto simp: ParseBundleEvents_def Event_bundle_def simp del: run_core_task.simps)
qed

end
