(* ===== verification/Spec2Isabelle.thy ===== *)
theory Spec2Isabelle
  imports ObserverReports CliChecks JsObserver JsFirst EventStory
begin

text \<open>The device usage statistics service of OpenHarmony: a verification development of the C++ code under src/.

\<^bold>\<open>The program.\<close> A system ability records how applications are used. Observers of abilities, windows and
continuous tasks turn what happens on the device into events. The service puts an event into the report queue;
the report handler hands it to the core; the core keeps one user service per user and the group controller. A
user service keeps the current day, week, month and year: the usage record of every bundle, the log of events
and the timers of the screen and the key guard, and the records of modules and cards. It saves them in the usage
database, one database file per kind of period with one table per period, and answers queries from the tables
and the memory together. The group controller keeps when every bundle was last used on two clocks (since the
boot, and with the screen on), moves it between the application groups by events and delayed checks, and tells
the core, which calls the registered observers. Clients reach the service through the client library: the
command line tool, and the applications, which use it through a binding: the one of Taihe (ArkTS compiled ahead),
that of the JavaScript engine, or the first interface of the latter, which is kept beside it. A binding checks the
arguments, asks the client library on a thread of its own, turns the records into the objects of its language,
sums those of a bundle or a clone, and hands the answer or an error to a callback or a promise; it also keeps the
observer an application has registered for its groups.

\<^bold>\<open>Theories and sources.\<close> Every definition bears the name of the function, class or field it models, prefixed
with its class where names clash.

\<^item> \<^theory_text>\<open>Prelude\<close>: ordered maps and sets for \<open>std::map\<close> and \<open>std::set\<close> (locale \<open>std_map\<close>), C++ integer
  conversions, decimal printing and \<open>strtol\<close>. \<^theory_text>\<open>Util\<close>: utils/src/bundle_active_util.cpp,
  bundle_active_calendar.cpp and bundle_active_log.cpp. \<^theory_text>\<open>DiskSpace\<close>: the two functions of
  bundle_active_util.cpp on the free space, with doubles, and the limit of a tenth. \<^theory_text>\<open>Errors\<close>: the codes of
  bundle_state_inner_errors.h. \<^theory_text>\<open>ParcelModel\<close>: the parcel of the IPC
  as a record of operations with its documented contract.
\<^item> \<^theory_text>\<open>Event\<close>, \<^theory_text>\<open>PackageStats\<close>, \<^theory_text>\<open>EventStats\<close>, \<^theory_text>\<open>ModuleRecord\<close>: the data of interfaces/innerkits
  (bundle_active_event.cpp, bundle_active_package_stats.cpp, bundle_active_event_stats.cpp,
  bundle_active_high_frequency_period.cpp, bundle_active_module_record.cpp, bundle_active_form_record.cpp).
\<^item> \<^theory_text>\<open>EventList\<close>: bundle_active_event_list.cpp and bundle_active_binary_search.cpp. \<^theory_text>\<open>UidRegistry\<close>:
  bundle_active_bundle_mgr_helper.cpp. \<^theory_text>\<open>PeriodStats\<close>: bundle_active_event_tracker.cpp,
  bundle_active_period_stats.cpp and bundle_active_stats_combiner.cpp. \<^theory_text>\<open>UserService\<close>:
  bundle_active_user_service.cpp.
\<^item> \<^theory_text>\<open>TaskHandler\<close>, \<^theory_text>\<open>UserHistory\<close>, \<^theory_text>\<open>GroupController\<close>: services/packagegroup (bundle_active_user_history.cpp,
  bundle_active_group_controller.cpp, bundle_active_group_handler.cpp) and app_group_callback_info.cpp.
\<^item> \<^theory_text>\<open>DatabaseTables\<close>, \<^theory_text>\<open>UsageDatabase\<close>, \<^theory_text>\<open>DatabaseUpgrade\<close>: bundle_active_usage_database.cpp and
  bundle_active_usage_database_upgrade.cpp: the life cycle of the tables, the rows, and the start.
\<^item> \<^theory_text>\<open>ConfigReader\<close>: bundle_active_config_reader.cpp. \<^theory_text>\<open>UsageHabits\<close>: the sessions and frequent hours of
  bundle_active_core.cpp. \<^theory_text>\<open>Core\<close>: the rest of it with bundle_active_report_handler.cpp,
  bundle_active_report_controller.cpp, bundle_active_event_reporter.cpp, bundle_active_debug_mode.cpp and the power
  and shutdown callbacks.
  \<^theory_text>\<open>CoreSteps\<close> and \<^theory_text>\<open>CoreUsers\<close>: the core as a state machine, and its theorems.
\<^item> \<^theory_text>\<open>Service\<close>, \<^theory_text>\<open>ServiceRights\<close>: bundle_active_service.cpp and bundle_active_account_helper.cpp.
  \<^theory_text>\<open>Observers\<close>, \<^theory_text>\<open>ObserverReports\<close>: bundle_active_app_state_obsever.cpp,
  bundle_active_continuous_task_observer.cpp, bundle_active_window_visibility_manager.cpp,
  bundle_active_visibility_changed_listener.cpp.
\<^item> \<^theory_text>\<open>Client\<close>, \<^theory_text>\<open>ClientRecovery\<close>: innerkits/src/bundle_active_client.cpp. \<^theory_text>\<open>CliText\<close>, \<^theory_text>\<open>Cli\<close>, \<^theory_text>\<open>CliChecks\<close>:
  tools/ohos-usageStatsQuery/src/main.cpp.
\<^item> \<^theory_text>\<open>AppErrors\<close>: the tables of messages of bundle_state_inner_errors.h, bundle_state_idl_err_code.cpp and
  bundle_state_common.cpp. \<^theory_text>\<open>AppAnswers\<close>: how the two bindings sum records per bundle and per clone
  (bundle_state_idl_common.cpp, bundle_state_common.cpp). \<^theory_text>\<open>Taihe\<close>: the functions of
  ohos.resourceschedule.usageStatistics.impl.cpp and the types of its idl.
\<^item> \<^theory_text>\<open>JsArgs\<close>, \<^theory_text>\<open>JsBinding\<close>, \<^theory_text>\<open>JsChecks\<close>: the arguments, the calls and works, and the answers of
  bundle_state_query_napi.cpp, bundle_active_app_group_napi.cpp, bundle_state_common.cpp and
  usage_statistics_init.cpp. \<^theory_text>\<open>JsObserver\<close>: the registered observer of bundle_active_app_group_napi.cpp and
  app_group_observer_napi.cpp. \<^theory_text>\<open>JsFirst\<close>: bundle_state_query.cpp and bundle_state_init.cpp.
\<^item> \<^theory_text>\<open>AppRequests\<close>: what the bindings can ask of the service. \<^theory_text>\<open>EventStory\<close>: one event from the report queue to
  the answer of a binding, through all the components between.

\<^bold>\<open>State and operations.\<close> A class is a record with its fields; an operation takes and answers the record, and
its answer is an \<^theory_text>\<open>errcode + 'a\<close> or, at the entry points of the service, the error number with the value of
the out-parameter. What several objects of the process share through singletons (the registry of uids, the
launcher cache, the group controller, the report handler) is part of the record of the core and is handed to
the operations that use it. All user services have a database object of their own over the same files; the
files are put under the object before an operation and taken back afterwards.

Code that is not under src/ is given by records of operations or by environments: the relational store and the
file system, the queues of the ffrt runtime, the clocks and the time zone, the account manager, the bundle
manager, the access tokens, the JSON library, the sorting function of the standard library, the generated IPC
proxy, and the JavaScript engine with its values. What is relied on of them stands as a hypothesis or as the assumptions of a locale.

\<^bold>\<open>Interfaces.\<close> \<open>std_map\<close> (an ordered map), \<open>uid_registry\<close>, \<open>event_log\<close> (a log ordered by time with a search),
\<open>usage_store\<close> (what the user service relies on of its database), \<open>package_store\<close> and \<open>usage_rows\<close> (what the
database relies on of the store; by a sublocale every such database is a \<open>usage_store\<close>), \<open>falling_sorter\<close>
(sorting downwards), \<open>observer_service\<close> (what a client relies on of the service), \<open>clone_join\<close> (what the summing
of records relies on of joining two of them) and \<open>group_service\<close> (what the observer of a binding relies on of the
client library). Each is interpreted: on the
model's own definitions, or, where the provider is a library, on a reference implementation of it.

\<^bold>\<open>What is proved.\<close> The lemmas come in groups, component by component.

\<^item> Accounting: the totals of a usage record equal an abstract account of the time in front; the screen timers
  partition the elapsed time; the log stays ordered and complete; all operations of a period and of a user
  service keep their invariants, also when the service runs on the database model.
\<^item> Storage: what is saved is what is loaded, and nothing else is touched; queries read exactly the tables whose
  span they meet; a start drops exactly the tables of the future; statements fit their arguments.
\<^item> Groups: the effect of use, of delayed checks, of settings and of uninstallation on the records; at most one
  delayed check per key is live.
\<^item> The core: an event reaches the service of its user only; a change leaves a flush pending; after an
  uninstallation events of the application are ignored, and the task that ends this is pending in every reachable
  state (an inductive step relation over the pool of the runtime); making room ends; the start returns.
\<^item> The edges: callers without the right are refused and change nothing; records are merged by sums, whatever
  their order; answers are bounded; visibility is reported exactly once per change; a client's observer survives
  the death of the service (a step relation of the client beside a dying service); the tool sends only valid
  requests and gives one answer.
\<^item> The disk: a flush writes while more than a tenth of the storage is free and changes nothing otherwise, up to one
  part in \<open>2 ^ 50\<close> of the limit, since both sides are rounded doubles; the rounding itself is proved monotone, and exact on
  the integers below \<open>2 ^ 53\<close>.
\<^item> The bindings: the answers about bundles and clones are the sums of the records of the service; every call is
  checked, and queues one work within the limits or throws the documented error; the observer of a binding and that
  of the service agree once the works have settled, in whatever order they ran (a step relation); an application
  can ask only for itself.
\<^item> All together: an event that is reported for an application is the last of the answer to its own query
  (\<^theory_text>\<open>EventStory\<close>).

Theorems that state a defect of the code, rather than a promise, are lemmas at the end of their sections; their
texts say what the code does.

\<^bold>\<open>Bounds and termination.\<close> The binary searches recurse on the width of their interval, the deletion of days
stops after at most seven rounds, the help of the tool calls itself at most once: functions with their
termination proofs. The wait for a clock in \<open>Init\<close> and the wait for a service in \<open>OnServiceDiedInner\<close> may run for
ever: partial functions into \<open>option\<close>, with theorems that they return as soon as what they wait for is there.
No fuel is used.

Integers are \<open>int\<close> where the code stays in range (time stamps in milliseconds, counters) and are converted with
the wrap-around written out, or are words, where it narrows or multiplies.

\<^bold>\<open>Approximations.\<close> Calls back from an operation (a user service telling the core of a change, the group history
telling of a change of group) are collected and answered after the operation. The clocks and the environment
stand still during one operation. Mutexes are not modelled: an operation runs from its start to its end. A task
of the runtime runs between operations, in any order that the step relations allow. An \<open>unordered_map\<close> is
visited by name. A double is the rational number it stands for, rounded to 53 bits after every operation, the nearest
even number among two; infinities and the range of the exponent are left out, since all values lie far inside it.
What is made of the engine while an exception is pending is taken as made, and the references that keep its values
alive are left out. Logging and tracing are left out. A null pointer that the code dereferences untested stays as it
is or stands for the empty value, which the texts say where it occurs.

\<^bold>\<open>Not modelled.\<close> The callbacks of the store (bundle_active_open_callback.cpp), which answer success and log; the
function that registers the generated functions of Taihe (ani_constructor.cpp); the constructors of the classes of
the enumerations for JavaScript, whose constants are modelled; the print functions, which only log; and what lies
outside src/: the code generated from the two idl files and the libraries named above.\<close>

end
